(* ===== verification/Npu_Prelude.thy ===== *)
theory Npu_Prelude
  imports Complex_Main "HOL-Library.Word" "HOL-Library.Signed_Division"
begin

unbundle bit_operations_syntax

text \<open>
  Shared vocabulary of the development: the C++ machine types, the exceptions the code throws, the
  conversions between signed and unsigned integers, and the arithmetic lemmas every component uses.

  \<^item> \<open>unsigned int\<close>, \<open>uint32_t\<close> are \<open>u32\<close> (32-bit words: \<open>+\<close>, \<open>-\<close>, \<open>*\<close> wrap around as in C++).
  \<^item> \<open>int\<close>, \<open>long\<close>, \<open>long long\<close> are HOL's \<open>int\<close>: a signed overflow is undefined behaviour in C++, so the
    model gives the mathematical value and says nothing about executions that overflow. Division and
    remainder of signed values truncate towards zero (\<open>sdiv\<close>, \<open>smod\<close>), as in C++.
  \<^item> \<open>static_cast<int>(u)\<close> is \<open>to_int u\<close> (two's complement), \<open>static_cast<unsigned>(i)\<close> is \<open>to_u32 i\<close>.
  \<^item> an unsigned division by zero is undefined behaviour in C++; a property whose code divides has the
    divisor's positivity among its hypotheses.
  \<^item> a function that can throw returns \<open>'a result\<close>, with \<open>Inl\<close> for the exception. Where the code would read a dangling
    iterator or an empty container, the value is \<open>Inl (undefined_behaviour \<dots>)\<close>, so that a property which
    gives an \<open>Inr\<close> also excludes it.
\<close>

section \<open>Machine types and exceptions\<close>

type_synonym u8 = "8 word"
type_synonym u32 = "32 word"
type_synonym u64 = "64 word"

datatype cpp_exception =
    runtime_error string
  | out_of_range string
  | invalid_argument string
  | logic_error string
  | undefined_behaviour string

type_synonym 'a result = "cpp_exception + 'a"

abbreviation to_int :: "u32 \<Rightarrow> int" where
  "to_int u \<equiv> sint u"

abbreviation to_u32 :: "int \<Rightarrow> u32" where
  "to_u32 i \<equiv> word_of_int i"

abbreviation u64_of :: "u32 \<Rightarrow> u64" where
  "u64_of u \<equiv> ucast u"

definition bind_result :: "'a result \<Rightarrow> ('a \<Rightarrow> 'b result) \<Rightarrow> 'b result" where
  "bind_result r f = (case r of Inl e \<Rightarrow> Inl e | Inr x \<Rightarrow> f x)"

lemma bind_result_simps [simp]: "bind_result (Inl e) f = Inl e" "bind_result (Inr x) f = f x"
  by (simp_all add: bind_result_def)

lemma bind_result_Inr_iff: "bind_result r f = Inr y \<longleftrightarrow> (\<exists>x. r = Inr x \<and> f x = Inr y)"
  by (cases r) auto

section \<open>Collections of simplification rules\<close>

named_theorems u32_nowrap \<open>rules that read a word operation as a natural number when nothing wraps\<close>
named_theorems split_simps \<open>rules for the list of slices a dimension is cut into\<close>

section \<open>Decimal texts\<close>

fun nat_to_string :: "nat \<Rightarrow> string" where
  "nat_to_string n =
     (if n < 10 then [char_of (48 + n)] else nat_to_string (n div 10) @ [char_of (48 + n mod 10)])"

declare nat_to_string.simps [simp del]

definition to_string :: "int \<Rightarrow> string" where
  "to_string i = (if i < 0 then ''-'' @ nat_to_string (nat (- i)) else nat_to_string (nat i))"

section \<open>Natural number and list facts\<close>

lemma ceil_div_le_iff:
  fixes a b c :: nat
  assumes "0 < b"
  shows "(a + b - 1) div b \<le> c \<longleftrightarrow> a \<le> c * b"
proof -
  have "(a + b - 1) div b \<le> c \<longleftrightarrow> a + b - 1 < Suc c * b"
    using assms by (metis div_less_iff_less_mult less_Suc_eq_le)
  also have "\<dots> \<longleftrightarrow> a \<le> c * b"
    using assms by auto
  finally show ?thesis .
qed

lemma ceil_div_mult_ge:
  fixes a b :: nat
  assumes "0 < b"
  shows "a \<le> (a + b - 1) div b * b"
  using ceil_div_le_iff [OF assms, of a "(a + b - 1) div b"] by simp

lemma ceil_div_mult_less:
  fixes a b :: nat
  assumes "0 < b"
  shows "(a + b - 1) div b * b < a + b"
proof -
  have "(a + b - 1) div b * b \<le> a + b - 1" by simp
  then show ?thesis using assms by linarith
qed

lemma ceil_div_pos:
  fixes a b :: nat
  assumes "0 < b" "0 < a"
  shows "0 < (a + b - 1) div b"
  using assms by (simp add: div_greater_zero_iff)

lemma sum_list_eq_0_replicate:
  "sum_list (replicate n (0::nat)) = 0"
  by (induction n) auto

lemma sdiv_nonneg: "0 \<le> a \<Longrightarrow> 0 < b \<Longrightarrow> a sdiv b = a div (b :: int)"
  by (cases "a = 0") (simp_all add: signed_divide_int_def)

lemma int_ceil_div:
  fixes n k :: int
  assumes "0 < k"
  shows "(n + k - 1) div k = (if n mod k = 0 then n div k else n div k + 1)"
proof -
  have "(n + k - 1) div k = (n mod k + k - 1 + n div k * k) div k"
    by (simp add: algebra_simps)
  also have "\<dots> = n div k + (n mod k + k - 1) div k"
    using assms by (intro div_mult_self1) simp
  also have "(n mod k + k - 1) div k = (if n mod k = 0 then 0 else 1)"
  proof (cases "n mod k = 0")
    case True then show ?thesis using assms by simp
  next
    case False
    then have "0 \<le> n mod k - 1" "n mod k - 1 < k"
      using assms pos_mod_sign [of k n] pos_mod_bound [of k n] by linarith+
    then have "(n mod k - 1 + k) div k = 1" using assms by simp
    then show ?thesis using False by (simp add: algebra_simps)
  qed
  finally show ?thesis by simp
qed
lemma smod_nonneg: "0 \<le> a \<Longrightarrow> 0 < b \<Longrightarrow> a smod b = a mod (b :: int)"
  by (cases "a = 0") (simp_all add: signed_modulo_int_def sdiv_nonneg )

lemma int_ceil_mult:
  fixes n k :: int
  assumes "0 < k"
  shows "n \<le> (n + k - 1) div k * k" "(n + k - 1) div k * k < n + k"
proof -
  have "(n + k - 1) div k * k = n + k - 1 - (n + k - 1) mod k" by (simp add: minus_mod_eq_div_mult)
  then show "n \<le> (n + k - 1) div k * k" "(n + k - 1) div k * k < n + k"
    using pos_mod_sign [OF assms, of "n + k - 1"] pos_mod_bound [OF assms, of "n + k - 1"] by linarith+
qed

section \<open>Words read as natural numbers\<close>

lemma power_2_32: "(2 :: nat) ^ 32 = 4294967296"
  by simp

lemma unat_u32_less [simp]: "unat (u :: u32) < 4294967296"
  using unsigned_less [of u, where 'a=nat] by simp

lemma unat_u32_le [simp]: "unat (u :: u32) \<le> 4294967295"
  using unat_u32_less [of u] by linarith

lemma unat_add_nowrap [u32_nowrap]:
  "unat a + unat b < 4294967296 \<Longrightarrow> unat (a + b :: u32) = unat a + unat b"
  by (simp add: unat_word_ariths)

lemma unat_diff_nowrap [u32_nowrap]:
  "unat b \<le> unat a \<Longrightarrow> unat (a - b :: u32) = unat a - unat b"
  by (simp add: unat_sub word_le_nat_alt)

lemma unat_mult_nowrap [u32_nowrap]:
  "unat a * unat b < 4294967296 \<Longrightarrow> unat (a * b :: u32) = unat a * unat b"
  by (simp add: unat_word_ariths)

lemma unat_div_u32 [u32_nowrap]: "unat (a div b :: u32) = unat a div unat b"
  by (rule unat_div)

lemma unat_gt0 [u32_nowrap]: "0 < unat (a :: u32) \<longleftrightarrow> a \<noteq> 0"
  by (simp add: unat_gt_0)

lemma to_int_small: "unat (u :: u32) < 2147483648 \<Longrightarrow> to_int u = int (unat u)"
proof -
  assume h: "unat u < 2147483648"
  have u: "uint u = int (unat u)" by simp
  have "uint u < 2147483648"
    using h u by linarith
  then have lt: "uint u < 2 ^ 31" by simp
  have "sint u = signed_take_bit 31 (uint u)" by (simp add: sint_uint)
  also have "\<dots> = uint u"
    by (rule signed_take_bit_int_eq_self) (use lt uint_ge_0 [of u] in linarith, rule lt)
  finally show ?thesis unfolding u .
qed

lemma unat_to_u32: "0 \<le> i \<Longrightarrow> i < 4294967296 \<Longrightarrow> unat (to_u32 i) = nat i"
  by (simp add: unat_eq_nat_uint uint_word_of_int)

lemma unat_word_of_nat [u32_nowrap]: "n < 4294967296 \<Longrightarrow> unat (word_of_nat n :: u32) = n"
  by (simp add: unsigned_of_nat take_bit_nat_eq_self)

lemma to_u32_int_unat [simp]: "to_u32 (int (unat (u :: u32))) = u"
  by simp

end
