(* ===== verification/Cycles.thy ===== *)
theory Cycles
  imports Npu_Prelude
begin

text \<open>
  The cost type of the library, \<^verbatim>\<open>include/vpu/cycles_interface_types.h\<close>: a 32-bit cycle count whose top
  1000 values are error codes. The theory holds the codes, the test for them, their texts, the
  overflow-protected addition \<open>cost_adder\<close>, the conversions into the type and the rescaling by a ratio,
  and shows that no operation of it turns a valid cost into an error code by wrapping around.
\<close>

section \<open>Cycle values and error codes\<close>

type_synonym CyclesInterfaceType = u32

definition MaxV :: CyclesInterfaceType where
  "MaxV = 4294967295"

definition NO_ERROR :: CyclesInterfaceType where
  "NO_ERROR = 0"

definition ERROR_INPUT_TOO_BIG :: CyclesInterfaceType where
  "ERROR_INPUT_TOO_BIG = MaxV - 0"

definition ERROR_INVALID_INPUT_CONFIGURATION :: CyclesInterfaceType where
  "ERROR_INVALID_INPUT_CONFIGURATION = MaxV - 1"

definition ERROR_INVALID_INPUT_DEVICE :: CyclesInterfaceType where
  "ERROR_INVALID_INPUT_DEVICE = MaxV - 2"

definition ERROR_INVALID_INPUT_OPERATION :: CyclesInterfaceType where
  "ERROR_INVALID_INPUT_OPERATION = MaxV - 3"

definition ERROR_INVALID_OUTPUT_RANGE :: CyclesInterfaceType where
  "ERROR_INVALID_OUTPUT_RANGE = MaxV - 4"

definition ERROR_TILE_OUTPUT :: CyclesInterfaceType where
  "ERROR_TILE_OUTPUT = MaxV - 5"

definition ERROR_TILE_SPLIT_ZERO_CYC_OUTPUT :: CyclesInterfaceType where
  "ERROR_TILE_SPLIT_ZERO_CYC_OUTPUT = MaxV - 6"

definition ERROR_TILE_SPLIT_EXCEPTION :: CyclesInterfaceType where
  "ERROR_TILE_SPLIT_EXCEPTION = MaxV - 7"

definition ERROR_INVALID_LAYER_CONFIGURATION :: CyclesInterfaceType where
  "ERROR_INVALID_LAYER_CONFIGURATION = MaxV - 8"

definition ERROR_CUMULATED_CYCLES_TOO_LARGE :: CyclesInterfaceType where
  "ERROR_CUMULATED_CYCLES_TOO_LARGE = MaxV - 9"

definition ERROR_INVALID_CONVERSION_TO_CYCLES :: CyclesInterfaceType where
  "ERROR_INVALID_CONVERSION_TO_CYCLES = MaxV - 10"

definition ERROR_SHAVE :: CyclesInterfaceType where
  "ERROR_SHAVE = MaxV - 11"

definition ERROR_INFERENCE_NOT_POSSIBLE :: CyclesInterfaceType where
  "ERROR_INFERENCE_NOT_POSSIBLE = MaxV - 12"

definition ERROR_SHAVE_PARAMS :: CyclesInterfaceType where
  "ERROR_SHAVE_PARAMS = MaxV - 13"

definition ERROR_SHAVE_LAYOUT :: CyclesInterfaceType where
  "ERROR_SHAVE_LAYOUT = MaxV - 14"

definition ERROR_SHAVE_INVALID_INPUT :: CyclesInterfaceType where
  "ERROR_SHAVE_INVALID_INPUT = MaxV - 15"

definition ERROR_L2_INVALID_PARAMETERS :: CyclesInterfaceType where
  "ERROR_L2_INVALID_PARAMETERS = MaxV - 16"

definition ERROR_PROFILING_SERVICE :: CyclesInterfaceType where
  "ERROR_PROFILING_SERVICE = MaxV - 17"

definition ERROR_CACHE_MISS :: CyclesInterfaceType where
  "ERROR_CACHE_MISS = MaxV - 18"

definition ERROR_SHAVE_OPERATOR_MISSING :: CyclesInterfaceType where
  "ERROR_SHAVE_OPERATOR_MISSING = MaxV - 19"

definition ERROR_NO_VALID_DMA_COST_PROVIDER :: CyclesInterfaceType where
  "ERROR_NO_VALID_DMA_COST_PROVIDER = MaxV - 20"

definition ERROR_SHAVE_PREFETCH_NOT_FOUND :: CyclesInterfaceType where
  "ERROR_SHAVE_PREFETCH_NOT_FOUND = MaxV - 21"

definition ERROR_SHAVE_PREFETCH_DEVICE_NOT_COVERED :: CyclesInterfaceType where
  "ERROR_SHAVE_PREFETCH_DEVICE_NOT_COVERED = MaxV - 22"

definition START_ERROR_RANGE :: CyclesInterfaceType where
  "START_ERROR_RANGE = MaxV - 1000"

lemmas cycles_code_defs = MaxV_def NO_ERROR_def START_ERROR_RANGE_def
  ERROR_INPUT_TOO_BIG_def ERROR_INVALID_INPUT_CONFIGURATION_def
  ERROR_INVALID_INPUT_DEVICE_def ERROR_INVALID_INPUT_OPERATION_def
  ERROR_INVALID_OUTPUT_RANGE_def ERROR_TILE_OUTPUT_def
  ERROR_TILE_SPLIT_ZERO_CYC_OUTPUT_def ERROR_TILE_SPLIT_EXCEPTION_def
  ERROR_INVALID_LAYER_CONFIGURATION_def ERROR_CUMULATED_CYCLES_TOO_LARGE_def
  ERROR_INVALID_CONVERSION_TO_CYCLES_def ERROR_SHAVE_def
  ERROR_INFERENCE_NOT_POSSIBLE_def ERROR_SHAVE_PARAMS_def
  ERROR_SHAVE_LAYOUT_def ERROR_SHAVE_INVALID_INPUT_def
  ERROR_L2_INVALID_PARAMETERS_def ERROR_PROFILING_SERVICE_def
  ERROR_CACHE_MISS_def ERROR_SHAVE_OPERATOR_MISSING_def
  ERROR_NO_VALID_DMA_COST_PROVIDER_def ERROR_SHAVE_PREFETCH_NOT_FOUND_def
  ERROR_SHAVE_PREFETCH_DEVICE_NOT_COVERED_def

definition isErrorCode :: "CyclesInterfaceType \<Rightarrow> bool" where
  "isErrorCode v \<longleftrightarrow> START_ERROR_RANGE < v"

definition toErrorText :: "CyclesInterfaceType \<Rightarrow> string" where
  "toErrorText v =
     (if v = NO_ERROR then ''NO_ERROR''
      else if v = ERROR_INPUT_TOO_BIG then ''ERROR_INPUT_TOO_BIG''
      else if v = ERROR_INVALID_INPUT_CONFIGURATION then ''ERROR_INVALID_INPUT_CONFIGURATION''
      else if v = ERROR_INVALID_INPUT_DEVICE then ''ERROR_INVALID_INPUT_DEVICE''
      else if v = ERROR_INVALID_INPUT_OPERATION then ''ERROR_INVALID_INPUT_OPERATION''
      else if v = ERROR_INVALID_OUTPUT_RANGE then ''ERROR_INVALID_OUTPUT_RANGE''
      else if v = ERROR_TILE_OUTPUT then ''ERROR_TILE_OUTPUT''
      else if v = ERROR_TILE_SPLIT_ZERO_CYC_OUTPUT then ''ERROR_TILE_SPLIT_ZERO_CYC_OUTPUT''
      else if v = ERROR_TILE_SPLIT_EXCEPTION then ''ERROR_TILE_SPLIT_EXCEPTION''
      else if v = ERROR_INVALID_LAYER_CONFIGURATION then ''ERROR_INVALID_LAYER_CONFIGURATION''
      else if v = ERROR_CUMULATED_CYCLES_TOO_LARGE then ''ERROR_CUMULATED_CYCLES_TOO_LARGE''
      else if v = ERROR_INVALID_CONVERSION_TO_CYCLES then ''ERROR_INVALID_CONVERSION_TO_CYCLES''
      else if v = ERROR_SHAVE then ''ERROR_SHAVE''
      else if v = ERROR_INFERENCE_NOT_POSSIBLE then ''ERROR_INFERENCE_NOT_POSSIBLE''
      else if v = ERROR_SHAVE_PARAMS then ''ERROR_SHAVE_PARAMS''
      else if v = ERROR_SHAVE_LAYOUT then ''ERROR_SHAVE_LAYOUT''
      else if v = ERROR_SHAVE_INVALID_INPUT then ''ERROR_SHAVE_INVALID_INPUT''
      else if v = ERROR_L2_INVALID_PARAMETERS then ''ERROR_L2_INVALID_PARAMETERS''
      else if v = ERROR_PROFILING_SERVICE then ''ERROR_PROFILING_SERVICE''
      else if v = ERROR_CACHE_MISS then ''ERROR_CACHE_MISS''
      else if v = ERROR_SHAVE_OPERATOR_MISSING then ''ERROR_SHAVE_OPERATOR_MISSING''
      else if v = ERROR_NO_VALID_DMA_COST_PROVIDER then ''ERROR_NO_VALID_DMA_COST_PROVIDER''
      else if v = ERROR_SHAVE_PREFETCH_NOT_FOUND then ''ERROR_SHAVE_PREFETCH_NOT_FOUND''
      else if v = ERROR_SHAVE_PREFETCH_DEVICE_NOT_COVERED then ''ERROR_SHAVE_PREFETCH_DEVICE_NOT_COVERED''
      else ''UNKNOWN'')"

section \<open>Arithmetic on costs\<close>

definition cost_adder :: "CyclesInterfaceType \<Rightarrow> CyclesInterfaceType \<Rightarrow> CyclesInterfaceType" where
  "cost_adder lhs rhs =
     (if isErrorCode lhs then lhs
      else if isErrorCode rhs then rhs
      else if MaxV - lhs < rhs then ERROR_CUMULATED_CYCLES_TOO_LARGE
      else let result_cost = lhs + rhs in
        if isErrorCode result_cost then ERROR_CUMULATED_CYCLES_TOO_LARGE else result_cost)"

text \<open>
  \<open>toCycleInterfaceType\<close> is a template over the arithmetic type of its argument. For an integral type
  the argument is its value \<open>n\<close>: a negative one can only come from a signed type, and the comparison
  type is wide enough for every non-negative \<open>n\<close>. For a floating type the argument is the real number
  the float denotes, and \<open>limit\<close> is \<^verbatim>\<open>static_cast<T>(START_ERROR_RANGE)\<close>, the limit rounded to that type.
\<close>

definition toCycleInterfaceType_integral :: "int \<Rightarrow> CyclesInterfaceType" where
  "toCycleInterfaceType_integral n =
     (if n < 0 then ERROR_INVALID_CONVERSION_TO_CYCLES
      else if uint START_ERROR_RANGE < n then ERROR_INVALID_CONVERSION_TO_CYCLES
      else word_of_int n)"

definition toCycleInterfaceType_floating :: "real \<Rightarrow> real \<Rightarrow> CyclesInterfaceType" where
  "toCycleInterfaceType_floating limit x =
     (if x < 0 then ERROR_INVALID_CONVERSION_TO_CYCLES
      else if limit < x then ERROR_INVALID_CONVERSION_TO_CYCLES
      else word_of_int \<lceil>x\<rceil>)"

definition toCycleInterfaceType_same :: "CyclesInterfaceType \<Rightarrow> CyclesInterfaceType" where
  "toCycleInterfaceType_same conversion_number = conversion_number"

definition LLONG_MAX :: int where
  "LLONG_MAX = 2 ^ 63 - 1"

definition multiply_by_ratio :: "CyclesInterfaceType \<Rightarrow> int \<Rightarrow> int \<Rightarrow> CyclesInterfaceType" where
  "multiply_by_ratio cycles numerator denominator =
     (if isErrorCode cycles then cycles
      else if numerator \<le> 0 \<or> denominator \<le> 0 then ERROR_INVALID_CONVERSION_TO_CYCLES
      else let cycles_ll = uint cycles in
        if LLONG_MAX sdiv numerator < cycles_ll then ERROR_INVALID_CONVERSION_TO_CYCLES
        else toCycleInterfaceType_integral (cycles_ll * numerator sdiv denominator))"

section \<open>Properties\<close>

lemma isErrorCode_unat: "isErrorCode v \<longleftrightarrow> 4294966295 < unat v"
  by (simp add: isErrorCode_def cycles_code_defs word_less_nat_alt)

lemma not_isErrorCode_unat: "\<not> isErrorCode v \<longleftrightarrow> unat v \<le> 4294966295"
  by (auto simp: isErrorCode_unat)

lemma error_codes_are_errors [simp]:
  "isErrorCode ERROR_CUMULATED_CYCLES_TOO_LARGE"
  "isErrorCode ERROR_INVALID_CONVERSION_TO_CYCLES"
  "isErrorCode ERROR_INPUT_TOO_BIG"
  "isErrorCode ERROR_TILE_OUTPUT"
  "\<not> isErrorCode NO_ERROR"
  by (simp_all add: isErrorCode_unat cycles_code_defs)

text \<open>Reading \<open>cost_adder\<close> on natural numbers: the sum saturates to one error code.\<close>

lemma cost_adder_valid:
  assumes "\<not> isErrorCode a" "\<not> isErrorCode b"
  shows "cost_adder a b =
    (if unat a + unat b \<le> 4294966295 then a + b else ERROR_CUMULATED_CYCLES_TOO_LARGE)"
proof -
  have overflow: "MaxV - a < b \<longleftrightarrow> 4294967295 < unat a + unat b"
  proof -
    have "unat (MaxV - a) = 4294967295 - unat a"
      by (simp add: MaxV_def unat_diff_nowrap)
    then show ?thesis using unat_u32_le [of a] unfolding word_less_nat_alt by linarith
  qed
  show ?thesis
  proof (cases "unat a + unat b \<le> 4294967295")
    case True
    then have "unat (a + b) = unat a + unat b" by (simp add: unat_add_nowrap)
    with True assms overflow show ?thesis
      by (auto simp: cost_adder_def Let_def isErrorCode_unat)
  next
    case False
    with assms overflow show ?thesis by (simp add: cost_adder_def)
  qed
qed

lemma unat_cost_adder:
  assumes "unat a + unat b \<le> 4294966295"
  shows "unat (cost_adder a b) = unat a + unat b" "\<not> isErrorCode (cost_adder a b)"
proof -
  have ab: "\<not> isErrorCode a" "\<not> isErrorCode b"
    using assms by (auto simp: isErrorCode_unat)
  have "unat (a + b) = unat a + unat b" using assms by (simp add: unat_add_nowrap)
  then show "unat (cost_adder a b) = unat a + unat b" "\<not> isErrorCode (cost_adder a b)"
    using assms by (simp_all add: cost_adder_valid [OF ab] isErrorCode_unat)
qed

lemma isErrorCode_cost_adder:
  "isErrorCode (cost_adder a b) \<longleftrightarrow>
     isErrorCode a \<or> isErrorCode b \<or> 4294966295 < unat a + unat b"
proof (cases "isErrorCode a \<or> isErrorCode b")
  case True
  then show ?thesis by (auto simp: cost_adder_def)
next
  case False
  then have ab: "\<not> isErrorCode a" "\<not> isErrorCode b" by auto
  show ?thesis
    using ab unat_cost_adder(2) [of a b] by (auto simp: cost_adder_valid [OF ab])
qed

lemma cost_adder_error_left [simp]: "isErrorCode a \<Longrightarrow> cost_adder a b = a"
  by (simp add: cost_adder_def)

lemma cost_adder_zero [simp]: "cost_adder 0 b = b" "cost_adder a 0 = a"
proof -
  show "cost_adder 0 b = b"
    using cost_adder_valid [of 0 b] by (cases "isErrorCode b") (auto simp: cost_adder_def isErrorCode_unat)
  show "cost_adder a 0 = a"
    using cost_adder_valid [of a 0] by (cases "isErrorCode a") (auto simp: isErrorCode_unat)
qed

text \<open>
  C1. \<open>cost_adder\<close> on any two cycle values: the first error among the operands is kept; otherwise the
  result is the exact sum when that is still below the error range and the code
  \<open>ERROR_CUMULATED_CYCLES_TOO_LARGE\<close> when it is not, also when the 32-bit sum would have wrapped around.
\<close>

theorem cost_adder_spec:
  "cost_adder a b =
     (if isErrorCode a then a
      else if isErrorCode b then b
      else if unat a + unat b \<le> unat START_ERROR_RANGE then word_of_nat (unat a + unat b)
      else ERROR_CUMULATED_CYCLES_TOO_LARGE)"
  using cost_adder_valid [of a b]
  by (auto simp: cost_adder_def cycles_code_defs)

text \<open>
  Adding costs is associative and commutative as long as no operand is an error, so the total of a
  list of valid costs does not depend on the order or grouping in which the code accumulates it.
\<close>

theorem cost_adder_assoc_comm:
  assumes "\<not> isErrorCode a" "\<not> isErrorCode b" "\<not> isErrorCode c"
  shows "cost_adder (cost_adder a b) c = cost_adder a (cost_adder b c)
    \<and> cost_adder a b = cost_adder b a"
proof
  note ab = cost_adder_valid [OF assms(1,2)] and bc = cost_adder_valid [OF assms(2,3)]
  consider "unat a + unat b + unat c \<le> 4294966295" | "4294966295 < unat a + unat b + unat c"
    by linarith
  then show "cost_adder (cost_adder a b) c = cost_adder a (cost_adder b c)"
  proof cases
    case 1
    then have "unat (cost_adder (cost_adder a b) c) = unat (cost_adder a (cost_adder b c))"
      by (simp add: unat_cost_adder)
    then show ?thesis by (simp add: word_unat_eq_iff)
  next
    case 2
    have l: "cost_adder (cost_adder a b) c = ERROR_CUMULATED_CYCLES_TOO_LARGE"
    proof (cases "unat a + unat b \<le> 4294966295")
      case True
      then show ?thesis
        using 2 unat_cost_adder [of a b] cost_adder_valid [of "cost_adder a b" c] assms by simp
    next
      case False
      then show ?thesis by (simp add: ab)
    qed
    have r: "cost_adder a (cost_adder b c) = ERROR_CUMULATED_CYCLES_TOO_LARGE"
    proof (cases "unat b + unat c \<le> 4294966295")
      case True
      then show ?thesis
        using 2 unat_cost_adder [of b c] cost_adder_valid [of a "cost_adder b c"] assms by simp
    next
      case False
      then show ?thesis using assms by (simp add: bc) (simp add: cost_adder_def)
    qed
    from l r show ?thesis by simp
  qed
  show "cost_adder a b = cost_adder b a"
    using assms by (simp add: cost_adder_valid add.commute)
qed

theorem cost_adder_assoc_comm_witness:
  "cost_adder (cost_adder 4294966000 200) 100 = cost_adder 4294966000 (cost_adder 200 100)
    \<and> cost_adder 4294966000 200 = cost_adder 200 4294966000"
  by (rule cost_adder_assoc_comm) (simp_all add: isErrorCode_unat)

text \<open>
  The rescaling of a cost by a ratio is exact integer arithmetic or an error: for a valid cost and
  a positive ratio whose product fits in 64 bits the result is the truncated quotient when that is a
  valid cost, and \<open>ERROR_INVALID_CONVERSION_TO_CYCLES\<close> when it lies in the error range.
\<close>

theorem multiply_by_ratio_exact:
  assumes "\<not> isErrorCode c" "0 < n" "0 < d" "uint c * n \<le> LLONG_MAX"
  shows "multiply_by_ratio c n d =
    (if uint c * n div d \<le> uint START_ERROR_RANGE then word_of_int (uint c * n div d)
     else ERROR_INVALID_CONVERSION_TO_CYCLES)"
proof -
  have nn: "0 \<le> uint c * n" using assms(2) by simp
  have q: "uint c * n sdiv d = uint c * n div d"
    using nn assms(3) by (rule sdiv_nonneg)
  have m: "LLONG_MAX sdiv n = LLONG_MAX div n"
    using assms(2) by (simp add: sdiv_nonneg LLONG_MAX_def)
  have "uint c \<le> LLONG_MAX div n"
    using assms(2,4) by (metis div_mult_self_is_m less_imp_neq zdiv_mono1 nonzero_mult_div_cancel_right)
  moreover have "0 \<le> uint c * n div d"
    using nn assms(3) by (simp add: pos_imp_zdiv_nonneg_iff)
  ultimately show ?thesis
    using assms by (simp add: multiply_by_ratio_def Let_def q m toCycleInterfaceType_integral_def)
qed

theorem multiply_by_ratio_exact_witness:
  "multiply_by_ratio 1001 3 2 =
    (if uint (1001 :: u32) * 3 div 2 \<le> uint START_ERROR_RANGE then word_of_int (uint (1001 :: u32) * 3 div 2)
     else ERROR_INVALID_CONVERSION_TO_CYCLES)"
  by (rule multiply_by_ratio_exact) (simp_all add: isErrorCode_unat LLONG_MAX_def)

end
