(* ===== verification/Enum_Text.thy ===== *)
theory Enum_Text
  imports Npu_Prelude
begin

text \<open>
  The machinery that \<^verbatim>\<open>include/vpu/dpu_types.h\<close> puts around every enumeration: the map from enumerators
  to texts, its inverse, and the parser of \<^verbatim>\<open>operator>>\<close>.

  A C++ enumeration is a datatype with the source's constructors, \<open>enum_size\<close> standing for the closing
  \<open>__size\<close>; \<open>E_enum\<close> lists the constructors in declaration order, so that \<open>static_cast<int>\<close> is the position
  in it. The contract between an enumeration and its text map is the locale \<open>enum_text\<close>, which the
  theories that declare enumerations interpret for each of them.
\<close>

section \<open>Enumerations and their texts\<close>

text \<open>
  \<open>EnumMap\<close> is a \<open>std::map\<close> from the integer of an enumerator to its text: the list of its pairs in key
  order. \<open>EnumInverseMap\<close> is the map the loop of \<open>createInverseMap\<close> builds with \<open>emplace\<close>, which keeps the
  first value of a key.
\<close>

type_synonym EnumMap = "(int \<times> string) list"
type_synonym EnumInverseMap = "string \<rightharpoonup> int"

fun enum_position :: "'e list \<Rightarrow> 'e \<Rightarrow> int" where
  "enum_position [] e = 0"
| "enum_position (x # xs) e = (if x = e then 0 else 1 + enum_position xs e)"

definition enum_cast :: "'e list \<Rightarrow> int \<Rightarrow> 'e option" where
  "enum_cast vals i = (if 0 \<le> i \<and> i < int (length vals) then Some (vals ! nat i) else None)"

definition link :: "'e list \<Rightarrow> 'e \<Rightarrow> string \<Rightarrow> int \<times> string" where
  "link vals enum_val name = (enum_position vals enum_val, name)"

definition createInverseMap :: "EnumMap \<Rightarrow> EnumInverseMap" where
  "createInverseMap direct_map =
     fold (\<lambda>elem m. if m (snd elem) = None then m(snd elem \<mapsto> fst elem) else m) direct_map Map.empty"

text \<open>
  \<open>getline_tokens d s\<close> is what the loop \<^verbatim>\<open>while (std::getline(ss, token, d))\<close> collects from a string
  stream: no token after a final delimiter, none from the empty stream.
\<close>

function getline_tokens :: "char \<Rightarrow> string \<Rightarrow> string list" where
  "getline_tokens d [] = []"
| "getline_tokens d (c # s) =
     takeWhile (\<lambda>x. x \<noteq> d) (c # s) # getline_tokens d (drop 1 (dropWhile (\<lambda>x. x \<noteq> d) (c # s)))"
  by pat_completeness auto
termination
  by (relation "measure (\<lambda>(d, s). length s)") (auto simp: less_Suc_eq_le intro: le_trans [OF diff_le_self] length_dropWhile_le)

text \<open>
  \<^verbatim>\<open>operator>>(std::istream&, E&)\<close>: one line is read, the text after the last dot is looked up, a text
  that is not in the map makes \<open>std::map::at\<close> throw. An empty line leaves the variable as it was.
\<close>

definition read_line :: "string \<Rightarrow> string" where
  "read_line input = takeWhile (\<lambda>c. c \<noteq> CHR 0x0A) input"

definition read_enum :: "'e list \<Rightarrow> EnumMap \<Rightarrow> 'e \<Rightarrow> string \<Rightarrow> 'e result" where
  "read_enum vals to_text dt input =
     (let tokens = getline_tokens CHR ''.'' (read_line input) in
      if tokens = [] then Inr dt
      else case createInverseMap to_text (last tokens) of
          None \<Rightarrow> Inl (out_of_range ''map::at'')
        | Some i \<Rightarrow> (case enum_cast vals i of None \<Rightarrow> Inl (logic_error ''unnamed enumerator'') | Some e \<Rightarrow> Inr e))"

definition enum_text_of :: "'e list \<Rightarrow> EnumMap \<Rightarrow> 'e \<Rightarrow> string option" where
  "enum_text_of vals to_text e = map_of to_text (enum_position vals e)"

section \<open>Lemmas on tokens, casts and inverse maps\<close>

lemma getline_tokens_plain:
  assumes "s \<noteq> []" "d \<notin> set s"
  shows "getline_tokens d s = [s]"
proof -
  obtain c u where s: "s = c # u" using assms(1) by (cases s) auto
  have "takeWhile (\<lambda>x. x \<noteq> d) s = s" "dropWhile (\<lambda>x. x \<noteq> d) s = []"
    using assms(2) by (auto simp: takeWhile_eq_all_conv dropWhile_eq_Nil_conv)
  then show ?thesis unfolding s by simp
qed

lemma getline_tokens_step:
  assumes "d \<notin> set p"
  shows "getline_tokens d (p @ d # r) = p # getline_tokens d r"
proof -
  have "getline_tokens d (p @ d # r) =
      takeWhile (\<lambda>x. x \<noteq> d) (p @ d # r) # getline_tokens d (drop 1 (dropWhile (\<lambda>x. x \<noteq> d) (p @ d # r)))"
    by (cases p) simp_all
  moreover have "takeWhile (\<lambda>x. x \<noteq> d) (p @ d # r) = p \<and> dropWhile (\<lambda>x. x \<noteq> d) (p @ d # r) = d # r"
    using assms by (induction p) auto
  ultimately show ?thesis by simp
qed

lemma last_getline_tokens:
  assumes "t \<noteq> []" "d \<notin> set t"
  shows "getline_tokens d (p @ d # t) \<noteq> [] \<and> last (getline_tokens d (p @ d # t)) = t"
proof (induction "length p" arbitrary: p rule: less_induct)
  case less
  show ?case
  proof (cases "d \<in> set p")
    case False
    then show ?thesis using assms by (simp add: getline_tokens_step getline_tokens_plain)
  next
    case True
    then obtain a b where p: "p = a @ d # b" "d \<notin> set a" by (meson split_list_first)
    have "length b < length p" using p(1) by simp
    from less [OF this] show ?thesis
      using getline_tokens_step [OF p(2), of "b @ d # t"] by (simp add: p(1))
  qed
qed

lemma read_line_plain: "CHR 0x0A \<notin> set s \<Longrightarrow> read_line s = s"
  by (auto simp: read_line_def takeWhile_eq_all_conv)

lemma fold_emplace:
  "fold (\<lambda>elem m. if m (snd elem) = None then m(snd elem \<mapsto> fst elem) else m) xs m t =
     (case m t of Some i \<Rightarrow> Some i | None \<Rightarrow> map_of (map prod.swap xs) t)"
  by (induction xs arbitrary: m) (auto split: option.splits)

lemma createInverseMap_map_of: "createInverseMap xs t = map_of (map prod.swap xs) t"
  by (simp add: createInverseMap_def fold_emplace)

lemma enum_position_bounds:
  "0 \<le> enum_position vals e" "e \<in> set vals \<Longrightarrow> enum_position vals e < int (length vals)"
  by (induction vals) auto

lemma enum_position_nth:
  "e \<in> set vals \<Longrightarrow> vals ! nat (enum_position vals e) = e"
  by (induction vals) (auto simp: nat_add_distrib enum_position_bounds(1))

lemma enum_cast_position: "e \<in> set vals \<Longrightarrow> enum_cast vals (enum_position vals e) = Some e"
  by (simp add: enum_cast_def enum_position_bounds enum_position_nth)

lemma enum_position_nth_distinct:
  "distinct vals \<Longrightarrow> i < length vals \<Longrightarrow> enum_position vals (vals ! i) = int i"
  by (induction vals arbitrary: i) (auto simp: nth_Cons split: nat.splits)

section \<open>The contract of an enumeration and its text map\<close>

text \<open>
  \<open>text_round_trip\<close> says of an enumeration that every enumerator before \<open>__size\<close> has a text, and that the
  parser gives the enumerator back from the text alone and from \<^verbatim>\<open>EnumName.text\<close>, whatever the variable
  held before.
\<close>

definition text_round_trip :: "'e list \<Rightarrow> EnumMap \<Rightarrow> string \<Rightarrow> bool" where
  "text_round_trip vals to_text name \<longleftrightarrow>
     (\<forall>e \<in> set (butlast vals). \<exists>t. enum_text_of vals to_text e = Some t \<and>
        (\<forall>dt. read_enum vals to_text dt t = Inr e \<and>
              read_enum vals to_text dt (name @ ''.'' @ t) = Inr e))"

locale enum_text =
  fixes vals :: "'e list" and to_text :: EnumMap and name :: string
  assumes vals_distinct: "distinct vals"
    and keys_in_order: "map fst to_text = map int [0..<length vals - 1]"
    and texts_distinct: "distinct (map snd to_text)"
    and texts_plain: "list_all (\<lambda>t. t \<noteq> [] \<and> CHR ''.'' \<notin> set t \<and> CHR 0x0A \<notin> set t) (map snd to_text)"
    and name_plain: "CHR 0x0A \<notin> set name"
begin

lemma has_text:
  assumes "e \<in> set (butlast vals)"
  shows "\<exists>t. enum_text_of vals to_text e = Some t"
proof -
  from assms obtain i where i: "i < length vals - 1" "e = vals ! i"
    by (metis in_set_conv_nth length_butlast nth_butlast)
  then have "enum_position vals e = int i"
    using enum_position_nth_distinct [OF vals_distinct, of i] by simp
  moreover have "int i \<in> fst ` set to_text"
    using i(1) keys_in_order by (metis atLeastLessThan_iff imageI le0 list.set_map set_upt)
  ultimately show ?thesis
    unfolding enum_text_of_def by (metis map_of_eq_None_iff not_Some_eq)
qed

lemma text_is_key:
  assumes "enum_text_of vals to_text e = Some t"
  shows "createInverseMap to_text t = Some (enum_position vals e)"
    "t \<noteq> []" "CHR ''.'' \<notin> set t" "CHR 0x0A \<notin> set t"
proof -
  have m: "(enum_position vals e, t) \<in> set to_text"
    using assms unfolding enum_text_of_def by (rule map_of_SomeD)
  have "distinct (map fst (map prod.swap to_text))"
    using texts_distinct by (simp add: comp_def)
  then show "createInverseMap to_text t = Some (enum_position vals e)"
    using m unfolding createInverseMap_map_of by (intro map_of_is_SomeI) (auto intro!: rev_image_eqI)
  show "t \<noteq> []" "CHR ''.'' \<notin> set t" "CHR 0x0A \<notin> set t"
    using texts_plain m by (auto simp: list_all_iff)
qed

lemma read_text:
  assumes "e \<in> set vals" "enum_text_of vals to_text e = Some t"
  shows "read_enum vals to_text dt t = Inr e"
    and "read_enum vals to_text dt (name @ ''.'' @ t) = Inr e"
proof -
  note t = text_is_key [OF assms(2)]
  show "read_enum vals to_text dt t = Inr e"
    using t assms(1)
    by (simp add: read_enum_def read_line_plain getline_tokens_plain enum_cast_position)
  have "read_line (name @ ''.'' @ t) = name @ CHR ''.'' # t"
    using t(4) name_plain read_line_plain [of "name @ ''.'' @ t"] by simp
  then show "read_enum vals to_text dt (name @ ''.'' @ t) = Inr e"
    using t last_getline_tokens [OF t(2,3), of name] assms(1)
    by (simp add: read_enum_def enum_cast_position)
qed

lemma round_trip: "text_round_trip vals to_text name"
proof -
  have "\<exists>t. enum_text_of vals to_text e = Some t \<and>
      (\<forall>dt. read_enum vals to_text dt t = Inr e \<and> read_enum vals to_text dt (name @ ''.'' @ t) = Inr e)"
    if e: "e \<in> set (butlast vals)" for e
    using has_text [OF e] read_text [OF in_set_butlastD [OF e]] by blast
  then show ?thesis by (auto simp: text_round_trip_def)
qed

text \<open>What the parser accepts is a text of the map: it never produces \<open>__size\<close> and throws on the rest.\<close>

lemma read_named:
  assumes "read_enum vals to_text dt input = Inr e" "getline_tokens CHR ''.'' (read_line input) \<noteq> []"
  shows "e \<in> set (butlast vals)"
proof -
  obtain i where i: "createInverseMap to_text (last (getline_tokens CHR ''.'' (read_line input))) = Some i"
    "enum_cast vals i = Some e"
    using assms by (auto simp: read_enum_def Let_def split: option.splits if_splits)
  have "i \<in> set (map fst to_text)"
    using map_of_SomeD [OF i(1) [unfolded createInverseMap_map_of]] by force
  then obtain n where n: "i = int n" "n < length vals - 1"
    unfolding keys_in_order by auto
  then have "e = butlast vals ! n"
    using i(2) by (simp add: enum_cast_def nth_butlast split: if_splits)
  then show ?thesis using n(2) by simp
qed

lemma read_unknown:
  assumes "t \<noteq> []" "CHR ''.'' \<notin> set t" "CHR 0x0A \<notin> set t" "t \<notin> snd ` set to_text"
  shows "read_enum vals to_text dt (name @ ''.'' @ t) = Inl (out_of_range ''map::at'')"
proof -
  have "map_of (map prod.swap to_text) t = None"
    using assms(4) by (auto simp: map_of_eq_None_iff image_iff)
  moreover have "read_line (name @ ''.'' @ t) = name @ CHR ''.'' # t"
    using assms(3) name_plain read_line_plain [of "name @ ''.'' @ t"] by simp
  ultimately show ?thesis
    using last_getline_tokens [OF assms(1,2), of name]
    by (simp add: read_enum_def createInverseMap_map_of)
qed

end

end
