(* ===== verification/Dpu_Types.thy ===== *)
theory Dpu_Types
  imports Enum_Text
begin

text \<open>
  The enumerations of \<^verbatim>\<open>include/vpu/dpu_types.h\<close> with their text maps, the dimension labels of
  \<^verbatim>\<open>dim_enum.h\<close> and the layout and grid tables of \<^verbatim>\<open>dpu_types_info.h\<close>. Every enumeration satisfies the
  contract \<open>enum_text\<close>, and the devices carry the order of their enumerators.
\<close>

section \<open>Enumerations\<close>

datatype VPUDevice =
    VPU_2_0 | VPU_2_1 | VPU_2_7 | VPU_4_0 | NPU_5_0 | NPU_5_0_W | NPU_RESERVED | NPU_RESERVED_1 |
    enum_size

definition VPUDevice_enum :: "VPUDevice list" where
  "VPUDevice_enum =
     [VPUDevice.VPU_2_0, VPUDevice.VPU_2_1, VPUDevice.VPU_2_7, VPUDevice.VPU_4_0,
     VPUDevice.NPU_5_0, VPUDevice.NPU_5_0_W, VPUDevice.NPU_RESERVED, VPUDevice.NPU_RESERVED_1,
     VPUDevice.enum_size]"

definition VPUDevice_ToText :: EnumMap where
  "VPUDevice_ToText =
     [link VPUDevice_enum VPUDevice.VPU_2_0 ''VPU_2_0'',
     link VPUDevice_enum VPUDevice.VPU_2_1 ''VPU_2_1'',
     link VPUDevice_enum VPUDevice.VPU_2_7 ''VPU_2_7'',
     link VPUDevice_enum VPUDevice.VPU_4_0 ''VPU_4_0'',
     link VPUDevice_enum VPUDevice.NPU_5_0 ''NPU_5_0'',
     link VPUDevice_enum VPUDevice.NPU_5_0_W ''NPU_5_0_W'',
     link VPUDevice_enum VPUDevice.NPU_RESERVED ''NPU_RESERVED'',
     link VPUDevice_enum VPUDevice.NPU_RESERVED_1 ''NPU_RESERVED_1'']"

definition enumName_VPUDevice :: string where
  "enumName_VPUDevice = ''VPUDevice''"

datatype DataType =
    UINT8 | INT8 | FLOAT16 | BFLOAT16 | BF8 | HF8 | UINT4 | INT4 | UINT2 | INT2 | UINT1 | INT1 |
    INT32 | FLOAT32 | UINT16 | INT16 | FLOAT4 | INT64 | UINT64 | FLOAT64 | UINT32 | enum_size

definition DataType_enum :: "DataType list" where
  "DataType_enum =
     [DataType.UINT8, DataType.INT8, DataType.FLOAT16, DataType.BFLOAT16, DataType.BF8,
     DataType.HF8, DataType.UINT4, DataType.INT4, DataType.UINT2, DataType.INT2, DataType.UINT1,
     DataType.INT1, DataType.INT32, DataType.FLOAT32, DataType.UINT16, DataType.INT16,
     DataType.FLOAT4, DataType.INT64, DataType.UINT64, DataType.FLOAT64, DataType.UINT32,
     DataType.enum_size]"

definition DataType_ToText :: EnumMap where
  "DataType_ToText =
     [link DataType_enum DataType.UINT8 ''UINT8'', link DataType_enum DataType.INT8 ''INT8'',
     link DataType_enum DataType.FLOAT16 ''FLOAT16'',
     link DataType_enum DataType.BFLOAT16 ''BFLOAT16'', link DataType_enum DataType.BF8 ''BF8'',
     link DataType_enum DataType.HF8 ''HF8'', link DataType_enum DataType.UINT4 ''UINT4'',
     link DataType_enum DataType.INT4 ''INT4'', link DataType_enum DataType.UINT2 ''UINT2'',
     link DataType_enum DataType.INT2 ''INT2'', link DataType_enum DataType.UINT1 ''UINT1'',
     link DataType_enum DataType.INT1 ''INT1'', link DataType_enum DataType.INT32 ''INT32'',
     link DataType_enum DataType.FLOAT32 ''FLOAT32'',
     link DataType_enum DataType.UINT16 ''UINT16'', link DataType_enum DataType.INT16 ''INT16'',
     link DataType_enum DataType.FLOAT4 ''FLOAT4'', link DataType_enum DataType.INT64 ''INT64'',
     link DataType_enum DataType.UINT64 ''UINT64'',
     link DataType_enum DataType.FLOAT64 ''FLOAT64'', link DataType_enum DataType.UINT32 ''UINT32'']"

definition enumName_DataType :: string where
  "enumName_DataType = ''DataType''"

datatype Operation =
    CONVOLUTION | DW_CONVOLUTION | ELTWISE | MAXPOOL | AVEPOOL | CM_CONVOLUTION | LAYER_NORM |
    ELTWISE_MUL | REDUCE_MS | REDUCE_SUMSQUARES | enum_size

definition Operation_enum :: "Operation list" where
  "Operation_enum =
     [Operation.CONVOLUTION, Operation.DW_CONVOLUTION, Operation.ELTWISE, Operation.MAXPOOL,
     Operation.AVEPOOL, Operation.CM_CONVOLUTION, Operation.LAYER_NORM, Operation.ELTWISE_MUL,
     Operation.REDUCE_MS, Operation.REDUCE_SUMSQUARES, Operation.enum_size]"

definition Operation_ToText :: EnumMap where
  "Operation_ToText =
     [link Operation_enum Operation.CONVOLUTION ''CONVOLUTION'',
     link Operation_enum Operation.DW_CONVOLUTION ''DW_CONVOLUTION'',
     link Operation_enum Operation.ELTWISE ''ELTWISE'',
     link Operation_enum Operation.MAXPOOL ''MAXPOOL'',
     link Operation_enum Operation.AVEPOOL ''AVEPOOL'',
     link Operation_enum Operation.CM_CONVOLUTION ''CM_CONVOLUTION'',
     link Operation_enum Operation.LAYER_NORM ''LAYER_NORM'',
     link Operation_enum Operation.ELTWISE_MUL ''ELTWISE_MUL'',
     link Operation_enum Operation.REDUCE_MS ''REDUCE_MS'',
     link Operation_enum Operation.REDUCE_SUMSQUARES ''REDUCE_SUMSQUARES'']"

definition enumName_Operation :: string where
  "enumName_Operation = ''Operation''"

datatype ActivationFunction =
    NONE | RELU | LRELU | ADD | SUB | MULT | enum_size

definition ActivationFunction_enum :: "ActivationFunction list" where
  "ActivationFunction_enum =
     [ActivationFunction.NONE, ActivationFunction.RELU, ActivationFunction.LRELU,
     ActivationFunction.ADD, ActivationFunction.SUB, ActivationFunction.MULT,
     ActivationFunction.enum_size]"

definition ActivationFunction_ToText :: EnumMap where
  "ActivationFunction_ToText =
     [link ActivationFunction_enum ActivationFunction.NONE ''NONE'',
     link ActivationFunction_enum ActivationFunction.RELU ''RELU'',
     link ActivationFunction_enum ActivationFunction.LRELU ''LRELU'',
     link ActivationFunction_enum ActivationFunction.ADD ''ADD'',
     link ActivationFunction_enum ActivationFunction.SUB ''SUB'',
     link ActivationFunction_enum ActivationFunction.MULT ''MULT'']"

definition enumName_ActivationFunction :: string where
  "enumName_ActivationFunction = ''ActivationFunction''"

datatype Swizzling =
    KEY_0 | KEY_1 | KEY_2 | KEY_3 | KEY_4 | KEY_5 | enum_size

definition Swizzling_enum :: "Swizzling list" where
  "Swizzling_enum =
     [Swizzling.KEY_0, Swizzling.KEY_1, Swizzling.KEY_2, Swizzling.KEY_3, Swizzling.KEY_4,
     Swizzling.KEY_5, Swizzling.enum_size]"

definition Swizzling_ToText :: EnumMap where
  "Swizzling_ToText =
     [link Swizzling_enum Swizzling.KEY_0 ''KEY_0'', link Swizzling_enum Swizzling.KEY_1 ''KEY_1'',
     link Swizzling_enum Swizzling.KEY_2 ''KEY_2'', link Swizzling_enum Swizzling.KEY_3 ''KEY_3'',
     link Swizzling_enum Swizzling.KEY_4 ''KEY_4'', link Swizzling_enum Swizzling.KEY_5 ''KEY_5'']"

definition enumName_Swizzling :: string where
  "enumName_Swizzling = ''Swizzling''"

datatype ExecutionMode =
    VECTOR | MATRIX | VECTOR_FP16 | CUBOID_16x16 | CUBOID_8x16 | CUBOID_4x16 | dCIM_32x128 |
    dCIM_64x128 | enum_size

definition ExecutionMode_enum :: "ExecutionMode list" where
  "ExecutionMode_enum =
     [ExecutionMode.VECTOR, ExecutionMode.MATRIX, ExecutionMode.VECTOR_FP16,
     ExecutionMode.CUBOID_16x16, ExecutionMode.CUBOID_8x16, ExecutionMode.CUBOID_4x16,
     ExecutionMode.dCIM_32x128, ExecutionMode.dCIM_64x128, ExecutionMode.enum_size]"

definition ExecutionMode_ToText :: EnumMap where
  "ExecutionMode_ToText =
     [link ExecutionMode_enum ExecutionMode.VECTOR ''VECTOR'',
     link ExecutionMode_enum ExecutionMode.MATRIX ''MATRIX'',
     link ExecutionMode_enum ExecutionMode.VECTOR_FP16 ''VECTOR_FP16'',
     link ExecutionMode_enum ExecutionMode.CUBOID_16x16 ''CUBOID_16x16'',
     link ExecutionMode_enum ExecutionMode.CUBOID_8x16 ''CUBOID_8x16'',
     link ExecutionMode_enum ExecutionMode.CUBOID_4x16 ''CUBOID_4x16'',
     link ExecutionMode_enum ExecutionMode.dCIM_32x128 ''dCIM_32x128'',
     link ExecutionMode_enum ExecutionMode.dCIM_64x128 ''dCIM_64x128'']"

definition enumName_ExecutionMode :: string where
  "enumName_ExecutionMode = ''ExecutionMode''"

datatype Layout =
    ZMAJOR | CMAJOR | XYZ | XZY | YXZ | YZX | ZXY | ZYX | INVALID | enum_size

definition Layout_enum :: "Layout list" where
  "Layout_enum =
     [Layout.ZMAJOR, Layout.CMAJOR, Layout.XYZ, Layout.XZY, Layout.YXZ, Layout.YZX, Layout.ZXY,
     Layout.ZYX, Layout.INVALID, Layout.enum_size]"

definition Layout_ToText :: EnumMap where
  "Layout_ToText =
     [link Layout_enum Layout.ZMAJOR ''ZMAJOR'', link Layout_enum Layout.CMAJOR ''CMAJOR'',
     link Layout_enum Layout.XYZ ''XYZ'', link Layout_enum Layout.XZY ''XZY'',
     link Layout_enum Layout.YXZ ''YXZ'', link Layout_enum Layout.YZX ''YZX'',
     link Layout_enum Layout.ZXY ''ZXY'', link Layout_enum Layout.ZYX ''ZYX'',
     link Layout_enum Layout.INVALID ''INVALID'']"

definition enumName_Layout :: string where
  "enumName_Layout = ''Layout''"

datatype ISIStrategy =
    CLUSTERING | SPLIT_OVER_H | SPLIT_OVER_K | SPLIT_OVER_K_nxtHW | enum_size

definition ISIStrategy_enum :: "ISIStrategy list" where
  "ISIStrategy_enum =
     [ISIStrategy.CLUSTERING, ISIStrategy.SPLIT_OVER_H, ISIStrategy.SPLIT_OVER_K,
     ISIStrategy.SPLIT_OVER_K_nxtHW, ISIStrategy.enum_size]"

definition ISIStrategy_ToText :: EnumMap where
  "ISIStrategy_ToText =
     [link ISIStrategy_enum ISIStrategy.CLUSTERING ''Clustering'',
     link ISIStrategy_enum ISIStrategy.SPLIT_OVER_H ''SplitOverH'',
     link ISIStrategy_enum ISIStrategy.SPLIT_OVER_K ''SplitOverK'',
     link ISIStrategy_enum ISIStrategy.SPLIT_OVER_K_nxtHW ''SplitOverK_HWswitch'']"

definition enumName_ISIStrategy :: string where
  "enumName_ISIStrategy = ''ISIStrategy''"

datatype VPUSubsystem =
    VPU_DPU | VPU_SHV | VPU_DMA | VPU_CPU | VPU_CMX | enum_size

definition VPUSubsystem_enum :: "VPUSubsystem list" where
  "VPUSubsystem_enum =
     [VPUSubsystem.VPU_DPU, VPUSubsystem.VPU_SHV, VPUSubsystem.VPU_DMA, VPUSubsystem.VPU_CPU,
     VPUSubsystem.VPU_CMX, VPUSubsystem.enum_size]"

definition VPUSubsystem_ToText :: EnumMap where
  "VPUSubsystem_ToText =
     [link VPUSubsystem_enum VPUSubsystem.VPU_DPU ''VPU_DPU'',
     link VPUSubsystem_enum VPUSubsystem.VPU_SHV ''VPU_SHV'',
     link VPUSubsystem_enum VPUSubsystem.VPU_DMA ''VPU_DMA'',
     link VPUSubsystem_enum VPUSubsystem.VPU_CPU ''VPU_CPU'',
     link VPUSubsystem_enum VPUSubsystem.VPU_CMX ''VPU_CMX'']"

definition enumName_VPUSubsystem :: string where
  "enumName_VPUSubsystem = ''VPUSubsystem''"

datatype CostSourceHint =
    AUTO | NN | PROFILING_SERVICE | THEORETICAL | enum_size

definition CostSourceHint_enum :: "CostSourceHint list" where
  "CostSourceHint_enum =
     [CostSourceHint.AUTO, CostSourceHint.NN, CostSourceHint.PROFILING_SERVICE,
     CostSourceHint.THEORETICAL, CostSourceHint.enum_size]"

definition CostSourceHint_ToText :: EnumMap where
  "CostSourceHint_ToText =
     [link CostSourceHint_enum CostSourceHint.AUTO ''AUTO'',
     link CostSourceHint_enum CostSourceHint.NN ''NN'',
     link CostSourceHint_enum CostSourceHint.PROFILING_SERVICE ''PROFILING_SERVICE'',
     link CostSourceHint_enum CostSourceHint.THEORETICAL ''THEORETICAL'']"

definition enumName_CostSourceHint :: string where
  "enumName_CostSourceHint = ''CostSourceHint''"

datatype MPEEngine =
    SCL | DCIM | enum_size

definition MPEEngine_enum :: "MPEEngine list" where
  "MPEEngine_enum =
     [MPEEngine.SCL, MPEEngine.DCIM, MPEEngine.enum_size]"

definition MPEEngine_ToText :: EnumMap where
  "MPEEngine_ToText =
     [link MPEEngine_enum MPEEngine.SCL ''SCL'', link MPEEngine_enum MPEEngine.DCIM ''dCIM'']"

definition enumName_MPEEngine :: string where
  "enumName_MPEEngine = ''MPEEngine''"

section \<open>Dimension labels\<close>

datatype Act = Act_X | Act_Y | Act_Z | Act_B

datatype Grid = Grid_W | Grid_H

datatype Wt = Wt_K | Wt_C | Wt_Ky | Wt_Kx

datatype Padding = TOP | BOTTOM | LEFT | RIGHT

section \<open>Layout orders and execution grids\<close>

fun layout_to_order :: "Layout \<Rightarrow> Act list" where
  "layout_to_order CMAJOR = [Act_X, Act_Y, Act_Z, Act_B]"
| "layout_to_order ZMAJOR = [Act_Z, Act_X, Act_Y, Act_B]"
| "layout_to_order XYZ = [Act_X, Act_Y, Act_Z, Act_B]"
| "layout_to_order XZY = [Act_X, Act_Z, Act_Y, Act_B]"
| "layout_to_order YXZ = [Act_Y, Act_X, Act_Z, Act_B]"
| "layout_to_order YZX = [Act_Y, Act_Z, Act_X, Act_B]"
| "layout_to_order ZXY = [Act_Z, Act_X, Act_Y, Act_B]"
| "layout_to_order ZYX = [Act_Z, Act_Y, Act_X, Act_B]"
| "layout_to_order INVALID = [Act_Z, Act_X, Act_Y, Act_B]"
| "layout_to_order Layout.enum_size = [Act_Z, Act_X, Act_Y, Act_B]"

definition mpe_mode_to_grid :: "ExecutionMode \<Rightarrow> u32 list" where
  "mpe_mode_to_grid mode =
     (case mode of
        VECTOR \<Rightarrow> [16, 1, 16, 1]
      | VECTOR_FP16 \<Rightarrow> [4, 1, 16, 1]
      | _ \<Rightarrow> [4, 4, 16, 1])"

definition mpe_mode_to_nthw_ntk_grid :: "ExecutionMode \<Rightarrow> u32 list" where
  "mpe_mode_to_nthw_ntk_grid mode =
     (case mode of
        CUBOID_4x16 \<Rightarrow> [8, 8, 256, 1]
      | CUBOID_8x16 \<Rightarrow> [16, 8, 128, 1]
      | CUBOID_16x16 \<Rightarrow> [16, 16, 64, 1]
      | _ \<Rightarrow> [1, 1, 1, 1])"

definition is_dcim_execution_mode :: "ExecutionMode \<Rightarrow> bool" where
  "is_dcim_execution_mode mode \<longleftrightarrow> mode = dCIM_32x128 \<or> mode = dCIM_64x128"

section \<open>Interpretations of the text contract\<close>

interpretation vpudevice_text: enum_text VPUDevice_enum VPUDevice_ToText enumName_VPUDevice
  by unfold_locales (code_simp+)

interpretation datatype_text: enum_text DataType_enum DataType_ToText enumName_DataType
  by unfold_locales (code_simp+)

interpretation operation_text: enum_text Operation_enum Operation_ToText enumName_Operation
  by unfold_locales (code_simp+)

interpretation activationfunction_text: enum_text ActivationFunction_enum ActivationFunction_ToText enumName_ActivationFunction
  by unfold_locales (code_simp+)

interpretation swizzling_text: enum_text Swizzling_enum Swizzling_ToText enumName_Swizzling
  by unfold_locales (code_simp+)

interpretation executionmode_text: enum_text ExecutionMode_enum ExecutionMode_ToText enumName_ExecutionMode
  by unfold_locales (code_simp+)

interpretation layout_text: enum_text Layout_enum Layout_ToText enumName_Layout
  by unfold_locales (code_simp+)

interpretation isistrategy_text: enum_text ISIStrategy_enum ISIStrategy_ToText enumName_ISIStrategy
  by unfold_locales (code_simp+)

interpretation vpusubsystem_text: enum_text VPUSubsystem_enum VPUSubsystem_ToText enumName_VPUSubsystem
  by unfold_locales (code_simp+)

interpretation costsourcehint_text: enum_text CostSourceHint_enum CostSourceHint_ToText enumName_CostSourceHint
  by unfold_locales (code_simp+)

interpretation mpeengine_text: enum_text MPEEngine_enum MPEEngine_ToText enumName_MPEEngine
  by unfold_locales (code_simp+)

section \<open>Order of the devices\<close>

text \<open>The sources compare devices with \<^verbatim>\<open>>=\<close>, which is the order of the enumerators.\<close>

lemma vpudevice_position_inj:
  "enum_position VPUDevice_enum a = enum_position VPUDevice_enum b \<Longrightarrow> a = (b :: VPUDevice)"
  by (cases a; cases b) (simp_all add: VPUDevice_enum_def)

instantiation VPUDevice :: linorder
begin

definition less_eq_VPUDevice :: "VPUDevice \<Rightarrow> VPUDevice \<Rightarrow> bool" where
  "less_eq_VPUDevice a b \<longleftrightarrow> enum_position VPUDevice_enum a \<le> enum_position VPUDevice_enum b"

definition less_VPUDevice :: "VPUDevice \<Rightarrow> VPUDevice \<Rightarrow> bool" where
  "less_VPUDevice a b \<longleftrightarrow> enum_position VPUDevice_enum a < enum_position VPUDevice_enum b"

instance
  by standard (auto simp: less_eq_VPUDevice_def less_VPUDevice_def dest: vpudevice_position_inj)

end

text \<open>
  The text interface of the enumerations: for each of the eleven enumerations every enumerator
  has a text, and reading that text, alone or after the enumeration's name and a dot, gives the
  enumerator back.
\<close>

theorem enum_texts_round_trip:
  "text_round_trip VPUDevice_enum VPUDevice_ToText enumName_VPUDevice \<and>
   text_round_trip DataType_enum DataType_ToText enumName_DataType \<and>
   text_round_trip Operation_enum Operation_ToText enumName_Operation \<and>
   text_round_trip ActivationFunction_enum ActivationFunction_ToText enumName_ActivationFunction \<and>
   text_round_trip Swizzling_enum Swizzling_ToText enumName_Swizzling \<and>
   text_round_trip ExecutionMode_enum ExecutionMode_ToText enumName_ExecutionMode \<and>
   text_round_trip Layout_enum Layout_ToText enumName_Layout \<and>
   text_round_trip ISIStrategy_enum ISIStrategy_ToText enumName_ISIStrategy \<and>
   text_round_trip VPUSubsystem_enum VPUSubsystem_ToText enumName_VPUSubsystem \<and>
   text_round_trip CostSourceHint_enum CostSourceHint_ToText enumName_CostSourceHint \<and>
   text_round_trip MPEEngine_enum MPEEngine_ToText enumName_MPEEngine"
  by (intro conjI vpudevice_text.round_trip datatype_text.round_trip operation_text.round_trip
      activationfunction_text.round_trip swizzling_text.round_trip executionmode_text.round_trip
      layout_text.round_trip isistrategy_text.round_trip vpusubsystem_text.round_trip
      costsourcehint_text.round_trip mpeengine_text.round_trip)

end
