(* ===== verification/Dtype_Info.thy ===== *)
theory Dtype_Info
  imports Dpu_Types
begin

text \<open>
  Facts about data types: their width in bits and bytes (\<^verbatim>\<open>include/vpu/dpu_dtypes_dimension_info.h\<close>), the
  families they belong to (\<^verbatim>\<open>dpu_dtypes_category_info.h\<close>) and the memory of a collection of elements
  (\<^verbatim>\<open>datatype_collection_size.h\<close>), which packs the sub-byte types.
\<close>

section \<open>Sizes and categories of data types\<close>

fun dtype_to_bytes :: "DataType \<Rightarrow> int" where
  "dtype_to_bytes DataType.INT64 = 8"
| "dtype_to_bytes DataType.UINT64 = 8"
| "dtype_to_bytes DataType.FLOAT64 = 8"
| "dtype_to_bytes DataType.INT32 = 4"
| "dtype_to_bytes DataType.UINT32 = 4"
| "dtype_to_bytes DataType.FLOAT32 = 4"
| "dtype_to_bytes DataType.UINT16 = 2"
| "dtype_to_bytes DataType.INT16 = 2"
| "dtype_to_bytes DataType.FLOAT16 = 2"
| "dtype_to_bytes DataType.BFLOAT16 = 2"
| "dtype_to_bytes DataType.UINT8 = 1"
| "dtype_to_bytes DataType.INT8 = 1"
| "dtype_to_bytes DataType.BF8 = 1"
| "dtype_to_bytes DataType.HF8 = 1"
| "dtype_to_bytes DataType.UINT4 = 1"
| "dtype_to_bytes DataType.INT4 = 1"
| "dtype_to_bytes DataType.FLOAT4 = 1"
| "dtype_to_bytes DataType.UINT2 = 1"
| "dtype_to_bytes DataType.INT2 = 1"
| "dtype_to_bytes DataType.UINT1 = 1"
| "dtype_to_bytes DataType.INT1 = 1"
| "dtype_to_bytes DataType.enum_size = -1"

fun dtype_to_bits :: "DataType \<Rightarrow> int" where
  "dtype_to_bits DataType.INT64 = 64"
| "dtype_to_bits DataType.UINT64 = 64"
| "dtype_to_bits DataType.FLOAT64 = 64"
| "dtype_to_bits DataType.INT32 = 32"
| "dtype_to_bits DataType.UINT32 = 32"
| "dtype_to_bits DataType.FLOAT32 = 32"
| "dtype_to_bits DataType.UINT16 = 16"
| "dtype_to_bits DataType.INT16 = 16"
| "dtype_to_bits DataType.FLOAT16 = 16"
| "dtype_to_bits DataType.BFLOAT16 = 16"
| "dtype_to_bits DataType.UINT8 = 8"
| "dtype_to_bits DataType.INT8 = 8"
| "dtype_to_bits DataType.BF8 = 8"
| "dtype_to_bits DataType.HF8 = 8"
| "dtype_to_bits DataType.UINT4 = 4"
| "dtype_to_bits DataType.INT4 = 4"
| "dtype_to_bits DataType.FLOAT4 = 4"
| "dtype_to_bits DataType.UINT2 = 2"
| "dtype_to_bits DataType.INT2 = 2"
| "dtype_to_bits DataType.UINT1 = 1"
| "dtype_to_bits DataType.INT1 = 1"
| "dtype_to_bits DataType.enum_size = -1"

definition types_per_byte :: "DataType \<Rightarrow> int" where
  "types_per_byte datatype =
     (let datatype_size_in_bits = dtype_to_bits datatype in
      if datatype_size_in_bits \<le> 8 then 8 sdiv datatype_size_in_bits else 0)"

definition is_same_datatype_footprint :: "DataType \<Rightarrow> DataType \<Rightarrow> bool" where
  "is_same_datatype_footprint d1 d2 \<longleftrightarrow> dtype_to_bits d1 = dtype_to_bits d2"

definition is_any_float_dtype :: "DataType \<Rightarrow> bool" where
  "is_any_float_dtype dtype \<longleftrightarrow> dtype \<in>
     {DataType.FLOAT64, DataType.FLOAT32, DataType.FLOAT16, DataType.BFLOAT16, DataType.BF8,
     DataType.HF8, DataType.FLOAT4}"

definition is_fp16family_dtype :: "DataType \<Rightarrow> bool" where
  "is_fp16family_dtype dtype \<longleftrightarrow> dtype \<in>
     {DataType.FLOAT16, DataType.BFLOAT16}"

definition is_fp8family_dtype :: "DataType \<Rightarrow> bool" where
  "is_fp8family_dtype dtype \<longleftrightarrow> dtype \<in>
     {DataType.BF8, DataType.HF8}"

definition is_fp32family_dtype :: "DataType \<Rightarrow> bool" where
  "is_fp32family_dtype dtype \<longleftrightarrow> dtype \<in>
     {DataType.FLOAT32}"

definition is_fp64family_dtype :: "DataType \<Rightarrow> bool" where
  "is_fp64family_dtype dtype \<longleftrightarrow> dtype \<in>
     {DataType.FLOAT64}"

definition is_i16family_dtype :: "DataType \<Rightarrow> bool" where
  "is_i16family_dtype dtype \<longleftrightarrow> dtype \<in>
     {DataType.UINT16, DataType.INT16}"

definition is_i8family_dtype :: "DataType \<Rightarrow> bool" where
  "is_i8family_dtype dtype \<longleftrightarrow> dtype \<in>
     {DataType.UINT8, DataType.INT8, DataType.UINT4, DataType.INT4, DataType.UINT2, DataType.INT2,
     DataType.UINT1, DataType.INT1}"

definition is_i32family_dtype :: "DataType \<Rightarrow> bool" where
  "is_i32family_dtype dtype \<longleftrightarrow> dtype \<in>
     {DataType.INT32, DataType.UINT32}"

definition is_i64family_dtype :: "DataType \<Rightarrow> bool" where
  "is_i64family_dtype dtype \<longleftrightarrow> dtype \<in>
     {DataType.INT64, DataType.UINT64}"

definition is_any_int_dtype :: "DataType \<Rightarrow> bool" where
  "is_any_int_dtype dtype \<longleftrightarrow> dtype \<in>
     {DataType.UINT8, DataType.INT8, DataType.UINT4, DataType.INT4, DataType.UINT2, DataType.INT2,
     DataType.UINT1, DataType.INT1, DataType.INT32, DataType.UINT32, DataType.INT64,
     DataType.UINT64, DataType.UINT16, DataType.INT16}"

section \<open>Sizes of collections\<close>

text \<open>
  \<open>compute_size_in_bytes\<close> is a template over the integral type of the count. The signed instance is
  modelled on \<open>int\<close>, the \<open>unsigned int\<close> instance, whose product wraps around, on \<open>u32\<close>.
\<close>

definition compute_size_in_bytes :: "int \<Rightarrow> DataType \<Rightarrow> int" where
  "compute_size_in_bytes elements_count datatype =
     (let type_dimension = dtype_to_bytes datatype in
      if 0 < elements_count \<and> 0 < type_dimension then
        if type_dimension = 1 then
          let elements_per_byte = types_per_byte datatype in
          if 0 < elements_per_byte then
            let reminder = elements_count smod elements_per_byte;
                fullBytes = elements_count sdiv elements_per_byte
            in if reminder \<noteq> 0 then fullBytes + 1 else fullBytes
          else 0
        else elements_count * type_dimension
      else 0)"

definition compute_size_in_bytes_u32 :: "u32 \<Rightarrow> DataType \<Rightarrow> u32" where
  "compute_size_in_bytes_u32 elements_count datatype =
     (let type_dimension = dtype_to_bytes datatype in
      if 0 < elements_count \<and> 0 < type_dimension then
        if type_dimension = 1 then
          let elements_per_byte = types_per_byte datatype in
          if 0 < elements_per_byte then
            let reminder = elements_count mod to_u32 elements_per_byte;
                fullBytes = elements_count div to_u32 elements_per_byte
            in if reminder \<noteq> 0 then fullBytes + 1 else fullBytes
          else 0
        else elements_count * to_u32 type_dimension
      else 0)"

definition compute_elements_count_from_bytes :: "int \<Rightarrow> DataType \<Rightarrow> int" where
  "compute_elements_count_from_bytes size_in_bytes datatype =
     (let bytes_per_type = dtype_to_bytes datatype in
      if 0 < size_in_bytes then
        if bytes_per_type = 1 then
          let elements_per_byte = types_per_byte datatype in elements_per_byte * size_in_bytes
        else size_in_bytes sdiv bytes_per_type
      else 0)"

section \<open>Properties of sizes\<close>

lemma packed_bits:
  fixes n b k :: int
  assumes "0 < b" "0 < k" "b * k = 8"
  shows "(n * b + 7) div 8 = (n + k - 1) div k"
proof -
  have "(n * b + 7) div 8 = (n * b + 7) div b div k"
    using assms by (metis zdiv_zmult2_eq less_imp_le)
  also have "(n * b + 7) div b = n + (k - 1)"
  proof -
    have "n * b + 7 = (b - 1) + (n + (k - 1)) * b" using assms(3) by (simp add: algebra_simps)
    then have "(n * b + 7) div b = ((b - 1) + (n + (k - 1)) * b) div b" by (rule arg_cong)
    also have "\<dots> = (n + (k - 1)) + (b - 1) div b" using assms(1) by (intro div_mult_self1) simp
    also have "(b - 1) div b = 0" using assms(1) by simp
    finally show ?thesis by simp
  qed
  finally show ?thesis by (simp add: algebra_simps)
qed

lemma wide_bits:
  fixes n w :: int
  shows "(n * (8 * w) + 7) div 8 = n * w"
proof -
  have "n * (8 * w) + 7 = 7 + n * w * 8" by simp
  then show ?thesis by simp
qed

lemma dtype_to_bits_cases:
  "d = DataType.enum_size \<and> dtype_to_bits d = - 1 \<and> dtype_to_bytes d = - 1 \<or>
   dtype_to_bits d * types_per_byte d = 8 \<and> 0 < types_per_byte d \<and> 0 < dtype_to_bits d \<and> dtype_to_bytes d = 1 \<or>
   dtype_to_bits d = 8 * dtype_to_bytes d \<and> 1 < dtype_to_bytes d"
  by (cases d) (simp_all add: types_per_byte_def sdiv_nonneg)

lemma compute_size_ceil:
  assumes "0 \<le> n" "d \<noteq> DataType.enum_size"
  shows "compute_size_in_bytes n d = (n * dtype_to_bits d + 7) div 8"
proof (cases "0 < n")
  case False
  then show ?thesis using assms(1) by (simp add: compute_size_in_bytes_def)
next
  case n: True
  consider (packed) "dtype_to_bits d * types_per_byte d = 8" "0 < types_per_byte d" "0 < dtype_to_bits d"
      "dtype_to_bytes d = 1"
    | (wide) "dtype_to_bits d = 8 * dtype_to_bytes d" "1 < dtype_to_bytes d"
    using dtype_to_bits_cases [of d] assms(2) by blast
  then show ?thesis
  proof cases
    case packed
    then show ?thesis
      using n by (simp add: compute_size_in_bytes_def sdiv_nonneg smod_nonneg packed_bits int_ceil_div)
  next
    case wide
    then show ?thesis
      using n by (simp add: compute_size_in_bytes_def wide_bits)
  qed
qed

lemma elements_from_bytes:
  assumes "0 \<le> s" "d \<noteq> DataType.enum_size"
  shows "compute_elements_count_from_bytes s d = s * 8 div dtype_to_bits d"
proof (cases "0 < s")
  case False
  then show ?thesis using assms(1) by (simp add: compute_elements_count_from_bytes_def)
next
  case s: True
  consider (packed) "dtype_to_bits d * types_per_byte d = 8" "0 < types_per_byte d" "0 < dtype_to_bits d"
      "dtype_to_bytes d = 1"
    | (wide) "dtype_to_bits d = 8 * dtype_to_bytes d" "1 < dtype_to_bytes d"
    using dtype_to_bits_cases [of d] assms(2) by blast
  then show ?thesis
  proof cases
    case packed
    have "s * 8 = types_per_byte d * s * dtype_to_bits d"
      using packed(1) by (metis mult.assoc mult.commute)
    then have "s * 8 div dtype_to_bits d = types_per_byte d * s * dtype_to_bits d div dtype_to_bits d"
      by (rule arg_cong)
    also have "\<dots> = types_per_byte d * s" using packed(3) by simp
    finally show ?thesis using s packed(4) by (simp add: compute_elements_count_from_bytes_def)
  next
    case wide
    have "s * 8 div (8 * dtype_to_bytes d) = s div dtype_to_bytes d" by (simp add: zdiv_zmult2_eq)
    then show ?thesis
      using s wide by (simp add: compute_elements_count_from_bytes_def sdiv_nonneg)
  qed
qed

lemma ceiling_eighth: "\<lceil>real_of_int m / 8\<rceil> = (m + 7) div 8"
proof -
  have "\<lceil>real_of_int m / 8\<rceil> = - (- m div 8)"
    by (metis ceiling_divide_eq_div of_int_numeral)
  also have "\<dots> = (m + 7) div 8" by presburger
  finally show ?thesis .
qed

lemma size_bits_round_trip:
  assumes "d \<noteq> DataType.enum_size"
  shows "n \<le> (n * dtype_to_bits d + 7) div 8 * 8 div dtype_to_bits d"
    and "((n * dtype_to_bits d + 7) div 8 * 8 div dtype_to_bits d - n) * dtype_to_bits d < 8"
proof -
  let ?b = "dtype_to_bits d" and ?k = "types_per_byte d"
  let ?m = "(n * ?b + 7) div 8 * 8 div ?b"
  consider (packed) "?b * ?k = 8" "0 < ?k" "0 < ?b" | (wide) "?b = 8 * dtype_to_bytes d" "1 < dtype_to_bytes d"
    using dtype_to_bits_cases [of d] assms by blast
  then have "n \<le> ?m \<and> (?m - n) * ?b < 8"
  proof cases
    case packed
    have "(n + ?k - 1) div ?k * 8 div ?b = (n + ?k - 1) div ?k * ?k * ?b div ?b"
      using packed(1) by (metis mult.assoc mult.commute)
    also have "\<dots> = (n + ?k - 1) div ?k * ?k" using packed(3) by simp
    finally have m: "?m = (n + ?k - 1) div ?k * ?k"
      using packed by (simp only: packed_bits)
    have "n \<le> ?m" "?m - n < ?k" unfolding m using int_ceil_mult [OF packed(2), of n] by linarith+
    then show ?thesis using packed by (metis mult.commute mult_less_cancel_left_pos)
  next
    case wide
    have "n * dtype_to_bytes d * 8 div (8 * dtype_to_bytes d) = n"
      using wide(2) by (simp add: zdiv_zmult2_eq)
    then show ?thesis unfolding wide(1) by (simp add: wide_bits)
  qed
  then show "n \<le> ?m" "(?m - n) * ?b < 8" by auto
qed

text \<open>
  Byte counts: the memory for \<open>n\<close> elements of a valid type is the number of bits rounded up to whole
  bytes, for packed sub-byte types as for wide ones, and converting the byte count back gives at least
  \<open>n\<close> elements and fewer than one byte's worth more.
\<close>

theorem compute_size_in_bytes_spec:
  assumes "0 \<le> n" "d \<noteq> DataType.enum_size"
  shows "compute_size_in_bytes n d = \<lceil>real_of_int (n * dtype_to_bits d) / 8\<rceil> \<and>
    n \<le> compute_elements_count_from_bytes (compute_size_in_bytes n d) d \<and>
    (compute_elements_count_from_bytes (compute_size_in_bytes n d) d - n) * dtype_to_bits d < 8"
proof -
  have "0 \<le> n * dtype_to_bits d"
    using dtype_to_bits_cases [of d] assms by auto
  then have s: "0 \<le> (n * dtype_to_bits d + 7) div 8"
    by (simp add: pos_imp_zdiv_nonneg_iff)
  show ?thesis
    unfolding compute_size_ceil [OF assms] elements_from_bytes [OF s assms(2)] ceiling_eighth
    using size_bits_round_trip [OF assms(2), of n] by simp
qed

theorem compute_size_in_bytes_spec_witness:
  "compute_size_in_bytes 13 INT4 = \<lceil>real_of_int (13 * dtype_to_bits INT4) / 8\<rceil> \<and>
    13 \<le> compute_elements_count_from_bytes (compute_size_in_bytes 13 INT4) INT4 \<and>
    (compute_elements_count_from_bytes (compute_size_in_bytes 13 INT4) INT4 - 13) * dtype_to_bits INT4 < 8"
  by (rule compute_size_in_bytes_spec) simp_all

text \<open>
  The \<open>unsigned int\<close> instance computes the same byte count as long as that count fits in 32 bits:
  then nothing wraps around and the result is the signed instance's.
\<close>

theorem compute_size_in_bytes_u32_exact:
  assumes "compute_size_in_bytes (uint n) d < 2 ^ 32"
  shows "uint (compute_size_in_bytes_u32 n d) = compute_size_in_bytes (uint n) d"
proof (cases "0 < n \<and> d \<noteq> DataType.enum_size")
  case False
  then have "n = 0 \<or> d = DataType.enum_size" by (metis word_gt_0)
  then show ?thesis by (auto simp: compute_size_in_bytes_u32_def compute_size_in_bytes_def Let_def)
next
  case True
  then have n: "0 < n" "0 < uint n" by (auto simp: word_less_def)
  have sz: "uint n < 4294967296" using unsigned_less [of n, where 'a=int] by simp
  show ?thesis
  proof (cases "dtype_to_bytes d = 1")
    case p: True
    have w: "uint (n div 8) = uint n div 8" "uint (n div 4) = uint n div 4" "uint (n div 2) = uint n div 2"
     by (simp_all add: uint_div)
    have m: "n mod 8 = 0 \<longleftrightarrow> uint n mod 8 = 0" "n mod 4 = 0 \<longleftrightarrow> uint n mod 4 = 0" "n mod 2 = 0 \<longleftrightarrow> uint n mod 2 = 0"
     by (simp_all add: word_uint_eq_iff uint_mod)
    have s: "uint (n div 8 + 1) = uint n div 8 + 1" "uint (n div 4 + 1) = uint n div 4 + 1" "uint (n div 2 + 1) = uint n div 2 + 1"
      using sz n by (simp_all add: uint_word_ariths uint_div)
    show ?thesis
      using True p n w m s by (cases d) (simp_all add: compute_size_in_bytes_u32_def compute_size_in_bytes_def types_per_byte_def sdiv_nonneg
            smod_nonneg Let_def)
  next
    case False
    then show ?thesis using assms True n
      by (cases d) (simp_all add: compute_size_in_bytes_u32_def compute_size_in_bytes_def uint_word_ariths)
  qed
qed

theorem compute_size_in_bytes_u32_exact_witness:
  "uint (compute_size_in_bytes_u32 1000 FLOAT16) = compute_size_in_bytes (uint (1000 :: u32)) FLOAT16"
  by (rule compute_size_in_bytes_u32_exact) (simp add: compute_size_in_bytes_def)

end
