(* ===== verification/Vpu_Utils.thy ===== *)
theory Vpu_Utils
  imports Cycles Dpu_Types "HOL-Library.Multiset"
begin

text \<open>
  The helpers of \<^verbatim>\<open>include/vpu/utils.h\<close>: the list scheduling of task costs on N processors, the rounding
  and alignment functions on \<open>unsigned int\<close> and \<open>int\<close>, and the input dimension of an operation. The
  assertions of the source are not executed in a release build and are stated as lemmas where they hold.

  \<open>std::priority_queue\<close> with \<open>std::greater\<close> is the sorted list of its elements. Its contract is the locale
  \<open>min_queue\<close>; the scheduling bounds are proved from that contract.
\<close>

section \<open>Rounding and alignment\<close>

definition ceil_division :: "u32 \<Rightarrow> u32 \<Rightarrow> u32" where
  "ceil_division a b = (a + b - 1) div b"

definition ceil_division_int :: "int \<Rightarrow> int \<Rightarrow> int" where
  "ceil_division_int a b = (a + b - 1) sdiv b"

definition round_up :: "u32 \<Rightarrow> u32 \<Rightarrow> u32" where
  "round_up a b = ((a + b - 1) div b) * b"

definition round_up_int :: "int \<Rightarrow> int \<Rightarrow> int" where
  "round_up_int a b = ((a + b - 1) sdiv b) * b"

definition dw_channel_align :: "u32 \<Rightarrow> u32" where
  "dw_channel_align channels = (if channels \<le> 16 then 16 else round_up channels 32)"

definition eltwise_channel_align :: "u32 \<Rightarrow> u32" where
  "eltwise_channel_align channels = round_up channels 16"

definition is_dwconv_family_operation :: "Operation \<Rightarrow> bool" where
  "is_dwconv_family_operation op \<longleftrightarrow> op = DW_CONVOLUTION \<or> op = AVEPOOL \<or> op = MAXPOOL"

definition is_alignment_required_operation :: "Operation \<Rightarrow> bool" where
  "is_alignment_required_operation op \<longleftrightarrow> is_dwconv_family_operation op \<or> op = ELTWISE"

text \<open>
  The accumulator of \<open>multiply_vector\<close> is an \<open>int\<close> (the initial value is the literal 1) and every product
  is taken in \<open>unsigned int\<close>. Reading past the end of the second vector of
  \<open>divide_and_multiply_vectors\<close> is undefined, here \<open>None\<close>.
\<close>

definition multiply_vector :: "u32 list \<Rightarrow> u32" where
  "multiply_vector vec = to_u32 (fold (\<lambda>v acc. to_int (to_u32 acc * v)) vec 1)"

fun divide_and_multiply_loop :: "u32 \<Rightarrow> u32 list \<Rightarrow> u32 list \<Rightarrow> u32 option" where
  "divide_and_multiply_loop result [] v2 = Some result"
| "divide_and_multiply_loop result (a # v1) [] = None"
| "divide_and_multiply_loop result (a # v1) (b # v2) = divide_and_multiply_loop (result * ceil_division a b) v1 v2"

definition divide_and_multiply_vectors :: "u32 list \<Rightarrow> u32 list \<Rightarrow> u32 option" where
  "divide_and_multiply_vectors v1 v2 = divide_and_multiply_loop 1 v1 v2"

definition helper_input_dim :: "u32 \<Rightarrow> u32 \<Rightarrow> u32 \<Rightarrow> u32 \<Rightarrow> u32" where
  "helper_input_dim output kernel_size total_padding stride =
     (let raw_input = (to_int output - 1) * to_int stride - to_int total_padding + to_int kernel_size;
          input = (if raw_input \<le> 0 \<or> output = 0 then 0 else raw_input)
      in to_u32 input)"

section \<open>Scheduling on N processors\<close>

definition pq_top :: "'a list \<Rightarrow> 'a option" where
  "pq_top q = (case q of [] \<Rightarrow> None | x # _ \<Rightarrow> Some x)"

definition pq_pop :: "'a list \<Rightarrow> 'a list" where
  "pq_pop q = tl q"

definition pq_push :: "'a :: linorder \<Rightarrow> 'a list \<Rightarrow> 'a list" where
  "pq_push x q = insort x q"

text \<open>
  The loops the two versions of \<open>dpu_schedule\<close> share: \<open>run_tasks\<close> gives every task to the processor that is
  free first, \<open>advance\<close> being what the version pushes back; \<open>drain\<close> empties the queue and keeps the last
  value. \<open>top()\<close> of an empty queue is undefined behaviour, here \<open>None\<close>.
\<close>

fun run_tasks :: "('a :: linorder \<Rightarrow> 'a \<Rightarrow> 'a) \<Rightarrow> 'a list \<Rightarrow> 'a list \<Rightarrow> 'a list option" where
  "run_tasks advance queue [] = Some queue"
| "run_tasks advance queue (cost # tasks_cost) =
     (case pq_top queue of
        None \<Rightarrow> None
      | Some smallest_time \<Rightarrow>
          run_tasks advance (pq_push (advance smallest_time cost) (pq_pop queue)) tasks_cost)"

fun drain :: "'a \<Rightarrow> 'a list \<Rightarrow> 'a" where
  "drain result [] = result"
| "drain result (t # queue) = drain t queue"

definition dpu_schedule_template :: "u32 \<Rightarrow> 'a :: {linorder, plus, zero} list \<Rightarrow> 'a \<Rightarrow> 'a option" where
  "dpu_schedule_template n_procesors tasks_cost runtime_overhead =
     map_option (drain 0)
       (run_tasks (\<lambda>smallest_time cost. smallest_time + cost + runtime_overhead)
         (replicate (unat n_procesors) 0) tasks_cost)"

definition dpu_schedule :: "u32 \<Rightarrow> CyclesInterfaceType list \<Rightarrow> CyclesInterfaceType \<Rightarrow> CyclesInterfaceType option" where
  "dpu_schedule n_procesors tasks_cost runtime_overhead =
     map_option (drain 0)
       (run_tasks (\<lambda>smallest_time cost. cost_adder (cost_adder smallest_time cost) runtime_overhead)
         (replicate (unat n_procesors) 0) tasks_cost)"

section \<open>The contract of the queue\<close>

lemma least_times_size: "(\<And>y. y \<in># M \<Longrightarrow> t \<le> y) \<Longrightarrow> size M * t \<le> sum_mset (M :: nat multiset)"
  by (induction M) fastforce+

locale min_queue =
  fixes q_top :: "'q \<Rightarrow> 'a :: linorder option" and q_pop :: "'q \<Rightarrow> 'q" and q_push :: "'a \<Rightarrow> 'q \<Rightarrow> 'q"
    and elems :: "'q \<Rightarrow> 'a multiset" and invar :: "'q \<Rightarrow> bool"
  assumes top_empty: "invar q \<Longrightarrow> elems q = {#} \<Longrightarrow> q_top q = None"
    and top_least: "invar q \<Longrightarrow> elems q \<noteq> {#} \<Longrightarrow> \<exists>t. q_top q = Some t \<and> t \<in># elems q \<and> (\<forall>x \<in># elems q. t \<le> x)"
    and elems_pop: "invar q \<Longrightarrow> q_top q = Some t \<Longrightarrow> elems q = add_mset t (elems (q_pop q))"
    and elems_push: "invar q \<Longrightarrow> elems (q_push x q) = add_mset x (elems q)"
    and invar_pop: "invar q \<Longrightarrow> invar (q_pop q)"
    and invar_push: "invar q \<Longrightarrow> invar (q_push x q)"
begin

lemma replace_top:
  assumes "invar q" "q_top q = Some t"
  shows "invar (q_push x (q_pop q))" "elems (q_push x (q_pop q)) = add_mset x (elems q - {#t#})"
    "\<And>y. y \<in># elems q \<Longrightarrow> t \<le> y" "t \<in># elems q"
proof -
  have pop: "elems q = add_mset t (elems (q_pop q))" using elems_pop [OF assms] .
  show "invar (q_push x (q_pop q))" using assms(1) by (simp add: invar_pop invar_push)
  show "elems (q_push x (q_pop q)) = add_mset x (elems q - {#t#})"
    using pop assms(1) by (simp add: elems_push invar_pop)
  have "elems q \<noteq> {#}" using pop by simp
  then show "t \<le> y" if "y \<in># elems q" for y
    using top_least [OF assms(1)] assms(2) that by auto
  show "t \<in># elems q" using pop by simp
qed

end

interpretation list_queue: min_queue pq_top pq_pop pq_push mset sorted
proof unfold_locales
  fix q :: "'a :: linorder list" and t x :: 'a
  assume s: "sorted q"
  show "mset q = {#} \<Longrightarrow> pq_top q = None" by (simp add: pq_top_def)
  show "mset q \<noteq> {#} \<Longrightarrow> \<exists>t. pq_top q = Some t \<and> t \<in># mset q \<and> (\<forall>x \<in># mset q. t \<le> x)"
    using s by (cases q) (auto simp: pq_top_def)
  show "pq_top q = Some t \<Longrightarrow> mset q = add_mset t (mset (pq_pop q))"
    by (cases q) (auto simp: pq_top_def pq_pop_def)
  show "mset (pq_push x q) = add_mset x (mset q)" by (simp add: pq_push_def)
  show "sorted (pq_pop q)" using s by (simp add: pq_pop_def sorted_tl)
  show "sorted (pq_push x q)" using s by (simp add: pq_push_def sorted_insort)
qed

section \<open>Scheduling: invariants of the loop\<close>

lemma drain_last: "q \<noteq> [] \<Longrightarrow> drain r q = last q"
  by (induction r q rule: drain.induct) auto

lemma drain_maximum:
  assumes "sorted q" "q \<noteq> []"
  shows "drain r q \<in> set q" "x \<in> set q \<Longrightarrow> x \<le> drain r q"
proof -
  show "drain r q \<in> set q" using assms(2) by (simp add: drain_last)
  show "x \<le> drain r q" if "x \<in> set q"
  proof -
    obtain p where "q = p @ [last q]" using assms(2) by (metis append_butlast_last_id)
    then show ?thesis
      using assms that by (simp add: drain_last) (metis Un_iff empty_iff insert_iff list.set(1,2) order_refl set_append sorted_append)
  qed
qed

text \<open>One task moves the load of the processor that is free first and keeps the number of processors.\<close>

lemma run_tasks_total:
  assumes "sorted q" "q \<noteq> []"
  shows "\<exists>q'. run_tasks f q cs = Some q' \<and> sorted q' \<and> length q' = length q"
  using assms
proof (induction cs arbitrary: q)
  case Nil
  then show ?case by simp
next
  case (Cons c cs)
  then obtain t where t: "pq_top q = Some t" by (cases q) (auto simp: pq_top_def)
  let ?q = "pq_push (f t c) (pq_pop q)"
  have "sorted ?q" using list_queue.replace_top(1) [OF Cons.prems(1) t] .
  moreover have "length ?q = length q" using Cons.prems(2) by (cases q) (auto simp: pq_push_def pq_pop_def)
  moreover from this have "?q \<noteq> []" using Cons.prems(2) by auto
  ultimately show ?case using Cons.IH [of ?q] t by auto
qed

lemma run_tasks_balanced:
  fixes q :: "nat list"
  assumes "sorted q" "run_tasks (\<lambda>t c. t + c + ovh) q cs = Some q'"
    and "\<forall>x \<in># mset q. length q * x \<le> sum_mset (mset q) + (length q - 1) * m"
    and "\<forall>c \<in> set cs. c + ovh \<le> m"
  shows "sum_mset (mset q') = sum_mset (mset q) + (\<Sum>c \<leftarrow> cs. c + ovh) \<and> length q' = length q \<and> sorted q' \<and>
    (\<forall>x \<in># mset q'. length q' * x \<le> sum_mset (mset q') + (length q' - 1) * m)"
  using assms
proof (induction cs arbitrary: q)
  case Nil
  then show ?case by simp
next
  case (Cons c cs)
  obtain t where t: "pq_top q = Some t" using Cons.prems(2) by (auto split: option.splits)
  let ?n = "length q" and ?q = "pq_push (t + c + ovh) (pq_pop q)"
  note rt = list_queue.replace_top [OF Cons.prems(1) t]
  note new_elems = rt(2) [of "t + c + ovh"]
  have q': "run_tasks (\<lambda>t c. t + c + ovh) ?q cs = Some q'" using Cons.prems(2) t by simp
  have n: "length ?q = ?n" "0 < ?n"
    using new_elems rt(4) size_mset [of ?q] size_mset [of q]
    by (auto simp: size_Suc_Diff1 simp del: size_mset)
  have sum: "sum_mset (mset ?q) = sum_mset (mset q) + (c + ovh)"
    using new_elems rt(4) by (metis (no_types, lifting) add.assoc add.commute insert_DiffM sum_mset.add_mset)
  have "?n * t \<le> sum_mset (mset q)" using least_times_size [OF rt(3)] by (metis size_mset)
  moreover have "?n * (c + ovh) \<le> (c + ovh) + (?n - 1) * m"
  proof -
    have "(?n - 1) * (c + ovh) \<le> (?n - 1) * m" using Cons.prems(4) by simp
    then show ?thesis using n(2) by (cases ?n) simp_all
  qed
  ultimately have new: "?n * (t + c + ovh) \<le> sum_mset (mset ?q) + (?n - 1) * m"
    unfolding sum by (simp add: algebra_simps)
  have "\<forall>x \<in># mset ?q. length ?q * x \<le> sum_mset (mset ?q) + (length ?q - 1) * m"
  proof
    fix x assume "x \<in># mset ?q"
    then consider "x = t + c + ovh" | "x \<in># mset q" using new_elems by (auto dest: in_diffD)
    then show "length ?q * x \<le> sum_mset (mset ?q) + (length ?q - 1) * m"
    proof cases
      case 1
      then show ?thesis using new n(1) by simp
    next
      case 2
      then have "?n * x \<le> sum_mset (mset q) + (?n - 1) * m" using Cons.prems(3) by blast
      then show ?thesis using n(1) unfolding sum by simp
    qed
  qed
  from Cons.IH [OF rt(1) q' this] Cons.prems(4) show ?case by (auto simp: sum n)
qed

lemma run_tasks_grows:
  assumes "sorted q" "run_tasks f q cs = Some q'" "\<And>t c. t \<le> f t c"
  shows "(\<forall>x \<in> set q. \<exists>y \<in> set q'. x \<le> y) \<and> (\<forall>c \<in> set cs. \<exists>t. \<exists>y \<in> set q'. f t c \<le> y)"
  using assms(1,2)
proof (induction cs arbitrary: q)
  case Nil
  then show ?case by auto
next
  case (Cons c cs)
  obtain t where t: "pq_top q = Some t" using Cons.prems(2) by (auto split: option.splits)
  let ?q = "pq_push (f t c) (pq_pop q)"
  note rt = list_queue.replace_top [OF Cons.prems(1) t]
  have "run_tasks f ?q cs = Some q'" using Cons.prems(2) t by simp
  note IH = Cons.IH [OF rt(1) this]
  have elems: "f t c \<in> set ?q" "\<And>x. x \<in> set q \<Longrightarrow> x = t \<or> x \<in> set ?q"
    using t by (auto simp: pq_top_def pq_push_def pq_pop_def set_insort_key split: list.splits)
  have old: "\<exists>y \<in> set q'. x \<le> y" if "x \<in> set q" for x
    using elems(2) [OF that] IH elems(1) assms(3) [of t c] by (meson order_trans)
  moreover have "\<exists>t. \<exists>y \<in> set q'. f t c' \<le> y" if "c' \<in> set (c # cs)" for c'
    using that IH elems(1) by (cases "c' = c") (blast, auto)
  ultimately show ?case by blast
qed

lemma map_unat_insort: "map unat (insort (x :: u32) q) = insort (unat x) (map unat q)"
  by (induction q) (auto simp: word_le_nat_alt)

lemma sum_list_insort: "sum_list (insort (x :: nat) q) = x + sum_list q"
  by (induction q) auto

text \<open>The scheduling of cycle values is the scheduling of natural numbers while the total stays valid.\<close>

lemma run_tasks_refines:
  assumes "sum_list (map unat q) + (\<Sum>c \<leftarrow> cs. unat c + unat ovh) \<le> 4294966295"
  shows "map_option (map unat) (run_tasks (\<lambda>t c. cost_adder (cost_adder t c) ovh) q cs) =
    run_tasks (\<lambda>t c. t + c + unat ovh) (map unat q) (map unat cs)"
  using assms
proof (induction cs arbitrary: q)
  case Nil
  then show ?case by simp
next
  case (Cons c cs)
  show ?case
  proof (cases q)
    case Nil
    then show ?thesis by (simp add: pq_top_def)
  next
    case (Cons t q')
    have "unat t + unat c + unat ovh \<le> 4294966295" using Cons.prems Cons by simp
    then have a: "unat (cost_adder (cost_adder t c) ovh) = unat t + unat c + unat ovh"
      by (simp add: unat_cost_adder)
    let ?q = "pq_push (cost_adder (cost_adder t c) ovh) q'"
    have "sum_list (map unat ?q) + (\<Sum>c \<leftarrow> cs. unat c + unat ovh) \<le> 4294966295"
      using Cons.prems Cons a by (simp add: pq_push_def map_unat_insort sum_list_insort)
    from Cons.IH [OF this] show ?thesis
      by (simp add: Cons pq_top_def pq_pop_def pq_push_def map_unat_insort a)
  qed
qed

lemma cost_adder_ge_left: "t \<le> cost_adder t c"
proof (cases "isErrorCode t \<or> isErrorCode c")
  case True
  then show ?thesis
    by (cases "isErrorCode t") (auto simp: cost_adder_def isErrorCode_def)
next
  case False
  then show ?thesis
    using cost_adder_valid [of t c] unat_cost_adder [of t c]
    by (auto simp: word_le_nat_alt cycles_code_defs isErrorCode_unat)
qed

lemma isErrorCode_mono: "isErrorCode a \<Longrightarrow> a \<le> b \<Longrightarrow> isErrorCode b"
  by (auto simp: isErrorCode_def)

lemma dpu_schedule_result:
  assumes "n \<noteq> 0" "dpu_schedule n cs ovh = Some r"
  obtains q where "run_tasks (\<lambda>t c. cost_adder (cost_adder t c) ovh) (replicate (unat n) 0) cs = Some q"
    "sorted q" "length q = unat n" "r \<in> set q" "\<forall>x \<in> set q. x \<le> r"
proof -
  let ?f = "\<lambda>t c. cost_adder (cost_adder t c) ovh"
  have n: "replicate (unat n) (0 :: u32) \<noteq> []" using assms(1) by (simp add: unat_eq_zero)
  obtain q where q: "run_tasks ?f (replicate (unat n) 0) cs = Some q" "sorted q" "length q = unat n"
    using run_tasks_total [of "replicate (unat n) (0 :: u32)" ?f cs] n by auto
  then have "q \<noteq> []" using n by auto
  moreover have "r = drain 0 q" using assms(2) q(1) by (simp add: dpu_schedule_def)
  ultimately show ?thesis using drain_maximum [of q] q that [of q] by auto
qed

lemma dpu_schedule_total: "n \<noteq> 0 \<Longrightarrow> \<exists>r. dpu_schedule n cs ovh = Some r"
  using run_tasks_total [of "replicate (unat n) (0 :: u32)"]
  by (fastforce simp: dpu_schedule_def unat_eq_zero)

lemma dpu_schedule_bounds_nat:
  assumes "n \<noteq> 0" "(\<Sum>c \<leftarrow> cs. unat c + unat ovh) \<le> 4294966295" "dpu_schedule n cs ovh = Some r"
  shows "\<not> isErrorCode r" "(\<Sum>c \<leftarrow> cs. unat c + unat ovh) \<le> unat n * unat r"
    "c \<in> set cs \<Longrightarrow> unat c + unat ovh \<le> unat r"
    "(\<And>c. c \<in> set cs \<Longrightarrow> unat c + unat ovh \<le> m) \<Longrightarrow>
       unat n * unat r \<le> (\<Sum>c \<leftarrow> cs. unat c + unat ovh) + (unat n - 1) * m"
proof -
  let ?f = "\<lambda>t c. cost_adder (cost_adder t c) ovh" and ?g = "\<lambda>t c. t + c + unat ovh"
  let ?S = "\<Sum>c \<leftarrow> cs. unat c + unat ovh"
  obtain q where q: "run_tasks ?f (replicate (unat n) 0) cs = Some q" "sorted q" "length q = unat n"
      "r \<in> set q" "\<forall>x \<in> set q. x \<le> r"
    using dpu_schedule_result [OF assms(1,3)] by blast
  have qn: "run_tasks ?g (replicate (unat n) 0) (map unat cs) = Some (map unat q)"
    using run_tasks_refines [of "replicate (unat n) 0" ovh cs] assms(2) q(1)
    by (simp add: map_replicate_const sum_list_eq_0_replicate)
  have bal: "sum_list (map unat q) = ?S \<and> (\<forall>x \<in> set q. unat n * unat x \<le> ?S + (unat n - 1) * M)"
    if "\<forall>c \<in> set cs. unat c + unat ovh \<le> M" for M
  proof -
    have "\<forall>x \<in># mset (replicate (unat n) 0). length (replicate (unat n) (0 :: nat)) * x
        \<le> sum_mset (mset (replicate (unat n) 0)) + (length (replicate (unat n) (0 :: nat)) - 1) * M"
      by simp
    from run_tasks_balanced [OF _ qn this] that q(3) show ?thesis
      by (auto simp: sum_mset_sum_list comp_def sum_list_eq_0_replicate simp flip: mset_map)
  qed
  define M where "M = Max (insert 0 ((\<lambda>c. unat c + unat ovh) ` set cs))"
  have total: "sum_list (map unat q) = ?S" using bal [of M] by (simp add: M_def)
  have "sum_list (map unat q) \<le> sum_list (map (\<lambda>_. unat r) q)"
    using q(5) by (intro sum_list_mono) (simp add: word_le_nat_alt)
  then show "?S \<le> unat n * unat r" using q(3) total by (simp add: sum_list_triv)
  have "unat r \<le> ?S" using member_le_sum_list [of "unat r" "map unat q"] q(4) total by simp
  then show "\<not> isErrorCode r" using assms(2) by (simp add: isErrorCode_unat)
  show "unat c + unat ovh \<le> unat r" if c: "c \<in> set cs"
  proof -
    have "\<exists>t. \<exists>y \<in> set (map unat q). t + unat c + unat ovh \<le> y"
      using run_tasks_grows [OF _ qn] c by simp
    then obtain t y where "y \<in> set q" "t + unat c + unat ovh \<le> unat y" by auto
    then show ?thesis using q(5) by (fastforce simp: word_le_nat_alt)
  qed
  show "unat n * unat r \<le> ?S + (unat n - 1) * m" if "\<And>c. c \<in> set cs \<Longrightarrow> unat c + unat ovh \<le> m"
    using bal [of m] that q(4) by blast
qed

section \<open>Rounding read on natural numbers\<close>

lemma unat_add_pred:
  assumes "b \<noteq> (0 :: u32)" "unat a + unat b \<le> 4294967296"
  shows "unat (a + b - 1) = unat a + unat b - 1"
proof -
  have b1: "unat (b - 1) = unat b - 1" using assms(1) by (simp add: unat_minus_one)
  have "0 < unat b" using assms(1) by (simp add: unat_gt_0)
  then have "unat a + unat (b - 1) < 4294967296" using assms(2) b1 by linarith
  then have "unat (a + (b - 1)) = unat a + (unat b - 1)" using b1 by (simp add: unat_add_nowrap)
  then show ?thesis using \<open>0 < unat b\<close> by (simp add: add_diff_eq)
qed

lemma unat_ceil_division [u32_nowrap]:
  assumes "b \<noteq> 0" "unat a + unat b \<le> 4294967296"
  shows "unat (ceil_division a b) = (unat a + unat b - 1) div unat b"
  using assms by (simp add: ceil_division_def unat_div_u32 unat_add_pred)

lemma round_up_ceil: "round_up a b = ceil_division a b * b"
  by (simp add: round_up_def ceil_division_def)

lemma unat_round_up [u32_nowrap]:
  assumes "b \<noteq> 0" "unat a + unat b \<le> 4294967296"
  shows "unat (round_up a b) = (unat a + unat b - 1) div unat b * unat b"
proof -
  have "(unat a + unat b - 1) div unat b * unat b < unat a + unat b"
    using assms(1) by (intro ceil_div_mult_less) (simp add: unat_gt_0)
  then have "unat (ceil_division a b) * unat b < 4294967296"
    using assms by (simp add: unat_ceil_division)
  then show ?thesis
    unfolding round_up_ceil using assms by (simp add: unat_mult_nowrap unat_ceil_division)
qed

lemma round_up_bounds:
  assumes "b \<noteq> 0" "unat a + unat b \<le> 4294967296"
  shows "unat a \<le> unat (round_up a b)" "unat (round_up a b) < unat a + unat b"
    "unat b dvd unat (round_up a b)"
  using assms ceil_div_mult_ge [of "unat b" "unat a"] ceil_div_mult_less [of "unat b" "unat a"]
  by (simp_all add: unat_round_up unat_gt_0)

lemma round_up_least:
  assumes "b \<noteq> 0" "unat a + unat b \<le> 4294967296" "unat b dvd m" "unat a \<le> m"
  shows "unat (round_up a b) \<le> m"
proof -
  obtain k where m: "m = k * unat b" using assms(3) by (metis dvd_def mult.commute)
  have "(unat a + unat b - 1) div unat b \<le> k"
    using assms(1,4) m by (subst ceil_div_le_iff) (simp_all add: unat_gt_0)
  then show ?thesis using assms(1,2) m by (simp add: unat_round_up)
qed

section \<open>Properties of the helpers\<close>

text \<open>
  \<open>round_up a b\<close> is the least multiple of \<open>b\<close> that is not below \<open>a\<close>, for every non-zero \<open>b\<close> such that
  \<open>a + b - 1\<close> fits in 32 bits.
\<close>

theorem round_up_is_least_multiple:
  assumes "b \<noteq> 0" "unat a + unat b \<le> 2 ^ 32"
  shows "unat b dvd unat (round_up a b) \<and> unat a \<le> unat (round_up a b) \<and>
    (\<forall>m. unat b dvd m \<and> unat a \<le> m \<longrightarrow> unat (round_up a b) \<le> m)"
  using assms round_up_bounds [of b a] round_up_least [of b a] by simp

theorem round_up_is_least_multiple_witness:
  "unat (16 :: u32) dvd unat (round_up 33 16) \<and> unat (33 :: u32) \<le> unat (round_up 33 16) \<and>
    unat (round_up 33 16) \<le> 48"
  using round_up_is_least_multiple [of 16 33] by simp

text \<open>
  The input dimension of an operation: when the signed computation yields a positive dimension and
  stays within 31 bits, the dimension satisfies the equation the source asserts, so that the convolution
  arithmetic in \<open>unsigned int\<close> on it gives the requested output dimension back.
\<close>

theorem helper_input_dim_inverse:
  assumes "output \<noteq> 0" "stride \<noteq> 0"
    and "unat output < 2 ^ 15" "unat stride < 2 ^ 15" "unat k < 2 ^ 15" "unat p < 2 ^ 15"
    and "unat p < (unat output - 1) * unat stride + unat k"
  shows "(helper_input_dim output k p stride + p - k) div stride + 1 = output"
proof -
  let ?m = "(unat output - 1) * unat stride"
  have o: "0 < unat output" using assms(1) by (simp add: unat_gt_0)
  have m: "?m < 2 ^ 30"
  proof -
    have "?m \<le> (2 ^ 15 - 1) * (2 ^ 15 - 1)" using assms(3,4) by (intro mult_le_mono) simp_all
    then show ?thesis by simp
  qed
  have si: "to_int output = int (unat output)" "to_int stride = int (unat stride)"
    "to_int k = int (unat k)" "to_int p = int (unat p)"
    using assms(3-6) by (simp_all add: to_int_small)
  have raw: "(to_int output - 1) * to_int stride - to_int p + to_int k = int (?m + unat k - unat p)"
    unfolding si using o assms(7) by (simp add: of_nat_diff)
  have pos: "\<not> int (?m + unat k - unat p) \<le> 0" using assms(7) by linarith
  have h: "helper_input_dim output k p stride = word_of_nat (?m + unat k - unat p)"
    unfolding helper_input_dim_def raw Let_def using assms(1) pos by (simp only: simp_thms if_False of_int_of_nat_eq)
  have "helper_input_dim output k p stride + p - k = word_of_nat ?m"
  proof -
    have "word_of_nat (?m + unat k - unat p) + word_of_nat (unat p) = (word_of_nat (?m + unat k) :: u32)"
      using assms(7) by (simp flip: of_nat_add)
    then show ?thesis unfolding h by simp
  qed
  moreover have "unat (word_of_nat ?m :: u32) = ?m"
    using m by (intro unat_word_of_nat) simp
  ultimately have "unat ((helper_input_dim output k p stride + p - k) div stride) = unat output - 1"
    using assms(2) by (simp add: unat_div_u32 unat_gt_0)
  then have "unat ((helper_input_dim output k p stride + p - k) div stride + 1) = unat output"
    using o by (simp add: unat_add_nowrap)
  then show ?thesis by (simp add: word_unat_eq_iff)
qed

theorem helper_input_dim_inverse_witness:
  "(helper_input_dim 56 3 2 2 + 2 - 3) div 2 + 1 = (56 :: u32)"
  by (rule helper_input_dim_inverse) simp_all

section \<open>Properties of the schedule\<close>

text \<open>
  C2. The schedule on N processors is a list schedule: when the costs and the overheads add up to a valid
  cycle count, \<open>dpu_schedule\<close> returns a valid cost that is at least the cost of every task, at least
  the average load and, with \<open>m\<close> bounding every task, at most the average load plus \<open>(N - 1) / N\<close> of \<open>m\<close>
  (Graham's bound), so within a factor \<open>2 - 1/N\<close> of the best possible execution time.
\<close>

theorem dpu_schedule_bounds:
  assumes "n \<noteq> 0" "(\<Sum>c \<leftarrow> cs. unat c + unat ovh) \<le> unat START_ERROR_RANGE"
    and "\<And>c. c \<in> set cs \<Longrightarrow> unat c + unat ovh \<le> m"
  shows "\<exists>r. dpu_schedule n cs ovh = Some r \<and> \<not> isErrorCode r \<and>
    (\<forall>c \<in> set cs. unat c + unat ovh \<le> unat r) \<and>
    (\<Sum>c \<leftarrow> cs. unat c + unat ovh) \<le> unat n * unat r \<and>
    unat n * unat r \<le> (\<Sum>c \<leftarrow> cs. unat c + unat ovh) + (unat n - 1) * m"
proof -
  obtain r where r: "dpu_schedule n cs ovh = Some r" using dpu_schedule_total [OF assms(1)] by blast
  have "(\<Sum>c \<leftarrow> cs. unat c + unat ovh) \<le> 4294966295" using assms(2) by (simp add: cycles_code_defs)
  from dpu_schedule_bounds_nat [OF assms(1) this r] assms(3) r show ?thesis by blast
qed

theorem dpu_schedule_bounds_witness:
  "\<exists>r. dpu_schedule 2 [5, 3, 4] 1 = Some r \<and> \<not> isErrorCode r \<and>
    (\<forall>c \<in> set [5, 3, 4 :: u32]. unat c + unat (1 :: u32) \<le> unat r) \<and>
    (\<Sum>c \<leftarrow> [5, 3, 4 :: u32]. unat c + unat (1 :: u32)) \<le> unat (2 :: u32) * unat r \<and>
    unat (2 :: u32) * unat r \<le> (\<Sum>c \<leftarrow> [5, 3, 4 :: u32]. unat c + unat (1 :: u32)) + (unat (2 :: u32) - 1) * 6"
  by (rule dpu_schedule_bounds) (auto simp: cycles_code_defs)

text \<open>
  C3. Errors are never hidden by the schedule: if the cost of one task is an error code, or the overhead is
  one and there is a task, the returned execution time is an error code too, whatever the other tasks cost.
\<close>

theorem dpu_schedule_propagates_errors:
  assumes "n \<noteq> 0" "c \<in> set cs" "isErrorCode c \<or> isErrorCode ovh"
  shows "\<exists>r. dpu_schedule n cs ovh = Some r \<and> isErrorCode r"
proof -
  let ?f = "\<lambda>t c. cost_adder (cost_adder t c) ovh"
  obtain r where r: "dpu_schedule n cs ovh = Some r" using dpu_schedule_total [OF assms(1)] by blast
  obtain q where q: "run_tasks ?f (replicate (unat n) 0) cs = Some q" "sorted q" "length q = unat n"
      "r \<in> set q" "\<forall>x \<in> set q. x \<le> r"
    using dpu_schedule_result [OF assms(1) r] by blast
  have le: "t \<le> ?f t c'" for t c' using cost_adder_ge_left order_trans by blast
  have "\<forall>c \<in> set cs. \<exists>t. \<exists>y \<in> set q. ?f t c \<le> y"
    using run_tasks_grows [OF _ q(1) le] by simp
  then obtain t y where "y \<in> set q" "?f t c \<le> y" using assms(2) by blast
  moreover have "isErrorCode (?f t c)" using assms(3) by (auto simp: isErrorCode_cost_adder)
  ultimately have "isErrorCode r" using q(5) isErrorCode_mono by blast
  then show ?thesis using r by blast
qed

theorem dpu_schedule_propagates_errors_witness:
  "\<exists>r. dpu_schedule 4 [7, ERROR_INPUT_TOO_BIG, 9] 0 = Some r \<and> isErrorCode r"
  by (rule dpu_schedule_propagates_errors [where c = ERROR_INPUT_TOO_BIG]) simp_all

end
