(* ===== verification/Smart_Ranges.thy ===== *)
theory Smart_Ranges
  imports Vpu_Utils
begin

text \<open>
  The value ranges of \<^verbatim>\<open>include/vpu/ranges.h\<close>: \<open>SmartRanges\<close> is an interval with a divisor and an optional
  second divisor that only binds values from its own size upwards; \<open>MultiSmartRanges\<close> is a choice of such
  ranges. The theory models construction, membership with and without the explaining text, rounding
  to the next valid value, the iterator and the vector it enumerates, and shows that the enumeration is
  exactly the set of valid values in increasing order.

  Signed arithmetic is mathematical: executions in which a bound, a step or the common multiple leaves
  the range of \<open>int\<close> are outside the model. The iteration of \<open>transformSmartRangetoVector\<close> is a partial
  function, so that its termination is a theorem about well-formed ranges and not an assumption.
\<close>

section \<open>SmartRanges\<close>

record SmartRanges =
  lowerBound :: int
  upperBound :: int
  divisor :: int
  second_divisor :: "int option"
  lcm_cached :: "int option"

definition clamp_negative_to_zero :: "int \<Rightarrow> int" where
  "clamp_negative_to_zero value = (if value < 0 then 0 else value)"

definition normalize_divisor :: "int \<Rightarrow> int" where
  "normalize_divisor divisor_in = (if divisor_in = 0 then 1 else \<bar>divisor_in\<bar>)"

definition normalize_divisor_opt :: "int option \<Rightarrow> int option" where
  "normalize_divisor_opt second_divisor_in =
     (case second_divisor_in of Some s \<Rightarrow> Some (normalize_divisor s) | None \<Rightarrow> None)"

definition compute_lcm :: "int \<Rightarrow> int option \<Rightarrow> int option" where
  "compute_lcm divisor_in second_divisor_in =
     (case second_divisor_in of Some s \<Rightarrow> Some (lcm divisor_in s) | None \<Rightarrow> None)"

definition make_SmartRanges :: "int \<Rightarrow> int \<Rightarrow> int \<Rightarrow> int option \<Rightarrow> SmartRanges" where
  "make_SmartRanges lower upper divisor_in second_div =
     (let d = normalize_divisor divisor_in; s = normalize_divisor_opt second_div in
      \<lparr>lowerBound = clamp_negative_to_zero lower, upperBound = clamp_negative_to_zero upper,
       divisor = d, second_divisor = s, lcm_cached = compute_lcm d s\<rparr>)"

definition default_SmartRanges :: SmartRanges where
  "default_SmartRanges =
     \<lparr>lowerBound = 0, upperBound = 0, divisor = 1, second_divisor = None, lcm_cached = None\<rparr>"

text \<open>
  Reading the value of an empty optional is undefined; \<open>opt_value\<close> gives 0 there, and the code reads the
  optionals only behind \<open>has_value\<close>.
\<close>

definition opt_value :: "int option \<Rightarrow> int" where
  "opt_value opt = (case opt of Some v \<Rightarrow> v | None \<Rightarrow> 0)"

definition getStepForDomain :: "SmartRanges \<Rightarrow> int \<Rightarrow> int" where
  "getStepForDomain r value =
     (if second_divisor r \<noteq> None \<and> opt_value (second_divisor r) \<le> value
      then opt_value (lcm_cached r) else divisor r)"

definition isAcrossSecondDivisorBorder :: "SmartRanges \<Rightarrow> int \<Rightarrow> int \<Rightarrow> bool" where
  "isAcrossSecondDivisorBorder r first_value second_value \<longleftrightarrow>
     second_divisor r \<noteq> None \<and> first_value < opt_value (second_divisor r) \<and>
     opt_value (second_divisor r) \<le> second_value"

definition alignUnboundedToNextValid :: "SmartRanges \<Rightarrow> int \<Rightarrow> int" where
  "alignUnboundedToNextValid r anyValue =
     (let candidate = round_up_int anyValue (getStepForDomain r anyValue) in
      if isAcrossSecondDivisorBorder r anyValue candidate
      then round_up_int candidate (opt_value (lcm_cached r)) else candidate)"

definition incrementAssumingIsValid :: "SmartRanges \<Rightarrow> int option \<Rightarrow> int option" where
  "incrementAssumingIsValid r valid_value =
     (case valid_value of
        None \<Rightarrow> None
      | Some current \<Rightarrow>
          let stepped = current + getStepForDomain r current;
              next_value = (if isAcrossSecondDivisorBorder r current stepped then opt_value (lcm_cached r) else stepped)
          in if next_value \<le> upperBound r then Some next_value else None)"

definition is_in :: "SmartRanges \<Rightarrow> int \<Rightarrow> bool" where
  "is_in r value =
     (let belongs = (lowerBound r \<le> value \<and> value \<le> upperBound r);
          divisible = (if belongs then value smod divisor r = 0 else True);
          second_check_enabled = (if belongs \<and> divisible then second_divisor r \<noteq> None else False);
          second_divisible_OK =
            (if second_check_enabled \<and> opt_value (second_divisor r) \<le> value
             then value smod opt_value (second_divisor r) = 0 else True)
      in belongs \<and> divisible \<and> second_divisible_OK)"

text \<open>The version with a text argument returns the text as well: it is overwritten only on failure.\<close>

definition is_in_text :: "SmartRanges \<Rightarrow> int \<Rightarrow> string \<Rightarrow> bool \<times> string" where
  "is_in_text r value text =
     (if is_in r value then (True, text)
      else
        let belongs = (lowerBound r \<le> value \<and> value \<le> upperBound r);
            divisible = (if belongs then value smod divisor r = 0 else True);
            second_check_enabled = (if belongs \<and> divisible then second_divisor r \<noteq> None else False);
            second_divisible_OK =
              (if second_check_enabled \<and> opt_value (second_divisor r) \<le> value
               then value smod opt_value (second_divisor r) = 0 else True);
            t1 = (if \<not> belongs then '' Value :'' @ to_string value @ '' is not in interval ['' @
                    to_string (lowerBound r) @ '', '' @ to_string (upperBound r) @ '']'' else '''');
            t2 = (if \<not> divisible then t1 @ '' Value :'' @ to_string value @ '' is not divisible by '' @
                    to_string (divisor r) @ ''!'' else t1);
            t3 = (if \<not> second_divisible_OK then t2 @ '' Value :'' @ to_string value @ '' is not second divisible by '' @
                    to_string (opt_value (second_divisor r)) @ ''!'' else t2)
        in (False, t3))"

definition betweenLimits :: "SmartRanges \<Rightarrow> int \<Rightarrow> bool" where
  "betweenLimits r value \<longleftrightarrow> lowerBound r \<le> value \<and> value \<le> upperBound r"

definition roundToNextLarger :: "SmartRanges \<Rightarrow> int \<Rightarrow> int option" where
  "roundToNextLarger r value =
     (if betweenLimits r value then
        let candidate = alignUnboundedToNextValid r value in
        if candidate \<le> upperBound r then Some candidate else None
      else None)"

definition multiply_upper :: "SmartRanges \<Rightarrow> int \<Rightarrow> SmartRanges" where
  "multiply_upper r multiplier =
     make_SmartRanges (lowerBound r) (upperBound r * multiplier) (divisor r) (second_divisor r)"

definition multiply_lower :: "SmartRanges \<Rightarrow> int \<Rightarrow> SmartRanges" where
  "multiply_lower r multiplier =
     make_SmartRanges (lowerBound r * multiplier) (upperBound r) (divisor r) (second_divisor r)"

definition add_upper :: "SmartRanges \<Rightarrow> int \<Rightarrow> SmartRanges" where
  "add_upper r added_term =
     make_SmartRanges (lowerBound r) (upperBound r + added_term) (divisor r) (second_divisor r)"

definition add_lower :: "SmartRanges \<Rightarrow> int \<Rightarrow> SmartRanges" where
  "add_lower r added_term =
     make_SmartRanges (lowerBound r + added_term) (upperBound r) (divisor r) (second_divisor r)"

section \<open>The iterator\<close>

text \<open>
  An iterator refers to one \<open>SmartRanges\<close> object, named by its address, and holds the current value;
  \<open>None\<close> is the end position.
\<close>

record const_iterator =
  range_addr :: nat
  it_range :: SmartRanges
  it_current :: "int option"

definition sr_end :: "nat \<Rightarrow> SmartRanges \<Rightarrow> const_iterator" where
  "sr_end addr r = \<lparr>range_addr = addr, it_range = r, it_current = None\<rparr>"

definition sr_begin :: "nat \<Rightarrow> SmartRanges \<Rightarrow> const_iterator" where
  "sr_begin addr r =
     (if upperBound r < lowerBound r then sr_end addr r
      else \<lparr>range_addr = addr, it_range = r, it_current = roundToNextLarger r (lowerBound r)\<rparr>)"

definition it_increment :: "const_iterator \<Rightarrow> const_iterator" where
  "it_increment it = it\<lparr>it_current := incrementAssumingIsValid (it_range it) (it_current it)\<rparr>"

definition it_equal :: "const_iterator \<Rightarrow> const_iterator \<Rightarrow> bool" where
  "it_equal a b \<longleftrightarrow> range_addr a = range_addr b \<and> it_current a = it_current b"

definition it_assign :: "const_iterator \<Rightarrow> const_iterator \<Rightarrow> const_iterator result" where
  "it_assign self other =
     (if range_addr self \<noteq> range_addr other
      then Inl (logic_error ''Cannot assign iterators from different SmartRanges instances'')
      else Inr (self\<lparr>it_current := it_current other\<rparr>))"

partial_function (option) collect_range :: "const_iterator \<Rightarrow> const_iterator \<Rightarrow> int list option" where
  "collect_range it it_last =
     (if it_equal it it_last then Some []
      else case it_current it of
          None \<Rightarrow> None
        | Some value \<Rightarrow>
            Option.bind (collect_range (it_increment it) it_last) (\<lambda>rest. Some (value # rest)))"

definition transformSmartRangetoVector :: "SmartRanges \<Rightarrow> int list option" where
  "transformSmartRangetoVector r = collect_range (sr_begin 0 r) (sr_end 0 r)"

section \<open>MultiSmartRanges\<close>

type_synonym MultiSmartRanges = "SmartRanges list"

definition resize_mask :: "bool list \<Rightarrow> nat \<Rightarrow> bool \<Rightarrow> bool list" where
  "resize_mask mask_in n v = take n mask_in @ replicate (n - length mask_in) v"

definition effective_mask :: "bool list \<Rightarrow> nat \<Rightarrow> bool list" where
  "effective_mask mask_in n =
     (if mask_in = [] then resize_mask mask_in n True
      else if length mask_in < n then resize_mask mask_in n False else mask_in)"

text \<open>
  The loop over the ranges carries the index, the accumulated message, the message of the last range
  and the flag that some range was checked. The result is the answer and the text argument.
\<close>

fun multi_is_in_loop ::
  "int \<Rightarrow> string \<Rightarrow> nat \<Rightarrow> string \<Rightarrow> string \<Rightarrow> bool \<Rightarrow> (SmartRanges \<times> bool) list \<Rightarrow> bool \<times> string" where
  "multi_is_in_loop value text i all_failed one_message checked_any [] =
     (False, if checked_any then all_failed else ''No ranges specified'')"
| "multi_is_in_loop value text i all_failed one_message checked_any ((r, m) # rest) =
     (if m then
        (case is_in_text r value one_message of
           (True, _) \<Rightarrow> (True, text)
         | (False, msg) \<Rightarrow>
             multi_is_in_loop value text (i + 1)
               (all_failed @ '' Range '' @ to_string (int i) @ '' check failed: '' @ msg) msg True rest)
      else multi_is_in_loop value text (i + 1) all_failed one_message checked_any rest)"

definition multi_is_in_text :: "MultiSmartRanges \<Rightarrow> int \<Rightarrow> string \<Rightarrow> bool list \<Rightarrow> bool \<times> string" where
  "multi_is_in_text ranges value text mask_in =
     multi_is_in_loop value text 0 '''' '''' False (zip ranges (effective_mask mask_in (length ranges)))"

definition multi_is_in :: "MultiSmartRanges \<Rightarrow> int \<Rightarrow> bool list \<Rightarrow> bool" where
  "multi_is_in ranges value mask_in = fst (multi_is_in_text ranges value '''' mask_in)"

definition get_range :: "MultiSmartRanges \<Rightarrow> nat \<Rightarrow> SmartRanges result" where
  "get_range ranges index =
     (if length ranges \<le> index then Inl (out_of_range ''Index out of range'') else Inr (ranges ! index))"

definition multi_getUpperBound :: "MultiSmartRanges \<Rightarrow> int" where
  "multi_getUpperBound ranges = fold (\<lambda>r m. max m (upperBound r)) ranges 0"

definition multi_getLowerBound :: "MultiSmartRanges \<Rightarrow> int" where
  "multi_getLowerBound ranges = fold (\<lambda>r m. min m (lowerBound r)) ranges 0"

definition multi_multiply_lower :: "MultiSmartRanges \<Rightarrow> int \<Rightarrow> MultiSmartRanges" where
  "multi_multiply_lower ranges multiplier = map (\<lambda>r. multiply_lower r multiplier) ranges"

definition multi_multiply_upper :: "MultiSmartRanges \<Rightarrow> int \<Rightarrow> MultiSmartRanges" where
  "multi_multiply_upper ranges multiplier = map (\<lambda>r. multiply_upper r multiplier) ranges"

section \<open>Well-formed ranges\<close>

definition sr_wf :: "SmartRanges \<Rightarrow> bool" where
  "sr_wf r \<longleftrightarrow> 0 \<le> lowerBound r \<and> 0 \<le> upperBound r \<and> 0 < divisor r \<and>
     lcm_cached r = compute_lcm (divisor r) (second_divisor r) \<and>
     (case second_divisor r of None \<Rightarrow> True | Some s \<Rightarrow> 0 < s)"

lemma sr_wf_make [simp, intro]: "sr_wf (make_SmartRanges l u d s)"
  by (auto simp: sr_wf_def make_SmartRanges_def Let_def clamp_negative_to_zero_def normalize_divisor_def
      normalize_divisor_opt_def split: option.splits)

lemma sr_wf_default [simp]: "sr_wf default_SmartRanges"
  by (simp add: sr_wf_def default_SmartRanges_def compute_lcm_def)

lemma sr_wf_updates [simp]:
  "sr_wf (multiply_upper r k)" "sr_wf (multiply_lower r k)" "sr_wf (add_upper r k)" "sr_wf (add_lower r k)"
  by (simp_all add: multiply_upper_def multiply_lower_def add_upper_def add_lower_def)

text \<open>\<open>aligned r\<close> holds of the values that satisfy a range apart from its bounds.\<close>

definition aligned :: "SmartRanges \<Rightarrow> int \<Rightarrow> bool" where
  "aligned r v \<longleftrightarrow> divisor r dvd v \<and> (\<forall>s. second_divisor r = Some s \<longrightarrow> s \<le> v \<longrightarrow> s dvd v)"

lemma smod_zero_iff: "a smod b = 0 \<longleftrightarrow> b dvd (a :: int)"
  by (auto simp: signed_modulo_int_def mod_eq_0_iff_dvd sgn_eq_0_iff)

lemma is_in_iff: "is_in r v \<longleftrightarrow> lowerBound r \<le> v \<and> v \<le> upperBound r \<and> aligned r v"
  by (cases "second_divisor r") (auto simp: is_in_def Let_def aligned_def smod_zero_iff opt_value_def)

lemma round_up_int_least:
  assumes "0 \<le> v" "0 < d"
  shows "d dvd round_up_int v d" "v \<le> round_up_int v d" "d dvd u \<Longrightarrow> v \<le> u \<Longrightarrow> round_up_int v d \<le> u"
proof -
  have r: "round_up_int v d = (v + d - 1) div d * d"
    using assms by (simp add: round_up_int_def sdiv_nonneg)
  show "d dvd round_up_int v d" by (simp add: r)
  show "v \<le> round_up_int v d" unfolding r using assms(2) by (rule int_ceil_mult)
  show "round_up_int v d \<le> u" if u: "d dvd u" "v \<le> u"
  proof -
    obtain k where k: "u = k * d" using u(1) by (metis dvd_def mult.commute)
    have "(v + d - 1) div d * d < (k + 1) * d"
      using int_ceil_mult(2) [OF assms(2), of v] u(2) k by (simp add: algebra_simps)
    then have "(v + d - 1) div d \<le> k" using assms(2) by (simp add: mult_less_cancel_right)
    then show ?thesis unfolding r k using assms(2) by (intro mult_right_mono) simp_all
  qed
qed

lemma aligned_above:
  assumes "second_divisor r = Some s" "s \<le> v"
  shows "aligned r v \<longleftrightarrow> lcm (divisor r) s dvd v"
  using assms by (auto simp: aligned_def)

lemma aligned_below:
  assumes "\<And>s. second_divisor r = Some s \<Longrightarrow> v < s"
  shows "aligned r v \<longleftrightarrow> divisor r dvd v"
  using assms by (fastforce simp: aligned_def)

lemma alignUnboundedToNextValid_least:
  assumes wf: "sr_wf r" and v: "0 \<le> v"
  defines "w \<equiv> alignUnboundedToNextValid r v"
  shows "aligned r w \<and> v \<le> w \<and> (\<forall>u. aligned r u \<and> v \<le> u \<longrightarrow> w \<le> u)"
proof (cases "second_divisor r")
  case None
  then have "w = round_up_int v (divisor r)"
    by (simp add: w_def alignUnboundedToNextValid_def getStepForDomain_def isAcrossSecondDivisorBorder_def)
  then show ?thesis
    using None wf round_up_int_least [OF v, of "divisor r"] by (simp add: sr_wf_def aligned_def)
next
  case s: (Some s)
  let ?d = "divisor r" and ?L = "lcm (divisor r) s"
  have pos: "0 < ?d" "0 < s" using wf s by (auto simp: sr_wf_def)
  then have L: "0 < ?L" "lcm_cached r = Some ?L" using wf s by (auto simp: sr_wf_def compute_lcm_def lcm_pos_int)
  note defs = alignUnboundedToNextValid_def getStepForDomain_def isAcrossSecondDivisorBorder_def opt_value_def
  note above = aligned_above [OF s]
  consider (above) "s \<le> v" | (below) "v < s" "round_up_int v ?d < s" | (cross) "v < s" "s \<le> round_up_int v ?d"
    by linarith
  then show ?thesis
  proof cases
    case above
    then have w: "w = round_up_int v ?L" using s L by (simp add: w_def defs)
    show ?thesis
      using above aligned_above [OF s] round_up_int_least [OF v L(1)] unfolding w
      by (meson order_trans)
  next
    case below
    then have w: "w = round_up_int v ?d" using s by (simp add: w_def defs)
    show ?thesis
      using below s round_up_int_least [OF v pos(1)] unfolding w by (auto simp: aligned_def)
  next
    case cross
    let ?c = "round_up_int v ?d"
    have w: "w = round_up_int ?c ?L" using cross s L by (simp add: w_def defs Let_def)
    note c = round_up_int_least [OF v pos(1)]
    have "0 \<le> ?c" using c(2) v by linarith
    note l = round_up_int_least [OF this L(1)]
    have "w \<le> u" if "aligned r u" "v \<le> u" for u
    proof -
      have "?c \<le> u" using that c(3) by (simp add: aligned_def)
      then show ?thesis unfolding w using cross that aligned_above [OF s, of u] l(3) [of u] by simp
    qed
    moreover have "s \<le> w" "v \<le> w" unfolding w using l(2) cross(2) c(2) by linarith+
    moreover have "aligned r w" using l(1) aligned_above [OF s \<open>s \<le> w\<close>] w by simp
    ultimately show ?thesis by blast
  qed
qed

lemma next_multiple: "(d :: int) dvd c \<Longrightarrow> d dvd u \<Longrightarrow> c < u \<Longrightarrow> c + d \<le> u"
  using zdvd_imp_le [of d "u - c"] by simp

text \<open>The step of the iterator leads from an aligned value to the next one.\<close>

definition next_aligned :: "SmartRanges \<Rightarrow> int \<Rightarrow> int" where
  "next_aligned r c =
     (let stepped = c + getStepForDomain r c
      in if isAcrossSecondDivisorBorder r c stepped then opt_value (lcm_cached r) else stepped)"

lemma increment_next:
  "incrementAssumingIsValid r (Some c) = (if next_aligned r c \<le> upperBound r then Some (next_aligned r c) else None)"
  by (simp add: incrementAssumingIsValid_def next_aligned_def Let_def)

lemma next_aligned_least:
  assumes wf: "sr_wf r" and c: "0 \<le> c" "aligned r c"
  shows "aligned r (next_aligned r c) \<and> c < next_aligned r c \<and> (\<forall>u. aligned r u \<and> c < u \<longrightarrow> next_aligned r c \<le> u)"
proof (cases "second_divisor r")
  case None
  then have "next_aligned r c = c + divisor r"
    by (simp add: next_aligned_def getStepForDomain_def isAcrossSecondDivisorBorder_def)
  then show ?thesis
    using None wf c next_multiple [of "divisor r" c] by (auto simp: sr_wf_def aligned_def)
next
  case s: (Some s)
  let ?d = "divisor r" and ?L = "lcm (divisor r) s" and ?w = "next_aligned r c"
  have pos: "0 < ?d" "0 < s" using wf s by (auto simp: sr_wf_def)
  then have L: "0 < ?L" "lcm_cached r = Some ?L" using wf s by (auto simp: sr_wf_def compute_lcm_def lcm_pos_int)
  note defs = next_aligned_def getStepForDomain_def isAcrossSecondDivisorBorder_def opt_value_def
  have d: "?d dvd c" "aligned r u \<Longrightarrow> c < u \<Longrightarrow> c + ?d \<le> u" for u
    using c(2) next_multiple [of ?d c u] by (auto simp: aligned_def)
  consider (above) "s \<le> c" | (below) "c < s" "c + ?d < s" | (cross) "c < s" "s \<le> c + ?d" by linarith
  then show ?thesis
  proof cases
    case above
    then have w: "?w = c + ?L" using s L by (simp add: defs)
    have l: "?L dvd c" using c(2) above aligned_above [OF s, of c] by simp
    have "?w \<le> u" if "aligned r u" "c < u" for u
      using that above aligned_above [OF s, of u] next_multiple [OF l, of u] w by linarith
    moreover have "aligned r ?w" using aligned_above [OF s, of ?w] l w above L(1) by simp
    ultimately show ?thesis using w L(1) by simp
  next
    case below
    then have w: "?w = c + ?d" using s by (simp add: defs)
    show ?thesis using below s d pos(1) unfolding w by (auto simp: aligned_def)
  next
    case cross
    then have w: "?w = ?L" using s L by (simp add: defs)
    have sL: "s \<le> ?L" using L(1) by (intro zdvd_imp_le) simp_all
    have "?L \<le> u" if u: "aligned r u" "c < u" for u
    proof -
      have "s \<le> u" using d(2) [OF u] cross(2) by linarith
      then show ?thesis
        using aligned_above [OF s, of u] u c(1) L(1) by (intro zdvd_imp_le) auto
    qed
    moreover have "aligned r ?L" using aligned_above [OF s sL] by simp
    ultimately show ?thesis using w sL cross(1) by simp
  qed
qed

section \<open>The enumeration of a range\<close>

definition range_iter :: "SmartRanges \<Rightarrow> int option \<Rightarrow> const_iterator" where
  "range_iter r c = \<lparr>range_addr = 0, it_range = r, it_current = c\<rparr>"

lemma collect_range_step:
  "collect_range (range_iter r None) (sr_end 0 r) = Some []"
  "collect_range (range_iter r (Some c)) (sr_end 0 r) =
     Option.bind (collect_range (range_iter r (incrementAssumingIsValid r (Some c))) (sr_end 0 r))
       (\<lambda>rest. Some (c # rest))"
  by (subst collect_range.simps; simp add: range_iter_def sr_end_def it_equal_def it_increment_def)+

lemma collect_range_valid:
  assumes "sr_wf r" "is_in r c"
  shows "\<exists>xs. collect_range (range_iter r (Some c)) (sr_end 0 r) = Some xs \<and> sorted_wrt (<) xs \<and>
    set xs = {v. is_in r v \<and> c \<le> v}"
  using assms(2)
proof (induction "nat (upperBound r - c)" arbitrary: c rule: less_induct)
  case less
  have c: "0 \<le> c" "aligned r c" "c \<le> upperBound r" "lowerBound r \<le> c"
    using less.prems assms(1) by (auto simp: is_in_iff sr_wf_def)
  let ?n = "next_aligned r c"
  have n: "aligned r ?n" "c < ?n" "\<And>u. aligned r u \<Longrightarrow> c < u \<Longrightarrow> ?n \<le> u"
    using next_aligned_least [OF assms(1) c(1,2)] by auto
  show ?case
  proof (cases "?n \<le> upperBound r")
    case True
    then have i: "is_in r ?n" using n c by (simp add: is_in_iff)
    have "nat (upperBound r - ?n) < nat (upperBound r - c)" using n(2) True by simp
    from less.hyps [OF this i] obtain xs where xs:
      "collect_range (range_iter r (Some ?n)) (sr_end 0 r) = Some xs" "sorted_wrt (<) xs"
      "set xs = {v. is_in r v \<and> ?n \<le> v}" by blast
    have "{v. is_in r v \<and> c \<le> v} = insert c {v. is_in r v \<and> ?n \<le> v}"
      using less.prems n by (fastforce simp: is_in_iff)
    then have "set (c # xs) = {v. is_in r v \<and> c \<le> v}" "sorted_wrt (<) (c # xs)" using xs n(2) by auto
    then show ?thesis
      using True xs(1) by (simp add: collect_range_step(2) increment_next)
  next
    case False
    then have "{v. is_in r v \<and> c \<le> v} = {c}" using less.prems n(3) by (fastforce simp: is_in_iff)
    then show ?thesis using False by (simp add: collect_range_step increment_next)
  qed
qed

lemma roundToNextLarger_cases:
  assumes "sr_wf r" "betweenLimits r v"
  shows "case roundToNextLarger r v of
      Some w \<Rightarrow> is_in r w \<and> v \<le> w \<and> (\<forall>u. is_in r u \<and> v \<le> u \<longrightarrow> w \<le> u)
    | None \<Rightarrow> (\<forall>u. v \<le> u \<longrightarrow> \<not> is_in r u)"
proof -
  have v: "0 \<le> v" "lowerBound r \<le> v" using assms by (auto simp: betweenLimits_def sr_wf_def)
  from alignUnboundedToNextValid_least [OF assms(1) v(1)] show ?thesis
    using assms(2) v(2) by (fastforce simp: roundToNextLarger_def Let_def is_in_iff)
qed

lemma fold_max_int: "fold (\<lambda>r m. max m (f r)) rs (m :: int) = Max (insert m (f ` set rs))"
proof (induction rs arbitrary: m)
  case (Cons r rs)
  have "Max (insert (max m (f r)) (f ` set rs)) = Max (insert m (f ` set (r # rs)))"
    by (cases "rs = []") (simp_all add: max.assoc max.left_commute)
  then show ?case using Cons by simp
qed simp

lemma multi_is_in_loop_iff:
  "fst (multi_is_in_loop v t i a m b rs) \<longleftrightarrow> (\<exists>(r, e) \<in> set rs. e \<and> is_in r v)"
  by (induction v t i a m b rs rule: multi_is_in_loop.induct)
    (auto simp: is_in_text_def Let_def split: prod.splits bool.splits if_splits)

lemma multi_is_in_loop_text:
  "fst (multi_is_in_loop v t i a m b rs) \<Longrightarrow> snd (multi_is_in_loop v t i a m b rs) = t"
  by (induction v t i a m b rs rule: multi_is_in_loop.induct)
    (auto split: prod.splits bool.splits if_splits)

section \<open>Properties\<close>

text \<open>
  \<open>roundToNextLarger\<close> on every input: between the limits it is the least valid value that is not below
  the argument, and nothing exactly when no such value exists; outside the limits, below the lower one
  too, it is nothing.
\<close>

theorem roundToNextLarger_spec:
  assumes "sr_wf r"
  shows "case roundToNextLarger r v of
      Some w \<Rightarrow> betweenLimits r v \<and> is_in r w \<and> v \<le> w \<and> (\<forall>u. is_in r u \<and> v \<le> u \<longrightarrow> w \<le> u)
    | None \<Rightarrow> betweenLimits r v \<longrightarrow> (\<forall>u. v \<le> u \<longrightarrow> \<not> is_in r u)"
proof (cases "betweenLimits r v")
  case True
  then show ?thesis using roundToNextLarger_cases [OF assms True] by (simp split: option.splits)
next
  case False
  then show ?thesis by (simp add: roundToNextLarger_def)
qed

theorem roundToNextLarger_spec_witness:
  "case roundToNextLarger (make_SmartRanges 3 100 6 (Some 16)) 14 of
      Some w \<Rightarrow> betweenLimits (make_SmartRanges 3 100 6 (Some 16)) 14 \<and>
        is_in (make_SmartRanges 3 100 6 (Some 16)) w \<and> 14 \<le> w \<and>
        (\<forall>u. is_in (make_SmartRanges 3 100 6 (Some 16)) u \<and> 14 \<le> u \<longrightarrow> w \<le> u)
    | None \<Rightarrow> betweenLimits (make_SmartRanges 3 100 6 (Some 16)) 14 \<longrightarrow>
        (\<forall>u. 14 \<le> u \<longrightarrow> \<not> is_in (make_SmartRanges 3 100 6 (Some 16)) u)"
  by (rule roundToNextLarger_spec) simp

lemma transform_enumerates:
  assumes "sr_wf r"
  shows "\<exists>xs. transformSmartRangetoVector r = Some xs \<and> sorted_wrt (<) xs \<and> set xs = {v. is_in r v}"
proof (cases "upperBound r < lowerBound r")
  case True
  then have "{v. is_in r v} = {}" by (auto simp: is_in_iff)
  moreover have "transformSmartRangetoVector r = Some []"
    using True collect_range_step(1) [of r]
    by (simp add: transformSmartRangetoVector_def sr_begin_def sr_end_def range_iter_def)
  ultimately show ?thesis by simp
next
  case False
  then have b: "betweenLimits r (lowerBound r)" by (simp add: betweenLimits_def)
  have t: "transformSmartRangetoVector r =
      collect_range (range_iter r (roundToNextLarger r (lowerBound r))) (sr_end 0 r)"
    using False by (simp add: transformSmartRangetoVector_def sr_begin_def range_iter_def)
  note least = roundToNextLarger_cases [OF assms b]
  show ?thesis
  proof (cases "roundToNextLarger r (lowerBound r)")
    case None
    then have "{v. is_in r v} = {}" using least by (auto simp: is_in_iff)
    then show ?thesis using None collect_range_step(1) t by simp
  next
    case (Some w)
    then have "is_in r w" "{v. is_in r v \<and> w \<le> v} = {v. is_in r v}"
      using least by (auto simp: is_in_iff)
    then show ?thesis using collect_range_valid [OF assms, of w] Some t by simp
  qed
qed

text \<open>
  Iterating a range terminates and yields its valid values, all of them, each once and in
  increasing order: for every well-formed range the loop of \<open>transformSmartRangetoVector\<close> returns the
  strictly sorted list of the values that \<open>is_in\<close> accepts.
\<close>

theorem transformSmartRangetoVector_enumerates:
  assumes "sr_wf r"
  shows "\<exists>xs. transformSmartRangetoVector r = Some xs \<and> sorted_wrt (<) xs \<and> set xs = {v. is_in r v}"
  by (rule transform_enumerates [OF assms])

theorem transformSmartRangetoVector_enumerates_witness:
  "\<exists>xs. transformSmartRangetoVector (make_SmartRanges 3 100 6 (Some 16)) = Some xs \<and> sorted_wrt (<) xs \<and>
    set xs = {v. is_in (make_SmartRanges 3 100 6 (Some 16)) v}"
  by (rule transformSmartRangetoVector_enumerates) simp

text \<open>
  A choice of ranges accepts a value exactly when some range that the mask selects accepts it: an empty
  mask selects every range, a short mask leaves the missing ranges out, and the caller's text is kept
  on success.
\<close>

theorem multi_is_in_selected:
  "(fst (multi_is_in_text ranges value text m) \<longleftrightarrow>
      (\<exists>i < length ranges. (m = [] \<or> i < length m \<and> m ! i) \<and> is_in (ranges ! i) value)) \<and>
   (if fst (multi_is_in_text ranges value text m) then snd (multi_is_in_text ranges value text m) = text else True)"
proof
  let ?em = "effective_mask m (length ranges)"
  have len: "length ranges \<le> length ?em" by (auto simp: effective_mask_def resize_mask_def)
  have sel: "?em ! i \<longleftrightarrow> m = [] \<or> i < length m \<and> m ! i" if "i < length ranges" for i
    using that by (auto simp: effective_mask_def resize_mask_def nth_append)
  have "(\<exists>(r, e) \<in> set (zip ranges ?em). e \<and> is_in r value) \<longleftrightarrow>
      (\<exists>i < length ranges. ?em ! i \<and> is_in (ranges ! i) value)"
    using len by (fastforce simp: set_zip)
  then show "fst (multi_is_in_text ranges value text m) \<longleftrightarrow>
      (\<exists>i < length ranges. (m = [] \<or> i < length m \<and> m ! i) \<and> is_in (ranges ! i) value)"
    using sel by (auto simp: multi_is_in_text_def multi_is_in_loop_iff)
  show "if fst (multi_is_in_text ranges value text m) then snd (multi_is_in_text ranges value text m) = text else True"
    by (simp add: multi_is_in_text_def multi_is_in_loop_text)
qed

text \<open>
  The bounds of a choice of ranges: the upper bound is the largest one, the lower bound is always 0,
  because the minimum is accumulated from 0 and no bound is negative.
\<close>

theorem multi_bounds:
  assumes "\<forall>r \<in> set ranges. sr_wf r"
  shows "multi_getUpperBound ranges = Max (insert 0 (upperBound ` set ranges)) \<and> multi_getLowerBound ranges = 0"
proof
  show "multi_getUpperBound ranges = Max (insert 0 (upperBound ` set ranges))"
    by (simp add: multi_getUpperBound_def fold_max_int)
  have "fold (\<lambda>r m. min m (lowerBound r)) rs 0 = 0" if "\<forall>r \<in> set rs. sr_wf r" for rs
    using that by (induction rs) (auto simp: sr_wf_def min_absorb1)
  then show "multi_getLowerBound ranges = 0" using assms by (simp add: multi_getLowerBound_def)
qed

theorem multi_bounds_witness:
  "multi_getUpperBound [make_SmartRanges 16 64 16 None, make_SmartRanges 32 128 32 None] =
     Max (insert 0 (upperBound ` set [make_SmartRanges 16 64 16 None, make_SmartRanges 32 128 32 None])) \<and>
   multi_getLowerBound [make_SmartRanges 16 64 16 None, make_SmartRanges 32 128 32 None] = 0"
  by (rule multi_bounds) simp

end
