(* ===== verification/Comparators.thy ===== *)
theory Comparators
  imports Npu_Prelude "HOL-Library.Product_Lexorder"
begin

text \<open>
  The contract of a comparator that the ordered containers of the C++ library require of \<^verbatim>\<open>operator<\<close>:
  a strict weak order. The comparators of the sources are lexicographic chains of
  \<^verbatim>\<open>if (a < b) return true; if (b < a) return false;\<close>, which is the order of a key: a comparator that
  is given by a key satisfies the contract, and the values it cannot tell apart are those with equal keys.
\<close>

lemma lexicographic_step:
  "(if a < b then True else if b < a then False else R) \<longleftrightarrow> (a, x) < (b, y)"
  if "R \<longleftrightarrow> x < y" for a b :: "'a :: linorder" and x y :: "'b :: linorder"
  using that by (auto simp: less_prod_def' not_less)

lemma lexicographic_last:
  "(if a < b then True else if b < a then False else False) \<longleftrightarrow> a < (b :: 'a :: linorder)"
  by auto

lemma linorder_strict_weak:
  fixes x y z :: "'a :: linorder"
  shows "\<not> x < x \<and> (x < y \<and> y < z \<longrightarrow> x < z) \<and>
    (\<not> x < y \<and> \<not> y < x \<and> \<not> y < z \<and> \<not> z < y \<longrightarrow> \<not> x < z \<and> \<not> z < x)"
  by auto

text \<open>The other form of chain: \<^verbatim>\<open>if (!(a == b)) return a < b;\<close>.\<close>

lemma lexicographic_neq_step:
  fixes k l :: "'a :: linorder" and x y :: "'b :: linorder"
  assumes "P \<longleftrightarrow> k \<noteq> l" "k \<noteq> l \<Longrightarrow> L \<longleftrightarrow> k < l" "R \<longleftrightarrow> x < y"
  shows "(if P then L else R) \<longleftrightarrow> (k, x) < (l, y)"
  using assms by auto

lemma lexicographic_neq_last:
  fixes k l :: "'a :: linorder"
  assumes "P \<longleftrightarrow> k \<noteq> l" "k \<noteq> l \<Longrightarrow> L \<longleftrightarrow> k < l"
  shows "(if P then L else False) \<longleftrightarrow> k < l"
  using assms by auto

locale strict_weak_order =
  fixes less :: "'a \<Rightarrow> 'a \<Rightarrow> bool"
  assumes irreflexive: "\<not> less a a"
    and transitive: "less a b \<Longrightarrow> less b c \<Longrightarrow> less a c"
    and equivalence_transitive:
      "\<not> less a b \<Longrightarrow> \<not> less b a \<Longrightarrow> \<not> less b c \<Longrightarrow> \<not> less c b \<Longrightarrow> \<not> less a c \<and> \<not> less c a"
begin

lemma asymmetric: "less a b \<Longrightarrow> \<not> less b a"
  using irreflexive transitive by blast

lemma less_respects_equivalence:
  assumes "less a b" "\<not> less a c" "\<not> less c a"
  shows "less c b"
proof (rule ccontr)
  assume "\<not> less c b"
  show False
  proof (cases "less b c")
    case True
    then show False using transitive [OF assms(1) True] assms(2) by blast
  next
    case False
    then show False
      using equivalence_transitive [of a c b] assms \<open>\<not> less c b\<close> by blast
  qed
qed

end

locale keyed_order =
  fixes less :: "'a \<Rightarrow> 'a \<Rightarrow> bool" and key :: "'a \<Rightarrow> 'k :: linorder"
  assumes less_key: "less a b \<longleftrightarrow> key a < key b"
begin

lemma equivalent_iff_same_key: "\<not> less a b \<and> \<not> less b a \<longleftrightarrow> key a = key b"
  by (auto simp: less_key)

end

sublocale keyed_order \<subseteq> strict_weak_order
  by unfold_locales (auto simp: less_key)

end
