(* ===== verification/Tensor.thy ===== *)
theory Tensor
  imports Dtype_Info Vpu_Utils Comparators
begin

text \<open>
  Tensors: \<open>VPUTensor\<close> of \<^verbatim>\<open>include/vpu/vpu_tensor.h\<close> with its shape, the memory it occupies in the four
  packing modes, its validity tests and its order, and \<open>TensorInfo\<close> of
  \<^verbatim>\<open>include/vpu/validation/serializable_tensor.h\<close> with the conversions between the two.

  The shape \<^verbatim>\<open>std::array<unsigned int, 4>\<close> is a record with one field per index of \<open>Dim::Act\<close>. Products of an
  \<open>int\<close> and an \<open>unsigned int\<close> are taken in \<open>unsigned int\<close>, as in C++.
\<close>

section \<open>Shapes and tensors\<close>

record WHCB =
  dimX :: u32
  dimY :: u32
  dimZ :: u32
  dimB :: u32

fun shape_at :: "WHCB \<Rightarrow> Act \<Rightarrow> u32" where
  "shape_at s Act_X = dimX s"
| "shape_at s Act_Y = dimY s"
| "shape_at s Act_Z = dimZ s"
| "shape_at s Act_B = dimB s"

definition shape_elems :: "WHCB \<Rightarrow> u32 list" where
  "shape_elems s = [dimX s, dimY s, dimZ s, dimB s]"

definition mk_shape :: "u32 \<Rightarrow> u32 \<Rightarrow> u32 \<Rightarrow> u32 \<Rightarrow> WHCB" where
  "mk_shape w h c b = \<lparr>dimX = w, dimY = h, dimZ = c, dimB = b\<rparr>"

record VPUTensor =
  shape :: WHCB
  dtype :: DataType
  layout :: Layout
  sparsity :: bool

definition default_VPUTensor :: VPUTensor where
  "default_VPUTensor = \<lparr>shape = mk_shape 1 1 1 1, dtype = UINT8, layout = ZXY, sparsity = False\<rparr>"

definition mk_VPUTensor :: "u32 \<Rightarrow> u32 \<Rightarrow> u32 \<Rightarrow> u32 \<Rightarrow> DataType \<Rightarrow> Layout \<Rightarrow> bool \<Rightarrow> VPUTensor" where
  "mk_VPUTensor width height channels batch dt lay sp =
     \<lparr>shape = mk_shape width height channels batch, dtype = dt, layout = lay, sparsity = sp\<rparr>"

definition VPUTensor_with_shape :: "WHCB \<Rightarrow> VPUTensor \<Rightarrow> VPUTensor" where
  "VPUTensor_with_shape s rest = \<lparr>shape = s, dtype = dtype rest, layout = layout rest, sparsity = sparsity rest\<rparr>"

definition tx :: "VPUTensor \<Rightarrow> u32" where "tx t = dimX (shape t)"
definition ty :: "VPUTensor \<Rightarrow> u32" where "ty t = dimY (shape t)"
definition tz :: "VPUTensor \<Rightarrow> u32" where "tz t = dimZ (shape t)"
definition tb :: "VPUTensor \<Rightarrow> u32" where "tb t = dimB (shape t)"
definition height :: "VPUTensor \<Rightarrow> u32" where "height t = ty t"
definition width :: "VPUTensor \<Rightarrow> u32" where "width t = tx t"
definition channels :: "VPUTensor \<Rightarrow> u32" where "channels t = tz t"
definition batches :: "VPUTensor \<Rightarrow> u32" where "batches t = tb t"

definition volume :: "VPUTensor \<Rightarrow> u32" where
  "volume t = multiply_vector (shape_elems (shape t))"

definition set_shape :: "WHCB \<Rightarrow> VPUTensor \<Rightarrow> VPUTensor" where
  "set_shape in_shape t = t\<lparr>shape := in_shape\<rparr>"

definition change_datatype_superficial :: "DataType \<Rightarrow> VPUTensor \<Rightarrow> VPUTensor \<times> DataType" where
  "change_datatype_superficial new_datatype t =
     (let t' = (if is_same_datatype_footprint new_datatype (dtype t) then t\<lparr>dtype := new_datatype\<rparr> else t)
      in (t', dtype t'))"

definition set_if_same_layout :: "Layout \<Rightarrow> VPUTensor \<Rightarrow> VPUTensor \<times> bool" where
  "set_if_same_layout new_layout t =
     (let order_now = layout_to_order (layout t); order_next = layout_to_order new_layout in
      if order_now = order_next then (t\<lparr>layout := new_layout\<rparr>, True) else (t, False))"

definition set_sparsity :: "bool \<Rightarrow> VPUTensor \<Rightarrow> VPUTensor" where
  "set_sparsity sparsity_new t = t\<lparr>sparsity := sparsity_new\<rparr>"

definition tensor_eq :: "VPUTensor \<Rightarrow> VPUTensor \<Rightarrow> bool" where
  "tensor_eq a b \<longleftrightarrow> shape a = shape b \<and> dtype a = dtype b \<and> layout a = layout b \<and> sparsity a = sparsity b"

section \<open>Packing modes and sizes\<close>

definition isOverflowBitsValid :: "int \<Rightarrow> bool" where
  "isOverflowBitsValid overflowBits \<longleftrightarrow> \<not> (overflowBits < 1 \<or> 8 < overflowBits)"

definition computeContiguousElementCountAndSize :: "VPUTensor \<Rightarrow> int \<times> int" where
  "computeContiguousElementCountAndSize t =
     (let type_dimension_B = dtype_to_bytes (dtype t);
          overflowBits = dtype_to_bits (dtype t) - 8 * (type_dimension_B - 1)
      in if \<not> isOverflowBitsValid overflowBits then (- 1, - 1)
         else
           let contiguousSeq_elem = 8 sdiv overflowBits;
               bytes_per_completeSeq = contiguousSeq_elem * (type_dimension_B - 1) + 1
           in (contiguousSeq_elem, bytes_per_completeSeq))"

definition computeAlignedSequencesSize_B :: "VPUTensor \<Rightarrow> int \<Rightarrow> int" where
  "computeAlignedSequencesSize_B t elem =
     (let seq_info = computeContiguousElementCountAndSize t;
          contiguousSeq_elem = fst seq_info;
          bytes_per_completeSeq = snd seq_info;
          completeSequences = elem sdiv contiguousSeq_elem
      in completeSequences * bytes_per_completeSeq)"

definition sizeOfRemaininElem_B :: "VPUTensor \<Rightarrow> int \<Rightarrow> int \<Rightarrow> int" where
  "sizeOfRemaininElem_B t elem contiguousSeq_elm =
     (let remainingElem = elem smod contiguousSeq_elm in
      if remainingElem = 0 then 0 else (remainingElem * dtype_to_bits (dtype t)) sdiv 8 + 1)"

definition size_packmode_0 :: "VPUTensor \<Rightarrow> u32" where
  "size_packmode_0 t =
     (let order = layout_to_order (layout t);
          innermost_dimension = to_int (shape_at (shape t) (order ! 0));
          contiguousSeq_elm = fst (computeContiguousElementCountAndSize t);
          completeSequences_Bytes = computeAlignedSequencesSize_B t innermost_dimension;
          size_of_remainingElem_Bytes = sizeOfRemaininElem_B t innermost_dimension contiguousSeq_elm;
          innmermost_dim_size_B = completeSequences_Bytes + size_of_remainingElem_Bytes
      in to_u32 innmermost_dim_size_B * shape_at (shape t) (order ! 1) * shape_at (shape t) (order ! 2) *
         shape_at (shape t) (order ! 3))"

definition size_packmode_1 :: "VPUTensor \<Rightarrow> u32" where
  "size_packmode_1 t =
     (let elements_count = to_int (multiply_vector (shape_elems (shape t)));
          contiguousSeq_elm = fst (computeContiguousElementCountAndSize t);
          completeSequences_Bytes = computeAlignedSequencesSize_B t elements_count;
          size_of_remainingElem_Bytes = sizeOfRemaininElem_B t elements_count contiguousSeq_elm
      in to_u32 (completeSequences_Bytes + size_of_remainingElem_Bytes))"

definition transform_bits_to_bytes :: "VPUTensor \<Rightarrow> int \<Rightarrow> int" where
  "transform_bits_to_bytes t elem =
     (let type_in_bits = dtype_to_bits (dtype t);
          size_in_bits = elem * type_in_bits
      in if size_in_bits smod 8 = 0 then size_in_bits sdiv 8 else size_in_bits sdiv 8 + 1)"

definition size_packmode_2 :: "VPUTensor \<Rightarrow> u32" where
  "size_packmode_2 t =
     (let order = layout_to_order (layout t);
          innermost_dimension = shape_at (shape t) (order ! 0);
          innermost_dim_Bytes = transform_bits_to_bytes t (to_int innermost_dimension)
      in to_u32 innermost_dim_Bytes * shape_at (shape t) (order ! 1) * shape_at (shape t) (order ! 2) *
         shape_at (shape t) (order ! 3))"

definition size_packmode_3 :: "VPUTensor \<Rightarrow> u32" where
  "size_packmode_3 t =
     (let elements_count = to_int (multiply_vector (shape_elems (shape t)))
      in to_u32 (transform_bits_to_bytes t elements_count))"

datatype PackMode = pack_mode_0 | pack_mode_1 | pack_mode_2 | pack_mode_3

definition packmode :: PackMode where
  "packmode = pack_mode_0"

definition tensor_size :: "VPUTensor \<Rightarrow> u32" where
  "tensor_size t =
     (case packmode of
        pack_mode_0 \<Rightarrow> size_packmode_0 t
      | pack_mode_1 \<Rightarrow> size_packmode_1 t
      | pack_mode_2 \<Rightarrow> size_packmode_2 t
      | pack_mode_3 \<Rightarrow> size_packmode_3 t)"

definition is_tensor_valid_packmode_0 :: "VPUTensor \<Rightarrow> bool" where
  "is_tensor_valid_packmode_0 t =
     (let order = layout_to_order (layout t);
          innermost_dimension = shape_at (shape t) (order ! 0);
          type_dimension = dtype_to_bytes (dtype t)
      in if type_dimension < 1 then False
         else
           let overflowBits = dtype_to_bits (dtype t) - 8 * (type_dimension - 1) in
           if \<not> isOverflowBitsValid overflowBits then False
           else
             let contiguousCapacity = 8 sdiv overflowBits;
                 remainingElem = to_int (innermost_dimension mod to_u32 contiguousCapacity)
             in remainingElem = 0)"

definition is_tensor_valid_packmode_1 :: "VPUTensor \<Rightarrow> bool" where
  "is_tensor_valid_packmode_1 t =
     (let elements_count = multiply_vector (shape_elems (shape t));
          type_dimension = dtype_to_bytes (dtype t)
      in if type_dimension = - 1 then False
         else
           let overflowBits = dtype_to_bits (dtype t) - 8 * (type_dimension - 1) in
           if \<not> isOverflowBitsValid overflowBits then False
           else
             let contiguousCapacity = 8 sdiv overflowBits;
                 remainingElem = to_int (elements_count mod to_u32 contiguousCapacity)
             in remainingElem = 0)"

definition last_byte_full :: "u32 \<Rightarrow> DataType \<Rightarrow> bool" where
  "last_byte_full elems dt =
     (let occupied_bits = (elems * to_u32 (dtype_to_bits dt)) mod 8;
          unoccupied_bits = (if occupied_bits = 0 then 0 else 8 - occupied_bits)
      in unoccupied_bits div to_u32 (dtype_to_bits dt) = 0)"

definition is_tensor_valid_packmode_2 :: "VPUTensor \<Rightarrow> bool" where
  "is_tensor_valid_packmode_2 t =
     last_byte_full (shape_at (shape t) (layout_to_order (layout t) ! 0)) (dtype t)"

definition is_tensor_valid_packmode_3 :: "VPUTensor \<Rightarrow> bool" where
  "is_tensor_valid_packmode_3 t = last_byte_full (multiply_vector (shape_elems (shape t))) (dtype t)"

definition throw_if_invalid :: "VPUTensor \<Rightarrow> unit result" where
  "throw_if_invalid t =
     (case packmode of
        pack_mode_0 \<Rightarrow> if is_tensor_valid_packmode_0 t then Inr () else Inl (invalid_argument ''Invalid tensor, Packmode 0'')
      | pack_mode_1 \<Rightarrow> if is_tensor_valid_packmode_1 t then Inr () else Inl (invalid_argument ''Invalid tensor, Packmode 1'')
      | pack_mode_2 \<Rightarrow> if is_tensor_valid_packmode_2 t then Inr () else Inl (invalid_argument ''Invalid tensor, Packmode 2'')
      | pack_mode_3 \<Rightarrow> if is_tensor_valid_packmode_3 t then Inr () else Inl (invalid_argument ''Invalid tensor, Packmode 3''))"

section \<open>Order of tensors\<close>

definition shape_less :: "WHCB \<Rightarrow> WHCB \<Rightarrow> bool" where
  "shape_less a b \<longleftrightarrow> (dimX a, dimY a, dimZ a, dimB a) < (dimX b, dimY b, dimZ b, dimB b)"

definition dtype_less :: "DataType \<Rightarrow> DataType \<Rightarrow> bool" where
  "dtype_less a b \<longleftrightarrow> enum_position DataType_enum a < enum_position DataType_enum b"

definition tensor_less :: "VPUTensor \<Rightarrow> VPUTensor \<Rightarrow> bool" where
  "tensor_less lhs rhs =
     (if shape_less (shape lhs) (shape rhs) then True
      else if shape_less (shape rhs) (shape lhs) then False
      else if dtype_less (dtype lhs) (dtype rhs) then True
      else if dtype_less (dtype rhs) (dtype lhs) then False
      else if sparsity lhs < sparsity rhs then True
      else if sparsity rhs < sparsity lhs then False
      else False)"

section \<open>TensorInfo\<close>

definition default_init_swizzling :: Swizzling where
  "default_init_swizzling = KEY_5"

definition getDefaultLayout :: Layout where
  "getDefaultLayout = ZXY"

record TensorInfo =
  ti_height :: int
  ti_width :: int
  ti_channels :: int
  ti_batch :: int
  ti_datatype :: DataType
  ti_layout :: Layout
  ti_sparsity :: real
  ti_sparsity_enabled :: bool
  ti_swizzling :: Swizzling

definition default_TensorInfo :: TensorInfo where
  "default_TensorInfo =
     \<lparr>ti_height = 0, ti_width = 0, ti_channels = 0, ti_batch = 1, ti_datatype = UINT8, ti_layout = ZXY,
      ti_sparsity = 0, ti_sparsity_enabled = False, ti_swizzling = default_init_swizzling\<rparr>"

definition TensorInfo_of :: "VPUTensor \<Rightarrow> TensorInfo" where
  "TensorInfo_of t =
     default_TensorInfo\<lparr>ti_height := to_int (height t), ti_width := to_int (width t), ti_channels := to_int (tz t),
       ti_batch := to_int (tb t), ti_datatype := dtype t, ti_layout := layout t, ti_sparsity_enabled := sparsity t\<rparr>"

definition numberOfElements :: "TensorInfo \<Rightarrow> int" where
  "numberOfElements i = ti_height i * ti_width i * ti_channels i * ti_batch i"

definition toVPUTensor :: "TensorInfo \<Rightarrow> VPUTensor" where
  "toVPUTensor i =
     \<lparr>shape = mk_shape (to_u32 (ti_width i)) (to_u32 (ti_height i)) (to_u32 (ti_channels i)) (to_u32 (ti_batch i)),
      dtype = ti_datatype i, layout = ti_layout i, sparsity = ti_sparsity_enabled i\<rparr>"

definition tensor_size_B :: "TensorInfo \<Rightarrow> u32" where
  "tensor_size_B i =
     tensor_size
       \<lparr>shape = mk_shape (to_u32 (ti_width i)) (to_u32 (ti_height i)) (to_u32 (ti_channels i)) (to_u32 (ti_batch i)),
        dtype = ti_datatype i, layout = ti_layout i, sparsity = ti_sparsity_enabled i\<rparr>"

definition get_tensor_innermost_dim_B :: "TensorInfo \<Rightarrow> int" where
  "get_tensor_innermost_dim_B i =
     (let innermost_dim = layout_to_order (ti_layout i) ! 0;
          ones = i\<lparr>ti_width := 1, ti_height := 1, ti_channels := 1, ti_batch := 1\<rparr>;
          t_inner_dim_algn =
            (case innermost_dim of
               Act_X \<Rightarrow> ones\<lparr>ti_width := ti_width i\<rparr>
             | Act_Y \<Rightarrow> ones\<lparr>ti_height := ti_height i\<rparr>
             | Act_Z \<Rightarrow> ones\<lparr>ti_channels := ti_channels i\<rparr>
             | Act_B \<Rightarrow> ones\<lparr>ti_batch := ti_batch i\<rparr>)
      in uint (tensor_size_B t_inner_dim_algn))"

definition numberOfElementsExcludingInnermost :: "TensorInfo \<Rightarrow> int" where
  "numberOfElementsExcludingInnermost i =
     (case layout_to_order (ti_layout i) ! 0 of
        Act_X \<Rightarrow> ti_height i * ti_channels i * ti_batch i
      | Act_Y \<Rightarrow> ti_width i * ti_channels i * ti_batch i
      | Act_Z \<Rightarrow> ti_width i * ti_height i * ti_batch i
      | Act_B \<Rightarrow> ti_width i * ti_height i * ti_channels i)"

definition isNonZero :: "TensorInfo \<Rightarrow> bool" where
  "isNonZero i \<longleftrightarrow> \<not> (ti_channels i = 0 \<and> ti_height i = 0 \<and> ti_width i = 0)"

section \<open>The order is a strict weak order\<close>

lemma dtype_position_inj: "enum_position DataType_enum a = enum_position DataType_enum b \<Longrightarrow> a = (b :: DataType)"
  by (cases a; cases b; simp add: DataType_enum_def)

definition tensor_key :: "VPUTensor \<Rightarrow> (u32 \<times> u32 \<times> u32 \<times> u32) \<times> int \<times> bool" where
  "tensor_key t =
     ((dimX (shape t), dimY (shape t), dimZ (shape t), dimB (shape t)),
      enum_position DataType_enum (dtype t), sparsity t)"

interpretation tensor_order: keyed_order tensor_less tensor_key
  by unfold_locales
    (unfold tensor_less_def tensor_key_def shape_less_def dtype_less_def,
      intro lexicographic_step lexicographic_last)

section \<open>Sizes\<close>

lemma sequences_size:
  assumes "dtype t \<noteq> DataType.enum_size" "0 \<le> n"
  shows "computeAlignedSequencesSize_B t n +
      sizeOfRemaininElem_B t n (fst (computeContiguousElementCountAndSize t)) = compute_size_in_bytes n (dtype t)"
proof -
  let ?d = "dtype t" and ?b = "dtype_to_bits (dtype t)" and ?k = "types_per_byte (dtype t)"
  consider (packed) "?b * ?k = 8" "0 < ?k" "0 < ?b" "dtype_to_bytes ?d = 1"
    | (wide) "?b = 8 * dtype_to_bytes ?d" "1 < dtype_to_bytes ?d"
    using dtype_to_bits_cases [of ?d] assms(1) by blast
  then show ?thesis
  proof cases
    case packed
    have b8: "?b \<le> 8" using packed by (smt (verit) mult_le_cancel_left1)
    have k: "8 sdiv ?b = ?k" using packed by (simp add: sdiv_nonneg) (metis nonzero_mult_div_cancel_left less_irrefl)
    have c: "computeContiguousElementCountAndSize t = (?k, 1)"
      using packed b8 by (simp add: computeContiguousElementCountAndSize_def isOverflowBitsValid_def k)
    have "n mod ?k * ?b < 8" using packed by (metis mult.commute mult_less_cancel_right_pos pos_mod_bound)
    then have "n mod ?k * ?b sdiv 8 = 0"
      using packed by (simp add: sdiv_nonneg)
    then show ?thesis
      using assms packed
      by (simp add: c computeAlignedSequencesSize_B_def sizeOfRemaininElem_B_def Let_def sdiv_nonneg smod_nonneg
          compute_size_ceil packed_bits int_ceil_div)
  next
    case wide
    have c: "computeContiguousElementCountAndSize t = (1, dtype_to_bytes ?d)"
      using wide by (simp add: computeContiguousElementCountAndSize_def isOverflowBitsValid_def sdiv_nonneg)
    show ?thesis
      using assms wide
      by (simp add: c computeAlignedSequencesSize_B_def sizeOfRemaininElem_B_def sdiv_nonneg smod_nonneg
          compute_size_ceil wide_bits)
  qed
qed

lemma transform_bits_size:
  assumes "dtype t \<noteq> DataType.enum_size" "0 \<le> n"
  shows "transform_bits_to_bytes t n = compute_size_in_bytes n (dtype t)"
proof -
  have "0 \<le> n * dtype_to_bits (dtype t)" using dtype_to_bits_cases [of "dtype t"] assms by auto
  then show ?thesis
    using int_ceil_div [of 8 "n * dtype_to_bits (dtype t)"]
    by (simp add: transform_bits_to_bytes_def Let_def compute_size_ceil [OF assms(2,1)] sdiv_nonneg smod_nonneg
        add.commute)
qed

lemma compute_size_nonneg: "0 \<le> compute_size_in_bytes n d"
  using dtype_to_bits_cases [of d] by (auto simp: compute_size_in_bytes_def Let_def sdiv_nonneg div_int_pos_iff)

text \<open>The innermost dimension of a tensor and the number of lines of that length.\<close>

definition inner_dim :: "VPUTensor \<Rightarrow> u32" where
  "inner_dim t = shape_at (shape t) (layout_to_order (layout t) ! 0)"

definition outer_dims :: "VPUTensor \<Rightarrow> u32 list" where
  "outer_dims t = map (\<lambda>i. shape_at (shape t) (layout_to_order (layout t) ! i)) [1, 2, 3]"

lemma size_packmode_0_inner:
  assumes "dtype t \<noteq> DataType.enum_size" "unat (inner_dim t) < 2 ^ 31"
  shows "size_packmode_0 t = to_u32 (compute_size_in_bytes (int (unat (inner_dim t))) (dtype t)) *
    outer_dims t ! 0 * outer_dims t ! 1 * outer_dims t ! 2"
    and "size_packmode_2 t = size_packmode_0 t"
proof -
  let ?n = "int (unat (inner_dim t))"
  have i: "to_int (shape_at (shape t) (layout_to_order (layout t) ! 0)) = ?n"
    using assms(2) by (simp add: to_int_small inner_dim_def)
  have seq: "computeAlignedSequencesSize_B t ?n +
      sizeOfRemaininElem_B t ?n (fst (computeContiguousElementCountAndSize t)) = compute_size_in_bytes ?n (dtype t)"
    by (rule sequences_size [OF assms(1)]) simp
  show s0: "size_packmode_0 t = to_u32 (compute_size_in_bytes ?n (dtype t)) *
    outer_dims t ! 0 * outer_dims t ! 1 * outer_dims t ! 2"
    unfolding size_packmode_0_def Let_def i seq by (simp add: outer_dims_def)
  have tr: "transform_bits_to_bytes t ?n = compute_size_in_bytes ?n (dtype t)"
    by (rule transform_bits_size [OF assms(1)]) simp
  show "size_packmode_2 t = size_packmode_0 t"
    unfolding s0 size_packmode_2_def Let_def i tr by (simp add: outer_dims_def)
qed

lemma unat_mult4:
  fixes a b c d :: u32
  assumes "unat a * unat b * unat c * unat d < 4294967296" "unat b * unat c * unat d \<noteq> 0"
  shows "unat (a * b * c * d) = unat a * unat b * unat c * unat d"
proof -
  have le: "x \<le> x * y" if "y \<noteq> 0" for x y :: nat using that by simp
  have "unat a * unat b * unat c \<le> unat a * unat b * unat c * unat d" using assms(2) by (intro le) auto
  moreover have "unat a * unat b \<le> unat a * unat b * unat c" using assms(2) by (intro le) auto
  ultimately have lt: "unat a * unat b < 4294967296" "unat a * unat b * unat c < 4294967296"
    using assms(1) by linarith+
  then have "unat (a * b * c) = unat a * unat b * unat c" by (simp add: unat_mult_nowrap)
  then show ?thesis using assms(1) by (simp add: unat_mult_nowrap)
qed

lemma tensor_size_exact_nat:
  assumes "dtype t \<noteq> DataType.enum_size" "unat (inner_dim t) < 2 ^ 31" "0 \<notin> set (outer_dims t)"
    and "nat (compute_size_in_bytes (int (unat (inner_dim t))) (dtype t)) * prod_list (map unat (outer_dims t)) < 2 ^ 32"
  shows "unat (tensor_size t) =
      nat (compute_size_in_bytes (int (unat (inner_dim t))) (dtype t)) * prod_list (map unat (outer_dims t)) \<and>
    size_packmode_2 t = tensor_size t"
proof -
  let ?s = "compute_size_in_bytes (int (unat (inner_dim t))) (dtype t)"
  let ?a = "outer_dims t ! 0" and ?b = "outer_dims t ! 1" and ?c = "outer_dims t ! 2"
  have o: "outer_dims t = [?a, ?b, ?c]" by (simp add: outer_dims_def)
  have nz: "unat ?a * unat ?b * unat ?c \<noteq> 0" using assms(3) by (subst (asm) o) (auto simp: unat_eq_zero)
  have p: "prod_list (map unat (outer_dims t)) = unat ?a * unat ?b * unat ?c" by (subst o) simp
  have "nat ?s \<le> nat ?s * (unat ?a * unat ?b * unat ?c)" using nz by simp
  then have "nat ?s < 4294967296" using assms(4) power_2_32 unfolding p by linarith
  then have s: "?s < 4294967296" by linarith
  have u: "unat (to_u32 ?s) = nat ?s" using s compute_size_nonneg by (intro unat_to_u32)
  have "unat (to_u32 ?s) * unat ?a * unat ?b * unat ?c < 4294967296"
    unfolding u using assms(4) [unfolded p power_2_32] by (simp only: mult.assoc)
  from unat_mult4 [OF this nz] have "unat (to_u32 ?s * ?a * ?b * ?c) = nat ?s * unat ?a * unat ?b * unat ?c"
    unfolding u .
  then show ?thesis
    using size_packmode_0_inner [OF assms(1,2)] p by (simp add: tensor_size_def packmode_def mult.assoc)
qed

text \<open>
  The memory of a tensor: with a valid data type the size in bytes is the size of one line of the
  innermost dimension, rounded up to whole bytes, times the other dimensions, as long as the total fits in
  32 bits; and the mode in which a sample may cross a byte boundary needs the same memory.
\<close>

theorem tensor_size_exact:
  assumes "dtype t \<noteq> DataType.enum_size" "unat (inner_dim t) < 2 ^ 31" "0 \<notin> set (outer_dims t)"
    and "nat (compute_size_in_bytes (int (unat (inner_dim t))) (dtype t)) * prod_list (map unat (outer_dims t)) < 2 ^ 32"
  shows "unat (tensor_size t) =
      nat (compute_size_in_bytes (int (unat (inner_dim t))) (dtype t)) * prod_list (map unat (outer_dims t)) \<and>
    size_packmode_2 t = tensor_size t"
  using assms by (rule tensor_size_exact_nat)

theorem tensor_size_exact_witness:
  "unat (tensor_size (mk_VPUTensor 7 3 5 1 INT4 ZXY False)) =
      nat (compute_size_in_bytes (int (unat (inner_dim (mk_VPUTensor 7 3 5 1 INT4 ZXY False))))
        (dtype (mk_VPUTensor 7 3 5 1 INT4 ZXY False))) *
      prod_list (map unat (outer_dims (mk_VPUTensor 7 3 5 1 INT4 ZXY False))) \<and>
    size_packmode_2 (mk_VPUTensor 7 3 5 1 INT4 ZXY False) = tensor_size (mk_VPUTensor 7 3 5 1 INT4 ZXY False)"
  by (rule tensor_size_exact)
    (simp_all add: mk_VPUTensor_def mk_shape_def inner_dim_def outer_dims_def compute_size_ceil)

text \<open>
  \<^verbatim>\<open>operator<\<close> of tensors meets the contract of an ordered container: it is irreflexive, transitive, and
  the tensors it cannot tell apart are exactly those with the same shape, data type and sparsity flag, so
  that the layout, which \<^verbatim>\<open>operator==\<close> compares, takes no part in it.
\<close>

theorem tensor_less_contract:
  "\<not> tensor_less a a \<and> (tensor_less a b \<and> tensor_less b c \<longrightarrow> tensor_less a c) \<and>
   (\<not> tensor_less a b \<and> \<not> tensor_less b a \<longleftrightarrow>
      shape a = shape b \<and> dtype a = dtype b \<and> sparsity a = sparsity b)"
proof -
  have "tensor_key a = tensor_key b \<longleftrightarrow> shape a = shape b \<and> dtype a = dtype b \<and> sparsity a = sparsity b"
    by (cases "shape a"; cases "shape b") (auto simp: tensor_key_def dest: dtype_position_inj)
  then show ?thesis
    using tensor_order.irreflexive tensor_order.transitive tensor_order.equivalent_iff_same_key by blast
qed

theorem tensor_less_contract_witness:
  "tensor_less (mk_VPUTensor 1 1 16 1 UINT8 ZXY False) (mk_VPUTensor 2 1 16 1 UINT8 XYZ False) \<and>
   \<not> tensor_less (mk_VPUTensor 2 1 16 1 UINT8 ZXY False) (mk_VPUTensor 2 1 16 1 UINT8 XYZ False) \<and>
   \<not> tensor_eq (mk_VPUTensor 2 1 16 1 UINT8 ZXY False) (mk_VPUTensor 2 1 16 1 UINT8 XYZ False)"
  using tensor_less_contract [of "mk_VPUTensor 2 1 16 1 UINT8 ZXY False" "mk_VPUTensor 2 1 16 1 UINT8 XYZ False"]
  by (simp add: mk_VPUTensor_def mk_shape_def tensor_eq_def tensor_less_def shape_less_def)

text \<open>
  Converting a tensor to the \<open>TensorInfo\<close> the validation works on and back is lossless for every
  tensor, also when a dimension is so large that it reads as a negative number in between.
\<close>

theorem TensorInfo_round_trip:
  "toVPUTensor (TensorInfo_of t) = t"
  by (cases t; cases "shape t")
    (simp add: toVPUTensor_def TensorInfo_of_def default_TensorInfo_def height_def width_def tx_def ty_def tz_def
      tb_def mk_shape_def)

end
