(* ===== verification/Fnv_Hash.thy ===== *)
theory Fnv_Hash
  imports Npu_Prelude
begin

text \<open>
  The 32-bit FNV-1a hashes of \<^verbatim>\<open>include/core/utils.h\<close> and \<^verbatim>\<open>include/core/primitive_hash.h\<close>. Every hash is
  incremental: it folds a value into a running state. The contract of such a step, that it loses nothing
  of the state, is the locale \<open>hash_fold\<close>; it is what makes a hash of many fields depend on each of them.

  A float is the real number it denotes. A machine operation on floats rounds its exact result; the
  rounding is a parameter \<open>fl\<close> of the definitions, and \<open>float_rounding\<close> states what the code relies on: it is
  monotone and leaves numbers with a 24-bit significand unchanged.
\<close>

section \<open>Hash of primitive values\<close>

definition fnv_prime :: u32 where
  "fnv_prime = 0x01000193"

definition fnv_offset_basis :: u32 where
  "fnv_offset_basis = 0x811c9dc5"

definition hash_uint32 :: "u32 \<Rightarrow> u32 \<Rightarrow> u32" where
  "hash_uint32 h0 value =
     (let h1 = (h0 XOR (value AND 0xFF)) * fnv_prime;
          h2 = (h1 XOR (drop_bit 8 value AND 0xFF)) * fnv_prime;
          h3 = (h2 XOR (drop_bit 16 value AND 0xFF)) * fnv_prime
      in (h3 XOR drop_bit 24 value) * fnv_prime)"

definition truncate_real :: "real \<Rightarrow> int" where
  "truncate_real x = (if 0 \<le> x then \<lfloor>x\<rfloor> else \<lceil>x\<rceil>)"

definition float_to_u32 :: "real \<Rightarrow> u32" where
  "float_to_u32 x = word_of_int (truncate_real x)"

definition rescaled_float :: "(real \<Rightarrow> real) \<Rightarrow> real \<Rightarrow> u32" where
  "rescaled_float fl c =
     (let scaled_value = fl (c * 100) in
      if c < 1 \<and> - 1 < c \<and> c \<noteq> 0 then float_to_u32 scaled_value else float_to_u32 c)"

definition hash_float :: "(real \<Rightarrow> real) \<Rightarrow> u32 \<Rightarrow> real \<Rightarrow> u32" where
  "hash_float fl h c = hash_uint32 h (rescaled_float fl c)"

definition hash_char :: "u32 \<Rightarrow> char \<Rightarrow> u32" where
  "hash_char h c = (h XOR of_char c) * fnv_prime"

definition hash_string :: "u32 \<Rightarrow> string \<Rightarrow> u32" where
  "hash_string h s = fold (\<lambda>c h. hash_char h c) s h"

definition hash_bool :: "u32 \<Rightarrow> bool \<Rightarrow> u32" where
  "hash_bool h value = hash_uint32 h (if value then 1 else 0)"

text \<open>\<open>hash_enum\<close> takes the integer of the enumerator; \<open>hash_optional\<close> takes the hasher of the contained type.\<close>

definition hash_enum :: "u32 \<Rightarrow> int \<Rightarrow> u32" where
  "hash_enum h value = hash_uint32 h (to_u32 value)"

definition hash_optional :: "(u32 \<Rightarrow> 'a \<Rightarrow> u32) \<Rightarrow> u32 \<Rightarrow> 'a option \<Rightarrow> u32" where
  "hash_optional hash_value h opt =
     (case opt of
        Some v \<Rightarrow> hash_value (hash_bool h True) v
      | None \<Rightarrow> hash_bool h False)"

section \<open>Hash of texts and float vectors\<close>

text \<open>
  \<open>fnv1a_hash(const std::string&)\<close> xors a plain \<open>char\<close>, which is signed and sign-extended on the platforms the
  library is built for.
\<close>

definition signed_char_u32 :: "char \<Rightarrow> u32" where
  "signed_char_u32 c = (let n = of_char c :: nat in if n < 128 then word_of_nat n else word_of_nat n - 256)"

definition fnv1a_hash :: "string \<Rightarrow> u32" where
  "fnv1a_hash str = fold (\<lambda>c h. (h XOR signed_char_u32 c) * fnv_prime) str fnv_offset_basis"

definition fnv1a_hash_vec :: "(real \<Rightarrow> real) \<Rightarrow> real list \<Rightarrow> bool \<Rightarrow> u32" where
  "fnv1a_hash_vec fl vec force_fractional_rescale =
     fold (\<lambda>c h.
         let value = (if force_fractional_rescale then rescaled_float fl c else float_to_u32 c);
             h1 = (h XOR (value AND 0xFF)) * fnv_prime;
             h2 = (h1 XOR (drop_bit 8 value AND 0xFF)) * fnv_prime;
             h3 = (h2 XOR (drop_bit 16 value AND 0xFF)) * fnv_prime
         in (h3 XOR drop_bit 24 value) * fnv_prime)
       vec fnv_offset_basis"

definition trim_csv_str :: "string \<Rightarrow> string" where
  "trim_csv_str str =
     map (\<lambda>c. if c = CHR '','' then CHR '';'' else c) (map (\<lambda>c. if c = CHR 0x0A then CHR '' '' else c) str)"

section \<open>The contract of an incremental hash\<close>

locale hash_fold =
  fixes step :: "u32 \<Rightarrow> 'v \<Rightarrow> u32"
  assumes state_injective: "step g v = step h v \<Longrightarrow> g = h"
begin

lemma state_iff [simp]: "step g v = step h v \<longleftrightarrow> g = h"
  using state_injective by blast

lemma fold_state_iff [simp]: "fold (\<lambda>v h. step h v) vs g = fold (\<lambda>v h. step h v) vs h \<longleftrightarrow> g = h"
  by (induction vs arbitrary: g h) auto

end

lemma fnv_prime_inverse: "fnv_prime * 0x359c449b = 1"
  by (simp add: fnv_prime_def)

lemma fnv_mult_iff [simp]: "g * fnv_prime = h * fnv_prime \<longleftrightarrow> g = h"
proof
  assume "g * fnv_prime = h * fnv_prime"
  then have "g * (fnv_prime * 0x359c449b) = h * (fnv_prime * 0x359c449b)" by (metis mult.assoc)
  then show "g = h" by (simp add: fnv_prime_inverse)
qed simp

lemma xor_left_iff [simp]: "(g :: u32) XOR a = h XOR a \<longleftrightarrow> g = h"
  by (metis xor.assoc xor.right_neutral xor_self_eq)

lemma xor_right_iff [simp]: "(a :: u32) XOR g = a XOR h \<longleftrightarrow> g = h"
  by (metis xor_left_iff xor.commute)

interpretation uint32_hash: hash_fold hash_uint32
  by unfold_locales (simp add: hash_uint32_def Let_def)

interpretation char_hash: hash_fold hash_char
  by unfold_locales (simp add: hash_char_def)

interpretation string_hash: hash_fold hash_string
  by unfold_locales (simp add: hash_string_def)

interpretation bool_hash: hash_fold hash_bool
  by unfold_locales (simp add: hash_bool_def)

interpretation enum_hash: hash_fold hash_enum
  by unfold_locales (simp add: hash_enum_def)

interpretation float_hash: hash_fold "hash_float fl"
  by unfold_locales (simp add: hash_float_def)

section \<open>Small values never collide\<close>

lemma small_value_bytes:
  assumes "v < (256 :: u32)"
  shows "v AND 0xFF = v" "drop_bit 8 v = 0" "drop_bit 16 v = 0" "drop_bit 24 v = 0"
proof -
  have u: "unat v < 256" using assms by (simp add: word_less_nat_alt)
  have m: "v AND 0xFF = take_bit 8 v" by (simp add: take_bit_eq_mask mask_eq_exp_minus_1)
  show "v AND 0xFF = v" unfolding m
    using u by (simp add: word_unat_eq_iff unsigned_take_bit_eq take_bit_nat_eq_self)
  show "drop_bit 8 v = 0" "drop_bit 16 v = 0" "drop_bit 24 v = 0"
    using u by (simp_all add: word_unat_eq_iff drop_bit_eq_div unat_div_u32)
qed

lemma hash_uint32_small_iff:
  assumes "v < 256" "w < 256"
  shows "hash_uint32 h v = hash_uint32 h w \<longleftrightarrow> v = w"
  by (simp add: hash_uint32_def Let_def small_value_bytes [OF assms(1)] small_value_bytes [OF assms(2)])

lemma hash_bool_iff [simp]: "hash_bool h a = hash_bool h b \<longleftrightarrow> a = b"
  by (simp add: hash_bool_def hash_uint32_small_iff)

lemma hash_enum_small_iff:
  assumes "0 \<le> a" "a < 256" "0 \<le> b" "b < 256"
  shows "hash_enum h a = hash_enum h b \<longleftrightarrow> a = b"
proof -
  have u: "uint (to_u32 a) = a" "uint (to_u32 b) = b" using assms by (simp_all add: uint_word_of_int)
  then have "to_u32 a < 256" "to_u32 b < 256" using assms by (simp_all add: word_less_def)
  then show ?thesis unfolding hash_enum_def using u by (metis hash_uint32_small_iff)
qed

definition float_rounding :: "(real \<Rightarrow> real) \<Rightarrow> bool" where
  "float_rounding fl \<longleftrightarrow>
     (\<forall>x y. x \<le> y \<longrightarrow> fl x \<le> fl y) \<and>
     (\<forall>m :: int. \<forall>e :: nat. \<bar>m\<bar> < 2 ^ 24 \<and> e \<le> 100 \<longrightarrow> fl (of_int m / 2 ^ e) = of_int m / 2 ^ e)"

lemma float_rounding_exact: "float_rounding fl \<Longrightarrow> \<bar>m\<bar> < 2 ^ 24 \<Longrightarrow> e \<le> 100 \<Longrightarrow> fl (of_int m / 2 ^ e) = of_int m / 2 ^ e"
  by (simp add: float_rounding_def)

lemma float_rounding_mono: "float_rounding fl \<Longrightarrow> x \<le> y \<Longrightarrow> fl x \<le> fl y"
  by (simp add: float_rounding_def)

lemma float_rounding_id [simp]: "float_rounding (\<lambda>x. x)"
  by (simp add: float_rounding_def)

section \<open>Properties\<close>

lemma signed_char_ascii: "(of_char c :: nat) < 128 \<Longrightarrow> signed_char_u32 c = of_char c"
  by (simp add: signed_char_u32_def of_char_def)

text \<open>
  The two hashes of texts agree on ASCII texts and on no other single character: \<open>fnv1a_hash\<close> xors a
  sign-extended character where \<open>hash_string\<close> xors an unsigned one, so a cache key written with one cannot be
  found with the other as soon as a byte is 128 or more.
\<close>

theorem text_hashes_agree_on_ascii:
  "(list_all (\<lambda>c. (of_char c :: nat) < 128) s \<longrightarrow> fnv1a_hash s = hash_string fnv_offset_basis s) \<and>
   (128 \<le> (of_char c :: nat) \<longrightarrow> fnv1a_hash [c] \<noteq> hash_string fnv_offset_basis [c])"
proof (intro conjI impI)
  assume a: "list_all (\<lambda>c. (of_char c :: nat) < 128) s"
  have "fold (\<lambda>c h. (h XOR signed_char_u32 c) * fnv_prime) s h = fold (\<lambda>c h. hash_char h c) s h" for h
    using a by (induction s arbitrary: h) (simp_all add: hash_char_def signed_char_ascii)
  then show "fnv1a_hash s = hash_string fnv_offset_basis s" by (simp add: fnv1a_hash_def hash_string_def)
next
  assume c: "128 \<le> (of_char c :: nat)"
  have o: "of_char c = (word_of_nat (of_char c) :: u32)" by (simp add: of_char_def)
  have "signed_char_u32 c = of_char c - 256" using c by (simp add: signed_char_u32_def o Let_def)
  moreover have "of_char c - 256 \<noteq> (of_char c :: u32)" by simp
  ultimately show "fnv1a_hash [c] \<noteq> hash_string fnv_offset_basis [c]"
    by (simp add: fnv1a_hash_def hash_string_def hash_char_def)
qed

theorem text_hashes_agree_on_ascii_witness:
  "fnv1a_hash ''DPU'' = hash_string fnv_offset_basis ''DPU'' \<and>
   fnv1a_hash [CHR 0xE9] \<noteq> hash_string fnv_offset_basis [CHR 0xE9]"
  using text_hashes_agree_on_ascii [of "''DPU''" "CHR 0xE9"] by simp

text \<open>
  The hash of a float vector, the key of the descriptor caches, is the incremental \<open>hash_float\<close> of
  its elements from the offset basis; it keeps the whole running state, so two vectors with a common tail
  have the same hash exactly when the parts before the tail have.
\<close>

theorem fnv1a_hash_vec_incremental:
  "fnv1a_hash_vec fl vec True = fold (\<lambda>c h. hash_float fl h c) vec fnv_offset_basis \<and>
   (fnv1a_hash_vec fl (xs @ zs) True = fnv1a_hash_vec fl (ys @ zs) True \<longleftrightarrow>
      fnv1a_hash_vec fl xs True = fnv1a_hash_vec fl ys True)"
proof -
  have v: "fnv1a_hash_vec fl vec True = fold (\<lambda>c h. hash_float fl h c) vec fnv_offset_basis" for vec
    by (simp add: fnv1a_hash_vec_def hash_float_def hash_uint32_def Let_def)
  then show ?thesis by simp
qed

end
