(* ===== verification/Workload.thy ===== *)
theory Workload
  imports Tensor Fnv_Hash "HOL-Library.Option_ord"
begin

text \<open>
  The DPU workload: halo information (\<^verbatim>\<open>include/vpu/dpu_halo.h\<close>), storage element pointers
  (\<^verbatim>\<open>sep_mode.h\<close>), the shared predicates of \<^verbatim>\<open>workload_semantics_info.h\<close>, the profiling hints of
  \<^verbatim>\<open>profiling_service.h\<close>, and \<open>DPUWorkload\<close> itself (\<^verbatim>\<open>dpu_workload.h\<close>, \<^verbatim>\<open>src/vpu/dpu_workload.cpp\<close>,
  \<^verbatim>\<open>src/vpu/workload_hash.cpp\<close>) with its equality, its order and its hash, which are the keys of the caches.

  Arrays of one tensor or swizzling are single fields with the suffix \<open>_0\<close>; arrays of two or four numbers
  are records with one field per index.
\<close>

section \<open>Halo\<close>

record HaloInfoHW =
  halo_top :: int
  halo_bottom :: int
  halo_left :: int
  halo_right :: int

record HaloInfoHWC = HaloInfoHW +
  halo_front :: int
  halo_back :: int

definition no_halo :: HaloInfoHWC where
  "no_halo = \<lparr>halo_top = 0, halo_bottom = 0, halo_left = 0, halo_right = 0, halo_front = 0, halo_back = 0\<rparr>"

definition halo_hw_less :: "HaloInfoHWC \<Rightarrow> HaloInfoHWC \<Rightarrow> bool" where
  "halo_hw_less a b =
     (if halo_top a \<noteq> halo_top b then halo_top a < halo_top b
      else if halo_bottom a \<noteq> halo_bottom b then halo_bottom a < halo_bottom b
      else if halo_left a \<noteq> halo_left b then halo_left a < halo_left b
      else if halo_right a \<noteq> halo_right b then halo_right a < halo_right b
      else False)"

definition halo_hw_eq :: "HaloInfoHWC \<Rightarrow> HaloInfoHWC \<Rightarrow> bool" where
  "halo_hw_eq a b \<longleftrightarrow> halo_top a = halo_top b \<and> halo_bottom a = halo_bottom b \<and>
     halo_left a = halo_left b \<and> halo_right a = halo_right b"

definition halo_hwc_eq :: "HaloInfoHWC \<Rightarrow> HaloInfoHWC \<Rightarrow> bool" where
  "halo_hwc_eq a b \<longleftrightarrow> halo_hw_eq a b \<and> halo_front a = halo_front b \<and> halo_back a = halo_back b"

definition halo_hwc_less :: "HaloInfoHWC \<Rightarrow> HaloInfoHWC \<Rightarrow> bool" where
  "halo_hwc_less a b =
     (if \<not> halo_hw_eq a b then halo_hw_less a b
      else if halo_front a \<noteq> halo_front b then halo_front a < halo_front b
      else if halo_back a \<noteq> halo_back b then halo_back a < halo_back b
      else False)"

definition hwc_setVerticalNoHalo :: "HaloInfoHWC \<Rightarrow> HaloInfoHWC" where
  "hwc_setVerticalNoHalo i = i\<lparr>halo_top := 0, halo_bottom := 0\<rparr>"

definition hwc_setHorizontalNoHalo :: "HaloInfoHWC \<Rightarrow> HaloInfoHWC" where
  "hwc_setHorizontalNoHalo i = i\<lparr>halo_left := 0, halo_right := 0\<rparr>"

definition isAllPositive :: "HaloInfoHWC \<Rightarrow> bool" where
  "isAllPositive i \<longleftrightarrow>
     \<not> (halo_top i < 0 \<or> halo_bottom i < 0 \<or> halo_left i < 0 \<or> halo_right i < 0 \<or> halo_back i < 0 \<or> halo_front i < 0)"

record HaloWorkload =
  input_0_halo :: HaloInfoHWC
  output_0_halo :: HaloInfoHWC
  output_0_halo_broadcast_cnt :: HaloInfoHWC
  output_0_inbound_halo :: HaloInfoHWC

definition default_HaloWorkload :: HaloWorkload where
  "default_HaloWorkload =
     \<lparr>input_0_halo = no_halo, output_0_halo = no_halo, output_0_halo_broadcast_cnt = no_halo,
      output_0_inbound_halo = no_halo\<rparr>"

definition halo_eq :: "HaloWorkload \<Rightarrow> HaloWorkload \<Rightarrow> bool" where
  "halo_eq a b \<longleftrightarrow> halo_hwc_eq (input_0_halo a) (input_0_halo b) \<and>
     halo_hwc_eq (output_0_halo a) (output_0_halo b) \<and>
     halo_hwc_eq (output_0_halo_broadcast_cnt a) (output_0_halo_broadcast_cnt b) \<and>
     halo_hwc_eq (output_0_inbound_halo a) (output_0_inbound_halo b)"

definition halo_less :: "HaloWorkload \<Rightarrow> HaloWorkload \<Rightarrow> bool" where
  "halo_less a b =
     (if \<not> halo_hwc_eq (input_0_halo a) (input_0_halo b) then halo_hwc_less (input_0_halo a) (input_0_halo b)
      else if \<not> halo_hwc_eq (output_0_halo a) (output_0_halo b) then halo_hwc_less (output_0_halo a) (output_0_halo b)
      else if \<not> halo_hwc_eq (output_0_halo_broadcast_cnt a) (output_0_halo_broadcast_cnt b)
      then halo_hwc_less (output_0_halo_broadcast_cnt a) (output_0_halo_broadcast_cnt b)
      else if \<not> halo_hwc_eq (output_0_inbound_halo a) (output_0_inbound_halo b)
      then halo_hwc_less (output_0_inbound_halo a) (output_0_inbound_halo b)
      else False)"

definition setVerticalNoHalo :: "HaloWorkload \<Rightarrow> HaloWorkload" where
  "setVerticalNoHalo h =
     \<lparr>input_0_halo = hwc_setVerticalNoHalo (input_0_halo h), output_0_halo = hwc_setVerticalNoHalo (output_0_halo h),
      output_0_halo_broadcast_cnt = hwc_setVerticalNoHalo (output_0_halo_broadcast_cnt h),
      output_0_inbound_halo = hwc_setVerticalNoHalo (output_0_inbound_halo h)\<rparr>"

definition setHorizontalNoHalo :: "HaloWorkload \<Rightarrow> HaloWorkload" where
  "setHorizontalNoHalo h =
     \<lparr>input_0_halo = hwc_setHorizontalNoHalo (input_0_halo h), output_0_halo = hwc_setHorizontalNoHalo (output_0_halo h),
      output_0_halo_broadcast_cnt = hwc_setHorizontalNoHalo (output_0_halo_broadcast_cnt h),
      output_0_inbound_halo = hwc_setHorizontalNoHalo (output_0_inbound_halo h)\<rparr>"

definition setInboundHaloVerticalForBroadcastAll :: "u32 \<Rightarrow> u32 \<Rightarrow> u32 \<Rightarrow> HaloWorkload \<Rightarrow> HaloWorkload" where
  "setInboundHaloVerticalForBroadcastAll full_output_size output_remaining_to_process output_tile_dim h =
     (let prev_tiles_output_processed = full_output_size - output_remaining_to_process;
          next_tiles_output_to_process = output_remaining_to_process - output_tile_dim
      in h\<lparr>output_0_inbound_halo := (output_0_inbound_halo h)
           \<lparr>halo_top := to_int prev_tiles_output_processed, halo_bottom := to_int next_tiles_output_to_process\<rparr>\<rparr>)"

definition setInboundHaloHorizontalForBroadcastAll :: "u32 \<Rightarrow> u32 \<Rightarrow> u32 \<Rightarrow> HaloWorkload \<Rightarrow> HaloWorkload" where
  "setInboundHaloHorizontalForBroadcastAll full_output_size output_remaining_to_process output_tile_dim h =
     (let prev_tiles_output_processed = full_output_size - output_remaining_to_process;
          next_tiles_output_to_process = output_remaining_to_process - output_tile_dim
      in h\<lparr>output_0_inbound_halo := (output_0_inbound_halo h)
           \<lparr>halo_left := to_int prev_tiles_output_processed, halo_right := to_int next_tiles_output_to_process\<rparr>\<rparr>)"

section \<open>Storage element pointers\<close>

record SEPModeInfo =
  sep_enabled :: bool
  storage_elements_pointers :: WHCB
  actual_activators_input :: WHCB
  no_sparse_map :: bool

definition default_SEPModeInfo :: SEPModeInfo where
  "default_SEPModeInfo =
     \<lparr>sep_enabled = False, storage_elements_pointers = mk_shape 0 0 0 0,
      actual_activators_input = mk_shape 0 0 0 0, no_sparse_map = False\<rparr>"

definition whcb_numberOfElements :: "WHCB \<Rightarrow> u32" where
  "whcb_numberOfElements s = multiply_vector (shape_elems s)"

definition sep_eq :: "SEPModeInfo \<Rightarrow> SEPModeInfo \<Rightarrow> bool" where
  "sep_eq a b \<longleftrightarrow> sep_enabled a = sep_enabled b \<and> storage_elements_pointers a = storage_elements_pointers b \<and>
     actual_activators_input a = actual_activators_input b \<and> no_sparse_map a = no_sparse_map b"

definition sep_less :: "SEPModeInfo \<Rightarrow> SEPModeInfo \<Rightarrow> bool" where
  "sep_less a b =
     (if sep_enabled a \<noteq> sep_enabled b then sep_enabled a < sep_enabled b
      else if storage_elements_pointers a \<noteq> storage_elements_pointers b
      then shape_less (storage_elements_pointers a) (storage_elements_pointers b)
      else if actual_activators_input a \<noteq> actual_activators_input b
      then shape_less (actual_activators_input a) (actual_activators_input b)
      else if no_sparse_map a \<noteq> no_sparse_map b then no_sparse_map a < no_sparse_map b
      else False)"

section \<open>Hints of the profiling service\<close>

datatype ProfilingServiceBackend = SILICON | VPUEM | enum_size

definition ProfilingServiceBackend_enum :: "ProfilingServiceBackend list" where
  "ProfilingServiceBackend_enum =
     [ProfilingServiceBackend.SILICON, ProfilingServiceBackend.VPUEM, ProfilingServiceBackend.enum_size]"

definition ProfilingServiceBackend_ToText :: EnumMap where
  "ProfilingServiceBackend_ToText =
     [link ProfilingServiceBackend_enum SILICON ''silicon'', link ProfilingServiceBackend_enum VPUEM ''vpuem'']"

definition enumName_ProfilingServiceBackend :: string where
  "enumName_ProfilingServiceBackend = ''ProfilingServiceBackend''"

datatype EnvProfilingState = NotSet | ForcedOn | ForcedOff

text \<open>The environment is a map from variable names to values; an absent variable reads as the empty text.\<close>

definition get_env_var :: "(string \<rightharpoonup> string) \<Rightarrow> string \<Rightarrow> string" where
  "get_env_var env var = (case env var of Some v \<Rightarrow> v | None \<Rightarrow> '''')"

definition readProfilingEnvState :: "(string \<rightharpoonup> string) \<Rightarrow> EnvProfilingState" where
  "readProfilingEnvState env =
     (let v = get_env_var env ''ENABLE_VPUNN_PROFILING_SERVICE'' in
      if v = ''TRUE'' then ForcedOn else if v = ''FALSE'' then ForcedOff else NotSet)"

record ProfilingAutoHintGate =
  envState :: EnvProfilingState
  gate_enabled :: bool

definition make_ProfilingAutoHintGate :: "(string \<rightharpoonup> string) \<Rightarrow> ProfilingAutoHintGate" where
  "make_ProfilingAutoHintGate env =
     (let s = readProfilingEnvState env in \<lparr>envState = s, gate_enabled = (s = ForcedOn)\<rparr>)"

definition gate_set :: "bool \<Rightarrow> ProfilingAutoHintGate \<Rightarrow> ProfilingAutoHintGate" where
  "gate_set v g = (if envState g = NotSet then g\<lparr>gate_enabled := v\<rparr> else g)"

section \<open>DPUWorkload\<close>

record WH =
  gridW :: u32
  gridH :: u32

record PadTBLR =
  padTOP :: u32
  padBOTTOM :: u32
  padLEFT :: u32
  padRIGHT :: u32

record DPUWorkload =
  device :: VPUDevice
  op :: Operation
  inputs_0 :: VPUTensor
  outputs_0 :: VPUTensor
  kernels :: WH
  strides :: WH
  padding :: PadTBLR
  execution_order :: ExecutionMode
  activation_function :: ActivationFunction
  act_sparsity :: real
  weight_sparsity :: real
  input_swizzling_0 :: Swizzling
  input_swizzling_1 :: Swizzling
  output_swizzling_0 :: Swizzling
  output_write_tiles :: u32
  offsets :: WHCB
  isi_strategy :: ISIStrategy
  weight_sparsity_enabled :: bool
  halo :: HaloWorkload
  sep_activators :: SEPModeInfo
  weight_type :: "DataType option"
  layer_info :: string
  weightless_operation :: "bool option"
  in_place_output_memory :: "bool option"
  superdense_memory :: "bool option"
  input_autopad :: "bool option"
  output_autopad :: "bool option"
  cost_source_hint :: CostSourceHint
  profiling_service_backend_hint :: ProfilingServiceBackend
  mpe_engine :: MPEEngine
  reduce_minmax_op :: bool

text \<open>
  A workload with the default member initialisers; the members without one (device, operation, kernels,
  strides, padding and execution order) are uninitialised in C++ and arguments here.
\<close>

definition new_DPUWorkload ::
  "VPUDevice \<Rightarrow> Operation \<Rightarrow> VPUTensor \<Rightarrow> VPUTensor \<Rightarrow> WH \<Rightarrow> WH \<Rightarrow> PadTBLR \<Rightarrow> ExecutionMode \<Rightarrow> DPUWorkload" where
  "new_DPUWorkload dev oper inp out ker str pad exec =
     \<lparr>device = dev, op = oper, inputs_0 = inp, outputs_0 = out, kernels = ker, strides = str, padding = pad,
      execution_order = exec, activation_function = ActivationFunction.NONE, act_sparsity = 0, weight_sparsity = 0,
      input_swizzling_0 = default_init_swizzling, input_swizzling_1 = default_init_swizzling,
      output_swizzling_0 = default_init_swizzling, output_write_tiles = 1, offsets = mk_shape 0 0 0 0,
      isi_strategy = ISIStrategy.CLUSTERING, weight_sparsity_enabled = False, halo = default_HaloWorkload,
      sep_activators = default_SEPModeInfo, weight_type = None, layer_info = '''', weightless_operation = None,
      in_place_output_memory = None, superdense_memory = None, input_autopad = None, output_autopad = None,
      cost_source_hint = AUTO, profiling_service_backend_hint = ProfilingServiceBackend.enum_size,
      mpe_engine = SCL, reduce_minmax_op = False\<rparr>"

definition is_elementwise_like_operation :: "Operation \<Rightarrow> bool" where
  "is_elementwise_like_operation oper \<longleftrightarrow> oper = ELTWISE \<or> oper = ELTWISE_MUL"

definition is_preconditions_for_inplace_output :: "Layout \<Rightarrow> DataType \<Rightarrow> Layout \<Rightarrow> DataType \<Rightarrow> bool" where
  "is_preconditions_for_inplace_output in_layout in_dtype out_layout out_dtype \<longleftrightarrow>
     in_layout = out_layout \<and> is_same_datatype_footprint in_dtype out_dtype"

definition is_special_no_weights_situation :: "Layout \<Rightarrow> DataType \<Rightarrow> Layout \<Rightarrow> DataType \<Rightarrow> bool" where
  "is_special_no_weights_situation in_layout in_dtype out_layout out_dtype \<longleftrightarrow>
     in_layout \<noteq> out_layout \<or> \<not> is_same_datatype_footprint in_dtype out_dtype"

definition value_or :: "'a option \<Rightarrow> 'a \<Rightarrow> 'a" where
  "value_or opt d = (case opt of Some v \<Rightarrow> v | None \<Rightarrow> d)"

definition wl_is_preconditions_for_inplace_output :: "DPUWorkload \<Rightarrow> bool" where
  "wl_is_preconditions_for_inplace_output w =
     is_preconditions_for_inplace_output (layout (inputs_0 w)) (dtype (inputs_0 w))
       (layout (outputs_0 w)) (dtype (outputs_0 w))"

definition wl_is_special_No_weights_situation :: "DPUWorkload \<Rightarrow> bool" where
  "wl_is_special_No_weights_situation w =
     is_special_no_weights_situation (layout (inputs_0 w)) (dtype (inputs_0 w))
       (layout (outputs_0 w)) (dtype (outputs_0 w))"

definition set_layer_info :: "string \<Rightarrow> DPUWorkload \<Rightarrow> DPUWorkload" where
  "set_layer_info layer_info_name w = w\<lparr>layer_info := layer_info_name\<rparr>"

definition set_inplace_input1 :: "bool \<Rightarrow> DPUWorkload \<Rightarrow> DPUWorkload" where
  "set_inplace_input1 in_place w = w\<lparr>weightless_operation := Some in_place\<rparr>"

definition set_inplace_output :: "bool \<Rightarrow> DPUWorkload \<Rightarrow> DPUWorkload" where
  "set_inplace_output in_place w = w\<lparr>in_place_output_memory := Some in_place\<rparr>"

definition set_inplace_output_memory :: "bool \<Rightarrow> DPUWorkload \<Rightarrow> DPUWorkload" where
  "set_inplace_output_memory in_place w =
     (if is_elementwise_like_operation (op w) then w\<lparr>in_place_output_memory := Some in_place\<rparr>
      else if in_place = False then w\<lparr>in_place_output_memory := Some False\<rparr>
      else w)"

definition is_inplace_output_memory :: "DPUWorkload \<Rightarrow> bool" where
  "is_inplace_output_memory w =
     (if is_elementwise_like_operation (op w)
      then value_or (in_place_output_memory w) (wl_is_preconditions_for_inplace_output w)
      else False)"

definition is_weightless_operation :: "DPUWorkload \<Rightarrow> bool" where
  "is_weightless_operation w =
     (if is_elementwise_like_operation (op w)
      then value_or (weightless_operation w) (wl_is_special_No_weights_situation w)
      else False)"

definition set_superdense :: "bool \<Rightarrow> DPUWorkload \<Rightarrow> DPUWorkload" where
  "set_superdense superdense w = w\<lparr>superdense_memory := Some superdense\<rparr>"

definition is_superdense :: "DPUWorkload \<Rightarrow> bool" where
  "is_superdense w = value_or (superdense_memory w) False"

definition is_input_autopad :: "DPUWorkload \<Rightarrow> bool" where
  "is_input_autopad w = value_or (input_autopad w) False"

definition is_output_autopad :: "'a DPUWorkload_scheme \<Rightarrow> bool" where
  "is_output_autopad w = value_or (output_autopad w) False"

definition is_output_unaligned :: "DPUWorkload \<Rightarrow> bool" where
  "is_output_unaligned w \<longleftrightarrow> channels (outputs_0 w) mod 16 \<noteq> 0 \<and> is_output_autopad w"

definition set_input_autopad :: "bool \<Rightarrow> DPUWorkload \<Rightarrow> DPUWorkload" where
  "set_input_autopad autopad w = w\<lparr>input_autopad := Some autopad\<rparr>"

definition set_output_autopad :: "bool \<Rightarrow> DPUWorkload \<Rightarrow> DPUWorkload" where
  "set_output_autopad autopad w = w\<lparr>output_autopad := Some autopad\<rparr>"

definition set_reduce_minmax_op :: "bool \<Rightarrow> DPUWorkload \<Rightarrow> DPUWorkload" where
  "set_reduce_minmax_op reduce_minmax w = w\<lparr>reduce_minmax_op := reduce_minmax\<rparr>"

definition set_all_swizzlings :: "Swizzling \<Rightarrow> DPUWorkload \<Rightarrow> DPUWorkload" where
  "set_all_swizzlings toSet w =
     w\<lparr>input_swizzling_0 := toSet, input_swizzling_1 := toSet, output_swizzling_0 := toSet\<rparr>"

definition get_weight_type :: "DPUWorkload \<Rightarrow> DataType" where
  "get_weight_type w = value_or (weight_type w) (dtype (inputs_0 w))"

section \<open>The backend names\<close>

interpretation profiling_backend_text: enum_text ProfilingServiceBackend_enum ProfilingServiceBackend_ToText
    enumName_ProfilingServiceBackend
  by unfold_locales (code_simp+)

end
