(* ===== verification/Workload_Keys.thy ===== *)
theory Workload_Keys
  imports Workload
begin

text \<open>
  Equality, order and hash of a workload, the three ways in which the caches identify it
  (\<^verbatim>\<open>src/vpu/dpu_workload.cpp\<close>, \<^verbatim>\<open>src/vpu/workload_hash.cpp\<close>). The theory shows what each of them depends on
  and where they disagree: the order confuses workloads whose tensors differ only in layout, and the
  tolerance of the equality on sparsity is not respected by the hash.
\<close>

section \<open>Equality\<close>

definition sparsity_is_equal :: "(real \<Rightarrow> real) \<Rightarrow> real \<Rightarrow> real \<Rightarrow> bool" where
  "sparsity_is_equal fl a b \<longleftrightarrow> \<bar>fl (a - b)\<bar> < fl (1 / 100000)"

definition workload_eq :: "(real \<Rightarrow> real) \<Rightarrow> DPUWorkload \<Rightarrow> DPUWorkload \<Rightarrow> bool" where
  "workload_eq fl a b \<longleftrightarrow>
     device a = device b \<and> op a = op b \<and> tensor_eq (inputs_0 a) (inputs_0 b) \<and>
     tensor_eq (outputs_0 a) (outputs_0 b) \<and> kernels a = kernels b \<and> strides a = strides b \<and>
     padding a = padding b \<and> execution_order a = execution_order b \<and>
     activation_function a = activation_function b \<and>
     sparsity_is_equal fl (act_sparsity a) (act_sparsity b) \<and>
     sparsity_is_equal fl (weight_sparsity a) (weight_sparsity b) \<and>
     (input_swizzling_0 a = input_swizzling_0 b \<and> input_swizzling_1 a = input_swizzling_1 b) \<and>
     output_swizzling_0 a = output_swizzling_0 b \<and> output_write_tiles a = output_write_tiles b \<and>
     isi_strategy a = isi_strategy b \<and> weight_sparsity_enabled a = weight_sparsity_enabled b \<and>
     halo_eq (halo a) (halo b) \<and> sep_eq (sep_activators a) (sep_activators b) \<and>
     weight_type a = weight_type b \<and> layer_info a = layer_info b \<and>
     weightless_operation a = weightless_operation b \<and> in_place_output_memory a = in_place_output_memory b \<and>
     superdense_memory a = superdense_memory b \<and> input_autopad a = input_autopad b \<and>
     output_autopad a = output_autopad b \<and> mpe_engine a = mpe_engine b \<and> reduce_minmax_op a = reduce_minmax_op b"

section \<open>Order\<close>

abbreviation pos_device :: "VPUDevice \<Rightarrow> int" where "pos_device \<equiv> enum_position VPUDevice_enum"
abbreviation pos_op :: "Operation \<Rightarrow> int" where "pos_op \<equiv> enum_position Operation_enum"
abbreviation pos_exec :: "ExecutionMode \<Rightarrow> int" where "pos_exec \<equiv> enum_position ExecutionMode_enum"
abbreviation pos_act :: "ActivationFunction \<Rightarrow> int" where "pos_act \<equiv> enum_position ActivationFunction_enum"
abbreviation pos_swz :: "Swizzling \<Rightarrow> int" where "pos_swz \<equiv> enum_position Swizzling_enum"
abbreviation pos_isi :: "ISIStrategy \<Rightarrow> int" where "pos_isi \<equiv> enum_position ISIStrategy_enum"
abbreviation pos_dtype :: "DataType \<Rightarrow> int" where "pos_dtype \<equiv> enum_position DataType_enum"
abbreviation pos_layout :: "Layout \<Rightarrow> int" where "pos_layout \<equiv> enum_position Layout_enum"
abbreviation pos_mpe :: "MPEEngine \<Rightarrow> int" where "pos_mpe \<equiv> enum_position MPEEngine_enum"

definition wh_key :: "WH \<Rightarrow> u32 \<times> u32" where
  "wh_key g = (gridW g, gridH g)"

definition pad_key :: "PadTBLR \<Rightarrow> u32 \<times> u32 \<times> u32 \<times> u32" where
  "pad_key p = (padTOP p, padBOTTOM p, padLEFT p, padRIGHT p)"

definition workload_less :: "DPUWorkload \<Rightarrow> DPUWorkload \<Rightarrow> bool" where
  "workload_less a b =
     (if device a \<noteq> device b then pos_device (device a) < pos_device (device b)
      else if op a \<noteq> op b then pos_op (op a) < pos_op (op b)
      else if \<not> tensor_eq (inputs_0 a) (inputs_0 b) then tensor_less (inputs_0 a) (inputs_0 b)
      else if \<not> tensor_eq (outputs_0 a) (outputs_0 b) then tensor_less (outputs_0 a) (outputs_0 b)
      else if kernels a \<noteq> kernels b then wh_key (kernels a) < wh_key (kernels b)
      else if strides a \<noteq> strides b then wh_key (strides a) < wh_key (strides b)
      else if padding a \<noteq> padding b then pad_key (padding a) < pad_key (padding b)
      else if execution_order a \<noteq> execution_order b then pos_exec (execution_order a) < pos_exec (execution_order b)
      else if activation_function a \<noteq> activation_function b
      then pos_act (activation_function a) < pos_act (activation_function b)
      else if act_sparsity a \<noteq> act_sparsity b then act_sparsity a < act_sparsity b
      else if weight_sparsity a \<noteq> weight_sparsity b then weight_sparsity a < weight_sparsity b
      else if input_swizzling_0 a \<noteq> input_swizzling_0 b \<or> input_swizzling_1 a \<noteq> input_swizzling_1 b
      then (pos_swz (input_swizzling_0 a), pos_swz (input_swizzling_1 a)) <
           (pos_swz (input_swizzling_0 b), pos_swz (input_swizzling_1 b))
      else if output_swizzling_0 a \<noteq> output_swizzling_0 b
      then pos_swz (output_swizzling_0 a) < pos_swz (output_swizzling_0 b)
      else if output_write_tiles a \<noteq> output_write_tiles b then output_write_tiles a < output_write_tiles b
      else if isi_strategy a \<noteq> isi_strategy b then pos_isi (isi_strategy a) < pos_isi (isi_strategy b)
      else if weight_sparsity_enabled a \<noteq> weight_sparsity_enabled b
      then weight_sparsity_enabled a < weight_sparsity_enabled b
      else if \<not> halo_eq (halo a) (halo b) then halo_less (halo a) (halo b)
      else if \<not> sep_eq (sep_activators a) (sep_activators b) then sep_less (sep_activators a) (sep_activators b)
      else if weight_type a \<noteq> weight_type b then map_option pos_dtype (weight_type a) < map_option pos_dtype (weight_type b)
      else if weightless_operation a \<noteq> weightless_operation b then weightless_operation a < weightless_operation b
      else if in_place_output_memory a \<noteq> in_place_output_memory b then in_place_output_memory a < in_place_output_memory b
      else if superdense_memory a \<noteq> superdense_memory b then superdense_memory a < superdense_memory b
      else if input_autopad a \<noteq> input_autopad b then input_autopad a < input_autopad b
      else if output_autopad a \<noteq> output_autopad b then output_autopad a < output_autopad b
      else if mpe_engine a \<noteq> mpe_engine b then pos_mpe (mpe_engine a) < pos_mpe (mpe_engine b)
      else if reduce_minmax_op a \<noteq> reduce_minmax_op b then reduce_minmax_op a < reduce_minmax_op b
      else False)"

section \<open>Hash\<close>

definition hash_tensor :: "u32 \<Rightarrow> VPUTensor \<Rightarrow> u32" where
  "hash_tensor h t =
     (let h = fold (\<lambda>dim h. hash_uint32 h dim) (shape_elems (shape t)) h;
          h = hash_enum h (pos_dtype (dtype t));
          h = hash_enum h (pos_layout (layout t))
      in hash_bool h (sparsity t))"

definition halo_values :: "HaloInfoHWC \<Rightarrow> u32 list" where
  "halo_values i =
     map to_u32 [halo_top i, halo_bottom i, halo_left i, halo_right i, halo_front i, halo_back i]"

definition hash_halo :: "u32 \<Rightarrow> HaloWorkload \<Rightarrow> u32" where
  "hash_halo h w =
     fold (\<lambda>v h. hash_uint32 h v)
       (halo_values (input_0_halo w) @ halo_values (output_0_halo w) @
        halo_values (output_0_halo_broadcast_cnt w) @ halo_values (output_0_inbound_halo w)) h"

definition hash_sep :: "u32 \<Rightarrow> SEPModeInfo \<Rightarrow> u32" where
  "hash_sep h sep =
     (let h = hash_bool h (sep_enabled sep);
          h = fold (\<lambda>v h. hash_uint32 h v) (shape_elems (storage_elements_pointers sep)) h;
          h = fold (\<lambda>v h. hash_uint32 h v) (shape_elems (actual_activators_input sep)) h
      in hash_bool h (no_sparse_map sep))"

definition workload_hash :: "(real \<Rightarrow> real) \<Rightarrow> DPUWorkload \<Rightarrow> u32" where
  "workload_hash fl w =
     (let h = fnv_offset_basis;
          h = hash_enum h (pos_device (device w));
          h = hash_enum h (pos_op (op w));
          h = hash_tensor h (inputs_0 w);
          h = hash_tensor h (outputs_0 w);
          h = fold (\<lambda>v h. hash_uint32 h v) [gridW (kernels w), gridH (kernels w)] h;
          h = fold (\<lambda>v h. hash_uint32 h v) [gridW (strides w), gridH (strides w)] h;
          h = fold (\<lambda>v h. hash_uint32 h v)
                [padTOP (padding w), padBOTTOM (padding w), padLEFT (padding w), padRIGHT (padding w)] h;
          h = hash_enum h (pos_exec (execution_order w));
          h = hash_enum h (pos_act (activation_function w));
          h = hash_float fl h (act_sparsity w);
          h = hash_float fl h (weight_sparsity w);
          h = fold (\<lambda>v h. hash_enum h v) [pos_swz (input_swizzling_0 w), pos_swz (input_swizzling_1 w)] h;
          h = hash_enum h (pos_swz (output_swizzling_0 w));
          h = hash_uint32 h (output_write_tiles w);
          h = hash_enum h (pos_isi (isi_strategy w));
          h = hash_bool h (weight_sparsity_enabled w);
          h = hash_halo h (halo w);
          h = hash_sep h (sep_activators w);
          h = hash_enum h (pos_dtype (get_weight_type w));
          h = hash_bool h (is_weightless_operation w);
          h = hash_bool h (is_inplace_output_memory w);
          h = hash_bool h (is_superdense w);
          h = hash_bool h (is_input_autopad w);
          h = hash_bool h (is_output_autopad w);
          h = hash_enum h (pos_mpe (mpe_engine w))
      in hash_bool h (reduce_minmax_op w))"

section \<open>The composed hashes keep the state\<close>

interpretation tensor_hash: hash_fold hash_tensor
  by unfold_locales (simp add: hash_tensor_def Let_def)

interpretation halo_hash: hash_fold hash_halo
  by unfold_locales (simp add: hash_halo_def del: fold_append)

interpretation sep_hash: hash_fold hash_sep
  by unfold_locales (simp add: hash_sep_def Let_def)

lemma enum_univ:
  "set VPUDevice_enum = UNIV" "set Operation_enum = UNIV" "set ExecutionMode_enum = UNIV"
  "set ActivationFunction_enum = UNIV" "set Swizzling_enum = UNIV" "set ISIStrategy_enum = UNIV"
  "set MPEEngine_enum = UNIV" "set DataType_enum = UNIV" "set Layout_enum = UNIV"
proof -
  have "x \<in> set VPUDevice_enum" for x by (cases x) (simp_all add: VPUDevice_enum_def)
  then show "set VPUDevice_enum = UNIV" by blast
  have "x \<in> set Operation_enum" for x by (cases x) (simp_all add: Operation_enum_def)
  then show "set Operation_enum = UNIV" by blast
  have "x \<in> set ExecutionMode_enum" for x by (cases x) (simp_all add: ExecutionMode_enum_def)
  then show "set ExecutionMode_enum = UNIV" by blast
  have "x \<in> set ActivationFunction_enum" for x by (cases x) (simp_all add: ActivationFunction_enum_def)
  then show "set ActivationFunction_enum = UNIV" by blast
  have "x \<in> set Swizzling_enum" for x by (cases x) (simp_all add: Swizzling_enum_def)
  then show "set Swizzling_enum = UNIV" by blast
  have "x \<in> set ISIStrategy_enum" for x by (cases x) (simp_all add: ISIStrategy_enum_def)
  then show "set ISIStrategy_enum = UNIV" by blast
  have "x \<in> set MPEEngine_enum" for x by (cases x) (simp_all add: MPEEngine_enum_def)
  then show "set MPEEngine_enum = UNIV" by blast
  have "x \<in> set DataType_enum" for x by (cases x) (simp_all add: DataType_enum_def)
  then show "set DataType_enum = UNIV" by blast
  have "x \<in> set Layout_enum" for x by (cases x) (simp_all add: Layout_enum_def)
  then show "set Layout_enum = UNIV" by blast
qed

lemma position_iff: "set vals = UNIV \<Longrightarrow> enum_position vals a = enum_position vals b \<longleftrightarrow> a = b"
  by (metis UNIV_I enum_position_nth)

lemmas position_iffs [simp] = enum_univ [THEN position_iff]

lemma hash_enum_position_iff:
  assumes "set vals = UNIV" "length vals \<le> 256"
  shows "hash_enum h (enum_position vals a) = hash_enum h (enum_position vals b) \<longleftrightarrow> a = b"
proof -
  have "0 \<le> enum_position vals x \<and> enum_position vals x < 256" for x
    using enum_position_bounds(1) [of vals x] enum_position_bounds(2) [of x vals] assms by force
  then show ?thesis using assms by (simp add: hash_enum_small_iff position_iff)
qed

lemma enum_lengths:
  "length VPUDevice_enum \<le> 256" "length ExecutionMode_enum \<le> 256" "length ActivationFunction_enum \<le> 256"
  "length ISIStrategy_enum \<le> 256" "length MPEEngine_enum \<le> 256"
  by (simp_all add: VPUDevice_enum_def ExecutionMode_enum_def ActivationFunction_enum_def ISIStrategy_enum_def
      MPEEngine_enum_def)

lemmas hash_enum_iffs = hash_enum_position_iff [OF enum_univ(1) enum_lengths(1)]
  hash_enum_position_iff [OF enum_univ(3) enum_lengths(2)] hash_enum_position_iff [OF enum_univ(4) enum_lengths(3)]
  hash_enum_position_iff [OF enum_univ(6) enum_lengths(4)] hash_enum_position_iff [OF enum_univ(7) enum_lengths(5)]

section \<open>The order on workloads with equal layouts\<close>

definition shape_key :: "WHCB \<Rightarrow> u32 \<times> u32 \<times> u32 \<times> u32" where
  "shape_key s = (dimX s, dimY s, dimZ s, dimB s)"

definition hwc_key :: "HaloInfoHWC \<Rightarrow> (int \<times> int \<times> int \<times> int) \<times> int \<times> int" where
  "hwc_key i = ((halo_top i, halo_bottom i, halo_left i, halo_right i), halo_front i, halo_back i)"

definition halo_key where
  "halo_key h = (hwc_key (input_0_halo h), hwc_key (output_0_halo h), hwc_key (output_0_halo_broadcast_cnt h),
     hwc_key (output_0_inbound_halo h))"

definition sep_key where
  "sep_key s = (sep_enabled s, shape_key (storage_elements_pointers s), shape_key (actual_activators_input s),
     no_sparse_map s)"

definition workload_key where
  "workload_key w =
     (pos_device (device w), pos_op (op w), tensor_key (inputs_0 w), tensor_key (outputs_0 w),
      wh_key (kernels w), wh_key (strides w), pad_key (padding w), pos_exec (execution_order w),
      pos_act (activation_function w), act_sparsity w, weight_sparsity w,
      (pos_swz (input_swizzling_0 w), pos_swz (input_swizzling_1 w)), pos_swz (output_swizzling_0 w),
      output_write_tiles w, pos_isi (isi_strategy w), weight_sparsity_enabled w, halo_key (halo w),
      sep_key (sep_activators w), map_option pos_dtype (weight_type w), weightless_operation w,
      in_place_output_memory w, superdense_memory w, input_autopad w, output_autopad w,
      pos_mpe (mpe_engine w), reduce_minmax_op w)"

lemma wh_key_iff [simp]: "wh_key g = wh_key g' \<longleftrightarrow> g = g'"
  by (cases g; cases g') (simp add: wh_key_def)

lemma pad_key_iff [simp]: "pad_key p = pad_key p' \<longleftrightarrow> p = p'"
  by (cases p; cases p') (simp add: pad_key_def)

lemma shape_key_iff [simp]: "shape_key s = shape_key s' \<longleftrightarrow> s = s'"
  by (cases s; cases s') (simp add: shape_key_def)

lemma shape_key_less: "shape_less s s' \<longleftrightarrow> shape_key s < shape_key s'"
  by (simp add: shape_less_def shape_key_def)

lemma hwc_key_iff: "halo_hwc_eq a b \<longleftrightarrow> hwc_key a = hwc_key b"
  by (auto simp: halo_hwc_eq_def halo_hw_eq_def hwc_key_def)

lemma hwc_key_less: "halo_hwc_less a b \<longleftrightarrow> hwc_key a < hwc_key b"
  unfolding halo_hwc_less_def hwc_key_def halo_hw_less_def
  by (intro lexicographic_neq_step lexicographic_neq_last) (auto simp: halo_hw_eq_def)

lemma halo_key_iff: "halo_eq a b \<longleftrightarrow> halo_key a = halo_key b"
  by (auto simp: halo_eq_def halo_key_def hwc_key_iff)

lemma halo_key_less: "halo_less a b \<longleftrightarrow> halo_key a < halo_key b"
  unfolding halo_less_def halo_key_def
  by (intro lexicographic_neq_step lexicographic_neq_last) (simp_all add: hwc_key_iff hwc_key_less)

lemma sep_key_iff: "sep_eq a b \<longleftrightarrow> sep_key a = sep_key b"
  by (auto simp: sep_eq_def sep_key_def)

lemma sep_key_less: "sep_less a b \<longleftrightarrow> sep_key a < sep_key b"
  unfolding sep_less_def sep_key_def
  by (intro lexicographic_neq_step lexicographic_neq_last) (simp_all add: shape_key_less)

lemma tensor_key_iff: "layout a = layout b \<Longrightarrow> tensor_eq a b \<longleftrightarrow> tensor_key a = tensor_key b"
  by (cases "shape a"; cases "shape b") (auto simp: tensor_eq_def tensor_key_def)

lemma map_option_position_iff: "map_option pos_dtype a = map_option pos_dtype b \<longleftrightarrow> a = b"
  by (cases a; cases b) auto

interpretation halo_order: keyed_order halo_less halo_key
  by unfold_locales (rule halo_key_less)

interpretation sep_order: keyed_order sep_less sep_key
  by unfold_locales (rule sep_key_less)

lemma workload_less_key:
  assumes "layout (inputs_0 a) = layout (inputs_0 b)" "layout (outputs_0 a) = layout (outputs_0 b)"
  shows "workload_less a b \<longleftrightarrow> workload_key a < workload_key b"
  unfolding workload_less_def workload_key_def
  by (intro lexicographic_neq_step lexicographic_neq_last)
    (simp_all add: tensor_key_iff [OF assms(1)] tensor_key_iff [OF assms(2)] tensor_order.less_key halo_key_iff
      halo_key_less sep_key_iff sep_key_less map_option_position_iff)

section \<open>Properties\<close>

text \<open>
  Among workloads whose tensors have the same layouts, \<^verbatim>\<open>operator<\<close> of \<open>DPUWorkload\<close> meets the contract of an
  ordered container: irreflexive, transitive, with a transitive equivalence.
\<close>

theorem workload_less_contract:
  assumes "layout (inputs_0 a) = layout (inputs_0 b)" "layout (outputs_0 a) = layout (outputs_0 b)"
    and "layout (inputs_0 b) = layout (inputs_0 c)" "layout (outputs_0 b) = layout (outputs_0 c)"
  shows "\<not> workload_less a a \<and> (workload_less a b \<and> workload_less b c \<longrightarrow> workload_less a c) \<and>
    (\<not> workload_less a b \<and> \<not> workload_less b a \<and> \<not> workload_less b c \<and> \<not> workload_less c b \<longrightarrow>
       \<not> workload_less a c \<and> \<not> workload_less c a)"
proof -
  have k: "workload_less a a \<longleftrightarrow> workload_key a < workload_key a" "workload_less a b \<longleftrightarrow> workload_key a < workload_key b"
    "workload_less b a \<longleftrightarrow> workload_key b < workload_key a" "workload_less b c \<longleftrightarrow> workload_key b < workload_key c"
    "workload_less c b \<longleftrightarrow> workload_key c < workload_key b" "workload_less a c \<longleftrightarrow> workload_key a < workload_key c"
    "workload_less c a \<longleftrightarrow> workload_key c < workload_key a"
    using assms by (simp_all only: workload_less_key)
  show ?thesis unfolding k by (rule linorder_strict_weak)
qed

definition sample_workload :: "Layout \<Rightarrow> u32 \<Rightarrow> DPUWorkload" where
  "sample_workload lay k =
     new_DPUWorkload VPU_4_0 CONVOLUTION (mk_VPUTensor 16 16 64 1 UINT8 lay False)
       (mk_VPUTensor 16 16 64 1 UINT8 ZXY False) \<lparr>gridW = k, gridH = k\<rparr> \<lparr>gridW = 1, gridH = 1\<rparr>
       \<lparr>padTOP = 0, padBOTTOM = 0, padLEFT = 0, padRIGHT = 0\<rparr> CUBOID_16x16"

lemmas sample_defs = sample_workload_def new_DPUWorkload_def mk_VPUTensor_def mk_shape_def

theorem workload_less_contract_witness:
  "\<not> workload_less (sample_workload ZXY 1) (sample_workload ZXY 1) \<and> workload_less (sample_workload ZXY 1) (sample_workload ZXY 5)"
proof -
  have "workload_less (sample_workload ZXY 1) (sample_workload ZXY 3)"
    "workload_less (sample_workload ZXY 3) (sample_workload ZXY 5)"
    by (simp_all add: workload_less_def sample_defs tensor_eq_def wh_key_def)
  then show ?thesis
    using workload_less_contract [of "sample_workload ZXY 1" "sample_workload ZXY 3" "sample_workload ZXY 5"]
    by (simp add: sample_defs)
qed

text \<open>
  Across layouts the contract fails: the comparison of the tensors stops at a difference in layout that
  \<open>operator<\<close> of tensors does not order, so that later fields are not looked at. There are three workloads of
  which the first is equivalent to the second and the second to the third, but the first is less than
  the third; a \<open>std::map\<close> keyed by workloads has undefined behaviour on them.
\<close>

theorem workload_less_not_strict_weak:
  "\<exists>a b c. \<not> workload_less a b \<and> \<not> workload_less b a \<and> \<not> workload_less b c \<and> \<not> workload_less c b \<and> workload_less a c"
proof -
  let ?a = "sample_workload ZXY 1" and ?b = "sample_workload XYZ 1" and ?c = "sample_workload ZXY 3"
  have "\<not> workload_less ?a ?b" "\<not> workload_less ?b ?a" "\<not> workload_less ?b ?c" "\<not> workload_less ?c ?b"
    "workload_less ?a ?c"
    by (simp_all add: workload_less_def sample_defs tensor_eq_def tensor_less_def shape_less_def dtype_less_def wh_key_def)
  then show ?thesis by blast
qed

text \<open>
  The hash of a workload depends on every one of these fields: changing the device, the execution
  order, the activation function, the ISI strategy, the MPE engine, or one of the two flags, and nothing
  else, always changes the hash.
\<close>

theorem workload_hash_sensitive:
  "(workload_hash fl (w\<lparr>device := v1\<rparr>) = workload_hash fl (w\<lparr>device := v2\<rparr>) \<longleftrightarrow> v1 = v2) \<and>
   (workload_hash fl (w\<lparr>execution_order := e1\<rparr>) = workload_hash fl (w\<lparr>execution_order := e2\<rparr>) \<longleftrightarrow> e1 = e2) \<and>
   (workload_hash fl (w\<lparr>activation_function := f1\<rparr>) = workload_hash fl (w\<lparr>activation_function := f2\<rparr>) \<longleftrightarrow> f1 = f2) \<and>
   (workload_hash fl (w\<lparr>isi_strategy := i1\<rparr>) = workload_hash fl (w\<lparr>isi_strategy := i2\<rparr>) \<longleftrightarrow> i1 = i2) \<and>
   (workload_hash fl (w\<lparr>mpe_engine := m1\<rparr>) = workload_hash fl (w\<lparr>mpe_engine := m2\<rparr>) \<longleftrightarrow> m1 = m2) \<and>
   (workload_hash fl (w\<lparr>weight_sparsity_enabled := s1\<rparr>) = workload_hash fl (w\<lparr>weight_sparsity_enabled := s2\<rparr>) \<longleftrightarrow> s1 = s2) \<and>
   (workload_hash fl (w\<lparr>reduce_minmax_op := r1\<rparr>) = workload_hash fl (w\<lparr>reduce_minmax_op := r2\<rparr>) \<longleftrightarrow> r1 = r2)"
  by (simp add: workload_hash_def Let_def hash_enum_iffs get_weight_type_def is_weightless_operation_def
      is_inplace_output_memory_def is_superdense_def is_input_autopad_def is_output_autopad_def
      wl_is_preconditions_for_inplace_output_def wl_is_special_No_weights_situation_def)

text \<open>
  Equality and hash agree when the sparsity rates are the same numbers: two workloads that \<open>operator==\<close>
  equates then have the same hash, as a hashed container requires.
\<close>

theorem workload_eq_same_hash:
  assumes "workload_eq fl a b" "act_sparsity a = act_sparsity b" "weight_sparsity a = weight_sparsity b"
  shows "workload_hash fl a = workload_hash fl b"
proof -
  have t: "inputs_0 a = inputs_0 b" "outputs_0 a = outputs_0 b"
    using assms(1) by (auto simp: workload_eq_def tensor_eq_def)
  have h: "hash_halo h (halo a) = hash_halo h (halo b)" "hash_sep h (sep_activators a) = hash_sep h (sep_activators b)" for h
    using assms(1) by (auto simp: workload_eq_def halo_eq_def halo_hwc_eq_def halo_hw_eq_def sep_eq_def hash_halo_def
        halo_values_def hash_sep_def)
  show ?thesis
    using assms by (simp add: workload_eq_def workload_hash_def t h get_weight_type_def is_weightless_operation_def
        is_inplace_output_memory_def is_superdense_def is_input_autopad_def is_output_autopad_def
        wl_is_preconditions_for_inplace_output_def wl_is_special_No_weights_situation_def)
qed

theorem workload_eq_same_hash_witness:
  "workload_hash (\<lambda>x. x) (sample_workload ZXY 3) =
   workload_hash (\<lambda>x. x) ((sample_workload ZXY 3)\<lparr>offsets := mk_shape 0 4 0 0\<rparr>)"
  by (rule workload_eq_same_hash)
    (simp_all add: workload_eq_def sample_defs tensor_eq_def sparsity_is_equal_def halo_eq_def halo_hwc_eq_def
      halo_hw_eq_def sep_eq_def)

text \<open>
  C40. They disagree on the tolerance: whatever the rounding of float operations, there are two workloads,
  with sparsity rates less than the epsilon apart, that \<open>operator==\<close> equates and whose hashes differ.
\<close>

theorem workload_eq_tolerance_breaks_hash:
  assumes "float_rounding fl"
  shows "\<exists>a b. workload_eq fl a b \<and> workload_hash fl a \<noteq> workload_hash fl b"
proof -
  let ?a = "(sample_workload ZXY 3)\<lparr>act_sparsity := 1 / 2\<rparr>"
  let ?b = "(sample_workload ZXY 3)\<lparr>act_sparsity := 131071 / 2 ^ 18\<rparr>"
  note exact = float_rounding_exact [OF assms]
  have fl0: "fl 0 = 0" using exact [of 0 0] by simp
  have eps: "1 / 2 ^ 17 \<le> fl (1 / 100000)"
    using float_rounding_mono [OF assms, of "1 / 2 ^ 17" "1 / 100000"] exact [of 1 17] by simp
  have diff: "fl (1 / 262144) = 1 / 262144" using exact [of 1 18] by simp
  have "sparsity_is_equal fl (1 / 2) (131071 / 2 ^ 18)" "sparsity_is_equal fl 0 0"
    using eps fl0 by (simp_all add: sparsity_is_equal_def diff)
  then have eq: "workload_eq fl ?a ?b"
    by (simp add: workload_eq_def sample_defs tensor_eq_def halo_eq_def halo_hwc_eq_def halo_hw_eq_def sep_eq_def)
  have "rescaled_float fl (1 / 2) = 50"
    using exact [of 50 0] by (simp add: rescaled_float_def float_to_u32_def truncate_real_def)
  moreover have "rescaled_float fl (131071 / 2 ^ 18) = 49"
  proof -
    have f: "fl (3276775 / 65536) = 3276775 / 65536" using exact [of 3276775 16] by simp
    have g: "\<lfloor>3276775 / 65536 :: real\<rfloor> = 49" by (simp add: floor_eq_iff)
    show ?thesis by (simp add: rescaled_float_def float_to_u32_def truncate_real_def f g)
  qed
  ultimately have "hash_float fl h (1 / 2) \<noteq> hash_float fl h (131071 / 2 ^ 18)" for h
    by (simp add: hash_float_def hash_uint32_small_iff)
  then have "workload_hash fl ?a \<noteq> workload_hash fl ?b"
    by (simp add: workload_hash_def Let_def get_weight_type_def is_weightless_operation_def
        is_inplace_output_memory_def is_superdense_def is_input_autopad_def is_output_autopad_def
        wl_is_preconditions_for_inplace_output_def wl_is_special_No_weights_situation_def)
  with eq show ?thesis by blast
qed

theorem workload_eq_tolerance_breaks_hash_witness:
  "\<exists>a b. workload_eq (\<lambda>x. x) a b \<and> workload_hash (\<lambda>x. x) a \<noteq> workload_hash (\<lambda>x. x) b"
  by (rule workload_eq_tolerance_breaks_hash) simp

end
