(* ===== verification/Layer_Split.thy ===== *)
theory Layer_Split
  imports Workload
begin

text \<open>
  Splitting a layer over the tiles of the device, \<open>DPULayer\<close> of \<^verbatim>\<open>include/vpu/layer.h\<close>, with the strategies of
  \<^verbatim>\<open>vpu_tiling_strategy.h\<close> and \<^verbatim>\<open>vpu_tiling_strategy_info.h\<close>.

  Every strategy walks over \<open>nTiles\<close> copies of the layer with a few counters. The walk is modelled in two
  stages: a loop on the counters yields one slice per tile (how much output it produces, how much input it
  reads, which padding and halo it has), and a function writes a slice into a copy of the layer, in the
  order of the assignments of the source. The two loops over height and over width are the same code on
  different dimensions, and share the slices.
\<close>

section \<open>Tiling strategies\<close>

datatype VPUTilingStrategy =
    NONE | SOH_Overlapped | SOK | SOW | SOHW | SOHK | SOH_HaloRead | SOHO_K_SWITCH | SOH_K_SWITCH
  | SOK_NO_BROADCAST | UNKNOWN | SOK_H_SWITCH | SOK_W_SWITCH | enum_size

definition VPUTilingStrategy_enum :: "VPUTilingStrategy list" where
  "VPUTilingStrategy_enum =
     [VPUTilingStrategy.NONE, SOH_Overlapped, SOK, SOW, SOHW, SOHK, SOH_HaloRead, SOHO_K_SWITCH, SOH_K_SWITCH,
      SOK_NO_BROADCAST, UNKNOWN, SOK_H_SWITCH, SOK_W_SWITCH, VPUTilingStrategy.enum_size]"

definition VPUTilingStrategy_ToText :: EnumMap where
  "VPUTilingStrategy_ToText =
     [link VPUTilingStrategy_enum VPUTilingStrategy.NONE ''NONE'',
      link VPUTilingStrategy_enum SOH_Overlapped ''SOHO'',
      link VPUTilingStrategy_enum SOK ''SOK'',
      link VPUTilingStrategy_enum SOW ''SOW'',
      link VPUTilingStrategy_enum SOHW ''SOHW'',
      link VPUTilingStrategy_enum SOHK ''SOHK'',
      link VPUTilingStrategy_enum SOH_HaloRead ''SOH_HaloRead'',
      link VPUTilingStrategy_enum SOHO_K_SWITCH ''SOHO_K_SWITCH'',
      link VPUTilingStrategy_enum SOH_K_SWITCH ''SOH_K_SWITCH'',
      link VPUTilingStrategy_enum SOK_NO_BROADCAST ''SOK_NO_BROADCAST'',
      link VPUTilingStrategy_enum UNKNOWN ''UNKNOWN'',
      link VPUTilingStrategy_enum SOK_H_SWITCH ''SOK_SOH_SWITCH'',
      link VPUTilingStrategy_enum SOK_W_SWITCH ''SOK_SOW_SWITCH'']"

definition enumName_VPUTilingStrategy :: string where
  "enumName_VPUTilingStrategy = ''VPUTilingStrategy''"

definition isVerticalTiling :: "VPUTilingStrategy \<Rightarrow> bool" where
  "isVerticalTiling strategy =
     (case strategy of
        VPUTilingStrategy.NONE \<Rightarrow> False
      | SOHW \<Rightarrow> True
      | SOHK \<Rightarrow> True | SOH_HaloRead \<Rightarrow> True | SOHO_K_SWITCH \<Rightarrow> True | SOH_Overlapped \<Rightarrow> True
      | SOW \<Rightarrow> False
      | _ \<Rightarrow> False)"

definition isHorizontalTiling :: "VPUTilingStrategy \<Rightarrow> bool" where
  "isHorizontalTiling strategy =
     (case strategy of
        VPUTilingStrategy.NONE \<Rightarrow> False
      | SOHW \<Rightarrow> True
      | SOHK \<Rightarrow> False | SOH_HaloRead \<Rightarrow> False | SOHO_K_SWITCH \<Rightarrow> False | SOH_Overlapped \<Rightarrow> False
      | SOW \<Rightarrow> True
      | _ \<Rightarrow> False)"

section \<open>Layers and their helpers\<close>

record DPULayer = DPUWorkload +
  compiler_pass :: string

definition layer_workload :: "DPULayer \<Rightarrow> DPUWorkload" where
  "layer_workload l = DPUWorkload.truncate l"

definition remove_empty_tiles :: "DPULayer list \<Rightarrow> DPULayer list" where
  "remove_empty_tiles tiles_list = filter (\<lambda>layer. tensor_size (outputs_0 layer) \<noteq> 0) tiles_list"

definition redimension_tile_H :: "DPULayer \<Rightarrow> DPULayer \<Rightarrow> u32 \<Rightarrow> u32 \<Rightarrow> DPULayer" where
  "redimension_tile_H self tile input_tile_dim output_tile_dim =
     (let output_shape = shape (outputs_0 self); input_shape = shape (inputs_0 self) in
      tile\<lparr>outputs_0 := set_shape (mk_shape (dimX output_shape) output_tile_dim (dimZ output_shape) (dimB output_shape))
             (outputs_0 tile),
           inputs_0 := set_shape (mk_shape (dimX input_shape) input_tile_dim (dimZ input_shape) (dimB input_shape))
             (inputs_0 tile)\<rparr>)"

definition redimension_tile_W :: "DPULayer \<Rightarrow> DPULayer \<Rightarrow> u32 \<Rightarrow> u32 \<Rightarrow> DPULayer" where
  "redimension_tile_W self tile input_tile_dim output_tile_dim =
     (let output_shape = shape (outputs_0 self); input_shape = shape (inputs_0 self) in
      tile\<lparr>outputs_0 := set_shape (mk_shape output_tile_dim (dimY output_shape) (dimZ output_shape) (dimB output_shape))
             (outputs_0 tile),
           inputs_0 := set_shape (mk_shape input_tile_dim (dimY input_shape) (dimZ input_shape) (dimB input_shape))
             (inputs_0 tile)\<rparr>)"

definition rescale_tensor_height :: "WHCB \<Rightarrow> u32 \<Rightarrow> u32 \<Rightarrow> WHCB" where
  "rescale_tensor_height tensor part whole =
     (let newRawHeight = ceil_division (dimY tensor * part) whole;
          newHeight = (if 0 < newRawHeight then newRawHeight else 1)
      in mk_shape (dimX tensor) newHeight (dimZ tensor) (dimB tensor))"

definition rescale_tensor_width :: "WHCB \<Rightarrow> u32 \<Rightarrow> u32 \<Rightarrow> WHCB" where
  "rescale_tensor_width tensor part whole =
     (let newRawWidth = ceil_division (dimX tensor * part) whole;
          newWidth = (if 0 < newRawWidth then newRawWidth else 1)
      in mk_shape newWidth (dimY tensor) (dimZ tensor) (dimB tensor))"

definition recomputeInputTensorShape :: "DPULayer \<Rightarrow> DPULayer" where
  "recomputeInputTensorShape l =
     (let input_width = (width (outputs_0 l) - 1) * gridW (strides l) + gridW (kernels l) -
            padLEFT (padding l) - padRIGHT (padding l);
          input_height = (height (outputs_0 l) - 1) * gridH (strides l) + gridH (kernels l) -
            padTOP (padding l) - padBOTTOM (padding l);
          input_channel = (if op l = CONVOLUTION \<or> op l = CM_CONVOLUTION then tz (inputs_0 l) else tz (outputs_0 l));
          input_batch = batches (inputs_0 l);
          inputTensor = VPUTensor_with_shape (mk_shape input_width input_height input_channel input_batch) (inputs_0 l)
      in l\<lparr>inputs_0 := inputTensor\<rparr>)"

definition set_weight_sparsity :: "bool \<Rightarrow> real \<Rightarrow> DPULayer \<Rightarrow> DPULayer" where
  "set_weight_sparsity enabled sparsity_value l =
     (let l1 = l\<lparr>weight_sparsity := sparsity_value, weight_sparsity_enabled := enabled\<rparr> in
      if weight_sparsity_enabled l1 then l1\<lparr>weight_sparsity := min (max 0 sparsity_value) 1\<rparr>
      else l1\<lparr>weight_sparsity := 0\<rparr>)"

definition set_compiler_pass :: "string \<Rightarrow> DPULayer \<Rightarrow> DPULayer" where
  "set_compiler_pass compiler_pass_info l = l\<lparr>compiler_pass := compiler_pass_info\<rparr>"

definition limit_broadcast :: "bool \<Rightarrow> u32 \<Rightarrow> DPULayer list \<Rightarrow> DPULayer list" where
  "limit_broadcast force_broadcast nTiles tiles =
     (if force_broadcast \<and> length tiles < unat nTiles
      then map (\<lambda>t. t\<lparr>output_write_tiles := word_of_nat (length tiles)\<rparr>) tiles
      else tiles)"

section \<open>Clustering\<close>

definition clustering :: "DPULayer \<Rightarrow> u32 \<Rightarrow> DPULayer list" where
  "clustering self nTiles =
     map (\<lambda>tile. tile\<lparr>isi_strategy := ISIStrategy.CLUSTERING, output_write_tiles := output_write_tiles self\<rparr>)
       (replicate (unat nTiles) self)"

section \<open>Split over height, the deprecated version\<close>

fun SOH_deprecated_loop :: "DPULayer \<Rightarrow> u32 \<Rightarrow> u32 \<Rightarrow> nat \<Rightarrow> DPULayer list" where
  "SOH_deprecated_loop self max_tile_height height_remaining_to_split 0 = []"
| "SOH_deprecated_loop self max_tile_height height_remaining_to_split (Suc n) =
     (let output_tile_height =
            (if max_tile_height \<le> height_remaining_to_split then max_tile_height else height_remaining_to_split);
          input_tile_height = helper_input_dim output_tile_height (gridH (kernels self))
            (padTOP (padding self) + padBOTTOM (padding self)) (gridH (strides self));
          tile = (redimension_tile_H self self input_tile_height output_tile_height)
            \<lparr>isi_strategy := ISIStrategy.SPLIT_OVER_H, output_write_tiles := output_write_tiles self\<rparr>
      in tile # SOH_deprecated_loop self max_tile_height (height_remaining_to_split - output_tile_height) n)"

definition SOH_deprecated :: "DPULayer \<Rightarrow> u32 \<Rightarrow> DPULayer list" where
  "SOH_deprecated self nTiles =
     (let height_remaining_to_split = height (outputs_0 self);
          max_tile_height = ceil_division height_remaining_to_split nTiles
      in remove_empty_tiles (SOH_deprecated_loop self max_tile_height height_remaining_to_split (unat nTiles)))"

section \<open>Overlapped slices\<close>

text \<open>
  The counters of the loop: the input still available (with the padding before it), the part of that padding
  not yet used, and the output that remains to be produced.
\<close>

record SliceContext =
  available_in :: int
  remnant_pad_begin :: int
  remaining_output_to_split :: u32

record Slice =
  slice_input :: u32
  slice_output :: u32
  slice_pad_begin :: int
  slice_pad_end :: int
  slice_remaining :: u32

definition first_context :: "u32 \<Rightarrow> u32 \<Rightarrow> u32 \<Rightarrow> SliceContext" where
  "first_context input_size layer_pad_begin output_size =
     \<lparr>available_in = to_int (input_size + layer_pad_begin), remnant_pad_begin = to_int layer_pad_begin,
      remaining_output_to_split = output_size\<rparr>"

definition slice_output_dim :: "u32 \<Rightarrow> u32 \<Rightarrow> u32" where
  "slice_output_dim desired_tile_dim remaining =
     (if desired_tile_dim \<le> remaining then desired_tile_dim else remaining)"

definition overlapped_slice :: "u32 \<Rightarrow> u32 \<Rightarrow> u32 \<Rightarrow> u32 \<Rightarrow> SliceContext \<Rightarrow> Slice" where
  "overlapped_slice k s layer_pad_end desired_tile_dim c =
     (let output_tile_dim = slice_output_dim desired_tile_dim (remaining_output_to_split c);
          is_last_usefull_tile = (remaining_output_to_split c = output_tile_dim);
          current_pad_begin = remnant_pad_begin c;
          current_pad_end0 = (if is_last_usefull_tile then to_int layer_pad_end else 0);
          input_max_required_size = to_int (helper_input_dim output_tile_dim k 0 s);
          need_more_size = input_max_required_size - available_in c;
          input_tile0 = input_max_required_size - current_pad_begin;
          use_from_end_padding = min need_more_size (to_int layer_pad_end);
          input_tile1 = (if 0 < need_more_size then input_tile0 - use_from_end_padding else input_tile0);
          current_pad_end =
            (if 0 < need_more_size \<and> \<not> is_last_usefull_tile then use_from_end_padding else current_pad_end0);
          input_tile = (if input_tile1 < 0 then 0 else input_tile1)
      in \<lparr>slice_input = to_u32 input_tile, slice_output = output_tile_dim, slice_pad_begin = current_pad_begin,
          slice_pad_end = current_pad_end, slice_remaining = remaining_output_to_split c\<rparr>)"

definition next_context :: "u32 \<Rightarrow> u32 \<Rightarrow> SliceContext \<Rightarrow> SliceContext" where
  "next_context s desired_tile_dim c =
     (let output_tile_dim = slice_output_dim desired_tile_dim (remaining_output_to_split c);
          consumed_input = to_int (output_tile_dim * s)
      in \<lparr>available_in = available_in c - consumed_input,
          remnant_pad_begin = (if consumed_input < remnant_pad_begin c then remnant_pad_begin c - consumed_input else 0),
          remaining_output_to_split = remaining_output_to_split c - output_tile_dim\<rparr>)"

fun overlapped_slices :: "u32 \<Rightarrow> u32 \<Rightarrow> u32 \<Rightarrow> u32 \<Rightarrow> SliceContext \<Rightarrow> nat \<Rightarrow> Slice list" where
  "overlapped_slices k s layer_pad_end desired_tile_dim c 0 = []"
| "overlapped_slices k s layer_pad_end desired_tile_dim c (Suc n) =
     overlapped_slice k s layer_pad_end desired_tile_dim c #
     overlapped_slices k s layer_pad_end desired_tile_dim (next_context s desired_tile_dim c) n"

definition SOH_tile :: "DPULayer \<Rightarrow> u32 \<Rightarrow> bool \<Rightarrow> Slice \<Rightarrow> DPULayer" where
  "SOH_tile self nTiles force_broadcast sl =
     (let tile = redimension_tile_H self self (slice_input sl) (slice_output sl);
          tile = tile\<lparr>padding := (padding tile)\<lparr>padTOP := to_u32 (slice_pad_begin sl),
                        padBOTTOM := to_u32 (slice_pad_end sl)\<rparr>\<rparr>;
          tile = tile\<lparr>isi_strategy := ISIStrategy.CLUSTERING\<rparr>;
          tile = tile\<lparr>output_write_tiles := (if force_broadcast then nTiles else output_write_tiles self)\<rparr>;
          tHalo = setVerticalNoHalo (halo tile);
          tHalo = (if 1 < output_write_tiles tile
                   then setInboundHaloVerticalForBroadcastAll (height (outputs_0 self)) (slice_remaining sl)
                     (slice_output sl) tHalo
                   else tHalo);
          tile = tile\<lparr>halo := tHalo\<rparr>;
          sep = sep_activators tile
      in if sep_enabled sep
         then tile\<lparr>sep_activators := sep
                \<lparr>storage_elements_pointers :=
                   rescale_tensor_height (storage_elements_pointers sep) (slice_input sl) (height (inputs_0 self)),
                 actual_activators_input :=
                   rescale_tensor_height (actual_activators_input sep) (slice_input sl) (height (inputs_0 self))\<rparr>\<rparr>
         else tile)"

definition SOH_overlapped_inputs :: "DPULayer \<Rightarrow> u32 \<Rightarrow> bool \<Rightarrow> DPULayer list" where
  "SOH_overlapped_inputs self nTiles force_broadcast =
     (let output_size = height (outputs_0 self);
          input_size = height (inputs_0 self);
          desired_tile_dim = ceil_division output_size nTiles;
          slices = overlapped_slices (gridH (kernels self)) (gridH (strides self)) (padBOTTOM (padding self))
            desired_tile_dim (first_context input_size (padTOP (padding self)) output_size) (unat nTiles)
      in limit_broadcast force_broadcast nTiles
           (remove_empty_tiles (map (SOH_tile self nTiles force_broadcast) slices)))"

definition SOW_tile :: "DPULayer \<Rightarrow> u32 \<Rightarrow> bool \<Rightarrow> Slice \<Rightarrow> DPULayer" where
  "SOW_tile self nTiles force_broadcast sl =
     (let tile = redimension_tile_W self self (slice_input sl) (slice_output sl);
          tile = tile\<lparr>padding := (padding tile)\<lparr>padLEFT := to_u32 (slice_pad_begin sl),
                        padRIGHT := to_u32 (slice_pad_end sl)\<rparr>\<rparr>;
          tile = tile\<lparr>isi_strategy := ISIStrategy.CLUSTERING\<rparr>;
          tile = tile\<lparr>output_write_tiles := (if force_broadcast then nTiles else output_write_tiles self)\<rparr>;
          tHalo = setHorizontalNoHalo (halo tile);
          tHalo = (if 1 < output_write_tiles tile
                   then setInboundHaloHorizontalForBroadcastAll (width (outputs_0 self)) (slice_remaining sl)
                     (slice_output sl) tHalo
                   else tHalo);
          tile = tile\<lparr>halo := tHalo\<rparr>;
          sep = sep_activators tile
      in if sep_enabled sep
         then tile\<lparr>sep_activators := sep
                \<lparr>storage_elements_pointers :=
                   rescale_tensor_width (storage_elements_pointers sep) (slice_input sl) (width (inputs_0 self)),
                 actual_activators_input :=
                   rescale_tensor_width (actual_activators_input sep) (slice_input sl) (width (inputs_0 self))\<rparr>\<rparr>
         else tile)"

definition SOW_overlapped_inputs :: "DPULayer \<Rightarrow> u32 \<Rightarrow> bool \<Rightarrow> DPULayer list" where
  "SOW_overlapped_inputs self nTiles force_broadcast =
     (let output_size = width (outputs_0 self);
          input_size = width (inputs_0 self);
          desired_tile_dim = ceil_division output_size nTiles;
          slices = overlapped_slices (gridW (kernels self)) (gridW (strides self)) (padRIGHT (padding self))
            desired_tile_dim (first_context input_size (padLEFT (padding self)) output_size) (unat nTiles)
      in limit_broadcast force_broadcast nTiles
           (remove_empty_tiles (map (SOW_tile self nTiles force_broadcast) slices)))"

section \<open>Split over channels\<close>

definition SOK_tile :: "DPULayer \<Rightarrow> u32 \<Rightarrow> bool \<Rightarrow> u32 \<Rightarrow> u32 \<Rightarrow> DPULayer" where
  "SOK_tile self nTiles force_broadcast channels_remaining_to_split tile_channels =
     (let output_size = channels (outputs_0 self);
          out_shape = shape (outputs_0 self);
          tile = self\<lparr>outputs_0 := set_shape (mk_shape (dimX out_shape) (dimY out_shape) tile_channels (dimB out_shape))
                   (outputs_0 self)\<rparr>;
          tile = recomputeInputTensorShape tile;
          tile = (if \<not> force_broadcast
                  then tile\<lparr>isi_strategy := ISIStrategy.CLUSTERING, output_write_tiles := output_write_tiles self\<rparr>
                  else tile\<lparr>isi_strategy := ISIStrategy.SPLIT_OVER_K, output_write_tiles := nTiles\<rparr>);
          tHalo = halo tile;
          tHalo = (if 1 < output_write_tiles tile
                   then tHalo\<lparr>output_0_inbound_halo := (output_0_inbound_halo tHalo)
                          \<lparr>halo_front := to_int (output_size - channels_remaining_to_split),
                           halo_back := to_int (channels_remaining_to_split - tile_channels)\<rparr>\<rparr>
                   else tHalo\<lparr>output_0_inbound_halo := (output_0_inbound_halo tHalo)\<lparr>halo_front := 0, halo_back := 0\<rparr>\<rparr>)
      in tile\<lparr>halo := tHalo\<rparr>)"

fun SOK_loop :: "DPULayer \<Rightarrow> u32 \<Rightarrow> bool \<Rightarrow> u32 \<Rightarrow> u32 \<Rightarrow> nat \<Rightarrow> DPULayer list" where
  "SOK_loop self nTiles force_broadcast max_tile_channels channels_remaining_to_split 0 = []"
| "SOK_loop self nTiles force_broadcast max_tile_channels channels_remaining_to_split (Suc n) =
     (let tile_channels =
            (if max_tile_channels \<le> channels_remaining_to_split then max_tile_channels else channels_remaining_to_split)
      in SOK_tile self nTiles force_broadcast channels_remaining_to_split tile_channels #
         SOK_loop self nTiles force_broadcast max_tile_channels (channels_remaining_to_split - tile_channels) n)"

definition SOK_Variants :: "DPULayer \<Rightarrow> u32 \<Rightarrow> bool \<Rightarrow> u32 \<Rightarrow> DPULayer list" where
  "SOK_Variants self nTiles force_broadcast rounding =
     (let output_size = channels (outputs_0 self);
          effective_rounding = (if is_output_autopad self then 1 else rounding);
          max_tile_channels = round_up (ceil_division output_size nTiles) effective_rounding
      in limit_broadcast force_broadcast nTiles
           (remove_empty_tiles (SOK_loop self nTiles force_broadcast max_tile_channels output_size (unat nTiles))))"

definition SOK_broadcast :: "DPULayer \<Rightarrow> u32 \<Rightarrow> u32 \<Rightarrow> DPULayer list" where
  "SOK_broadcast self nTiles rounding = SOK_Variants self nTiles True rounding"

definition SOK_no_broadcast :: "DPULayer \<Rightarrow> u32 \<Rightarrow> u32 \<Rightarrow> DPULayer list" where
  "SOK_no_broadcast self nTiles rounding = SOK_Variants self nTiles False rounding"

section \<open>Split over height with input halo\<close>

record HaloContext = SliceContext +
  prevTile_memoryEnd :: int

record HaloSlice = Slice +
  slice_halo_top :: int
  slice_halo_bottom :: int
  slice_memory_end :: int

definition halo_slice :: "u32 \<Rightarrow> u32 \<Rightarrow> u32 \<Rightarrow> u32 \<Rightarrow> HaloContext \<Rightarrow> HaloSlice" where
  "halo_slice k s layer_pad_end desired_tile_dim c =
     (let output_tile_dim = slice_output_dim desired_tile_dim (remaining_output_to_split c);
          consumed_input = to_int (output_tile_dim * s);
          is_last_usefull_tile = (remaining_output_to_split c = output_tile_dim);
          current_pad_begin = remnant_pad_begin c;
          current_pad_end0 = (if is_last_usefull_tile then to_int layer_pad_end else 0);
          input_max_required_size = to_int (helper_input_dim output_tile_dim k 0 s);
          need_more_size = input_max_required_size - available_in c;
          input_tile0 = input_max_required_size - current_pad_begin;
          compute_start = - available_in c;
          compute_end = compute_start + input_max_required_size - 1;
          memory_start = max (prevTile_memoryEnd c + 1) compute_start;
          input_halo_top = (if current_pad_begin = 0 then memory_start - compute_start else 0);
          use_from_end_padding = min need_more_size (to_int layer_pad_end);
          input_tile1 = (if 0 < need_more_size then input_tile0 - use_from_end_padding else input_tile0);
          current_pad_end =
            (if 0 < need_more_size \<and> \<not> is_last_usefull_tile then use_from_end_padding else current_pad_end0);
          next_tile_compute_start = compute_start + consumed_input;
          overlap = compute_end - next_tile_compute_start + 1;
          input_halo_bottom =
            (if current_pad_end = 0 \<and> \<not> is_last_usefull_tile \<and> 0 < overlap
             then overlap - ceil_division_int overlap 2 else 0);
          thisTile_memoryEnd = compute_end - input_halo_bottom - current_pad_end;
          input_tile = (if input_tile1 < 0 then 0 else input_tile1)
      in \<lparr>slice_input = to_u32 input_tile, slice_output = output_tile_dim, slice_pad_begin = current_pad_begin,
          slice_pad_end = current_pad_end, slice_remaining = remaining_output_to_split c,
          slice_halo_top = input_halo_top, slice_halo_bottom = input_halo_bottom,
          slice_memory_end = thisTile_memoryEnd\<rparr>)"

definition next_halo_context :: "u32 \<Rightarrow> u32 \<Rightarrow> u32 \<Rightarrow> u32 \<Rightarrow> HaloContext \<Rightarrow> HaloContext" where
  "next_halo_context k s layer_pad_end desired_tile_dim c =
     (let output_tile_dim = slice_output_dim desired_tile_dim (remaining_output_to_split c);
          consumed_input = to_int (output_tile_dim * s)
      in \<lparr>available_in = available_in c - consumed_input,
          remnant_pad_begin = (if consumed_input < remnant_pad_begin c then remnant_pad_begin c - consumed_input else 0),
          remaining_output_to_split = remaining_output_to_split c - output_tile_dim,
          prevTile_memoryEnd = slice_memory_end (halo_slice k s layer_pad_end desired_tile_dim c)\<rparr>)"

fun halo_slices :: "u32 \<Rightarrow> u32 \<Rightarrow> u32 \<Rightarrow> u32 \<Rightarrow> HaloContext \<Rightarrow> nat \<Rightarrow> HaloSlice list" where
  "halo_slices k s layer_pad_end desired_tile_dim c 0 = []"
| "halo_slices k s layer_pad_end desired_tile_dim c (Suc n) =
     halo_slice k s layer_pad_end desired_tile_dim c #
     halo_slices k s layer_pad_end desired_tile_dim (next_halo_context k s layer_pad_end desired_tile_dim c) n"

definition HALO_tile :: "DPULayer \<Rightarrow> HaloSlice \<Rightarrow> DPULayer" where
  "HALO_tile self sl =
     (let tile = redimension_tile_H self self (slice_input sl) (slice_output sl);
          tile = tile\<lparr>padding := (padding tile)\<lparr>padTOP := to_u32 (slice_pad_begin sl),
                        padBOTTOM := to_u32 (slice_pad_end sl)\<rparr>\<rparr>;
          tile = tile\<lparr>isi_strategy := ISIStrategy.SPLIT_OVER_H, output_write_tiles := output_write_tiles self\<rparr>;
          tHalo = setVerticalNoHalo (halo tile);
          tHalo = tHalo\<lparr>input_0_halo := (input_0_halo tHalo)
                    \<lparr>halo_top := slice_halo_top sl, halo_bottom := slice_halo_bottom sl\<rparr>\<rparr>;
          tHalo = (if 1 < output_write_tiles tile
                   then setInboundHaloVerticalForBroadcastAll (height (outputs_0 self)) (slice_remaining sl)
                     (slice_output sl) tHalo
                   else tHalo)
      in tile\<lparr>halo := tHalo\<rparr>)"

definition SOH_HALO_inputs :: "DPULayer \<Rightarrow> u32 \<Rightarrow> DPULayer list" where
  "SOH_HALO_inputs self nTiles =
     (let output_size = height (outputs_0 self);
          input_size = to_int (height (inputs_0 self));
          layer_pad_begin = padTOP (padding self);
          desired_tile_dim = ceil_division output_size nTiles;
          c = \<lparr>available_in = to_int (to_u32 input_size + layer_pad_begin),
               remnant_pad_begin = to_int layer_pad_begin, remaining_output_to_split = output_size,
               prevTile_memoryEnd = - input_size - 1\<rparr>;
          slices = halo_slices (gridH (kernels self)) (gridH (strides self)) (padBOTTOM (padding self))
            desired_tile_dim c (unat nTiles)
      in remove_empty_tiles (map (HALO_tile self) slices))"

section \<open>Choice of the strategy\<close>

text \<open>
  A strategy without a split logs an error and returns no layer; the text of the strategy is looked up for
  the log, which throws for \<open>__size\<close>.
\<close>

definition splitAcrossTiles :: "DPULayer \<Rightarrow> VPUTilingStrategy \<Rightarrow> u32 \<Rightarrow> DPULayer list result" where
  "splitAcrossTiles self strategy nTiles =
     (case strategy of
        VPUTilingStrategy.NONE \<Rightarrow> Inr (clustering self nTiles)
      | SOH_Overlapped \<Rightarrow> Inr (SOH_overlapped_inputs self nTiles False)
      | SOHO_K_SWITCH \<Rightarrow> Inr (SOH_overlapped_inputs self nTiles True)
      | SOK \<Rightarrow> Inr (SOK_broadcast self nTiles 16)
      | SOK_NO_BROADCAST \<Rightarrow> Inr (SOK_no_broadcast self nTiles 16)
      | SOH_HaloRead \<Rightarrow> Inr (SOH_HALO_inputs self nTiles)
      | SOW \<Rightarrow> Inr (SOW_overlapped_inputs self nTiles False)
      | _ \<Rightarrow>
          (case enum_text_of VPUTilingStrategy_enum VPUTilingStrategy_ToText strategy of
             None \<Rightarrow> Inl (out_of_range ''map::at'')
           | Some _ \<Rightarrow> Inr []))"

definition mapTilingStrategiesToWorkload :: "VPUTilingStrategy \<Rightarrow> ISIStrategy" where
  "mapTilingStrategiesToWorkload strategy =
     (case strategy of
        VPUTilingStrategy.NONE \<Rightarrow> ISIStrategy.CLUSTERING
      | SOW \<Rightarrow> ISIStrategy.CLUSTERING
      | SOH_Overlapped \<Rightarrow> ISIStrategy.CLUSTERING
      | SOHO_K_SWITCH \<Rightarrow> ISIStrategy.CLUSTERING
      | SOH_HaloRead \<Rightarrow> ISIStrategy.SPLIT_OVER_H
      | SOK \<Rightarrow> ISIStrategy.SPLIT_OVER_K
      | SOK_NO_BROADCAST \<Rightarrow> ISIStrategy.SPLIT_OVER_K
      | _ \<Rightarrow> ISIStrategy.CLUSTERING)"

section \<open>The strategy names\<close>

interpretation tiling_strategy_text: enum_text VPUTilingStrategy_enum VPUTilingStrategy_ToText enumName_VPUTilingStrategy
  by unfold_locales (code_simp+)

end
