(* ===== verification/Layer_Split_Laws.thy ===== *)
theory Layer_Split_Laws
  imports Layer_Split
begin

text \<open>
  What the splits of \<open>Layer_Split\<close> guarantee. The abstract specification is \<open>nat_slices\<close>: cutting a number into
  slices of a fixed size until nothing is left. The contract of a split is the locale \<open>tile_split\<close>; every
  strategy of the code that cuts a dimension satisfies it, so that the tiles it returns cover the
  dimension of the layer exactly, none is empty, and all but the last have the same size. On top of it
  come the halo of the broadcast channels and the input that a tile needs for its output.
\<close>

section \<open>Slices of a number\<close>

fun nat_slices :: "nat \<Rightarrow> nat \<Rightarrow> nat \<Rightarrow> nat list" where
  "nat_slices d 0 r = []"
| "nat_slices d (Suc n) r = min d r # nat_slices d n (r - min d r)"

lemma length_nat_slices [split_simps]: "length (nat_slices d n r) = n"
  by (induction d n r rule: nat_slices.induct) auto

lemma sum_nat_slices: "sum_list (nat_slices d n r) = min r (n * d)"
proof (induction d n r rule: nat_slices.induct)
  case (2 d n r)
  then show ?case by (cases "r \<le> d") (auto simp: min_def)
qed simp

lemma nat_slices_le: "x \<in> set (nat_slices d n r) \<Longrightarrow> x \<le> d \<and> x \<le> r"
  by (induction d n r rule: nat_slices.induct) auto

lemma nat_slices_0 [simp]: "filter (\<lambda>x. 0 < x) (nat_slices d n 0) = []"
  by (induction d n "0 :: nat" rule: nat_slices.induct) auto

lemma nat_slices_butlast:
  "r \<le> n * d \<Longrightarrow> x \<in> set (butlast (filter (\<lambda>x. 0 < x) (nat_slices d n r))) \<Longrightarrow> x = d"
proof (induction d n r rule: nat_slices.induct)
  case (2 d n r)
  show ?case
  proof (cases "r \<le> d")
    case True
    then show ?thesis using "2.prems" by (simp split: if_splits)
  next
    case False
    then have "r - d \<le> n * d" using "2.prems"(1) by simp
    then show ?thesis using 2 False by (auto simp: min_def split: if_splits)
  qed
qed simp

lemma sum_list_filter_pos: "sum_list (filter (\<lambda>x. 0 < x) xs) = sum_list (xs :: nat list)"
  by (induction xs) auto

section \<open>The contract of a split\<close>

locale tile_split =
  fixes split_layer :: "'l \<Rightarrow> u32 \<Rightarrow> 'l list" and dim :: "'l \<Rightarrow> nat"
    and share :: "'l \<Rightarrow> u32 \<Rightarrow> nat" and splittable :: "'l \<Rightarrow> u32 \<Rightarrow> bool"
  assumes slices: "splittable l n \<Longrightarrow>
      map dim (split_layer l n) = filter (\<lambda>x. 0 < x) (nat_slices (share l n) (unat n) (dim l))"
    and enough: "splittable l n \<Longrightarrow> dim l \<le> unat n * share l n"
begin

lemma covers: "splittable l n \<Longrightarrow> sum_list (map dim (split_layer l n)) = dim l"
  using enough [of l n] by (simp add: slices sum_list_filter_pos sum_nat_slices)

lemma at_most: "splittable l n \<Longrightarrow> length (split_layer l n) \<le> unat n"
  using slices [of l n] length_filter_le [of "\<lambda>x. 0 < x" "nat_slices (share l n) (unat n) (dim l)"]
  by (metis length_map length_nat_slices)

lemma tile_bounds: "splittable l n \<Longrightarrow> t \<in> set (split_layer l n) \<Longrightarrow> 0 < dim t \<and> dim t \<le> share l n"
proof -
  assume s: "splittable l n" and t: "t \<in> set (split_layer l n)"
  then have "dim t \<in> set (map dim (split_layer l n))" by simp
  then show ?thesis unfolding slices [OF s] using nat_slices_le by auto
qed

lemma full_tiles: "splittable l n \<Longrightarrow> t \<in> set (butlast (split_layer l n)) \<Longrightarrow> dim t = share l n"
proof -
  assume s: "splittable l n" and t: "t \<in> set (butlast (split_layer l n))"
  then have "dim t \<in> set (butlast (map dim (split_layer l n)))" by (simp flip: map_butlast)
  then show ?thesis unfolding slices [OF s] using nat_slices_butlast [OF enough [OF s]] by blast
qed

lemmas partition = covers at_most tile_bounds full_tiles

end

section \<open>Which tiles are empty\<close>

text \<open>
  A tensor is \<open>sized\<close> when its data type is valid, no dimension is zero, and its memory fits in 32 bits, so
  that \<open>size()\<close> is exact.
\<close>

definition sized :: "VPUTensor \<Rightarrow> bool" where
  "sized t \<longleftrightarrow> dtype t \<noteq> DataType.enum_size \<and> 0 \<notin> set (shape_elems (shape t)) \<and> unat (inner_dim t) < 2 ^ 31 \<and>
     nat (compute_size_in_bytes (int (unat (inner_dim t))) (dtype t)) * prod_list (map unat (outer_dims t)) < 2 ^ 32"

definition shape_le :: "WHCB \<Rightarrow> WHCB \<Rightarrow> bool" where
  "shape_le a b \<longleftrightarrow> unat (dimX a) \<le> unat (dimX b) \<and> unat (dimY a) \<le> unat (dimY b) \<and>
     unat (dimZ a) \<le> unat (dimZ b) \<and> unat (dimB a) \<le> unat (dimB b)"

lemma shape_le_at: "shape_le a b \<Longrightarrow> unat (shape_at a d) \<le> unat (shape_at b d)"
  by (cases d) (auto simp: shape_le_def)

lemma shape_at_nonzero: "0 \<notin> set (shape_elems s) \<Longrightarrow> shape_at s d \<noteq> 0"
  by (cases d) (auto simp: shape_elems_def)

lemma compute_size_mono:
  assumes "0 \<le> m" "m \<le> n" "d \<noteq> DataType.enum_size"
  shows "compute_size_in_bytes m d \<le> compute_size_in_bytes n d"
proof -
  have "0 \<le> dtype_to_bits d" using dtype_to_bits_cases [of d] assms(3) by auto
  then have "m * dtype_to_bits d + 7 \<le> n * dtype_to_bits d + 7" using assms(2) by (simp add: mult_right_mono)
  then show ?thesis using assms by (simp add: compute_size_ceil zdiv_mono1)
qed

lemma compute_size_pos:
  assumes "0 < n" "d \<noteq> DataType.enum_size"
  shows "0 < compute_size_in_bytes n d"
proof -
  have "1 \<le> n * dtype_to_bits d"
    using dtype_to_bits_cases [of d] assms by (auto simp: int_one_le_iff_zero_less)
  then show ?thesis using assms by (simp add: compute_size_ceil pos_imp_zdiv_pos_iff)
qed

lemma sized_smaller:
  assumes "sized t" "shape_le s (shape t)" "0 \<notin> set (shape_elems s)"
  shows "sized (set_shape s t)"
proof -
  let ?u = "set_shape s t"
  have inner: "unat (inner_dim ?u) \<le> unat (inner_dim t)"
    using shape_le_at [OF assms(2)] by (simp add: inner_dim_def set_shape_def)
  have outer: "prod_list (map unat (outer_dims ?u)) \<le> prod_list (map unat (outer_dims t))"
    using shape_le_at [OF assms(2)] by (simp add: outer_dims_def set_shape_def mult_le_mono)
  have d: "dtype ?u = dtype t" "dtype t \<noteq> DataType.enum_size" using assms(1) by (simp_all add: set_shape_def sized_def)
  have "compute_size_in_bytes (int (unat (inner_dim ?u))) (dtype t) \<le>
      compute_size_in_bytes (int (unat (inner_dim t))) (dtype t)"
    using inner d(2) by (intro compute_size_mono of_nat_0_le_iff of_nat_mono)
  then have "nat (compute_size_in_bytes (int (unat (inner_dim ?u))) (dtype ?u)) * prod_list (map unat (outer_dims ?u))
      \<le> nat (compute_size_in_bytes (int (unat (inner_dim t))) (dtype t)) * prod_list (map unat (outer_dims t))"
    unfolding d(1) using outer by (intro mult_le_mono nat_mono)
  then show ?thesis
    using assms inner d unfolding sized_def by (auto simp: set_shape_def)
qed

lemma sized_nonzero:
  assumes "sized t"
  shows "tensor_size t \<noteq> 0"
proof -
  have nz: "shape_at (shape t) d \<noteq> 0" for d using assms shape_at_nonzero by (auto simp: sized_def)
  have o: "0 \<notin> set (outer_dims t)" using nz by (auto simp: outer_dims_def)
  have "0 < unat (inner_dim t)" using nz by (simp only: inner_dim_def unat_gt_0) simp
  then have "0 < int (unat (inner_dim t))" by (simp only: of_nat_0_less_iff)
  then have "0 < compute_size_in_bytes (int (unat (inner_dim t))) (dtype t)"
    using assms by (intro compute_size_pos) (simp_all only: sized_def not_False_eq_True simp_thms)
  moreover have "prod_list (map unat (outer_dims t)) \<noteq> 0"
    using o by (auto simp: prod_list_zero_iff unat_eq_zero)
  ultimately have "unat (tensor_size t) \<noteq> 0"
    using tensor_size_exact_nat [of t] assms o by (simp add: sized_def)
  then show ?thesis by auto
qed

lemma zero_dim_empty:
  assumes "dtype t \<noteq> DataType.enum_size" "unat (inner_dim t) < 2 ^ 31" "shape_at (shape t) d = 0"
  shows "tensor_size t = 0"
proof -
  let ?o = "layout_to_order (layout t)"
  have s: "tensor_size t = to_u32 (compute_size_in_bytes (int (unat (inner_dim t))) (dtype t)) *
      outer_dims t ! 0 * outer_dims t ! 1 * outer_dims t ! 2"
    using size_packmode_0_inner(1) [OF assms(1,2)] by (simp add: tensor_size_def packmode_def)
  have "d = ?o ! 0 \<or> d = ?o ! 1 \<or> d = ?o ! 2 \<or> d = ?o ! 3"
    by (cases "layout t"; cases d) simp_all
  then have "inner_dim t = 0 \<or> outer_dims t ! 0 = 0 \<or> outer_dims t ! 1 = 0 \<or> outer_dims t ! 2 = 0"
    using assms(3) by (auto simp: inner_dim_def outer_dims_def)
  then show ?thesis unfolding s by (elim disjE) (simp_all add: compute_size_in_bytes_def)
qed

fun put_dim :: "Act \<Rightarrow> u32 \<Rightarrow> WHCB \<Rightarrow> WHCB" where
  "put_dim Act_X v s = mk_shape v (dimY s) (dimZ s) (dimB s)"
| "put_dim Act_Y v s = mk_shape (dimX s) v (dimZ s) (dimB s)"
| "put_dim Act_Z v s = mk_shape (dimX s) (dimY s) v (dimB s)"
| "put_dim Act_B v s = mk_shape (dimX s) (dimY s) (dimZ s) v"

definition resized :: "Act \<Rightarrow> VPUTensor \<Rightarrow> u32 \<Rightarrow> VPUTensor" where
  "resized d t v = set_shape (put_dim d v (shape t)) t"

definition out_dim :: "Act \<Rightarrow> DPULayer \<Rightarrow> nat" where
  "out_dim d l = unat (shape_at (shape (outputs_0 l)) d)"

lemma shape_at_put [split_simps]: "shape_at (put_dim d v s) d = v"
  by (cases d) (simp_all add: mk_shape_def)

lemma shape_le_put: "unat v \<le> unat (shape_at s d) \<Longrightarrow> shape_le (put_dim d v s) s"
  by (cases d) (simp_all add: shape_le_def mk_shape_def)

lemma nonzero_put: "v \<noteq> 0 \<Longrightarrow> 0 \<notin> set (shape_elems s) \<Longrightarrow> 0 \<notin> set (shape_elems (put_dim d v s))"
  by (cases d) (auto simp: shape_elems_def mk_shape_def)

lemma resized_empty_iff:
  assumes "sized t" "unat v \<le> unat (shape_at (shape t) d)"
  shows "tensor_size (resized d t v) = 0 \<longleftrightarrow> v = 0"
proof
  assume "tensor_size (resized d t v) = 0"
  then show "v = 0"
    using sized_nonzero [OF sized_smaller [OF assms(1) shape_le_put [OF assms(2)]]] nonzero_put assms(1)
    by (auto simp: resized_def sized_def)
next
  assume v: "v = 0"
  have "unat (inner_dim (resized d t v)) \<le> unat (inner_dim t)"
    using shape_le_at [OF shape_le_put [OF assms(2)]] by (simp add: inner_dim_def resized_def set_shape_def)
  then show "tensor_size (resized d t v) = 0"
    using assms(1) v by (intro zero_dim_empty [where d = d])
      (auto simp: sized_def resized_def set_shape_def split_simps)
qed

lemma remove_empty_resized:
  assumes "map outputs_0 ts = map (resized d t) vs" "sized t" "\<forall>v \<in> set vs. unat v \<le> unat (shape_at (shape t) d)"
  shows "map (out_dim d) (remove_empty_tiles ts) = filter (\<lambda>x. 0 < x) (map unat vs)"
  using assms(1,3)
proof (induction ts arbitrary: vs)
  case (Cons l ts)
  then obtain v vs' where vs: "vs = v # vs'" by (cases vs) auto
  have o: "outputs_0 l = resized d t v" and r: "map outputs_0 ts = map (resized d t) vs'" using Cons.prems(1) vs by auto
  have "tensor_size (outputs_0 l) = 0 \<longleftrightarrow> v = 0" using resized_empty_iff [OF assms(2)] Cons.prems(2) vs o by auto
  moreover have "out_dim d l = unat v" by (simp add: out_dim_def o resized_def set_shape_def split_simps)
  ultimately show ?case
    using Cons.IH [OF r] Cons.prems(2) vs by (auto simp: remove_empty_tiles_def unat_gt_0)
qed (simp add: remove_empty_tiles_def)

lemma outputs_limit_broadcast [split_simps]: "map (out_dim d) (limit_broadcast fb n ts) = map (out_dim d) ts"
  by (simp add: limit_broadcast_def out_dim_def comp_def)

section \<open>The loops cut the dimension into slices\<close>

fun u32_slices :: "u32 \<Rightarrow> nat \<Rightarrow> u32 \<Rightarrow> u32 list" where
  "u32_slices d 0 r = []"
| "u32_slices d (Suc n) r = slice_output_dim d r # u32_slices d n (r - slice_output_dim d r)"

lemma unat_slice_output_dim [split_simps]: "unat (slice_output_dim d r) = min (unat d) (unat r)"
  by (simp add: slice_output_dim_def word_le_nat_alt min_def)

lemma u32_slices_nat: "map unat (u32_slices d n r) = nat_slices (unat d) n (unat r)"
proof (induction d n r rule: u32_slices.induct)
  case (2 d n r)
  have "slice_output_dim d r \<le> r" by (simp add: word_le_nat_alt split_simps)
  then show ?case using 2 by (simp add: split_simps unat_sub)
qed simp

lemma u32_slices_le: "v \<in> set (u32_slices d n r) \<Longrightarrow> unat v \<le> unat r"
  using nat_slices_le [of "unat v" "unat d" n "unat r"] by (auto simp flip: u32_slices_nat)

lemma outputs_overlapped_slices:
  "map slice_output (overlapped_slices k s pe d c n) = u32_slices d n (remaining_output_to_split c)"
  by (induction k s pe d c n rule: overlapped_slices.induct) (simp_all add: overlapped_slice_def next_context_def Let_def)

lemma outputs_halo_slices:
  "map slice_output (halo_slices k s pe d c n) = u32_slices d n (remaining_output_to_split c)"
  by (induction k s pe d c n rule: halo_slices.induct) (simp_all add: halo_slice_def next_halo_context_def Let_def)

lemma outputs_SOH_tiles:
  "map outputs_0 (map (SOH_tile l nt fb) (overlapped_slices k s pe d c n)) =
   map (resized Act_Y (outputs_0 l)) (u32_slices d n (remaining_output_to_split c))"
  by (simp add: SOH_tile_def redimension_tile_H_def Let_def resized_def outputs_overlapped_slices [of k s pe d c n, symmetric])

lemma outputs_SOW_tiles:
  "map outputs_0 (map (SOW_tile l nt fb) (overlapped_slices k s pe d c n)) =
   map (resized Act_X (outputs_0 l)) (u32_slices d n (remaining_output_to_split c))"
  by (simp add: SOW_tile_def redimension_tile_W_def Let_def resized_def outputs_overlapped_slices [of k s pe d c n, symmetric])

lemma outputs_HALO_tiles:
  "map outputs_0 (map (HALO_tile l) (halo_slices k s pe d c n)) =
   map (resized Act_Y (outputs_0 l)) (u32_slices d n (remaining_output_to_split c))"
  by (simp add: HALO_tile_def redimension_tile_H_def Let_def resized_def outputs_halo_slices [of k s pe d c n, symmetric])

lemma outputs_SOK_tile: "outputs_0 (SOK_tile l n fb r v) = resized Act_Z (outputs_0 l) v"
  by (simp add: SOK_tile_def recomputeInputTensorShape_def Let_def resized_def)

lemma outputs_SOK_loop:
  "map outputs_0 (SOK_loop l nt fb d r n) = map (resized Act_Z (outputs_0 l)) (u32_slices d n r)"
  by (induction l nt fb d r n rule: SOK_loop.induct) (simp_all add: outputs_SOK_tile slice_output_dim_def Let_def)

lemma outputs_SOH_deprecated_loop:
  "map outputs_0 (SOH_deprecated_loop l d r n) = map (resized Act_Y (outputs_0 l)) (u32_slices d n r)"
  by (induction l d r n rule: SOH_deprecated_loop.induct)
    (simp_all add: redimension_tile_H_def resized_def slice_output_dim_def Let_def)

lemma cut_dimension:
  assumes "map outputs_0 ts = map (resized d (outputs_0 l)) (u32_slices m (unat n) (shape_at (shape (outputs_0 l)) d))"
    and "sized (outputs_0 l)"
  shows "map (out_dim d) (remove_empty_tiles ts) = filter (\<lambda>x. 0 < x) (nat_slices (unat m) (unat n) (out_dim d l))"
  using remove_empty_resized [OF assms(1,2)] u32_slices_le by (auto simp: u32_slices_nat out_dim_def)

section \<open>Every split of a dimension keeps the contract\<close>

definition splittable_dim :: "Act \<Rightarrow> DPULayer \<Rightarrow> u32 \<Rightarrow> bool" where
  "splittable_dim d l n \<longleftrightarrow> n \<noteq> 0 \<and> out_dim d l + unat n \<le> 2 ^ 32 \<and> sized (outputs_0 l)"

definition even_share :: "Act \<Rightarrow> DPULayer \<Rightarrow> u32 \<Rightarrow> nat" where
  "even_share d l n = (out_dim d l + unat n - 1) div unat n"

lemma even_share_enough: "splittable_dim d l n \<Longrightarrow> out_dim d l \<le> unat n * even_share d l n"
  using ceil_div_mult_ge [of "unat n" "out_dim d l"]
  by (simp add: splittable_dim_def even_share_def unat_gt_0 mult.commute)

lemma even_share_ceil:
  "splittable_dim d l n \<Longrightarrow> unat (ceil_division (shape_at (shape (outputs_0 l)) d) n) = even_share d l n"
  by (subst unat_ceil_division) (auto simp: splittable_dim_def even_share_def out_dim_def)

lemma even_cut:
  assumes "splittable_dim d l n"
    and "map outputs_0 ts = map (resized d (outputs_0 l))
      (u32_slices (ceil_division (shape_at (shape (outputs_0 l)) d) n) (unat n) (shape_at (shape (outputs_0 l)) d))"
  shows "map (out_dim d) (remove_empty_tiles ts) =
    filter (\<lambda>x. 0 < x) (nat_slices (even_share d l n) (unat n) (out_dim d l))"
  using cut_dimension [OF assms(2)] assms(1) by (simp add: even_share_ceil splittable_dim_def)

interpretation soh: tile_split "\<lambda>l n. SOH_overlapped_inputs l n fb" "out_dim Act_Y" "even_share Act_Y" "splittable_dim Act_Y"
  by unfold_locales (simp_all add: even_share_enough SOH_overlapped_inputs_def Let_def outputs_limit_broadcast even_cut
    outputs_SOH_tiles first_context_def height_def ty_def del: map_map)

interpretation sow: tile_split "\<lambda>l n. SOW_overlapped_inputs l n fb" "out_dim Act_X" "even_share Act_X" "splittable_dim Act_X"
  by unfold_locales (simp_all add: even_share_enough SOW_overlapped_inputs_def Let_def outputs_limit_broadcast even_cut
    outputs_SOW_tiles first_context_def width_def tx_def del: map_map)

interpretation halo_read: tile_split SOH_HALO_inputs "out_dim Act_Y" "even_share Act_Y" "splittable_dim Act_Y"
  by unfold_locales (simp_all add: even_share_enough SOH_HALO_inputs_def Let_def even_cut
    outputs_HALO_tiles height_def ty_def del: map_map)

interpretation soh_deprecated: tile_split SOH_deprecated "out_dim Act_Y" "even_share Act_Y" "splittable_dim Act_Y"
  by unfold_locales (simp_all add: even_share_enough SOH_deprecated_def Let_def even_cut
    outputs_SOH_deprecated_loop height_def ty_def)

text \<open>Over the channels the share of a tile is rounded up, to 16 unless the output is padded by the hardware.\<close>

definition effective_rounding :: "DPULayer \<Rightarrow> u32 \<Rightarrow> nat" where
  "effective_rounding l r = (if is_output_autopad l then 1 else unat r)"

definition sok_share :: "u32 \<Rightarrow> DPULayer \<Rightarrow> u32 \<Rightarrow> nat" where
  "sok_share r l n = (even_share Act_Z l n + effective_rounding l r - 1) div effective_rounding l r * effective_rounding l r"

definition splittable_channels :: "u32 \<Rightarrow> DPULayer \<Rightarrow> u32 \<Rightarrow> bool" where
  "splittable_channels r l n \<longleftrightarrow> splittable_dim Act_Z l n \<and> r \<noteq> 0 \<and> out_dim Act_Z l + unat r \<le> 2 ^ 32"

lemma sok_share_ge: "splittable_channels r l n \<Longrightarrow> even_share Act_Z l n \<le> sok_share r l n"
  unfolding sok_share_def by (rule ceil_div_mult_ge) (simp add: splittable_channels_def effective_rounding_def unat_gt_0)

lemma even_share_le: "splittable_dim d l n \<Longrightarrow> even_share d l n \<le> out_dim d l"
  unfolding even_share_def using ceil_div_le_iff [of "unat n" "out_dim d l" "out_dim d l"]
  by (auto simp: splittable_dim_def unat_gt_0 Suc_le_eq)

lemma sok_share_round_up:
  assumes "splittable_channels r l n"
  shows "unat (round_up (ceil_division (shape_at (shape (outputs_0 l)) Act_Z) n) (if is_output_autopad l then 1 else r)) =
    sok_share r l n"
proof -
  have s: "splittable_dim Act_Z l n" using assms by (simp add: splittable_channels_def)
  have "even_share Act_Z l n < 4294967296" using even_share_ceil [OF s] unat_u32_less by metis
  then show ?thesis
    using assms even_share_ceil [OF s] even_share_le [OF s]
    by (subst unat_round_up) (auto simp: sok_share_def effective_rounding_def splittable_channels_def out_dim_def)
qed

interpretation sok: tile_split "\<lambda>l n. SOK_Variants l n fb r" "out_dim Act_Z" "sok_share r" "splittable_channels r"
proof (unfold_locales, goal_cases)
  case (1 l n)
  then have s: "sized (outputs_0 l)" by (simp add: splittable_channels_def splittable_dim_def)
  show ?case
    unfolding SOK_Variants_def Let_def outputs_limit_broadcast sok_share_round_up [OF 1, symmetric] using s
    by (subst cut_dimension) (simp_all add: outputs_SOK_loop channels_def tz_def)
next
  case (2 l n)
  then show ?case using even_share_enough [of Act_Z l n] sok_share_ge [OF 2]
    by (meson le_trans mult_le_mono2 splittable_channels_def)
qed

end
