(* ===== verification/Layer_Split_Inputs.thy ===== *)
theory Layer_Split_Inputs
  imports Layer_Split_Laws
begin

text \<open>
  What a tile reads and what it receives: the input of every tile of a split over height or width, with its padding,
  is enough for its output and never exceeds the input of the layer; and when the output is broadcast, the
  halo that a tile receives from the others, before and after its own part, lays the tiles out one after
  the other over the whole dimension. The last section collects the properties of \<open>splitAcrossTiles\<close>.

  \<open>axis_fits\<close> is the geometry of a sliding window along one axis: the input with its padding has room for all
  positions of the kernel. The intermediate values of the loop are \<open>int\<close>, so the sums must stay below
  \<open>2^31\<close> (\<open>axis_small\<close>); the counters of the loop satisfy \<open>slice_inv\<close>.
\<close>

section \<open>The window along one axis\<close>

definition axis_fits :: "u32 \<Rightarrow> u32 \<Rightarrow> u32 \<Rightarrow> u32 \<Rightarrow> u32 \<Rightarrow> u32 \<Rightarrow> bool" where
  "axis_fits input output k s pad_begin pad_end \<longleftrightarrow>
     (unat output - 1) * unat s + unat k \<le> unat input + unat pad_begin + unat pad_end"

definition axis_small :: "u32 \<Rightarrow> u32 \<Rightarrow> u32 \<Rightarrow> u32 \<Rightarrow> u32 \<Rightarrow> u32 \<Rightarrow> bool" where
  "axis_small input output k s pad_begin pad_end \<longleftrightarrow>
     unat output * unat s + unat k < 2 ^ 31 \<and> unat output < 2 ^ 31 \<and> unat s < 2 ^ 31 \<and>
     unat input + unat pad_begin + unat pad_end < 2 ^ 31"

definition slice_inv :: "u32 \<Rightarrow> u32 \<Rightarrow> u32 \<Rightarrow> u32 \<Rightarrow> 'a SliceContext_scheme \<Rightarrow> bool" where
  "slice_inv input output s pad_begin c \<longleftrightarrow>
     unat (remaining_output_to_split c) \<le> unat output \<and>
     available_in c = int (unat input + unat pad_begin) - int ((unat output - unat (remaining_output_to_split c)) * unat s) \<and>
     remnant_pad_begin c =
       max 0 (int (unat pad_begin) - int ((unat output - unat (remaining_output_to_split c)) * unat s))"

lemma axis_smallD:
  assumes "axis_small input output k s pb pe"
  shows "unat output * unat s + unat k < 2147483648" "unat output < 2147483648" "unat s < 2147483648"
    "unat input + unat pb + unat pe < 2147483648"
  using assms by (simp_all add: axis_small_def)

lemma to_int_times:
  assumes "axis_small input output k s pb pe" "unat v \<le> unat output"
  shows "to_int (v * s) = int (unat v * unat s)"
proof -
  have "unat v * unat s \<le> unat output * unat s" using assms(2) by (rule mult_le_mono1)
  then have l: "unat v * unat s < 2147483648" using axis_smallD(1) [OF assms(1)] by linarith
  then have m: "unat (v * s) = unat v * unat s" by (intro unat_mult_nowrap) linarith
  show ?thesis using to_int_small [of "v * s"] l m by (simp only: m)
qed

lemma required_input:
  assumes "axis_small input output k s pb pe" "unat v \<le> unat output" "v \<noteq> 0"
  shows "to_int (helper_input_dim v k 0 s) = int ((unat v - 1) * unat s + unat k)"
proof -
  have v: "0 < unat v" using assms(3) by (simp add: unat_gt_0)
  have "(unat v - 1) * unat s \<le> unat output * unat s" using assms(2) by (intro mult_le_mono1) simp
  then have l: "(unat v - 1) * unat s + unat k < 2147483648" using axis_smallD(1) [OF assms(1)] by linarith
  have si: "to_int v = int (unat v)" "to_int s = int (unat s)" "to_int k = int (unat k)" "to_int (0 :: u32) = 0"
    using axis_smallD [OF assms(1)] assms(2) by (auto simp only: intro!: to_int_small) simp_all
  have raw: "(to_int v - 1) * to_int s - to_int 0 + to_int k = int ((unat v - 1) * unat s + unat k)"
    unfolding si using v by (simp add: of_nat_diff)
  have "(if int m \<le> 0 \<or> v = 0 then 0 else int m) = int m" for m using assms(3) by simp
  then have h: "helper_input_dim v k 0 s = word_of_nat ((unat v - 1) * unat s + unat k)"
    unfolding helper_input_dim_def raw Let_def by (simp only: of_int_of_nat_eq)
  have u: "unat (helper_input_dim v k 0 s) = (unat v - 1) * unat s + unat k"
    unfolding h using l by (intro unat_word_of_nat) linarith
  show ?thesis using to_int_small [of "helper_input_dim v k 0 s"] l by (simp only: u)
qed

lemma slice_inv_next:
  assumes "axis_small input output k s pb pe" "slice_inv input output s pb c"
  shows "slice_inv input output s pb (next_context s d c)"
proof -
  let ?v = "slice_output_dim d (remaining_output_to_split c)" and ?r = "remaining_output_to_split c"
  have v: "unat ?v \<le> unat ?r" by (simp add: split_simps)
  have r: "unat ?r \<le> unat output" using assms(2) by (simp add: slice_inv_def)
  have t: "to_int (?v * s) = int (unat ?v * unat s)" using to_int_times [OF assms(1), of ?v] v r by simp
  have u: "unat (?r - ?v) = unat ?r - unat ?v" using v by (rule unat_diff_nowrap)
  have "unat output - (unat ?r - unat ?v) = (unat output - unat ?r) + unat ?v" using v r by simp
  then have m: "int ((unat output - (unat ?r - unat ?v)) * unat s) =
      int ((unat output - unat ?r) * unat s) + int (unat ?v * unat s)" by (simp only: add_mult_distrib of_nat_add)
  show ?thesis
    using assms(2) r unfolding slice_inv_def next_context_def Let_def t SliceContext.simps u m
    by (auto simp only: max_def split: if_splits)
qed

section \<open>A slice has enough input\<close>

lemma pad_end_bounds:
  "0 \<le> p \<Longrightarrow> e = (if l then p else if 0 < n then min n p else 0) \<Longrightarrow> max 0 (min n p) \<le> e \<and> e \<le> (p :: int)"
  by (auto simp: min_def max_def)

lemma overlapped_slice_fits:
  assumes small: "axis_small input output k s pb pe" and inv: "slice_inv input output s pb c"
    and fits: "axis_fits input output k s pb pe"
    and nz: "slice_output (overlapped_slice k s pe d c) \<noteq> 0"
  defines "sl \<equiv> overlapped_slice k s pe d c"
  shows "axis_fits (slice_input sl) (slice_output sl) k s (to_u32 (slice_pad_begin sl)) (to_u32 (slice_pad_end sl)) \<and>
    unat (slice_input sl) \<le> unat input \<and> unat (to_u32 (slice_pad_begin sl)) \<le> unat pb \<and>
    unat (to_u32 (slice_pad_end sl)) \<le> unat pe"
proof -
  let ?r = "remaining_output_to_split c"
  let ?v = "slice_output_dim d ?r"
  let ?q = "int ((unat ?v - 1) * unat s + unat k)"
  let ?st = "int ((unat output - unat ?r) * unat s)"
  have so: "slice_output sl = ?v" by (simp add: sl_def overlapped_slice_def Let_def)
  have vnz: "?v \<noteq> 0" using nz so by (simp add: sl_def)
  have v: "unat ?v \<le> unat ?r" by (simp add: split_simps)
  have r: "unat ?r \<le> unat output" using inv by (simp add: slice_inv_def)
  have req: "to_int (helper_input_dim ?v k 0 s) = ?q" using required_input [OF small _ vnz] v r by simp
  have pe: "to_int pe = int (unat pe)" using axis_smallD(4) [OF small] by (intro to_int_small) linarith
  have "(unat output - unat ?r) + (unat ?v - 1) \<le> unat output - 1" 
    using v r vnz unfolding unat_gt_0 [symmetric] by linarith
  then have "((unat output - unat ?r) + (unat ?v - 1)) * unat s \<le> (unat output - 1) * unat s" by (rule mult_le_mono1)
  then have "(unat output - unat ?r) * unat s + ((unat ?v - 1) * unat s + unat k) \<le> unat input + unat pb + unat pe"
    using fits unfolding axis_fits_def add_mult_distrib by linarith
  then have total: "?st + ?q \<le> int (unat input) + int (unat pb) + int (unat pe)" by linarith
  have av: "available_in c = int (unat input) + int (unat pb) - ?st"
    and rem: "remnant_pad_begin c = max 0 (int (unat pb) - ?st)" using inv by (simp_all only: slice_inv_def of_nat_add)
  have st: "0 \<le> ?st" by (rule of_nat_0_le_iff)
  define it where "it = to_int (helper_input_dim ?v k 0 s) - remnant_pad_begin c -
     (if 0 < to_int (helper_input_dim ?v k 0 s) - available_in c
      then min (to_int (helper_input_dim ?v k 0 s) - available_in c) (to_int pe) else 0)"
  have si: "slice_input sl = to_u32 (max 0 it)" and sb: "slice_pad_begin sl = remnant_pad_begin c"
    by (auto simp: sl_def overlapped_slice_def Let_def it_def max_def)
  have pad_end: "slice_pad_end sl = (if ?r = ?v then to_int pe
      else if 0 < to_int (helper_input_dim ?v k 0 s) - available_in c
      then min (to_int (helper_input_dim ?v k 0 s) - available_in c) (to_int pe) else 0)"
    by (simp add: sl_def overlapped_slice_def Let_def)
  have se: "max 0 (min (?q - available_in c) (int (unat pe))) \<le> slice_pad_end sl \<and> slice_pad_end sl \<le> int (unat pe)"
    by (rule pad_end_bounds [OF of_nat_0_le_iff pad_end [unfolded req pe]])
  have it: "it \<le> int (unat input)" "?q \<le> max 0 it + slice_pad_begin sl + slice_pad_end sl"
    "0 \<le> slice_pad_begin sl" "slice_pad_begin sl \<le> int (unat pb)"
    using total se st unfolding it_def sb rem req pe av by (auto simp: max_def min_def split: if_splits)
  have e: "0 \<le> slice_pad_end sl" "0 \<le> max 0 it" "max 0 it \<le> int (unat input)" using se it(1) by linarith+
  note lt = axis_smallD(4) [OF small]
  have u: "unat (slice_input sl) = nat (max 0 it)" "unat (to_u32 (slice_pad_begin sl)) = nat (slice_pad_begin sl)"
    "unat (to_u32 (slice_pad_end sl)) = nat (slice_pad_end sl)"
    unfolding si by (rule unat_to_u32; use it(3,4) se e lt in linarith)+
  show ?thesis
    unfolding axis_fits_def u so using it(2-4) se e by linarith
qed

lemma overlapped_slices_fit:
  assumes "axis_small input output k s pb pe" "axis_fits input output k s pb pe" "slice_inv input output s pb c"
    and "sl \<in> set (overlapped_slices k s pe d c n)" "slice_output sl \<noteq> 0"
  shows "axis_fits (slice_input sl) (slice_output sl) k s (to_u32 (slice_pad_begin sl)) (to_u32 (slice_pad_end sl)) \<and>
    unat (slice_input sl) \<le> unat input \<and> unat (to_u32 (slice_pad_begin sl)) \<le> unat pb \<and>
    unat (to_u32 (slice_pad_end sl)) \<le> unat pe"
  using assms(3,4)
proof (induction n arbitrary: c)
  case (Suc n)
  then show ?case
    using overlapped_slice_fits [OF assms(1) Suc.prems(1) assms(2)] slice_inv_next [OF assms(1) Suc.prems(1)] assms(5)
    by auto
qed simp

lemma first_context_inv:
  assumes "axis_small input output k s pb pe"
  shows "slice_inv input output s pb (first_context input pb output)"
proof -
  have lt: "unat input + unat pb < 2147483648" "unat pb < 2147483648" using axis_smallD(4) [OF assms] by linarith+
  have "unat (input + pb) = unat input + unat pb" by (rule unat_add_nowrap) (use lt in linarith)
  then have "to_int (input + pb) = int (unat input + unat pb)" using to_int_small [of "input + pb"] lt(1) by (simp only:)
  then show ?thesis
    using to_int_small [OF lt(2)] unfolding slice_inv_def first_context_def SliceContext.simps by simp
qed

lemma truncate_halo_slice: "Slice.truncate (halo_slice k s pe d c) = overlapped_slice k s pe d (SliceContext.truncate c)"
  by (simp add: halo_slice_def overlapped_slice_def Slice.truncate_def SliceContext.truncate_def Let_def)

lemma truncate_halo_slices:
  "map Slice.truncate (halo_slices k s pe d c n) = overlapped_slices k s pe d (SliceContext.truncate c) n"
proof (induction n arbitrary: c)
  case (Suc n)
  have "SliceContext.truncate (next_halo_context k s pe d c) = next_context s d (SliceContext.truncate c)"
    by (simp add: next_halo_context_def next_context_def SliceContext.truncate_def Let_def)
  then show ?case using Suc by (simp add: truncate_halo_slice)
qed simp

section \<open>A tile has enough input\<close>

definition height_fits :: "DPULayer \<Rightarrow> bool" where
  "height_fits l \<longleftrightarrow> axis_fits (height (inputs_0 l)) (height (outputs_0 l)) (gridH (kernels l)) (gridH (strides l))
     (padTOP (padding l)) (padBOTTOM (padding l))"

definition width_fits :: "DPULayer \<Rightarrow> bool" where
  "width_fits l \<longleftrightarrow> axis_fits (width (inputs_0 l)) (width (outputs_0 l)) (gridW (kernels l)) (gridW (strides l))
     (padLEFT (padding l)) (padRIGHT (padding l))"

definition height_small :: "DPULayer \<Rightarrow> bool" where
  "height_small l \<longleftrightarrow> axis_small (height (inputs_0 l)) (height (outputs_0 l)) (gridH (kernels l)) (gridH (strides l))
     (padTOP (padding l)) (padBOTTOM (padding l))"

definition width_small :: "DPULayer \<Rightarrow> bool" where
  "width_small l \<longleftrightarrow> axis_small (width (inputs_0 l)) (width (outputs_0 l)) (gridW (kernels l)) (gridW (strides l))
     (padLEFT (padding l)) (padRIGHT (padding l))"

lemma fits_remove_empty:
  assumes "t \<in> set (limit_broadcast fb nt (remove_empty_tiles (map f sls)))"
  obtains sl where "sl \<in> set sls" "inputs_0 t = inputs_0 (f sl)" "outputs_0 t = outputs_0 (f sl)"
    "kernels t = kernels (f sl)" "strides t = strides (f sl)" "padding t = padding (f sl)"
    "tensor_size (outputs_0 (f sl)) \<noteq> 0"
  using assms by (auto simp: limit_broadcast_def remove_empty_tiles_def split: if_splits)

lemma SOH_tile_slice:
  "height (inputs_0 (SOH_tile l n fb sl)) = slice_input sl" "height (outputs_0 (SOH_tile l n fb sl)) = slice_output sl"
  "padTOP (padding (SOH_tile l n fb sl)) = to_u32 (slice_pad_begin sl)"
  "padBOTTOM (padding (SOH_tile l n fb sl)) = to_u32 (slice_pad_end sl)"
  "kernels (SOH_tile l n fb sl) = kernels l" "strides (SOH_tile l n fb sl) = strides l"
  by (simp_all add: SOH_tile_def redimension_tile_H_def Let_def height_def ty_def set_shape_def mk_shape_def)

lemma SOW_tile_slice:
  "width (inputs_0 (SOW_tile l n fb sl)) = slice_input sl" "width (outputs_0 (SOW_tile l n fb sl)) = slice_output sl"
  "padLEFT (padding (SOW_tile l n fb sl)) = to_u32 (slice_pad_begin sl)"
  "padRIGHT (padding (SOW_tile l n fb sl)) = to_u32 (slice_pad_end sl)"
  "kernels (SOW_tile l n fb sl) = kernels l" "strides (SOW_tile l n fb sl) = strides l"
  by (simp_all add: SOW_tile_def redimension_tile_W_def Let_def width_def tx_def set_shape_def mk_shape_def)

lemma HALO_tile_slice:
  "height (inputs_0 (HALO_tile l sl)) = slice_input sl" "height (outputs_0 (HALO_tile l sl)) = slice_output sl"
  "padTOP (padding (HALO_tile l sl)) = to_u32 (slice_pad_begin sl)"
  "padBOTTOM (padding (HALO_tile l sl)) = to_u32 (slice_pad_end sl)"
  "kernels (HALO_tile l sl) = kernels l" "strides (HALO_tile l sl) = strides l"
  by (simp_all add: HALO_tile_def redimension_tile_H_def Let_def height_def ty_def set_shape_def mk_shape_def)

lemma SOH_overlapped_fit:
  assumes "splittable_dim Act_Y l n" "height_small l" "height_fits l" "t \<in> set (SOH_overlapped_inputs l n fb)"
  shows "height_fits t \<and> unat (height (inputs_0 t)) \<le> unat (height (inputs_0 l))"
proof -
  have "height (outputs_0 t) \<noteq> 0"
    using soh.tile_bounds [OF assms(1,4)] by (simp add: out_dim_def height_def ty_def unat_gt_0)
  moreover obtain sl where "sl \<in> set (overlapped_slices (gridH (kernels l)) (gridH (strides l)) (padBOTTOM (padding l))
        (ceil_division (height (outputs_0 l)) n)
        (first_context (height (inputs_0 l)) (padTOP (padding l)) (height (outputs_0 l))) (unat n))"
      "inputs_0 t = inputs_0 (SOH_tile l n fb sl)" "outputs_0 t = outputs_0 (SOH_tile l n fb sl)"
      "kernels t = kernels (SOH_tile l n fb sl)" "strides t = strides (SOH_tile l n fb sl)"
      "padding t = padding (SOH_tile l n fb sl)"
    using assms(4) unfolding SOH_overlapped_inputs_def Let_def by (rule fits_remove_empty)
  ultimately show ?thesis
    using overlapped_slices_fit first_context_inv assms(2,3)
    unfolding height_fits_def height_small_def by (metis SOH_tile_slice)
qed

lemma SOW_overlapped_fit:
  assumes "splittable_dim Act_X l n" "width_small l" "width_fits l" "t \<in> set (SOW_overlapped_inputs l n fb)"
  shows "width_fits t \<and> unat (width (inputs_0 t)) \<le> unat (width (inputs_0 l))"
proof -
  have "width (outputs_0 t) \<noteq> 0"
    using sow.tile_bounds [OF assms(1,4)] by (simp add: out_dim_def width_def tx_def unat_gt_0)
  moreover obtain sl where "sl \<in> set (overlapped_slices (gridW (kernels l)) (gridW (strides l)) (padRIGHT (padding l))
        (ceil_division (width (outputs_0 l)) n)
        (first_context (width (inputs_0 l)) (padLEFT (padding l)) (width (outputs_0 l))) (unat n))"
      "inputs_0 t = inputs_0 (SOW_tile l n fb sl)" "outputs_0 t = outputs_0 (SOW_tile l n fb sl)"
      "kernels t = kernels (SOW_tile l n fb sl)" "strides t = strides (SOW_tile l n fb sl)"
      "padding t = padding (SOW_tile l n fb sl)"
    using assms(4) unfolding SOW_overlapped_inputs_def Let_def by (rule fits_remove_empty)
  ultimately show ?thesis
    using overlapped_slices_fit first_context_inv assms(2,3)
    unfolding width_fits_def width_small_def by (metis SOW_tile_slice)
qed

lemma truncate_fields:
  "slice_input (Slice.truncate sl) = slice_input sl" "slice_output (Slice.truncate sl) = slice_output sl"
  "slice_pad_begin (Slice.truncate sl) = slice_pad_begin sl" "slice_pad_end (Slice.truncate sl) = slice_pad_end sl"
  by (simp_all add: Slice.truncate_def)

lemma halo_slices_overlapped:
  "sl \<in> set (halo_slices k s pe d c n) \<Longrightarrow>
   Slice.truncate sl \<in> set (overlapped_slices k s pe d (SliceContext.truncate c) n)"
  by (simp flip: truncate_halo_slices)

lemma SOH_HALO_fit:
  assumes "splittable_dim Act_Y l n" "height_small l" "height_fits l" "t \<in> set (SOH_HALO_inputs l n)"
  shows "height_fits t \<and> unat (height (inputs_0 t)) \<le> unat (height (inputs_0 l))"
proof -
  have "height (outputs_0 t) \<noteq> 0"
    using halo_read.tile_bounds [OF assms(1,4)] by (simp add: out_dim_def height_def ty_def unat_gt_0)
  moreover obtain sl where t: "t = HALO_tile l sl" and "sl \<in> set (halo_slices (gridH (kernels l)) (gridH (strides l))
        (padBOTTOM (padding l)) (ceil_division (height (outputs_0 l)) n)
        (SliceContext.extend (first_context (height (inputs_0 l)) (padTOP (padding l)) (height (outputs_0 l)))
          \<lparr>prevTile_memoryEnd = - to_int (height (inputs_0 l)) - 1\<rparr>) (unat n))"
    using assms(4) unfolding SOH_HALO_inputs_def Let_def
    by (auto simp: remove_empty_tiles_def first_context_def SliceContext.extend_def HaloContext.fields_def)
  then have "Slice.truncate sl \<in> set (overlapped_slices (gridH (kernels l)) (gridH (strides l)) (padBOTTOM (padding l))
        (ceil_division (height (outputs_0 l)) n)
        (first_context (height (inputs_0 l)) (padTOP (padding l)) (height (outputs_0 l))) (unat n))"
    using halo_slices_overlapped by (fastforce simp: SliceContext.truncate_def SliceContext.extend_def first_context_def)
  ultimately show ?thesis
    using overlapped_slices_fit [of _ _ _ _ _ _ _ "Slice.truncate sl"] first_context_inv assms(2,3)
    unfolding height_fits_def height_small_def t HALO_tile_slice truncate_fields by metis
qed

section \<open>Broadcast halos\<close>

fun u32_walk :: "u32 \<Rightarrow> nat \<Rightarrow> u32 \<Rightarrow> (u32 \<times> u32) list" where
  "u32_walk d 0 r = []"
| "u32_walk d (Suc n) r = (r, slice_output_dim d r) # u32_walk d n (r - slice_output_dim d r)"

fun laid_out :: "int \<Rightarrow> int \<Rightarrow> (int \<times> nat \<times> int) list \<Rightarrow> bool" where
  "laid_out whole p [] \<longleftrightarrow> True"
| "laid_out whole p ((before, v, after) # xs) \<longleftrightarrow>
     before = p \<and> before + int v + after = whole \<and> laid_out whole (p + int v) xs"

lemma laid_out_filter: "laid_out whole p xs \<Longrightarrow> laid_out whole p (filter (\<lambda>(b, v, a). 0 < v) xs)"
  by (induction whole p xs rule: laid_out.induct) auto

lemma walk_laid_out:
  assumes "unat out < 2 ^ 31" "unat r \<le> unat out"
  shows "laid_out (int (unat out)) (int (unat out) - int (unat r))
    (map (\<lambda>(r, v). (to_int (out - r), unat v, to_int (r - v))) (u32_walk d n r))"
  using assms
proof (induction d n r rule: u32_walk.induct)
  case (2 d n r)
  let ?v = "slice_output_dim d r"
  have v: "unat ?v \<le> unat r" by (simp add: split_simps)
  have u: "unat (out - r) = unat out - unat r" "unat (r - ?v) = unat r - unat ?v"
    using 2 v by (auto intro: unat_diff_nowrap)
  have lt: "unat (out - r) < 2147483648" "unat (r - ?v) < 2147483648" unfolding u using "2.prems" by simp_all
  have t: "to_int (out - r) = int (unat out) - int (unat r)" "to_int (r - ?v) = int (unat r) - int (unat ?v)"
    using to_int_small [OF lt(1)] to_int_small [OF lt(2)] "2.prems"(2) v unfolding u by linarith+
  have s: "int (unat out) - int (unat r) + int (unat ?v) + (int (unat r) - int (unat ?v)) = int (unat out)" by linarith
  have m: "int (unat out) - int (unat r) + int (unat ?v) = int (unat out) - int (unat (r - ?v))"
    using v unfolding u by linarith
  have "laid_out (int (unat out)) (int (unat out) - int (unat (r - ?v)))
      (map (\<lambda>(r, v). (to_int (out - r), unat v, to_int (r - v))) (u32_walk d n (r - ?v)))"
    using "2.prems" v by (intro "2.IH") (auto simp only: u)
  then show ?case unfolding u32_walk.simps list.map prod.case laid_out.simps t s unfolding m by (simp only: simp_thms)
qed simp

lemma broadcast_laid_out:
  assumes "map g ts = map (\<lambda>(r, v). (to_int (out - r), unat v, to_int (r - v))) (u32_walk d n out)"
    and "unat out < 2 ^ 31" "\<And>t. t \<in> set ts \<Longrightarrow> tensor_size (outputs_0 t) \<noteq> 0 \<longleftrightarrow> 0 < fst (snd (g t))"
  shows "laid_out (int (unat out)) 0 (map g (remove_empty_tiles ts))"
proof -
  have "map g (remove_empty_tiles ts) = map g (filter (\<lambda>t. 0 < fst (snd (g t))) ts)"
    unfolding remove_empty_tiles_def using assms(3) by (simp cong: filter_cong)
  also have "\<dots> = filter (\<lambda>(b, v, a). 0 < v) (map g ts)" by (simp add: filter_map comp_def case_prod_beta)
  finally show ?thesis
    using walk_laid_out [OF assms(2) order_refl] unfolding assms(1) by (simp add: laid_out_filter)
qed

lemma tiles_laid_out:
  assumes outs: "map outputs_0 ts = map (resized d (outputs_0 l)) (u32_slices m n out)"
    and layout: "map g ts = map (\<lambda>(r, v). (to_int (out - r), unat v, to_int (r - v))) (u32_walk m n out)"
    and "sized (outputs_0 l)" "out = shape_at (shape (outputs_0 l)) d" "unat out < 2 ^ 31"
    and "\<And>t. fst (snd (g t)) = out_dim d t"
  shows "laid_out (int (unat out)) 0 (map g (remove_empty_tiles ts))"
proof (rule broadcast_laid_out [OF layout assms(5)])
  fix t assume "t \<in> set ts"
  then have "outputs_0 t \<in> set (map outputs_0 ts)" by simp
  then obtain v where v: "outputs_0 t = resized d (outputs_0 l) v" "unat v \<le> unat (shape_at (shape (outputs_0 l)) d)"
    unfolding outs assms(4) using u32_slices_le by auto
  then show "tensor_size (outputs_0 t) \<noteq> 0 \<longleftrightarrow> 0 < fst (snd (g t))"
    using resized_empty_iff [OF assms(3) v(2)] assms(6)
    by (simp add: out_dim_def resized_def set_shape_def split_simps unat_gt_0)
qed

definition channel_layout :: "DPULayer \<Rightarrow> int \<times> nat \<times> int" where
  "channel_layout t = (halo_front (output_0_inbound_halo (halo t)), unat (channels (outputs_0 t)),
     halo_back (output_0_inbound_halo (halo t)))"

definition row_layout :: "DPULayer \<Rightarrow> int \<times> nat \<times> int" where
  "row_layout t = (halo_top (output_0_inbound_halo (halo t)), unat (height (outputs_0 t)),
     halo_bottom (output_0_inbound_halo (halo t)))"

definition column_layout :: "DPULayer \<Rightarrow> int \<times> nat \<times> int" where
  "column_layout t = (halo_left (output_0_inbound_halo (halo t)), unat (width (outputs_0 t)),
     halo_right (output_0_inbound_halo (halo t)))"

lemma limit_broadcast_layout:
  "map channel_layout (limit_broadcast fb n ts) = map channel_layout ts"
  "map row_layout (limit_broadcast fb n ts) = map row_layout ts"
  "map column_layout (limit_broadcast fb n ts) = map column_layout ts"
  by (simp_all add: limit_broadcast_def channel_layout_def row_layout_def column_layout_def)

definition broadcasting :: "DPULayer \<Rightarrow> u32 \<Rightarrow> bool \<Rightarrow> bool" where
  "broadcasting l n fb \<longleftrightarrow> 1 < (if fb then n else output_write_tiles l)"

lemma SOK_loop_layout:
  "broadcasting l nt fb \<Longrightarrow> map channel_layout (SOK_loop l nt fb d r n) =
   map (\<lambda>(r, v). (to_int (channels (outputs_0 l) - r), unat v, to_int (r - v))) (u32_walk d n r)"
proof (induction n arbitrary: r)
  case (Suc n)
  have "channel_layout (SOK_tile l nt fb r v) = (to_int (channels (outputs_0 l) - r), unat v, to_int (r - v))" for v
    using Suc.prems by (simp add: SOK_tile_def recomputeInputTensorShape_def channel_layout_def broadcasting_def
      Let_def channels_def tz_def set_shape_def mk_shape_def split: if_splits)
  then show ?case using Suc by (simp add: Let_def flip: slice_output_dim_def)
qed simp

lemma remaining_overlapped_slices:
  "map (\<lambda>sl. (slice_remaining sl, slice_output sl)) (overlapped_slices k s pe d c n) =
   u32_walk d n (remaining_output_to_split c)"
  by (induction k s pe d c n rule: overlapped_slices.induct) (simp_all add: overlapped_slice_def next_context_def Let_def)

lemma SOH_tiles_layout:
  "broadcasting l nt fb \<Longrightarrow> map row_layout (map (SOH_tile l nt fb) (overlapped_slices k s pe d c n)) =
   map (\<lambda>(r, v). (to_int (height (outputs_0 l) - r), unat v, to_int (r - v))) (u32_walk d n (remaining_output_to_split c))"
  unfolding remaining_overlapped_slices [of k s pe d c n, symmetric]
  by (simp add: SOH_tile_def redimension_tile_H_def row_layout_def broadcasting_def
      Let_def height_def ty_def set_shape_def mk_shape_def setInboundHaloVerticalForBroadcastAll_def split: if_splits)

lemma SOW_tiles_layout:
  "broadcasting l nt fb \<Longrightarrow> map column_layout (map (SOW_tile l nt fb) (overlapped_slices k s pe d c n)) =
   map (\<lambda>(r, v). (to_int (width (outputs_0 l) - r), unat v, to_int (r - v))) (u32_walk d n (remaining_output_to_split c))"
  unfolding remaining_overlapped_slices [of k s pe d c n, symmetric]
  by (simp add: SOW_tile_def redimension_tile_W_def column_layout_def broadcasting_def
      Let_def width_def tx_def set_shape_def mk_shape_def setInboundHaloHorizontalForBroadcastAll_def split: if_splits)

lemma SOK_layout:
  assumes "broadcasting l n fb" "sized (outputs_0 l)" "unat (channels (outputs_0 l)) < 2 ^ 31"
  shows "laid_out (int (unat (channels (outputs_0 l)))) 0 (map channel_layout (SOK_Variants l n fb r))"
  unfolding SOK_Variants_def Let_def limit_broadcast_layout
  using assms(2,3) by (intro tiles_laid_out [OF outputs_SOK_loop SOK_loop_layout [OF assms(1)]])
    (simp_all add: channel_layout_def channels_def tz_def out_dim_def)

lemma SOH_layout:
  assumes "broadcasting l n fb" "sized (outputs_0 l)" "unat (height (outputs_0 l)) < 2 ^ 31"
  shows "laid_out (int (unat (height (outputs_0 l)))) 0 (map row_layout (SOH_overlapped_inputs l n fb))"
proof -
  let ?c = "first_context (height (inputs_0 l)) (padTOP (padding l)) (height (outputs_0 l))"
  have c: "remaining_output_to_split ?c = height (outputs_0 l)" by (simp add: first_context_def)
  show ?thesis
    unfolding SOH_overlapped_inputs_def Let_def limit_broadcast_layout
    using assms(2,3)
    by (intro tiles_laid_out [OF outputs_SOH_tiles [where c = ?c, unfolded c]
          SOH_tiles_layout [OF assms(1), where c = ?c, unfolded c]])
      (simp_all add: row_layout_def height_def ty_def out_dim_def)
qed

lemma SOW_layout:
  assumes "broadcasting l n fb" "sized (outputs_0 l)" "unat (width (outputs_0 l)) < 2 ^ 31"
  shows "laid_out (int (unat (width (outputs_0 l)))) 0 (map column_layout (SOW_overlapped_inputs l n fb))"
proof -
  let ?c = "first_context (width (inputs_0 l)) (padLEFT (padding l)) (width (outputs_0 l))"
  have c: "remaining_output_to_split ?c = width (outputs_0 l)" by (simp add: first_context_def)
  show ?thesis
    unfolding SOW_overlapped_inputs_def Let_def limit_broadcast_layout
    using assms(2,3)
    by (intro tiles_laid_out [OF outputs_SOW_tiles [where c = ?c, unfolded c]
          SOW_tiles_layout [OF assms(1), where c = ?c, unfolded c]])
      (simp_all add: column_layout_def width_def tx_def out_dim_def)
qed

section \<open>Properties of the split\<close>

definition split_axis :: "VPUTilingStrategy \<Rightarrow> Act option" where
  "split_axis strategy =
     (case strategy of
        SOH_Overlapped \<Rightarrow> Some Act_Y | SOHO_K_SWITCH \<Rightarrow> Some Act_Y | SOH_HaloRead \<Rightarrow> Some Act_Y
      | SOK \<Rightarrow> Some Act_Z | SOK_NO_BROADCAST \<Rightarrow> Some Act_Z
      | SOW \<Rightarrow> Some Act_X
      | _ \<Rightarrow> None)"

lemma split_axis_cases:
  assumes "split_axis strategy = Some d"
  obtains (rows) "d = Act_Y" "strategy \<in> {SOH_Overlapped, SOHO_K_SWITCH, SOH_HaloRead}"
    | (columns) "d = Act_X" "strategy = SOW"
    | (planes) "d = Act_Z" "strategy \<in> {SOK, SOK_NO_BROADCAST}"
  using assms by (cases strategy) (auto simp: split_axis_def)

lemma only_resized:
  assumes "map outputs_0 ts = map (resized d t) vs" "l \<in> set (limit_broadcast fb n (remove_empty_tiles ts))"
  shows "outputs_0 l = resized d t (shape_at (shape (outputs_0 l)) d)"
proof -
  have "outputs_0 l \<in> set (map outputs_0 ts)"
    using assms(2) by (auto simp: limit_broadcast_def remove_empty_tiles_def split: if_splits)
  then obtain v where "outputs_0 l = resized d t v" unfolding assms(1) by auto
  then show ?thesis by (simp add: resized_def set_shape_def split_simps)
qed

lemma only_resized_SOH:
  "t \<in> set (SOH_overlapped_inputs l n fb) \<Longrightarrow> outputs_0 t = resized Act_Y (outputs_0 l) (shape_at (shape (outputs_0 t)) Act_Y)"
  unfolding SOH_overlapped_inputs_def Let_def by (rule only_resized [OF outputs_SOH_tiles])

lemma only_resized_SOW:
  "t \<in> set (SOW_overlapped_inputs l n fb) \<Longrightarrow> outputs_0 t = resized Act_X (outputs_0 l) (shape_at (shape (outputs_0 t)) Act_X)"
  unfolding SOW_overlapped_inputs_def Let_def by (rule only_resized [OF outputs_SOW_tiles])

lemma only_resized_SOK:
  "t \<in> set (SOK_Variants l n fb r) \<Longrightarrow> outputs_0 t = resized Act_Z (outputs_0 l) (shape_at (shape (outputs_0 t)) Act_Z)"
  unfolding SOK_Variants_def Let_def by (rule only_resized [OF outputs_SOK_loop])

lemma only_resized_HALO:
  "t \<in> set (SOH_HALO_inputs l n) \<Longrightarrow> outputs_0 t = resized Act_Y (outputs_0 l) (shape_at (shape (outputs_0 t)) Act_Y)"
  using only_resized [OF outputs_HALO_tiles, where fb = False] unfolding SOH_HALO_inputs_def Let_def limit_broadcast_def by simp

lemmas only_resized_dim = only_resized_SOH only_resized_SOW only_resized_SOK only_resized_HALO

text \<open>A convolution of a 15x15 image with a padded 3x3 kernel and 80 output channels, for the instances below.\<close>

definition sample_layer :: DPULayer where
  "sample_layer = DPUWorkload.extend
     (new_DPUWorkload VPU_4_0 CONVOLUTION (mk_VPUTensor 15 15 64 1 UINT8 ZXY False)
       (mk_VPUTensor 15 15 80 1 UINT8 ZXY False) \<lparr>gridW = 3, gridH = 3\<rparr> \<lparr>gridW = 1, gridH = 1\<rparr>
       \<lparr>padTOP = 1, padBOTTOM = 1, padLEFT = 1, padRIGHT = 1\<rparr> CUBOID_16x16) \<lparr>compiler_pass = ''''\<rparr>"

lemmas sample_layer_defs = sample_layer_def DPUWorkload.extend_def new_DPUWorkload_def mk_VPUTensor_def mk_shape_def
  height_def ty_def width_def tx_def channels_def tz_def out_dim_def

lemma sample_layer_dims:
  "out_dim Act_X sample_layer = 15" "out_dim Act_Y sample_layer = 15" "out_dim Act_Z sample_layer = 80"
  "height (inputs_0 sample_layer) = 15" "width (inputs_0 sample_layer) = 15"
  "height (outputs_0 sample_layer) = 15" "width (outputs_0 sample_layer) = 15" "channels (outputs_0 sample_layer) = 80"
  by (simp_all add: sample_layer_defs)

lemma sample_layer_splittable:
  assumes "d \<noteq> Act_B"
  shows "splittable_dim d sample_layer 4"
proof -
  have "compute_size_in_bytes 80 UINT8 = 80" by code_simp
  then have "sized (outputs_0 sample_layer)"
    by (simp add: sized_def inner_dim_def outer_dims_def sample_layer_defs shape_elems_def)
  then show ?thesis using assms by (cases d) (simp_all add: splittable_dim_def sample_layer_dims)
qed

lemma sample_layer_fits:
  "height_small sample_layer" "height_fits sample_layer" "width_small sample_layer" "width_fits sample_layer"
  by (simp_all add: height_small_def height_fits_def width_small_def width_fits_def axis_small_def axis_fits_def
      sample_layer_defs)

lemma tiles_cover:
  assumes "split_axis strategy = Some d" "splittable_dim d l n" "out_dim d l + 16 \<le> 2 ^ 32"
  shows "\<exists>tiles. splitAcrossTiles l strategy n = Inr tiles \<and> sum_list (map (out_dim d) tiles) = out_dim d l \<and>
    length tiles \<le> unat n \<and>
    list_all (\<lambda>t. 0 < out_dim d t \<and> outputs_0 t = resized d (outputs_0 l) (shape_at (shape (outputs_0 t)) d)) tiles"
  using assms(1)
proof (cases rule: split_axis_cases)
  case rows
  then show ?thesis
    using soh.partition halo_read.partition assms(2) only_resized_dim
    by (auto simp: splitAcrossTiles_def list_all_iff)
next
  case columns
  then show ?thesis
    using sow.partition assms(2) only_resized_dim by (auto simp: splitAcrossTiles_def list_all_iff)
next
  case planes
  then have "splittable_channels 16 l n" using assms(2,3) by (simp add: splittable_channels_def)
  then show ?thesis
    using planes sok.partition only_resized_dim
    by (auto simp: splitAcrossTiles_def list_all_iff SOK_broadcast_def SOK_no_broadcast_def)
qed

text \<open>
  C7. The tiles of a split cover the output of the layer. For every strategy that cuts a dimension, a layer whose
  output has no empty dimension and fits in memory is split into at most \<open>nTiles\<close> layers; none of them is empty, each
  has the output tensor of the layer except for the size of the cut dimension, and those sizes add up to
  the size in the layer.
\<close>

theorem split_covers_output:
  assumes "split_axis strategy = Some d" "splittable_dim d l n" "out_dim d l + 16 \<le> 2 ^ 32"
  shows "\<exists>tiles. splitAcrossTiles l strategy n = Inr tiles \<and> sum_list (map (out_dim d) tiles) = out_dim d l \<and>
    length tiles \<le> unat n \<and>
    list_all (\<lambda>t. 0 < out_dim d t \<and> outputs_0 t = resized d (outputs_0 l) (shape_at (shape (outputs_0 t)) d)) tiles"
  by (rule tiles_cover [OF assms])

theorem split_covers_output_witness:
  "\<exists>tiles. splitAcrossTiles sample_layer SOK 4 = Inr tiles \<and> sum_list (map (out_dim Act_Z) tiles) = 80 \<and>
    length tiles \<le> 4"
  using split_covers_output [of SOK Act_Z sample_layer 4] sample_layer_splittable [of Act_Z]
  by (auto simp: split_axis_def sample_layer_dims)

text \<open>
  A split over the channels gives all tiles but the last the same number of channels. Unless the
  hardware pads the output, it is the least multiple of 16 that is not below the even share \<open>ceil(channels / nTiles)\<close>, so every tile boundary is aligned
  to 16 channels.
\<close>

theorem split_channels_aligned:
  assumes "splittable_channels 16 l n" "\<not> is_output_autopad l"
  shows "\<exists>c. 16 dvd c \<and> list_all (\<lambda>t. unat (channels (outputs_0 t)) = c) (butlast (SOK_Variants l n fb 16)) \<and>
    list_all (\<lambda>t. unat (channels (outputs_0 t)) \<le> c) (SOK_Variants l n fb 16) \<and>
    (unat (channels (outputs_0 l)) + unat n - 1) div unat n \<le> c \<and>
    c < (unat (channels (outputs_0 l)) + unat n - 1) div unat n + 16"
proof -
  have sh: "sok_share 16 l n = (even_share Act_Z l n + 16 - 1) div 16 * 16"
    using assms(2) by (simp add: sok_share_def effective_rounding_def)
  then have d: "16 dvd sok_share 16 l n" by simp
  have "sok_share 16 l n < even_share Act_Z l n + 16" unfolding sh by (rule ceil_div_mult_less) simp
  moreover have "out_dim Act_Z t = unat (channels (outputs_0 t))" for t by (simp add: out_dim_def channels_def tz_def)
  ultimately show ?thesis
    using d sok.full_tiles [OF assms(1)] sok.tile_bounds [OF assms(1)] sok_share_ge [OF assms(1)]
    by (intro exI [of _ "sok_share 16 l n"]) (auto simp: list_all_iff even_share_def)
qed

theorem split_channels_aligned_witness:
  "\<exists>c. 16 dvd c \<and> list_all (\<lambda>t. unat (channels (outputs_0 t)) = c) (butlast (SOK_Variants sample_layer 4 True 16)) \<and>
    20 \<le> c \<and> c < 36"
proof -
  have "\<not> is_output_autopad sample_layer" by (simp add: is_output_autopad_def sample_layer_defs value_or_def)
  then show ?thesis
    using split_channels_aligned [of sample_layer 4 True] sample_layer_splittable [of Act_Z]
    by (auto simp: splittable_channels_def sample_layer_dims)
qed

text \<open>
  C23. Every tile of a split over the height has enough input for its output. If the window of the layer fits in its
  padded input, the window of each tile fits in its own input with its own padding, and the tile reads no
  more rows than the layer has. This includes the small tiles whose window still reaches the padding at the
  begin of the layer, and those before the last one that already reach the padding at its end.
\<close>

theorem split_height_inputs_sufficient:
  assumes "split_axis strategy = Some Act_Y" "splittable_dim Act_Y l n" "height_small l" "height_fits l"
  shows "\<exists>tiles. splitAcrossTiles l strategy n = Inr tiles \<and>
    list_all (\<lambda>t. height_fits t \<and> unat (height (inputs_0 t)) \<le> unat (height (inputs_0 l))) tiles"
  using assms(1)
proof (cases rule: split_axis_cases)
  case rows
  then show ?thesis
    using SOH_overlapped_fit [OF assms(2-4)] SOH_HALO_fit [OF assms(2-4)]
    by (auto simp: splitAcrossTiles_def list_all_iff)
qed simp_all

theorem split_height_inputs_sufficient_witness:
  "\<exists>tiles. splitAcrossTiles sample_layer SOH_HaloRead 4 = Inr tiles \<and>
    list_all (\<lambda>t. height_fits t \<and> unat (height (inputs_0 t)) \<le> 15) tiles"
  using split_height_inputs_sufficient [of SOH_HaloRead sample_layer 4] sample_layer_splittable [of Act_Y]
  by (simp add: split_axis_def sample_layer_fits sample_layer_dims)

text \<open>
  The same for the width and the split over width.
\<close>

theorem split_width_inputs_sufficient:
  assumes "splittable_dim Act_X l n" "width_small l" "width_fits l"
  shows "\<exists>tiles. splitAcrossTiles l SOW n = Inr tiles \<and>
    list_all (\<lambda>t. width_fits t \<and> unat (width (inputs_0 t)) \<le> unat (width (inputs_0 l))) tiles"
  using SOW_overlapped_fit [OF assms] by (auto simp: splitAcrossTiles_def list_all_iff)

theorem split_width_inputs_sufficient_witness:
  "\<exists>tiles. splitAcrossTiles sample_layer SOW 4 = Inr tiles \<and>
    list_all (\<lambda>t. width_fits t \<and> unat (width (inputs_0 t)) \<le> 15) tiles"
  using split_width_inputs_sufficient [of sample_layer 4] sample_layer_splittable [of Act_X]
  by (simp add: sample_layer_fits sample_layer_dims)

text \<open>
  C24. When the output is broadcast to more than one tile, the inbound halo places the tiles one after the other:
  the part a tile receives before its own is what the earlier tiles produce, and the parts before, own and after
  add up to the output of the layer. This holds for the channels, rows and columns of the three splits.
\<close>

theorem broadcast_halo_lays_out_tiles:
  assumes "broadcasting l n fb" "sized (outputs_0 l)" "unat (channels (outputs_0 l)) < 2 ^ 31"
    "unat (height (outputs_0 l)) < 2 ^ 31" "unat (width (outputs_0 l)) < 2 ^ 31"
  shows "laid_out (int (unat (channels (outputs_0 l)))) 0 (map channel_layout (SOK_Variants l n fb r)) \<and>
    laid_out (int (unat (height (outputs_0 l)))) 0 (map row_layout (SOH_overlapped_inputs l n fb)) \<and>
    laid_out (int (unat (width (outputs_0 l)))) 0 (map column_layout (SOW_overlapped_inputs l n fb))"
  using assms SOK_layout SOH_layout SOW_layout by blast

theorem broadcast_halo_lays_out_tiles_witness:
  "laid_out 80 0 (map channel_layout (SOK_Variants sample_layer 4 True 16)) \<and>
   laid_out 15 0 (map row_layout (SOH_overlapped_inputs sample_layer 4 True))"
  using broadcast_halo_lays_out_tiles [of sample_layer 4 True 16] sample_layer_splittable [of Act_X]
  by (simp add: broadcasting_def splittable_dim_def sample_layer_dims)

text \<open>
  The strategies without a split: \<open>NONE\<close> copies the layer to every tile with its whole output, the strategies
  that exist in the enumeration but have no implementation give no tile at all, and the
  enumeration's bound \<open>__size\<close> raises because it has no name.
\<close>

theorem split_other_strategies:
  "(\<exists>tiles. splitAcrossTiles l VPUTilingStrategy.NONE n = Inr tiles \<and> length tiles = unat n \<and>
      list_all (\<lambda>t. outputs_0 t = outputs_0 l \<and> inputs_0 t = inputs_0 l \<and>
        isi_strategy t = mapTilingStrategiesToWorkload VPUTilingStrategy.NONE) tiles) \<and>
   list_all (\<lambda>s. splitAcrossTiles l s n = Inr []) [SOHW, SOHK, SOH_K_SWITCH, UNKNOWN, SOK_H_SWITCH, SOK_W_SWITCH] \<and>
   (\<exists>e. splitAcrossTiles l VPUTilingStrategy.enum_size n = Inl e)"
proof -
  have named: "\<exists>t. enum_text_of VPUTilingStrategy_enum VPUTilingStrategy_ToText s = Some t"
    if "s \<in> {SOHW, SOHK, SOH_K_SWITCH, UNKNOWN, SOK_H_SWITCH, SOK_W_SWITCH}" for s
    using that by (intro tiling_strategy_text.has_text) (auto simp: VPUTilingStrategy_enum_def)
  have "enum_text_of VPUTilingStrategy_enum VPUTilingStrategy_ToText VPUTilingStrategy.enum_size = None" by code_simp
  then show ?thesis
    using named [of SOHW] named [of SOHK] named [of SOH_K_SWITCH] named [of UNKNOWN] named [of SOK_H_SWITCH] named [of SOK_W_SWITCH]
    by (auto simp: splitAcrossTiles_def clustering_def mapTilingStrategiesToWorkload_def list_all_iff)
qed

end
