(* ===== verification/Fixed_Cache.thy ===== *)
theory Fixed_Cache
  imports Workload
begin

text \<open>
  The read-only cache that is loaded from a file: \<open>ThreadSafeMap\<close> of \<^verbatim>\<open>include/core/utils.h\<close>, \<open>AccessCounter\<close> and
  \<open>FixedCache\<close> of \<^verbatim>\<open>include/core/persistent_cache.h\<close>, and the choice of its file in \<open>FixedCacheAddON\<close> of
  \<^verbatim>\<open>include/core/cache.h\<close>.

  A \<open>ThreadSafeMap\<close> wraps a \<open>std::map\<close>, an association list with increasing keys here; every operation holds the
  lock for its whole body, so it is atomic and is modelled by one function. The file system, the
  environment and the generated flatbuffers code are arguments: \<open>fs\<close> gives the bytes of a file or
  nothing, \<open>env\<close> the value of a variable, \<open>decode\<close> the entries of a buffer the verifier accepts and \<open>encode\<close>
  the buffer built for a list of entries. The counters are \<open>size_t\<close>, 64-bit words.
\<close>

section \<open>ThreadSafeMap\<close>

type_synonym ('k, 'v) ThreadSafeMap = "('k \<times> 'v) list"

definition tsm_contains :: "('k, 'v) ThreadSafeMap \<Rightarrow> 'k \<Rightarrow> bool" where
  "tsm_contains m key \<longleftrightarrow> map_of m key \<noteq> None"

definition tsm_find :: "('k, 'v) ThreadSafeMap \<Rightarrow> 'k \<Rightarrow> 'v \<Rightarrow> bool \<times> 'v" where
  "tsm_find m key v = (case map_of m key of Some found \<Rightarrow> (True, found) | None \<Rightarrow> (False, v))"

definition tsm_size :: "('k, 'v) ThreadSafeMap \<Rightarrow> nat" where
  "tsm_size m = length m"

definition tsm_empty :: "('k, 'v) ThreadSafeMap \<Rightarrow> bool" where
  "tsm_empty m \<longleftrightarrow> m = []"

definition tsm_keys :: "('k, 'v) ThreadSafeMap \<Rightarrow> 'k list" where
  "tsm_keys m = map fst m"

definition tsm_values :: "('k, 'v) ThreadSafeMap \<Rightarrow> 'v list" where
  "tsm_values m = map snd m"

fun tsm_insert :: "'k :: linorder \<Rightarrow> 'v \<Rightarrow> ('k, 'v) ThreadSafeMap \<Rightarrow> ('k, 'v) ThreadSafeMap" where
  "tsm_insert key v [] = [(key, v)]"
| "tsm_insert key v ((k, w) # m) =
     (if key < k then (key, v) # (k, w) # m
      else if key = k then (key, v) # m
      else (k, w) # tsm_insert key v m)"

definition tsm_remove :: "'k \<Rightarrow> ('k, 'v) ThreadSafeMap \<Rightarrow> bool \<times> ('k, 'v) ThreadSafeMap" where
  "tsm_remove key m =
     (case map_of m key of
        Some _ \<Rightarrow> (True, filter (\<lambda>e. fst e \<noteq> key) m)
      | None \<Rightarrow> (False, m))"

definition tsm_clear :: "('k, 'v) ThreadSafeMap \<Rightarrow> ('k, 'v) ThreadSafeMap" where
  "tsm_clear m = []"

section \<open>AccessCounter\<close>

record AccessCounter =
  accesses :: u64
  hits :: u64
  misses :: u64
  counter_name :: string

definition new_AccessCounter :: "string \<Rightarrow> AccessCounter" where
  "new_AccessCounter desiredName = \<lparr>accesses = 0, hits = 0, misses = 0, counter_name = desiredName\<rparr>"

definition access :: "bool \<Rightarrow> AccessCounter \<Rightarrow> AccessCounter" where
  "access hit c =
     (let c = c\<lparr>accesses := accesses c + 1\<rparr> in
      if hit then c\<lparr>hits := hits c + 1\<rparr> else c\<lparr>misses := misses c + 1\<rparr>)"

definition counter_hit :: "AccessCounter \<Rightarrow> AccessCounter" where
  "counter_hit c = access True c"

definition counter_miss :: "AccessCounter \<Rightarrow> AccessCounter" where
  "counter_miss c = access False c"

definition counter_reset :: "AccessCounter \<Rightarrow> AccessCounter" where
  "counter_reset c = c\<lparr>accesses := 0, hits := 0, misses := 0\<rparr>"

text \<open>The two ratios are \<open>double\<close> in the code; here the exact quotient.\<close>

definition getHitRatio :: "AccessCounter \<Rightarrow> real" where
  "getHitRatio c = (if accesses c = 0 then 0 else real (unat (hits c)) / real (unat (accesses c)))"

definition getMissRatio :: "AccessCounter \<Rightarrow> real" where
  "getMissRatio c = (if accesses c = 0 then 0 else real (unat (misses c)) / real (unat (accesses c)))"

section \<open>FixedCache\<close>

record 'v FixedCache =
  fc_map :: "(u32, 'v) ThreadSafeMap"
  fc_counter :: AccessCounter

definition fixed_get :: "'v :: zero FixedCache \<Rightarrow> u32 \<Rightarrow> 'v option \<times> 'v FixedCache" where
  "fixed_get f wl =
     (case tsm_find (fc_map f) wl 0 of
        (True, v) \<Rightarrow> (Some v, f\<lparr>fc_counter := counter_hit (fc_counter f)\<rparr>)
      | (False, _) \<Rightarrow> (None, f\<lparr>fc_counter := counter_miss (fc_counter f)\<rparr>))"

definition fixed_insert :: "u32 \<Rightarrow> 'v \<Rightarrow> 'v FixedCache \<Rightarrow> 'v FixedCache" where
  "fixed_insert key v f = f\<lparr>fc_map := tsm_insert key v (fc_map f)\<rparr>"

definition fixed_contains :: "'v FixedCache \<Rightarrow> u32 \<Rightarrow> bool" where
  "fixed_contains f key = tsm_contains (fc_map f) key"

definition getCacheSize :: "'v FixedCache \<Rightarrow> nat" where
  "getCacheSize f = tsm_size (fc_map f)"

type_synonym bytes = "u8 list"

definition read_cache_data ::
  "(bytes \<Rightarrow> (u32 \<times> 'v) list option) \<Rightarrow> bytes \<Rightarrow> 'v FixedCache \<Rightarrow> bool \<times> 'v FixedCache" where
  "read_cache_data decode file_data f =
     (case decode file_data of
        None \<Rightarrow> (False, f)
      | Some cache_map \<Rightarrow> (True, fold (\<lambda>entry f. fixed_insert (fst entry) (snd entry) f) cache_map f))"

definition read_cache ::
  "(bytes \<Rightarrow> (u32 \<times> 'v) list option) \<Rightarrow> (string \<rightharpoonup> bytes) \<Rightarrow> string \<Rightarrow> 'v FixedCache \<Rightarrow> bool \<times> 'v FixedCache" where
  "read_cache decode fs filename f =
     (case fs filename of
        None \<Rightarrow> (False, f)
      | Some buf \<Rightarrow> read_cache_data decode buf f)"

text \<open>\<open>writable\<close> tells whether the file can be opened for writing.\<close>

definition write_cache ::
  "((u32 \<times> 'v) list \<Rightarrow> bytes) \<Rightarrow> (string \<Rightarrow> bool) \<Rightarrow> string \<Rightarrow> 'v FixedCache \<Rightarrow> (string \<rightharpoonup> bytes) \<Rightarrow>
     bool \<times> (string \<rightharpoonup> bytes)" where
  "write_cache encode writable filename f fs =
     (let buffer = encode (fc_map f) in
      if writable filename then (True, fs(filename \<mapsto> buffer)) else (False, fs))"

definition empty_FixedCache :: "'v FixedCache" where
  "empty_FixedCache = \<lparr>fc_map = [], fc_counter = new_AccessCounter ''unnamed''\<rparr>"

definition FixedCache_of_file :: "(bytes \<Rightarrow> (u32 \<times> 'v) list option) \<Rightarrow> (string \<rightharpoonup> bytes) \<Rightarrow> string \<Rightarrow> 'v FixedCache" where
  "FixedCache_of_file decode fs filename = snd (read_cache decode fs filename empty_FixedCache)"

definition FixedCache_of_data :: "(bytes \<Rightarrow> (u32 \<times> 'v) list option) \<Rightarrow> bytes \<Rightarrow> 'v FixedCache" where
  "FixedCache_of_data decode file_data = snd (read_cache_data decode file_data empty_FixedCache)"

section \<open>Which file is loaded\<close>

text \<open>
  \<open>std::filesystem::path::replace_extension\<close> with an extension that starts with a dot: the extension of the
  last component, from its last dot, is cut off and the new one is appended; a leading dot starts no
  extension, and neither do the components \<open>.\<close> and \<open>..\<close>.
\<close>

definition path_filename :: "string \<Rightarrow> string" where
  "path_filename p = rev (takeWhile (\<lambda>c. c \<noteq> CHR ''/'') (rev p))"

definition extension_length :: "string \<Rightarrow> nat" where
  "extension_length f =
     (let tail = takeWhile (\<lambda>c. c \<noteq> CHR ''.'') (rev f) in
      if CHR ''.'' \<notin> set (tl f) \<or> f = ''..'' then 0 else Suc (length tail))"

definition replace_extension :: "string \<Rightarrow> string \<Rightarrow> string" where
  "replace_extension p ext = take (length p - extension_length (path_filename p)) p @ ext"

definition decideCacheFilename :: "(string \<rightharpoonup> bytes) \<Rightarrow> string \<Rightarrow> string \<Rightarrow> string" where
  "decideCacheFilename fs filenamePrio1 loadThisCSVIfPairedCacheExists =
     (if filenamePrio1 = [] then
        let pairC = replace_extension loadThisCSVIfPairedCacheExists ''.cache_bin'' in
        if loadThisCSVIfPairedCacheExists \<noteq> [] \<and> fs pairC \<noteq> None then pairC else filenamePrio1
      else filenamePrio1)"

definition check_if_env_path_override :: "(string \<rightharpoonup> string) \<Rightarrow> (string \<rightharpoonup> bytes) \<Rightarrow> string" where
  "check_if_env_path_override env fs =
     (let env_cache_path = get_env_var env ''VPUNN_CACHE_PATH'' in
      if env_cache_path \<noteq> [] \<and> fs env_cache_path \<noteq> None then env_cache_path else [])"

definition FixedCacheAddON_file ::
  "(bytes \<Rightarrow> (u32 \<times> 'v) list option) \<Rightarrow> (string \<rightharpoonup> string) \<Rightarrow> (string \<rightharpoonup> bytes) \<Rightarrow> string \<Rightarrow> string \<Rightarrow> 'v FixedCache" where
  "FixedCacheAddON_file decode env fs filename prio2_loadIfPairedCacheExists =
     (let env_override = check_if_env_path_override env fs in
      if env_override \<noteq> [] then FixedCache_of_file decode fs env_override
      else FixedCache_of_file decode fs (decideCacheFilename fs filename prio2_loadIfPairedCacheExists))"

definition FixedCacheAddON_data ::
  "(bytes \<Rightarrow> (u32 \<times> 'v) list option) \<Rightarrow> (string \<rightharpoonup> string) \<Rightarrow> (string \<rightharpoonup> bytes) \<Rightarrow> bytes \<Rightarrow> 'v FixedCache" where
  "FixedCacheAddON_data decode env fs file_data =
     (let env_override = check_if_env_path_override env fs in
      if env_override \<noteq> [] then FixedCache_of_file decode fs env_override
      else FixedCache_of_data decode file_data)"

section \<open>The contract of the map\<close>

locale finite_table =
  fixes lookup :: "'m \<Rightarrow> 'k \<Rightarrow> 'v option" and insert_entry :: "'k \<Rightarrow> 'v \<Rightarrow> 'm \<Rightarrow> 'm" and invar :: "'m \<Rightarrow> bool"
  assumes lookup_insert: "invar m \<Longrightarrow> lookup (insert_entry k v m) = (lookup m)(k \<mapsto> v)"
    and invar_insert: "invar m \<Longrightarrow> invar (insert_entry k v m)"
begin

lemma load_entries:
  assumes "invar m"
  shows "invar (fold (\<lambda>e. insert_entry (fst e) (snd e)) es m) \<and>
    lookup (fold (\<lambda>e. insert_entry (fst e) (snd e)) es m) = lookup m ++ map_of (rev es)"
  using assms
proof (induction es arbitrary: m)
  case (Cons e es)
  then show ?case by (simp add: invar_insert lookup_insert map_add_upd_left fun_eq_iff map_add_def split: option.split)
qed simp

end

definition increasing_keys :: "('k :: linorder, 'v) ThreadSafeMap \<Rightarrow> bool" where
  "increasing_keys m \<longleftrightarrow> sorted_wrt (<) (map fst m)"

lemma tsm_insert_keys: "fst ` set (tsm_insert k v m) = insert k (fst ` set m)"
  by (induction k v m rule: tsm_insert.induct) auto

lemma tsm_insert_increasing: "increasing_keys m \<Longrightarrow> increasing_keys (tsm_insert k v m)"
proof (induction k v m rule: tsm_insert.induct)
  case (2 key v k w m)
  then show ?case using tsm_insert_keys [of key v m] by (fastforce simp: increasing_keys_def)
qed (simp add: increasing_keys_def)

lemma map_of_tsm_insert: "increasing_keys m \<Longrightarrow> map_of (tsm_insert k v m) = (map_of m)(k \<mapsto> v)"
proof (induction k v m rule: tsm_insert.induct)
  case (2 key v k w m)
  then show ?case by (auto simp: increasing_keys_def fun_eq_iff)
qed (simp add: increasing_keys_def)

interpretation safe_map: finite_table map_of tsm_insert increasing_keys
  by unfold_locales (simp_all add: map_of_tsm_insert tsm_insert_increasing)

lemma increasing_keys_unique:
  "increasing_keys a \<Longrightarrow> increasing_keys b \<Longrightarrow> map_of a = map_of b \<Longrightarrow> a = b"
proof -
  assume a: "increasing_keys a" and b: "increasing_keys b" and e: "map_of a = map_of b"
  have d: "distinct (map fst a)" "distinct (map fst b)" using a b unfolding increasing_keys_def
    by (simp_all add: strict_sorted_iff)
  then have "set a = set b" using e by (metis map_of_eqI map_of_inject_set)
  then show "a = b"
    using a b d by (intro map_sorted_distinct_set_unique [where f = fst])
      (auto simp: increasing_keys_def distinct_map strict_sorted_iff)
qed

interpretation fixed_table: finite_table "\<lambda>f. map_of (fc_map f)" fixed_insert "\<lambda>f. increasing_keys (fc_map f)"
  by unfold_locales (simp_all add: fixed_insert_def map_of_tsm_insert tsm_insert_increasing)

section \<open>Properties\<close>

lemma load_FixedCache:
  assumes "decode (the (fs n)) = Some es" "fs n \<noteq> None"
  shows "increasing_keys (fc_map (FixedCache_of_file decode fs n)) \<and>
    map_of (fc_map (FixedCache_of_file decode fs n)) = map_of (rev es)"
  using assms fixed_table.load_entries [of empty_FixedCache es]
  by (auto simp: FixedCache_of_file_def read_cache_def read_cache_data_def empty_FixedCache_def increasing_keys_def)

lemma fresh_counter: "fc_counter (FixedCache_of_file decode fs n) = new_AccessCounter ''unnamed''"
proof -
  have "fc_counter (fold (\<lambda>e. fixed_insert (fst e) (snd e)) es f) = fc_counter f" for es and f :: "'a FixedCache"
    by (induction es arbitrary: f) (simp_all add: fixed_insert_def)
  then show ?thesis
    by (simp add: FixedCache_of_file_def read_cache_def read_cache_data_def empty_FixedCache_def split: option.split)
qed

text \<open>
  C39. Writing the preloaded cache to a file and constructing a cache from that file gives the same entries in the same
  order, for any serialisation whose decoder inverts its encoder; a cache built by insertions always has
  the increasing keys this needs.
\<close>

theorem cache_file_round_trip:
  assumes "\<And>es. decode (encode es) = Some es" "increasing_keys (fc_map f)" "writable n"
  shows "fst (write_cache encode writable n f fs) \<and>
    fc_map (FixedCache_of_file decode (snd (write_cache encode writable n f fs)) n) = fc_map f"
proof -
  let ?fs = "snd (write_cache encode writable n f fs)"
  have "?fs n = Some (encode (fc_map f))" using assms(3) by (simp add: write_cache_def Let_def)
  then have l: "increasing_keys (fc_map (FixedCache_of_file decode ?fs n))"
    "map_of (fc_map (FixedCache_of_file decode ?fs n)) = map_of (rev (fc_map f))"
    using load_FixedCache [of decode ?fs n "fc_map f"] assms(1) by simp_all
  have "distinct (map fst (fc_map f))" using assms(2) by (simp add: increasing_keys_def strict_sorted_iff)
  then have "map_of (rev (fc_map f)) = map_of (fc_map f)" 
    by (subst map_of_inject_set) (simp_all flip: rev_map)
  then show ?thesis using increasing_keys_unique [OF l(1) assms(2)] l(2) assms(3) by (simp add: write_cache_def Let_def)
qed

text \<open>A small serialisation for the instance: the key in unary, a mark, and a value of one byte.\<close>

fun unary_encode :: "(u32 \<times> u8) list \<Rightarrow> bytes" where
  "unary_encode [] = []"
| "unary_encode ((k, v) # es) = replicate (unat k) 0 @ 1 # v # unary_encode es"

fun unary_decode :: "u32 \<Rightarrow> bytes \<Rightarrow> (u32 \<times> u8) list option" where
  "unary_decode k [] = (if k = 0 then Some [] else None)"
| "unary_decode k (b # bs) =
     (if b = 0 then unary_decode (k + 1) bs
      else case bs of [] \<Rightarrow> None | v # bs' \<Rightarrow> map_option (\<lambda>es. (k, v) # es) (unary_decode 0 bs'))"

lemma unary_decode_zeros: "unary_decode k (replicate n 0 @ bs) = unary_decode (k + of_nat n) bs"
  by (induction n arbitrary: k) (simp_all add: add.assoc)

lemma unary_inverse: "unary_decode 0 (unary_encode es) = Some es"
  by (induction es rule: unary_encode.induct) (simp_all add: unary_decode_zeros)

theorem cache_file_round_trip_witness:
  "fst (write_cache unary_encode (\<lambda>_. True) ''c.cache_bin'' (fixed_insert 7 3 (fixed_insert 2 9 empty_FixedCache)) Map.empty) \<and>
   fc_map (FixedCache_of_file (unary_decode 0)
     (snd (write_cache unary_encode (\<lambda>_. True) ''c.cache_bin'' (fixed_insert 7 3 (fixed_insert 2 9 empty_FixedCache)) Map.empty))
     ''c.cache_bin'') = [(2, 9), (7, 3)]"
  using cache_file_round_trip [of "unary_decode 0" unary_encode "fixed_insert 7 3 (fixed_insert 2 9 empty_FixedCache)"
      "\<lambda>_. True" "''c.cache_bin''" Map.empty]
  by (simp add: unary_inverse fixed_insert_def empty_FixedCache_def increasing_keys_def)

text \<open>
  Which entry a loaded cache answers with, and what an access costs in the statistics: a lookup returns the last
  value the file has for the key, or nothing; it changes only the counter, which counts exactly one
  access and one hit or miss, so that hits and misses add up to accesses for ever.
\<close>

theorem fixed_get_spec:
  assumes "fs n \<noteq> None" "decode (the (fs n)) = Some es"
    and "hits (fc_counter f) + misses (fc_counter f) = accesses (fc_counter f)"
    and "fc_map f = fc_map (FixedCache_of_file decode fs n)"
  shows "fst (fixed_get f k) = map_of (rev es) k \<and> fc_map (snd (fixed_get f k)) = fc_map f \<and>
    (fixed_contains f k \<longleftrightarrow> fst (fixed_get f k) \<noteq> None) \<and>
    accesses (fc_counter (snd (fixed_get f k))) = accesses (fc_counter f) + 1 \<and>
    hits (fc_counter (snd (fixed_get f k))) + misses (fc_counter (snd (fixed_get f k))) =
      accesses (fc_counter (snd (fixed_get f k)))"
proof -
  have "map_of (fc_map f) = map_of (rev es)" using load_FixedCache assms by metis
  then show ?thesis
    using assms(3)
    by (auto simp: fixed_get_def tsm_find_def fixed_contains_def tsm_contains_def counter_hit_def counter_miss_def
        access_def Let_def algebra_simps split: option.splits)
qed

theorem fixed_get_spec_witness:
  "fst (fixed_get (FixedCache_of_file (unary_decode 0) [''f'' \<mapsto> unary_encode [(4, 1), (4, 2)]] ''f'') 4) = Some 2"
  using fixed_get_spec [of "[''f'' \<mapsto> unary_encode [(4, 1), (4, 2)]]" "''f''" "unary_decode 0" "[(4, 1), (4, 2)]"
      "FixedCache_of_file (unary_decode 0) [''f'' \<mapsto> unary_encode [(4, 1), (4, 2)]] ''f''" 4]
  by (simp add: unary_inverse fresh_counter new_AccessCounter_def del: unary_encode.simps)

end
