(* ===== verification/Lru_Cache.thy ===== *)
theory Lru_Cache
  imports Fixed_Cache Workload_Keys "HOL-Library.Multiset"
begin

text \<open>
  The workload cache with least-recently-used replacement: \<open>LRUCache\<close> of \<^verbatim>\<open>include/core/cache.h\<close>, on top of the
  preloaded \<open>FixedCache\<close>.

  The list of the code has stable nodes, and its table maps a key to an iterator of the list. A node is
  modelled with its identity, a number that is never reused, so that the table holds references and a
  dangling one is visible; \<open>next_node\<close> is the allocator. The hashed table is an association list, whose
  order the code never observes; its keys are compared by equality, which is what the container
  assumes of \<open>operator==\<close> and of the hash. \<open>key_hash\<close> is the hash of a key in the preloaded table: \<open>hash()\<close> of a
  workload, or that of its descriptor.

  \<open>add\<close> holds the exclusive lock for its whole body; \<open>get\<close> looks the key up under a shared lock, releases it,
  and looks again under the exclusive lock. The last section runs the steps of any number of threads in
  any order.
\<close>

section \<open>The cache\<close>

record ('k, 'v) LRUCache =
  deserialized_table :: "'v FixedCache"
  workloads :: "(nat \<times> 'k \<times> 'v) list"
  m_table :: "('k \<times> nat) list"
  max_size :: nat
  next_node :: nat

definition new_LRUCache :: "nat \<Rightarrow> 'v FixedCache \<Rightarrow> ('k, 'v) LRUCache" where
  "new_LRUCache size_max preloaded =
     \<lparr>deserialized_table = preloaded, workloads = [], m_table = [], max_size = size_max, next_node = 0\<rparr>"

definition check_consistency :: "('k, 'v) LRUCache \<Rightarrow> bool" where
  "check_consistency c \<longleftrightarrow> length (workloads c) = length (m_table c)"

definition mark_as_most_recently_used :: "nat \<Rightarrow> ('k, 'v) LRUCache \<Rightarrow> ('k, 'v) LRUCache result" where
  "mark_as_most_recently_used list_it c =
     (case map_of (workloads c) list_it of
        None \<Rightarrow> Inl (undefined_behaviour ''splice of a dangling iterator'')
      | Some item \<Rightarrow>
          Inr (c\<lparr>workloads := (list_it, item) # filter (\<lambda>node. fst node \<noteq> list_it) (workloads c)\<rparr>))"

definition lru_remove :: "'k \<Rightarrow> ('k, 'v) LRUCache \<Rightarrow> ('k, 'v) LRUCache result" where
  "lru_remove wl c =
     (case map_of (m_table c) wl of
        None \<Rightarrow> Inl (out_of_range ''VPUNN Cache out of range, an element was not in table'')
      | Some _ \<Rightarrow>
          let c = c\<lparr>m_table := filter (\<lambda>e. fst e \<noteq> wl) (m_table c)\<rparr>;
              c = c\<lparr>workloads := butlast (workloads c)\<rparr>
          in if \<not> check_consistency c
             then Inl (runtime_error ''Cache consistency check failed after removing workload'')
             else Inr c)"

lemma lru_remove_shrinks: "lru_remove wl c = Inr c' \<Longrightarrow> length (m_table c') < length (m_table c)"
proof -
  assume r: "lru_remove wl c = Inr c'"
  then have "map_of (m_table c) wl \<noteq> None" by (auto simp: lru_remove_def split: option.splits)
  then have "wl \<in> fst ` set (m_table c)" by (simp add: map_of_eq_None_iff)
  then have "length (filter (\<lambda>e. fst e \<noteq> wl) (m_table c)) < length (m_table c)"
    by (auto intro: length_filter_less)
  then show ?thesis using r by (auto simp: lru_remove_def Let_def split: option.splits if_splits)
qed

function clean_up_excess_elements :: "('k, 'v) LRUCache \<Rightarrow> ('k, 'v) LRUCache result" where
  "clean_up_excess_elements c =
     (if \<not> max_size c < length (m_table c) then Inr c
      else case workloads c of
          [] \<Rightarrow> Inl (undefined_behaviour ''back() of an empty list'')
        | _ \<Rightarrow>
            (case lru_remove (fst (snd (last (workloads c)))) c of
               Inl e \<Rightarrow> Inl e
             | Inr c' \<Rightarrow> clean_up_excess_elements c'))"
  by auto
termination
  by (relation "measure (\<lambda>c. length (m_table c))") (auto dest: lru_remove_shrinks)

declare clean_up_excess_elements.simps [simp del]

definition checked_after_add :: "('k, 'v) LRUCache \<Rightarrow> ('k, 'v) LRUCache result" where
  "checked_after_add c =
     (if \<not> check_consistency c then Inl (runtime_error ''Cache consistency check failed after adding workload'')
      else Inr c)"

definition lru_add :: "('k \<Rightarrow> u32) \<Rightarrow> 'k \<Rightarrow> 'v \<Rightarrow> ('k, 'v) LRUCache \<Rightarrow> ('k, 'v) LRUCache result" where
  "lru_add key_hash wl v c =
     (if max_size c = 0 then Inr c
      else if fixed_contains (deserialized_table c) (key_hash wl) then Inr c
      else
        (case map_of (m_table c) wl of
           None \<Rightarrow>
             let c = c\<lparr>workloads := (next_node c, wl, v) # workloads c, next_node := Suc (next_node c)\<rparr>;
                 c = c\<lparr>m_table := (wl, fst (hd (workloads c))) # m_table c\<rparr>
             in (case clean_up_excess_elements c of Inl e \<Rightarrow> Inl e | Inr c \<Rightarrow> checked_after_add c)
         | Some map_it \<Rightarrow>
             (case mark_as_most_recently_used map_it c of Inl e \<Rightarrow> Inl e | Inr c \<Rightarrow> checked_after_add c)))"

text \<open>The three parts of \<open>get\<close>: the preloaded table, the look under the shared lock, the look under the exclusive lock.\<close>

definition get_fixed :: "('k \<Rightarrow> u32) \<Rightarrow> 'k \<Rightarrow> ('k, 'v :: zero) LRUCache \<Rightarrow> 'v option \<times> ('k, 'v) LRUCache" where
  "get_fixed key_hash wl c =
     (case fixed_get (deserialized_table c) (key_hash wl) of (found, f) \<Rightarrow> (found, c\<lparr>deserialized_table := f\<rparr>))"

definition get_check :: "'k \<Rightarrow> ('k, 'v) LRUCache \<Rightarrow> bool" where
  "get_check wl c \<longleftrightarrow> map_of (m_table c) wl \<noteq> None"

definition get_commit :: "'k \<Rightarrow> ('k, 'v) LRUCache \<Rightarrow> (('v \<times> string) option \<times> ('k, 'v) LRUCache) result" where
  "get_commit wl c =
     (case map_of (m_table c) wl of
        None \<Rightarrow> Inr (None, c)
      | Some map_it \<Rightarrow>
          (case mark_as_most_recently_used map_it c of
             Inl e \<Rightarrow> Inl e
           | Inr c \<Rightarrow>
               (case map_of (workloads c) map_it of
                  None \<Rightarrow> Inl (undefined_behaviour ''read of a dangling iterator'')
                | Some item \<Rightarrow> Inr (Some (snd item, ''dyn_cache''), c))))"

definition lru_get :: "('k \<Rightarrow> u32) \<Rightarrow> 'k \<Rightarrow> ('k, 'v :: zero) LRUCache \<Rightarrow> (('v \<times> string) option \<times> ('k, 'v) LRUCache) result" where
  "lru_get key_hash wl c =
     (case get_fixed key_hash wl c of
        (Some found, c) \<Rightarrow> Inr (Some (found, ''fixed_cache''), c)
      | (None, c) \<Rightarrow> if \<not> get_check wl c then Inr (None, c) else get_commit wl c)"

section \<open>What the cache promises\<close>

text \<open>
  The abstract cache is the list of its entries, most recently used first. \<open>touch\<close> moves an entry to the front;
  adding a key that is present keeps its value, and adding a new one drops what exceeds the capacity.
\<close>

definition touch :: "'k \<Rightarrow> ('k \<times> 'v) list \<Rightarrow> ('k \<times> 'v) list" where
  "touch k l = (case map_of l k of None \<Rightarrow> l | Some v \<Rightarrow> (k, v) # filter (\<lambda>e. fst e \<noteq> k) l)"

definition spec_add :: "nat \<Rightarrow> 'k \<Rightarrow> 'v \<Rightarrow> ('k \<times> 'v) list \<Rightarrow> ('k \<times> 'v) list" where
  "spec_add cap k v l = (case map_of l k of None \<Rightarrow> take cap ((k, v) # l) | Some _ \<Rightarrow> touch k l)"

definition entries :: "('k, 'v) LRUCache \<Rightarrow> ('k \<times> 'v) list" where
  "entries c = map snd (workloads c)"

definition linked :: "('k, 'v) LRUCache \<Rightarrow> bool" where
  "linked c \<longleftrightarrow> distinct (map fst (workloads c)) \<and> distinct (map fst (entries c)) \<and> distinct (map fst (m_table c)) \<and>
     map_of (m_table c) = map_of (map (\<lambda>n. (fst (snd n), fst n)) (workloads c)) \<and>
     (\<forall>n \<in> set (workloads c). fst n < next_node c)"

definition lru_inv :: "('k, 'v) LRUCache \<Rightarrow> bool" where
  "lru_inv c \<longleftrightarrow> linked c \<and> length (entries c) \<le> max_size c"

lemma linked_consistent:
  assumes "linked c"
  shows "check_consistency c"
proof -
  let ?w = "map (\<lambda>n. (fst (snd n), fst n)) (workloads c)"
  have d: "distinct (map fst ?w)" "distinct (map fst (m_table c))" "map_of (m_table c) = map_of ?w"
    using assms by (simp_all add: linked_def entries_def comp_def)
  have "length (m_table c) = card (dom (map_of (m_table c)))"
    using d(2) by (metis distinct_card dom_map_of_conv_image_fst length_map set_map)
  also have "\<dots> = length ?w" unfolding d(3) using d(1) by (metis distinct_card dom_map_of_conv_image_fst length_map set_map)
  finally show ?thesis by (simp add: check_consistency_def)
qed

lemma map_of_filter_key: "map_of (filter (\<lambda>e. fst e \<noteq> k) t) = (map_of t)(k := None)"
  by (induction t) (auto simp: fun_eq_iff)

lemma linked_node:
  assumes "linked c" "map_of (m_table c) k = Some a"
  shows "\<exists>v. map_of (workloads c) a = Some (k, v) \<and> map_of (entries c) k = Some v"
proof -
  have "map_of (map (\<lambda>n. (fst (snd n), fst n)) (workloads c)) k = Some a" using assms by (simp add: linked_def)
  then obtain v where n: "(a, k, v) \<in> set (workloads c)" by (auto dest!: map_of_SomeD)
  then have "(k, v) \<in> set (entries c)" by (force simp: entries_def)
  then show ?thesis using n assms(1) by (auto simp: linked_def)
qed

lemma linked_absent: "linked c \<Longrightarrow> map_of (m_table c) k = None \<longleftrightarrow> map_of (entries c) k = None"
  by (auto simp: linked_def map_of_eq_None_iff entries_def image_image)

section \<open>Every operation keeps the links\<close>

lemma linked_mark:
  assumes "linked c" "map_of (m_table c) k = Some a"
  obtains c' v where "mark_as_most_recently_used a c = Inr c'" "linked c'" "entries c' = touch k (entries c)"
    "map_of (workloads c') a = Some (k, v)" "map_of (entries c) k = Some v"
    "max_size c' = max_size c" "deserialized_table c' = deserialized_table c"
proof -
  obtain v where v: "map_of (workloads c) a = Some (k, v)" "map_of (entries c) k = Some v"
    using linked_node [OF assms] by blast
  let ?c = "c\<lparr>workloads := (a, k, v) # filter (\<lambda>node. fst node \<noteq> a) (workloads c)\<rparr>"
  have dn: "distinct (map fst (workloads c))" "distinct (map (fst \<circ> snd) (workloads c))"
    using assms(1) by (simp_all add: linked_def entries_def)
  have n: "(a, k, v) \<in> set (workloads c)" using v(1) by (rule map_of_SomeD)
  have same: "fst x = a \<longleftrightarrow> fst (snd x) = k" if "x \<in> set (workloads c)" for x
    using that n dn by (auto simp: distinct_map inj_on_def) (metis fst_conv snd_conv)+
  then have f: "filter (\<lambda>node. fst node \<noteq> a) (workloads c) = filter (\<lambda>node. fst (snd node) \<noteq> k) (workloads c)"
    by (intro filter_cong) auto
  have e: "entries ?c = touch k (entries c)"
    using v(2) unfolding touch_def by (simp add: entries_def f filter_map comp_def)
  have "map_of (map (\<lambda>n. (fst (snd n), fst n)) (workloads ?c)) = map_of (map (\<lambda>n. (fst (snd n), fst n)) (workloads c))"
  proof -
    have "map_of (map (\<lambda>n. (fst (snd n), fst n)) (filter (\<lambda>node. fst (snd node) \<noteq> k) (workloads c))) =
        (map_of (map (\<lambda>n. (fst (snd n), fst n)) (workloads c)))(k := None)"
      using map_of_filter_key [of k "map (\<lambda>n. (fst (snd n), fst n)) (workloads c)"] by (simp add: filter_map comp_def)
    moreover have "map_of (map (\<lambda>n. (fst (snd n), fst n)) (workloads c)) k = Some a"
      using assms by (simp add: linked_def)
    ultimately show ?thesis by (auto simp: f fun_eq_iff)
  qed
  then have "linked ?c"
    using assms(1) n dn same unfolding linked_def by (auto simp: entries_def f distinct_map_filter comp_def)
  then show thesis using that [of ?c v] e v by (simp add: mark_as_most_recently_used_def)
qed

lemma linked_drop_last:
  assumes "linked c" "workloads c \<noteq> []"
  obtains c' where "lru_remove (fst (snd (last (workloads c)))) c = Inr c'" "linked c'"
    "entries c' = butlast (entries c)" "max_size c' = max_size c" "deserialized_table c' = deserialized_table c"
proof -
  obtain ws a k v where w: "workloads c = ws @ [(a, k, v)]" using assms(2) by (metis rev_exhaust surj_pair)
  let ?c = "c\<lparr>m_table := filter (\<lambda>e. fst e \<noteq> k) (m_table c), workloads := ws\<rparr>"
  have k: "k \<notin> (fst \<circ> snd) ` set ws" using assms(1) by (auto simp: linked_def entries_def w)
  have kn: "map_of (map (\<lambda>n. (fst (snd n), fst n)) ws) k = None" using k by (auto simp: map_of_eq_None_iff image_image)
  then have t: "map_of (m_table c) = (map_of (map (\<lambda>n. (fst (snd n), fst n)) ws))(k \<mapsto> a)"
    using assms(1) by (auto simp: linked_def w map_add_def fun_eq_iff split: option.split)
  have "linked ?c"
    using assms(1) k kn unfolding linked_def
    by (auto simp: w entries_def map_of_filter_key t distinct_map_filter fun_eq_iff)
  then show thesis
    using that [of ?c] linked_consistent [of ?c] t by (auto simp: lru_remove_def w entries_def Let_def)
qed

lemma clean_up_takes:
  "linked c \<Longrightarrow> \<exists>c'. clean_up_excess_elements c = Inr c' \<and> linked c' \<and> entries c' = take (max_size c) (entries c) \<and>
     max_size c' = max_size c \<and> deserialized_table c' = deserialized_table c"
proof (induction c rule: clean_up_excess_elements.induct)
  case (1 c)
  have len: "length (m_table c) = length (entries c)"
    using linked_consistent [OF "1.prems"] by (simp add: check_consistency_def entries_def)
  show ?case
  proof (cases "max_size c < length (m_table c)")
    case True
    then have ne: "workloads c \<noteq> []" using len by (auto simp: entries_def)
    obtain c' where c': "lru_remove (fst (snd (last (workloads c)))) c = Inr c'" "linked c'"
        "entries c' = butlast (entries c)" "max_size c' = max_size c" "deserialized_table c' = deserialized_table c"
      using linked_drop_last [OF "1.prems" ne] by blast
    obtain x xs where x: "workloads c = x # xs" using ne by (cases "workloads c") auto
    have "take (max_size c) (butlast (entries c)) = take (max_size c) (entries c)"
      using True len by (simp add: take_butlast)
    then show ?thesis
      using "1.IH" [OF _ x c'(1,2)] True c' unfolding clean_up_excess_elements.simps [of c] by (simp add: x)
  next
    case False
    then show ?thesis using "1.prems" len by (simp add: clean_up_excess_elements.simps [of c])
  qed
qed

lemma length_touch: "distinct (map fst l) \<Longrightarrow> length (touch k l) = length l"
proof (cases "map_of l k")
  case (Some v)
  assume d: "distinct (map fst l)"
  have "length (filter (\<lambda>e. fst e = k) l) = 1"
    using d Some by (induction l) (force simp: filter_empty_conv split: if_splits)+
  then show ?thesis using sum_length_filter_compl [of "\<lambda>e. fst e = k" l] Some by (simp add: touch_def)
qed (simp add: touch_def)

lemma linked_entries: "linked c \<Longrightarrow> distinct (map fst (entries c))"
  by (simp add: linked_def)

lemma lru_add_keeps:
  assumes "lru_inv c"
  shows "\<exists>c'. lru_add h k v c = Inr c' \<and> lru_inv c' \<and> max_size c' = max_size c \<and>
    deserialized_table c' = deserialized_table c \<and>
    entries c' = (if max_size c = 0 \<or> fixed_contains (deserialized_table c) (h k) then entries c
                  else spec_add (max_size c) k v (entries c))"
proof (cases "max_size c = 0 \<or> fixed_contains (deserialized_table c) (h k)")
  case False
  have l: "linked c" using assms by (simp add: lru_inv_def)
  show ?thesis
  proof (cases "map_of (m_table c) k")
    case None
    let ?c = "c\<lparr>workloads := (next_node c, k, v) # workloads c, next_node := Suc (next_node c), m_table := (k, next_node c) # m_table c\<rparr>"
    have e: "map_of (entries c) k = None" using linked_absent [OF l] None by simp
    have "k \<notin> fst ` set (m_table c)" using None by (simp add: map_of_eq_None_iff)
    moreover have "k \<notin> fst ` set (entries c)" using e by (simp add: map_of_eq_None_iff)
    ultimately have "linked ?c"
      using l unfolding linked_def by (auto simp: entries_def less_SucI)
    from clean_up_takes [OF this] linked_consistent show ?thesis
      using False None e by (fastforce simp: lru_add_def lru_inv_def checked_after_add_def spec_add_def entries_def Let_def)
  next
    case (Some a)
    obtain c' w where "mark_as_most_recently_used a c = Inr c'" "linked c'" "entries c' = touch k (entries c)"
      "map_of (entries c) k = Some w" "max_size c' = max_size c" "deserialized_table c' = deserialized_table c"
      using linked_mark [OF l Some] by blast
    then show ?thesis
      using False Some assms linked_consistent [of c'] length_touch [OF linked_entries [OF l], of k]
      by (auto simp: lru_add_def lru_inv_def checked_after_add_def spec_add_def)
  qed
qed (use assms in \<open>auto simp: lru_add_def\<close>)

lemma get_commit_keeps:
  assumes "lru_inv c"
  shows "\<exists>c'. get_commit k c = Inr (map_option (\<lambda>v. (v, ''dyn_cache'')) (map_of (entries c) k), c') \<and> lru_inv c' \<and>
    max_size c' = max_size c \<and> deserialized_table c' = deserialized_table c \<and> entries c' = touch k (entries c)"
proof (cases "map_of (m_table c) k")
  case None
  then show ?thesis using assms linked_absent [of c k] by (auto simp: get_commit_def lru_inv_def touch_def)
next
  case (Some a)
  have l: "linked c" using assms by (simp add: lru_inv_def)
  obtain c' w where "mark_as_most_recently_used a c = Inr c'" "linked c'" "entries c' = touch k (entries c)"
      "map_of (workloads c') a = Some (k, w)"
      "map_of (entries c) k = Some w" "max_size c' = max_size c" "deserialized_table c' = deserialized_table c"
    using linked_mark [OF l Some] by blast
  then show ?thesis
    using Some assms length_touch [OF linked_entries [OF l], of k] by (auto simp: get_commit_def lru_inv_def)
qed

lemma lru_inv_counter [simp]: "lru_inv (c\<lparr>deserialized_table := f\<rparr>) \<longleftrightarrow> lru_inv c"
  by (simp add: lru_inv_def linked_def entries_def)

lemma entries_counter [simp]: "entries (c\<lparr>deserialized_table := f\<rparr>) = entries c"
  by (simp add: entries_def)

lemma get_fixed_unfold:
  "get_fixed h k c = (map_of (fc_map (deserialized_table c)) (h k), snd (get_fixed h k c)) \<and>
   (\<exists>f. snd (get_fixed h k c) = c\<lparr>deserialized_table := f\<rparr> \<and> fc_map f = fc_map (deserialized_table c))"
  by (auto simp: get_fixed_def fixed_get_def tsm_find_def split: option.split)

lemma lru_get_keeps:
  assumes "lru_inv c"
  shows "\<exists>c'. lru_get h k c =
      Inr (case map_of (fc_map (deserialized_table c)) (h k) of
             Some v \<Rightarrow> Some (v, ''fixed_cache'')
           | None \<Rightarrow> map_option (\<lambda>v. (v, ''dyn_cache'')) (map_of (entries c) k), c') \<and>
    lru_inv c' \<and> max_size c' = max_size c \<and> fc_map (deserialized_table c') = fc_map (deserialized_table c) \<and>
    entries c' = (if fixed_contains (deserialized_table c) (h k) then entries c else touch k (entries c))"
proof -
  obtain f where f: "get_fixed h k c = (map_of (fc_map (deserialized_table c)) (h k), c\<lparr>deserialized_table := f\<rparr>)"
    "fc_map f = fc_map (deserialized_table c)" using get_fixed_unfold [of h k c] by metis
  let ?c = "c\<lparr>deserialized_table := f\<rparr>"
  obtain c' where c': "get_commit k ?c = Inr (map_option (\<lambda>v. (v, ''dyn_cache'')) (map_of (entries c) k), c')" "lru_inv c'"
    "max_size c' = max_size c" "deserialized_table c' = f" "entries c' = touch k (entries c)"
    using get_commit_keeps [of ?c k] assms by auto
  have "map_of (entries c) k = None" if "\<not> get_check k ?c"
    using that assms linked_absent [of c k] by (simp add: get_check_def lru_inv_def)
  then show ?thesis
    using f c' assms
    by (auto simp: lru_get_def fixed_contains_def tsm_contains_def touch_def split: option.splits)
qed

section \<open>How long an entry stays\<close>

definition near :: "nat \<Rightarrow> 'k \<Rightarrow> 'v \<Rightarrow> ('k \<times> 'v) list \<Rightarrow> bool" where
  "near m k v l \<longleftrightarrow> (\<exists>p s. l = p @ (k, v) # s \<and> k \<notin> fst ` set p \<and> length p \<le> m)"

lemma nearI: "l = p @ (k, v) # s \<Longrightarrow> k \<notin> fst ` set p \<Longrightarrow> length p \<le> m \<Longrightarrow> near m k v l"
  by (auto simp: near_def)

lemma nearE:
  assumes "near m k v l"
  obtains p s where "l = p @ (k, v) # s" "k \<notin> fst ` set p" "length p \<le> m"
  using assms by (auto simp: near_def)

lemma near_lookup: "near m k v l \<Longrightarrow> map_of l k = Some v"
  by (erule nearE) (simp add: map_add_def map_of_eq_None_iff [THEN iffD2])

lemma near_mono: "near m k v l \<Longrightarrow> near (Suc m) k v l"
  by (erule nearE) (rule nearI, auto)

lemma near_front: "near m k v ((k, v) # l)"
  by (rule nearI [of _ "[]"]) simp_all

lemma near_cons: "near m k v l \<Longrightarrow> j \<noteq> k \<Longrightarrow> near (Suc m) k v ((j, w) # l)"
  by (erule nearE) (rule nearI [of _ "(j, w) # p" for p], auto)

lemma near_filter:
  assumes "near m k v l" "j \<noteq> k"
  shows "near m k v (filter (\<lambda>e. fst e \<noteq> j) l)"
proof -
  obtain p s where "l = p @ (k, v) # s" "k \<notin> fst ` set p" "length p \<le> m" using assms(1) by (rule nearE)
  then show ?thesis
    using assms(2)
    by (intro nearI [of _ "filter (\<lambda>e. fst e \<noteq> j) p" _ _ "filter (\<lambda>e. fst e \<noteq> j) s"])
      (auto intro: le_trans [OF length_filter_le])
qed

lemma near_take:
  assumes "near m k v l" "m < cap"
  shows "near m k v (take cap l)"
proof -
  obtain p s where p: "l = p @ (k, v) # s" "k \<notin> fst ` set p" "length p \<le> m" using assms(1) by (rule nearE)
  have "take cap ((p @ [(k, v)]) @ s) = (p @ [(k, v)]) @ take (cap - Suc (length p)) s"
    using p(3) assms(2) by (subst take_append) simp
  then show ?thesis using p by (intro nearI [of _ p _ _ "take (cap - Suc (length p)) s"]) simp_all
qed

lemma near_touch: "near m k v l \<Longrightarrow> near (Suc m) k v (touch j l)"
  by (cases "j = k") (auto simp: touch_def near_lookup near_front near_mono intro: near_cons near_filter split: option.split)

lemma near_spec_add:
  assumes "near m k v l" "Suc m < cap"
  shows "near (Suc m) k v (spec_add cap j w l)"
proof (cases "map_of l j")
  case None
  then have "j \<noteq> k" using near_lookup [OF assms(1)] by auto
  then show ?thesis using near_take [OF near_cons [OF assms(1)] assms(2)] None unfolding spec_add_def by simp
qed (simp add: spec_add_def near_touch assms)

datatype ('k, 'v) cache_op = OpAdd 'k 'v | OpGet 'k

fun run_op :: "('k \<Rightarrow> u32) \<Rightarrow> ('k, 'v :: zero) cache_op \<Rightarrow> ('k, 'v) LRUCache \<Rightarrow> ('k, 'v) LRUCache result" where
  "run_op h (OpAdd k v) c = lru_add h k v c"
| "run_op h (OpGet k) c = map_sum id snd (lru_get h k c)"

fun run_ops :: "('k \<Rightarrow> u32) \<Rightarrow> ('k, 'v :: zero) cache_op list \<Rightarrow> ('k, 'v) LRUCache \<Rightarrow> ('k, 'v) LRUCache result" where
  "run_ops h [] c = Inr c"
| "run_ops h (x # xs) c = (case run_op h x c of Inl e \<Rightarrow> Inl e | Inr c' \<Rightarrow> run_ops h xs c')"

lemma run_op_keeps:
  assumes "lru_inv c"
  shows "\<exists>c'. run_op h x c = Inr c' \<and> lru_inv c' \<and> max_size c' = max_size c \<and>
    fc_map (deserialized_table c') = fc_map (deserialized_table c) \<and>
    (\<forall>m k v. near m k v (entries c) \<and> Suc m < max_size c \<longrightarrow> near (Suc m) k v (entries c'))"
proof (cases x)
  case (OpAdd k v)
  then show ?thesis using lru_add_keeps [OF assms, of h k v] by (auto simp: near_mono near_spec_add)
next
  case (OpGet k)
  then show ?thesis using lru_get_keeps [OF assms, of h k] by (auto simp: near_mono near_touch)
qed

lemma run_ops_keeps:
  "lru_inv c \<Longrightarrow> \<exists>c'. run_ops h xs c = Inr c' \<and> lru_inv c' \<and> max_size c' = max_size c \<and>
    fc_map (deserialized_table c') = fc_map (deserialized_table c) \<and>
    (\<forall>m k v. near m k v (entries c) \<and> m + length xs < max_size c \<longrightarrow> near (m + length xs) k v (entries c'))"
proof (induction xs arbitrary: c)
  case (Cons x xs)
  obtain c1 where c1: "run_op h x c = Inr c1" "lru_inv c1" "max_size c1 = max_size c"
    "fc_map (deserialized_table c1) = fc_map (deserialized_table c)"
    "\<And>m k v. near m k v (entries c) \<Longrightarrow> Suc m < max_size c \<Longrightarrow> near (Suc m) k v (entries c1)"
    using run_op_keeps [OF Cons.prems] by blast
  obtain c2 where c2: "run_ops h xs c1 = Inr c2" "lru_inv c2" "max_size c2 = max_size c1"
    "fc_map (deserialized_table c2) = fc_map (deserialized_table c1)"
    "\<And>m k v. near m k v (entries c1) \<Longrightarrow> m + length xs < max_size c1 \<Longrightarrow> near (m + length xs) k v (entries c2)"
    using Cons.IH [OF c1(2)] by blast
  have "near (m + length (x # xs)) k v (entries c2)"
    if "near m k v (entries c)" "m + length (x # xs) < max_size c" for m k v
    using c1(3,5) c2(5) [of "Suc m" k v] that by simp
  then show ?case using c1 c2 by simp
qed simp

section \<open>Threads\<close>

text \<open>
  The steps of concurrent callers, each atomic under its lock: \<open>asking\<close> are the threads inside \<open>get\<close> that did not find
  their key in the preloaded table and have not looked it up yet, \<open>found\<close> those that saw it under the shared
  lock and wait for the exclusive one. Between the two looks of a thread any other step may happen.
\<close>

record ('k, 'v) lru_state =
  cache :: "('k, 'v) LRUCache"
  asking :: "'k multiset"
  found :: "'k multiset"

inductive lru_step :: "('k \<Rightarrow> u32) \<Rightarrow> ('k, 'v :: zero) lru_state \<Rightarrow> ('k, 'v) lru_state \<Rightarrow> bool" for h where
  step_add: "lru_add h k v (cache s) = Inr c \<Longrightarrow> lru_step h s (s\<lparr>cache := c\<rparr>)"
| step_fixed_hit: "get_fixed h k (cache s) = (Some v, c) \<Longrightarrow> lru_step h s (s\<lparr>cache := c\<rparr>)"
| step_fixed_miss: "get_fixed h k (cache s) = (None, c) \<Longrightarrow>
    lru_step h s (s\<lparr>cache := c, asking := add_mset k (asking s)\<rparr>)"
| step_check_miss: "k \<in># asking s \<Longrightarrow> \<not> get_check k (cache s) \<Longrightarrow>
    lru_step h s (s\<lparr>asking := asking s - {#k#}\<rparr>)"
| step_check_hit: "k \<in># asking s \<Longrightarrow> get_check k (cache s) \<Longrightarrow>
    lru_step h s (s\<lparr>asking := asking s - {#k#}, found := add_mset k (found s)\<rparr>)"
| step_commit: "k \<in># found s \<Longrightarrow> get_commit k (cache s) = Inr (r, c) \<Longrightarrow>
    lru_step h s (s\<lparr>cache := c, found := found s - {#k#}\<rparr>)"

inductive lru_reachable :: "('k \<Rightarrow> u32) \<Rightarrow> nat \<Rightarrow> 'v FixedCache \<Rightarrow> ('k, 'v :: zero) lru_state \<Rightarrow> bool"
  for h cap preloaded where
  reach_start: "lru_reachable h cap preloaded \<lparr>cache = new_LRUCache cap preloaded, asking = {#}, found = {#}\<rparr>"
| reach_step: "lru_reachable h cap preloaded s \<Longrightarrow> lru_step h s s' \<Longrightarrow> lru_reachable h cap preloaded s'"

definition state_inv :: "('k \<Rightarrow> u32) \<Rightarrow> nat \<Rightarrow> 'v FixedCache \<Rightarrow> ('k, 'v) lru_state \<Rightarrow> bool" where
  "state_inv h cap preloaded s \<longleftrightarrow> lru_inv (cache s) \<and> max_size (cache s) = cap \<and>
     fc_map (deserialized_table (cache s)) = fc_map preloaded \<and>
     (\<forall>e \<in> set (entries (cache s)). \<not> fixed_contains preloaded (h (fst e)))"

lemma new_cache_inv: "lru_inv (new_LRUCache cap preloaded)"
  by (simp add: lru_inv_def linked_def entries_def new_LRUCache_def)

lemma touch_subset: "set (touch k l) \<subseteq> set l"
  by (auto simp: touch_def split: option.split dest: map_of_SomeD)

lemma spec_add_subset: "set (spec_add cap k v l) \<subseteq> insert (k, v) (set l)"
  using touch_subset [of k l] set_take_subset [of cap "(k, v) # l"] by (auto simp: spec_add_def split: option.splits)

lemma step_state_inv:
  assumes "lru_step h s s'" "state_inv h cap preloaded s"
  shows "state_inv h cap preloaded s'"
proof -
  have i: "lru_inv (cache s)" using assms(2) by (simp add: state_inv_def)
  have fc: "fixed_contains (deserialized_table (cache s)) x \<longleftrightarrow> fixed_contains preloaded x" for x
    using assms(2) by (simp add: state_inv_def fixed_contains_def)
  show ?thesis
    using assms(1)
  proof (cases rule: lru_step.cases)
    case (step_add k v c)
    then show ?thesis
      using lru_add_keeps [OF i, of h k v] assms(2) spec_add_subset [of "max_size (cache s)" k v "entries (cache s)"]
      by (auto simp: state_inv_def fc split: if_splits)
  next
    case (step_commit k r c)
    then show ?thesis
      using get_commit_keeps [OF i, of k] assms(2) touch_subset [of k "entries (cache s)"] by (auto simp: state_inv_def)
  next
    case (step_fixed_hit k v c)
    then show ?thesis using get_fixed_unfold [of h k "cache s"] assms(2) by (auto simp: state_inv_def)
  next
    case (step_fixed_miss k c)
    then show ?thesis using get_fixed_unfold [of h k "cache s"] assms(2) by (auto simp: state_inv_def)
  qed (use assms(2) in \<open>auto simp: state_inv_def\<close>)
qed

lemma reachable_state_inv: "lru_reachable h cap preloaded s \<Longrightarrow> state_inv h cap preloaded s"
proof (induction rule: lru_reachable.induct)
  case reach_start
  then show ?case using new_cache_inv by (simp add: state_inv_def) (simp add: new_LRUCache_def entries_def)
qed (rule step_state_inv)

section \<open>Properties\<close>

text \<open>
  C20. The cache refines the abstract list of entries. On a well-linked cache within its capacity, \<open>add\<close> and \<open>get\<close>
  never throw and never touch a dangling iterator; the result is again well linked and within capacity; \<open>add\<close> does
  nothing when the cache is disabled or the key is preloaded, keeps the old value and refreshes a key that is present,
  and otherwise puts the entry first and drops the least recently used ones; \<open>get\<close> answers from the
  preloaded table first, then with the stored value, which becomes the most recently used.
\<close>

theorem lru_refines_spec:
  assumes "lru_inv c"
  shows "\<exists>c1 r c2. lru_add h k v c = Inr c1 \<and> lru_inv c1 \<and>
      entries c1 = (if max_size c = 0 \<or> fixed_contains (deserialized_table c) (h k) then entries c
                    else spec_add (max_size c) k v (entries c)) \<and>
    lru_get h k c = Inr (r, c2) \<and> lru_inv c2 \<and>
      r = (case map_of (fc_map (deserialized_table c)) (h k) of
             Some w \<Rightarrow> Some (w, ''fixed_cache'')
           | None \<Rightarrow> map_option (\<lambda>w. (w, ''dyn_cache'')) (map_of (entries c) k)) \<and>
      entries c2 = (if fixed_contains (deserialized_table c) (h k) then entries c else touch k (entries c))"
  using lru_add_keeps [OF assms, of h k v] lru_get_keeps [OF assms, of h k] by blast

theorem lru_refines_spec_witness:
  "\<exists>c1 r c2. lru_add (\<lambda>k :: nat. word_of_nat k) 5 (2 :: nat) (new_LRUCache 3 empty_FixedCache) = Inr c1 \<and>
     entries c1 = [(5, 2)] \<and>
     lru_get (\<lambda>k :: nat. word_of_nat k) 5 (new_LRUCache 3 empty_FixedCache) = Inr (None :: (nat \<times> string) option, c2)"
  using lru_refines_spec [where c = "new_LRUCache 3 empty_FixedCache" and k = 5 and h = "\<lambda>k :: nat. word_of_nat k"
      and v = "2 :: nat", OF new_cache_inv]
  by (auto simp: new_LRUCache_def empty_FixedCache_def fixed_contains_def tsm_contains_def entries_def spec_add_def)

text \<open>
  C21. An entry survives fewer than \<open>max_size\<close> operations. After a key that was absent has been added, any sequence of
  fewer than \<open>max_size\<close> further additions and lookups, of whatever keys, leaves it in the cache: a lookup then
  returns the value that was added.
\<close>

theorem lru_entry_survives:
  assumes "lru_inv c" "map_of (entries c) k = None" "\<not> fixed_contains (deserialized_table c) (h k)"
    and "length ops < max_size c"
  shows "\<exists>c1 c2 c3. lru_add h k v c = Inr c1 \<and> run_ops h ops c1 = Inr c2 \<and>
    lru_get h k c2 = Inr (Some (v, ''dyn_cache''), c3)"
proof -
  obtain c1 where c1: "lru_add h k v c = Inr c1" "lru_inv c1" "max_size c1 = max_size c"
    "deserialized_table c1 = deserialized_table c" "entries c1 = spec_add (max_size c) k v (entries c)"
    using lru_add_keeps [OF assms(1), of h k v] assms(3,4) by auto
  have "near 0 k v (entries c1)"
    using assms(2,4) near_take [OF near_front, of 0 "max_size c"] unfolding c1(5) spec_add_def by simp
  then obtain c2 where c2: "run_ops h ops c1 = Inr c2" "lru_inv c2" "near (length ops) k v (entries c2)"
    "fc_map (deserialized_table c2) = fc_map (deserialized_table c)"
    using run_ops_keeps [OF c1(2), of h ops] c1(3,4) assms(4) by force
  have "map_of (fc_map (deserialized_table c2)) (h k) = None"
    using assms(3) c2(4) by (simp add: fixed_contains_def tsm_contains_def)
  then show ?thesis using c1(1) c2(1) lru_get_keeps [OF c2(2), of h k] near_lookup [OF c2(3)] by auto
qed

theorem lru_entry_survives_witness:
  "\<exists>c1 c2 c3. lru_add (\<lambda>k :: nat. word_of_nat k) 5 (2 :: nat) (new_LRUCache 3 empty_FixedCache) = Inr c1 \<and>
     run_ops (\<lambda>k :: nat. word_of_nat k) [OpAdd 6 1, OpGet 9] c1 = Inr c2 \<and>
     lru_get (\<lambda>k :: nat. word_of_nat k) 5 c2 = Inr (Some (2, ''dyn_cache''), c3)"
  using lru_entry_survives [where c = "new_LRUCache 3 empty_FixedCache" and k = 5 and h = "\<lambda>k :: nat. word_of_nat k"
      and ops = "[OpAdd 6 1, OpGet 9]" and v = "2 :: nat", OF new_cache_inv]
  by (simp add: new_LRUCache_def empty_FixedCache_def fixed_contains_def tsm_contains_def entries_def)

text \<open>
  C22. Any interleaving of threads is safe. In every state that concurrent \<open>add\<close> and \<open>get\<close> calls can reach, the cache is
  well linked, holds at most \<open>max_size\<close> entries and none that is preloaded, and the next operation of any thread
  succeeds: no consistency exception, no dangling iterator, also for a thread whose key was evicted between
  its two lookups.
\<close>

theorem lru_interleaving_safe:
  assumes "lru_reachable h cap preloaded s"
  shows "lru_inv (cache s) \<and> length (entries (cache s)) \<le> cap \<and>
    list_all (\<lambda>e. \<not> fixed_contains preloaded (h (fst e))) (entries (cache s)) \<and>
    (\<exists>c. lru_add h k v (cache s) = Inr c) \<and> (\<exists>r. get_commit k (cache s) = Inr r)"
proof -
  have i: "state_inv h cap preloaded s" using assms by (rule reachable_state_inv)
  then have "lru_inv (cache s)" by (simp add: state_inv_def)
  then show ?thesis
    using i lru_add_keeps [of "cache s" h k v] get_commit_keeps [of "cache s" k]
    by (auto simp: state_inv_def lru_inv_def list_all_iff)
qed

theorem lru_interleaving_safe_witness:
  "lru_inv (cache \<lparr>cache = new_LRUCache 2 empty_FixedCache :: (nat, nat) LRUCache, asking = {#7#}, found = {#}\<rparr>)"
proof -
  let ?h = "\<lambda>k :: nat. word_of_nat k :: u32"
  let ?s = "\<lparr>cache = new_LRUCache 2 empty_FixedCache :: (nat, nat) LRUCache, asking = {#}, found = {#}\<rparr>"
  let ?c = "snd (get_fixed ?h 7 (cache ?s))"
  have "get_fixed ?h 7 (cache ?s) = (None, ?c)"
    by (simp add: get_fixed_def fixed_get_def tsm_find_def new_LRUCache_def empty_FixedCache_def)
  then have "lru_step ?h ?s (?s\<lparr>cache := ?c, asking := add_mset 7 (asking ?s)\<rparr>)" by (rule step_fixed_miss)
  then have "lru_reachable ?h 2 empty_FixedCache (?s\<lparr>cache := ?c, asking := add_mset 7 (asking ?s)\<rparr>)"
    by (rule reach_step [OF reach_start])
  from lru_interleaving_safe [OF this, of 0 0] have "lru_inv ?c" by simp
  then show ?thesis by (simp add: get_fixed_def fixed_get_def tsm_find_def new_LRUCache_def empty_FixedCache_def
      lru_inv_def linked_def entries_def)
qed

end
