(* ===== verification/Dpu_Operation.thy ===== *)
theory Dpu_Operation
  imports Workload_Keys
begin

text \<open>
  The internal form of a workload that the validation works on: \<open>KernelInfo\<close> and \<open>DPUOperation\<close> of
  \<^verbatim>\<open>include/vpu/validation/data_dpu_operation.h\<close> and their hash in \<^verbatim>\<open>src/vpu/validation/data_dpu_operation.cpp\<close>, with the
  conversions from and to \<open>DPUWorkload\<close> and the tensors that are really in memory once the halo is taken into account.

  Members of \<open>DPUOperation\<close> carry the prefix \<open>dop\<close>, because many names are those of \<open>DPUWorkload\<close>. A \<open>long long\<close> narrowed to
  \<open>int\<close> is \<open>as_int\<close>.
\<close>

definition as_int :: "int \<Rightarrow> int" where
  "as_int i = signed_take_bit 31 i"

lemma as_int_id [simp]: "- (2 ^ 31) \<le> i \<Longrightarrow> i < 2 ^ 31 \<Longrightarrow> as_int i = i"
  unfolding as_int_def by (rule signed_take_bit_int_eq_self) simp_all

section \<open>Operations\<close>

record KernelInfo =
  ki_height :: int
  ki_width :: int
  pad_bottom :: int
  pad_left :: int
  pad_right :: int
  pad_top :: int
  stride_height :: int
  stride_width :: int

definition default_KernelInfo :: KernelInfo where
  "default_KernelInfo =
     \<lparr>ki_height = 1, ki_width = 1, pad_bottom = 0, pad_left = 0, pad_right = 0, pad_top = 0,
      stride_height = 1, stride_width = 1\<rparr>"

definition KernelInfo_of :: "DPUWorkload \<Rightarrow> KernelInfo" where
  "KernelInfo_of w =
     \<lparr>ki_height = to_int (gridH (kernels w)), ki_width = to_int (gridW (kernels w)),
      pad_bottom = to_int (padBOTTOM (padding w)), pad_left = to_int (padLEFT (padding w)),
      pad_right = to_int (padRIGHT (padding w)), pad_top = to_int (padTOP (padding w)),
      stride_height = to_int (gridH (strides w)), stride_width = to_int (gridW (strides w))\<rparr>"

record DPUOperation =
  dop_device :: VPUDevice
  dop_operation :: Operation
  dop_input_0 :: TensorInfo
  dop_input_1 :: TensorInfo
  dop_output_0 :: TensorInfo
  dop_execution_order :: ExecutionMode
  dop_kernel :: KernelInfo
  dop_activation_function :: ActivationFunction
  dop_output_write_tiles :: int
  dop_isi_strategy :: ISIStrategy
  dop_halo :: HaloWorkload
  dop_input_0_memory_dense :: TensorInfo
  dop_output_0_memory_dense :: TensorInfo
  dop_sep_activators :: SEPModeInfo
  dop_weightless_operation :: bool
  dop_in_place_output_memory :: bool
  dop_superdense :: bool
  dop_input_autopad :: bool
  dop_output_autopad :: bool
  dop_cost_source_hint :: CostSourceHint
  dop_profiling_service_backend_hint :: ProfilingServiceBackend
  dop_mpe_engine :: MPEEngine
  dop_reduce_minmax_op :: bool

definition set_intended_split :: "ISIStrategy \<Rightarrow> u32 \<Rightarrow> DPUOperation \<Rightarrow> DPUOperation" where
  "set_intended_split strategy nTiles d =
     d\<lparr>dop_isi_strategy := strategy, dop_output_write_tiles := to_int nTiles\<rparr>"

section \<open>Memory tensors\<close>

definition newDimension :: "int \<Rightarrow> int \<Rightarrow> int \<Rightarrow> int" where
  "newDimension crtDimension oneEndHalo otherEndHalo =
     (let oneExt = - oneEndHalo;
          twoExt = - otherEndHalo;
          newDim = crtDimension + (oneExt + twoExt)
      in if 0 < newDim then newDim else 0)"

definition compute_dense_input_memory_tensor :: "TensorInfo \<Rightarrow> HaloWorkload \<Rightarrow> TensorInfo" where
  "compute_dense_input_memory_tensor compute_t h =
     (let in_halo = input_0_halo h
      in compute_t\<lparr>ti_height := newDimension (ti_height compute_t) (halo_top in_halo) (halo_bottom in_halo),
                   ti_width := newDimension (ti_width compute_t) (halo_left in_halo) (halo_right in_halo),
                   ti_channels := newDimension (ti_channels compute_t) (halo_front in_halo) (halo_back in_halo)\<rparr>)"

definition limit_forget :: "int \<Rightarrow> int \<Rightarrow> int" where
  "limit_forget crtDimension endHalo =
     (if endHalo < 0 then if crtDimension \<le> - endHalo then - as_int crtDimension else endHalo else endHalo)"

definition newDimensionWithInbound :: "int \<Rightarrow> int \<Rightarrow> int \<Rightarrow> int" where
  "newDimensionWithInbound crtDimension oneEndHalo0 otherEndHalo0 =
     (let oneEndHalo = limit_forget crtDimension oneEndHalo0;
          otherEndHalo = limit_forget crtDimension otherEndHalo0;
          (oneEndHalo, otherEndHalo) =
            (if oneEndHalo < 0 \<and> otherEndHalo < 0 \<and> crtDimension \<le> - oneEndHalo + - otherEndHalo
             then (- as_int crtDimension, 0) else (oneEndHalo, otherEndHalo));
          newDim = crtDimension + oneEndHalo + otherEndHalo
      in if 0 \<le> newDim then newDim else 0)"

definition compute_dense_output_memory_tensor :: "TensorInfo \<Rightarrow> HaloWorkload \<Rightarrow> TensorInfo" where
  "compute_dense_output_memory_tensor compute_t h =
     (let inbound_halo = output_0_inbound_halo h
      in compute_t\<lparr>ti_height := newDimensionWithInbound (ti_height compute_t) (halo_top inbound_halo) (halo_bottom inbound_halo),
                   ti_width := newDimensionWithInbound (ti_width compute_t) (halo_left inbound_halo) (halo_right inbound_halo),
                   ti_channels := newDimensionWithInbound (ti_channels compute_t) (halo_front inbound_halo) (halo_back inbound_halo)\<rparr>)"

definition resyncronize_memory_tensors :: "DPUOperation \<Rightarrow> DPUOperation" where
  "resyncronize_memory_tensors d =
     d\<lparr>dop_input_0_memory_dense := compute_dense_input_memory_tensor (dop_input_0 d) (dop_halo d),
       dop_output_0_memory_dense := compute_dense_output_memory_tensor (dop_output_0 d) (dop_halo d)\<rparr>"

section \<open>From and to a workload\<close>

definition DPUOperation_of :: "DPUWorkload \<Rightarrow> DPUOperation" where
  "DPUOperation_of w =
     (let in0 = (TensorInfo_of (inputs_0 w))\<lparr>ti_swizzling := input_swizzling_0 w, ti_sparsity := act_sparsity w\<rparr>;
          in1 = default_TensorInfo\<lparr>ti_datatype := value_or (weight_type w) (ti_datatype in0),
                  ti_swizzling := input_swizzling_1 w, ti_sparsity_enabled := weight_sparsity_enabled w,
                  ti_sparsity := weight_sparsity w\<rparr>;
          out0 = (TensorInfo_of (outputs_0 w))\<lparr>ti_swizzling := output_swizzling_0 w\<rparr>
      in \<lparr>dop_device = device w, dop_operation = op w, dop_input_0 = in0, dop_input_1 = in1, dop_output_0 = out0,
          dop_execution_order = execution_order w, dop_kernel = KernelInfo_of w,
          dop_activation_function = activation_function w, dop_output_write_tiles = to_int (output_write_tiles w),
          dop_isi_strategy = isi_strategy w, dop_halo = halo w,
          dop_input_0_memory_dense = compute_dense_input_memory_tensor in0 (halo w),
          dop_output_0_memory_dense = compute_dense_output_memory_tensor out0 (halo w),
          dop_sep_activators = sep_activators w, dop_weightless_operation = is_weightless_operation w,
          dop_in_place_output_memory = is_inplace_output_memory w, dop_superdense = is_superdense w,
          dop_input_autopad = is_input_autopad w, dop_output_autopad = is_output_autopad w,
          dop_cost_source_hint = cost_source_hint w,
          dop_profiling_service_backend_hint = profiling_service_backend_hint w, dop_mpe_engine = mpe_engine w,
          dop_reduce_minmax_op = reduce_minmax_op w\<rparr>)"

definition dop_is_preconditions_for_inplace_output :: "DPUOperation \<Rightarrow> bool" where
  "dop_is_preconditions_for_inplace_output d =
     is_preconditions_for_inplace_output (ti_layout (dop_input_0 d)) (ti_datatype (dop_input_0 d))
       (ti_layout (dop_output_0 d)) (ti_datatype (dop_output_0 d))"

definition dop_is_special_No_weights_situation :: "DPUOperation \<Rightarrow> bool" where
  "dop_is_special_No_weights_situation d =
     is_special_no_weights_situation (ti_layout (dop_input_0 d)) (ti_datatype (dop_input_0 d))
       (ti_layout (dop_output_0 d)) (ti_datatype (dop_output_0 d))"

definition dop_is_elementwise_like_operation :: "DPUOperation \<Rightarrow> bool" where
  "dop_is_elementwise_like_operation d = is_elementwise_like_operation (dop_operation d)"

definition clone_as_DPUWorkload :: "DPUOperation \<Rightarrow> DPUWorkload" where
  "clone_as_DPUWorkload d =
     (let k = dop_kernel d;
          wl = new_DPUWorkload (dop_device d) (dop_operation d) (toVPUTensor (dop_input_0 d)) (toVPUTensor (dop_output_0 d))
                 \<lparr>gridW = to_u32 (ki_width k), gridH = to_u32 (ki_height k)\<rparr>
                 \<lparr>gridW = to_u32 (stride_width k), gridH = to_u32 (stride_height k)\<rparr>
                 \<lparr>padTOP = to_u32 (pad_top k), padBOTTOM = to_u32 (pad_bottom k), padLEFT = to_u32 (pad_left k),
                  padRIGHT = to_u32 (pad_right k)\<rparr>
                 (dop_execution_order d);
          wl = wl\<lparr>activation_function := dop_activation_function d\<rparr>;
          wl = wl\<lparr>act_sparsity := ti_sparsity (dop_input_0 d), weight_sparsity := ti_sparsity (dop_input_1 d)\<rparr>;
          wl = wl\<lparr>input_swizzling_0 := ti_swizzling (dop_input_0 d), input_swizzling_1 := ti_swizzling (dop_input_1 d),
                  output_swizzling_0 := ti_swizzling (dop_output_0 d)\<rparr>;
          wl = wl\<lparr>output_write_tiles := to_u32 (dop_output_write_tiles d), isi_strategy := dop_isi_strategy d,
                  weight_sparsity_enabled := ti_sparsity_enabled (dop_input_1 d), halo := dop_halo d,
                  sep_activators := dop_sep_activators d, weight_type := Some (ti_datatype (dop_input_1 d)),
                  weightless_operation := Some (dop_weightless_operation d)\<rparr>;
          wl = set_inplace_output_memory (dop_in_place_output_memory d) wl;
          wl = set_superdense (dop_superdense d) wl
      in wl\<lparr>input_autopad := Some (dop_input_autopad d), output_autopad := Some (dop_output_autopad d),
            cost_source_hint := dop_cost_source_hint d,
            profiling_service_backend_hint := dop_profiling_service_backend_hint d, mpe_engine := dop_mpe_engine d,
            reduce_minmax_op := dop_reduce_minmax_op d\<rparr>)"

section \<open>Hash\<close>

definition hash_tensor_info :: "(real \<Rightarrow> real) \<Rightarrow> u32 \<Rightarrow> TensorInfo \<Rightarrow> u32" where
  "hash_tensor_info fl h t =
     (let h = hash_uint32 h (to_u32 (ti_width t));
          h = hash_uint32 h (to_u32 (ti_height t));
          h = hash_uint32 h (to_u32 (ti_channels t));
          h = hash_uint32 h (to_u32 (ti_batch t));
          h = hash_enum h (pos_dtype (ti_datatype t));
          h = hash_enum h (pos_layout (ti_layout t));
          h = hash_bool h (ti_sparsity_enabled t);
          h = hash_float fl h (ti_sparsity t)
      in hash_enum h (pos_swz (ti_swizzling t)))"

definition DPUOperation_hash :: "(real \<Rightarrow> real) \<Rightarrow> DPUOperation \<Rightarrow> u32" where
  "DPUOperation_hash fl d =
     (let h = fnv_offset_basis;
          h = hash_enum h (pos_device (dop_device d));
          h = hash_enum h (pos_op (dop_operation d));
          h = hash_tensor_info fl h (dop_input_0 d);
          h = hash_tensor_info fl h (dop_input_1 d);
          h = hash_tensor_info fl h (dop_output_0 d);
          h = hash_enum h (pos_exec (dop_execution_order d));
          h = hash_enum h (pos_act (dop_activation_function d));
          k = dop_kernel d;
          h = hash_uint32 h (to_u32 (ki_width k));
          h = hash_uint32 h (to_u32 (ki_height k));
          h = hash_uint32 h (to_u32 (pad_top k));
          h = hash_uint32 h (to_u32 (pad_bottom k));
          h = hash_uint32 h (to_u32 (pad_left k));
          h = hash_uint32 h (to_u32 (pad_right k));
          h = hash_uint32 h (to_u32 (stride_width k));
          h = hash_uint32 h (to_u32 (stride_height k));
          h = hash_uint32 h (to_u32 (dop_output_write_tiles d));
          h = hash_enum h (pos_isi (dop_isi_strategy d));
          h = hash_halo h (dop_halo d);
          h = hash_sep h (dop_sep_activators d);
          h = hash_bool h (dop_weightless_operation d);
          h = hash_bool h (dop_in_place_output_memory d);
          h = hash_bool h (dop_superdense d);
          h = hash_bool h (dop_input_autopad d);
          h = hash_bool h (dop_output_autopad d);
          h = hash_enum h (pos_mpe (dop_mpe_engine d))
      in hash_bool h (dop_reduce_minmax_op d))"

section \<open>Laws\<close>

lemma to_u32_to_int [simp]: "to_u32 (to_int u) = u"
  by simp

text \<open>
  The internal form loses nothing the validation looks at: turning a workload into an operation, the operation into a
  workload, and that one into an operation again gives the same operation, so an operation that is passed on as a workload is
  validated and priced as the original.
\<close>

theorem clone_round_trip:
  "DPUOperation_of (clone_as_DPUWorkload (DPUOperation_of w)) = DPUOperation_of w"
proof -
  have t: "TensorInfo_of (toVPUTensor ((TensorInfo_of t)\<lparr>ti_swizzling := s, ti_sparsity := x\<rparr>)) = TensorInfo_of t"
    "TensorInfo_of (toVPUTensor ((TensorInfo_of t)\<lparr>ti_swizzling := s\<rparr>)) = TensorInfo_of t" for t s x
    by (simp_all add: toVPUTensor_def TensorInfo_of_def default_TensorInfo_def height_def width_def tx_def ty_def tz_def
        tb_def mk_shape_def)
  show ?thesis
    by (simp add: DPUOperation_of_def clone_as_DPUWorkload_def t Let_def new_DPUWorkload_def set_inplace_output_memory_def
        set_superdense_def KernelInfo_of_def is_superdense_def is_input_autopad_def is_output_autopad_def
        is_weightless_operation_def is_inplace_output_memory_def value_or_def)
qed

end
