(* ===== verification/Float_Single.thy ===== *)
theory Float_Single
  imports Npu_Prelude
begin

text \<open>
  The single precision arithmetic and the decimal texts of \<open>float\<close> values the validation uses. A \<open>float\<close> is a real number;
  an operation on floats is the operation on reals followed by \<open>to_float32\<close>, which rounds to 24 significant bits, ties to even
  (the quantum is never finer than that of the subnormal numbers). Values beyond the largest float, infinities and NaN are
  not modelled. \<open>show_float\<close> is \<^verbatim>\<open>operator<<\<close> of a stream with its default format (six significant digits),
  \<open>to_string_float\<close> is \<^verbatim>\<open>std::to_string\<close> (six decimals).
\<close>

section \<open>Rounding\<close>

definition round_half_even :: "real \<Rightarrow> int" where
  "round_half_even x =
     (let f = \<lfloor>x\<rfloor>; r = x - of_int f in
      if r < 1 / 2 then f else if 1 / 2 < r then f + 1 else if even f then f else f + 1)"

definition to_float32 :: "real \<Rightarrow> real" where
  "to_float32 x =
     (if x = 0 then 0
      else let quantum = 2 powi (max \<lfloor>log 2 \<bar>x\<bar>\<rfloor> (- 126) - 23)
           in of_int (round_half_even (x / quantum)) * quantum)"

definition round_cpp :: "real \<Rightarrow> int" where
  "round_cpp x = (if 0 \<le> x then \<lfloor>x + 1 / 2\<rfloor> else - \<lfloor>- x + 1 / 2\<rfloor>)"

section \<open>Decimal texts\<close>

definition strip_zeros :: "string \<Rightarrow> string" where
  "strip_zeros s = rev (dropWhile (\<lambda>c. c = CHR ''0'') (rev s))"

definition with_fraction :: "string \<Rightarrow> string \<Rightarrow> string" where
  "with_fraction whole decimals = (if strip_zeros decimals = '''' then whole else whole @ ''.'' @ strip_zeros decimals)"

definition show_exponent :: "int \<Rightarrow> string" where
  "show_exponent e =
     ''e'' @ (if e < 0 then ''-'' else ''+'') @ (if \<bar>e\<bar> < 10 then ''0'' else '''') @ to_string \<bar>e\<bar>"

text \<open>\<open>show_digits m e\<close> prints the number with the six digits of \<open>m\<close> and the decimal exponent \<open>e\<close> of the first one.\<close>

definition show_digits :: "int \<Rightarrow> int \<Rightarrow> string" where
  "show_digits m e =
     (let digits = to_string m in
      if - 4 \<le> e \<and> e < 0 then with_fraction ''0'' (replicate (nat (- e - 1)) (CHR ''0'') @ digits)
      else if 0 \<le> e \<and> e < 6 then with_fraction (take (nat e + 1) digits) (drop (nat e + 1) digits)
      else with_fraction (take 1 digits) (drop 1 digits) @ show_exponent e)"

definition show_float :: "real \<Rightarrow> string" where
  "show_float x =
     (if x = 0 then ''0''
      else let e = \<lfloor>log 10 \<bar>x\<bar>\<rfloor>;
               m = round_half_even (\<bar>x\<bar> * 10 powi (5 - e))
           in (if x < 0 then ''-'' else '''') @
              (if m = 1000000 then show_digits 100000 (e + 1) else show_digits m e))"

definition to_string_float :: "real \<Rightarrow> string" where
  "to_string_float x =
     (let m = round_half_even (\<bar>x\<bar> * 1000000);
          decimals = to_string (m mod 1000000)
      in (if x < 0 then ''-'' else '''') @ to_string (m div 1000000) @ ''.'' @
         replicate (6 - length decimals) (CHR ''0'') @ decimals)"

section \<open>Rounding whole numbers\<close>

lemma round_half_even_int [simp]: "round_half_even (of_int i) = i"
  by (simp add: round_half_even_def)

lemma to_float32_0 [simp]: "to_float32 0 = 0"
  by (simp add: to_float32_def)

lemma round_half_even_nonneg: "0 \<le> x \<Longrightarrow> 0 \<le> round_half_even x"
  by (simp add: round_half_even_def Let_def)

lemma to_float32_nonneg: "0 \<le> x \<Longrightarrow> 0 \<le> to_float32 x"
  by (simp add: to_float32_def Let_def round_half_even_nonneg)

text \<open>A whole number of at most 24 bits is a float.\<close>

lemma to_float32_of_int:
  assumes "\<bar>i\<bar> < 16777216"
  shows "to_float32 (of_int i) = of_int i"
proof (cases "i = 0")
  case False
  define l where "l = \<lfloor>log 2 \<bar>of_int i :: real\<bar>\<rfloor>"
  have i1: "1 \<le> \<bar>of_int i :: real\<bar>" using False by linarith
  have "log 2 \<bar>of_int i :: real\<bar> < 24"
    using assms i1 by (subst log_less_iff) (simp_all flip: of_int_abs)
  moreover have "0 \<le> log 2 \<bar>of_int i :: real\<bar>" using i1 by simp
  ultimately have l: "0 \<le> l" "l \<le> 23" unfolding l_def by linarith+
  define d where "d = nat (23 - l)"
  have q: "(2 :: real) powi (max l (- 126) - 23) = 1 / 2 ^ d"
    using l by (simp add: d_def power_int_def field_simps max_def)
  have "of_int i / (1 / 2 ^ d) = (of_int (i * 2 ^ d) :: real)" by simp
  then have "round_half_even (of_int i / (1 / 2 ^ d)) = i * 2 ^ d"
    by (metis round_half_even_int)
  then show ?thesis
    using False by (simp add: to_float32_def Let_def q flip: l_def)
qed simp

text \<open>Rounding never passes a whole number that is a float.\<close>

lemma round_half_even_le_int: "x \<le> of_int i \<Longrightarrow> round_half_even x \<le> i"
proof -
  assume x: "x \<le> of_int i"
  have f: "\<lfloor>x\<rfloor> \<le> i" using x by (simp add: floor_le_iff)
  show ?thesis
  proof (cases "\<lfloor>x\<rfloor> = i")
    case True
    then have "x = of_int i" using x by linarith
    then show ?thesis by simp
  next
    case False
    then show ?thesis using f by (simp add: round_half_even_def Let_def)
  qed
qed

lemma to_float32_le_int:
  assumes "0 \<le> x" "x \<le> of_int i" "i < 16777216"
  shows "to_float32 x \<le> of_int i"
proof (cases "x = 0")
  case True
  then show ?thesis using assms(2) by simp
next
  case False
  define l where "l = max \<lfloor>log 2 \<bar>x\<bar>\<rfloor> (- 126) - 23"
  have "x < 16777216" using assms(2,3) by linarith
  then have "log 2 \<bar>x\<bar> < 24" using assms(1) False by (subst log_less_iff) simp_all
  then have l: "l \<le> 0" unfolding l_def by linarith
  define d where "d = nat (- l)"
  have q: "(2 :: real) powi l = 1 / 2 ^ d" using l by (simp add: d_def power_int_def field_simps)
  have "x / (1 / 2 ^ d) \<le> of_int (i * 2 ^ d)" using assms(2) by simp
  then have "round_half_even (x / (1 / 2 ^ d)) \<le> i * 2 ^ d" by (rule round_half_even_le_int)
  then have "real_of_int (round_half_even (x / (1 / 2 ^ d))) \<le> of_int (i * 2 ^ d)" by (rule of_int_le_iff [THEN iffD2])
  then have "of_int (round_half_even (x / (1 / 2 ^ d))) * (1 / 2 ^ d) \<le> real_of_int i" by (simp add: field_simps)
  then show ?thesis using False by (simp add: to_float32_def Let_def q flip: l_def)
qed

text \<open>The relative error of rounding is at most half a unit in the last place.\<close>

lemma round_half_even_near: "\<bar>of_int (round_half_even x) - x\<bar> \<le> 1 / 2"
  by (simp add: round_half_even_def Let_def abs_le_iff)

lemma quantum_bound:
  assumes "x \<noteq> 0"
  shows "(2 :: real) powi (max \<lfloor>log 2 \<bar>x\<bar>\<rfloor> (- 126) - 23) \<le> (\<bar>x\<bar> + 1) / 2 ^ 23"
proof -
  define l where "l = max \<lfloor>log 2 \<bar>x\<bar>\<rfloor> (- 126)"
  have "(2 :: real) powi l \<le> \<bar>x\<bar> + 1"
  proof (cases "0 \<le> l")
    case True
    then have "real_of_int l \<le> log 2 \<bar>x\<bar>" by (simp add: l_def le_max_iff_disj)
    then have "(2 :: real) powr of_int l \<le> \<bar>x\<bar>" using assms by (simp add: le_log_iff)
    then show ?thesis using True by (simp add: powr_real_of_int' power_int_def powr_realpow)
  next
    case False
    then have "(2 :: real) powi l \<le> 1" by (simp add: power_int_def field_simps power_le_one_iff)
    then show ?thesis by simp
  qed
  then show ?thesis by (simp add: power_int_diff field_simps flip: l_def)
qed

lemma to_float32_error: "\<bar>to_float32 x - x\<bar> \<le> (\<bar>x\<bar> + 1) / 2 ^ 24"
proof (cases "x = 0")
  case False
  define q where "q = (2 :: real) powi (max \<lfloor>log 2 \<bar>x\<bar>\<rfloor> (- 126) - 23)"
  have q: "0 < q" "q \<le> (\<bar>x\<bar> + 1) / 2 ^ 23" using quantum_bound [OF False] by (simp_all add: q_def)
  have "\<bar>to_float32 x - x\<bar> = \<bar>of_int (round_half_even (x / q)) - x / q\<bar> * q"
    using q(1) False by (simp add: to_float32_def Let_def left_diff_distrib abs_mult flip: q_def)
      (metis abs_mult_pos less_eq_real_def left_diff_distrib nonzero_eq_divide_eq less_irrefl)
  also have "\<dots> \<le> 1 / 2 * q" using q(1) round_half_even_near by (intro mult_right_mono) auto
  finally show ?thesis using q(2) by simp
qed simp

end
