(* ===== verification/Checker.thy ===== *)
theory Checker
  imports Smart_Ranges Float_Single Cycles
begin

text \<open>
  \<^verbatim>\<open>include/vpu/validation/checker_utils.h\<close>: the checker that accumulates what a validation finds wrong, and
  \<^verbatim>\<open>sanity_report.h\<close>: the report the validation returns. The static flag \<open>print_tags\<close>, which the cost models switch off around
  some checks, is a field of the checker, set when the checker is made.

  A validation runs many checks on one checker inside one \<open>try\<close>: \<open>run_checks\<close> runs a list of steps on a checker up to the
  first exception and keeps the checker as it is then. The lemmas of the last section reduce a run that finds nothing to
  the conditions of its steps; the validators are characterised with them.
\<close>

section \<open>Checker\<close>

record Checker =
  print_tags :: bool
  clean_status :: bool
  acc_findings :: string

definition new_Checker :: "bool \<Rightarrow> Checker" where
  "new_Checker tags = \<lparr>print_tags = tags, clean_status = True, acc_findings = ''''\<rparr>"

definition set_print_tags :: "bool \<Rightarrow> Checker \<Rightarrow> bool \<times> Checker" where
  "set_print_tags new_mode c = (let old_mode = print_tags c in (old_mode, c\<lparr>print_tags := new_mode\<rparr>))"

definition checker_reset :: "Checker \<Rightarrow> bool \<times> Checker" where
  "checker_reset c = (let prev_state = clean_status c in (prev_state, c\<lparr>clean_status := True, acc_findings := ''''\<rparr>))"

definition is_clean :: "Checker \<Rightarrow> bool" where
  "is_clean c = clean_status c"

definition findings :: "Checker \<Rightarrow> string" where
  "findings c = acc_findings c"

fun contains_text :: "string \<Rightarrow> string \<Rightarrow> bool" where
  "contains_text part [] = (part = [])"
| "contains_text part (c # s) = (take (length part) (c # s) = part \<or> contains_text part s)"

definition add_check_failed :: "string \<Rightarrow> Checker \<Rightarrow> Checker" where
  "add_check_failed info c =
     (let c = c\<lparr>clean_status := False\<rparr>;
          c = (if acc_findings c \<noteq> '''' then c\<lparr>acc_findings := acc_findings c @ ''; ''\<rparr> else c)
      in if print_tags c \<and> \<not> contains_text ''[CHECK FAILED]'' info
         then c\<lparr>acc_findings := acc_findings c @ ''[CHECK FAILED]: '' @ info @ '' [END CHECK]''\<rparr>
         else c\<lparr>acc_findings := acc_findings c @ info\<rparr>)"

definition show_enum :: "'e list \<Rightarrow> EnumMap \<Rightarrow> 'e \<Rightarrow> string" where
  "show_enum vals to_text item =
     to_string (enum_position vals item) @
     (case enum_text_of vals to_text item of Some t \<Rightarrow> '' {'' @ t @ ''}'' | None \<Rightarrow> '''')"

definition show_bool :: "bool \<Rightarrow> string" where
  "show_bool item = (if item then ''1'' else ''0'')"

definition show_compact :: "('a \<Rightarrow> string) \<Rightarrow> 'a list \<Rightarrow> string" where
  "show_compact show_value container =
     ''[ '' @
     (if 5 < length container
      then show_value (container ! 0) @ '' , '' @ show_value (container ! 1) @ '' , '' @ '' ... , '' @
           show_value (last container)
      else concat (map (\<lambda>elem. show_value elem @ '' , '') container)) @ '']''"

definition check_is_in_list :: "('a \<Rightarrow> string) \<Rightarrow> 'a \<Rightarrow> 'a list \<Rightarrow> string \<Rightarrow> Checker \<Rightarrow> bool \<times> Checker" where
  "check_is_in_list show_value item container what c =
     (let found = List.member container item in
      (found,
       if \<not> found then add_check_failed (what @ '' with value: '' @ show_value item @
                         '' is not found in allowed list: '' @ show_compact show_value container) c
       else c))"

definition check_is_in_interval :: "int \<Rightarrow> int \<times> int \<Rightarrow> string \<Rightarrow> Checker \<Rightarrow> bool \<times> Checker" where
  "check_is_in_interval item interval what c =
     (let belongs = (fst interval \<le> item \<and> item \<le> snd interval) in
      (belongs,
       if \<not> belongs then add_check_failed (what @ '' with value: '' @ to_string item @ '' is not found in interval: ['' @
                           to_string (fst interval) @ '', '' @ to_string (snd interval) @ '']'') c
       else c))"

definition check_is_in_requirements :: "int \<Rightarrow> MultiSmartRanges \<Rightarrow> string \<Rightarrow> Checker \<Rightarrow> bool \<times> Checker" where
  "check_is_in_requirements item ranges what c =
     (let (ok, message) = multi_is_in_text ranges item '''' [] in
      (ok, if \<not> ok then add_check_failed (what @ '' is not ok because: '' @ message) c else c))"

definition check_is_equal :: "('a \<Rightarrow> string) \<Rightarrow> 'a \<Rightarrow> 'a \<Rightarrow> string \<Rightarrow> Checker \<Rightarrow> bool \<times> Checker" where
  "check_is_equal show_value item right_side what c =
     (let equal = (item = right_side) in
      (equal,
       if \<not> equal then add_check_failed (what @ '' with value: '' @ show_value item @ '' is not equal to : '' @
                         show_value right_side) c
       else c))"

section \<open>Sanity report\<close>

record SanityReport =
  abnormal_return :: CyclesInterfaceType
  info :: string

definition new_SanityReport :: SanityReport where
  "new_SanityReport = \<lparr>abnormal_return = NO_ERROR, info = ''''\<rparr>"

definition is_usable :: "SanityReport \<Rightarrow> bool" where
  "is_usable r \<longleftrightarrow> abnormal_return r = NO_ERROR"

definition has_error :: "SanityReport \<Rightarrow> bool" where
  "has_error r \<longleftrightarrow> \<not> is_usable r"

definition resetOK :: "SanityReport \<Rightarrow> SanityReport" where
  "resetOK r = r\<lparr>abnormal_return := NO_ERROR, info := ''''\<rparr>"

definition report_value :: "SanityReport \<Rightarrow> CyclesInterfaceType" where
  "report_value r = abnormal_return r"

definition mark_size_too_big :: "SanityReport \<Rightarrow> SanityReport" where
  "mark_size_too_big r = r\<lparr>abnormal_return := ERROR_INPUT_TOO_BIG\<rparr>"

definition mark_unknown_device :: "SanityReport \<Rightarrow> SanityReport" where
  "mark_unknown_device r = r\<lparr>abnormal_return := ERROR_INVALID_INPUT_DEVICE\<rparr>"

definition mark_unknown_operation :: "SanityReport \<Rightarrow> SanityReport" where
  "mark_unknown_operation r = r\<lparr>abnormal_return := ERROR_INVALID_INPUT_OPERATION\<rparr>"

definition mark_invalid_NN_response :: "SanityReport \<Rightarrow> SanityReport" where
  "mark_invalid_NN_response r = r\<lparr>abnormal_return := ERROR_INVALID_OUTPUT_RANGE\<rparr>"

definition mark_invalid_DPU_workload :: "SanityReport \<Rightarrow> SanityReport" where
  "mark_invalid_DPU_workload r = r\<lparr>abnormal_return := ERROR_INVALID_INPUT_CONFIGURATION\<rparr>"

definition mark_invalid_SHAVE_workload :: "SanityReport \<Rightarrow> SanityReport" where
  "mark_invalid_SHAVE_workload r = r\<lparr>abnormal_return := ERROR_SHAVE_INVALID_INPUT\<rparr>"

definition mark_invalid_LayerConfiguration :: "SanityReport \<Rightarrow> SanityReport" where
  "mark_invalid_LayerConfiguration r = r\<lparr>abnormal_return := ERROR_INVALID_LAYER_CONFIGURATION\<rparr>"

definition mark_split_error :: "SanityReport \<Rightarrow> SanityReport" where
  "mark_split_error r = r\<lparr>abnormal_return := ERROR_TILE_OUTPUT\<rparr>"

section \<open>Runs of checks\<close>

type_synonym check_step = "Checker \<Rightarrow> Checker \<times> cpp_exception option"

definition check :: "(Checker \<Rightarrow> bool \<times> Checker) \<Rightarrow> check_step" where
  "check f c = (snd (f c), None)"

definition fail_if :: "bool \<Rightarrow> string \<Rightarrow> check_step" where
  "fail_if bad message c = (if bad then add_check_failed message c else c, None)"

definition with_value :: "'a result \<Rightarrow> ('a \<Rightarrow> check_step) \<Rightarrow> check_step" where
  "with_value r f c = (case r of Inl e \<Rightarrow> (c, Some e) | Inr x \<Rightarrow> f x c)"

fun run_checks :: "check_step list \<Rightarrow> check_step" where
  "run_checks [] c = (c, None)"
| "run_checks (s # ss) c = (case s c of (c', None) \<Rightarrow> run_checks ss c' | (c', Some e) \<Rightarrow> (c', Some e))"

fun exception_what :: "cpp_exception \<Rightarrow> string" where
  "exception_what (runtime_error t) = t"
| "exception_what (out_of_range t) = t"
| "exception_what (invalid_argument t) = t"
| "exception_what (logic_error t) = t"
| "exception_what (undefined_behaviour t) = t"

definition try_checks :: "check_step list \<Rightarrow> Checker \<Rightarrow> Checker" where
  "try_checks ss c =
     (case run_checks ss c of (c', None) \<Rightarrow> c' | (c', Some e) \<Rightarrow> add_check_failed (exception_what e) c')"

section \<open>Runs that find nothing\<close>

text \<open>
  A step is \<open>honest\<close> when it never cleans a checker, and on any checker either leaves it alone or marks it or throws, always
  the same of the two. \<open>step_ok\<close> says which of the two.
\<close>

definition step_ok :: "check_step \<Rightarrow> bool" where
  "step_ok s \<longleftrightarrow> (\<forall>c. s c = (c, None))"

definition honest :: "check_step \<Rightarrow> bool" where
  "honest s \<longleftrightarrow>
     (\<forall>c. \<not> is_clean c \<longrightarrow> \<not> is_clean (fst (s c))) \<and>
     (step_ok s \<or> (\<forall>c. \<not> is_clean (fst (s c)) \<or> snd (s c) \<noteq> None))"

lemma add_check_failed_not_clean [simp]: "\<not> is_clean (add_check_failed i c)"
  by (simp add: add_check_failed_def is_clean_def Let_def)

lemma new_Checker_clean [simp]: "is_clean (new_Checker tags)" "findings (new_Checker tags) = ''''"
  by (simp_all add: new_Checker_def is_clean_def findings_def)

named_theorems honest_steps \<open>steps that never clean a checker and always decide alike\<close>
named_theorems step_ok_iff \<open>when a step finds nothing\<close>

lemma honest_dirty: "honest s \<Longrightarrow> s c = (c', e) \<Longrightarrow> \<not> is_clean c \<Longrightarrow> \<not> is_clean c'"
  unfolding honest_def by (metis fst_conv)

lemma honest_ok: "honest s \<Longrightarrow> s c = (c', None) \<Longrightarrow> is_clean c' \<Longrightarrow> step_ok s"
  unfolding honest_def by (metis fst_conv snd_conv)

lemma step_honest:
  assumes "\<And>c. P \<Longrightarrow> s c = (c, None)" "\<And>c. \<not> P \<Longrightarrow> \<not> is_clean (fst (s c))"
  shows "honest s" "step_ok s \<longleftrightarrow> P"
proof -
  show "step_ok s \<longleftrightarrow> P"
    using assms new_Checker_clean(1) [of True] unfolding step_ok_def by (metis fst_conv)
  then show "honest s"
    using assms unfolding honest_def by (metis fst_conv)
qed

lemma in_list_step [honest_steps, simp]: "honest (check (check_is_in_list sh x xs t))"
  and in_list_ok [step_ok_iff]: "step_ok (check (check_is_in_list sh x xs t)) \<longleftrightarrow> x \<in> set xs"
  by (rule step_honest [where P = "x \<in> set xs"]; simp add: check_def check_is_in_list_def Let_def)+

lemma in_interval_step [honest_steps, simp]: "honest (check (check_is_in_interval x i t))"
  and in_interval_ok [step_ok_iff]: "step_ok (check (check_is_in_interval x i t)) \<longleftrightarrow> fst i \<le> x \<and> x \<le> snd i"
  by (rule step_honest [where P = "fst i \<le> x \<and> x \<le> snd i"]; simp add: check_def check_is_in_interval_def Let_def)+

lemma in_requirements_step [honest_steps, simp]: "honest (check (check_is_in_requirements x r t))"
  and in_requirements_ok [step_ok_iff]:
    "step_ok (check (check_is_in_requirements x r t)) \<longleftrightarrow> multi_is_in r x []"
  by (rule step_honest [where P = "multi_is_in r x []"];
      simp add: check_def check_is_in_requirements_def multi_is_in_def split_beta)+

lemma equal_step [honest_steps, simp]: "honest (check (check_is_equal sh x y t))"
  and equal_ok [step_ok_iff]: "step_ok (check (check_is_equal sh x y t)) \<longleftrightarrow> x = y"
  by (rule step_honest [where P = "x = y"]; simp add: check_def check_is_equal_def Let_def)+

lemma fail_if_step [honest_steps, simp]: "honest (fail_if b t)"
  and fail_if_ok [step_ok_iff]: "step_ok (fail_if b t) \<longleftrightarrow> \<not> b"
  by (rule step_honest [where P = "\<not> b"]; simp add: fail_if_def)+

lemma with_value_step [honest_steps]: "(\<And>x. r = Inr x \<Longrightarrow> honest (f x)) \<Longrightarrow> honest (with_value r f)"
  by (cases r) (auto simp: honest_def with_value_def step_ok_def)

lemma with_value_Inr [simp]: "with_value (Inr x) f = f x"
  by (rule ext) (simp add: with_value_def)

lemma with_value_ok:
  "step_ok (with_value r f) \<longleftrightarrow> (case r of Inl e \<Rightarrow> False | Inr x \<Rightarrow> step_ok (f x))"
  by (cases r) (auto simp: with_value_def step_ok_def)

lemma run_checks_stays_dirty:
  "list_all honest ss \<Longrightarrow> \<not> is_clean c \<Longrightarrow> \<not> is_clean (fst (run_checks ss c))"
proof (induction ss arbitrary: c)
  case (Cons s ss)
  obtain c' e where s: "s c = (c', e)" by fastforce
  then have "\<not> is_clean c'" using Cons.prems honest_dirty by auto
  then show ?case using Cons s by (cases e) auto
qed simp

lemma run_checks_ok: "list_all step_ok ss \<Longrightarrow> run_checks ss c = (c, None)"
  by (induction ss) (auto simp: step_ok_def)

lemma run_checks_clean:
  "list_all honest ss \<Longrightarrow> is_clean (fst (run_checks ss c)) \<Longrightarrow> snd (run_checks ss c) = None \<Longrightarrow> list_all step_ok ss"
proof (induction ss arbitrary: c)
  case (Cons s ss)
  obtain c' e where s: "s c = (c', e)" by fastforce
  have n: "e = None" using Cons.prems s by (cases e) auto
  then have "is_clean c'" using Cons.prems s run_checks_stays_dirty [of ss c'] by auto
  then have "step_ok s" using Cons.prems(1) s n honest_ok by auto
  then show ?case using Cons s n by auto
qed simp

lemma run_checks_ok_iff [step_ok_iff]:
  assumes "list_all honest ss"
  shows "step_ok (run_checks ss) \<longleftrightarrow> list_all step_ok ss"
proof
  assume "step_ok (run_checks ss)"
  then have "run_checks ss (new_Checker True) = (new_Checker True, None)" unfolding step_ok_def by blast
  then show "list_all step_ok ss" using run_checks_clean [OF assms, of "new_Checker True"] by simp
qed (simp add: step_ok_def run_checks_ok)

lemma run_checks_step [honest_steps, simp]:
  assumes "list_all honest ss"
  shows "honest (run_checks ss)"
proof (cases "list_all step_ok ss")
  case True
  then show ?thesis using run_checks_stays_dirty [OF assms] run_checks_ok_iff [OF assms] unfolding honest_def by blast
next
  case False
  then show ?thesis using run_checks_stays_dirty [OF assms] run_checks_clean [OF assms] unfolding honest_def by blast
qed

text \<open>A \<open>try\<close> whose checks are honest leaves the checker clean exactly when every check passes, and then has no findings.\<close>

lemma try_checks_ok: "list_all step_ok ss \<Longrightarrow> try_checks ss c = c"
  by (simp add: try_checks_def run_checks_ok)

lemma try_checks_clean:
  assumes "list_all honest ss"
  shows "is_clean (try_checks ss (new_Checker tags)) \<longleftrightarrow> list_all step_ok ss"
proof
  assume "is_clean (try_checks ss (new_Checker tags))"
  then show "list_all step_ok ss"
    using run_checks_clean [OF assms, of "new_Checker tags"]
    by (auto simp: try_checks_def split: prod.splits option.splits)
qed (simp add: try_checks_ok)

text \<open>Steps that cannot throw.\<close>

definition total_step :: "check_step \<Rightarrow> bool" where
  "total_step s \<longleftrightarrow> (\<forall>c. snd (s c) = None)"

lemma total_steps [simp]: "total_step (check f)" "total_step (fail_if b t)"
  by (simp_all add: total_step_def check_def fail_if_def)

lemma total_run [simp]: "list_all total_step ss \<Longrightarrow> total_step (run_checks ss)"
  unfolding total_step_def
proof (intro allI)
  fix c
  assume "list_all (\<lambda>s. \<forall>c. snd (s c) = None) ss"
  then show "snd (run_checks ss c) = None"
    by (induction ss arbitrary: c) (auto split: prod.split option.split, metis option.distinct(1) snd_conv)
qed

declare run_checks.simps [simp del]

end
