(* ===== verification/Valid_Values.thy ===== *)
theory Valid_Values
  imports Dpu_Operation Checker
begin

text \<open>
  What a device allows: \<open>IDeviceValidValues\<close> of \<^verbatim>\<open>include/vpu/validation/interface_valid_values.h\<close> and the containers of
  operation specific behaviours of \<^verbatim>\<open>interface_operations_behavior.h\<close>, \<^verbatim>\<open>behaviors_and_devices_containers.h\<close> and
  \<^verbatim>\<open>layer_operations_valid_behaviours.h\<close>.

  A class that implements \<open>IOperationDynamicConstraints\<close> is a value of \<open>Constraints\<close>: the class for workloads or the one derived
  from it for layers; the tuple of a \<open>Behaviours\<close> container is the list of its classes. An \<open>IDeviceValidValues\<close> is the record of its
  data members; \<open>generation\<close> and \<open>vv_level\<close> name the derived class, and a virtual function that a derived class overrides
  is a case distinction on them. The data of the derived classes is in \<open>Device_Rules\<close>.

  An \<open>std::unordered_map\<close> is an association list. Its \<open>at\<close> throws for a missing key.
\<close>

section \<open>Behaviours of the operations\<close>

datatype OpClass =
    CONVOLUTION_Constraints | DW_CONVOLUTION_Constraints | CM_CONVOLUTION_Constraints | ELTWISE_Constraints |
    MAXPOOL_Constraints | LAYERNORM_Constraints | ELTWISE_MUL_Constraints | AVGPOOL_Constraints | REDUCE_Constraints

datatype Constraints = Workload_Class (op_class: OpClass) | Layer_Class (op_class: OpClass)

definition OperationsBehaviour :: "Constraints list" where
  "OperationsBehaviour =
     [Workload_Class CONVOLUTION_Constraints, Workload_Class DW_CONVOLUTION_Constraints,
      Workload_Class CM_CONVOLUTION_Constraints, Workload_Class ELTWISE_Constraints, Workload_Class MAXPOOL_Constraints,
      Workload_Class LAYERNORM_Constraints, Workload_Class ELTWISE_MUL_Constraints, Workload_Class AVGPOOL_Constraints,
      Workload_Class REDUCE_Constraints, Workload_Class REDUCE_Constraints]"

definition LayerOperationsBehaviour :: "Constraints list" where
  "LayerOperationsBehaviour =
     [Layer_Class CONVOLUTION_Constraints, Layer_Class DW_CONVOLUTION_Constraints, Layer_Class CM_CONVOLUTION_Constraints,
      Layer_Class ELTWISE_Constraints, Layer_Class MAXPOOL_Constraints, Layer_Class LAYERNORM_Constraints,
      Layer_Class ELTWISE_MUL_Constraints, Layer_Class AVGPOOL_Constraints, Layer_Class REDUCE_Constraints,
      Layer_Class REDUCE_Constraints]"

definition no_behavior_text :: "Operation \<Rightarrow> string" where
  "no_behavior_text opn =
     ''[ERROR]OperationBehaviours::get_operation_specific_(), '' @ [CHR 0x0A] @ '' Operation not supported: '' @
     to_string (enum_position Operation_enum opn) @ '' : [ '' @
     (case enum_text_of Operation_enum Operation_ToText opn of None \<Rightarrow> ''UNKNOWN OPERATION VALUE'' | Some t \<Rightarrow> t) @
     '' ]  No behavior available! '' @ [CHR 0x0A] @
     '' File: vpu/validation/behaviors_and_devices_containers.h Line: 111''"

fun get_operation_specific :: "Constraints list \<Rightarrow> Operation \<Rightarrow> Constraints result" where
  "get_operation_specific op_list Operation.CONVOLUTION = Inr (op_list ! 0)"
| "get_operation_specific op_list Operation.DW_CONVOLUTION = Inr (op_list ! 1)"
| "get_operation_specific op_list Operation.CM_CONVOLUTION = Inr (op_list ! 2)"
| "get_operation_specific op_list Operation.ELTWISE = Inr (op_list ! 3)"
| "get_operation_specific op_list Operation.MAXPOOL = Inr (op_list ! 4)"
| "get_operation_specific op_list Operation.LAYER_NORM = Inr (op_list ! 5)"
| "get_operation_specific op_list Operation.ELTWISE_MUL = Inr (op_list ! 6)"
| "get_operation_specific op_list Operation.AVEPOOL = Inr (op_list ! 7)"
| "get_operation_specific op_list Operation.REDUCE_MS = Inr (op_list ! 8)"
| "get_operation_specific op_list Operation.REDUCE_SUMSQUARES = Inr (op_list ! 9)"
| "get_operation_specific op_list Operation.enum_size = Inl (runtime_error (no_behavior_text Operation.enum_size))"

text \<open>Functions of the classes that do not look at the device: the filters, and the kernel normalisation no class overrides.\<close>

definition filter_ISI_Strategy_Options :: "Constraints \<Rightarrow> ISIStrategy list \<Rightarrow> ISIStrategy list" where
  "filter_ISI_Strategy_Options b strategies = strategies"

definition filter_output_write_tile_Options :: "Constraints \<Rightarrow> int list \<Rightarrow> int list" where
  "filter_output_write_tile_Options b variants =
     (if op_class b \<in> {ELTWISE_Constraints, ELTWISE_MUL_Constraints} then filter (\<lambda>x. x = 1) variants else variants)"

definition normalize_kernel_dimension :: "Constraints \<Rightarrow> ISIStrategy \<Rightarrow> KernelInfo \<Rightarrow> bool" where
  "normalize_kernel_dimension b strategy k = False"

section \<open>Results\<close>

definition map_at :: "('k \<times> 'v) list \<Rightarrow> 'k \<Rightarrow> 'v result" where
  "map_at m k = (case map_of m k of None \<Rightarrow> Inl (out_of_range ''unordered_map::at'') | Some v \<Rightarrow> Inr v)"

section \<open>Valid values of a device\<close>

datatype Generation = VPU2_0 | VPU2_7 | VPU4_0 | VPU5_0

datatype Level = WorkloadValidValues | LayerValidValues | LayerOnTileValidValues

record IDeviceValidValues =
  operations_dynamic_behavior :: "Constraints list"
  generation :: Generation
  vv_level :: Level
  valid_execution_order_map :: "(Operation \<times> ExecutionMode list) list"
  valid_swizzlings :: "Swizzling list"
  valid_layouts :: "Layout list"
  devices :: "VPUDevice list"
  cmx_KB_sizes :: "(VPUDevice \<times> int) list"
  output_write_tile_options :: "int list"
  isi_stategy_options :: "ISIStrategy list"
  weigths_alignment_B :: int
  input_heigth_width_start_factor_SOHW :: int
  input_datatypes :: "(Operation \<times> DataType list) list"
  output_datatypes :: "(Operation \<times> DataType list) list"
  weights_datatypes :: "(Operation \<times> DataType list) list"
  valid_operations :: "Operation list"
  alignement_size_bytes :: int
  out_innermost_dim_alignment_B :: int
  legacy_samples_alignment_weights :: bool
  valid_mpe_engines :: "MPEEngine list"
  input_channels_restrictions :: "(Operation \<times> MultiSmartRanges) list"
  input_channels_restriction_extensions :: MultiSmartRanges
  output_channels_restrictions :: MultiSmartRanges
  batch_restrictions :: MultiSmartRanges

definition cmx_memory_80K_fixed_overhead :: int where "cmx_memory_80K_fixed_overhead = 80 * 1024"
definition input_spatial_dim_max :: int where "input_spatial_dim_max = 8192"
definition cm_conv_channels_max :: int where "cm_conv_channels_max = 16"
definition kernel_max :: int where "kernel_max = 15"
definition stride_max :: int where "stride_max = 8"
definition cmx_size_safety_factor :: real where "cmx_size_safety_factor = 1"
definition sparsity_block_size :: int where "sparsity_block_size = 32"

definition datatypes_pair_and_default :: "(DataType \<times> DataType) list" where
  "datatypes_pair_and_default =
     [(INT8, UINT8), (INT4, UINT4), (INT2, UINT2), (INT1, UINT1), (BFLOAT16, FLOAT16), (BF8, HF8), (INT16, UINT16)]"

text \<open>\<open>makeList\<close> creates a vector of a computed length first; a negative length, converted to an unsigned one, is refused.\<close>

definition makeList :: "int \<Rightarrow> int \<Rightarrow> int \<Rightarrow> int list result" where
  "makeList from_n to_n multiply =
     (let counts = to_n - from_n + 1 in
      if counts < 0 then Inl (logic_error ''cannot create std::vector larger than max_size()'')
      else Inr (map (\<lambda>i. (from_n + int i) * multiply) [0..<nat counts]))"

definition contains_value :: "'a list \<Rightarrow> 'a \<Rightarrow> bool" where
  "contains_value container element = List.member container element"

definition get_specific_behaviour :: "IDeviceValidValues \<Rightarrow> Operation \<Rightarrow> Constraints result" where
  "get_specific_behaviour v opn = get_operation_specific (operations_dynamic_behavior v) opn"

subsection \<open>Functions a device overrides\<close>

definition mustExecuteHWLowLevelChecks :: "IDeviceValidValues \<Rightarrow> bool" where
  "mustExecuteHWLowLevelChecks v = (vv_level v = WorkloadValidValues)"

definition has_autopad_channel_coupling :: "IDeviceValidValues \<Rightarrow> bool" where
  "has_autopad_channel_coupling v = False"

definition get_input_valid_datatypes :: "IDeviceValidValues \<Rightarrow> DPUOperation \<Rightarrow> DataType list result" where
  "get_input_valid_datatypes v dpu = map_at (input_datatypes v) (dop_operation dpu)"

definition get_output_valid_datatypes :: "IDeviceValidValues \<Rightarrow> DPUOperation \<Rightarrow> DataType list result" where
  "get_output_valid_datatypes v dpu = map_at (output_datatypes v) (dop_operation dpu)"

definition get_weights_valid_datatypes :: "IDeviceValidValues \<Rightarrow> DPUOperation \<Rightarrow> DataType list result" where
  "get_weights_valid_datatypes v dpu = map_at (weights_datatypes v) (dop_operation dpu)"

definition get_batch_restrictions :: "IDeviceValidValues \<Rightarrow> MultiSmartRanges" where
  "get_batch_restrictions v = batch_restrictions v"

definition types_16bits :: "DataType list" where "types_16bits = [FLOAT16, BFLOAT16]"

definition types_8bits :: "DataType list" where "types_8bits = [INT8, UINT8, HF8, BF8]"

definition VPU5_get_input_channels_restriction :: "IDeviceValidValues \<Rightarrow> DPUOperation \<Rightarrow> MultiSmartRanges result" where
  "VPU5_get_input_channels_restriction v dpu =
     bind_result (map_at (input_channels_restrictions v) (dop_operation dpu)) (\<lambda>base_restriction.
       if dop_input_autopad dpu \<and> (dop_operation dpu = Operation.CONVOLUTION \<or> dop_operation dpu = Operation.CM_CONVOLUTION)
       then
         if list_ex (\<lambda>type. type = ti_datatype (dop_input_0 dpu)) types_16bits
         then bind_result (get_range (input_channels_restriction_extensions v) 0) (\<lambda>r. Inr (base_restriction @ [r]))
         else if list_ex (\<lambda>type. type = ti_datatype (dop_input_0 dpu)) types_8bits
         then bind_result (get_range (input_channels_restriction_extensions v) 1) (\<lambda>r. Inr (base_restriction @ [r]))
         else Inr base_restriction
       else Inr base_restriction)"

definition get_input_channels_restriction :: "IDeviceValidValues \<Rightarrow> DPUOperation \<Rightarrow> MultiSmartRanges result" where
  "get_input_channels_restriction v dpu =
     (case generation v of
        VPU5_0 \<Rightarrow> VPU5_get_input_channels_restriction v dpu
      | _ \<Rightarrow> map_at (input_channels_restrictions v) (dop_operation dpu))"

definition VPU5_get_output_channels_restriction :: "IDeviceValidValues \<Rightarrow> DPUOperation \<Rightarrow> MultiSmartRanges result" where
  "VPU5_get_output_channels_restriction v dpu =
     (if dop_output_autopad dpu then Inr (output_channels_restrictions v)
      else bind_result (get_range (output_channels_restrictions v) 1) (\<lambda>r. Inr [r]))"

definition get_output_channels_restriction :: "IDeviceValidValues \<Rightarrow> DPUOperation \<Rightarrow> MultiSmartRanges result" where
  "get_output_channels_restriction v dpu =
     bind_result
       (case generation v of
          VPU5_0 \<Rightarrow> VPU5_get_output_channels_restriction v dpu
        | _ \<Rightarrow> Inr (output_channels_restrictions v))
       (\<lambda>restrictions.
          if vv_level v = LayerValidValues \<and> dop_isi_strategy dpu = SPLIT_OVER_K
          then Inr (multi_multiply_lower restrictions 2) else Inr restrictions)"

definition VPU2_0_adapt_device_comaptible_tensor_layout :: "Layout \<Rightarrow> Layout" where
  "VPU2_0_adapt_device_comaptible_tensor_layout l = (if l = ZXY then ZMAJOR else if l = XYZ then CMAJOR else l)"

definition VPU2_7_adapt_device_comaptible_tensor_layout :: "Layout \<Rightarrow> Layout" where
  "VPU2_7_adapt_device_comaptible_tensor_layout l = (if l = ZMAJOR then ZXY else if l = CMAJOR then XYZ else l)"

definition adapt_device_comaptible_tensor_layout :: "IDeviceValidValues \<Rightarrow> Layout \<Rightarrow> Layout" where
  "adapt_device_comaptible_tensor_layout v l =
     (case generation v of
        VPU2_0 \<Rightarrow> VPU2_0_adapt_device_comaptible_tensor_layout l
      | _ \<Rightarrow> VPU2_7_adapt_device_comaptible_tensor_layout l)"

definition get_default_swizzling :: "IDeviceValidValues \<Rightarrow> Swizzling" where
  "get_default_swizzling v = last (valid_swizzlings v)"

definition adapt_device_comaptible_swizzling :: "IDeviceValidValues \<Rightarrow> Swizzling \<Rightarrow> Swizzling" where
  "adapt_device_comaptible_swizzling v swizz =
     (case generation v of VPU2_0 \<Rightarrow> get_default_swizzling v | _ \<Rightarrow> swizz)"

definition base_get_ISI_Strategy_Range :: "IDeviceValidValues \<Rightarrow> DPUOperation \<Rightarrow> ISIStrategy list result" where
  "base_get_ISI_Strategy_Range v dpu =
     (let vals = isi_stategy_options v;
          vals = (if dop_output_write_tiles dpu \<le> 1 then filter (\<lambda>x. x \<noteq> SPLIT_OVER_K) vals else vals)
      in bind_result (get_specific_behaviour v (dop_operation dpu)) (\<lambda>behavior.
           Inr (filter_ISI_Strategy_Options behavior vals)))"

definition layer_get_ISI_Strategy_Range :: "IDeviceValidValues \<Rightarrow> DPUOperation \<Rightarrow> ISIStrategy list result" where
  "layer_get_ISI_Strategy_Range v dpu =
     (let vals = isi_stategy_options v
      in bind_result (get_specific_behaviour v (dop_operation dpu)) (\<lambda>behavior.
           Inr (filter_ISI_Strategy_Options behavior vals)))"

definition get_ISI_Strategy_Range :: "IDeviceValidValues \<Rightarrow> DPUOperation \<Rightarrow> ISIStrategy list result" where
  "get_ISI_Strategy_Range v dpu =
     (if vv_level v = LayerValidValues \<and> generation v \<noteq> VPU2_0 then layer_get_ISI_Strategy_Range v dpu
      else base_get_ISI_Strategy_Range v dpu)"

subsection \<open>Ranges\<close>

definition get_spatial_range_start_factor_HW :: "IDeviceValidValues \<Rightarrow> int" where
  "get_spatial_range_start_factor_HW v = input_heigth_width_start_factor_SOHW v"

definition get_input_height_interval :: "IDeviceValidValues \<Rightarrow> DPUOperation \<Rightarrow> bool \<Rightarrow> int \<times> int" where
  "get_input_height_interval v dpu use_extra_start =
     (let extra_out_rows = (if use_extra_start then get_spatial_range_start_factor_HW v - 1 else 1 - 1);
          k = dop_kernel dpu;
          minH_oneRow = ki_height k - (pad_top k + pad_bottom k);
          minH = (if minH_oneRow + extra_out_rows < 1 then 1 else minH_oneRow + extra_out_rows);
          maxH = input_spatial_dim_max
      in (minH, maxH))"

definition get_input_height_range :: "IDeviceValidValues \<Rightarrow> DPUOperation \<Rightarrow> int list result" where
  "get_input_height_range v dpu =
     (let interval = get_input_height_interval v dpu False in makeList (fst interval) (snd interval) 1)"

definition get_input_width_interval :: "IDeviceValidValues \<Rightarrow> DPUOperation \<Rightarrow> bool \<Rightarrow> int \<times> int" where
  "get_input_width_interval v dpu use_extra_start =
     (let extra_out_cols = (if use_extra_start then get_spatial_range_start_factor_HW v - 1 else 1 - 1);
          k = dop_kernel dpu;
          minW_oneCol = ki_width k - (pad_left k + pad_right k);
          minW = (if minW_oneCol + extra_out_cols < 1 then 1 else minW_oneCol + extra_out_cols);
          maxW = input_spatial_dim_max
      in (minW, maxW))"

definition get_input_width_range :: "IDeviceValidValues \<Rightarrow> DPUOperation \<Rightarrow> int list result" where
  "get_input_width_range v dpu =
     (let interval = get_input_width_interval v dpu False in makeList (fst interval) (snd interval) 1)"

definition get_padMax :: "int \<Rightarrow> int" where
  "get_padMax kernel_dim = kernel_dim sdiv 2"

definition get_pad_horz_range :: "IDeviceValidValues \<Rightarrow> DPUOperation \<Rightarrow> int list result" where
  "get_pad_horz_range v dpu = (let padmax = get_padMax (ki_width (dop_kernel dpu)) in makeList 0 padmax 1)"

definition get_pad_vert_range :: "IDeviceValidValues \<Rightarrow> DPUOperation \<Rightarrow> int list result" where
  "get_pad_vert_range v dpu = (let padmax = get_padMax (ki_height (dop_kernel dpu)) in makeList 0 padmax 1)"

definition get_output_write_tile_Range :: "IDeviceValidValues \<Rightarrow> DPUOperation \<Rightarrow> int list result" where
  "get_output_write_tile_Range v dpu =
     bind_result (get_specific_behaviour v (dop_operation dpu)) (\<lambda>behavior.
       Inr (filter_output_write_tile_Options behavior (output_write_tile_options v)))"

definition get_maximum_kernel_size :: "Operation \<Rightarrow> int" where
  "get_maximum_kernel_size opn = (if opn = Operation.ELTWISE then 1 else kernel_max)"

definition get_maximum_kernel_stride :: "Operation \<Rightarrow> int" where
  "get_maximum_kernel_stride opn = (if opn = Operation.ELTWISE then 1 else stride_max)"

definition get_kernel_range :: "IDeviceValidValues \<Rightarrow> DPUOperation \<Rightarrow> int list result" where
  "get_kernel_range v dpu =
     (let maximum_kernel_size = get_maximum_kernel_size (dop_operation dpu) in makeList 1 maximum_kernel_size 1)"

definition get_strides_range :: "IDeviceValidValues \<Rightarrow> DPUOperation \<Rightarrow> (int list \<times> int list) result" where
  "get_strides_range v dpu =
     (let max_stride_op = get_maximum_kernel_stride (dop_operation dpu);
          k = dop_kernel dpu;
          max_stride_w = min max_stride_op (as_int (ti_width (dop_input_0 dpu)) + pad_left k + pad_right k);
          max_stride_h = min max_stride_op (as_int (ti_height (dop_input_0 dpu)) + pad_top k + pad_bottom k)
      in bind_result (makeList 1 max_stride_w 1) (\<lambda>w. bind_result (makeList 1 max_stride_h 1) (\<lambda>h. Inr (w, h))))"

definition get_dpu_strides_range :: "IDeviceValidValues \<Rightarrow> DPUOperation \<Rightarrow> (int list \<times> int list) result" where
  "get_dpu_strides_range v dpu =
     (let max_stride_op = get_maximum_kernel_stride (dop_operation dpu);
          max_stride_w = max_stride_op;
          max_stride_h = max_stride_op
      in bind_result (makeList 1 max_stride_w 1) (\<lambda>w. bind_result (makeList 1 max_stride_h 1) (\<lambda>h. Inr (w, h))))"

definition get_valid_execution_order :: "IDeviceValidValues \<Rightarrow> DPUOperation \<Rightarrow> ExecutionMode list result" where
  "get_valid_execution_order v dpu = map_at (valid_execution_order_map v) (dop_operation dpu)"

subsection \<open>Alignments, memory and dimensions\<close>

definition get_specific_weights_alignment_B :: "IDeviceValidValues \<Rightarrow> int" where
  "get_specific_weights_alignment_B v = weigths_alignment_B v"

definition is_legacy_samples_alignment_weights :: "IDeviceValidValues \<Rightarrow> bool" where
  "is_legacy_samples_alignment_weights v = legacy_samples_alignment_weights v"

definition get_specific_legacy_weights_alignment_Samples :: "IDeviceValidValues \<Rightarrow> int" where
  "get_specific_legacy_weights_alignment_Samples v =
     (if is_legacy_samples_alignment_weights v then weigths_alignment_B v else 1)"

definition get_specific_out_innermost_dim_alignment_B :: "IDeviceValidValues \<Rightarrow> int" where
  "get_specific_out_innermost_dim_alignment_B v = out_innermost_dim_alignment_B v"

definition get_page_alignment :: "IDeviceValidValues \<Rightarrow> int" where
  "get_page_alignment v = alignement_size_bytes v"

definition get_cmx_memory_aligned_overhead :: "IDeviceValidValues \<Rightarrow> int" where
  "get_cmx_memory_aligned_overhead v = cmx_memory_80K_fixed_overhead + get_page_alignment v"

definition restrict_datatype :: "DataType \<Rightarrow> DataType" where
  "restrict_datatype dt = (case map_of datatypes_pair_and_default dt of Some d \<Rightarrow> d | None \<Rightarrow> dt)"

definition get_cmx_size :: "IDeviceValidValues \<Rightarrow> VPUDevice \<Rightarrow> int" where
  "get_cmx_size v d =
     (let ret_val = (case map_of (cmx_KB_sizes v) d of Some kb \<Rightarrow> kb * 1024 | None \<Rightarrow> 0);
          scaled_ret_val = round_cpp (of_int \<lceil>to_float32 (to_float32 (of_int ret_val) * cmx_size_safety_factor)\<rceil>)
      in scaled_ret_val)"

definition compute_output_dim :: "int \<Rightarrow> int \<Rightarrow> int \<Rightarrow> int \<Rightarrow> int \<Rightarrow> int" where
  "compute_output_dim input pad pad_oppopsite kernel_dim kernel_stride =
     (if 0 = kernel_stride then 0
      else (input + (pad + pad_oppopsite) - (kernel_dim - 1) - 1) sdiv kernel_stride + 1)"

definition align_to :: "int \<Rightarrow> int \<Rightarrow> int" where
  "align_to x multiple = (let r = x smod multiple in if r = 0 then x else x + (multiple - r))"

definition sanitize_sparsity :: "int \<Rightarrow> real \<Rightarrow> real" where
  "sanitize_sparsity tensor_bytes desired_sparsity_level =
     (let number_of_zeros =
            to_float32
              (of_int (round_cpp (to_float32 (to_float32 (of_int (tensor_bytes sdiv sparsity_block_size)) *
                                              desired_sparsity_level))) *
               of_int sparsity_block_size)
      in to_float32 (number_of_zeros / to_float32 (of_int tensor_bytes)))"

definition check_trailing_padding :: "int \<Rightarrow> int \<Rightarrow> int \<Rightarrow> int \<Rightarrow> int \<Rightarrow> int" where
  "check_trailing_padding in_dim out_dim leading_pad kernel_radix stride =
     (let pads = stride * (out_dim - 1) + kernel_radix - leading_pad - in_dim in max pads 0)"

definition compute_size_raw :: "int \<Rightarrow> DataType \<Rightarrow> int" where
  "compute_size_raw elements_count dt = compute_size_in_bytes elements_count dt"

definition compute_size_aligned :: "IDeviceValidValues \<Rightarrow> int \<Rightarrow> DataType \<Rightarrow> int" where
  "compute_size_aligned v elements_count dt =
     (let raw_size = compute_size_raw elements_count dt in align_to raw_size (alignement_size_bytes v))"

definition is_valid_operation :: "IDeviceValidValues \<Rightarrow> Operation \<Rightarrow> bool" where
  "is_valid_operation v opn = contains_value (valid_operations v) opn"

definition is_valid_engine :: "IDeviceValidValues \<Rightarrow> MPEEngine \<Rightarrow> bool" where
  "is_valid_engine v engine = contains_value (valid_mpe_engines v) engine"

end
