(* ===== verification/Op_Behaviour.thy ===== *)
theory Op_Behaviour
  imports Valid_Values
begin

text \<open>
  What each operation requires and how much memory its tensors take: the classes of
  \<^verbatim>\<open>include/vpu/validation/dpu_operations_valid_behaviours.h\<close> and their layer versions of
  \<^verbatim>\<open>layer_operations_valid_behaviours.h\<close>, and the constructor of \<open>DPUOperation\<close> that fills in the weights
  (\<^verbatim>\<open>src/vpu/validation/data_dpu_operation.cpp\<close>). A virtual function is a case distinction on the class; a class that does not
  override it has the case of its base class. The functions that draw random samples for training are not modelled.
\<close>

section \<open>Volumes\<close>

definition tensor_volume :: "TensorInfo \<Rightarrow> int" where
  "tensor_volume w = ti_height w * ti_width w * ti_channels w * ti_batch w"

definition CM_input_0_volume :: "TensorInfo \<Rightarrow> int" where
  "CM_input_0_volume w =
     (let channels_lim = (if ti_channels w < 5 then 4 else 16) in ti_height w * ti_width w * channels_lim * ti_batch w)"

definition input_0_volume :: "Constraints \<Rightarrow> TensorInfo \<Rightarrow> int" where
  "input_0_volume b w = (if op_class b = CM_CONVOLUTION_Constraints then CM_input_0_volume w else tensor_volume w)"

definition ELTWISE_input_1_volume :: "TensorInfo \<Rightarrow> int" where
  "ELTWISE_input_1_volume w = ti_height w * ti_width w * ti_channels w"

fun input_1_volume :: "OpClass \<Rightarrow> TensorInfo \<Rightarrow> int" where
  "input_1_volume ELTWISE_Constraints w = ELTWISE_input_1_volume w"
| "input_1_volume ELTWISE_MUL_Constraints w = ELTWISE_input_1_volume w"
| "input_1_volume MAXPOOL_Constraints w = 0"
| "input_1_volume REDUCE_Constraints w = 0"
| "input_1_volume AVGPOOL_Constraints w = 0"
| "input_1_volume _ w = tensor_volume w"

section \<open>Weights\<close>

definition CONV_deduce_input_1 :: "TensorInfo \<Rightarrow> TensorInfo \<Rightarrow> IDeviceValidValues \<Rightarrow> KernelInfo \<Rightarrow> TensorInfo \<Rightarrow> TensorInfo" where
  "CONV_deduce_input_1 in_0 out_0 v k w =
     (let is_samples_alignment_on = is_legacy_samples_alignment_weights v;
          w = w\<lparr>ti_layout := (if is_samples_alignment_on then ti_layout in_0 else ZXY), ti_height := 1, ti_width := 1\<rparr>;
          multiple =
            (if is_samples_alignment_on
             then if ti_sparsity_enabled w \<or> 1 < dtype_to_bytes (ti_datatype w) then 16
                  else get_specific_legacy_weights_alignment_Samples v
             else 1)
      in w\<lparr>ti_channels := align_to (ti_channels in_0 * ki_height k * ki_width k) multiple,
           ti_batch := ti_channels out_0\<rparr>)"

definition DW_deduce_input_1 :: "TensorInfo \<Rightarrow> TensorInfo \<Rightarrow> IDeviceValidValues \<Rightarrow> KernelInfo \<Rightarrow> TensorInfo \<Rightarrow> TensorInfo" where
  "DW_deduce_input_1 in_0 out_0 v k w =
     (let is_samples_alignment_on = is_legacy_samples_alignment_weights v;
          w = w\<lparr>ti_layout := (if is_samples_alignment_on then ti_layout in_0 else ZXY), ti_height := 1, ti_width := 1\<rparr>;
          multiple =
            (if is_samples_alignment_on
             then if 1 < dtype_to_bytes (ti_datatype w) then 16 else get_specific_legacy_weights_alignment_Samples v
             else 1)
      in w\<lparr>ti_channels := align_to (ki_height k * ki_width k) multiple, ti_batch := ti_channels out_0\<rparr>)"

definition wts_mask_alignment_samples :: "DataType \<Rightarrow> int" where
  "wts_mask_alignment_samples dt = (if 1 < dtype_to_bytes dt then 8 else 16)"

definition CM_deduce_input_1 :: "TensorInfo \<Rightarrow> TensorInfo \<Rightarrow> IDeviceValidValues \<Rightarrow> KernelInfo \<Rightarrow> TensorInfo \<Rightarrow> TensorInfo" where
  "CM_deduce_input_1 in_0 out_0 v k w =
     (let is_samples_alignment_on = is_legacy_samples_alignment_weights v;
          w = w\<lparr>ti_layout := (if is_samples_alignment_on then ti_layout in_0 else ZXY), ti_height := 1, ti_width := 1\<rparr>;
          multiple = (if is_samples_alignment_on then wts_mask_alignment_samples (ti_datatype w) else 1)
      in w\<lparr>ti_channels := align_to (ti_channels in_0 * ki_height k * ki_width k) multiple,
           ti_batch := ti_channels out_0\<rparr>)"

definition ELTWISE_deduce_input_1 :: "TensorInfo \<Rightarrow> IDeviceValidValues \<Rightarrow> TensorInfo \<Rightarrow> TensorInfo" where
  "ELTWISE_deduce_input_1 in_0 v w =
     (let w = w\<lparr>ti_layout := ti_layout in_0\<rparr>;
          is_device_older_than_PTL = list_all (\<lambda>dev. dev < NPU_5_0) (devices v);
          w = w\<lparr>ti_batch := ti_batch in_0\<rparr>
      in if is_device_older_than_PTL
         then w\<lparr>ti_channels := ti_width in_0, ti_height := ti_channels in_0, ti_width := ti_height in_0\<rparr>
         else w\<lparr>ti_channels := ti_channels in_0, ti_height := ti_height in_0, ti_width := ti_width in_0\<rparr>)"

definition no_input_1 :: "TensorInfo \<Rightarrow> TensorInfo" where
  "no_input_1 w = w\<lparr>ti_layout := INVALID, ti_batch := 0, ti_channels := 0, ti_height := 0, ti_width := 0\<rparr>"

fun deduce_input_1_shape_and_layout ::
  "OpClass \<Rightarrow> TensorInfo \<Rightarrow> TensorInfo \<Rightarrow> IDeviceValidValues \<Rightarrow> KernelInfo \<Rightarrow> TensorInfo \<Rightarrow> TensorInfo" where
  "deduce_input_1_shape_and_layout CONVOLUTION_Constraints in_0 out_0 v k w = CONV_deduce_input_1 in_0 out_0 v k w"
| "deduce_input_1_shape_and_layout LAYERNORM_Constraints in_0 out_0 v k w = CONV_deduce_input_1 in_0 out_0 v k w"
| "deduce_input_1_shape_and_layout DW_CONVOLUTION_Constraints in_0 out_0 v k w = DW_deduce_input_1 in_0 out_0 v k w"
| "deduce_input_1_shape_and_layout AVGPOOL_Constraints in_0 out_0 v k w = DW_deduce_input_1 in_0 out_0 v k w"
| "deduce_input_1_shape_and_layout CM_CONVOLUTION_Constraints in_0 out_0 v k w = CM_deduce_input_1 in_0 out_0 v k w"
| "deduce_input_1_shape_and_layout ELTWISE_Constraints in_0 out_0 v k w = ELTWISE_deduce_input_1 in_0 v w"
| "deduce_input_1_shape_and_layout ELTWISE_MUL_Constraints in_0 out_0 v k w = ELTWISE_deduce_input_1 in_0 v w"
| "deduce_input_1_shape_and_layout MAXPOOL_Constraints in_0 out_0 v k w = no_input_1 w"
| "deduce_input_1_shape_and_layout REDUCE_Constraints in_0 out_0 v k w = no_input_1 w"

definition DPUOperation_with :: "DPUWorkload \<Rightarrow> IDeviceValidValues \<Rightarrow> DPUOperation result" where
  "DPUOperation_with w v =
     (let d = DPUOperation_of w in
      bind_result (get_specific_behaviour v (dop_operation d)) (\<lambda>operation_behaviour.
        Inr (d\<lparr>dop_input_1 :=
                 deduce_input_1_shape_and_layout (op_class operation_behaviour) (dop_input_0 d) (dop_output_0 d) v
                   (dop_kernel d) (dop_input_1 d)\<rparr>)))"

section \<open>Memory of the tensors\<close>

definition pointer_size :: int where "pointer_size = 4"

definition get_weight_table_size :: "int \<Rightarrow> int" where
  "get_weight_table_size out_0_channels = out_0_channels * 16"

definition CONV_input_1_contiguous_size_bytes :: "IDeviceValidValues \<Rightarrow> DPUOperation \<Rightarrow> int" where
  "CONV_input_1_contiguous_size_bytes v dpu =
     (let t = dop_input_1 dpu;
          size_B_of_one_single_mask = get_tensor_innermost_dim_B t;
          aligned_size_B_of_one_single_mask =
            (if is_legacy_samples_alignment_weights v then size_B_of_one_single_mask
             else align_to size_B_of_one_single_mask (get_specific_weights_alignment_B v));
          in_1_size = aligned_size_B_of_one_single_mask * ti_batch t;
          in_1_size =
            (if ti_sparsity_enabled t
             then in_1_size - \<lfloor>to_float32 (to_float32 (of_int in_1_size) * ti_sparsity t)\<rfloor> +
                  ti_batch t * align_to (ti_channels t sdiv 8) 16
             else in_1_size)
      in in_1_size + get_weight_table_size (ti_channels (dop_output_0 dpu)))"

definition ELTWISE_input_1_contiguous_size_bytes :: "DPUOperation \<Rightarrow> int" where
  "ELTWISE_input_1_contiguous_size_bytes dpu =
     (let t = dop_input_1 dpu in get_tensor_innermost_dim_B t * numberOfElementsExcludingInnermost t)"

fun input_1_contiguous_size_bytes :: "OpClass \<Rightarrow> IDeviceValidValues \<Rightarrow> DPUOperation \<Rightarrow> int" where
  "input_1_contiguous_size_bytes ELTWISE_Constraints v dpu = ELTWISE_input_1_contiguous_size_bytes dpu"
| "input_1_contiguous_size_bytes ELTWISE_MUL_Constraints v dpu = ELTWISE_input_1_contiguous_size_bytes dpu"
| "input_1_contiguous_size_bytes MAXPOOL_Constraints v dpu = 0"
| "input_1_contiguous_size_bytes REDUCE_Constraints v dpu = 0"
| "input_1_contiguous_size_bytes AVGPOOL_Constraints v dpu = 0"
| "input_1_contiguous_size_bytes _ v dpu = CONV_input_1_contiguous_size_bytes v dpu"

definition input_1_aligned_size_bytes :: "Constraints \<Rightarrow> IDeviceValidValues \<Rightarrow> DPUOperation \<Rightarrow> int" where
  "input_1_aligned_size_bytes b v dpu =
     (let size_nonaligned = input_1_contiguous_size_bytes (op_class b) v dpu
      in align_to size_nonaligned (get_page_alignment v))"

definition input_0_contiguous_size_bytes :: "Constraints \<Rightarrow> IDeviceValidValues \<Rightarrow> DPUOperation \<Rightarrow> int" where
  "input_0_contiguous_size_bytes b v dpu =
     (let default_compute_tensor_samples = input_0_volume b (dop_input_0 dpu);
          t = dop_input_0_memory_dense dpu;
          sep = dop_sep_activators dpu;
          actual = actual_activators_input sep;
          t = (if sep_enabled sep
               then t\<lparr>ti_width := uint (dimX actual), ti_height := uint (dimY actual), ti_channels := uint (dimZ actual),
                      ti_batch := uint (dimB actual)\<rparr>
               else t);
          storage_elements_table_samples =
            (if sep_enabled sep then uint (whcb_numberOfElements (storage_elements_pointers sep)) else 0);
          sparsity_map_bytes =
            (if sep_enabled sep \<and> no_sparse_map sep = False then align_to (default_compute_tensor_samples sdiv 8) 16 else 0);
          sparsity_map_bytes =
            (if ti_sparsity_enabled (dop_input_0 dpu) then align_to (default_compute_tensor_samples sdiv 8) 16
             else sparsity_map_bytes);
          innermost_dim_size_B = get_tensor_innermost_dim_B t;
          number_of_elem_excluding_innermost_dim = numberOfElementsExcludingInnermost t;
          tensor_bytes = innermost_dim_size_B * number_of_elem_excluding_innermost_dim
      in tensor_bytes + sparsity_map_bytes + storage_elements_table_samples * pointer_size)"

definition input_0_aligned_size_bytes :: "Constraints \<Rightarrow> IDeviceValidValues \<Rightarrow> DPUOperation \<Rightarrow> int" where
  "input_0_aligned_size_bytes b v dpu =
     (let size_nonaligned = input_0_contiguous_size_bytes b v dpu in align_to size_nonaligned (get_page_alignment v))"

definition output_0_contiguous_size_bytes :: "IDeviceValidValues \<Rightarrow> DPUOperation \<Rightarrow> int" where
  "output_0_contiguous_size_bytes v dpu =
     (let t = dop_output_0_memory_dense dpu;
          innermost_dim_size_B = get_tensor_innermost_dim_B t;
          number_of_elem_excluding_innermost_dim = numberOfElementsExcludingInnermost t;
          aligned_innermost_dim_size_B =
            (if dop_superdense dpu then innermost_dim_size_B
             else align_to innermost_dim_size_B (get_specific_out_innermost_dim_alignment_B v));
          tensor_bytes = aligned_innermost_dim_size_B * number_of_elem_excluding_innermost_dim;
          sparsity_map_bytes =
            (if ti_sparsity_enabled (dop_output_0 dpu)
             then align_to (numberOfElements (dop_output_0_memory_dense dpu) sdiv 8) 16 else 0)
      in tensor_bytes + sparsity_map_bytes)"

definition output_0_aligned_size_bytes :: "IDeviceValidValues \<Rightarrow> DPUOperation \<Rightarrow> int" where
  "output_0_aligned_size_bytes v dpu =
     (let size_nonaligned = output_0_contiguous_size_bytes v dpu in align_to size_nonaligned (get_page_alignment v))"

section \<open>Rules on sparsity\<close>

text \<open>A rule runs its checks on a checker of its own; the answer is whether it stays clean, with the findings.\<close>

definition skip_check :: check_step where "skip_check c = (c, None)"

definition check_when :: "bool \<Rightarrow> check_step \<Rightarrow> check_step" where
  "check_when b s = (if b then s else skip_check)"

definition rule_result :: "bool \<Rightarrow> check_step list \<Rightarrow> bool \<times> string" where
  "rule_result tags ss = (let checker = fst (run_checks ss (new_Checker tags)) in (is_clean checker, findings checker))"

definition Base_sparsity_checks :: "DPUOperation \<Rightarrow> check_step list" where
  "Base_sparsity_checks dpu =
     [check (check_is_equal show_bool (ti_sparsity_enabled (dop_input_0 dpu)) False ''input_0 sparsity_enabled  ''),
      check (check_is_equal show_float (ti_sparsity (dop_input_0 dpu)) 0 ''input_0 sparsity  ''),
      check (check_is_equal show_bool (ti_sparsity_enabled (dop_input_1 dpu)) False ''input_1 sparsity_enabled  ''),
      check (check_is_equal show_float (ti_sparsity (dop_input_1 dpu)) 0 ''input_1 sparsity  '')]"

definition ELTWISE_sparsity_checks :: "DPUOperation \<Rightarrow> check_step list" where
  "ELTWISE_sparsity_checks dpu =
     [check_when (\<not> ti_sparsity_enabled (dop_input_0 dpu))
        (check (check_is_equal show_float (ti_sparsity (dop_input_0 dpu)) 0 ''input_0.sparsity_enabled false and sparsity is '')),
      check_when (\<not> ti_sparsity_enabled (dop_input_1 dpu))
        (check (check_is_equal show_float (ti_sparsity (dop_input_1 dpu)) 0 ''input_1.sparsity_enabled false and sparsity is ''))]"

definition CONV_sparsity_checks :: "DPUOperation \<Rightarrow> check_step list" where
  "CONV_sparsity_checks dpu =
     [check_when (\<not> ti_sparsity_enabled (dop_input_0 dpu))
        (check (check_is_equal show_float (ti_sparsity (dop_input_0 dpu)) 0 ''input_0.sparsity_enabled false and sparsity is '')),
      check_when (\<not> ti_sparsity_enabled (dop_input_1 dpu))
        (check (check_is_equal show_float (ti_sparsity (dop_input_1 dpu)) 0 ''input_1.sparsity_enabled false and sparsity is '')),
      check_when (dop_mpe_engine dpu = DCIM)
        (check (check_is_equal show_bool (ti_sparsity_enabled (dop_input_1 dpu)) False ''dCIM_32x128: input_1 sparsity_enabled  '')),
      check_when (dop_mpe_engine dpu = DCIM)
        (check (check_is_equal show_float (ti_sparsity (dop_input_1 dpu)) 0 ''dCIM_32x128: input_1 sparsity  '')),
      check_when (dop_mpe_engine dpu = DCIM)
        (check (check_is_equal show_bool (ti_sparsity_enabled (dop_input_0 dpu)) False ''dCIM_32x128: input_0 sparsity_enabled  '')),
      check_when (dop_mpe_engine dpu = DCIM)
        (check (check_is_equal show_float (ti_sparsity (dop_input_0 dpu)) 0 ''dCIM_32x128: input_0 sparsity  ''))]"

definition CONV_Layer_check_sparsity_rules :: "bool \<Rightarrow> DPUOperation \<Rightarrow> bool \<times> string" where
  "CONV_Layer_check_sparsity_rules tags dpu =
     (let (ok, local_info) = rule_result tags (CONV_sparsity_checks dpu)
      in rule_result tags [fail_if (\<not> ok) local_info])"

fun check_sparsity_rules :: "bool \<Rightarrow> Constraints \<Rightarrow> DPUOperation \<Rightarrow> bool \<times> string" where
  "check_sparsity_rules tags (Workload_Class CONVOLUTION_Constraints) dpu = rule_result tags (CONV_sparsity_checks dpu)"
| "check_sparsity_rules tags (Layer_Class CONVOLUTION_Constraints) dpu = CONV_Layer_check_sparsity_rules tags dpu"
| "check_sparsity_rules tags b dpu =
     (case op_class b of
        LAYERNORM_Constraints \<Rightarrow> rule_result tags (CONV_sparsity_checks dpu)
      | ELTWISE_Constraints \<Rightarrow> rule_result tags (ELTWISE_sparsity_checks dpu)
      | ELTWISE_MUL_Constraints \<Rightarrow> rule_result tags (ELTWISE_sparsity_checks dpu)
      | _ \<Rightarrow> rule_result tags (Base_sparsity_checks dpu))"

definition check_sparsity_layer_SOK :: "bool \<Rightarrow> DPUOperation \<Rightarrow> bool \<times> string" where
  "check_sparsity_layer_SOK tags dpu =
     (let split = (dop_isi_strategy dpu = SPLIT_OVER_K \<and> ti_channels (dop_output_0 dpu) smod 32 \<noteq> 0)
      in rule_result tags
           [check_when split
              (check (check_is_equal show_bool (ti_sparsity_enabled (dop_input_1 dpu)) False
                 '' SOK + out.channels not aligned to 32: input_1 sparsity_enabled  '')),
            check_when split
              (check (check_is_equal show_float (ti_sparsity (dop_input_1 dpu)) 0
                 '' SOK + out.channels not aligned to 32: input_1 sparsity  ''))])"

definition generic_convolution_class :: "OpClass \<Rightarrow> bool" where
  "generic_convolution_class b \<longleftrightarrow>
     b \<in> {CONVOLUTION_Constraints, DW_CONVOLUTION_Constraints, CM_CONVOLUTION_Constraints, LAYERNORM_Constraints,
          AVGPOOL_Constraints}"

definition limit_sparsity :: "OpClass \<Rightarrow> DPUOperation \<Rightarrow> DPUOperation" where
  "limit_sparsity b dpu =
     (if generic_convolution_class b \<and> dop_isi_strategy dpu = SPLIT_OVER_K \<and>
         ti_channels (dop_output_0 dpu) smod 32 \<noteq> 0
      then dpu\<lparr>dop_input_1 := (dop_input_1 dpu)\<lparr>ti_sparsity_enabled := False, ti_sparsity := 0\<rparr>\<rparr>
      else dpu)"

section \<open>Rules on the tensors\<close>

definition exceeds_text :: "int \<Rightarrow> int \<Rightarrow> string" where
  "exceeds_text oc ic =
     ''output_autopad active: output_0.channels ('' @ to_string oc @ '') must not exceed input_0.channels ('' @
     to_string ic @ '')''"

definition check_dw_autopad_channel_coupling :: "DPUOperation \<Rightarrow> check_step" where
  "check_dw_autopad_channel_coupling dpu =
     (let oc = ti_channels (dop_output_0 dpu);
          ic = ti_channels (dop_input_0 dpu);
          dw_aligned_oc = uint (dw_channel_align (to_u32 oc))
      in run_checks
           [fail_if (oc > ic) (exceeds_text oc ic),
            fail_if (ic \<noteq> dw_aligned_oc)
              (''output_autopad active: input_0.channels ('' @ to_string ic @ '') must equal DW-aligned OC (expected='' @
               to_string dw_aligned_oc @ '' for OC='' @ to_string oc @ '')'')])"

definition check_eltwise_autopad_channel_coupling :: "DPUOperation \<Rightarrow> check_step" where
  "check_eltwise_autopad_channel_coupling dpu =
     (let oc = ti_channels (dop_output_0 dpu);
          ic = ti_channels (dop_input_0 dpu);
          eltwise_aligned_oc = uint (eltwise_channel_align (to_u32 oc))
      in run_checks
           [fail_if (oc > ic) (exceeds_text oc ic),
            fail_if (ic \<noteq> eltwise_aligned_oc)
              (''output_autopad active: input_0.channels ('' @ to_string ic @ '') must equal round_up(OC,16) (expected='' @
               to_string eltwise_aligned_oc @ '' for OC='' @ to_string oc @ '')'')])"

definition same_channels_check :: "IDeviceValidValues \<Rightarrow> DPUOperation \<Rightarrow> check_step \<Rightarrow> check_step" where
  "same_channels_check v dpu coupling =
     (if \<not> dop_output_autopad dpu \<or> dop_output_autopad dpu \<and> dop_input_autopad dpu
      then check (check_is_in_list to_string (as_int (ti_channels (dop_output_0 dpu))) [as_int (ti_channels (dop_input_0 dpu))]
                    ''output_0.channels == input_0.channels'')
      else check_when (has_autopad_channel_coupling v) coupling)"

definition REDUCE_tensor_checks :: "DPUOperation \<Rightarrow> check_step list" where
  "REDUCE_tensor_checks dpu =
     (let out0 = dop_output_0 dpu; in0 = dop_input_0 dpu
      in [check (check_is_in_list to_string (as_int (ti_width out0)) [as_int (ti_width in0)] ''output_0.width == input_0.width''),
          check (check_is_in_list to_string (as_int (ti_height out0)) [as_int (ti_height in0)] ''output_0.height == input_0.height''),
          check (check_is_in_list to_string (as_int (ti_channels out0)) [1] ''output_0.channels == 1''),
          check (check_is_in_list to_string (as_int (ti_batch out0)) [as_int (ti_batch in0)] ''output_0.batch == input_0.batch'')])"

fun tensor_checks :: "OpClass \<Rightarrow> IDeviceValidValues \<Rightarrow> DPUOperation \<Rightarrow> check_step list" where
  "tensor_checks DW_CONVOLUTION_Constraints v dpu = [same_channels_check v dpu (check_dw_autopad_channel_coupling dpu)]"
| "tensor_checks AVGPOOL_Constraints v dpu = [same_channels_check v dpu (check_dw_autopad_channel_coupling dpu)]"
| "tensor_checks MAXPOOL_Constraints v dpu = [same_channels_check v dpu (check_dw_autopad_channel_coupling dpu)]"
| "tensor_checks ELTWISE_Constraints v dpu = [same_channels_check v dpu (check_eltwise_autopad_channel_coupling dpu)]"
| "tensor_checks ELTWISE_MUL_Constraints v dpu = [same_channels_check v dpu (check_eltwise_autopad_channel_coupling dpu)]"
| "tensor_checks REDUCE_Constraints v dpu = REDUCE_tensor_checks dpu"
| "tensor_checks _ v dpu = []"

definition check_input_output_tensor_corelation :: "bool \<Rightarrow> Constraints \<Rightarrow> IDeviceValidValues \<Rightarrow> DPUOperation \<Rightarrow> bool \<times> string" where
  "check_input_output_tensor_corelation tags b v dpu = rule_result tags (tensor_checks (op_class b) v dpu)"

section \<open>The rules, as conditions\<close>

lemma check_when_step [honest_steps, simp]: "honest s \<Longrightarrow> honest (check_when b s)"
  and check_when_ok [step_ok_iff]: "step_ok (check_when b s) \<longleftrightarrow> (b \<longrightarrow> step_ok s)"
  by (auto simp: check_when_def skip_check_def honest_def step_ok_def)

lemma check_when_total [simp]: "total_step s \<Longrightarrow> total_step (check_when b s)"
  by (simp add: total_step_def skip_check_def check_when_def)

lemma rule_result_ok:
  assumes "list_all honest ss" "list_all total_step ss"
  shows "fst (rule_result tags ss) \<longleftrightarrow> list_all step_ok ss"
  using run_checks_clean [OF assms(1), of "new_Checker tags"] run_checks_ok [of ss] total_run [OF assms(2)]
  by (auto simp: rule_result_def Let_def total_step_def)

end
