(* ===== verification/Device_Rules.thy ===== *)
theory Device_Rules
  imports Valid_Values
begin

text \<open>
  The rules of the devices, as data: \<^verbatim>\<open>include/vpu/validation/device_valid_valuesVPU2.h\<close>, \<^verbatim>\<open>device_valid_valuesVPU2_7.h\<close>,
  \<^verbatim>\<open>device_valid_valuesVPU4.h\<close> and \<^verbatim>\<open>device_valid_valuesVPU5.h\<close>, each at the three levels of validation (workload, layer,
  layer on a tile), and the lists of configurations of the three validators, with the lookup by device of
  \<open>Behavior_Device_Mapping\<close> (\<^verbatim>\<open>behaviors_and_devices_containers.h\<close>).
\<close>

definition same_for :: "Operation list \<Rightarrow> 'a \<Rightarrow> (Operation \<times> 'a) list" where
  "same_for ops v = map (\<lambda>o1. (o1, v)) ops"

definition max_limit :: int where "max_limit = 2147483647"

definition allValues_range :: SmartRanges where "allValues_range = make_SmartRanges 1 max_limit 1 None"

definition onlyOne_range :: SmartRanges where "onlyOne_range = make_SmartRanges 1 1 1 None"

definition range_16_max :: SmartRanges where "range_16_max = make_SmartRanges 16 input_spatial_dim_max 16 None"

definition range_16_32_64 :: SmartRanges where "range_16_32_64 = make_SmartRanges 16 64 16 (Some 32)"

definition range_CM :: SmartRanges where "range_CM = make_SmartRanges 1 cm_conv_channels_max 1 None"

definition range_CM_less :: SmartRanges where "range_CM_less = make_SmartRanges 1 (cm_conv_channels_max - 1) 1 None"

definition all_swizzlings :: "Swizzling list" where "all_swizzlings = [KEY_0, KEY_1, KEY_2, KEY_3, KEY_4, KEY_5]"

definition all_layouts :: "Layout list" where "all_layouts = [ZXY, XYZ, XZY, YXZ, YZX, ZYX]"

definition cuboid_execution_order_all :: "ExecutionMode list" where
  "cuboid_execution_order_all = [CUBOID_4x16, CUBOID_8x16, CUBOID_16x16]"

definition base_operations :: "Operation list" where
  "base_operations =
     [Operation.CONVOLUTION, Operation.DW_CONVOLUTION, Operation.CM_CONVOLUTION, Operation.ELTWISE, Operation.MAXPOOL]"

section \<open>VPU 2.0\<close>

definition VPU2_0_valid_execution_order_all :: "ExecutionMode list" where
  "VPU2_0_valid_execution_order_all = [VECTOR_FP16, VECTOR, MATRIX]"

definition VPU2_0_valid_in_out_datatypes :: "DataType list" where
  "VPU2_0_valid_in_out_datatypes = [INT8, UINT8, FLOAT16, BFLOAT16]"

definition VPU2_0_valid_wt_datatypes :: "DataType list" where
  "VPU2_0_valid_wt_datatypes = [INT8, UINT8, FLOAT16, BFLOAT16]"

definition VPU2_0_valid_operations :: "Operation list" where
  "VPU2_0_valid_operations = base_operations"

definition VPU2_0_input_channels_restrictions :: "(Operation \<times> MultiSmartRanges) list" where
  "VPU2_0_input_channels_restrictions =
     [(Operation.CONVOLUTION, [range_16_max]), (Operation.DW_CONVOLUTION, [range_16_max]),
      (Operation.CM_CONVOLUTION, [range_CM]), (Operation.ELTWISE, [range_16_max]), (Operation.MAXPOOL, [range_16_max])]"

definition VPU2_0_values :: "Constraints list \<Rightarrow> Level \<Rightarrow> int \<Rightarrow> IDeviceValidValues" where
  "VPU2_0_values behavior lvl start_factor =
     \<lparr>operations_dynamic_behavior = behavior, generation = VPU2_0, vv_level = lvl,
      valid_execution_order_map = same_for base_operations VPU2_0_valid_execution_order_all,
      valid_swizzlings = [KEY_0], valid_layouts = [ZMAJOR, CMAJOR], devices = [VPU_2_0, VPU_2_1],
      cmx_KB_sizes = [(VPU_2_0, 1024), (VPU_2_1, 1024)], output_write_tile_options = [1],
      isi_stategy_options = [CLUSTERING], weigths_alignment_B = 16,
      input_heigth_width_start_factor_SOHW = start_factor,
      input_datatypes = same_for base_operations VPU2_0_valid_in_out_datatypes,
      output_datatypes = same_for base_operations VPU2_0_valid_in_out_datatypes,
      weights_datatypes = same_for base_operations VPU2_0_valid_wt_datatypes,
      valid_operations = VPU2_0_valid_operations, alignement_size_bytes = 16384, out_innermost_dim_alignment_B = 1,
      legacy_samples_alignment_weights = False, valid_mpe_engines = [SCL],
      input_channels_restrictions = VPU2_0_input_channels_restrictions, input_channels_restriction_extensions = [],
      output_channels_restrictions = [range_16_max], batch_restrictions = [allValues_range]\<rparr>"

definition VPU2_0_WorkloadValidValues :: "Constraints list \<Rightarrow> IDeviceValidValues" where
  "VPU2_0_WorkloadValidValues behavior = VPU2_0_values behavior WorkloadValidValues 1"

definition VPU2_0_LayerValidValues :: "Constraints list \<Rightarrow> IDeviceValidValues" where
  "VPU2_0_LayerValidValues behavior = VPU2_0_values behavior LayerValidValues 2"

definition VPU2_0_LayerOnTileValidValues :: "Constraints list \<Rightarrow> IDeviceValidValues" where
  "VPU2_0_LayerOnTileValidValues behavior = VPU2_0_values behavior LayerOnTileValidValues 1"

section \<open>VPU 2.7\<close>

definition VPU2_7_valid_in_out_datatypes :: "DataType list" where
  "VPU2_7_valid_in_out_datatypes = [INT8, UINT8, FLOAT16, BFLOAT16]"

definition VPU2_7_valid_wt_datatypes :: "DataType list" where
  "VPU2_7_valid_wt_datatypes = [INT4, UINT4, INT8, UINT8, FLOAT16, BFLOAT16]"

definition VPU2_7_valid_operations :: "Operation list" where
  "VPU2_7_valid_operations = base_operations"

definition VPU2_7_input_channels_restrictions :: "(Operation \<times> MultiSmartRanges) list" where
  "VPU2_7_input_channels_restrictions =
     [(Operation.CONVOLUTION, [range_16_max]), (Operation.DW_CONVOLUTION, [range_16_32_64]),
      (Operation.CM_CONVOLUTION, [range_CM]), (Operation.ELTWISE, [range_16_max]), (Operation.MAXPOOL, [range_16_32_64])]"

definition VPU2_7_input_channels_restrictions_layer :: "(Operation \<times> MultiSmartRanges) list" where
  "VPU2_7_input_channels_restrictions_layer =
     [(Operation.CONVOLUTION, [range_16_max]), (Operation.DW_CONVOLUTION, [range_16_max]),
      (Operation.CM_CONVOLUTION, [range_CM_less]), (Operation.ELTWISE, [range_16_max]), (Operation.MAXPOOL, [range_16_max])]"

definition VPU2_7_input_channels_restrictions_layersplit :: "(Operation \<times> MultiSmartRanges) list" where
  "VPU2_7_input_channels_restrictions_layersplit =
     [(Operation.CONVOLUTION, [range_16_max]), (Operation.DW_CONVOLUTION, [range_16_max]),
      (Operation.CM_CONVOLUTION, [range_CM_less]), (Operation.ELTWISE, [range_16_max]), (Operation.MAXPOOL, [range_16_max])]"

definition VPU2_7_values ::
  "Constraints list \<Rightarrow> Level \<Rightarrow> int \<Rightarrow> (Operation \<times> MultiSmartRanges) list \<Rightarrow> IDeviceValidValues" where
  "VPU2_7_values behavior lvl start_factor channels_rules =
     \<lparr>operations_dynamic_behavior = behavior, generation = VPU2_7, vv_level = lvl,
      valid_execution_order_map = same_for base_operations cuboid_execution_order_all,
      valid_swizzlings = all_swizzlings, valid_layouts = all_layouts, devices = [VPU_2_7],
      cmx_KB_sizes = [(VPU_2_7, (2 * 1024 * 100) sdiv 100)], output_write_tile_options = [1, 2],
      isi_stategy_options = [CLUSTERING, SPLIT_OVER_H, SPLIT_OVER_K], weigths_alignment_B = 16,
      input_heigth_width_start_factor_SOHW = start_factor,
      input_datatypes = same_for base_operations VPU2_7_valid_in_out_datatypes,
      output_datatypes = same_for base_operations VPU2_7_valid_in_out_datatypes,
      weights_datatypes = same_for base_operations VPU2_7_valid_wt_datatypes,
      valid_operations = VPU2_7_valid_operations, alignement_size_bytes = 16384, out_innermost_dim_alignment_B = 1,
      legacy_samples_alignment_weights = True, valid_mpe_engines = [SCL],
      input_channels_restrictions = channels_rules, input_channels_restriction_extensions = [],
      output_channels_restrictions = [range_16_max], batch_restrictions = [allValues_range]\<rparr>"

definition VPU2_7_WorkloadValidValues :: "Constraints list \<Rightarrow> IDeviceValidValues" where
  "VPU2_7_WorkloadValidValues behavior = VPU2_7_values behavior WorkloadValidValues 1 VPU2_7_input_channels_restrictions"

definition VPU2_7_LayerValidValues :: "Constraints list \<Rightarrow> IDeviceValidValues" where
  "VPU2_7_LayerValidValues behavior = VPU2_7_values behavior LayerValidValues 2 VPU2_7_input_channels_restrictions_layer"

definition VPU2_7_LayerOnTileValidValues :: "Constraints list \<Rightarrow> IDeviceValidValues" where
  "VPU2_7_LayerOnTileValidValues behavior =
     VPU2_7_values behavior LayerOnTileValidValues 1 VPU2_7_input_channels_restrictions_layersplit"

section \<open>VPU 4.0\<close>

definition VPU4_0_valid_in_datatypes :: "DataType list" where
  "VPU4_0_valid_in_datatypes = [INT8, UINT8, FLOAT16, BFLOAT16]"

definition VPU4_0_valid_out_datatypes :: "DataType list" where
  "VPU4_0_valid_out_datatypes = [INT8, UINT8, FLOAT16, BFLOAT16, FLOAT32]"

definition VPU4_0_valid_wt_datatypes :: "DataType list" where
  "VPU4_0_valid_wt_datatypes = [INT8, UINT8, INT4, UINT4, FLOAT16, BFLOAT16]"

definition VPU4_0_valid_operations :: "Operation list" where
  "VPU4_0_valid_operations = base_operations"

definition VPU4_0_input_channels_restrictions :: "(Operation \<times> MultiSmartRanges) list" where
  "VPU4_0_input_channels_restrictions =
     [(Operation.CONVOLUTION, [range_16_max]), (Operation.DW_CONVOLUTION, [range_16_32_64]),
      (Operation.CM_CONVOLUTION, [range_CM_less]), (Operation.ELTWISE, [range_16_max]), (Operation.MAXPOOL, [range_16_32_64])]"

definition VPU4_0_input_channels_restrictions_layer :: "(Operation \<times> MultiSmartRanges) list" where
  "VPU4_0_input_channels_restrictions_layer =
     [(Operation.CONVOLUTION, [range_16_max]), (Operation.DW_CONVOLUTION, [range_16_max]),
      (Operation.CM_CONVOLUTION, [range_CM_less]), (Operation.ELTWISE, [range_16_max]), (Operation.MAXPOOL, [range_16_max])]"

definition VPU4_0_input_channels_restrictions_layersplit :: "(Operation \<times> MultiSmartRanges) list" where
  "VPU4_0_input_channels_restrictions_layersplit =
     [(Operation.CONVOLUTION, [range_16_max]), (Operation.DW_CONVOLUTION, [range_16_max]),
      (Operation.CM_CONVOLUTION, [range_CM_less]), (Operation.ELTWISE, [range_16_max]), (Operation.MAXPOOL, [range_16_max])]"

definition VPU4_0_values ::
  "Constraints list \<Rightarrow> Level \<Rightarrow> int \<Rightarrow> (Operation \<times> MultiSmartRanges) list \<Rightarrow> IDeviceValidValues" where
  "VPU4_0_values behavior lvl start_factor channels_rules =
     \<lparr>operations_dynamic_behavior = behavior, generation = VPU4_0, vv_level = lvl,
      valid_execution_order_map = same_for base_operations cuboid_execution_order_all,
      valid_swizzlings = all_swizzlings, valid_layouts = all_layouts, devices = [VPU_4_0],
      cmx_KB_sizes = [(VPU_4_0, ((512 + 1024) * 100) sdiv 100)], output_write_tile_options = [1, 2, 3, 4, 5, 6, 7, 8],
      isi_stategy_options = [CLUSTERING, SPLIT_OVER_H, SPLIT_OVER_K], weigths_alignment_B = 32,
      input_heigth_width_start_factor_SOHW = start_factor,
      input_datatypes = same_for base_operations VPU4_0_valid_in_datatypes,
      output_datatypes = same_for base_operations VPU4_0_valid_out_datatypes,
      weights_datatypes = same_for base_operations VPU4_0_valid_wt_datatypes,
      valid_operations = VPU4_0_valid_operations, alignement_size_bytes = 16384, out_innermost_dim_alignment_B = 1,
      legacy_samples_alignment_weights = True, valid_mpe_engines = [SCL],
      input_channels_restrictions = channels_rules, input_channels_restriction_extensions = [],
      output_channels_restrictions = [range_16_max], batch_restrictions = [allValues_range]\<rparr>"

definition VPU4_0_WorkloadValidValues :: "Constraints list \<Rightarrow> IDeviceValidValues" where
  "VPU4_0_WorkloadValidValues behavior = VPU4_0_values behavior WorkloadValidValues 1 VPU4_0_input_channels_restrictions"

definition VPU4_0_LayerValidValues :: "Constraints list \<Rightarrow> IDeviceValidValues" where
  "VPU4_0_LayerValidValues behavior = VPU4_0_values behavior LayerValidValues 2 VPU4_0_input_channels_restrictions_layer"

definition VPU4_0_LayerOnTileValidValues :: "Constraints list \<Rightarrow> IDeviceValidValues" where
  "VPU4_0_LayerOnTileValidValues behavior =
     VPU4_0_values behavior LayerOnTileValidValues 1 VPU4_0_input_channels_restrictions_layersplit"

section \<open>NPU 5.0\<close>

definition eltwise_execution_order :: "ExecutionMode list" where
  "eltwise_execution_order = [CUBOID_8x16]"

definition DW_CONV_and_MAXPOOL_execution_order :: "ExecutionMode list" where
  "DW_CONV_and_MAXPOOL_execution_order = [CUBOID_16x16]"

definition VPU5_0_valid_in_datatypes :: "DataType list" where
  "VPU5_0_valid_in_datatypes = [INT8, UINT8, FLOAT16, BFLOAT16, HF8, BF8]"

definition VPU5_0_valid_out_datatypes :: "DataType list" where
  "VPU5_0_valid_out_datatypes = [INT8, UINT8, FLOAT16, BFLOAT16, HF8, BF8, INT32, FLOAT32]"

definition VPU5_0_valid_wt_datatypes :: "DataType list" where
  "VPU5_0_valid_wt_datatypes = [INT8, UINT8, INT4, UINT4, INT2, UINT2, FLOAT16, BFLOAT16, HF8, BF8]"

definition VPU5_0_valid_operations :: "Operation list" where
  "VPU5_0_valid_operations =
     [Operation.CONVOLUTION, Operation.DW_CONVOLUTION, Operation.CM_CONVOLUTION, Operation.ELTWISE, Operation.MAXPOOL,
      Operation.ELTWISE_MUL, Operation.LAYER_NORM, Operation.AVEPOOL]"

definition VPU5_0_valid_execution_order_map :: "(Operation \<times> ExecutionMode list) list" where
  "VPU5_0_valid_execution_order_map =
     [(Operation.CONVOLUTION, cuboid_execution_order_all), (Operation.DW_CONVOLUTION, DW_CONV_and_MAXPOOL_execution_order),
      (Operation.CM_CONVOLUTION, cuboid_execution_order_all), (Operation.MAXPOOL, DW_CONV_and_MAXPOOL_execution_order),
      (Operation.ELTWISE, eltwise_execution_order), (Operation.ELTWISE_MUL, eltwise_execution_order),
      (Operation.LAYER_NORM, cuboid_execution_order_all), (Operation.AVEPOOL, DW_CONV_and_MAXPOOL_execution_order)]"

definition VPU5_0_input_channels_restrictions :: "(Operation \<times> MultiSmartRanges) list" where
  "VPU5_0_input_channels_restrictions =
     [(Operation.CONVOLUTION, [range_16_max]), (Operation.DW_CONVOLUTION, [range_16_32_64]),
      (Operation.CM_CONVOLUTION, [range_CM_less]), (Operation.ELTWISE, [range_16_max]), (Operation.MAXPOOL, [range_16_32_64]),
      (Operation.ELTWISE_MUL, [range_16_max]), (Operation.LAYER_NORM, [range_16_max]),
      (Operation.AVEPOOL, [range_16_32_64])]"

definition VPU5_0_input_channels_restriction_extensions :: MultiSmartRanges where
  "VPU5_0_input_channels_restriction_extensions = [make_SmartRanges 1 9 1 None, make_SmartRanges 1 15 1 None]"

definition VPU5_0_output_channels_restrictions :: MultiSmartRanges where
  "VPU5_0_output_channels_restrictions = [make_SmartRanges 1 15 1 None, range_16_max]"

definition VPU5_0_input_channels_restrictions_layer :: "(Operation \<times> MultiSmartRanges) list" where
  "VPU5_0_input_channels_restrictions_layer =
     [(Operation.CONVOLUTION, [range_16_max]), (Operation.DW_CONVOLUTION, [range_16_max]),
      (Operation.CM_CONVOLUTION, [range_CM_less]), (Operation.ELTWISE, [range_16_max]), (Operation.MAXPOOL, [range_16_max]),
      (Operation.ELTWISE_MUL, [range_16_max]), (Operation.LAYER_NORM, [range_16_max]), (Operation.AVEPOOL, [range_16_max])]"

definition VPU5_0_input_channels_restrictions_layersplit :: "(Operation \<times> MultiSmartRanges) list" where
  "VPU5_0_input_channels_restrictions_layersplit =
     [(Operation.CONVOLUTION, [range_16_max]), (Operation.DW_CONVOLUTION, [range_16_max]),
      (Operation.CM_CONVOLUTION, [range_CM_less]), (Operation.ELTWISE, [range_16_max]), (Operation.MAXPOOL, [range_16_max]),
      (Operation.ELTWISE_MUL, [range_16_max]), (Operation.LAYER_NORM, [range_16_max]), (Operation.AVEPOOL, [range_16_max])]"

definition VPU5_0_values ::
  "Constraints list \<Rightarrow> Level \<Rightarrow> int \<Rightarrow> (Operation \<times> MultiSmartRanges) list \<Rightarrow> SmartRanges \<Rightarrow> IDeviceValidValues" where
  "VPU5_0_values behavior lvl start_factor channels_rules batch_rules =
     \<lparr>operations_dynamic_behavior = behavior, generation = VPU5_0, vv_level = lvl,
      valid_execution_order_map = VPU5_0_valid_execution_order_map,
      valid_swizzlings = all_swizzlings, valid_layouts = all_layouts, devices = [NPU_5_0, NPU_5_0_W],
      cmx_KB_sizes = [(NPU_5_0, ((512 + 1024) * 100) sdiv 100), (NPU_5_0_W, ((1024 + 1024) * 100) sdiv 100)],
      output_write_tile_options = [1, 2, 3, 4, 5, 6, 7, 8],
      isi_stategy_options = [CLUSTERING, SPLIT_OVER_K], weigths_alignment_B = 16,
      input_heigth_width_start_factor_SOHW = start_factor,
      input_datatypes = same_for VPU5_0_valid_operations VPU5_0_valid_in_datatypes,
      output_datatypes = same_for VPU5_0_valid_operations VPU5_0_valid_out_datatypes,
      weights_datatypes = same_for VPU5_0_valid_operations VPU5_0_valid_wt_datatypes,
      valid_operations = VPU5_0_valid_operations, alignement_size_bytes = 32, out_innermost_dim_alignment_B = 16,
      legacy_samples_alignment_weights = False, valid_mpe_engines = [SCL],
      input_channels_restrictions = channels_rules,
      input_channels_restriction_extensions = VPU5_0_input_channels_restriction_extensions,
      output_channels_restrictions = VPU5_0_output_channels_restrictions, batch_restrictions = [batch_rules]\<rparr>"

definition VPU5_0_WorkloadValidValues :: "Constraints list \<Rightarrow> IDeviceValidValues" where
  "VPU5_0_WorkloadValidValues behavior =
     VPU5_0_values behavior WorkloadValidValues 1 VPU5_0_input_channels_restrictions onlyOne_range"

definition VPU5_0_LayerValidValues :: "Constraints list \<Rightarrow> IDeviceValidValues" where
  "VPU5_0_LayerValidValues behavior =
     VPU5_0_values behavior LayerValidValues 2 VPU5_0_input_channels_restrictions_layer onlyOne_range"

definition VPU5_0_LayerOnTileValidValues :: "Constraints list \<Rightarrow> IDeviceValidValues" where
  "VPU5_0_LayerOnTileValidValues behavior =
     VPU5_0_values behavior LayerOnTileValidValues 1 VPU5_0_input_channels_restrictions_layersplit onlyOne_range"

section \<open>Configurations by device\<close>

definition OperationsContext :: "IDeviceValidValues list" where
  "OperationsContext =
     map (\<lambda>DeviceValues. DeviceValues OperationsBehaviour)
       [VPU2_0_WorkloadValidValues, VPU2_7_WorkloadValidValues, VPU4_0_WorkloadValidValues, VPU5_0_WorkloadValidValues]"

definition VPU_LayerValidator :: "IDeviceValidValues list" where
  "VPU_LayerValidator =
     map (\<lambda>DeviceValues. DeviceValues LayerOperationsBehaviour)
       [VPU2_0_LayerValidValues, VPU2_7_LayerValidValues, VPU4_0_LayerValidValues, VPU5_0_LayerValidValues]"

definition SplitLayersContext :: "IDeviceValidValues list" where
  "SplitLayersContext =
     map (\<lambda>DeviceValues. DeviceValues OperationsBehaviour)
       [VPU2_0_LayerOnTileValidValues, VPU2_7_LayerOnTileValidValues, VPU4_0_LayerOnTileValidValues,
        VPU5_0_LayerOnTileValidValues]"

definition is_supported :: "IDeviceValidValues list \<Rightarrow> VPUDevice \<Rightarrow> bool" where
  "is_supported validators_config d = list_ex (\<lambda>config. List.member (devices config) d) validators_config"

text \<open>The text of the exception looks the device up with \<open>at\<close>, which throws for a device without a text.\<close>

definition get_config :: "IDeviceValidValues list \<Rightarrow> VPUDevice \<Rightarrow> IDeviceValidValues result" where
  "get_config validators_config d =
     (case List.find (\<lambda>config. List.member (devices config) d) validators_config of
        Some config \<Rightarrow> Inr config
      | None \<Rightarrow>
          (case enum_text_of VPUDevice_enum VPUDevice_ToText d of
             None \<Rightarrow> Inl (out_of_range ''map::at'')
           | Some t \<Rightarrow> Inl (runtime_error
               (''[ERROR] NO configuration exist for device : '' @ to_string (enum_position VPUDevice_enum d) @ '' [ '' @ t @
                '' ] File: vpu/validation/behaviors_and_devices_containers.h Line: 181''))))"

section \<open>The data of the configurations\<close>

lemma VPU2_0_values_select [simp]:
  "operations_dynamic_behavior (VPU2_0_values b l s) = b"
  "generation (VPU2_0_values b l s) = VPU2_0"
  "vv_level (VPU2_0_values b l s) = l"
  "valid_execution_order_map (VPU2_0_values b l s) = same_for base_operations VPU2_0_valid_execution_order_all"
  "valid_swizzlings (VPU2_0_values b l s) = [KEY_0]"
  "valid_layouts (VPU2_0_values b l s) = [ZMAJOR, CMAJOR]"
  "devices (VPU2_0_values b l s) = [VPU_2_0, VPU_2_1]"
  "cmx_KB_sizes (VPU2_0_values b l s) = [(VPU_2_0, 1024), (VPU_2_1, 1024)]"
  "output_write_tile_options (VPU2_0_values b l s) = [1]"
  "isi_stategy_options (VPU2_0_values b l s) = [CLUSTERING]"
  "weigths_alignment_B (VPU2_0_values b l s) = 16"
  "input_heigth_width_start_factor_SOHW (VPU2_0_values b l s) = s"
  "input_datatypes (VPU2_0_values b l s) = same_for base_operations VPU2_0_valid_in_out_datatypes"
  "output_datatypes (VPU2_0_values b l s) = same_for base_operations VPU2_0_valid_in_out_datatypes"
  "weights_datatypes (VPU2_0_values b l s) = same_for base_operations VPU2_0_valid_wt_datatypes"
  "valid_operations (VPU2_0_values b l s) = VPU2_0_valid_operations"
  "alignement_size_bytes (VPU2_0_values b l s) = 16384"
  "out_innermost_dim_alignment_B (VPU2_0_values b l s) = 1"
  "legacy_samples_alignment_weights (VPU2_0_values b l s) = False"
  "valid_mpe_engines (VPU2_0_values b l s) = [SCL]"
  "input_channels_restrictions (VPU2_0_values b l s) = VPU2_0_input_channels_restrictions"
  "input_channels_restriction_extensions (VPU2_0_values b l s) = []"
  "output_channels_restrictions (VPU2_0_values b l s) = [range_16_max]"
  "batch_restrictions (VPU2_0_values b l s) = [allValues_range]"
  by (simp_all add: VPU2_0_values_def)

lemma VPU2_7_values_select [simp]:
  "operations_dynamic_behavior (VPU2_7_values b l s r) = b"
  "generation (VPU2_7_values b l s r) = VPU2_7"
  "vv_level (VPU2_7_values b l s r) = l"
  "valid_execution_order_map (VPU2_7_values b l s r) = same_for base_operations cuboid_execution_order_all"
  "valid_swizzlings (VPU2_7_values b l s r) = all_swizzlings"
  "valid_layouts (VPU2_7_values b l s r) = all_layouts"
  "devices (VPU2_7_values b l s r) = [VPU_2_7]"
  "cmx_KB_sizes (VPU2_7_values b l s r) = [(VPU_2_7, (2 * 1024 * 100) sdiv 100)]"
  "output_write_tile_options (VPU2_7_values b l s r) = [1, 2]"
  "isi_stategy_options (VPU2_7_values b l s r) = [CLUSTERING, SPLIT_OVER_H, SPLIT_OVER_K]"
  "weigths_alignment_B (VPU2_7_values b l s r) = 16"
  "input_heigth_width_start_factor_SOHW (VPU2_7_values b l s r) = s"
  "input_datatypes (VPU2_7_values b l s r) = same_for base_operations VPU2_7_valid_in_out_datatypes"
  "output_datatypes (VPU2_7_values b l s r) = same_for base_operations VPU2_7_valid_in_out_datatypes"
  "weights_datatypes (VPU2_7_values b l s r) = same_for base_operations VPU2_7_valid_wt_datatypes"
  "valid_operations (VPU2_7_values b l s r) = VPU2_7_valid_operations"
  "alignement_size_bytes (VPU2_7_values b l s r) = 16384"
  "out_innermost_dim_alignment_B (VPU2_7_values b l s r) = 1"
  "legacy_samples_alignment_weights (VPU2_7_values b l s r) = True"
  "valid_mpe_engines (VPU2_7_values b l s r) = [SCL]"
  "input_channels_restrictions (VPU2_7_values b l s r) = r"
  "input_channels_restriction_extensions (VPU2_7_values b l s r) = []"
  "output_channels_restrictions (VPU2_7_values b l s r) = [range_16_max]"
  "batch_restrictions (VPU2_7_values b l s r) = [allValues_range]"
  by (simp_all add: VPU2_7_values_def)

lemma VPU4_0_values_select [simp]:
  "operations_dynamic_behavior (VPU4_0_values b l s r) = b"
  "generation (VPU4_0_values b l s r) = VPU4_0"
  "vv_level (VPU4_0_values b l s r) = l"
  "valid_execution_order_map (VPU4_0_values b l s r) = same_for base_operations cuboid_execution_order_all"
  "valid_swizzlings (VPU4_0_values b l s r) = all_swizzlings"
  "valid_layouts (VPU4_0_values b l s r) = all_layouts"
  "devices (VPU4_0_values b l s r) = [VPU_4_0]"
  "cmx_KB_sizes (VPU4_0_values b l s r) = [(VPU_4_0, ((512 + 1024) * 100) sdiv 100)]"
  "output_write_tile_options (VPU4_0_values b l s r) = [1, 2, 3, 4, 5, 6, 7, 8]"
  "isi_stategy_options (VPU4_0_values b l s r) = [CLUSTERING, SPLIT_OVER_H, SPLIT_OVER_K]"
  "weigths_alignment_B (VPU4_0_values b l s r) = 32"
  "input_heigth_width_start_factor_SOHW (VPU4_0_values b l s r) = s"
  "input_datatypes (VPU4_0_values b l s r) = same_for base_operations VPU4_0_valid_in_datatypes"
  "output_datatypes (VPU4_0_values b l s r) = same_for base_operations VPU4_0_valid_out_datatypes"
  "weights_datatypes (VPU4_0_values b l s r) = same_for base_operations VPU4_0_valid_wt_datatypes"
  "valid_operations (VPU4_0_values b l s r) = VPU4_0_valid_operations"
  "alignement_size_bytes (VPU4_0_values b l s r) = 16384"
  "out_innermost_dim_alignment_B (VPU4_0_values b l s r) = 1"
  "legacy_samples_alignment_weights (VPU4_0_values b l s r) = True"
  "valid_mpe_engines (VPU4_0_values b l s r) = [SCL]"
  "input_channels_restrictions (VPU4_0_values b l s r) = r"
  "input_channels_restriction_extensions (VPU4_0_values b l s r) = []"
  "output_channels_restrictions (VPU4_0_values b l s r) = [range_16_max]"
  "batch_restrictions (VPU4_0_values b l s r) = [allValues_range]"
  by (simp_all add: VPU4_0_values_def)

lemma VPU5_0_values_select [simp]:
  "operations_dynamic_behavior (VPU5_0_values b l s r br) = b"
  "generation (VPU5_0_values b l s r br) = VPU5_0"
  "vv_level (VPU5_0_values b l s r br) = l"
  "valid_execution_order_map (VPU5_0_values b l s r br) = VPU5_0_valid_execution_order_map"
  "valid_swizzlings (VPU5_0_values b l s r br) = all_swizzlings"
  "valid_layouts (VPU5_0_values b l s r br) = all_layouts"
  "devices (VPU5_0_values b l s r br) = [NPU_5_0, NPU_5_0_W]"
  "cmx_KB_sizes (VPU5_0_values b l s r br) = [(NPU_5_0, ((512 + 1024) * 100) sdiv 100), (NPU_5_0_W, ((1024 + 1024) * 100) sdiv 100)]"
  "output_write_tile_options (VPU5_0_values b l s r br) = [1, 2, 3, 4, 5, 6, 7, 8]"
  "isi_stategy_options (VPU5_0_values b l s r br) = [CLUSTERING, SPLIT_OVER_K]"
  "weigths_alignment_B (VPU5_0_values b l s r br) = 16"
  "input_heigth_width_start_factor_SOHW (VPU5_0_values b l s r br) = s"
  "input_datatypes (VPU5_0_values b l s r br) = same_for VPU5_0_valid_operations VPU5_0_valid_in_datatypes"
  "output_datatypes (VPU5_0_values b l s r br) = same_for VPU5_0_valid_operations VPU5_0_valid_out_datatypes"
  "weights_datatypes (VPU5_0_values b l s r br) = same_for VPU5_0_valid_operations VPU5_0_valid_wt_datatypes"
  "valid_operations (VPU5_0_values b l s r br) = VPU5_0_valid_operations"
  "alignement_size_bytes (VPU5_0_values b l s r br) = 32"
  "out_innermost_dim_alignment_B (VPU5_0_values b l s r br) = 16"
  "legacy_samples_alignment_weights (VPU5_0_values b l s r br) = False"
  "valid_mpe_engines (VPU5_0_values b l s r br) = [SCL]"
  "input_channels_restrictions (VPU5_0_values b l s r br) = r"
  "input_channels_restriction_extensions (VPU5_0_values b l s r br) = VPU5_0_input_channels_restriction_extensions"
  "output_channels_restrictions (VPU5_0_values b l s r br) = VPU5_0_output_channels_restrictions"
  "batch_restrictions (VPU5_0_values b l s r br) = [br]"
  by (simp_all add: VPU5_0_values_def)

end
