(* ===== verification/Memory_Calculator.thy ===== *)
theory Memory_Calculator
  imports Op_Behaviour Device_Rules
begin

text \<open>
  The CMX memory of a workload: \<^verbatim>\<open>include/vpu/validation/memory_calculator.h\<close> and \<open>ContextualMemoryCalculator\<close> of
  \<^verbatim>\<open>dpu_operations_validator.h\<close>. The member \<open>ignore_cmx_overhead\<close>, true by default, is an argument.
\<close>

record MemorySize =
  mem_cmx :: int
  mem_input_0 :: int
  mem_input_1 :: int
  mem_output_0 :: int
  mem_inplace_output :: bool
  mem_cmx_overhead :: int
  mem_ignore_overhead :: bool

definition MemorySize_of_cmx :: "int \<Rightarrow> MemorySize" where
  "MemorySize_of_cmx cmx =
     \<lparr>mem_cmx = cmx, mem_input_0 = 0, mem_input_1 = 0, mem_output_0 = 0, mem_inplace_output = False,
      mem_cmx_overhead = 0, mem_ignore_overhead = False\<rparr>"

definition ignore_cmx_overhead_default :: bool where "ignore_cmx_overhead_default = True"

definition compute_memory :: "bool \<Rightarrow> DPUOperation \<Rightarrow> IDeviceValidValues \<Rightarrow> MemorySize result" where
  "compute_memory ignore_cmx_overhead w v =
     bind_result (get_specific_behaviour v (dop_operation w)) (\<lambda>operation_behaviour.
       let in_0_aligned_size = input_0_aligned_size_bytes operation_behaviour v w;
           in_1_aligned_size = input_1_aligned_size_bytes operation_behaviour v w;
           out_0_aligned_size = output_0_aligned_size_bytes v w;
           elementwise = (dop_operation w = Operation.ELTWISE \<or> dop_operation w = Operation.ELTWISE_MUL);
           inplace_output = (elementwise \<and> dop_in_place_output_memory w);
           in_1_aligned_size = (if elementwise \<and> dop_weightless_operation w then 0 else in_1_aligned_size);
           cmx_sum = (if ignore_cmx_overhead then 0 else get_cmx_memory_aligned_overhead v) + in_0_aligned_size +
             in_1_aligned_size + (if inplace_output then 0 else out_0_aligned_size)
       in Inr \<lparr>mem_cmx = cmx_sum, mem_input_0 = in_0_aligned_size, mem_input_1 = in_1_aligned_size,
               mem_output_0 = out_0_aligned_size, mem_inplace_output = inplace_output,
               mem_cmx_overhead = get_cmx_memory_aligned_overhead v, mem_ignore_overhead = ignore_cmx_overhead\<rparr>)"

definition compute_wl_memory_operation :: "IDeviceValidValues list \<Rightarrow> DPUOperation \<Rightarrow> MemorySize result" where
  "compute_wl_memory_operation context_ref w =
     (if \<not> is_supported context_ref (dop_device w) then Inr (MemorySize_of_cmx (- 1))
      else bind_result (get_config context_ref (dop_device w)) (\<lambda>config.
             compute_memory ignore_cmx_overhead_default w config))"

definition compute_wl_memory :: "IDeviceValidValues list \<Rightarrow> DPUWorkload \<Rightarrow> MemorySize result" where
  "compute_wl_memory context_ref wl =
     (if \<not> is_supported context_ref (device wl) then Inr (MemorySize_of_cmx (- 1))
      else bind_result (get_config context_ref (device wl)) (\<lambda>config.
             bind_result (DPUOperation_with wl config) (\<lambda>w. compute_memory ignore_cmx_overhead_default w config)))"

definition show_MemorySize :: "MemorySize \<Rightarrow> string" where
  "show_MemorySize d =
     (let nl = [CHR 0x0A]; tab = [CHR 0x09]; yes_no = (\<lambda>b. if b then ''true'' else ''false'')
      in ''WL CMX MemorySize (aligned): '' @ nl @
         '' total: '' @ tab @ to_string (mem_cmx d) @ '' ;'' @ nl @
         '' input_0: '' @ tab @ to_string (mem_input_0 d) @ '' ;'' @ nl @
         '' input_1: '' @ tab @ to_string (mem_input_1 d) @ '' ;'' @ nl @
         '' output_0: '' @ tab @ to_string (mem_output_0 d) @ '' ;'' @ nl @
         '' inplace_output: '' @ tab @ yes_no (mem_inplace_output d) @ '' ;'' @ nl @
         '' cmx overhead: '' @ tab @ to_string (mem_cmx_overhead d) @ '' ;'' @ nl @
         '' ignore_overhead: '' @ tab @ yes_no (mem_ignore_overhead d) @ '' ;'' @ nl)"

end
