(* ===== verification/Dpu_Validator.thy ===== *)
theory Dpu_Validator
  imports Memory_Calculator
begin

text \<open>
  The validation of a workload: \<open>DPU_ConfigurableOperationValidator\<close> of \<^verbatim>\<open>include/vpu/validation/dpu_operations_validator.h\<close>.
  The checks are listed in the order of the code; a check whose table lookup or list construction throws ends the run, the
  handler adds the text of the exception to the findings. \<open>tags\<close> is the static flag \<open>Checker::print_tags\<close>.
\<close>

section \<open>Texts of values\<close>

definition show_device :: "VPUDevice \<Rightarrow> string" where "show_device = show_enum VPUDevice_enum VPUDevice_ToText"
definition show_operation :: "Operation \<Rightarrow> string" where "show_operation = show_enum Operation_enum Operation_ToText"
definition show_engine :: "MPEEngine \<Rightarrow> string" where "show_engine = show_enum MPEEngine_enum MPEEngine_ToText"
definition show_isi :: "ISIStrategy \<Rightarrow> string" where "show_isi = show_enum ISIStrategy_enum ISIStrategy_ToText"
definition show_datatype :: "DataType \<Rightarrow> string" where "show_datatype = show_enum DataType_enum DataType_ToText"
definition show_layout :: "Layout \<Rightarrow> string" where "show_layout = show_enum Layout_enum Layout_ToText"
definition show_swizzling :: "Swizzling \<Rightarrow> string" where "show_swizzling = show_enum Swizzling_enum Swizzling_ToText"
definition show_execution :: "ExecutionMode \<Rightarrow> string" where
  "show_execution = show_enum ExecutionMode_enum ExecutionMode_ToText"

section \<open>Checks\<close>

definition halo_checks :: "DPUOperation \<Rightarrow> check_step list" where
  "halo_checks dpu =
     (let inHalo = input_0_halo (dop_halo dpu);
          k = dop_kernel dpu;
          outHalo = output_0_halo (dop_halo dpu);
          broadcastHalo = output_0_halo_broadcast_cnt (dop_halo dpu)
      in [fail_if (0 < pad_top k \<and> 0 < halo_top inHalo) ''Incompatible: Padding top >0 and input halo.top >0 '',
          fail_if (0 < pad_bottom k \<and> 0 < halo_bottom inHalo) ''Incompatible: Padding bottom >0 and input halo.bottom >0 '',
          fail_if (0 < pad_left k \<and> 0 < halo_left inHalo) ''Incompatible: Padding left >0 and input halo.left >0 '',
          fail_if (0 < pad_right k \<and> 0 < halo_right inHalo) ''Incompatible: Padding right >0 and input halo.right >0 '',
          fail_if (isAllPositive outHalo = False \<or> isAllPositive broadcastHalo = False) ''Incompatible: Halo values <0''])"

definition check_halo :: "bool \<Rightarrow> DPUOperation \<Rightarrow> bool \<times> string" where
  "check_halo tags dpu = rule_result tags (halo_checks dpu)"

definition rule_check :: "bool \<times> string \<Rightarrow> check_step" where
  "rule_check r = fail_if (\<not> fst r) (snd r)"

definition identity_checks :: "DPUOperation \<Rightarrow> IDeviceValidValues \<Rightarrow> check_step list" where
  "identity_checks w config =
     [check (check_is_in_list show_device (dop_device w) (devices config) ''Device''),
      check (check_is_in_list show_operation (dop_operation w) (valid_operations config) ''Operation''),
      check (check_is_in_list show_engine (dop_mpe_engine w) (valid_mpe_engines config) ''MPEEngine''),
      check (check_is_in_list to_string (dop_output_write_tiles w) (output_write_tile_options config) ''output_write_tiles''),
      with_value (get_ISI_Strategy_Range config w) (\<lambda>opts.
        check (check_is_in_list show_isi (dop_isi_strategy w) opts ''ISI_strategy''))]"

definition kernel_checks :: "DPUOperation \<Rightarrow> IDeviceValidValues \<Rightarrow> Constraints \<Rightarrow> check_step" where
  "kernel_checks w config b =
     with_value (get_kernel_range config w) (\<lambda>kernel_options. run_checks
       [check (check_is_in_list to_string (ki_width (dop_kernel w)) kernel_options ''kernel.width''),
        check (check_is_in_list to_string (ki_height (dop_kernel w)) kernel_options ''kernel.height''),
        fail_if (normalize_kernel_dimension b (dop_isi_strategy w) (dop_kernel w))
          ''Kernel dimension are not normalized properly!(maybe not equal?)''])"

definition padding_checks :: "DPUOperation \<Rightarrow> IDeviceValidValues \<Rightarrow> check_step" where
  "padding_checks w config =
     with_value (get_pad_horz_range config w) (\<lambda>kernel_pad_horz_options.
     with_value (get_pad_vert_range config w) (\<lambda>kernel_pad_vert_options.
       let k = dop_kernel w in run_checks
       [check (check_is_in_list to_string (pad_left k) kernel_pad_horz_options ''kernel.pad_left''),
        check (check_is_in_list to_string (pad_top k) kernel_pad_vert_options ''kernel.pad_top''),
        check (check_is_in_list to_string (pad_right k) kernel_pad_horz_options ''kernel.pad_right''),
        check (check_is_in_list to_string (pad_bottom k) kernel_pad_vert_options ''kernel.pad_bottom'')]))"

definition tensor_type_checks :: "TensorInfo \<Rightarrow> DataType list result \<Rightarrow> IDeviceValidValues \<Rightarrow> string \<Rightarrow> check_step list" where
  "tensor_type_checks t types config name =
     [with_value types (\<lambda>ts. check (check_is_in_list show_datatype (ti_datatype t) ts (name @ ''.datatype''))),
      check (check_is_in_list show_layout (ti_layout t) (valid_layouts config) (name @ ''.layout'')),
      check (check_is_in_list show_swizzling (ti_swizzling t) (valid_swizzlings config) (name @ ''.swizzling''))]"

definition input_checks :: "DPUOperation \<Rightarrow> IDeviceValidValues \<Rightarrow> check_step list" where
  "input_checks w config =
     (let in0 = dop_input_0 w
      in [check (check_is_in_interval (as_int (ti_height in0)) (get_input_height_interval config w False) ''input_0.height''),
          check (check_is_in_interval (as_int (ti_width in0)) (get_input_width_interval config w False) ''input_0.width''),
          with_value (get_input_channels_restriction config w) (\<lambda>r.
            check (check_is_in_requirements (as_int (ti_channels in0)) r ''input_0.channels'')),
          check (check_is_in_requirements (as_int (ti_batch in0)) (get_batch_restrictions config) ''input_0.batch'')] @
         tensor_type_checks in0 (get_input_valid_datatypes config w) config ''input_0'')"

definition stride_checks :: "DPUOperation \<Rightarrow> (int list \<times> int list) result \<Rightarrow> check_step" where
  "stride_checks w strides_range =
     with_value strides_range (\<lambda>stride_options. run_checks
       [check (check_is_in_list to_string (stride_width (dop_kernel w)) (fst stride_options) ''kernel.stride_width''),
        check (check_is_in_list to_string (stride_height (dop_kernel w)) (snd stride_options) ''kernel.stride_height'')])"

definition SOH_H_input_Halo_extension :: "DPUOperation \<Rightarrow> int" where
  "SOH_H_input_Halo_extension w =
     (let k = dop_kernel w; HALO_max = ki_height k
      in if dop_isi_strategy w = SPLIT_OVER_H
         then (if pad_top k = 0 then HALO_max else 0) + (if pad_bottom k = 0 then HALO_max else 0) else 0)"

definition output_checks :: "DPUOperation \<Rightarrow> IDeviceValidValues \<Rightarrow> check_step list" where
  "output_checks w config =
     (let k = dop_kernel w; in0 = dop_input_0 w; out0 = dop_output_0 w;
          expected_out_width =
            compute_output_dim (as_int (ti_width in0)) (pad_left k) (pad_right k) (ki_width k) (stride_width k);
          expected_out_height_minimum =
            compute_output_dim (as_int (ti_height in0)) (pad_top k) (pad_bottom k) (ki_height k) (stride_height k);
          expected_out_height_maximum =
            compute_output_dim (as_int (ti_height in0) + SOH_H_input_Halo_extension w) (pad_top k) (pad_bottom k)
              (ki_height k) (stride_height k);
          allowed_heights = (expected_out_height_minimum, expected_out_height_maximum)
      in [fail_if (ti_batch out0 \<noteq> ti_batch in0) ''Output.batch different than input_0.batch!'',
          check (check_is_in_interval (as_int (ti_width out0)) (expected_out_width, expected_out_width) ''output_0.width''),
          check (check_is_in_interval (as_int (ti_height out0)) allowed_heights ''output_0.height''),
          with_value (get_output_channels_restriction config w) (\<lambda>r.
            check (check_is_in_requirements (as_int (ti_channels out0)) r ''output_0.channels'')),
          check (check_is_in_requirements (as_int (ti_batch out0)) (get_batch_restrictions config) ''output_0.batch'')] @
         tensor_type_checks out0 (get_output_valid_datatypes config w) config ''output_0'')"

definition sparsity_checks :: "bool \<Rightarrow> DPUOperation \<Rightarrow> IDeviceValidValues \<Rightarrow> Constraints \<Rightarrow> check_step list" where
  "sparsity_checks tags w config b =
     (let s0 = ti_sparsity (dop_input_0 w); s1 = ti_sparsity (dop_input_1 w)
      in [fail_if (s0 < 0 \<or> 1 < s0) ''input_0.sparsity not in interval [0.0, 1.0] !'',
          fail_if (ti_sparsity_enabled (dop_input_0 w) \<and> s0 < to_float32 (1 / 100))
            ''input_0.sparsity is enabled but too low, almost zero!'',
          fail_if (s1 < 0 \<or> 1 < s1) ''output_1.sparsity not in interval [0.0, 1.0] !'',
          rule_check (check_sparsity_rules tags b w)])"

definition weights_type_check :: "DPUOperation \<Rightarrow> IDeviceValidValues \<Rightarrow> check_step" where
  "weights_type_check w config =
     with_value (get_weights_valid_datatypes config w) (\<lambda>ts.
       check (check_is_in_list show_datatype (ti_datatype (dop_input_1 w)) ts ''input_1.datatype''))"

definition execution_order_check :: "DPUOperation \<Rightarrow> IDeviceValidValues \<Rightarrow> check_step" where
  "execution_order_check w config =
     check_when (mustExecuteHWLowLevelChecks config)
       (with_value (get_valid_execution_order config w) (\<lambda>orders.
          check (check_is_in_list show_execution (dop_execution_order w) orders ''Execution_Order'')))"

definition workload_checks :: "bool \<Rightarrow> DPUOperation \<Rightarrow> IDeviceValidValues \<Rightarrow> Constraints \<Rightarrow> check_step list" where
  "workload_checks tags w config b =
     identity_checks w config @ [kernel_checks w config b, padding_checks w config] @ input_checks w config @
     [stride_checks w (get_dpu_strides_range config w)] @ output_checks w config @ [weights_type_check w config] @
     sparsity_checks tags w config b @ [execution_order_check w config] @
     [rule_check (check_input_output_tensor_corelation tags b config w), rule_check (check_halo tags w)]"

definition check_workload_consistency ::
  "bool \<Rightarrow> DPUOperation \<Rightarrow> IDeviceValidValues \<Rightarrow> Constraints \<Rightarrow> SanityReport \<Rightarrow> SanityReport" where
  "check_workload_consistency tags w config operation_behaviour result =
     (let result = resetOK result;
          checker = try_checks (workload_checks tags w config operation_behaviour) (new_Checker tags)
      in if \<not> is_clean checker then (mark_invalid_DPU_workload result)\<lparr>info := findings checker\<rparr> else result)"

definition construct_input_1 :: "IDeviceValidValues list \<Rightarrow> DPUWorkload \<Rightarrow> VPUTensor result" where
  "construct_input_1 context_ref wl =
     bind_result (get_config context_ref (device wl)) (\<lambda>config.
     bind_result (DPUOperation_with wl config) (\<lambda>w.
       let t = dop_input_1 w
       in Inr \<lparr>shape = mk_shape (to_u32 (ti_width t)) (to_u32 (ti_height t)) (to_u32 (ti_channels t)) (to_u32 (ti_batch t)),
               dtype = restrict_datatype (ti_datatype t), layout = ti_layout t, sparsity = ti_sparsity_enabled t\<rparr>))"

end
