(* ===== verification/Dpu_Sanitizer.thy ===== *)
theory Dpu_Sanitizer
  imports Dpu_Validator
begin

text \<open>
  \<open>DPU_OperationSanitizer\<close> of \<^verbatim>\<open>include/vpu/validation/dpu_operations_sanitizer.h\<close>: the entry point of the validation of a
  workload, which adapts the workload to the device, checks that it fits in CMX and that it is consistent. The reference arguments
  of the code are the results here; an exception the code does not catch is \<open>Inl\<close>.
\<close>

definition text_or :: "string option \<Rightarrow> string \<Rightarrow> string" where
  "text_or t other = (case t of Some s \<Rightarrow> s | None \<Rightarrow> other)"

definition engine_not_supported_text :: "MPEEngine \<Rightarrow> VPUDevice \<Rightarrow> string" where
  "engine_not_supported_text e d =
     (let engine_text = text_or (enum_text_of MPEEngine_enum MPEEngine_ToText e) ''UNKNOWN_MPE_ENGINE'';
          device_text = text_or (enum_text_of VPUDevice_enum VPUDevice_ToText d) ''UNKNOWN_DEVICE''
      in ''MPEEngine::'' @ engine_text @ '' is not supported on this device: '' @ device_text)"

definition cmx_exceeded_text :: "int \<Rightarrow> int \<Rightarrow> VPUDevice \<Rightarrow> Operation \<Rightarrow> string" where
  "cmx_exceeded_text necesarry_cmx_memo avaialable_cmx_memo d operation =
     (let over_by = necesarry_cmx_memo - avaialable_cmx_memo;
          ratio = (if 0 < avaialable_cmx_memo
                   then to_float32 (to_float32 (of_int necesarry_cmx_memo) / to_float32 (of_int avaialable_cmx_memo)) else 0);
          device_text = text_or (enum_text_of VPUDevice_enum VPUDevice_ToText d) ''UNKNOWN_DEVICE'';
          op_text = text_or (enum_text_of Operation_enum Operation_ToText operation) ''UNKNOWN_OP'';
          ratio_text = (if 0 < avaialable_cmx_memo then to_string_float ratio @ ''x'' else ''n/a (available_cmx<=0)'')
      in ''CMX capacity exceeded: required='' @ to_string necesarry_cmx_memo @ '' B available='' @
         to_string avaialable_cmx_memo @ '' B over_by='' @ to_string over_by @ '' B (required/available='' @ ratio_text @
         '') device='' @ device_text @ '' op='' @ op_text)"

definition sanitize_workload :: "IDeviceValidValues \<Rightarrow> DPUWorkload \<Rightarrow> DPUWorkload" where
  "sanitize_workload config wl =
     (let wl = wl\<lparr>inputs_0 := fst (change_datatype_superficial (restrict_datatype (dtype (inputs_0 wl))) (inputs_0 wl))\<rparr>;
          wl = wl\<lparr>outputs_0 := fst (change_datatype_superficial (restrict_datatype (dtype (outputs_0 wl))) (outputs_0 wl))\<rparr>;
          wl = wl\<lparr>inputs_0 :=
                   fst (set_if_same_layout (adapt_device_comaptible_tensor_layout config (layout (inputs_0 wl))) (inputs_0 wl))\<rparr>;
          wl = wl\<lparr>outputs_0 :=
                   fst (set_if_same_layout (adapt_device_comaptible_tensor_layout config (layout (outputs_0 wl))) (outputs_0 wl))\<rparr>
      in wl\<lparr>input_swizzling_0 := adapt_device_comaptible_swizzling config (input_swizzling_0 wl),
            input_swizzling_1 := adapt_device_comaptible_swizzling config (input_swizzling_1 wl),
            output_swizzling_0 := adapt_device_comaptible_swizzling config (output_swizzling_0 wl)\<rparr>)"

definition memory_and_consistency :: "bool \<Rightarrow> IDeviceValidValues \<Rightarrow> DPUWorkload \<Rightarrow> SanityReport \<Rightarrow> SanityReport result" where
  "memory_and_consistency tags config wl result =
     bind_result (DPUOperation_with wl config) (\<lambda>w.
     bind_result (compute_memory ignore_cmx_overhead_default w config) (\<lambda>cmx_memory.
       let avaialable_cmx_memo = get_cmx_size config (device wl);
           necesarry_cmx_memo = mem_cmx cmx_memory
       in if avaialable_cmx_memo < necesarry_cmx_memo
          then Inr ((mark_size_too_big result)
                 \<lparr>info := cmx_exceeded_text necesarry_cmx_memo avaialable_cmx_memo (device wl) (op wl)\<rparr>)
          else bind_result (get_specific_behaviour config (op wl)) (\<lambda>operation_behaviour.
                 Inr (check_workload_consistency tags w config operation_behaviour result))))"

definition catch_runtime_error :: "SanityReport result \<Rightarrow> SanityReport \<Rightarrow> SanityReport result" where
  "catch_runtime_error body result =
     (case body of Inl (runtime_error t) \<Rightarrow> Inr (mark_unknown_operation result) | r \<Rightarrow> r)"

definition check_and_sanitize :: "bool \<Rightarrow> DPUWorkload \<Rightarrow> SanityReport \<Rightarrow> (DPUWorkload \<times> SanityReport) result" where
  "check_and_sanitize tags wl result0 =
     (let result = resetOK result0 in
      if \<not> is_supported OperationsContext (device wl) then Inr (wl, mark_unknown_device result)
      else bind_result (get_config OperationsContext (device wl)) (\<lambda>config.
        if \<not> is_valid_operation config (op wl) then Inr (wl, mark_unknown_operation result)
        else if \<not> is_valid_engine config (mpe_engine wl)
        then Inr (wl, (mark_invalid_DPU_workload result)\<lparr>info := engine_not_supported_text (mpe_engine wl) (device wl)\<rparr>)
        else
          let wl = sanitize_workload config wl
          in bind_result (catch_runtime_error (memory_and_consistency tags config wl result) result) (\<lambda>result.
               Inr (wl, result))))"

definition check_data_consistency :: "bool \<Rightarrow> DPUWorkload \<Rightarrow> SanityReport \<Rightarrow> SanityReport result" where
  "check_data_consistency tags wl result0 =
     (let result = resetOK result0 in
      if \<not> is_supported OperationsContext (device wl) then Inr (mark_unknown_device result)
      else bind_result (get_config OperationsContext (device wl)) (\<lambda>config.
        if \<not> is_valid_operation config (op wl) then Inr (mark_unknown_operation result)
        else if \<not> is_valid_engine config (mpe_engine wl)
        then Inr ((mark_invalid_DPU_workload result)\<lparr>info := engine_not_supported_text (mpe_engine wl) (device wl)\<rparr>)
        else
          catch_runtime_error
            (bind_result (DPUOperation_with wl config) (\<lambda>w.
             bind_result (get_specific_behaviour config (op wl)) (\<lambda>operation_behaviour.
               Inr (check_workload_consistency tags w config operation_behaviour result))))
            result))"

definition getDeviceConfiguration :: "VPUDevice \<Rightarrow> IDeviceValidValues result" where
  "getDeviceConfiguration d = get_config OperationsContext d"

end
