(* ===== verification/Layer_Validator.thy ===== *)
theory Layer_Validator
  imports Dpu_Sanitizer Layer_Split
begin

text \<open>
  The validation of layers: \<open>VPU_LayerValidator\<close> of \<^verbatim>\<open>include/vpu/validation/vpu_layer_validator.h\<close> for a layer before it is split
  and \<open>LayersValidation\<close> of \<^verbatim>\<open>layer_sanitizer.h\<close>, which also checks a layer that lies on one tile.
\<close>

section \<open>Layers before the split\<close>

fun border_coeff :: "VPUTilingStrategy \<Rightarrow> u32 \<Rightarrow> WHCB" where
  "border_coeff VPUTilingStrategy.NONE nTiles = mk_shape 1 1 1 1"
| "border_coeff SOH_Overlapped nTiles = mk_shape 1 nTiles 1 1"
| "border_coeff SOK nTiles = mk_shape 1 1 nTiles 1"
| "border_coeff SOW nTiles = mk_shape nTiles 1 1 1"
| "border_coeff SOHW nTiles = mk_shape nTiles nTiles 1 1"
| "border_coeff SOHK nTiles = mk_shape 1 nTiles nTiles 1"
| "border_coeff SOH_HaloRead nTiles = mk_shape 1 nTiles 1 1"
| "border_coeff SOHO_K_SWITCH nTiles = mk_shape 1 nTiles 1 1"
| "border_coeff SOH_K_SWITCH nTiles = mk_shape 1 nTiles 1 1"
| "border_coeff SOK_NO_BROADCAST nTiles = mk_shape 1 1 nTiles 1"
| "border_coeff SOK_H_SWITCH nTiles = mk_shape 1 1 nTiles 1"
| "border_coeff SOK_W_SWITCH nTiles = mk_shape 1 1 nTiles 1"
| "border_coeff _ nTiles = mk_shape 1 1 1 1"

definition extend_interval :: "int \<times> int \<Rightarrow> u32 \<Rightarrow> int \<times> int" where
  "extend_interval interval coeff = (fst interval, to_int (to_u32 (snd interval) * coeff))"

definition layer_input_checks :: "DPUOperation \<Rightarrow> u32 \<Rightarrow> VPUTilingStrategy \<Rightarrow> IDeviceValidValues \<Rightarrow> check_step list" where
  "layer_input_checks w nTiles strategy config =
     (let in0 = dop_input_0 w;
          coeff = border_coeff strategy nTiles;
          height_interval = extend_interval (get_input_height_interval config w (isVerticalTiling strategy)) (dimY coeff);
          width_interval = extend_interval (get_input_width_interval config w (isHorizontalTiling strategy)) (dimX coeff)
      in [check (check_is_in_interval (as_int (ti_height in0)) height_interval ''input_0.height''),
          check (check_is_in_interval (as_int (ti_width in0)) width_interval ''input_0.width''),
          with_value (get_input_channels_restriction config w) (\<lambda>r.
            check (check_is_in_requirements (as_int (ti_channels in0)) (multi_multiply_upper r (to_int (dimZ coeff)))
              ''input_0.channels'')),
          check (check_is_in_requirements (as_int (ti_batch in0)) (get_batch_restrictions config) ''input_0.batch'')] @
         tensor_type_checks in0 (get_input_valid_datatypes config w) config ''input_0'')"

definition layer_output_checks :: "DPUOperation \<Rightarrow> u32 \<Rightarrow> VPUTilingStrategy \<Rightarrow> IDeviceValidValues \<Rightarrow> check_step list" where
  "layer_output_checks w nTiles strategy config =
     (let k = dop_kernel w; in0 = dop_input_0 w; out0 = dop_output_0 w;
          coeff = border_coeff strategy nTiles;
          expected_out_width =
            compute_output_dim (as_int (ti_width in0)) (pad_left k) (pad_right k) (ki_width k) (stride_width k);
          expected_out_height =
            compute_output_dim (as_int (ti_height in0)) (pad_top k) (pad_bottom k) (ki_height k) (stride_height k)
      in [fail_if (ti_batch out0 \<noteq> ti_batch in0) ''Output.batch different than input_0.batch!'',
          check (check_is_in_interval (as_int (ti_width out0)) (expected_out_width, expected_out_width) ''output_0.width''),
          check (check_is_in_interval (as_int (ti_height out0)) (expected_out_height, expected_out_height) ''output_0.height''),
          with_value (get_output_channels_restriction config w) (\<lambda>r.
            check (check_is_in_requirements (as_int (ti_channels out0)) (multi_multiply_upper r (to_int (dimZ coeff)))
              ''output_0.channels'')),
          check (check_is_in_requirements (as_int (ti_batch out0)) (get_batch_restrictions config) ''output_0.batch''),
          fail_if (isVerticalTiling strategy \<and> ti_height out0 \<le> 1) ''can't do H split if output_0_.height is <= 1'',
          fail_if (isHorizontalTiling strategy \<and> ti_width out0 \<le> 1) ''can't do W split  if output_0_.width is <= 1''] @
         tensor_type_checks out0 (get_output_valid_datatypes config w) config ''output_0'')"

definition layer_checks ::
  "bool \<Rightarrow> DPUOperation \<Rightarrow> u32 \<Rightarrow> VPUTilingStrategy \<Rightarrow> IDeviceValidValues \<Rightarrow> Constraints \<Rightarrow> check_step list" where
  "layer_checks tags w nTiles strategy config b =
     identity_checks w config @ [kernel_checks w config b, padding_checks w config] @
     layer_input_checks w nTiles strategy config @ [stride_checks w (get_strides_range config w)] @
     layer_output_checks w nTiles strategy config @ [weights_type_check w config] @ sparsity_checks tags w config b @
     [rule_check (check_input_output_tensor_corelation tags b config w)]"

definition check_layer_consistency ::
  "bool \<Rightarrow> DPUOperation \<Rightarrow> u32 \<Rightarrow> VPUTilingStrategy \<Rightarrow> IDeviceValidValues \<Rightarrow> Constraints \<Rightarrow> SanityReport \<Rightarrow> SanityReport" where
  "check_layer_consistency tags w nTiles strategy config operation_behaviour result =
     (let result = resetOK result;
          checker = try_checks (layer_checks tags w nTiles strategy config operation_behaviour) (new_Checker tags)
      in if \<not> is_clean checker then (mark_invalid_LayerConfiguration result)\<lparr>info := findings checker\<rparr> else result)"

section \<open>Complete layers and layers on a tile\<close>

definition getDeviceConfiguratorForTiles :: "VPUDevice \<Rightarrow> IDeviceValidValues result" where
  "getDeviceConfiguratorForTiles d = get_config SplitLayersContext d"

definition check_completeLayer_consistency ::
  "bool \<Rightarrow> DPULayer \<Rightarrow> SanityReport \<Rightarrow> ISIStrategy \<Rightarrow> u32 \<Rightarrow> VPUTilingStrategy \<Rightarrow> SanityReport result" where
  "check_completeLayer_consistency tags l result0 presumed_strategy nTiles strategy =
     (let result = resetOK result0; wl = layer_workload l in
      if \<not> is_supported VPU_LayerValidator (device wl) then Inr (mark_unknown_device result)
      else bind_result (get_config VPU_LayerValidator (device wl)) (\<lambda>config.
        if \<not> is_valid_operation config (op wl) then Inr (mark_unknown_operation result)
        else if \<not> is_valid_engine config (mpe_engine wl)
        then Inr ((mark_invalid_LayerConfiguration result)\<lparr>info := engine_not_supported_text (mpe_engine wl) (device wl)\<rparr>)
        else
          catch_runtime_error
            (bind_result (DPUOperation_with wl config) (\<lambda>w.
             let w = set_intended_split presumed_strategy nTiles w in
             bind_result (get_specific_behaviour config (op wl)) (\<lambda>operation_behaviour.
               Inr (check_layer_consistency tags w nTiles strategy config operation_behaviour result))))
            result))"

definition memory_request_text :: "MemorySize \<Rightarrow> int \<Rightarrow> string" where
  "memory_request_text cmx_memory avaialable_cmx_memo =
     ''Memory request bigger than available: '' @ [CHR 0x0A] @ '' Requested: '' @ show_MemorySize cmx_memory @ [CHR 0x0A] @
     '' available : '' @ to_string avaialable_cmx_memo @ [CHR 0x0A]"

definition check_splitLayer_consistency :: "bool \<Rightarrow> DPULayer \<Rightarrow> SanityReport \<Rightarrow> SanityReport result" where
  "check_splitLayer_consistency tags l result0 =
     (let result = resetOK result0; wl = layer_workload l in
      if \<not> is_supported SplitLayersContext (device wl) then Inr (mark_unknown_device result)
      else bind_result (get_config SplitLayersContext (device wl)) (\<lambda>config.
        if \<not> is_valid_operation config (op wl) then Inr (mark_unknown_operation result)
        else if \<not> is_valid_engine config (mpe_engine wl)
        then Inr ((mark_invalid_DPU_workload result)\<lparr>info := engine_not_supported_text (mpe_engine wl) (device wl)\<rparr>)
        else
          catch_runtime_error
            (bind_result (DPUOperation_with wl config) (\<lambda>w.
             bind_result (compute_memory ignore_cmx_overhead_default w config) (\<lambda>cmx_memory.
               let avaialable_cmx_memo = get_cmx_size config (device wl);
                   necesarry_cmx_memo = mem_cmx cmx_memory
               in if avaialable_cmx_memo < necesarry_cmx_memo
                  then let result = mark_size_too_big result
                       in Inr (result\<lparr>info := info result @ memory_request_text cmx_memory avaialable_cmx_memo\<rparr>)
                  else bind_result (get_specific_behaviour config (op wl)) (\<lambda>operation_behaviour.
                         Inr (check_workload_consistency tags w config operation_behaviour result)))))
            result))"

definition sanitize_preconditions :: "DPULayer \<Rightarrow> DPULayer result" where
  "sanitize_preconditions l =
     (if \<not> is_supported VPU_LayerValidator (device l) then Inr l
      else bind_result (get_config VPU_LayerValidator (device l)) (\<lambda>config.
        Inr (l\<lparr>input_swizzling_0 := adapt_device_comaptible_swizzling config (input_swizzling_0 l),
               input_swizzling_1 := adapt_device_comaptible_swizzling config (input_swizzling_1 l),
               output_swizzling_0 := adapt_device_comaptible_swizzling config (output_swizzling_0 l)\<rparr>)))"

end
