(* ===== verification/Tile_Memory.thy ===== *)
theory Tile_Memory
  imports Layer_Split_Inputs Layer_Validator
begin

text \<open>
  The split and the memory of its tiles together: the halos that the split of \<^verbatim>\<open>include/vpu/layer.h\<close> writes into a tile are read
  by \<open>compute_dense_output_memory_tensor\<close> of \<^verbatim>\<open>include/vpu/validation/data_dpu_operation.h\<close> when the tile is turned into an
  operation for the validation.
\<close>

lemma inbound_of_positive:
  "0 \<le> b \<Longrightarrow> 0 \<le> a \<Longrightarrow> 0 \<le> v \<Longrightarrow> newDimensionWithInbound v b a = v + b + a"
  by (simp add: newDimensionWithInbound_def limit_forget_def)

lemma laid_out_memory:
  assumes "laid_out whole p xs" "0 \<le> p" "p + int (sum_list (map (\<lambda>(b, v, a). v) xs)) = whole"
  shows "\<forall>(b, v, a) \<in> set xs. newDimensionWithInbound (int v) b a = whole"
  using assms
proof (induction whole p xs rule: laid_out.induct)
  case (2 whole p before v after xs)
  then have "newDimensionWithInbound (int v) before after = int v + before + after"
    by (intro inbound_of_positive) auto
  with 2 show ?case by auto
qed simp

lemma tile_output:
  "dop_output_0_memory_dense (DPUOperation_of (layer_workload t)) =
     compute_dense_output_memory_tensor
       ((TensorInfo_of (outputs_0 t))\<lparr>ti_swizzling := output_swizzling_0 t\<rparr>) (halo t)"
  by (simp add: DPUOperation_of_def layer_workload_def DPUWorkload.truncate_def Let_def)

lemma memory_by_layout:
  "out_dim Act_Z t < 2 ^ 31 \<Longrightarrow> ti_channels (dop_output_0_memory_dense (DPUOperation_of (layer_workload t))) =
     (case channel_layout t of (b, v, a) \<Rightarrow> newDimensionWithInbound (int v) b a)"
  "out_dim Act_Y t < 2 ^ 31 \<Longrightarrow> ti_height (dop_output_0_memory_dense (DPUOperation_of (layer_workload t))) =
     (case row_layout t of (b, v, a) \<Rightarrow> newDimensionWithInbound (int v) b a)"
  "out_dim Act_X t < 2 ^ 31 \<Longrightarrow> ti_width (dop_output_0_memory_dense (DPUOperation_of (layer_workload t))) =
     (case column_layout t of (b, v, a) \<Rightarrow> newDimensionWithInbound (int v) b a)"
  by (simp_all add: tile_output compute_dense_output_memory_tensor_def Let_def TensorInfo_of_def channel_layout_def
      row_layout_def column_layout_def to_int_small out_dim_def channels_def tz_def height_def ty_def width_def tx_def)

lemma whole_by_layout:
  assumes "laid_out (int whole) 0 (map f ts)" "\<And>t. fst (snd (f t)) = out_dim d t" "sum_list (map (out_dim d) ts) = whole"
    "t \<in> set ts"
  shows "(case f t of (b, v, a) \<Rightarrow> newDimensionWithInbound (int v) b a) = int whole" "out_dim d t \<le> whole"
proof -
  have "map (\<lambda>(b, v, a). v) (map f ts) = map (out_dim d) ts"
    using assms(2) by (auto simp: split_beta)
  then have "\<forall>(b, v, a) \<in> set (map f ts). newDimensionWithInbound (int v) b a = int whole"
    using assms(3) by (intro laid_out_memory [OF assms(1)]) (simp_all only: add_0 of_nat_eq_iff order_refl)
  then show "(case f t of (b, v, a) \<Rightarrow> newDimensionWithInbound (int v) b a) = int whole" using assms(4) by auto
  show "out_dim d t \<le> whole" unfolding assms(3) [symmetric] using assms(4) by (intro member_le_sum_list) simp_all
qed

text \<open>
  C25. When the tiles of a layer broadcast their results, every tile keeps the whole of the cut dimension: the output tensor that
  the validation takes to be in the memory of a tile (\<open>output_0_memory_dense\<close>) has, in the dimension that is split, exactly the
  size of the layer's output. So the memory check of a tile counts the parts the other tiles write.
\<close>

theorem broadcast_tile_holds_whole_output:
  assumes "broadcasting l n fb" "\<forall>d \<in> {Act_X, Act_Y, Act_Z}. splittable_dim d l n \<and> out_dim d l < 2 ^ 31"
  shows "(\<forall>t \<in> set (SOK_Variants l n fb 16).
            ti_channels (dop_output_0_memory_dense (DPUOperation_of (layer_workload t))) = int (out_dim Act_Z l)) \<and>
    (\<forall>t \<in> set (SOH_overlapped_inputs l n fb).
            ti_height (dop_output_0_memory_dense (DPUOperation_of (layer_workload t))) = int (out_dim Act_Y l)) \<and>
    (\<forall>t \<in> set (SOW_overlapped_inputs l n fb).
            ti_width (dop_output_0_memory_dense (DPUOperation_of (layer_workload t))) = int (out_dim Act_X l))"
proof (intro conjI ballI)
  have s: "splittable_dim d l n" "out_dim d l < 2 ^ 31" if "d \<in> {Act_X, Act_Y, Act_Z}" for d using assms(2) that by auto
  have k: "splittable_channels 16 l n" using s [of Act_Z] by (simp add: splittable_channels_def)
  have z: "sized (outputs_0 l)" using s [of Act_Z] by (simp add: splittable_dim_def)
  have dims: "unat (channels (outputs_0 l)) = out_dim Act_Z l" "unat (height (outputs_0 l)) = out_dim Act_Y l"
    "unat (width (outputs_0 l)) = out_dim Act_X l" for l
    by (simp_all add: out_dim_def channels_def tz_def height_def ty_def width_def tx_def)
  show "ti_channels (dop_output_0_memory_dense (DPUOperation_of (layer_workload t))) = int (out_dim Act_Z l)"
    if "t \<in> set (SOK_Variants l n fb 16)" for t
    using whole_by_layout [OF SOK_layout [OF assms(1) z, unfolded dims] _ sok.covers [OF k] that] s [of Act_Z]
    by (simp add: memory_by_layout channel_layout_def dims)
  show "ti_height (dop_output_0_memory_dense (DPUOperation_of (layer_workload t))) = int (out_dim Act_Y l)"
    if "t \<in> set (SOH_overlapped_inputs l n fb)" for t
    using whole_by_layout [OF SOH_layout [OF assms(1) z, unfolded dims] _ soh.covers that] s [of Act_Y]
    by (simp add: memory_by_layout row_layout_def dims)
  show "ti_width (dop_output_0_memory_dense (DPUOperation_of (layer_workload t))) = int (out_dim Act_X l)"
    if "t \<in> set (SOW_overlapped_inputs l n fb)" for t
    using whole_by_layout [OF SOW_layout [OF assms(1) z, unfolded dims] _ sow.covers that] s [of Act_X]
    by (simp add: memory_by_layout column_layout_def dims)
qed

theorem broadcast_tile_holds_whole_output_witness:
  "list_all (\<lambda>t. ti_channels (dop_output_0_memory_dense (DPUOperation_of (layer_workload t))) = 80)
     (SOK_Variants sample_layer 4 True 16)"
  using broadcast_tile_holds_whole_output [of sample_layer 4 True] sample_layer_splittable
  by (simp add: broadcasting_def sample_layer_dims list_all_iff)

end
