(* ===== verification/Post_Processing.thy ===== *)
theory Post_Processing
  imports Workload Float_Single
begin

text \<open>
  What happens to the output of the neural network before it becomes a cost: the versions of the output
  (\<^verbatim>\<open>include/inference/post_process.h\<close>), the range in which it is accepted and the adapters that scale it for a newer device
  (\<^verbatim>\<open>include/inference/postprocessing_mocks.h\<close>), and the factory that chooses the adapter for a version
  (\<^verbatim>\<open>include/inference/postprocessing_factory.h\<close>).
\<close>

section \<open>Output versions\<close>

datatype NNOutputVersions =
    OUT_LATEST | OUT_HW_OVERHEAD_BOUNDED | OUT_CYCLES | OUT_HW_OVERHEAD_UNBOUNDED | OUT_CYCLES_NPU27 | OUT_CYCLES_NPU40_DEV

fun output_version_number :: "NNOutputVersions \<Rightarrow> int" where
  "output_version_number OUT_LATEST = 0"
| "output_version_number OUT_HW_OVERHEAD_BOUNDED = 1"
| "output_version_number OUT_CYCLES = 2"
| "output_version_number OUT_HW_OVERHEAD_UNBOUNDED = 3"
| "output_version_number OUT_CYCLES_NPU27 = 4"
| "output_version_number OUT_CYCLES_NPU40_DEV = 5"

definition is_output_supported :: "int \<Rightarrow> bool" where
  "is_output_supported version \<longleftrightarrow>
     version = output_version_number OUT_LATEST \<or> version = output_version_number OUT_CYCLES \<or>
     version = output_version_number OUT_CYCLES_NPU27 \<or> version = output_version_number OUT_CYCLES_NPU40_DEV"

section \<open>Post processing\<close>

definition high_threshold :: real where
  "high_threshold = 4000000000"

definition low_threshold :: real where
  "low_threshold = 0"

definition is_NN_value_invalid :: "real \<Rightarrow> bool" where
  "is_NN_value_invalid nn_output_cycles \<longleftrightarrow> high_threshold < nn_output_cycles \<or> nn_output_cycles < low_threshold"

definition get_NN_Valid_interval :: "real \<times> real" where
  "get_NN_Valid_interval = (low_threshold, high_threshold)"

definition channelsToIndex :: "int \<Rightarrow> int" where
  "channelsToIndex ch = (if ch = 16 then 0 else if ch = 32 then 1 else if ch = 64 then 2 else - 1)"

definition kToIndex0to2 :: "int \<Rightarrow> int \<Rightarrow> nat" where
  "kToIndex0to2 kw kh = (if kw = 3 then 1 else if kw = 1 \<or> kh = 1 then 0 else 2)"

definition contextToIndex :: "DPUWorkload \<Rightarrow> nat" where
  "contextToIndex wl =
     (if gridW (strides wl) = 1 \<and> gridH (strides wl) = 1
      then kToIndex0to2 (to_int (gridW (kernels wl))) (to_int (gridH (kernels wl)))
      else if gridW (strides wl) = 2 \<or> gridH (strides wl) = 2 then 3
      else 4)"

text \<open>The factors are \<open>float\<close> constants; the tables hold their decimals in hundredths.\<close>

definition factor_array_8Bit :: "int list list" where
  "factor_array_8Bit = [[100, 80, 75], [50, 44, 69], [81, 75, 75], [69, 68, 73], [60, 60, 65]]"

definition factor_array_16Bit :: "int list list" where
  "factor_array_16Bit = [[100, 100, 100], [48, 47, 71], [76, 74, 77], [69, 69, 73], [60, 60, 65]]"

definition getTypeBasedFactorsArray :: "DataType \<Rightarrow> int list list" where
  "getTypeBasedFactorsArray t = (if 1 < dtype_to_bytes t then factor_array_16Bit else factor_array_8Bit)"

definition getDWFactor :: "DPUWorkload \<Rightarrow> real" where
  "getDWFactor w =
     (let factors = getTypeBasedFactorsArray (dtype (inputs_0 w));
          ch_index = channelsToIndex (to_int (channels (inputs_0 w)))
      in if 0 \<le> ch_index then to_float32 (of_int (factors ! contextToIndex w ! nat ch_index) / 100) else 1)"

definition process_AdaptFromNPU27to40 :: "DPUWorkload \<Rightarrow> real \<Rightarrow> real" where
  "process_AdaptFromNPU27to40 w nn_val =
     (if VPU_4_0 \<le> device w then
        if op w = DW_CONVOLUTION \<and> \<not> is_NN_value_invalid nn_val then to_float32 (nn_val * getDWFactor w) else nn_val
      else nn_val)"

text \<open>The factor \<open>getCMFactor\<close> of the adapter for NPU 4.0 is computed by no path: its use is commented out.\<close>

definition getCMFactor :: "DPUWorkload \<Rightarrow> real" where
  "getCMFactor w =
     (let oc = channels (outputs_0 w); ic = channels (inputs_0 w); isMoreBytes = (1 < dtype_to_bytes (dtype (outputs_0 w)));
          two_thirds = to_float32 (2 / 3); third = to_float32 (1 / 3)
      in if ic \<le> 4 then
           if oc \<le> 16 then 1
           else if oc < 64 then
             if isMoreBytes then to_float32 (two_thirds + to_float32 (30 / 100)) else two_thirds
           else
             if isMoreBytes then to_float32 (third + to_float32 (22 / 100)) else third
         else 1)"

definition process_AdaptFromNPU40to40 :: "DPUWorkload \<Rightarrow> real \<Rightarrow> real" where
  "process_AdaptFromNPU40to40 w nn_val = (if VPU_4_0 \<le> device w then nn_val else nn_val)"

datatype PostProcess = PassThroughPostP | AdaptFromNPU27to40 | AdaptFromNPU40to40

fun post_process :: "PostProcess \<Rightarrow> DPUWorkload \<Rightarrow> real \<Rightarrow> real" where
  "post_process PassThroughPostP w nn_val = nn_val"
| "post_process AdaptFromNPU27to40 w nn_val = process_AdaptFromNPU27to40 w nn_val"
| "post_process AdaptFromNPU40to40 w nn_val = process_AdaptFromNPU40to40 w nn_val"

section \<open>The factory\<close>

definition pp_map :: "(int \<times> PostProcess) list" where
  "pp_map =
     [(output_version_number OUT_LATEST, PassThroughPostP),
      (output_version_number OUT_HW_OVERHEAD_BOUNDED, PassThroughPostP),
      (output_version_number OUT_HW_OVERHEAD_UNBOUNDED, PassThroughPostP),
      (output_version_number OUT_CYCLES, PassThroughPostP),
      (output_version_number OUT_CYCLES_NPU27, AdaptFromNPU27to40),
      (output_version_number OUT_CYCLES_NPU40_DEV, AdaptFromNPU40to40)]"

definition exists_postprocessing :: "int \<Rightarrow> bool" where
  "exists_postprocessing version \<longleftrightarrow> map_of pp_map version \<noteq> None"

definition make_postprocessing :: "int \<Rightarrow> PostProcess result" where
  "make_postprocessing version =
     (case map_of pp_map version of
        Some p \<Rightarrow> Inr p
      | None \<Rightarrow> Inl (out_of_range (''[ERROR]:Post processing cannot be created for version:   '' @ to_string version)))"

section \<open>Laws\<close>

lemma post_process_channels_range: "channelsToIndex c \<in> {- 1, 0, 1, 2}"
  by (simp add: channelsToIndex_def)

lemma contextToIndex_less: "contextToIndex w < 5"
  by (simp add: contextToIndex_def kToIndex0to2_def)

text \<open>A positive float factor of at most one keeps a value in the range the network output must have.\<close>

lemma factors_in_table:
  assumes "i < 5" "j < 3"
  shows "getTypeBasedFactorsArray t ! i ! j \<in> {44..100}"
proof -
  have "i \<in> set [0, 1, 2, 3, 4]" "j \<in> set [0, 1, 2]" using assms by auto
  then show ?thesis
    by (auto simp: getTypeBasedFactorsArray_def factor_array_8Bit_def factor_array_16Bit_def)
qed

end
