(* ===== verification/Model_Version.thy ===== *)
theory Model_Version
  imports Enum_Text
begin

text \<open>
  The name of a trained network carries the versions of its interfaces: \<open>ModelVersion\<close> of
  \<^verbatim>\<open>include/inference/model_version.h\<close> parses \<^verbatim>\<open>NAME-VI-VO $nickname$\<close>, and \<open>make_model_nickname\<close> of
  \<^verbatim>\<open>include/vpu/nn_cost_provider.h\<close> takes the nickname out of it.
\<close>

section \<open>Integers in texts\<close>

text \<open>\<open>stoi\<close> is \<^verbatim>\<open>std::stoi\<close> in base ten: white space, a sign, digits; what follows the digits is ignored.\<close>

definition is_space :: "char \<Rightarrow> bool" where
  "is_space c \<longleftrightarrow> c \<in> {CHR 0x20, CHR 0x09, CHR 0x0A, CHR 0x0B, CHR 0x0C, CHR 0x0D}"

definition is_digit :: "char \<Rightarrow> bool" where
  "is_digit c \<longleftrightarrow> (of_char c :: nat) \<in> {48..57}"

definition digits_to_nat :: "string \<Rightarrow> nat" where
  "digits_to_nat s = foldl (\<lambda>n c. n * 10 + (of_char c - 48)) 0 s"

definition stoi :: "string \<Rightarrow> int result" where
  "stoi s =
     (let s = dropWhile is_space s;
          negative = (s \<noteq> [] \<and> hd s = CHR ''-'');
          s = (if s \<noteq> [] \<and> (hd s = CHR ''-'' \<or> hd s = CHR ''+'') then tl s else s);
          digits = takeWhile is_digit s;
          n = (if negative then - int (digits_to_nat digits) else int (digits_to_nat digits))
      in if digits = [] then Inl (invalid_argument ''stoi'')
         else if n < - 2147483648 \<or> 2147483647 < n then Inl (out_of_range ''stoi'')
         else Inr n)"

section \<open>The version of a model\<close>

record ModelVersion =
  full_raw_name :: string
  nn_name :: string
  input_version :: int
  output_version :: int

definition reset_ModelVersion :: ModelVersion where
  "reset_ModelVersion = \<lparr>full_raw_name = ''none'', nn_name = ''none'', input_version = 1, output_version = 1\<rparr>"

definition parse_version_part :: "string list \<Rightarrow> nat \<Rightarrow> (int \<Rightarrow> ModelVersion \<Rightarrow> ModelVersion) \<Rightarrow> ModelVersion \<Rightarrow> ModelVersion result" where
  "parse_version_part parts i store m =
     (if i < length parts then bind_result (stoi (parts ! i)) (\<lambda>v. Inr (store v m)) else Inr m)"

definition parse_name :: "string \<Rightarrow> ModelVersion result" where
  "parse_name raw_NN_name =
     (let m = reset_ModelVersion\<lparr>full_raw_name := raw_NN_name\<rparr>;
          parts = getline_tokens (CHR ''-'') raw_NN_name;
          m = (if 1 \<le> length parts
               then if parts ! 0 \<noteq> [] then m\<lparr>nn_name := parts ! 0\<rparr> else m
               else m\<lparr>input_version := 0\<rparr>)
      in bind_result (parse_version_part parts 1 (\<lambda>v m. m\<lparr>input_version := v\<rparr>) m)
           (parse_version_part parts 2 (\<lambda>v m. m\<lparr>output_version := v\<rparr>)))"

definition make_model_nickname :: "string \<Rightarrow> string" where
  "make_model_nickname full =
     (if CHR ''$'' \<notin> set full then full
      else let after_first = tl (dropWhile (\<lambda>c. c \<noteq> CHR ''$'') full);
               nick = (if CHR ''$'' \<notin> set after_first then after_first
                       else rev (tl (dropWhile (\<lambda>c. c \<noteq> CHR ''$'') (rev after_first))))
           in ''sim_'' @ map (\<lambda>c. if c = CHR '' '' then CHR ''_'' else c) nick)"

section \<open>The versions come back\<close>

lemma nat_to_string_digits: "list_all is_digit (nat_to_string n) \<and> nat_to_string n \<noteq> []"
proof (induction n rule: nat_to_string.induct)
  case (1 n)
  have d: "is_digit (char_of (48 + m :: nat))" if "m < 10" for m using that by (simp add: is_digit_def)
  show ?case
  proof (cases "n < 10")
    case True
    then show ?thesis by (simp add: nat_to_string.simps [of n] d)
  next
    case False
    then show ?thesis using "1.IH" d [of "n mod 10"] by (simp add: nat_to_string.simps [of n])
  qed
qed

lemma digits_to_nat_snoc: "digits_to_nat (s @ [c]) = digits_to_nat s * 10 + (of_char c - 48)"
  by (simp add: digits_to_nat_def)

lemma digits_to_nat_to_string: "digits_to_nat (nat_to_string n) = n"
proof (induction n rule: nat_to_string.induct)
  case (1 n)
  show ?case
  proof (cases "n < 10")
    case True
    then show ?thesis by (simp add: nat_to_string.simps [of n] digits_to_nat_def)
  next
    case False
    have "of_char (char_of (48 + n mod 10 :: nat) :: char) - 48 = n mod 10"
      using mod_less_divisor [of 10 n] by simp
    then show ?thesis using False "1.IH" by (simp add: nat_to_string.simps [of n] digits_to_nat_snoc)
  qed
qed

lemma is_digit_not: "is_digit c \<Longrightarrow> \<not> is_space c \<and> c \<noteq> CHR ''-'' \<and> c \<noteq> CHR ''+''"
  by (auto simp: is_digit_def is_space_def)

lemma stoi_to_string:
  assumes "0 \<le> v" "v \<le> 2147483647" "rest = [] \<or> \<not> is_digit (hd rest)"
  shows "stoi (to_string v @ rest) = Inr v"
proof -
  define s where "s = to_string v"
  have s: "list_all is_digit s" "s \<noteq> []" "digits_to_nat s = nat v"
    using assms(1) nat_to_string_digits [of "nat v"] by (simp_all add: s_def to_string_def digits_to_nat_to_string)
  have h: "is_digit (hd (s @ rest))" using s(1,2) by (cases s) auto
  then have w: "dropWhile is_space (s @ rest) = s @ rest"
    using is_digit_not s(2) by (cases "s @ rest") auto
  have "takeWhile is_digit (s @ rest) = s"
    using s(1) assms(3) by (subst takeWhile_append2) (auto simp: list_all_iff takeWhile_eq_Nil_iff)
  then show ?thesis
    unfolding stoi_def Let_def s_def [symmetric] w using is_digit_not [OF h] s assms(1,2) by simp
qed

lemma getline_tokens_cut: "d \<notin> set s \<Longrightarrow> getline_tokens d (s @ d # rest) = s # getline_tokens d rest"
proof (cases s)
  case (Cons c t)
  assume n: "d \<notin> set s"
  have "takeWhile (\<lambda>x. x \<noteq> d) (s @ d # rest) = s" "dropWhile (\<lambda>x. x \<noteq> d) (s @ d # rest) = d # rest"
    using n by (simp_all add: takeWhile_append dropWhile_append)
  then show ?thesis using getline_tokens.simps(2) [of d c "t @ d # rest"] by (simp add: Cons)
qed (simp add: getline_tokens.simps)

lemma to_string_no_dash: "0 \<le> v \<Longrightarrow> CHR ''-'' \<notin> set (to_string v)"
  using nat_to_string_digits [of "nat v"] is_digit_not by (auto simp: to_string_def list_all_iff)

text \<open>
  Parsing a model name gives back the name and the two interface versions it was built from, whatever follows the
  versions (a nickname, further parts).
\<close>

theorem parse_name_round_trip:
  assumes "name \<noteq> []" "CHR ''-'' \<notin> set name" "0 \<le> vi" "vi \<le> 2147483647" "0 \<le> vo" "vo \<le> 2147483647"
    and "rest = [] \<or> \<not> is_digit (hd rest)"
  shows "parse_name (name @ ''-'' @ to_string vi @ ''-'' @ to_string vo @ rest) =
    Inr \<lparr>full_raw_name = name @ ''-'' @ to_string vi @ ''-'' @ to_string vo @ rest, nn_name = name,
         input_version = vi, output_version = vo\<rparr>"
proof -
  define last_part where "last_part = to_string vo @ takeWhile (\<lambda>x. x \<noteq> CHR ''-'') rest"
  obtain more where "getline_tokens (CHR ''-'') (to_string vo @ rest) = last_part # more"
  proof -
    obtain c t where c: "to_string vo @ rest = c # t"
      using nat_to_string_digits [of "nat vo"] assms(5) by (cases "to_string vo @ rest") (auto simp: to_string_def)
    have "takeWhile (\<lambda>x. x \<noteq> CHR ''-'') (to_string vo @ rest) = last_part"
      using to_string_no_dash [OF assms(5)] by (auto simp: last_part_def takeWhile_append)
    then show thesis using that c getline_tokens.simps(2) [of "CHR ''-''" c t] by simp
  qed
  then have t: "getline_tokens (CHR ''-'') (name @ ''-'' @ to_string vi @ ''-'' @ to_string vo @ rest) =
      name # to_string vi # last_part # more"
    using getline_tokens_cut [OF assms(2)] getline_tokens_cut [OF to_string_no_dash [OF assms(3)]] by simp
  have "stoi last_part = Inr vo"
    unfolding last_part_def using assms(7)
    by (intro stoi_to_string assms(5,6)) (cases rest; auto)
  moreover have "stoi (to_string vi) = Inr vi" using stoi_to_string [of vi "[]"] assms(3,4) by simp
  ultimately show ?thesis
    unfolding parse_name_def t Let_def using assms(1)
    by (simp add: parse_version_part_def reset_ModelVersion_def)
qed

theorem parse_name_round_trip_witness:
  "parse_name ''NPU40-11-5 $v1 Best$'' =
     Inr \<lparr>full_raw_name = ''NPU40-11-5 $v1 Best$'', nn_name = ''NPU40'', input_version = 11, output_version = 5\<rparr> \<and>
   make_model_nickname ''NPU40-11-5 $v1 Best$'' = ''sim_v1_Best''"
proof
  have s: "to_string 11 = ''11''" "to_string 5 = ''5''" by code_simp+
  show "parse_name ''NPU40-11-5 $v1 Best$'' =
     Inr \<lparr>full_raw_name = ''NPU40-11-5 $v1 Best$'', nn_name = ''NPU40'', input_version = 11, output_version = 5\<rparr>"
    using parse_name_round_trip [of "''NPU40''" 11 5 "'' $v1 Best$''"] by (simp add: s is_digit_def)
qed code_simp

end
