(* ===== verification/Nn_Cost_Provider.thy ===== *)
theory Nn_Cost_Provider
  imports Post_Processing Lru_Cache Model_Version
begin

text \<open>
  \<open>NNCostProvider\<close> of \<^verbatim>\<open>include/vpu/nn_cost_provider.h\<close> and its cache, \<open>NNCostCacheManager\<close> of
  \<^verbatim>\<open>include/vpu/nn_cost_cache_manager.h\<close>: the cost of a workload according to the neural network, with the results of earlier
  inferences kept in a least-recently-used cache, keyed by the workload itself on new devices and by the network's descriptor
  of it on old ones.

  The trained model is outside the source: what the provider uses of it is the record \<open>NNModel\<close>, an argument of all
  definitions. \<open>nn_predict\<close> runs the network on a whole input buffer and may throw. The cache is explicit state; the
  provider of the code is \<open>const\<close> with a mutable cache. The keys of a workload cache are compared with \<^verbatim>\<open>operator==\<close>, which leaves
  out the two hints (\<open>cache_key\<close>); its tolerance on the sparsity rates is not modelled here (see \<open>Workload_Keys\<close>).
\<close>

section \<open>The model and the cache\<close>

record NNModel =
  nn_initialized :: bool
  nn_predict :: "real list \<Rightarrow> real list result"
  nn_model_batch :: u32
  nn_descriptor_size :: u32
  nn_transform :: "DPUWorkload \<Rightarrow> real list"
  nn_post :: PostProcess
  nn_properties :: "string list"
  nn_version :: ModelVersion

datatype ActiveCache =
    DescriptorCache "(real list, real) LRUCache"
  | WorkloadCache "(DPUWorkload, real) LRUCache"

definition use_new_hash_method_for_device :: "VPUDevice \<Rightarrow> bool" where
  "use_new_hash_method_for_device model_device \<longleftrightarrow> NPU_5_0_W < model_device \<and> model_device \<noteq> VPUDevice.enum_size"

definition build_active_cache :: "bool \<Rightarrow> nat \<Rightarrow> real FixedCache \<Rightarrow> ActiveCache" where
  "build_active_cache use_workload_hash_cache_flag cache_size preloaded =
     (if use_workload_hash_cache_flag then WorkloadCache (new_LRUCache cache_size preloaded)
      else DescriptorCache (new_LRUCache cache_size preloaded))"

definition uses_workload_hash_cache :: "ActiveCache \<Rightarrow> bool" where
  "uses_workload_hash_cache active = (case active of WorkloadCache _ \<Rightarrow> True | DescriptorCache _ \<Rightarrow> False)"

definition getPreloadedCacheCounter :: "ActiveCache \<Rightarrow> AccessCounter" where
  "getPreloadedCacheCounter active =
     (case active of
        WorkloadCache c \<Rightarrow> fc_counter (deserialized_table c)
      | DescriptorCache c \<Rightarrow> fc_counter (deserialized_table c))"

definition cache_key :: "DPUWorkload \<Rightarrow> DPUWorkload" where
  "cache_key wl = wl\<lparr>cost_source_hint := AUTO, profiling_service_backend_hint := ProfilingServiceBackend.enum_size\<rparr>"

definition workload_key_hash :: "DPUWorkload \<Rightarrow> u32" where
  "workload_key_hash wl = workload_hash to_float32 wl"

definition descriptor_key_hash :: "real list \<Rightarrow> u32" where
  "descriptor_key_hash descriptor = fnv1a_hash_vec to_float32 descriptor True"

definition manager_get_workload :: "DPUWorkload \<Rightarrow> ActiveCache \<Rightarrow> ((real \<times> string) option \<times> ActiveCache) result" where
  "manager_get_workload wl active =
     (case active of
        WorkloadCache c \<Rightarrow> bind_result (lru_get workload_key_hash (cache_key wl) c) (\<lambda>(r, c). Inr (r, WorkloadCache c))
      | DescriptorCache _ \<Rightarrow> Inl (logic_error ''bad_variant_access''))"

definition manager_get_descriptor :: "real list \<Rightarrow> ActiveCache \<Rightarrow> ((real \<times> string) option \<times> ActiveCache) result" where
  "manager_get_descriptor descriptor active =
     (case active of
        DescriptorCache c \<Rightarrow> bind_result (lru_get descriptor_key_hash descriptor c) (\<lambda>(r, c). Inr (r, DescriptorCache c))
      | WorkloadCache _ \<Rightarrow> Inl (logic_error ''bad_variant_access''))"

definition manager_add_workload :: "DPUWorkload \<Rightarrow> real \<Rightarrow> ActiveCache \<Rightarrow> ActiveCache result" where
  "manager_add_workload wl v active =
     (case active of
        WorkloadCache c \<Rightarrow> bind_result (lru_add workload_key_hash (cache_key wl) v c) (\<lambda>c. Inr (WorkloadCache c))
      | DescriptorCache _ \<Rightarrow> Inl (logic_error ''bad_variant_access''))"

definition manager_add_descriptor :: "real list \<Rightarrow> real \<Rightarrow> ActiveCache \<Rightarrow> ActiveCache result" where
  "manager_add_descriptor descriptor v active =
     (case active of
        DescriptorCache c \<Rightarrow> bind_result (lru_add descriptor_key_hash descriptor v c) (\<lambda>c. Inr (DescriptorCache c))
      | WorkloadCache _ \<Rightarrow> Inl (logic_error ''bad_variant_access''))"

section \<open>One workload\<close>

definition default_NN_output :: real where
  "default_NN_output = - 1"

definition predict_one :: "NNModel \<Rightarrow> real list \<Rightarrow> real result" where
  "predict_one m descriptor =
     bind_result (nn_predict m descriptor) (\<lambda>out.
       if out = [] then Inl (undefined_behaviour ''operator[] past the end'') else Inr (out ! 0))"

definition infer_raw_input :: "NNModel \<Rightarrow> DPUWorkload \<Rightarrow> ActiveCache \<Rightarrow> (real \<times> ActiveCache) result" where
  "infer_raw_input m wl active =
     (if \<not> nn_initialized m then Inr (default_NN_output, active)
      else if uses_workload_hash_cache active then
        bind_result (manager_get_workload wl active) (\<lambda>(cached_value, active).
          case cached_value of
            Some (v, _) \<Rightarrow> Inr (v, active)
          | None \<Rightarrow>
              bind_result (predict_one m (nn_transform m wl)) (\<lambda>infered_value.
              bind_result (manager_add_workload wl infered_value active) (\<lambda>active.
                Inr (infered_value, active))))
      else
        let descriptor = nn_transform m wl
        in bind_result (manager_get_descriptor descriptor active) (\<lambda>(cached_value, active).
             case cached_value of
               Some (v, _) \<Rightarrow> Inr (v, active)
             | None \<Rightarrow>
                 bind_result (predict_one m descriptor) (\<lambda>infered_value.
                 bind_result (manager_add_descriptor descriptor infered_value active) (\<lambda>active.
                   Inr (infered_value, active)))))"

definition raw_to_cycles :: "NNModel \<Rightarrow> DPUWorkload \<Rightarrow> real \<Rightarrow> CyclesInterfaceType" where
  "raw_to_cycles m wl raw_value =
     (if is_NN_value_invalid raw_value then ERROR_INVALID_OUTPUT_RANGE
      else to_u32 \<lceil>post_process (nn_post m) wl raw_value\<rceil>)"

definition infer :: "NNModel \<Rightarrow> DPUWorkload \<Rightarrow> ActiveCache \<Rightarrow> (CyclesInterfaceType \<times> ActiveCache) result" where
  "infer m wl active =
     bind_result (infer_raw_input m wl active) (\<lambda>(raw_value, active). Inr (raw_to_cycles m wl raw_value, active))"

definition nn_get_cost :: "NNModel \<Rightarrow> DPUWorkload \<Rightarrow> ActiveCache \<Rightarrow> (CyclesInterfaceType \<times> ActiveCache) result" where
  "nn_get_cost m wl active =
     (if \<not> nn_initialized m then Inr (ERROR_INFERENCE_NOT_POSSIBLE, active) else infer m wl active)"

definition get_cached :: "NNModel \<Rightarrow> DPUWorkload \<Rightarrow> ActiveCache \<Rightarrow> (CyclesInterfaceType \<times> string option \<times> ActiveCache) result" where
  "get_cached m wl active =
     (if \<not> nn_initialized m then Inr (ERROR_CACHE_MISS, None, active)
      else
        bind_result (if uses_workload_hash_cache active then manager_get_workload wl active
                     else manager_get_descriptor (nn_transform m wl) active) (\<lambda>(cached_value, active).
          case cached_value of
            None \<Rightarrow> Inr (ERROR_CACHE_MISS, None, active)
          | Some (v, source) \<Rightarrow> Inr (raw_to_cycles m wl v, Some source, active)))"

definition add_to_cache :: "NNModel \<Rightarrow> DPUWorkload \<Rightarrow> real \<Rightarrow> ActiveCache \<Rightarrow> ActiveCache result" where
  "add_to_cache m wl v active =
     (if \<not> nn_initialized m then Inr active
      else if uses_workload_hash_cache active then manager_add_workload wl v active
      else manager_add_descriptor (nn_transform m wl) v active)"

section \<open>Many workloads\<close>

text \<open>
  The vector of descriptors is filled up to a whole number of batches with zeros. The index of the batch loop is a natural
  number: vectors of \<open>2 ^ 32\<close> workloads, on which it would wrap, are left out.
\<close>

definition transformBatch :: "NNModel \<Rightarrow> DPUWorkload list \<Rightarrow> u32 \<Rightarrow> real list" where
  "transformBatch m wls pad =
     (let total_workloads = unat (round_up (word_of_nat (length wls)) pad);
          zero_vector = replicate (unat (nn_descriptor_size m)) 0
      in concat (map (\<lambda>idx. if idx < length wls then nn_transform m (wls ! idx) else zero_vector) [0..<total_workloads]))"

function infer_batches :: "NNModel \<Rightarrow> real list \<Rightarrow> nat \<Rightarrow> nat \<Rightarrow> real list result" where
  "infer_batches m descriptor_for_all n wl_idx =
     (let batch = unat (nn_model_batch m); descriptor_size = unat (nn_descriptor_size m);
          complete_batch_end_idx = wl_idx + batch;
          end_idx = (if n < complete_batch_end_idx then n else complete_batch_end_idx)
      in if \<not> wl_idx < n then Inr []
         else if batch = 0 then Inl (undefined_behaviour ''batches of no workloads'')
         else
           bind_result (nn_predict m (take (descriptor_size * batch) (drop (wl_idx * descriptor_size) descriptor_for_all)))
             (\<lambda>hw_overhead_arr.
               if length hw_overhead_arr < end_idx - wl_idx then Inl (undefined_behaviour ''read past the output of the network'')
               else bind_result (infer_batches m descriptor_for_all n complete_batch_end_idx)
                      (\<lambda>rest. Inr (take (end_idx - wl_idx) hw_overhead_arr @ rest))))"
  by auto
termination
  by (relation "measure (\<lambda>(_, _, n, wl_idx). n - wl_idx)") auto

declare infer_batches.simps [simp del]

definition infer_raw_input_vector :: "NNModel \<Rightarrow> DPUWorkload list \<Rightarrow> real list result" where
  "infer_raw_input_vector m wls =
     (if \<not> nn_initialized m then Inr (replicate (length wls) default_NN_output)
      else
        bind_result (infer_batches m (transformBatch m wls (nn_model_batch m)) (length wls) 0) (\<lambda>results_buffer.
          Inr (map2 (\<lambda>wl nn_wl. post_process (nn_post m) wl nn_wl) wls results_buffer)))"

definition infer_vector :: "NNModel \<Rightarrow> DPUWorkload list \<Rightarrow> CyclesInterfaceType list result" where
  "infer_vector m wls =
     bind_result (infer_raw_input_vector m wls) (\<lambda>NN_results.
       Inr (map2 (\<lambda>wl nn_output_cycles. raw_to_cycles m wl nn_output_cycles) wls NN_results))"

definition nn_get_cost_vector :: "NNModel \<Rightarrow> DPUWorkload list \<Rightarrow> CyclesInterfaceType list result" where
  "nn_get_cost_vector m wls =
     (if \<not> nn_initialized m then Inr (replicate (length wls) ERROR_INFERENCE_NOT_POSSIBLE) else infer_vector m wls)"

section \<open>Construction\<close>

text \<open>
  The checks of the constructor. \<open>exists_preproc\<close> tells which input versions have a preprocessing (the descriptors are not
  modelled); the raw name of a model that is not loaded is \<^verbatim>\<open>none\<close>.
\<close>

definition init_preproc :: "(int \<Rightarrow> bool) \<Rightarrow> ModelVersion \<Rightarrow> string \<Rightarrow> unit result" where
  "init_preproc exists_preproc v filename =
     (if exists_preproc (input_version v) then Inr ()
      else Inl (runtime_error
        (''Cannot create preprocessing stage!.Preprocessing with version ('' @ to_string (input_version v) @
         '') is not known/supported. Filename: '' @ filename @ '' , Version info (raw): '' @ full_raw_name v)))"

definition init_postproc :: "ModelVersion \<Rightarrow> string \<Rightarrow> PostProcess result" where
  "init_postproc v filename =
     (if exists_postprocessing (output_version v) then make_postprocessing (output_version v)
      else Inl (runtime_error
        (''Cannot create post processing stage!.Post processing with version ('' @ to_string (output_version v) @
         '') is not known/supported. Filename: '' @ filename @ '' , Version info (raw): '' @ full_raw_name v)))"

definition check_post_config :: "ModelVersion \<Rightarrow> unit result" where
  "check_post_config v =
     (if full_raw_name v = ''none'' then Inr ()
      else if \<not> is_output_supported (output_version v) then
        Inl (runtime_error
          (''Cannot load/handle Models output version. The output version: ('' @ to_string (output_version v) @
           '') is not known/supported. Version info (raw):'' @ full_raw_name v))
      else Inr ())"

definition correlate_preprocessor_with_model_inputs :: "u32 \<Rightarrow> u32 \<Rightarrow> unit result" where
  "correlate_preprocessor_with_model_inputs model_input_size preprocessing_output_size =
     (if model_input_size \<noteq> preprocessing_output_size then
        Inl (runtime_error
          (''Cannot match preprocesing size with NN input expectations!'' @ [CHR 0x0A] @ ''.Preprocessing descriptor size = '' @
           to_string (uint preprocessing_output_size) @ ''.  NN input buffer size: = '' @ to_string (uint model_input_size) @
           ''.''))
      else Inr ())"

definition check_construction ::
  "(int \<Rightarrow> bool) \<Rightarrow> bool \<Rightarrow> ModelVersion \<Rightarrow> string \<Rightarrow> u32 \<Rightarrow> u32 \<Rightarrow> PostProcess result" where
  "check_construction exists_preproc initialized v filename model_input_size preprocessing_output_size =
     bind_result (init_preproc exists_preproc v filename) (\<lambda>_.
     bind_result (init_postproc v filename) (\<lambda>p.
       if \<not> initialized then Inr p
       else bind_result (check_post_config v) (\<lambda>_.
            bind_result (correlate_preprocessor_with_model_inputs model_input_size preprocessing_output_size) (\<lambda>_. Inr p))))"

end
