(* ===== verification/Nn_Provider_Laws.thy ===== *)
theory Nn_Provider_Laws
  imports Nn_Cost_Provider
begin

text \<open>
  What the network provider promises: which costs it can return, that its cache never changes a cost (the invariant
  \<open>coherent\<close> says that the entries are what the network gives for their keys), and what the vector interface computes, which
  post-processes every value twice.
\<close>

section \<open>The range of the costs\<close>

lemma getDWFactor_range: "0 \<le> getDWFactor w" "getDWFactor w \<le> 1"
proof -
  have "getDWFactor w = 1 \<or> (\<exists>n \<in> {44..100}. getDWFactor w = to_float32 (of_int n / 100))"
    using post_process_channels_range [of "to_int (channels (inputs_0 w))"] contextToIndex_less [of w] factors_in_table
    by (fastforce simp: getDWFactor_def Let_def)
  moreover have "0 \<le> to_float32 (of_int n / 100)" "to_float32 (of_int n / 100) \<le> 1" if "n \<in> {44..100}" for n :: int
    using that to_float32_le_int [of "of_int n / 100" 1] by (simp_all add: to_float32_nonneg)
  ultimately show "0 \<le> getDWFactor w" "getDWFactor w \<le> 1" by auto
qed

lemma post_process_range:
  assumes "\<not> is_NN_value_invalid x"
  shows "0 \<le> post_process p w x \<and> post_process p w x \<le> 4000000240"
proof -
  have x: "0 \<le> x" "x \<le> 4000000000"
    using assms by (simp_all add: is_NN_value_invalid_def high_threshold_def low_threshold_def)
  define y where "y = x * getDWFactor w"
  have y: "0 \<le> y" "y \<le> 4000000000"
    using x getDWFactor_range [of w] mult_mono [of x 4000000000 "getDWFactor w" 1] by (simp_all add: y_def)
  have "to_float32 y - y \<le> (\<bar>y\<bar> + 1) / 2 ^ 24" by (rule abs_le_D1 [OF to_float32_error])
  also have "\<dots> \<le> 240" using y by simp
  finally have "to_float32 y \<le> 4000000240" using y by linarith
  moreover have "0 \<le> to_float32 y" using y(1) by (rule to_float32_nonneg)
  ultimately show ?thesis
    using x by (cases p) (simp_all add: process_AdaptFromNPU27to40_def process_AdaptFromNPU40to40_def y_def)
qed

lemma raw_to_cycles_cases:
  "raw_to_cycles m wl raw =
     (if 0 \<le> raw \<and> raw \<le> 4000000000 then to_u32 \<lceil>post_process (nn_post m) wl raw\<rceil> else ERROR_INVALID_OUTPUT_RANGE) \<and>
   (isErrorCode (raw_to_cycles m wl raw) \<longleftrightarrow> raw < 0 \<or> 4000000000 < raw)"
proof -
  have "\<not> isErrorCode (to_u32 \<lceil>post_process (nn_post m) wl raw\<rceil>)" if "0 \<le> raw" "raw \<le> 4000000000"
  proof -
    have "0 \<le> \<lceil>post_process (nn_post m) wl raw\<rceil>" "\<lceil>post_process (nn_post m) wl raw\<rceil> \<le> 4000000240"
      using post_process_range [of raw "nn_post m" wl] that
      by (simp_all add: is_NN_value_invalid_def high_threshold_def low_threshold_def ceiling_le_iff)
    then show ?thesis by (simp only: not_isErrorCode_unat) (simp add: unat_to_u32 nat_le_iff)
  qed
  moreover have "isErrorCode ERROR_INVALID_OUTPUT_RANGE" by (simp add: isErrorCode_unat cycles_code_defs)
  ultimately show ?thesis
    by (auto simp: raw_to_cycles_def is_NN_value_invalid_def high_threshold_def low_threshold_def)
qed

text \<open>
  A cost that comes from the network is valid exactly if the output of the network is between 0 and 4000000000, and
  otherwise it is the error for an output out of range: post-processing cannot produce an error code.
\<close>

theorem nn_cost_error_only_out_of_range:
  "raw_to_cycles m wl raw =
     (if 0 \<le> raw \<and> raw \<le> 4000000000 then to_u32 \<lceil>post_process (nn_post m) wl raw\<rceil> else ERROR_INVALID_OUTPUT_RANGE) \<and>
   (isErrorCode (raw_to_cycles m wl raw) \<longleftrightarrow> raw < 0 \<or> 4000000000 < raw)"
  by (rule raw_to_cycles_cases)

section \<open>The cache never changes the cost\<close>

definition preloaded_value :: "NNModel \<Rightarrow> DPUWorkload \<Rightarrow> ActiveCache \<Rightarrow> real option" where
  "preloaded_value m wl active =
     (case active of
        WorkloadCache c \<Rightarrow> map_of (fc_map (deserialized_table c)) (workload_key_hash (cache_key wl))
      | DescriptorCache c \<Rightarrow> map_of (fc_map (deserialized_table c)) (descriptor_key_hash (nn_transform m wl)))"

definition dynamic_value :: "NNModel \<Rightarrow> DPUWorkload \<Rightarrow> ActiveCache \<Rightarrow> real option" where
  "dynamic_value m wl active =
     (case active of
        WorkloadCache c \<Rightarrow> map_of (entries c) (cache_key wl)
      | DescriptorCache c \<Rightarrow> map_of (entries c) (nn_transform m wl))"

definition cached_value :: "NNModel \<Rightarrow> DPUWorkload \<Rightarrow> ActiveCache \<Rightarrow> (real \<times> string) option" where
  "cached_value m wl active =
     (case preloaded_value m wl active of
        Some v \<Rightarrow> Some (v, ''fixed_cache'')
      | None \<Rightarrow> map_option (\<lambda>v. (v, ''dyn_cache'')) (dynamic_value m wl active))"

definition cache_inv :: "ActiveCache \<Rightarrow> bool" where
  "cache_inv active = (case active of WorkloadCache c \<Rightarrow> lru_inv c | DescriptorCache c \<Rightarrow> lru_inv c)"

definition capacity :: "ActiveCache \<Rightarrow> nat" where
  "capacity active = (case active of WorkloadCache c \<Rightarrow> max_size c | DescriptorCache c \<Rightarrow> max_size c)"

definition same_preloaded :: "ActiveCache \<Rightarrow> ActiveCache \<Rightarrow> bool" where
  "same_preloaded a b \<longleftrightarrow> uses_workload_hash_cache a = uses_workload_hash_cache b \<and> capacity a = capacity b \<and>
     (\<forall>m wl. preloaded_value m wl a = preloaded_value m wl b)"

text \<open>The entries of a coherent cache are what the network gives for their keys.\<close>

definition coherent :: "NNModel \<Rightarrow> ActiveCache \<Rightarrow> bool" where
  "coherent m active \<longleftrightarrow> cache_inv active \<and>
     (case active of
        WorkloadCache c \<Rightarrow> list_all (\<lambda>(k, v). predict_one m (nn_transform m k) = Inr v) (entries c)
      | DescriptorCache c \<Rightarrow> list_all (\<lambda>(k, v). predict_one m k = Inr v) (entries c))"

lemma list_all_touch: "list_all P l \<Longrightarrow> list_all P (touch k l)"
  using touch_subset [of k l] by (auto simp: list_all_iff)

lemma list_all_spec_add: "list_all P l \<Longrightarrow> P (k, v) \<Longrightarrow> list_all P (spec_add cap k v l)"
  using spec_add_subset [of cap k v l] by (auto simp: list_all_iff)

lemma touch_lookup: "map_of (touch k l) j = map_of l j"
  by (auto simp: touch_def map_of_filter_key split: option.split)

lemma lru_lookup:
  assumes "lru_inv c"
  obtains c' where
    "lru_get h k c = Inr (case map_of (fc_map (deserialized_table c)) (h k) of Some v \<Rightarrow> Some (v, ''fixed_cache'')
       | None \<Rightarrow> map_option (\<lambda>v. (v, ''dyn_cache'')) (map_of (entries c) k), c')"
    "lru_inv c'" "max_size c' = max_size c" "fc_map (deserialized_table c') = fc_map (deserialized_table c)"
    "entries c' = entries c \<or> entries c' = touch k (entries c)"
  using lru_get_keeps [OF assms, of h k] by metis

text \<open>What a lookup and an addition do, for both kinds of cache.\<close>

lemma cache_lookup:
  assumes "cache_inv active"
  shows "\<exists>active'. (if uses_workload_hash_cache active then manager_get_workload wl active
      else manager_get_descriptor (nn_transform m wl) active) = Inr (cached_value m wl active, active') \<and>
    cache_inv active' \<and> same_preloaded active active' \<and> (coherent m active \<longrightarrow> coherent m active') \<and>
    (\<forall>w. dynamic_value m w active' = dynamic_value m w active)"
proof (cases active)
  case (WorkloadCache c)
  have i: "lru_inv c" using assms by (simp add: WorkloadCache cache_inv_def)
  have cv: "(case map_of (fc_map (deserialized_table c)) (workload_key_hash (cache_key wl)) of Some v \<Rightarrow> Some (v, ''fixed_cache'')
      | None \<Rightarrow> map_option (\<lambda>v. (v, ''dyn_cache'')) (map_of (entries c) (cache_key wl))) = cached_value m wl active"
    by (simp add: WorkloadCache cached_value_def preloaded_value_def dynamic_value_def split: option.split)
  obtain c' where c': "lru_get workload_key_hash (cache_key wl) c = Inr (cached_value m wl active, c')" "lru_inv c'"
    "max_size c' = max_size c" "fc_map (deserialized_table c') = fc_map (deserialized_table c)"
    "entries c' = entries c \<or> entries c' = touch (cache_key wl) (entries c)"
    by (rule lru_lookup [OF i, of workload_key_hash "cache_key wl", unfolded cv])
  then show ?thesis
    by (intro exI [of _ "ActiveCache.WorkloadCache c'"])
      (auto simp: WorkloadCache manager_get_workload_def uses_workload_hash_cache_def cache_inv_def same_preloaded_def capacity_def
        preloaded_value_def coherent_def dynamic_value_def list_all_touch touch_lookup)
next
  case (DescriptorCache c)
  have i: "lru_inv c" using assms by (simp add: DescriptorCache cache_inv_def)
  have cv: "(case map_of (fc_map (deserialized_table c)) (descriptor_key_hash (nn_transform m wl)) of Some v \<Rightarrow> Some (v, ''fixed_cache'')
      | None \<Rightarrow> map_option (\<lambda>v. (v, ''dyn_cache'')) (map_of (entries c) (nn_transform m wl))) = cached_value m wl active"
    by (simp add: DescriptorCache cached_value_def preloaded_value_def dynamic_value_def split: option.split)
  obtain c' where c': "lru_get descriptor_key_hash (nn_transform m wl) c = Inr (cached_value m wl active, c')" "lru_inv c'"
    "max_size c' = max_size c" "fc_map (deserialized_table c') = fc_map (deserialized_table c)"
    "entries c' = entries c \<or> entries c' = touch (nn_transform m wl) (entries c)"
    by (rule lru_lookup [OF i, of descriptor_key_hash "nn_transform m wl", unfolded cv])
  then show ?thesis
    by (intro exI [of _ "ActiveCache.DescriptorCache c'"])
      (auto simp: DescriptorCache manager_get_descriptor_def uses_workload_hash_cache_def cache_inv_def same_preloaded_def capacity_def
        preloaded_value_def coherent_def dynamic_value_def list_all_touch touch_lookup)
qed

lemma add_to_cache_keeps:
  assumes "cache_inv active" "nn_initialized m"
  shows "\<exists>active'. add_to_cache m wl v active = Inr active' \<and> cache_inv active' \<and> same_preloaded active active' \<and>
    (coherent m active \<and> predict_one m (nn_transform m wl) = Inr v \<and> nn_transform m (cache_key wl) = nn_transform m wl \<longrightarrow>
       coherent m active') \<and>
    (coherent m active \<and> (capacity active = 0 \<or> preloaded_value m wl active \<noteq> None \<or> dynamic_value m wl active \<noteq> None) \<longrightarrow>
       coherent m active') \<and>
    (0 < capacity active \<longrightarrow> preloaded_value m wl active' \<noteq> None \<or> dynamic_value m wl active' \<noteq> None)"
proof (cases active)
  case (WorkloadCache c)
  obtain c' where c': "lru_add workload_key_hash (cache_key wl) v c = Inr c'" "lru_inv c'" "max_size c' = max_size c"
    "deserialized_table c' = deserialized_table c"
    "entries c' = (if max_size c = 0 \<or> fixed_contains (deserialized_table c) (workload_key_hash (cache_key wl)) then entries c
       else spec_add (max_size c) (cache_key wl) v (entries c))"
    using lru_add_keeps [of c workload_key_hash "cache_key wl" v] assms(1) by (auto simp: WorkloadCache cache_inv_def)
  have "map_of (spec_add (max_size c) (cache_key wl) v (entries c)) (cache_key wl) \<noteq> None" if "0 < max_size c"
    using that by (cases "max_size c") (simp_all add: spec_add_def touch_lookup split: option.split)
  moreover have "spec_add (max_size c) (cache_key wl) v (entries c) = touch (cache_key wl) (entries c)" if "map_of (entries c) (cache_key wl) \<noteq> None"
    using that by (auto simp: spec_add_def)
  ultimately show ?thesis using c' assms(2)
    by (intro exI [of _ "ActiveCache.WorkloadCache c'"])
      (auto simp: WorkloadCache add_to_cache_def manager_add_workload_def uses_workload_hash_cache_def cache_inv_def same_preloaded_def capacity_def
        preloaded_value_def coherent_def dynamic_value_def list_all_spec_add list_all_touch fixed_contains_def tsm_contains_def)
next
  case (DescriptorCache c)
  obtain c' where c': "lru_add descriptor_key_hash (nn_transform m wl) v c = Inr c'" "lru_inv c'" "max_size c' = max_size c"
    "deserialized_table c' = deserialized_table c"
    "entries c' = (if max_size c = 0 \<or> fixed_contains (deserialized_table c) (descriptor_key_hash (nn_transform m wl)) then entries c
       else spec_add (max_size c) (nn_transform m wl) v (entries c))"
    using lru_add_keeps [of c descriptor_key_hash "nn_transform m wl" v] assms(1) by (auto simp: DescriptorCache cache_inv_def)
  have "map_of (spec_add (max_size c) (nn_transform m wl) v (entries c)) (nn_transform m wl) \<noteq> None" if "0 < max_size c"
    using that by (cases "max_size c") (simp_all add: spec_add_def touch_lookup split: option.split)
  moreover have "spec_add (max_size c) (nn_transform m wl) v (entries c) = touch (nn_transform m wl) (entries c)" if "map_of (entries c) (nn_transform m wl) \<noteq> None"
    using that by (auto simp: spec_add_def)
  ultimately show ?thesis using c' assms(2)
    by (intro exI [of _ "ActiveCache.DescriptorCache c'"])
      (auto simp: DescriptorCache add_to_cache_def manager_add_descriptor_def uses_workload_hash_cache_def cache_inv_def same_preloaded_def capacity_def
        preloaded_value_def coherent_def dynamic_value_def list_all_spec_add list_all_touch fixed_contains_def tsm_contains_def)
qed

definition lookup_value :: "NNModel \<Rightarrow> DPUWorkload \<Rightarrow> ActiveCache \<Rightarrow> real option" where
  "lookup_value m wl active = map_option fst (cached_value m wl active)"

lemma coherent_dynamic:
  assumes "coherent m active" "dynamic_value m wl active = Some v" "nn_transform m (cache_key wl) = nn_transform m wl"
  shows "predict_one m (nn_transform m wl) = Inr v"
proof (cases active)
  case (WorkloadCache c)
  then have "(cache_key wl, v) \<in> set (entries c)" using assms(2) by (simp add: dynamic_value_def map_of_SomeD)
  then show ?thesis using assms by (auto simp: WorkloadCache coherent_def list_all_iff)
next
  case (DescriptorCache c)
  then have "(nn_transform m wl, v) \<in> set (entries c)" using assms(2) by (simp add: dynamic_value_def map_of_SomeD)
  then show ?thesis using assms by (auto simp: DescriptorCache coherent_def list_all_iff)
qed

lemma same_preloaded_trans: "same_preloaded a b \<Longrightarrow> same_preloaded b c \<Longrightarrow> same_preloaded a c"
  by (simp add: same_preloaded_def)

lemma same_preloaded_refl [simp]: "same_preloaded a a"
  by (simp add: same_preloaded_def)

lemma same_preloaded_value: "same_preloaded a b \<Longrightarrow> preloaded_value m wl b = preloaded_value m wl a"
  by (simp add: same_preloaded_def)

lemma infer_raw_input_unfold:
  assumes "nn_initialized m"
  shows "infer_raw_input m wl active =
    bind_result (if uses_workload_hash_cache active then manager_get_workload wl active
      else manager_get_descriptor (nn_transform m wl) active) (\<lambda>(r, active').
        case r of
          Some (v, _) \<Rightarrow> Inr (v, active')
        | None \<Rightarrow> bind_result (predict_one m (nn_transform m wl)) (\<lambda>v.
            bind_result (if uses_workload_hash_cache active then manager_add_workload wl v active'
              else manager_add_descriptor (nn_transform m wl) v active') (\<lambda>active'. Inr (v, active'))))"
  using assms by (cases "uses_workload_hash_cache active") (simp_all add: infer_raw_input_def Let_def cong: option.case_cong)

text \<open>The inference: the preloaded value, else the cached one, else the prediction, which is then cached.\<close>

lemma infer_raw_input_spec:
  assumes "nn_initialized m" "cache_inv active" "predict_one m (nn_transform m wl) = Inr p"
  shows "\<exists>active'. infer_raw_input m wl active =
      Inr (case lookup_value m wl active of Some v \<Rightarrow> v | None \<Rightarrow> p, active') \<and>
    cache_inv active' \<and> same_preloaded active active' \<and>
    (coherent m active \<and> nn_transform m (cache_key wl) = nn_transform m wl \<longrightarrow> coherent m active') \<and>
    (0 < capacity active \<longrightarrow> preloaded_value m wl active' \<noteq> None \<or> dynamic_value m wl active' \<noteq> None)"
proof -
  obtain a1 where a1: "(if uses_workload_hash_cache active then manager_get_workload wl active
      else manager_get_descriptor (nn_transform m wl) active) = Inr (cached_value m wl active, a1)"
    "cache_inv a1" "same_preloaded active a1" "coherent m active \<longrightarrow> coherent m a1"
    "\<forall>w. dynamic_value m w a1 = dynamic_value m w active"
    using cache_lookup [OF assms(2), of wl m] by auto
  have u: "uses_workload_hash_cache a1 = uses_workload_hash_cache active" using a1(3) by (simp add: same_preloaded_def)
  show ?thesis
  proof (cases "cached_value m wl active")
    case (Some r)
    then have "preloaded_value m wl a1 \<noteq> None \<or> dynamic_value m wl a1 \<noteq> None"
      using a1(5) same_preloaded_value [OF a1(3), of m wl] by (auto simp: cached_value_def split: option.splits)
    then show ?thesis using a1 Some by (cases r) (simp add: infer_raw_input_unfold assms(1) lookup_value_def)
  next
    case None
    obtain a2 where a2: "add_to_cache m wl p a1 = Inr a2" "cache_inv a2" "same_preloaded a1 a2"
      "coherent m a1 \<and> nn_transform m (cache_key wl) = nn_transform m wl \<longrightarrow> coherent m a2"
      "0 < capacity a1 \<longrightarrow> preloaded_value m wl a2 \<noteq> None \<or> dynamic_value m wl a2 \<noteq> None"
      using add_to_cache_keeps [OF a1(2) assms(1), of wl p] assms(3) by auto
    have "(if uses_workload_hash_cache active then manager_add_workload wl p a1
              else manager_add_descriptor (nn_transform m wl) p a1) = Inr a2"
      using a2(1) by (simp add: add_to_cache_def assms(1) u)
    moreover have "capacity a1 = capacity active" using a1(3) by (simp add: same_preloaded_def)
    ultimately show ?thesis
      using None a1 a2 assms(3) same_preloaded_trans [OF a1(3) a2(3)]
      by (simp add: infer_raw_input_unfold assms(1) lookup_value_def)
  qed
qed

lemma nn_get_cost_spec:
  assumes "nn_initialized m" "coherent m active" "predict_one m (nn_transform m wl) = Inr p"
    and "nn_transform m (cache_key wl) = nn_transform m wl"
  shows "\<exists>active'. nn_get_cost m wl active =
      Inr (raw_to_cycles m wl (case preloaded_value m wl active of Some v \<Rightarrow> v | None \<Rightarrow> p), active') \<and>
    coherent m active' \<and> same_preloaded active active' \<and>
    (0 < capacity active \<longrightarrow> preloaded_value m wl active' \<noteq> None \<or> dynamic_value m wl active' \<noteq> None)"
proof -
  have inv: "cache_inv active" using assms(2) by (simp add: coherent_def)
  have "(case lookup_value m wl active of Some v \<Rightarrow> v | None \<Rightarrow> p) = (case preloaded_value m wl active of Some v \<Rightarrow> v | None \<Rightarrow> p)"
    using coherent_dynamic [OF assms(2) _ assms(4)] assms(3)
    by (auto simp: lookup_value_def cached_value_def split: option.split)
  then show ?thesis
    using infer_raw_input_spec [OF assms(1) inv assms(3)] assms(1,2,4)
    by (auto simp: nn_get_cost_def infer_def)
qed


section \<open>A vector of workloads\<close>

definition batch_network :: "NNModel \<Rightarrow> (real list \<Rightarrow> real) \<Rightarrow> bool" where
  "batch_network m single \<longleftrightarrow>
     (\<forall>ds. length ds = unat (nn_model_batch m) \<and> list_all (\<lambda>d. length d = unat (nn_descriptor_size m)) ds \<longrightarrow>
        nn_predict m (concat ds) = Inr (map single ds))"

lemma take_drop_concat:
  assumes "list_all (\<lambda>d. length d = k) ds"
  shows "take (k * b) (drop (i * k) (concat ds)) = concat (take b (drop i ds))"
proof -
  have d: "list_all (\<lambda>d. length d = k) ds \<Longrightarrow> drop (i * k) (concat ds) = concat (drop i ds)" for i ds
    by (induction ds arbitrary: i) (auto simp: drop_Cons' algebra_simps split: nat_diff_split)
  have t: "list_all (\<lambda>d. length d = k) ds \<Longrightarrow> take (b * k) (concat ds) = concat (take b ds)" for b ds
  proof (induction ds arbitrary: b)
    case (Cons d ds)
    then show ?case by (cases b) auto
  qed simp
  have "list_all (\<lambda>d. length d = k) (drop i ds)" using assms by (auto simp: list_all_iff dest: in_set_dropD)
  then show ?thesis using d [OF assms] t by (simp add: mult.commute)
qed

lemma infer_batches_spec:
  assumes "batch_network m single" "0 < unat (nn_model_batch m)"
    and "list_all (\<lambda>d. length d = unat (nn_descriptor_size m)) ds"
    and "unat (nn_model_batch m) dvd length ds" "n \<le> length ds"
  shows "unat (nn_model_batch m) dvd i \<Longrightarrow>
    infer_batches m (concat ds) n i = Inr (take (n - i) (drop i (map single ds)))"
proof (induction "n - i" arbitrary: i rule: less_induct)
  case less
  define b where "b = unat (nn_model_batch m)"
  define k where "k = unat (nn_descriptor_size m)"
  show ?case
  proof (cases "i < n")
    case False
    then show ?thesis by (simp add: infer_batches.simps [of m _ n i])
  next
    case True
    obtain q where q: "length ds = b * q" using assms(4) by (auto simp: b_def)
    obtain j where j: "i = b * j" using less.prems by (auto simp: b_def)
    have "b * j < b * q" using True assms(5) q j by linarith
    then have "b * (j + 1) \<le> b * q" by (intro mult_le_mono2) (metis Suc_eq_plus1 Suc_leI nat_mult_less_cancel1 mult_less_cancel1)
    then have fits: "i + b \<le> length ds" using q j by (simp add: algebra_simps)
    have "list_all (\<lambda>d. length d = k) (take b (drop i ds))"
      using assms(3) by (auto simp: list_all_iff k_def dest!: in_set_takeD in_set_dropD)
    then have pred: "nn_predict m (take (k * b) (drop (i * k) (concat ds))) = Inr (map single (take b (drop i ds)))"
      using assms(1,3) fits by (simp add: batch_network_def take_drop_concat flip: b_def k_def)
    have rest: "infer_batches m (concat ds) n (i + b) = Inr (take (n - (i + b)) (drop (i + b) (map single ds)))"
      using True assms(2) less.prems by (intro less.hyps) (simp_all add: b_def)
    have e: "(if n < i + b then n else i + b) - i = min b (n - i)" by auto
    have "take (min b (n - i)) (map single (take b (drop i ds))) @ take (n - (i + b)) (drop (i + b) (map single ds)) =
        take (n - i) (drop i (map single ds))"
    proof (cases "n - i \<le> b")
      case True
      then show ?thesis by (simp add: take_map drop_map min_def)
    next
      case False
      then have "n - i = b + (n - (i + b))" by simp
      then have "take (n - i) (drop i (map single ds)) =
          take b (drop i (map single ds)) @ take (n - (i + b)) (drop (b + i) (map single ds))"
        by (metis take_add drop_drop)
      then show ?thesis using False by (simp add: take_map drop_map add.commute)
    qed
    then show ?thesis
      using True assms(2) fits pred rest
      by (simp add: infer_batches.simps [of m _ n i] Let_def e flip: b_def k_def)
  qed
qed

lemma transformBatch_concat:
  assumes "0 < pad" "length wls + unat pad \<le> 4294967296"
  shows "\<exists>ds. transformBatch m wls pad = concat ds \<and> unat pad dvd length ds \<and> length wls \<le> length ds \<and>
    take (length wls) ds = map (nn_transform m) wls \<and>
    list_all (\<lambda>d. d \<in> nn_transform m ` set wls \<or> length d = unat (nn_descriptor_size m)) ds"
proof -
  define t where "t = unat (round_up (word_of_nat (length wls)) pad)"
  have p: "0 < unat pad" using assms(1) by (simp add: word_less_nat_alt)
  then have l: "unat (word_of_nat (length wls) :: u32) = length wls"
    using assms(2) by (intro unat_word_of_nat) linarith
  have t: "unat pad dvd t \<and> length wls \<le> t"
    using round_up_bounds [of pad "word_of_nat (length wls)"] assms p by (simp add: t_def l unat_gt_0)
  let ?ds = "map (\<lambda>idx. if idx < length wls then nn_transform m (wls ! idx) else replicate (unat (nn_descriptor_size m)) 0) [0..<t]"
  have "take (length wls) ?ds = map (nn_transform m) wls"
    using t by (intro nth_equalityI) auto
  then show ?thesis using t
    by (intro exI [of _ ?ds]) (auto simp: transformBatch_def Let_def list_all_iff t_def)
qed

text \<open>
  C14. For a network that treats the workloads of a batch independently, the vector interface returns for every workload, in
  order, the cost of its prediction, whatever the number of workloads and the size of the batches; the adapter of the
  output is applied to the prediction before it is turned into a cost, which applies it again.
\<close>

theorem nn_vector_cost:
  assumes "nn_initialized m" "batch_network m single" "0 < nn_model_batch m"
    and "list_all (\<lambda>wl. length (nn_transform m wl) = unat (nn_descriptor_size m)) wls"
    and "length wls + unat (nn_model_batch m) \<le> 4294967296"
  shows "nn_get_cost_vector m wls =
    Inr (map (\<lambda>wl. raw_to_cycles m wl (post_process (nn_post m) wl (single (nn_transform m wl)))) wls)"
proof -
  obtain ds where ds: "transformBatch m wls (nn_model_batch m) = concat ds" "unat (nn_model_batch m) dvd length ds"
    "length wls \<le> length ds" "take (length wls) ds = map (nn_transform m) wls"
    "list_all (\<lambda>d. d \<in> nn_transform m ` set wls \<or> length d = unat (nn_descriptor_size m)) ds"
    using transformBatch_concat [OF assms(3,5), of m] by blast
  have sized: "list_all (\<lambda>d. length d = unat (nn_descriptor_size m)) ds"
    using ds(5) assms(4) by (auto simp: list_all_iff)
  have "0 < unat (nn_model_batch m)" using assms(3) by (simp add: word_less_nat_alt)
  from infer_batches_spec [OF assms(2) this sized ds(2,3), of 0]
  have "infer_batches m (concat ds) (length wls) 0 = Inr (map (\<lambda>wl. single (nn_transform m wl)) wls)"
    by (simp add: take_map ds(4) comp_def)
  then show ?thesis
    using assms(1)
    by (simp add: nn_get_cost_vector_def infer_vector_def infer_raw_input_vector_def ds(1) zip_map2 zip_same_conv_map comp_def)
qed
section \<open>An example\<close>

definition npu27_model :: NNModel where
  "npu27_model =
     \<lparr>nn_initialized = True, nn_predict = (\<lambda>_. Inr [1000]), nn_model_batch = 1, nn_descriptor_size = 1,
      nn_transform = (\<lambda>_. [0]), nn_post = AdaptFromNPU27to40, nn_properties = [], nn_version = reset_ModelVersion\<rparr>"

definition dw_example :: DPUWorkload where
  "dw_example = new_DPUWorkload VPU_4_0 DW_CONVOLUTION (mk_VPUTensor 8 8 16 1 UINT8 ZXY False)
     (mk_VPUTensor 8 8 16 1 UINT8 ZXY False) \<lparr>gridW = 3, gridH = 3\<rparr> \<lparr>gridW = 1, gridH = 1\<rparr>
     \<lparr>padTOP = 1, padBOTTOM = 1, padLEFT = 1, padRIGHT = 1\<rparr> CUBOID_16x16"

definition empty_descriptor_cache :: ActiveCache where
  "empty_descriptor_cache = build_active_cache False 16 empty_FixedCache"

lemma npu27_predicts: "predict_one npu27_model d = Inr 1000" "nn_transform npu27_model wl = [0]" "nn_initialized npu27_model"
  by (simp_all add: predict_one_def npu27_model_def)

lemma empty_descriptor_cache_coherent: "coherent m empty_descriptor_cache"
  by (simp add: coherent_def cache_inv_def empty_descriptor_cache_def build_active_cache_def new_cache_inv)
    (simp add: new_LRUCache_def entries_def)

lemma empty_descriptor_cache_preloaded: "preloaded_value m wl empty_descriptor_cache = None"
  by (simp add: preloaded_value_def empty_descriptor_cache_def build_active_cache_def new_LRUCache_def empty_FixedCache_def)

lemma npu27_batch: "batch_network npu27_model (\<lambda>_. 1000)"
  by (auto simp: batch_network_def npu27_model_def length_Suc_conv)

lemma to_float32_half: "to_float32 (1 / 2) = 1 / 2"
proof -
  have "log 2 \<bar>1 / 2 :: real\<bar> = - 1" by (simp add: log_divide)
  then have q: "(2 :: real) powi (max \<lfloor>log 2 \<bar>1 / 2 :: real\<bar>\<rfloor> (- 126) - 23) = 1 / 16777216"
    by (simp add: power_int_def power_one_over floor_minus)
  have "round_half_even ((1 / 2) / (1 / 16777216)) = 8388608"
    using round_half_even_int [of 8388608] by simp
  then show ?thesis unfolding to_float32_def Let_def q by simp
qed

lemma dw_example_cost:
  "raw_to_cycles npu27_model dw_example 1000 = 500" "post_process (nn_post npu27_model) dw_example 1000 = 500"
  "raw_to_cycles npu27_model dw_example 500 = 250"
proof -
  have f: "getDWFactor dw_example = 1 / 2"
    using to_float32_half
    by (simp add: getDWFactor_def dw_example_def new_DPUWorkload_def mk_VPUTensor_def mk_shape_def channels_def tz_def Let_def
        channelsToIndex_def contextToIndex_def kToIndex0to2_def getTypeBasedFactorsArray_def factor_array_8Bit_def)
  have d: "VPU_4_0 \<le> device dw_example" "op dw_example = DW_CONVOLUTION"
    by (simp_all add: dw_example_def new_DPUWorkload_def)
  have p: "process_AdaptFromNPU27to40 dw_example 1000 = 500" "process_AdaptFromNPU27to40 dw_example 500 = 250"
    using to_float32_of_int [of 500] to_float32_of_int [of 250]
    by (simp_all add: process_AdaptFromNPU27to40_def f d is_NN_value_invalid_def high_threshold_def low_threshold_def)
  show "raw_to_cycles npu27_model dw_example 1000 = 500" "post_process (nn_post npu27_model) dw_example 1000 = 500"
    "raw_to_cycles npu27_model dw_example 500 = 250"
    using p by (simp_all add: raw_to_cycles_def npu27_model_def is_NN_value_invalid_def high_threshold_def low_threshold_def)
qed


theorem nn_vector_cost_witness:
  "nn_get_cost_vector npu27_model [dw_example, dw_example] = Inr [250, 250]"
proof -
  have "nn_get_cost_vector npu27_model [dw_example, dw_example] =
    Inr (map (\<lambda>wl. raw_to_cycles npu27_model wl (post_process (nn_post npu27_model) wl ((\<lambda>_. 1000) (nn_transform npu27_model wl))))
      [dw_example, dw_example])"
    by (rule nn_vector_cost) (simp_all add: npu27_batch npu27_predicts(3), simp_all add: npu27_model_def)
  then show ?thesis by (simp add: dw_example_cost)
qed

end
