(* ===== verification/Hw_Characteristics.thy ===== *)
theory Hw_Characteristics
  imports Dtype_Info Vpu_Utils Workload Float_Single
begin

text \<open>
  What the hardware of a device can do, as numbers: the tables of \<^verbatim>\<open>include/vpu/hw_characteristics/\<close>, the sets that choose a
  table for a device (\<^verbatim>\<open>device_HW_characteristics_const_repo.h\<close>, \<^verbatim>\<open>tuple_indexing_helper.h\<close>), the global access of
  \<^verbatim>\<open>include/vpu/performance.h\<close>, and the ideal cycles of \<^verbatim>\<open>src/vpu/vpu_performance_model.cpp\<close>, which count multiply-accumulate
  operations. \<open>unsigned long\<close> is \<open>u64\<close>.
\<close>

section \<open>Memory locations\<close>

datatype MemoryLocation = DRAM | CMX | CSRAM | UPA | enum_size

definition MemoryLocation_enum :: "MemoryLocation list" where
  "MemoryLocation_enum =
     [MemoryLocation.DRAM, MemoryLocation.CMX, MemoryLocation.CSRAM, MemoryLocation.UPA, MemoryLocation.enum_size]"

definition MemoryLocation_ToText :: EnumMap where
  "MemoryLocation_ToText =
     [link MemoryLocation_enum MemoryLocation.DRAM ''DRAM'', link MemoryLocation_enum MemoryLocation.CMX ''CMX'',
      link MemoryLocation_enum MemoryLocation.CSRAM ''CSRAM'', link MemoryLocation_enum MemoryLocation.UPA ''UPA'']"

definition enumName_MemoryLocation :: string where
  "enumName_MemoryLocation = ''MemoryLocation''"

interpretation memorylocation_text: enum_text MemoryLocation_enum MemoryLocation_ToText enumName_MemoryLocation
  by unfold_locales (code_simp+)

section \<open>The characteristics of a device\<close>

record HWCharacteristicsRawData =
  dpu_freq_clk :: u32
  cmx_freq_clk :: u32
  cmx_word_size_B :: u32
  DMA_engine_B :: int
  dpu_cmx_num_read_ports :: u32
  dram_bandwidth_MBps :: real
  nr_macs :: u32
  fp_ratio :: u32
  nr_ppe :: u32
  input_channels_mac :: u32
  nDPU_per_tile :: u32
  dma_ports :: int
  profiling_clk_MHz :: real
  profiling_clk_Hz :: int

record LatencyValuesRawData =
  dramLatency_Nanoseconds :: int
  cmxLatency_CMXClockCycles :: int
  postTimeLatency_CMXClockCycles :: int
  mixedMemoryEfficiency :: real

record DeviceHWCharacteristics =
  hw_characteristics :: HWCharacteristicsRawData
  latency_values :: LatencyValuesRawData

definition PROF_CLK_MHz :: real where
  "PROF_CLK_MHz = to_float32 (384 / 10)"

definition PROF_CLK_Hz :: int where
  "PROF_CLK_Hz = 38400000"

definition get_DMA_latency :: "DeviceHWCharacteristics \<Rightarrow> MemoryLocation \<Rightarrow> CyclesInterfaceType" where
  "get_DMA_latency c location =
     (let hw = hw_characteristics c;
          lat = latency_values c;
          dpu_clk = to_int (dpu_freq_clk hw);
          cmx_clk = to_int (cmx_freq_clk hw);
          dram_DPUCycles = (dramLatency_Nanoseconds lat * dpu_clk) sdiv 1000 +
            (postTimeLatency_CMXClockCycles lat * dpu_clk sdiv cmx_clk);
          cmx_DPUCycles =
            (cmxLatency_CMXClockCycles lat + postTimeLatency_CMXClockCycles lat) * dpu_clk sdiv cmx_clk
      in to_u32 (if location = DRAM then dram_DPUCycles else cmx_DPUCycles))"

definition getDMATRansferEfficiency :: "DeviceHWCharacteristics \<Rightarrow> MemoryLocation \<Rightarrow> MemoryLocation \<Rightarrow> real \<times> real" where
  "getDMATRansferEfficiency c s d =
     (let mixed = mixedMemoryEfficiency (latency_values c) in
      if s = DRAM \<and> d = CMX then (1, mixed)
      else if s = CMX \<and> d = DRAM then (mixed, 1)
      else (1, 1))"

section \<open>The tables\<close>

definition VPU2_0_HWCharacteristics :: DeviceHWCharacteristics where
  "VPU2_0_HWCharacteristics =
     \<lparr>hw_characteristics =
        \<lparr>dpu_freq_clk = 700, cmx_freq_clk = 700, cmx_word_size_B = 16, DMA_engine_B = 32, dpu_cmx_num_read_ports = 4,
         dram_bandwidth_MBps = 20000, nr_macs = 256, fp_ratio = 4, nr_ppe = 16, input_channels_mac = 1, nDPU_per_tile = 5,
         dma_ports = 2, profiling_clk_MHz = PROF_CLK_MHz, profiling_clk_Hz = PROF_CLK_Hz\<rparr>,
      latency_values =
        \<lparr>dramLatency_Nanoseconds = 0, cmxLatency_CMXClockCycles = 0, postTimeLatency_CMXClockCycles = 0,
         mixedMemoryEfficiency = 1\<rparr>\<rparr>"

definition VPU2_1_HWCharacteristics :: DeviceHWCharacteristics where
  "VPU2_1_HWCharacteristics =
     \<lparr>hw_characteristics =
        \<lparr>dpu_freq_clk = 850, cmx_freq_clk = 850, cmx_word_size_B = 16, DMA_engine_B = 32, dpu_cmx_num_read_ports = 4,
         dram_bandwidth_MBps = 20000, nr_macs = 256, fp_ratio = 4, nr_ppe = 16, input_channels_mac = 1, nDPU_per_tile = 5,
         dma_ports = 2, profiling_clk_MHz = PROF_CLK_MHz, profiling_clk_Hz = PROF_CLK_Hz\<rparr>,
      latency_values =
        \<lparr>dramLatency_Nanoseconds = 0, cmxLatency_CMXClockCycles = 0, postTimeLatency_CMXClockCycles = 0,
         mixedMemoryEfficiency = 1\<rparr>\<rparr>"

definition VPU2_7_HWCharacteristics :: DeviceHWCharacteristics where
  "VPU2_7_HWCharacteristics =
     \<lparr>hw_characteristics =
        \<lparr>dpu_freq_clk = 1300, cmx_freq_clk = 975, cmx_word_size_B = 16, DMA_engine_B = 32, dpu_cmx_num_read_ports = 8,
         dram_bandwidth_MBps = 27000, nr_macs = 2048, fp_ratio = 2, nr_ppe = 64, input_channels_mac = 8, nDPU_per_tile = 1,
         dma_ports = 2, profiling_clk_MHz = PROF_CLK_MHz, profiling_clk_Hz = PROF_CLK_Hz\<rparr>,
      latency_values =
        \<lparr>dramLatency_Nanoseconds = 956, cmxLatency_CMXClockCycles = 16, postTimeLatency_CMXClockCycles = 0,
         mixedMemoryEfficiency = 1\<rparr>\<rparr>"

definition VPU2_7_HWCharacteristics_legacy :: DeviceHWCharacteristics where
  "VPU2_7_HWCharacteristics_legacy =
     \<lparr>hw_characteristics =
        \<lparr>dpu_freq_clk = 1300, cmx_freq_clk = 975, cmx_word_size_B = 16, DMA_engine_B = 32, dpu_cmx_num_read_ports = 8,
         dram_bandwidth_MBps = 27000, nr_macs = 2048, fp_ratio = 2, nr_ppe = 64, input_channels_mac = 8, nDPU_per_tile = 1,
         dma_ports = 2, profiling_clk_MHz = PROF_CLK_MHz, profiling_clk_Hz = PROF_CLK_Hz\<rparr>,
      latency_values =
        \<lparr>dramLatency_Nanoseconds = 956, cmxLatency_CMXClockCycles = 16, postTimeLatency_CMXClockCycles = 0,
         mixedMemoryEfficiency = 1\<rparr>\<rparr>"

definition VPU4_0_HWCharacteristics_v0 :: DeviceHWCharacteristics where
  "VPU4_0_HWCharacteristics_v0 =
     \<lparr>hw_characteristics =
        \<lparr>dpu_freq_clk = 1700, cmx_freq_clk = 971, cmx_word_size_B = 32, DMA_engine_B = 64, dpu_cmx_num_read_ports = 8,
         dram_bandwidth_MBps = 136000, nr_macs = 2048, fp_ratio = 2, nr_ppe = 64, input_channels_mac = 8, nDPU_per_tile = 1,
         dma_ports = 2, profiling_clk_MHz = PROF_CLK_MHz / 2, profiling_clk_Hz = PROF_CLK_Hz sdiv 2\<rparr>,
      latency_values =
        \<lparr>dramLatency_Nanoseconds = 300, cmxLatency_CMXClockCycles = 32, postTimeLatency_CMXClockCycles = 0,
         mixedMemoryEfficiency = 1\<rparr>\<rparr>"

definition VPU4_0_HWCharacteristics_v1 :: DeviceHWCharacteristics where
  "VPU4_0_HWCharacteristics_v1 =
     \<lparr>hw_characteristics =
        \<lparr>dpu_freq_clk = 1700, cmx_freq_clk = 971, cmx_word_size_B = 32, DMA_engine_B = 64, dpu_cmx_num_read_ports = 8,
         dram_bandwidth_MBps = 136000, nr_macs = 2048, fp_ratio = 2, nr_ppe = 64, input_channels_mac = 8, nDPU_per_tile = 1,
         dma_ports = 2, profiling_clk_MHz = PROF_CLK_MHz / 2, profiling_clk_Hz = PROF_CLK_Hz sdiv 2\<rparr>,
      latency_values =
        \<lparr>dramLatency_Nanoseconds = 300, cmxLatency_CMXClockCycles = 32, postTimeLatency_CMXClockCycles = 50,
         mixedMemoryEfficiency = to_float32 (958589 / 1000000)\<rparr>\<rparr>"

definition VPU4_0_HWCharacteristics_legacy :: DeviceHWCharacteristics where
  "VPU4_0_HWCharacteristics_legacy =
     \<lparr>hw_characteristics =
        \<lparr>dpu_freq_clk = 1700, cmx_freq_clk = 975, cmx_word_size_B = 32, DMA_engine_B = 64, dpu_cmx_num_read_ports = 8,
         dram_bandwidth_MBps = 45000, nr_macs = 2048, fp_ratio = 2, nr_ppe = 64, input_channels_mac = 8, nDPU_per_tile = 1,
         dma_ports = 2, profiling_clk_MHz = PROF_CLK_MHz / 2, profiling_clk_Hz = PROF_CLK_Hz sdiv 2\<rparr>,
      latency_values =
        \<lparr>dramLatency_Nanoseconds = 956, cmxLatency_CMXClockCycles = 16, postTimeLatency_CMXClockCycles = 0,
         mixedMemoryEfficiency = 1\<rparr>\<rparr>"

definition VPU5_0_HWCharacteristics_v0 :: DeviceHWCharacteristics where
  "VPU5_0_HWCharacteristics_v0 =
     \<lparr>hw_characteristics =
        \<lparr>dpu_freq_clk = 1950, cmx_freq_clk = 1114, cmx_word_size_B = 32, DMA_engine_B = 64, dpu_cmx_num_read_ports = 8,
         dram_bandwidth_MBps = 136000, nr_macs = 4096, fp_ratio = 2, nr_ppe = 32, input_channels_mac = 8, nDPU_per_tile = 1,
         dma_ports = 2, profiling_clk_MHz = PROF_CLK_MHz / 2, profiling_clk_Hz = PROF_CLK_Hz sdiv 2\<rparr>,
      latency_values =
        \<lparr>dramLatency_Nanoseconds = 300, cmxLatency_CMXClockCycles = 32, postTimeLatency_CMXClockCycles = 0,
         mixedMemoryEfficiency = 1\<rparr>\<rparr>"

definition VPU5_0_HWCharacteristics_v1 :: DeviceHWCharacteristics where
  "VPU5_0_HWCharacteristics_v1 =
     \<lparr>hw_characteristics =
        \<lparr>dpu_freq_clk = 1950, cmx_freq_clk = 1114, cmx_word_size_B = 32, DMA_engine_B = 64, dpu_cmx_num_read_ports = 8,
         dram_bandwidth_MBps = 136000, nr_macs = 4096, fp_ratio = 2, nr_ppe = 32, input_channels_mac = 8, nDPU_per_tile = 1,
         dma_ports = 2, profiling_clk_MHz = PROF_CLK_MHz / 2, profiling_clk_Hz = PROF_CLK_Hz sdiv 2\<rparr>,
      latency_values =
        \<lparr>dramLatency_Nanoseconds = 300, cmxLatency_CMXClockCycles = 32, postTimeLatency_CMXClockCycles = 50,
         mixedMemoryEfficiency = to_float32 (958589 / 1000000)\<rparr>\<rparr>"

definition VPU5_0_HWCharacteristics_legacy :: DeviceHWCharacteristics where
  "VPU5_0_HWCharacteristics_legacy =
     \<lparr>hw_characteristics =
        \<lparr>dpu_freq_clk = 1950, cmx_freq_clk = 1114, cmx_word_size_B = 32, DMA_engine_B = 64, dpu_cmx_num_read_ports = 8,
         dram_bandwidth_MBps = 45000, nr_macs = 4096, fp_ratio = 2, nr_ppe = 32, input_channels_mac = 8, nDPU_per_tile = 1,
         dma_ports = 2, profiling_clk_MHz = PROF_CLK_MHz / 2, profiling_clk_Hz = PROF_CLK_Hz sdiv 2\<rparr>,
      latency_values =
        \<lparr>dramLatency_Nanoseconds = 956, cmxLatency_CMXClockCycles = 16, postTimeLatency_CMXClockCycles = 0,
         mixedMemoryEfficiency = 1\<rparr>\<rparr>"

definition Default_HWCharacteristics :: DeviceHWCharacteristics where
  "Default_HWCharacteristics =
     \<lparr>hw_characteristics =
        \<lparr>dpu_freq_clk = 1, cmx_freq_clk = 1, cmx_word_size_B = 16, DMA_engine_B = - 1, dpu_cmx_num_read_ports = 8,
         dram_bandwidth_MBps = 1, nr_macs = 2048, fp_ratio = 2, nr_ppe = 64, input_channels_mac = 8, nDPU_per_tile = 1,
         dma_ports = 1, profiling_clk_MHz = 0, profiling_clk_Hz = 0\<rparr>,
      latency_values =
        \<lparr>dramLatency_Nanoseconds = 0, cmxLatency_CMXClockCycles = 0, postTimeLatency_CMXClockCycles = 0,
         mixedMemoryEfficiency = 1\<rparr>\<rparr>"

section \<open>The sets of tables\<close>

definition get_device_index :: "VPUDevice \<Rightarrow> nat" where
  "get_device_index d =
     (if d = VPU_2_0 then 0 else if d = VPU_2_1 then 1 else if d = VPU_2_7 then 2 else if d = VPU_4_0 then 3
      else if d = NPU_5_0 then 4 else if d = NPU_5_0_W then 5 else 6)"

definition extract_tuple_content :: "VPUDevice \<Rightarrow> 'a list \<Rightarrow> 'a" where
  "extract_tuple_content d theTuple =
     (case d of
        VPU_2_0 \<Rightarrow> theTuple ! get_device_index VPU_2_0
      | VPU_2_1 \<Rightarrow> theTuple ! get_device_index VPU_2_1
      | VPU_2_7 \<Rightarrow> theTuple ! get_device_index VPU_2_7
      | VPU_4_0 \<Rightarrow> theTuple ! get_device_index VPU_4_0
      | NPU_5_0 \<Rightarrow> theTuple ! get_device_index NPU_5_0
      | NPU_5_0_W \<Rightarrow> theTuple ! get_device_index NPU_5_0_W
      | _ \<Rightarrow> theTuple ! get_device_index VPUDevice.enum_size)"

definition MainEvo0SetTuple :: "DeviceHWCharacteristics list" where
  "MainEvo0SetTuple =
     [VPU2_0_HWCharacteristics, VPU2_1_HWCharacteristics, VPU2_7_HWCharacteristics, VPU4_0_HWCharacteristics_v0,
      VPU5_0_HWCharacteristics_v0, VPU5_0_HWCharacteristics_v0, Default_HWCharacteristics]"

definition MainEvo1SetTuple :: "DeviceHWCharacteristics list" where
  "MainEvo1SetTuple =
     [VPU2_0_HWCharacteristics, VPU2_1_HWCharacteristics, VPU2_7_HWCharacteristics, VPU4_0_HWCharacteristics_v1,
      VPU5_0_HWCharacteristics_v1, VPU5_0_HWCharacteristics_v1, Default_HWCharacteristics]"

definition LegacySetTuple :: "DeviceHWCharacteristics list" where
  "LegacySetTuple =
     [VPU2_0_HWCharacteristics, VPU2_1_HWCharacteristics, VPU2_7_HWCharacteristics_legacy, VPU4_0_HWCharacteristics_legacy,
      VPU5_0_HWCharacteristics_legacy, VPU5_0_HWCharacteristics_legacy, Default_HWCharacteristics]"

definition get_HWCharacteristicsEvo0 :: "VPUDevice \<Rightarrow> DeviceHWCharacteristics" where
  "get_HWCharacteristicsEvo0 d = extract_tuple_content d MainEvo0SetTuple"

definition get_HWCharacteristicsEvo1 :: "VPUDevice \<Rightarrow> DeviceHWCharacteristics" where
  "get_HWCharacteristicsEvo1 d = extract_tuple_content d MainEvo1SetTuple"

definition get_HWCharacteristics_Legacy :: "VPUDevice \<Rightarrow> DeviceHWCharacteristics" where
  "get_HWCharacteristics_Legacy d = extract_tuple_content d LegacySetTuple"

definition get_HWCharacteristics :: "VPUDevice \<Rightarrow> DeviceHWCharacteristics" where
  "get_HWCharacteristics d = get_HWCharacteristicsEvo0 d"

text \<open>The functions of \<^verbatim>\<open>performance.h\<close> that the compiler calls directly.\<close>

definition global_dpu_fclk :: "VPUDevice \<Rightarrow> u32" where
  "global_dpu_fclk d = dpu_freq_clk (hw_characteristics (get_HWCharacteristics d))"

definition global_dram_bandwidth_MBps :: "VPUDevice \<Rightarrow> real" where
  "global_dram_bandwidth_MBps d = dram_bandwidth_MBps (hw_characteristics (get_HWCharacteristics d))"

definition global_dram_bandwidth_MBps_Legacy :: "VPUDevice \<Rightarrow> real" where
  "global_dram_bandwidth_MBps_Legacy d = dram_bandwidth_MBps (hw_characteristics (get_HWCharacteristics_Legacy d))"

definition global_cmx_fclk :: "VPUDevice \<Rightarrow> u32" where
  "global_cmx_fclk d = cmx_freq_clk (hw_characteristics (get_HWCharacteristics d))"

definition global_nDPU_per_tile :: "VPUDevice \<Rightarrow> u32" where
  "global_nDPU_per_tile d = nDPU_per_tile (hw_characteristics (get_HWCharacteristics d))"

definition global_dma_ports :: "VPUDevice \<Rightarrow> int" where
  "global_dma_ports d = dma_ports (hw_characteristics (get_HWCharacteristics d))"

definition global_DMA_DDR_interface_bytes :: "VPUDevice \<Rightarrow> int" where
  "global_DMA_DDR_interface_bytes d = DMA_engine_B (hw_characteristics (get_HWCharacteristics d))"

section \<open>Ideal cycles\<close>

definition get_hw_info :: "VPUDevice \<Rightarrow> HWCharacteristicsRawData" where
  "get_hw_info d = hw_characteristics (extract_tuple_content d MainEvo0SetTuple)"

definition native_comp_on_fp16 :: "DPUWorkload \<Rightarrow> bool" where
  "native_comp_on_fp16 wl \<longleftrightarrow> is_fp16family_dtype (dtype (inputs_0 wl)) \<or> is_fp16family_dtype (get_weight_type wl)"

definition native_comp_on_fp8 :: "DPUWorkload \<Rightarrow> bool" where
  "native_comp_on_fp8 wl \<longleftrightarrow> is_fp8family_dtype (dtype (inputs_0 wl)) \<and> \<not> is_fp16family_dtype (get_weight_type wl)"

definition native_comp_on_i16 :: "DPUWorkload \<Rightarrow> bool" where
  "native_comp_on_i16 wl \<longleftrightarrow> is_i16family_dtype (dtype (inputs_0 wl)) \<and> \<not> is_any_float_dtype (get_weight_type wl)"

definition native_comp_on_i8 :: "DPUWorkload \<Rightarrow> bool" where
  "native_comp_on_i8 wl \<longleftrightarrow> is_i8family_dtype (dtype (inputs_0 wl)) \<and> \<not> is_any_float_dtype (get_weight_type wl)"

definition get_dtype_mac_factor :: "DPUWorkload \<Rightarrow> HWCharacteristicsRawData \<Rightarrow> u32" where
  "get_dtype_mac_factor wl hw = (if native_comp_on_fp16 wl \<or> native_comp_on_i16 wl then fp_ratio hw else 1)"

definition ceil_division_u64 :: "u64 \<Rightarrow> u64 \<Rightarrow> u64" where
  "ceil_division_u64 a b = (a + b - 1) div b"

definition DPU_MAC_based_cycles :: "DPUWorkload \<Rightarrow> u64 \<Rightarrow> u64" where
  "DPU_MAC_based_cycles wl MACs_to_compute =
     (let hw = get_hw_info (device wl);
          nr_macs_adjusted_with_type = ceil_division (nr_macs hw) (get_dtype_mac_factor wl hw)
      in ceil_division_u64 MACs_to_compute (u64_of nr_macs_adjusted_with_type))"

definition multiply_tensor_shape :: "VPUTensor \<Rightarrow> bool \<Rightarrow> u64" where
  "multiply_tensor_shape tensor align_channels =
     (let s = shape tensor;
          s = (if align_channels then s\<lparr>dimZ := round_up (dimZ s) 16\<rparr> else s)
      in u64_of (multiply_vector (shape_elems s)))"

definition kernels_product :: "DPUWorkload \<Rightarrow> u32" where
  "kernels_product wl = multiply_vector [gridW (kernels wl), gridH (kernels wl)]"

definition compute_Ideal_MAC_operations_cnt :: "DPUWorkload \<Rightarrow> u64" where
  "compute_Ideal_MAC_operations_cnt wl =
     (let align_out_channels = value_or (output_autopad wl) False in
      if (op wl = CONVOLUTION \<or> op wl = CM_CONVOLUTION) \<or> (op wl = REDUCE_MS \<or> op wl = REDUCE_SUMSQUARES) then
        let is_reduce = (op wl = REDUCE_MS \<or> op wl = REDUCE_SUMSQUARES);
            operations_cnt_base =
              (if is_reduce then u64_of (multiply_vector (shape_elems (shape (outputs_0 wl))))
               else u64_of (kernels_product wl) * multiply_tensor_shape (outputs_0 wl) align_out_channels);
            in_channels = channels (inputs_0 wl)
        in if device wl < VPU_2_7 then operations_cnt_base * u64_of in_channels
           else if in_channels < 16 then
             let in_channels_aligned = (if in_channels \<le> 4 \<and> op wl = CM_CONVOLUTION \<and> NPU_5_0_W < device wl then 4 else 16)
             in operations_cnt_base * in_channels_aligned
           else operations_cnt_base * u64_of in_channels
      else if op wl = ELTWISE then u64_of (multiply_vector (shape_elems (shape (inputs_0 wl))))
      else u64_of (kernels_product wl) * multiply_tensor_shape (outputs_0 wl) align_out_channels)"

text \<open>
  The factor of the operations that are not zero is a \<open>float\<close>; the product of an \<open>unsigned long\<close> and a \<open>float\<close> is taken
  in \<open>float\<close>.
\<close>

definition calc_non_zero_operations :: "bool \<Rightarrow> real \<Rightarrow> real" where
  "calc_non_zero_operations enabled rate = (if enabled then max 0 (min 1 (to_float32 (1 - rate))) else 1)"

definition compute_HW_MAC_operations_cnt :: "DPUWorkload \<Rightarrow> u64" where
  "compute_HW_MAC_operations_cnt wl =
     (let ideal_operations_cnt = compute_Ideal_MAC_operations_cnt wl in
      if weight_sparsity_enabled wl \<or> sparsity (inputs_0 wl) then
        let act_fact = calc_non_zero_operations (sparsity (inputs_0 wl)) (act_sparsity wl);
            wts_fact = calc_non_zero_operations (weight_sparsity_enabled wl) (weight_sparsity wl);
            combined_non_zero_fact = min act_fact wts_fact
        in word_of_int \<lceil>to_float32 (to_float32 (of_int (uint ideal_operations_cnt)) * combined_non_zero_fact)\<rceil>
      else ideal_operations_cnt)"

definition DPU_Power_IdealCycles :: "DPUWorkload \<Rightarrow> u64" where
  "DPU_Power_IdealCycles wl = DPU_MAC_based_cycles wl (compute_HW_MAC_operations_cnt wl)"

definition DPU_Efficency_IdealCycles :: "DPUWorkload \<Rightarrow> u64" where
  "DPU_Efficency_IdealCycles wl = DPU_MAC_based_cycles wl (compute_Ideal_MAC_operations_cnt wl)"

section \<open>Sparse and dense operations\<close>

lemma calc_non_zero_range: "0 \<le> calc_non_zero_operations e r" "calc_non_zero_operations e r \<le> 1"
  by (simp_all add: calc_non_zero_operations_def)

text \<open>
  Sparsity never adds operations: the count for the hardware is at most the dense count, as long as that is below \<open>2 ^ 24\<close>,
  where every count is a \<open>float\<close>.
\<close>

theorem sparse_macs_bounded:
  assumes "compute_Ideal_MAC_operations_cnt wl < 16777216"
  shows "compute_HW_MAC_operations_cnt wl \<le> compute_Ideal_MAC_operations_cnt wl"
proof -
  define n where "n = uint (compute_Ideal_MAC_operations_cnt wl)"
  have n: "0 \<le> n" "n < 16777216" using assms by (simp_all add: n_def word_less_def)
  define f where "f = min (calc_non_zero_operations (sparsity (inputs_0 wl)) (act_sparsity wl))
    (calc_non_zero_operations (weight_sparsity_enabled wl) (weight_sparsity wl))"
  have f: "0 \<le> f" "f \<le> 1" using calc_non_zero_range by (simp_all add: f_def min_le_iff_disj)
  define c where "c = \<lceil>to_float32 (to_float32 (of_int n) * f)\<rceil>"
  have "to_float32 (of_int n * f) \<le> of_int n"
    using n f by (intro to_float32_le_int) (simp_all add: mult_left_le)
  moreover have "0 \<le> to_float32 (of_int n * f)" using n f by (intro to_float32_nonneg) simp
  ultimately have c: "0 \<le> c" "c \<le> n"
    using n by (simp_all add: c_def to_float32_of_int ceiling_le_iff)
  have "(word_of_int c :: u64) \<le> compute_Ideal_MAC_operations_cnt wl"
    using c n by (simp add: word_le_def uint_word_of_int n_def [symmetric])
  then show ?thesis
    by (simp add: compute_HW_MAC_operations_cnt_def Let_def c_def f_def n_def)
qed

section \<open>Operations per cycle\<close>

definition macs_per_cycle :: "DPUWorkload \<Rightarrow> nat" where
  "macs_per_cycle wl =
     (let hw = get_hw_info (device wl) in
      if native_comp_on_fp16 wl \<or> native_comp_on_i16 wl then unat (nr_macs hw) div unat (fp_ratio hw) else unat (nr_macs hw))"

lemma hw_info_cases:
  "(nr_macs (get_hw_info d), fp_ratio (get_hw_info d)) \<in> {(256, 4), (2048, 2), (4096, 2)}"
  by (cases d) (simp_all add: get_hw_info_def extract_tuple_content_def get_device_index_def MainEvo0SetTuple_def
      VPU2_0_HWCharacteristics_def VPU2_1_HWCharacteristics_def VPU2_7_HWCharacteristics_def VPU4_0_HWCharacteristics_v0_def
      VPU5_0_HWCharacteristics_v0_def Default_HWCharacteristics_def)

lemma effective_macs:
  "unat (ceil_division (nr_macs (get_hw_info (device wl))) (get_dtype_mac_factor wl (get_hw_info (device wl)))) = macs_per_cycle wl"
  "0 < macs_per_cycle wl" "macs_per_cycle wl \<le> 4096"
  using hw_info_cases [of "device wl"]
  by (auto simp: macs_per_cycle_def get_dtype_mac_factor_def ceil_division_def Let_def)

text \<open>
  The ideal cycles are the least number of cycles in which the units of the device, of which 16-bit data leaves a fraction,
  do the given number of operations.
\<close>

theorem mac_based_cycles_least:
  assumes "unat macs + 4096 < 2 ^ 64"
  shows "unat macs \<le> unat (DPU_MAC_based_cycles wl macs) * macs_per_cycle wl \<and>
    (\<forall>k. unat macs \<le> k * macs_per_cycle wl \<longrightarrow> unat (DPU_MAC_based_cycles wl macs) \<le> k)"
proof -
  define e where "e = ceil_division (nr_macs (get_hw_info (device wl))) (get_dtype_mac_factor wl (get_hw_info (device wl)))"
  define n where "n = macs_per_cycle wl"
  have n: "unat e = n" "0 < n" "n \<le> 4096" using effective_macs [of wl] by (simp_all add: e_def n_def)
  have e: "unat (u64_of e) = n" using n by (simp add: unsigned_ucast_eq take_bit_nat_eq_self)
  have "unat (macs + u64_of e) = unat macs + n"
    using assms n e by (subst unat_add_lem [THEN iffD1]) simp_all
  then have "unat (macs + u64_of e - 1) = unat macs + n - 1"
    using n by (subst unat_sub) (simp_all add: word_le_nat_alt)
  then have c: "unat (DPU_MAC_based_cycles wl macs) = (unat macs + n - 1) div n"
    by (simp add: DPU_MAC_based_cycles_def ceil_division_u64_def Let_def unat_div e flip: e_def)
  have "(unat macs + n - 1) div n \<le> k" if "unat macs \<le> k * n" for k
    using that n by (simp add: less_mult_imp_div_less div_le_mono flip: less_Suc_eq_le)
  moreover have "unat macs \<le> (unat macs + n - 1) div n * n"
    using n(2) dividend_less_div_times [of n "unat macs + n - 1"] by simp
  ultimately show ?thesis by (simp add: c flip: n_def)
qed

definition sparse_example :: DPUWorkload where
  "sparse_example =
     (new_DPUWorkload VPU_2_7 CONVOLUTION (mk_VPUTensor 4 2 16 1 FLOAT16 ZXY True) (mk_VPUTensor 4 2 32 1 FLOAT16 ZXY False)
       \<lparr>gridW = 1, gridH = 1\<rparr> \<lparr>gridW = 1, gridH = 1\<rparr> \<lparr>padTOP = 0, padBOTTOM = 0, padLEFT = 0, padRIGHT = 0\<rparr> CUBOID_16x16)
     \<lparr>act_sparsity := 1 / 2\<rparr>"

theorem sparse_macs_bounded_witness:
  "compute_Ideal_MAC_operations_cnt sparse_example = 4096 \<and> compute_HW_MAC_operations_cnt sparse_example \<le> 4096"
proof -
  have c: "compute_Ideal_MAC_operations_cnt sparse_example = 4096" by code_simp
  show ?thesis using sparse_macs_bounded [of sparse_example] by (simp add: c)
qed

theorem mac_based_cycles_least_witness:
  "macs_per_cycle sparse_example = 1024 \<and> 4096 \<le> unat (DPU_MAC_based_cycles sparse_example 4096) * 1024"
proof -
  have m: "macs_per_cycle sparse_example = 1024"
    by (simp add: macs_per_cycle_def sparse_example_def new_DPUWorkload_def mk_VPUTensor_def get_hw_info_def
        extract_tuple_content_def get_device_index_def MainEvo0SetTuple_def VPU2_7_HWCharacteristics_def native_comp_on_fp16_def
        is_fp16family_dtype_def)
  show ?thesis using mac_based_cycles_least [of 4096 sparse_example] by (simp add: m)
qed

end
