(* ===== verification/Float_Double.thy ===== *)
theory Float_Double
  imports Float_Single
begin

text \<open>
  Numbers of type \<^verbatim>\<open>double\<close> as reals with explicit rounding to 53 bits (round to nearest, ties to even; infinities and NaN are
  left out), as \<open>Float_Single\<close> has them for \<^verbatim>\<open>float\<close>. Whole numbers of at most 53 bits are exact, which is what the searches over
  measured costs rely on.
\<close>

definition to_float64 :: "real \<Rightarrow> real" where
  "to_float64 x =
     (if x = 0 then 0
      else let quantum = 2 powi (max \<lfloor>log 2 \<bar>x\<bar>\<rfloor> (- 1022) - 52)
           in of_int (round_half_even (x / quantum)) * quantum)"

definition mul64 :: "real \<Rightarrow> real \<Rightarrow> real" where
  "mul64 a b = to_float64 (a * b)"

definition div64 :: "real \<Rightarrow> real \<Rightarrow> real" where
  "div64 a b = to_float64 (a / b)"

definition real_u32 :: "u32 \<Rightarrow> real" where
  "real_u32 u = of_int (uint u)"

section \<open>Whole numbers\<close>

lemma to_float64_0 [simp]: "to_float64 0 = 0"
  by (simp add: to_float64_def)

lemma to_float64_of_int:
  assumes "\<bar>i\<bar> < 9007199254740992"
  shows "to_float64 (of_int i) = of_int i"
proof (cases "i = 0")
  case False
  define l where "l = \<lfloor>log 2 \<bar>of_int i :: real\<bar>\<rfloor>"
  have i1: "1 \<le> \<bar>of_int i :: real\<bar>" using False by linarith
  have "log 2 \<bar>of_int i :: real\<bar> < 53"
    using assms i1 by (subst log_less_iff) (simp_all flip: of_int_abs)
  moreover have "0 \<le> log 2 \<bar>of_int i :: real\<bar>" using i1 by simp
  ultimately have l: "0 \<le> l" "l \<le> 52" unfolding l_def by linarith+
  define d where "d = nat (52 - l)"
  have q: "(2 :: real) powi (max l (- 1022) - 52) = 1 / 2 ^ d"
    using l by (simp add: d_def power_int_def field_simps max_def)
  have "of_int i / (1 / 2 ^ d) = (of_int (i * 2 ^ d) :: real)" by simp
  then have "round_half_even (of_int i / (1 / 2 ^ d)) = i * 2 ^ d"
    by (metis round_half_even_int)
  then show ?thesis
    using False by (simp add: to_float64_def Let_def q flip: l_def)
qed simp

lemma to_float64_of_nat: "n < 9007199254740992 \<Longrightarrow> to_float64 (of_nat n) = of_nat n"
  using to_float64_of_int [of "int n"] by simp

lemma to_float64_nonneg: "0 \<le> x \<Longrightarrow> 0 \<le> to_float64 x"
  by (simp add: to_float64_def Let_def round_half_even_nonneg)

text \<open>Dividing by a power of two is exact.\<close>

lemma to_float64_div_power:
  assumes "\<bar>i\<bar> < 9007199254740992" "k \<le> 1000"
  shows "to_float64 (of_int i / 2 ^ k) = of_int i / 2 ^ k"
proof (cases "i = 0")
  case False
  define l where "l = \<lfloor>log 2 \<bar>of_int i :: real\<bar>\<rfloor>"
  have i1: "1 \<le> \<bar>of_int i :: real\<bar>" using False by linarith
  then have l: "0 \<le> l" unfolding l_def by simp
  have "log 2 \<bar>of_int i / 2 ^ k :: real\<bar> = log 2 \<bar>of_int i\<bar> - real k"
    using i1 False by (simp add: log_divide log_nat_power abs_divide)
  then have "\<lfloor>log 2 \<bar>of_int i / 2 ^ k :: real\<bar>\<rfloor> = l - int k"
    unfolding l_def by (metis floor_diff_of_int of_int_of_nat_eq)
  then have e: "to_float64 (of_int i / 2 ^ k) =
      of_int (round_half_even (of_int i / 2 ^ k / 2 powi (l - int k - 52))) * 2 powi (l - int k - 52)"
    using False l assms(2) by (simp add: to_float64_def Let_def max_def)
  have "to_float64 (of_int i) = of_int i" by (rule to_float64_of_int [OF assms(1)])
  then have r: "of_int (round_half_even (of_int i / 2 powi (l - 52))) * 2 powi (l - 52) = (of_int i :: real)"
    using False l by (simp add: to_float64_def Let_def max_def flip: l_def)
  have q: "(2 :: real) powi (l - int k - 52) = 2 powi (l - 52) / 2 ^ k"
    using power_int_diff [of "2 :: real" "l - 52" "int k"] by (simp add: algebra_simps)
  show ?thesis unfolding e q using r by simp
qed simp

section \<open>The rounding error\<close>

lemma to_float64_error: "\<bar>to_float64 x - x\<bar> \<le> (\<bar>x\<bar> + 1) / 2 ^ 53"
proof (cases "x = 0")
  case False
  define l where "l = max \<lfloor>log 2 \<bar>x\<bar>\<rfloor> (- 1022)"
  define q where "q = (2 :: real) powi (l - 52)"
  have "(2 :: real) powi l \<le> \<bar>x\<bar> + 1"
  proof (cases "0 \<le> l")
    case True
    then have "real_of_int l \<le> log 2 \<bar>x\<bar>" by (simp add: l_def le_max_iff_disj)
    then have "(2 :: real) powr of_int l \<le> \<bar>x\<bar>" using False by (simp add: le_log_iff)
    then show ?thesis using True by (simp add: powr_real_of_int' power_int_def powr_realpow)
  next
    case False
    then have "(2 :: real) powi l \<le> 1" by (simp add: power_int_def field_simps power_le_one_iff)
    then show ?thesis by simp
  qed
  then have q: "0 < q" "q \<le> (\<bar>x\<bar> + 1) / 2 ^ 52" by (simp_all add: q_def power_int_diff field_simps)
  have "\<bar>to_float64 x - x\<bar> = \<bar>of_int (round_half_even (x / q)) - x / q\<bar> * q"
    using q(1) False by (simp add: to_float64_def Let_def left_diff_distrib abs_mult flip: l_def q_def)
      (metis abs_mult_pos less_eq_real_def left_diff_distrib nonzero_eq_divide_eq less_irrefl)
  also have "\<dots> \<le> 1 / 2 * q" using q(1) round_half_even_near by (intro mult_right_mono) auto
  finally show ?thesis using q(2) by simp
qed simp

text \<open>Rounding never passes a whole number.\<close>

lemma to_float64_le_int:
  assumes "\<bar>x\<bar> < 9007199254740992" "x \<le> of_int i"
  shows "to_float64 x \<le> of_int i"
proof (cases "x = 0")
  case True
  then show ?thesis using assms(2) by simp
next
  case False
  define l where "l = max \<lfloor>log 2 \<bar>x\<bar>\<rfloor> (- 1022) - 52"
  have "log 2 \<bar>x\<bar> < 53" using assms(1) False by (subst log_less_iff) simp_all
  then have l: "l \<le> 0" unfolding l_def by linarith
  define d where "d = nat (- l)"
  have q: "(2 :: real) powi l = 1 / 2 ^ d" using l by (simp add: d_def power_int_def field_simps)
  have "x / (1 / 2 ^ d) \<le> of_int (i * 2 ^ d)" using assms(2) by simp
  then have "round_half_even (x / (1 / 2 ^ d)) \<le> i * 2 ^ d" by (rule round_half_even_le_int)
  then have "real_of_int (round_half_even (x / (1 / 2 ^ d))) \<le> of_int (i * 2 ^ d)" by (rule of_int_le_iff [THEN iffD2])
  then have "of_int (round_half_even (x / (1 / 2 ^ d))) * (1 / 2 ^ d) \<le> real_of_int i" by (simp add: field_simps)
  then show ?thesis using False by (simp add: to_float64_def Let_def q flip: l_def)
qed

text \<open>A number that is a little below a whole number is rounded to something between it and the next lower whole number.\<close>

lemma to_float64_below_int:
  assumes "0 \<le> m" "m < 2251799813685248" "0 < e" "e < 1 / 4"
  shows "of_int m - 1 < to_float64 (of_int m - e)" "to_float64 (of_int m - e) \<le> of_int m"
proof -
  define x where "x = of_int m - e"
  have m: "real_of_int m \<le> 2251799813685248" using assms(2) by linarith
  then have b: "\<bar>x\<bar> + 1 \<le> 2251799813685250" using assms by (simp add: x_def abs_le_iff)
  then have "\<bar>to_float64 x - x\<bar> \<le> 2251799813685250 / 2 ^ 53"
    using to_float64_error [of x] by (meson divide_right_mono order_trans zero_le_numeral zero_le_power)
  then have "\<bar>to_float64 x - x\<bar> < 1 / 2" by simp
  then show "of_int m - 1 < to_float64 x" using assms(3,4) unfolding x_def by linarith
  show "to_float64 x \<le> of_int m" using b assms(3) by (intro to_float64_le_int) (simp_all add: x_def)
qed

end
