(* ===== verification/Dpu_Theoretical.thy ===== *)
theory Dpu_Theoretical
  imports Hw_Characteristics Float_Double
begin

text \<open>
  The theoretical cost of a workload, \<^verbatim>\<open>include/vpu/dpu_theoretical_cost_provider.h\<close>: the multiply-accumulate operations
  divided by the units of the device, less the operations on padding, but not below the time the reads from CMX take. It is
  the cost the library falls back to when the neural network gives none.

  \<open>unsigned long\<close> arithmetic wraps. A \<open>double\<close> is a real number, with \<open>to_float64\<close> after every operation. A loop whose stride is
  zero never ends and a remainder by zero is undefined: both are \<open>None\<close>.
\<close>

section \<open>Operations on padding\<close>

text \<open>
  The loops \<^verbatim>\<open>for (int i = p; i > 0; i -= s)\<close>: the counter is an \<open>int\<close>, kept as the word it is stored in, and the subtraction
  of an \<open>unsigned int\<close> wraps.
\<close>

definition loop_measure :: "u32 \<Rightarrow> u32 \<Rightarrow> nat" where
  "loop_measure s i = (if to_int i \<le> 0 then 0 else if unat s \<le> 2147483648 then unat i else 2147483648 - unat i)"

lemma positive_int_word: "0 < to_int i \<longleftrightarrow> 0 < unat i \<and> unat i < 2147483648"
proof (cases "unat i < 2147483648")
  case True
  have "to_int i = int (unat i)" by (rule to_int_small) fact
  then show ?thesis using True by linarith
next
  case False
  have u: "uint i = int (unat i)" by simp
  then have ge: "2147483648 \<le> uint i" "uint i < 4294967296" using False unat_u32_less [of i] by linarith+
  have "to_int i = signed_take_bit 31 (uint i)" by (simp add: sint_uint)
  also have "\<dots> = take_bit (Suc 31) (uint i + 2 ^ 31) - 2 ^ 31" by (rule signed_take_bit_eq_take_bit_shift)
  also have "\<dots> = (uint i + 2147483648) mod 4294967296 - 2147483648" by (simp add: take_bit_eq_mod)
  also have "uint i + 2147483648 = uint i - 2147483648 + 4294967296" by simp
  also have "(uint i - 2147483648 + 4294967296) mod 4294967296 = uint i - 2147483648"
    using ge by (subst mod_add_self2) (rule mod_pos_pos_trivial, simp_all)
  finally have "to_int i < 0" using ge by linarith
  then show ?thesis using False by linarith
qed

lemma loop_measure_decreases:
  assumes "0 < to_int i" "s \<noteq> 0"
  shows "loop_measure s (i - s) < loop_measure s i"
proof -
  have i: "0 < unat i" "unat i < 2147483648" using assms(1) by (simp_all add: positive_int_word)
  have s: "0 < unat s" using assms(2) by (simp add: unat_gt_0)
  have i0: "\<not> to_int i \<le> 0" using assms(1) by simp
  show ?thesis
  proof (cases "0 < to_int (i - s)")
    case False
    then show ?thesis using i i0 by (simp add: loop_measure_def)
  next
    case True
    then have n: "0 < unat (i - s)" "unat (i - s) < 2147483648" by (simp_all only: positive_int_word)
    have n0: "\<not> to_int (i - s) \<le> 0" using True by simp
    have d: "unat (i - s) = (if s \<le> i then unat i - unat s else unat i + 4294967296 - unat s)"
      by (simp add: unat_sub_if_size word_size word_le_nat_alt)
    show ?thesis
    proof (cases "unat s \<le> 2147483648")
      case True
      then have "s \<le> i" using d n i by (auto split: if_splits)
      then show ?thesis using True d s i i0 n0 by (simp add: loop_measure_def word_le_nat_alt)
    next
      case False
      then have "\<not> s \<le> i" using i by (simp add: word_le_nat_alt)
      then show ?thesis using False d s i i0 n0 n unat_u32_less [of s]
        by (simp add: loop_measure_def del: unat_u32_less)
    qed
  qed
qed

function pad_zeros :: "u32 \<Rightarrow> u32 \<Rightarrow> u32 \<Rightarrow> u32 option" where
  "pad_zeros stride i zeros =
     (if to_int i \<le> 0 then Some zeros
      else if stride = 0 then None
      else pad_zeros stride (i - stride) (zeros + i))"
  by auto
termination
  by (relation "measure (\<lambda>(stride, i, _). loop_measure stride i)") (auto intro: loop_measure_decreases)

declare pad_zeros.simps [simp del]

function corner_cycles :: "u32 \<Rightarrow> u32 \<Rightarrow> u32 \<Rightarrow> u32 \<Rightarrow> u64 \<Rightarrow> u64 option" where
  "corner_cycles Sh Sw i j cycles =
     (if to_int i \<le> 0 \<or> to_int j \<le> 0 then Some cycles
      else if Sh = 0 \<and> Sw = 0 then None
      else corner_cycles Sh Sw (i - Sh) (j - Sw) (cycles - u64_of i * u64_of j))"
  by auto
termination
  by (relation "measure (\<lambda>(Sh, Sw, i, j, _). if Sh \<noteq> 0 then loop_measure Sh i else loop_measure Sw j)")
    (auto intro: loop_measure_decreases)

declare corner_cycles.simps [simp del]

definition PaddingSkipCycles :: "DPUWorkload \<Rightarrow> u64 option" where
  "PaddingSkipCycles wl =
     (let Kw = gridW (kernels wl); Kh = gridH (kernels wl); Sw = gridW (strides wl); Sh = gridH (strides wl);
          Pt = padTOP (padding wl); Pb = padBOTTOM (padding wl); Pl = padLEFT (padding wl); Pr = padRIGHT (padding wl);
          inp_width = width (inputs_0 wl); inp_height = height (inputs_0 wl);
          out_channels = channels (outputs_0 wl); in_channels = channels (inputs_0 wl)
      in Option.bind (pad_zeros Sh Pt 0) (\<lambda>Pt_zeros.
         Option.bind (pad_zeros Sw Pl 0) (\<lambda>Pl_zeros.
         if Sw = 0 \<or> Sh = 0 then None
         else
           let Redge = inp_width mod Sw; Bedge = inp_height mod Sh
           in Option.bind (pad_zeros Sw (Pr - Redge) 0) (\<lambda>Pr_zeros.
              Option.bind (pad_zeros Sh (Pb - Bedge) 0) (\<lambda>Pb_zeros.
                let Pt_cycles = u64_of Pt_zeros * u64_of Kw * u64_of (ceil_division inp_width Sw);
                    Pb_cycles = u64_of Pb_zeros * u64_of Kw * u64_of (ceil_division inp_width Sw);
                    Pl_cycles = u64_of Pl_zeros * u64_of Kh * u64_of (ceil_division inp_height Sh);
                    Pr_cycles = u64_of Pr_zeros * u64_of Kh * u64_of (ceil_division inp_height Sh)
                in Option.bind (corner_cycles Sh Sw Pt Pl Pt_cycles) (\<lambda>Pt_cycles.
                   Option.bind (corner_cycles Sh Sw Pt (Pr - Redge) Pt_cycles) (\<lambda>Pt_cycles.
                   Option.bind (corner_cycles Sh Sw (Pb - Bedge) Pl Pb_cycles) (\<lambda>Pb_cycles.
                   Option.bind (corner_cycles Sh Sw (Pb - Bedge) (Pr - Redge) Pb_cycles) (\<lambda>Pb_cycles.
                     Some ((Pt_cycles + Pb_cycles + Pl_cycles + Pr_cycles) * u64_of in_channels * u64_of out_channels)
                   )))))))))"

section \<open>Reads from CMX\<close>

definition grid_at :: "u32 list \<Rightarrow> Act \<Rightarrow> u32" where
  "grid_at grid d = grid ! (case d of Act_X \<Rightarrow> 0 | Act_Y \<Rightarrow> 1 | Act_Z \<Rightarrow> 2 | Act_B \<Rightarrow> 3)"

definition ceil_grids :: "u32 \<Rightarrow> u32 \<Rightarrow> real" where
  "ceil_grids n g = of_int \<lceil>div64 (real_u32 n) (real_u32 g)\<rceil>"

definition cmx_reads :: "DPUWorkload \<Rightarrow> u64" where
  "cmx_reads wl =
     (if device wl = VPU_2_0 \<or> device wl = VPU_2_1 then 0
      else
        let hw = get_hw_info (device wl);
            grid = mpe_mode_to_nthw_ntk_grid (execution_order wl);
            out = outputs_0 wl;
            inp = inputs_0 wl;
            num_wt_grids = ceil_grids (channels out) (grid_at grid Act_Z);
            num_act_grids = mul64 (ceil_grids (height out) (grid_at grid Act_Y)) (ceil_grids (width out) (grid_at grid Act_X));
            kernel_area = gridW (kernels wl) * gridH (kernels wl);
            datatype = dtype inp;
            elements_count_act =
              \<lceil>mul64 (mul64 (mul64 (mul64 num_wt_grids (real_u32 (height out))) (real_u32 (width out))) (real_u32 (channels inp)))
                (real_u32 kernel_area)\<rceil>;
            act_reads = compute_size_in_bytes elements_count_act datatype;
            elements_count_wt =
              \<lceil>mul64 (mul64 (mul64 num_act_grids (real_u32 (channels out))) (real_u32 (channels inp))) (real_u32 kernel_area)\<rceil>;
            wt_reads = compute_size_in_bytes elements_count_wt datatype;
            read_cycles =
              div64 (to_float64 (of_int (act_reads + wt_reads))) (real_u32 (cmx_word_size_B hw * dpu_cmx_num_read_ports hw))
        in word_of_int \<lceil>div64 (mul64 read_cycles (real_u32 (cmx_freq_clk hw))) (real_u32 (dpu_freq_clk hw))\<rceil>)"

section \<open>The theoretical cycles\<close>

definition like_convolution :: "Operation \<Rightarrow> bool" where
  "like_convolution oper \<longleftrightarrow>
     oper = CONVOLUTION \<or> oper = CM_CONVOLUTION \<or> oper = REDUCE_MS \<or> oper = REDUCE_SUMSQUARES"

definition DPUTheoreticalCycles :: "DPUWorkload \<Rightarrow> u64 option" where
  "DPUTheoreticalCycles wl =
     (let hw = get_hw_info (device wl);
          inp_channels = channels (inputs_0 wl);
          cycles = u64_of (kernels_product wl) * u64_of (multiply_vector (shape_elems (shape (outputs_0 wl))));
          mt = (if 1 < output_write_tiles wl then 2 else 1);
          cycles = (if op wl = ELTWISE
                    then u64_of (ceil_division (multiply_vector (shape_elems (shape (inputs_0 wl)))) (nr_ppe hw div mt))
                    else cycles)
      in Option.bind
           (if like_convolution (op wl)
            then map_option (\<lambda>skipped. (cycles * u64_of inp_channels - skipped, nr_macs hw)) (PaddingSkipCycles wl)
            else Some (cycles, nr_macs hw div input_channels_mac hw))
           (\<lambda>(cycles, macs).
              let cycles = ceil_division_u64 cycles (u64_of macs);
                  cycles = (if native_comp_on_fp16 wl then cycles * u64_of (fp_ratio hw) else cycles)
              in Some (max cycles (cmx_reads wl))))"

section \<open>When the cycles are defined\<close>

lemma pad_zeros_defined: "stride \<noteq> 0 \<Longrightarrow> pad_zeros stride i zeros \<noteq> None"
  by (induction stride i zeros rule: pad_zeros.induct) (subst pad_zeros.simps, simp)

lemma corner_cycles_defined: "Sh \<noteq> 0 \<Longrightarrow> corner_cycles Sh Sw i j c \<noteq> None"
  by (induction Sh Sw i j c rule: corner_cycles.induct) (subst corner_cycles.simps, simp)

lemma bind_defined: "Option.bind x f \<noteq> None \<longleftrightarrow> x \<noteq> None \<and> f (the x) \<noteq> None"
  by (cases x) simp_all

lemma PaddingSkipCycles_defined:
  "PaddingSkipCycles wl = None \<longleftrightarrow> gridW (strides wl) = 0 \<or> gridH (strides wl) = 0"
proof (cases "gridW (strides wl) = 0 \<or> gridH (strides wl) = 0")
  case True
  then show ?thesis by (auto simp: PaddingSkipCycles_def Let_def split: bind_splits)
next
  case False
  then have "PaddingSkipCycles wl \<noteq> None"
    unfolding PaddingSkipCycles_def Let_def bind_defined
    by (simp add: pad_zeros_defined corner_cycles_defined bind_defined del: not_None_eq)
  then show ?thesis using False by simp
qed

text \<open>
  C34. The theoretical cycles are defined (every loop of the computation ends and no remainder by zero is taken) for every
  workload, except for a convolution-like operation with a stride of zero, for which they are not.
\<close>

theorem theoretical_cycles_defined:
  "DPUTheoreticalCycles wl = None \<longleftrightarrow>
     like_convolution (op wl) \<and> (gridW (strides wl) = 0 \<or> gridH (strides wl) = 0)"
  by (simp add: DPUTheoreticalCycles_def Let_def PaddingSkipCycles_defined bind_eq_None_conv split: prod.split)

section \<open>The operations on padding are counted exactly\<close>

text \<open>
  A tap is an output row (or column) with a kernel row (or column); it is on the image if the row it reads is. The operations
  that read padding are the pairs of a row tap and a column tap that are not both on the image.
\<close>

definition taps :: "nat \<Rightarrow> nat \<Rightarrow> (nat \<times> nat) list" where
  "taps out_size kernel_size = List.product [0..<out_size] [0..<kernel_size]"

definition on_image :: "nat \<Rightarrow> nat \<Rightarrow> nat \<times> nat \<Rightarrow> bool" where
  "on_image pad in_size tap \<longleftrightarrow> pad \<le> fst tap + snd tap \<and> fst tap + snd tap < in_size + pad"

definition padding_taps :: "nat \<Rightarrow> nat \<Rightarrow> nat \<Rightarrow> nat \<Rightarrow> nat \<Rightarrow> nat \<Rightarrow> nat" where
  "padding_taps h kh pt w kw pl =
     length (filter (\<lambda>(r, c). \<not> (on_image pt h r \<and> on_image pl w c)) (List.product (taps h kh) (taps w kw)))"

lemma length_filter_not_both:
  "int (length (filter (\<lambda>(r, c). \<not> (A r \<and> B c)) (List.product rs cs))) =
   int (length rs * length cs) - int (length (filter A rs) * length (filter B cs))"
proof (induction rs)
  case (Cons r rs)
  have "int (length (filter (\<lambda>(r, c). \<not> (A r \<and> B c)) (map (Pair r) cs))) =
    int (length cs) - (if A r then int (length (filter B cs)) else 0)"
    by (induction cs) auto
  then show ?case using Cons.IH by (cases "A r") (simp_all add: algebra_simps)
qed simp

lemma taps_off_image:
  assumes "p \<le> 1" "q \<le> 1" "0 < h"
  shows "set (filter (\<lambda>t. \<not> on_image p h t) (taps h (1 + p + q))) =
    (if p = 1 then {(0, 0)} else {}) \<union> (if q = 1 then {(h - 1, p + 1)} else {})"
proof -
  have "p = 0 \<or> p = 1" "q = 0 \<or> q = 1" using assms by auto
  then show ?thesis using assms(3) by (elim disjE) (auto simp: taps_def on_image_def)
qed

lemma count_on_image:
  assumes "p \<le> 1" "q \<le> 1" "0 < h"
  shows "int (length (filter (on_image p h) (taps h (1 + p + q)))) = int (h * (1 + p + q)) - int p - int q"
proof -
  have "distinct (filter (\<lambda>t. \<not> on_image p h t) (taps h (1 + p + q)))"
    by (simp add: taps_def distinct_product)
  then have "length (filter (\<lambda>t. \<not> on_image p h t) (taps h (1 + p + q))) =
      card ((if p = 1 then {(0, 0)} else {}) \<union> (if q = 1 then {(h - 1, p + 1)} else {} :: (nat \<times> nat) set))"
    by (metis taps_off_image [OF assms] distinct_card)
  also have "\<dots> = p + q" using assms by (auto simp: card_insert_if)
  finally have "length (filter (\<lambda>t. \<not> on_image p h t) (taps h (1 + p + q))) = p + q" .
  moreover have "length (filter (on_image p h) (taps h (1 + p + q))) +
      length (filter (\<lambda>t. \<not> on_image p h t) (taps h (1 + p + q))) = h * (1 + p + q)"
    by (subst sum_length_filter_compl) (simp add: taps_def)
  ultimately show ?thesis by linarith
qed

lemma padding_taps_closed:
  assumes "pt \<le> 1" "pb \<le> 1" "pl \<le> 1" "pr \<le> 1" "0 < h" "0 < w"
  shows "int (padding_taps h (1 + pt + pb) pt w (1 + pl + pr) pl) =
    int (pt + pb) * int (1 + pl + pr) * int w + int (pl + pr) * int (1 + pt + pb) * int h - int (pt + pb) * int (pl + pr)"
  unfolding padding_taps_def length_filter_not_both of_nat_mult count_on_image [OF assms(1,2,5)] count_on_image [OF assms(3,4,6)]
  by (simp add: taps_def algebra_simps)

lemma unit_word: "p \<le> (1 :: u32) \<Longrightarrow> p = 0 \<or> p = 1"
proof -
  assume "p \<le> 1"
  then have "unat p = 0 \<or> unat p = 1" by (auto simp: word_le_nat_alt)
  then show ?thesis by (metis unat_0 unat_1 word_unat_eq_iff)
qed

lemma to_int_0_1: "to_int 0 = 0" "to_int 1 = 1"
  by simp_all

lemma pad_zeros_unit: "p \<le> 1 \<Longrightarrow> pad_zeros 1 p 0 = Some p"
proof (drule unit_word, elim disjE)
  assume p: "p = 0"
  show ?thesis unfolding p by (subst pad_zeros.simps) simp
next
  assume p: "p = 1"
  show ?thesis unfolding p by (subst pad_zeros.simps, subst pad_zeros.simps) simp
qed

lemma corner_unit: "i \<le> 1 \<Longrightarrow> j \<le> 1 \<Longrightarrow> corner_cycles 1 1 i j c = Some (c - u64_of i * u64_of j)"
proof (drule unit_word, drule unit_word, elim disjE)
  assume p: "i = 1" "j = 1"
  show ?thesis unfolding p by (subst corner_cycles.simps, subst corner_cycles.simps) simp
qed (subst corner_cycles.simps, simp)+

lemma u64_of_eq: "u64_of x = word_of_int (int (unat x))"
  by (subst ucast_eq) simp


definition conv3x3_example :: DPUWorkload where
  "conv3x3_example = new_DPUWorkload VPU_2_0 CONVOLUTION (mk_VPUTensor 4 2 16 1 UINT8 ZXY False)
     (mk_VPUTensor 4 2 32 1 UINT8 ZXY False) \<lparr>gridW = 3, gridH = 3\<rparr> \<lparr>gridW = 1, gridH = 1\<rparr>
     \<lparr>padTOP = 1, padBOTTOM = 1, padLEFT = 1, padRIGHT = 1\<rparr> CUBOID_16x16"


definition conv5x5_example :: DPUWorkload where
  "conv5x5_example = new_DPUWorkload VPU_2_0 CONVOLUTION (mk_VPUTensor 1 1 16 1 UINT8 ZXY False)
     (mk_VPUTensor 1 1 16 1 UINT8 ZXY False) \<lparr>gridW = 5, gridH = 5\<rparr> \<lparr>gridW = 1, gridH = 1\<rparr>
     \<lparr>padTOP = 2, padBOTTOM = 2, padLEFT = 2, padRIGHT = 2\<rparr> CUBOID_16x16"

text \<open>
  C36. With two rows and columns of padding the corners are subtracted too few times: for a 5 by 5 convolution of one pixel the
  skipped cycles exceed all operations, the subtraction wraps around, and the theoretical cycles of 6400 operations on 256
  units are \<open>2 ^ 56 - 15\<close>.
\<close>

theorem theoretical_cycles_underflow:
  "PaddingSkipCycles conv5x5_example = Some 10240 \<and>
   compute_Ideal_MAC_operations_cnt conv5x5_example = 6400 \<and>
   DPUTheoreticalCycles conv5x5_example = Some (2 ^ 56 - 15)"
proof (intro conjI)
  show skip: "PaddingSkipCycles conv5x5_example = Some 10240" by code_simp
  show "compute_Ideal_MAC_operations_cnt conv5x5_example = 6400" by code_simp
  define c :: u64 where
    "c = u64_of (kernels_product conv5x5_example) * u64_of (multiply_vector (shape_elems (shape (outputs_0 conv5x5_example))))"
  have c: "c = 400" unfolding c_def by code_simp
  have f: "device conv5x5_example = VPU_2_0" "op conv5x5_example = CONVOLUTION" "channels (inputs_0 conv5x5_example) = 16"
    "\<not> native_comp_on_fp16 conv5x5_example" "cmx_reads conv5x5_example = 0"
    by (simp_all add: conv5x5_example_def new_DPUWorkload_def mk_VPUTensor_def mk_shape_def channels_def tz_def
        native_comp_on_fp16_def get_weight_type_def value_or_def is_fp16family_dtype_def cmx_reads_def)
  have m: "nr_macs (get_hw_info VPU_2_0) = 256"
    by (simp add: get_hw_info_def extract_tuple_content_def get_device_index_def MainEvo0SetTuple_def VPU2_0_HWCharacteristics_def)
  show "DPUTheoreticalCycles conv5x5_example = Some (2 ^ 56 - 15)"
    unfolding DPUTheoreticalCycles_def Let_def f skip m c_def [symmetric] c
    by (simp add: f like_convolution_def ceil_division_u64_def m skip)
qed

end
