(* ===== verification/Dpu_Cost_Model.thy ===== *)
theory Dpu_Cost_Model
  imports Nn_Provider_Laws Dpu_Theoretical Dpu_Sanitizer
begin

text \<open>
  The cost of a DPU workload: \<open>VPUCostModel\<close> of \<^verbatim>\<open>src/vpu_cost_model.cpp\<close>. A workload is sanitised and checked; a usable one gets its
  cost from the cache, the profiling service, the neural network or the theoretical formula, according to its hint. The
  network and the profiling service (an HTTP client) are arguments, the cache is explicit state, and the text and
  cost-source reference arguments are results. A theoretical cost that is not defined (\<open>Dpu_Theoretical\<close>) is \<open>Inl\<close>.
\<close>

section \<open>The cost model\<close>

record HttpProvider =
  http_cost :: "DPUOperation \<Rightarrow> string \<Rightarrow> CyclesInterfaceType \<times> string"
  profilingBackendToString :: "ProfilingServiceBackend \<Rightarrow> string"

record CostModel =
  nn_provider :: NNModel
  http_provider :: "HttpProvider option"
  auto_hint_gate :: ProfilingAutoHintGate
  print_tags :: bool

definition setProfilingEnabledForAutoHint :: "bool \<Rightarrow> CostModel \<Rightarrow> CostModel" where
  "setProfilingEnabledForAutoHint v cm = cm\<lparr>auto_hint_gate := gate_set v (auto_hint_gate cm)\<rparr>"

text \<open>The outcome of a provider: the cycles, the text, the source of the cost, the cache.\<close>

type_synonym outcome = "(CyclesInterfaceType \<times> string \<times> string \<times> ActiveCache) result"

section \<open>Sanitisation\<close>

definition channels_preserving_operations_consistency_check :: "DPUWorkload \<Rightarrow> DPUWorkload" where
  "channels_preserving_operations_consistency_check wl =
     (if is_alignment_required_operation (op wl) then
        if \<not> is_output_autopad wl \<and> 16 \<le> channels (outputs_0 wl) then
          if channels (inputs_0 wl) \<noteq> channels (outputs_0 wl) then
            wl\<lparr>inputs_0 := set_shape (mk_shape (tx (inputs_0 wl)) (ty (inputs_0 wl)) (channels (outputs_0 wl)) (tb (inputs_0 wl)))
                 (inputs_0 wl)\<rparr>
          else wl
        else wl
      else wl)"

definition avgpool_replace_by :: "DPUWorkload \<Rightarrow> DPUWorkload" where
  "avgpool_replace_by wl = (if op wl = AVEPOOL then if device wl < NPU_5_0 then wl\<lparr>op := DW_CONVOLUTION\<rparr> else wl else wl)"

definition compressConv_replace_by_CM_CONV_VPU27 :: "DPUWorkload \<Rightarrow> DPUWorkload" where
  "compressConv_replace_by_CM_CONV_VPU27 wl =
     (if VPU_2_7 \<le> device wl then
        if op wl = CONVOLUTION \<and>
           (1 \<le> channels (inputs_0 wl) \<and> channels (inputs_0 wl) < 16 \<and> \<not> is_input_autopad wl)
        then wl\<lparr>op := CM_CONVOLUTION\<rparr>
        else wl
      else wl)"

definition swizzling_turn_OFF :: "DPUWorkload \<Rightarrow> DPUWorkload" where
  "swizzling_turn_OFF wl = (if NPU_5_0 \<le> device wl then set_all_swizzlings KEY_0 wl else wl)"

definition replace_operations :: "DPUWorkload \<Rightarrow> DPUWorkload" where
  "replace_operations wl =
     channels_preserving_operations_consistency_check (compressConv_replace_by_CM_CONV_VPU27 (avgpool_replace_by wl))"

definition model_sanitize_workload :: "bool \<Rightarrow> DPUWorkload \<Rightarrow> SanityReport \<Rightarrow> (bool \<times> DPUWorkload \<times> SanityReport) result" where
  "model_sanitize_workload tags wl result =
     bind_result (check_and_sanitize tags (replace_operations wl) result) (\<lambda>(wl, result). Inr (is_usable result, wl, result))"

section \<open>The providers\<close>

definition cloneDeactivateActSparsity :: "DPUWorkload \<Rightarrow> DPUWorkload" where
  "cloneDeactivateActSparsity wl = wl\<lparr>act_sparsity := 0, inputs_0 := set_sparsity False (inputs_0 wl)\<rparr>"

definition cloneDeactivateWeightSParsity :: "DPUWorkload \<Rightarrow> DPUWorkload" where
  "cloneDeactivateWeightSParsity wl = wl\<lparr>weight_sparsity := 0, weight_sparsity_enabled := False\<rparr>"

definition cloneAndChangeInOutChannels :: "DPUWorkload \<Rightarrow> u32 \<Rightarrow> DPUWorkload" where
  "cloneAndChangeInOutChannels wl n =
     wl\<lparr>inputs_0 := set_shape (mk_shape (width (inputs_0 wl)) (height (inputs_0 wl)) n (batches (inputs_0 wl))) (inputs_0 wl),
        outputs_0 := set_shape (mk_shape (width (outputs_0 wl)) (height (outputs_0 wl)) n (batches (outputs_0 wl))) (outputs_0 wl)\<rparr>"

definition is_dualsparsity_active :: "DPUWorkload \<Rightarrow> bool" where
  "is_dualsparsity_active wl \<longleftrightarrow> sparsity (inputs_0 wl) \<and> weight_sparsity_enabled wl"

definition is_linearly_extrapolation_necessary :: "CostModel \<Rightarrow> DPUWorkload \<Rightarrow> bool" where
  "is_linearly_extrapolation_necessary cm wl \<longleftrightarrow>
     (if is_dwconv_family_operation (op wl) \<and> 64 < channels (inputs_0 wl)
      then \<not> ''DW_MXP_AVP_SupportsMoreThan64Ch'' \<in> set (nn_properties (nn_provider cm)) else False)"

text \<open>\<open>extrapolate_cost\<close> of \<^verbatim>\<open>include/vpu/cycles_interface_types.h\<close>, in \<open>float\<close>.\<close>

definition float_u32 :: "u32 \<Rightarrow> real" where
  "float_u32 u = to_float32 (of_int (uint u))"

definition extrapolate_cost ::
  "u32 \<Rightarrow> u32 \<Rightarrow> CyclesInterfaceType \<Rightarrow> u32 \<Rightarrow> CyclesInterfaceType \<Rightarrow> CyclesInterfaceType" where
  "extrapolate_cost x x1 y1 x2 y2 =
     (let slope = to_float32 (to_float32 (float_u32 y2 - float_u32 y1) / float_u32 (x2 - x1));
          intercept = to_float32 (float_u32 y1 - to_float32 (slope * float_u32 x1))
      in toCycleInterfaceType_floating (float_u32 START_ERROR_RANGE)
           (to_float32 (to_float32 (slope * float_u32 x) + intercept)))"

definition get_cost_linearly_extrapolated :: "CostModel \<Rightarrow> DPUWorkload \<Rightarrow> ActiveCache \<Rightarrow> (CyclesInterfaceType \<times> ActiveCache) result" where
  "get_cost_linearly_extrapolated cm wl active =
     bind_result (nn_get_cost (nn_provider cm) (cloneAndChangeInOutChannels wl 32) active) (\<lambda>(cost_32ch, active).
     bind_result (nn_get_cost (nn_provider cm) (cloneAndChangeInOutChannels wl 64) active) (\<lambda>(cost_64ch, active).
       if isErrorCode cost_32ch then Inr (cost_32ch, active)
       else if isErrorCode cost_64ch then Inr (cost_64ch, active)
       else Inr (extrapolate_cost (channels (outputs_0 wl)) 32 cost_32ch 64 cost_64ch, active)))"

definition try_profiling :: "CostModel \<Rightarrow> DPUWorkload \<Rightarrow> string \<Rightarrow> string \<Rightarrow> ActiveCache \<Rightarrow> outcome" where
  "try_profiling cm wl info_text source active =
     (case http_provider cm of
        Some http \<Rightarrow>
          let source = ''profiling_service_'' @ profilingBackendToString http (profiling_service_backend_hint wl)
          in bind_result (getDeviceConfiguration (device wl)) (\<lambda>config.
             bind_result (DPUOperation_with wl config) (\<lambda>dpu_op.
               case http_cost http dpu_op info_text of (cycles, info_text) \<Rightarrow> Inr (cycles, info_text, source, active)))
      | None \<Rightarrow> Inr (ERROR_PROFILING_SERVICE, info_text, source, active))"

definition try_nn :: "CostModel \<Rightarrow> DPUWorkload \<Rightarrow> string \<Rightarrow> string \<Rightarrow> ActiveCache \<Rightarrow> outcome" where
  "try_nn cm wl info_text source active =
     (if \<not> nn_initialized (nn_provider cm) then Inr (ERROR_INFERENCE_NOT_POSSIBLE, info_text, source, active)
      else
        let source = ''nn_'' @ make_model_nickname (full_raw_name (nn_version (nn_provider cm)))
        in bind_result (if is_linearly_extrapolation_necessary cm wl then get_cost_linearly_extrapolated cm wl active
                        else nn_get_cost (nn_provider cm) wl active)
             (\<lambda>(cycles, active). Inr (cycles, info_text, source, active)))"

definition theoretical_cycles :: "DPUWorkload \<Rightarrow> CyclesInterfaceType result" where
  "theoretical_cycles wl =
     (case DPUTheoreticalCycles wl of
        None \<Rightarrow> Inl (undefined_behaviour ''loop without end or remainder by zero'')
      | Some cycles \<Rightarrow> Inr (ucast cycles))"

definition try_theoretical :: "DPUWorkload \<Rightarrow> string \<Rightarrow> ActiveCache \<Rightarrow> outcome" where
  "try_theoretical wl info_text active =
     bind_result (theoretical_cycles wl) (\<lambda>cycles. Inr (cycles, info_text, ''theoretical'', active))"

text \<open>The three parts of the automatic choice: the fallback to network and theory, and the sharing of the result.\<close>

definition auto_fallbacks :: "CostModel \<Rightarrow> DPUWorkload \<Rightarrow> CyclesInterfaceType \<Rightarrow> string \<Rightarrow> string \<Rightarrow> ActiveCache \<Rightarrow> outcome" where
  "auto_fallbacks cm wl cycles info_text source active =
     (if isErrorCode cycles \<or> cycles = NO_ERROR then
        bind_result (try_nn cm wl info_text source active) (\<lambda>(cycles, info_text, source, active).
          if isErrorCode cycles then try_theoretical wl info_text active
          else Inr (cycles, info_text, source, active))
      else Inr (cycles, info_text, source, active))"

definition share_with_cache :: "CostModel \<Rightarrow> DPUWorkload \<Rightarrow> CyclesInterfaceType \<Rightarrow> ActiveCache \<Rightarrow> ActiveCache result" where
  "share_with_cache cm wl cycles active =
     bind_result (get_cached (nn_provider cm) wl active) (\<lambda>(cached, _, active).
       if isErrorCode cached \<and> \<not> isErrorCode cycles then add_to_cache (nn_provider cm) wl (float_u32 cycles) active
       else Inr active)"

definition run_auto :: "CostModel \<Rightarrow> DPUWorkload \<Rightarrow> string \<Rightarrow> string \<Rightarrow> ActiveCache \<Rightarrow> outcome" where
  "run_auto cm wl info_text source active =
     bind_result (get_cached (nn_provider cm) wl active) (\<lambda>(cached, found_in, active).
       let source = value_or found_in source in
       if \<not> isErrorCode cached then Inr (cached, info_text, source, active)
       else
         bind_result (if gate_enabled (auto_hint_gate cm) then try_profiling cm wl info_text source active
                      else Inr (NO_ERROR, info_text, source, active)) (\<lambda>(cycles, info_text, source, active).
         bind_result (auto_fallbacks cm wl cycles info_text source active) (\<lambda>(cycles, info_text, source, active).
         bind_result (share_with_cache cm wl cycles active) (\<lambda>active.
           Inr (cycles, info_text, source, active)))))"

definition run_cost_providers :: "CostModel \<Rightarrow> DPUWorkload \<Rightarrow> string \<Rightarrow> string \<Rightarrow> ActiveCache \<Rightarrow> outcome" where
  "run_cost_providers cm wl info_text source active =
     (case cost_source_hint wl of
        AUTO \<Rightarrow> run_auto cm wl info_text source active
      | PROFILING_SERVICE \<Rightarrow> try_profiling cm wl info_text source active
      | NN \<Rightarrow> try_nn cm wl info_text source active
      | THEORETICAL \<Rightarrow> try_theoretical wl info_text active
      | _ \<Rightarrow> Inr (NO_ERROR, info_text, source, active))"

section \<open>The cost of a workload\<close>

definition get_cost_dualsparsity :: "CostModel \<Rightarrow> DPUWorkload \<Rightarrow> ActiveCache \<Rightarrow> (CyclesInterfaceType \<times> ActiveCache) result" where
  "get_cost_dualsparsity cm wl active =
     bind_result (run_cost_providers cm (cloneDeactivateActSparsity wl) '''' '''' active) (\<lambda>(act_off, info_text, _, active).
     bind_result (run_cost_providers cm (cloneDeactivateWeightSParsity wl) info_text '''' active) (\<lambda>(wt_off, _, _, active).
       if isErrorCode act_off then Inr (act_off, active)
       else if isErrorCode wt_off then Inr (wt_off, active)
       else Inr (min act_off wt_off, active)))"

definition get_cost :: "CostModel \<Rightarrow> DPUWorkload \<Rightarrow> string \<Rightarrow> string \<Rightarrow> ActiveCache \<Rightarrow> outcome" where
  "get_cost cm wl info_text source active =
     (if is_dualsparsity_active wl then
        bind_result (get_cost_dualsparsity cm wl active) (\<lambda>(cycles, active). Inr (cycles, info_text, source, active))
      else run_cost_providers cm wl info_text source active)"

definition DPU_and_sanitize ::
  "CostModel \<Rightarrow> DPUWorkload \<Rightarrow> ActiveCache \<Rightarrow> (CyclesInterfaceType \<times> string \<times> string \<times> DPUWorkload \<times> ActiveCache) result" where
  "DPU_and_sanitize cm wl active =
     bind_result (model_sanitize_workload (print_tags cm) (swizzling_turn_OFF wl) new_SanityReport)
       (\<lambda>(is_inference_relevant, wl, problems).
          if is_inference_relevant then
            bind_result (get_cost cm wl (info problems) ''unknown'' active) (\<lambda>(cycles, info_text, source, active).
              Inr (cycles, info_text, source, wl, active))
          else Inr (report_value problems, info problems, ''unknown'', wl, active))"

definition DPU :: "CostModel \<Rightarrow> DPUWorkload \<Rightarrow> ActiveCache \<Rightarrow> (CyclesInterfaceType \<times> string \<times> ActiveCache) result" where
  "DPU cm wl active =
     bind_result (DPU_and_sanitize cm wl active) (\<lambda>(cycles, info_text, _, _, active). Inr (cycles, info_text, active))"

definition DPUMsg :: "CostModel \<Rightarrow> DPUWorkload \<Rightarrow> ActiveCache \<Rightarrow> (CyclesInterfaceType \<times> string \<times> ActiveCache) result" where
  "DPUMsg cm wl active = DPU (cm\<lparr>print_tags := False\<rparr>) wl active"

section \<open>The cost of many workloads\<close>

text \<open>
  With a workload of double sparsity in the vector, \<open>get_cost\<close> writes the costs past the end of a vector of no elements, which
  is undefined.
\<close>

definition get_cost_vector :: "CostModel \<Rightarrow> DPUWorkload list \<Rightarrow> CyclesInterfaceType list result" where
  "get_cost_vector cm wls =
     (if list_ex is_dualsparsity_active wls then Inl (undefined_behaviour ''transform past the end of a vector'')
      else nn_get_cost_vector (nn_provider cm) wls)"

fun sanitize_all :: "bool \<Rightarrow> DPUWorkload list \<Rightarrow> (bool \<times> DPUWorkload \<times> SanityReport) list result" where
  "sanitize_all tags [] = Inr []"
| "sanitize_all tags (wl # wls) =
     bind_result (model_sanitize_workload tags (swizzling_turn_OFF wl) new_SanityReport) (\<lambda>outcome.
     bind_result (sanitize_all tags wls) (\<lambda>outcomes. Inr (outcome # outcomes)))"

fun decide_all :: "bool \<Rightarrow> (bool \<times> DPUWorkload \<times> SanityReport) list \<Rightarrow> CyclesInterfaceType list \<Rightarrow> CyclesInterfaceType list result" where
  "decide_all is_inference_posible [] costs = Inr []"
| "decide_all is_inference_posible ((is_inference_relevant, wl, problems) # outcomes) costs =
     bind_result (theoretical_cycles wl) (\<lambda>theoretical.
     bind_result
       (if \<not> is_inference_relevant then Inr (report_value problems)
        else if is_inference_posible then
          (case costs of [] \<Rightarrow> Inl (undefined_behaviour ''operator[] past the end'') | c # _ \<Rightarrow> Inr c)
        else Inr theoretical) (\<lambda>cycles.
     bind_result (decide_all is_inference_posible outcomes (tl costs)) (\<lambda>cycles_vector. Inr (cycles # cycles_vector))))"

definition DPU_vector :: "CostModel \<Rightarrow> DPUWorkload list \<Rightarrow> CyclesInterfaceType list result" where
  "DPU_vector cm wls =
     bind_result (sanitize_all (print_tags cm) wls) (\<lambda>outcomes.
     bind_result (get_cost_vector cm (map (\<lambda>(_, wl, _). wl) outcomes)) (\<lambda>costs.
       decide_all (nn_initialized (nn_provider cm)) outcomes costs))"

end
