(* ===== verification/Validation_Laws.thy ===== *)
theory Validation_Laws
  imports Layer_Validator
begin

text \<open>
  What the validation accepts, stated without checkers, tables of texts or exceptions: the conditions \<open>valid_dpu_operation\<close> of
  an operation on a device generation at a level, and the lemmas that reduce each group of checks of the code to them.
\<close>

section \<open>Accepted channels and batches\<close>

definition multiple_of_16 :: "int \<Rightarrow> bool" where
  "multiple_of_16 c \<longleftrightarrow> 16 \<le> c \<and> c \<le> 8192 \<and> 16 dvd c"

definition autopad_channels :: "Operation \<Rightarrow> DataType \<Rightarrow> int \<Rightarrow> bool" where
  "autopad_channels opn dt c \<longleftrightarrow>
     opn \<in> {Operation.CONVOLUTION, Operation.CM_CONVOLUTION} \<and> 1 \<le> c \<and>
     (dt \<in> {FLOAT16, BFLOAT16} \<and> c \<le> 9 \<or> dt \<in> {INT8, UINT8, HF8, BF8} \<and> c \<le> 15)"

definition plain_channels :: "Generation \<Rightarrow> Level \<Rightarrow> Operation \<Rightarrow> int \<Rightarrow> bool" where
  "plain_channels gen lvl opn c \<longleftrightarrow>
     (if opn = Operation.CM_CONVOLUTION
      then 1 \<le> c \<and> c \<le> (if gen = VPU2_0 \<or> gen = VPU2_7 \<and> lvl = WorkloadValidValues then 16 else 15)
      else if opn \<in> {Operation.DW_CONVOLUTION, Operation.MAXPOOL, Operation.AVEPOOL} \<and> lvl = WorkloadValidValues \<and> gen \<noteq> VPU2_0
      then c \<in> {16, 32, 64}
      else multiple_of_16 c)"

definition input_channels_allowed :: "Generation \<Rightarrow> Level \<Rightarrow> Operation \<Rightarrow> bool \<Rightarrow> DataType \<Rightarrow> int \<Rightarrow> bool" where
  "input_channels_allowed gen lvl opn autopad dt c \<longleftrightarrow>
     plain_channels gen lvl opn c \<or> gen = VPU5_0 \<and> autopad \<and> autopad_channels opn dt c"

definition output_channels_allowed :: "Generation \<Rightarrow> bool \<Rightarrow> int \<Rightarrow> bool" where
  "output_channels_allowed gen autopad c \<longleftrightarrow> gen = VPU5_0 \<and> autopad \<and> 1 \<le> c \<and> c \<le> 15 \<or> multiple_of_16 c"

definition batch_allowed :: "Generation \<Rightarrow> int \<Rightarrow> bool" where
  "batch_allowed gen n \<longleftrightarrow> 1 \<le> n \<and> n \<le> (if gen = VPU5_0 then 1 else max_limit)"

lemma multi_is_in_any: "multi_is_in rs c [] \<longleftrightarrow> (\<exists>r \<in> set rs. is_in r c)"
  by (simp add: multi_is_in_def multi_is_in_text_def multi_is_in_loop_iff effective_mask_def resize_mask_def zip_replicate2)

lemma range_in_iff:
  "is_in (make_SmartRanges l u d None) c \<longleftrightarrow> max 0 l \<le> c \<and> c \<le> max 0 u \<and> d dvd c"
  if "0 < d"
  using that
  by (auto simp: is_in_iff make_SmartRanges_def Let_def aligned_def normalize_divisor_def normalize_divisor_opt_def
      clamp_negative_to_zero_def compute_lcm_def)

lemma device_ranges:
  "is_in range_16_max c \<longleftrightarrow> multiple_of_16 c"
  "is_in range_CM c \<longleftrightarrow> 1 \<le> c \<and> c \<le> 16"
  "is_in range_CM_less c \<longleftrightarrow> 1 \<le> c \<and> c \<le> 15"
  "is_in allValues_range c \<longleftrightarrow> 1 \<le> c \<and> c \<le> max_limit"
  "is_in onlyOne_range c \<longleftrightarrow> c = 1"
  "is_in (make_SmartRanges 1 9 1 None) c \<longleftrightarrow> 1 \<le> c \<and> c \<le> 9"
  "is_in (make_SmartRanges 1 15 1 None) c \<longleftrightarrow> 1 \<le> c \<and> c \<le> 15"
  by (auto simp: range_16_max_def range_CM_def range_CM_less_def allValues_range_def onlyOne_range_def range_in_iff
      multiple_of_16_def input_spatial_dim_max_def cm_conv_channels_max_def max_limit_def)

lemma range_16_32_64_iff: "is_in range_16_32_64 c \<longleftrightarrow> c \<in> {16, 32, 64}"
proof -
  have "is_in range_16_32_64 c \<longleftrightarrow> 16 \<le> c \<and> c \<le> 64 \<and> 16 dvd c \<and> (32 \<le> c \<longrightarrow> 32 dvd c)"
    by (auto simp: range_16_32_64_def is_in_iff make_SmartRanges_def Let_def aligned_def normalize_divisor_def
        normalize_divisor_opt_def clamp_negative_to_zero_def)
  also have "\<dots> \<longleftrightarrow> c = 16 \<or> c = 32 \<or> c = 64" by presburger
  finally show ?thesis by simp
qed

section \<open>The configurations of workloads and of layers on a tile\<close>

definition tile_contexts :: "IDeviceValidValues list" where
  "tile_contexts = OperationsContext @ SplitLayersContext"

lemmas workload_values =
  VPU2_0_WorkloadValidValues_def VPU2_7_WorkloadValidValues_def VPU4_0_WorkloadValidValues_def VPU5_0_WorkloadValidValues_def
lemmas layer_values =
  VPU2_0_LayerValidValues_def VPU2_7_LayerValidValues_def VPU4_0_LayerValidValues_def VPU5_0_LayerValidValues_def
lemmas tile_values =
  VPU2_0_LayerOnTileValidValues_def VPU2_7_LayerOnTileValidValues_def VPU4_0_LayerOnTileValidValues_def
  VPU5_0_LayerOnTileValidValues_def
lemmas device_operations =
  base_operations_def VPU2_0_valid_operations_def VPU2_7_valid_operations_def VPU4_0_valid_operations_def
  VPU5_0_valid_operations_def
lemmas channel_tables =
  VPU2_0_input_channels_restrictions_def VPU2_7_input_channels_restrictions_def
  VPU2_7_input_channels_restrictions_layer_def VPU2_7_input_channels_restrictions_layersplit_def
  VPU4_0_input_channels_restrictions_def VPU4_0_input_channels_restrictions_layer_def
  VPU4_0_input_channels_restrictions_layersplit_def VPU5_0_input_channels_restrictions_def
  VPU5_0_input_channels_restrictions_layer_def VPU5_0_input_channels_restrictions_layersplit_def

lemma in_set_Cons_elim: "x \<in> set (y # ys) \<Longrightarrow> (x = y \<Longrightarrow> P) \<Longrightarrow> (x \<in> set ys \<Longrightarrow> P) \<Longrightarrow> P"
  by auto

lemma tile_contexts_cases [consumes 1, case_names V20 V27 V40 V50]:
  assumes "v \<in> set tile_contexts"
  obtains lvl where "v = VPU2_0_values OperationsBehaviour lvl 1" "lvl \<noteq> LayerValidValues"
  | lvl rs where "v = VPU2_7_values OperationsBehaviour lvl 1 rs"
      "(lvl, rs) \<in> {(WorkloadValidValues, VPU2_7_input_channels_restrictions),
                     (LayerOnTileValidValues, VPU2_7_input_channels_restrictions_layersplit)}"
  | lvl rs where "v = VPU4_0_values OperationsBehaviour lvl 1 rs"
      "(lvl, rs) \<in> {(WorkloadValidValues, VPU4_0_input_channels_restrictions),
                     (LayerOnTileValidValues, VPU4_0_input_channels_restrictions_layersplit)}"
  | lvl rs where "v = VPU5_0_values OperationsBehaviour lvl 1 rs onlyOne_range"
      "(lvl, rs) \<in> {(WorkloadValidValues, VPU5_0_input_channels_restrictions),
                     (LayerOnTileValidValues, VPU5_0_input_channels_restrictions_layersplit)}"
  using assms that
  by (auto simp: tile_contexts_def OperationsContext_def SplitLayersContext_def workload_values tile_values)

lemma tile_behaviour: "v \<in> set tile_contexts \<Longrightarrow> operations_dynamic_behavior v = OperationsBehaviour"
  and tile_level: "v \<in> set tile_contexts \<Longrightarrow> vv_level v \<noteq> LayerValidValues"
  by (cases v rule: tile_contexts_cases; auto)+

lemma tile_batch:
  "v \<in> set tile_contexts \<Longrightarrow> multi_is_in (get_batch_restrictions v) n [] \<longleftrightarrow> batch_allowed (generation v) n"
  by (cases v rule: tile_contexts_cases)
    (auto simp: get_batch_restrictions_def multi_is_in_any batch_allowed_def device_ranges)

lemma tile_output_channels:
  assumes "v \<in> set tile_contexts"
  shows "(case get_output_channels_restriction v w of Inl _ \<Rightarrow> False | Inr rs \<Rightarrow> multi_is_in rs c []) \<longleftrightarrow>
    output_channels_allowed (generation v) (dop_output_autopad w) c"
  using assms
  by (cases v rule: tile_contexts_cases)
    (auto simp: get_output_channels_restriction_def VPU5_get_output_channels_restriction_def get_range_def
      VPU5_0_output_channels_restrictions_def multi_is_in_any output_channels_allowed_def device_ranges)

lemma VPU5_input_channels:
  assumes "v = VPU5_0_values behavior lvl sf tbl br" "map_of tbl (dop_operation w) = Some rs"
  shows "(case get_input_channels_restriction v w of Inl _ \<Rightarrow> False | Inr rs \<Rightarrow> multi_is_in rs c []) \<longleftrightarrow>
    multi_is_in rs c [] \<or> dop_input_autopad w \<and> autopad_channels (dop_operation w) (ti_datatype (dop_input_0 w)) c"
  unfolding assms(1) using assms(2)
  by (auto simp: get_input_channels_restriction_def VPU5_get_input_channels_restriction_def map_at_def
      get_range_def VPU5_0_input_channels_restriction_extensions_def multi_is_in_any autopad_channels_def device_ranges
      types_16bits_def types_8bits_def)

text \<open>The table of a configuration has a row for every valid operation, and the row accepts the plain channels.\<close>

lemma tile_channel_table:
  assumes "v \<in> set tile_contexts" "opn \<in> set (valid_operations v)"
  obtains rs where "map_of (input_channels_restrictions v) opn = Some rs"
    "\<And>c. multi_is_in rs c [] \<longleftrightarrow> plain_channels (generation v) (vv_level v) opn c"
proof -
  have "\<exists>rs. map_of (input_channels_restrictions v) opn = Some rs \<and>
      (\<forall>c. multi_is_in rs c [] \<longleftrightarrow> plain_channels (generation v) (vv_level v) opn c)"
    using assms(1)
  proof (cases v rule: tile_contexts_cases)
    case (V20 lvl)
    then have "opn \<in> set VPU2_0_valid_operations" using assms(2) by simp
    then show ?thesis unfolding device_operations
      by (elim in_set_Cons_elim)
        (use V20 in \<open>simp_all add: channel_tables multi_is_in_any plain_channels_def device_ranges\<close>)
  next
    case (V27 lvl rs)
    then have "opn \<in> set VPU2_7_valid_operations" using assms(2) by simp
    then show ?thesis unfolding device_operations
      by (elim in_set_Cons_elim)
        (use V27 in \<open>auto simp: channel_tables multi_is_in_any plain_channels_def device_ranges range_16_32_64_iff\<close>)
  next
    case (V40 lvl rs)
    then have "opn \<in> set VPU4_0_valid_operations" using assms(2) by simp
    then show ?thesis unfolding device_operations
      by (elim in_set_Cons_elim)
        (use V40 in \<open>auto simp: channel_tables multi_is_in_any plain_channels_def device_ranges range_16_32_64_iff\<close>)
  next
    case (V50 lvl rs)
    then have "opn \<in> set VPU5_0_valid_operations" using assms(2) by simp
    then show ?thesis unfolding device_operations
      by (elim in_set_Cons_elim)
        (use V50 in \<open>auto simp: channel_tables multi_is_in_any plain_channels_def device_ranges range_16_32_64_iff\<close>)
  qed
  then show ?thesis using that by blast
qed

lemma tile_input_channels:
  assumes "v \<in> set tile_contexts" "dop_operation w \<in> set (valid_operations v)"
  shows "(case get_input_channels_restriction v w of Inl _ \<Rightarrow> False | Inr rs \<Rightarrow> multi_is_in rs c []) \<longleftrightarrow>
    input_channels_allowed (generation v) (vv_level v) (dop_operation w) (dop_input_autopad w) (ti_datatype (dop_input_0 w)) c"
proof -
  obtain rs where rs: "map_of (input_channels_restrictions v) (dop_operation w) = Some rs"
    "\<And>c. multi_is_in rs c [] \<longleftrightarrow> plain_channels (generation v) (vv_level v) (dop_operation w) c"
    using tile_channel_table [OF assms] by metis
  show ?thesis
  proof (cases "generation v = VPU5_0")
    case True
    obtain lvl tbl where v: "v = VPU5_0_values OperationsBehaviour lvl 1 tbl onlyOne_range"
      using assms(1) True by (elim tile_contexts_cases) auto
    show ?thesis using rs VPU5_input_channels [OF v] unfolding v by (simp add: input_channels_allowed_def)
  next
    case False
    then show ?thesis using rs
      by (auto simp: input_channels_allowed_def get_input_channels_restriction_def map_at_def split: Generation.split)
  qed
qed

end
