(* ===== verification/Validation_Spec.thy ===== *)
theory Validation_Spec
  imports Validation_Laws
begin

text \<open>
  The conditions a valid operation meets, and the theorem that the validation of workloads decides them: on every workload
  \<open>check_data_consistency\<close> ends with a report, and the report is clean exactly on the valid ones.
\<close>

section \<open>Valid operations\<close>

definition allowed :: "(Operation \<times> 'a list) list \<Rightarrow> Operation \<Rightarrow> 'a \<Rightarrow> bool" where
  "allowed table opn x \<longleftrightarrow> (case map_of table opn of None \<Rightarrow> False | Some xs \<Rightarrow> x \<in> set xs)"

definition valid_identity :: "IDeviceValidValues \<Rightarrow> DPUOperation \<Rightarrow> bool" where
  "valid_identity v w \<longleftrightarrow>
     dop_device w \<in> set (devices v) \<and> dop_operation w \<in> set (valid_operations v) \<and>
     dop_mpe_engine w \<in> set (valid_mpe_engines v) \<and> dop_output_write_tiles w \<in> set (output_write_tile_options v) \<and>
     dop_isi_strategy w \<in> set (isi_stategy_options v) \<and>
     (dop_isi_strategy w = SPLIT_OVER_K \<longrightarrow> 1 < dop_output_write_tiles w \<or> vv_level v = LayerValidValues \<and> generation v \<noteq> VPU2_0)"

definition valid_kernel :: "DPUOperation \<Rightarrow> bool" where
  "valid_kernel w \<longleftrightarrow>
     (let k = dop_kernel w; largest = (if dop_operation w = Operation.ELTWISE then 1 else 15)
      in 1 \<le> ki_width k \<and> ki_width k \<le> largest \<and> 1 \<le> ki_height k \<and> ki_height k \<le> largest \<and>
         0 \<le> pad_left k \<and> pad_left k \<le> ki_width k div 2 \<and> 0 \<le> pad_right k \<and> pad_right k \<le> ki_width k div 2 \<and>
         0 \<le> pad_top k \<and> pad_top k \<le> ki_height k div 2 \<and> 0 \<le> pad_bottom k \<and> pad_bottom k \<le> ki_height k div 2)"

definition valid_strides :: "DPUOperation \<Rightarrow> bool" where
  "valid_strides w \<longleftrightarrow>
     (let k = dop_kernel w; largest = (if dop_operation w = Operation.ELTWISE then 1 else 8)
      in 1 \<le> stride_width k \<and> stride_width k \<le> largest \<and> 1 \<le> stride_height k \<and> stride_height k \<le> largest)"

definition valid_types :: "TensorInfo \<Rightarrow> (Operation \<times> DataType list) list \<Rightarrow> Operation \<Rightarrow> IDeviceValidValues \<Rightarrow> bool" where
  "valid_types t table opn v \<longleftrightarrow>
     allowed table opn (ti_datatype t) \<and> ti_layout t \<in> set (valid_layouts v) \<and> ti_swizzling t \<in> set (valid_swizzlings v)"

definition valid_input :: "IDeviceValidValues \<Rightarrow> DPUOperation \<Rightarrow> bool" where
  "valid_input v w \<longleftrightarrow>
     (let k = dop_kernel w; t = dop_input_0 w
      in 1 \<le> ti_height t \<and> ti_height t \<le> 8192 \<and> ki_height k \<le> ti_height t + pad_top k + pad_bottom k \<and>
         1 \<le> ti_width t \<and> ti_width t \<le> 8192 \<and> ki_width k \<le> ti_width t + pad_left k + pad_right k \<and>
         input_channels_allowed (generation v) (vv_level v) (dop_operation w) (dop_input_autopad w) (ti_datatype t)
           (ti_channels t) \<and>
         batch_allowed (generation v) (ti_batch t) \<and> valid_types t (input_datatypes v) (dop_operation w) v)"

definition valid_output :: "IDeviceValidValues \<Rightarrow> DPUOperation \<Rightarrow> bool" where
  "valid_output v w \<longleftrightarrow>
     (let k = dop_kernel w; i = dop_input_0 w; t = dop_output_0 w;
          rows = (\<lambda>h. (h + pad_top k + pad_bottom k - ki_height k) div stride_height k + 1);
          halo_rows = (if dop_isi_strategy w = SPLIT_OVER_H
                       then ki_height k * (of_bool (pad_top k = 0) + of_bool (pad_bottom k = 0)) else 0)
      in ti_width t = (ti_width i + pad_left k + pad_right k - ki_width k) div stride_width k + 1 \<and>
         rows (ti_height i) \<le> ti_height t \<and> ti_height t \<le> rows (ti_height i + halo_rows) \<and>
         ti_batch t = ti_batch i \<and> output_channels_allowed (generation v) (dop_output_autopad w) (ti_channels t) \<and>
         valid_types t (output_datatypes v) (dop_operation w) v)"

definition valid_sparsity :: "DPUOperation \<Rightarrow> bool" where
  "valid_sparsity w \<longleftrightarrow>
     (let t0 = dop_input_0 w; t1 = dop_input_1 w; convolution = dop_operation w \<in> {Operation.CONVOLUTION, Operation.LAYER_NORM};
          elementwise = dop_operation w \<in> {Operation.ELTWISE, Operation.ELTWISE_MUL}
      in 0 \<le> ti_sparsity t0 \<and> ti_sparsity t0 \<le> 1 \<and> 0 \<le> ti_sparsity t1 \<and> ti_sparsity t1 \<le> 1 \<and>
         (ti_sparsity_enabled t0 \<longrightarrow> to_float32 (1 / 100) \<le> ti_sparsity t0) \<and>
         (\<not> ti_sparsity_enabled t0 \<longrightarrow> ti_sparsity t0 = 0) \<and> (\<not> ti_sparsity_enabled t1 \<longrightarrow> ti_sparsity t1 = 0) \<and>
         (ti_sparsity_enabled t0 \<or> ti_sparsity_enabled t1 \<longrightarrow> elementwise \<or> convolution \<and> dop_mpe_engine w \<noteq> DCIM))"

definition valid_channels :: "DPUOperation \<Rightarrow> bool" where
  "valid_channels w \<longleftrightarrow>
     (dop_operation w \<in> {Operation.DW_CONVOLUTION, Operation.AVEPOOL, Operation.MAXPOOL, Operation.ELTWISE, Operation.ELTWISE_MUL} \<and>
      (dop_output_autopad w \<longrightarrow> dop_input_autopad w) \<longrightarrow>
      ti_channels (dop_output_0 w) = ti_channels (dop_input_0 w))"

definition valid_halo :: "DPUOperation \<Rightarrow> bool" where
  "valid_halo w \<longleftrightarrow>
     (let k = dop_kernel w; h = dop_halo w
      in (0 < pad_top k \<longrightarrow> halo_top (input_0_halo h) \<le> 0) \<and> (0 < pad_bottom k \<longrightarrow> halo_bottom (input_0_halo h) \<le> 0) \<and>
         (0 < pad_left k \<longrightarrow> halo_left (input_0_halo h) \<le> 0) \<and> (0 < pad_right k \<longrightarrow> halo_right (input_0_halo h) \<le> 0) \<and>
         isAllPositive (output_0_halo h) \<and> isAllPositive (output_0_halo_broadcast_cnt h))"

definition valid_dpu_operation :: "IDeviceValidValues \<Rightarrow> DPUOperation \<Rightarrow> bool" where
  "valid_dpu_operation v w \<longleftrightarrow>
     valid_identity v w \<and> valid_kernel w \<and> valid_strides w \<and> valid_input v w \<and> valid_output v w \<and>
     allowed (weights_datatypes v) (dop_operation w) (ti_datatype (dop_input_1 w)) \<and> valid_sparsity w \<and>
     (vv_level v = WorkloadValidValues \<longrightarrow> allowed (valid_execution_order_map v) (dop_operation w) (dop_execution_order w)) \<and>
     valid_channels w \<and> valid_halo w"

section \<open>The groups of checks\<close>

lemma makeList_ok: "a \<le> b + 1 \<Longrightarrow> makeList a b 1 = Inr [a..b]"
  by (auto simp: makeList_def Let_def intro!: nth_equalityI)

lemma in_table_ok [step_ok_iff]:
  "step_ok (with_value (map_at m k) (\<lambda>xs. check (check_is_in_list sh x xs t))) \<longleftrightarrow> allowed m k x"
  by (simp add: step_ok_iff with_value_ok map_at_def allowed_def split: option.split)

lemma rule_check_step [honest_steps, simp]: "honest (rule_check r)"
  and rule_check_ok [step_ok_iff]: "step_ok (rule_check r) \<longleftrightarrow> fst r"
  by (simp_all add: rule_check_def step_ok_iff)

lemma in_list_of_step [simp]: "honest (with_value r (\<lambda>xs. check (check_is_in_list sh x xs t)))"
  by (rule with_value_step) simp

lemma in_requirements_of_step [simp]: "honest (with_value r (\<lambda>rs. check (check_is_in_requirements y (f rs) t)))"
  by (rule with_value_step) simp

lemma identity_checks_ok:
  assumes "get_specific_behaviour v (dop_operation w) = Inr b"
  shows "list_all honest (identity_checks w v)" "list_all step_ok (identity_checks w v) \<longleftrightarrow> valid_identity v w"
  using assms
  by (auto simp: identity_checks_def valid_identity_def step_ok_iff get_ISI_Strategy_Range_def base_get_ISI_Strategy_Range_def
      layer_get_ISI_Strategy_Range_def filter_ISI_Strategy_Options_def Let_def)

lemma kernel_checks_honest [simp]: "honest (kernel_checks w v b)"
  unfolding kernel_checks_def by (rule with_value_step) simp

lemma padding_checks_honest [simp]: "honest (padding_checks w v)"
  unfolding padding_checks_def by (intro with_value_step) (simp add: Let_def)

lemma kernel_padding_ok:
  "step_ok (kernel_checks w v b) \<and> step_ok (padding_checks w v) \<longleftrightarrow> valid_kernel w"
proof -
  let ?k = "dop_kernel w"
  have k: "step_ok (kernel_checks w v b) \<longleftrightarrow>
      1 \<le> ki_width ?k \<and> ki_width ?k \<le> get_maximum_kernel_size (dop_operation w) \<and>
      1 \<le> ki_height ?k \<and> ki_height ?k \<le> get_maximum_kernel_size (dop_operation w)"
    by (auto simp: kernel_checks_def get_kernel_range_def makeList_ok get_maximum_kernel_size_def kernel_max_def Let_def
        step_ok_iff normalize_kernel_dimension_def simp del: upto_rec_numeral)
  have p: "step_ok (padding_checks w v) \<longleftrightarrow>
      0 \<le> pad_left ?k \<and> pad_left ?k \<le> ki_width ?k div 2 \<and> 0 \<le> pad_right ?k \<and> pad_right ?k \<le> ki_width ?k div 2 \<and>
      0 \<le> pad_top ?k \<and> pad_top ?k \<le> ki_height ?k div 2 \<and> 0 \<le> pad_bottom ?k \<and> pad_bottom ?k \<le> ki_height ?k div 2"
    if "1 \<le> ki_width ?k" "1 \<le> ki_height ?k"
    using that
    by (auto simp: padding_checks_def get_pad_horz_range_def get_pad_vert_range_def get_padMax_def makeList_ok Let_def
        step_ok_iff sdiv_nonneg simp del: upto_rec_numeral)
  show ?thesis
    unfolding k valid_kernel_def Let_def get_maximum_kernel_size_def kernel_max_def using p by auto
qed

lemma stride_checks_honest [simp]: "honest (stride_checks w r)"
  unfolding stride_checks_def by (rule with_value_step) simp

lemma stride_checks_ok: "step_ok (stride_checks w (get_dpu_strides_range v w)) \<longleftrightarrow> valid_strides w"
  by (auto simp: stride_checks_def get_dpu_strides_range_def makeList_ok get_maximum_kernel_stride_def stride_max_def Let_def
      step_ok_iff valid_strides_def simp del: upto_rec_numeral)

lemma tensor_type_checks_ok:
  "list_all honest (tensor_type_checks t (map_at m opn) v nm)"
  "list_all step_ok (tensor_type_checks t (map_at m opn) v nm) \<longleftrightarrow> valid_types t m opn v"
  by (auto simp: tensor_type_checks_def step_ok_iff valid_types_def)

text \<open>The dimensions of a tensor that comes from a workload fit in an \<open>int\<close>.\<close>

definition int_tensor :: "TensorInfo \<Rightarrow> bool" where
  "int_tensor t \<longleftrightarrow> as_int (ti_height t) = ti_height t \<and> as_int (ti_width t) = ti_width t \<and>
     as_int (ti_channels t) = ti_channels t \<and> as_int (ti_batch t) = ti_batch t"

lemma input_checks_honest: "list_all honest (input_checks w v)"
  unfolding input_checks_def Let_def get_input_valid_datatypes_def by (simp add: tensor_type_checks_ok in_requirements_of_step [of _ _ id, simplified])

lemma input_checks_ok:
  assumes "v \<in> set tile_contexts" "dop_operation w \<in> set (valid_operations v)" "int_tensor (dop_input_0 w)"
  shows "list_all step_ok (input_checks w v) \<longleftrightarrow> valid_input v w"
proof -
  have c: "step_ok (with_value (get_input_channels_restriction v w) (\<lambda>r. check (check_is_in_requirements c r t))) \<longleftrightarrow>
      input_channels_allowed (generation v) (vv_level v) (dop_operation w) (dop_input_autopad w)
        (ti_datatype (dop_input_0 w)) c" for c t
    unfolding tile_input_channels [OF assms(1,2), symmetric] by (simp add: step_ok_iff with_value_ok split: sum.split)
  show ?thesis
    using assms(3)
    by (auto simp: input_checks_def Let_def c step_ok_iff tensor_type_checks_ok get_input_valid_datatypes_def
        tile_batch [OF assms(1)] get_input_height_interval_def get_input_width_interval_def input_spatial_dim_max_def
        valid_input_def int_tensor_def)
qed

lemma output_checks_honest: "list_all honest (output_checks w v)"
  unfolding output_checks_def Let_def get_output_valid_datatypes_def by (simp add: tensor_type_checks_ok in_requirements_of_step [of _ _ id, simplified])

lemma compute_output_dim_eq:
  "0 < s \<Longrightarrow> k \<le> i + p + q \<Longrightarrow> compute_output_dim i p q k s = (i + p + q - k) div s + 1"
  by (simp add: compute_output_dim_def sdiv_nonneg algebra_simps)

lemma output_checks_ok:
  assumes "v \<in> set tile_contexts" "int_tensor (dop_input_0 w)" "int_tensor (dop_output_0 w)"
    and "valid_kernel w" "valid_strides w" "valid_input v w"
  shows "list_all step_ok (output_checks w v) \<longleftrightarrow> valid_output v w"
proof -
  let ?k = "dop_kernel w" and ?i = "dop_input_0 w"
  have c: "step_ok (with_value (get_output_channels_restriction v w) (\<lambda>r. check (check_is_in_requirements c r t))) \<longleftrightarrow>
      output_channels_allowed (generation v) (dop_output_autopad w) c" for c t
    unfolding tile_output_channels [OF assms(1), symmetric] by (simp add: step_ok_iff with_value_ok split: sum.split)
  have wd: "compute_output_dim (ti_width ?i) (pad_left ?k) (pad_right ?k) (ki_width ?k) (stride_width ?k) =
      (ti_width ?i + pad_left ?k + pad_right ?k - ki_width ?k) div stride_width ?k + 1"
    using assms(4-6) by (intro compute_output_dim_eq) (auto simp: valid_strides_def valid_input_def Let_def)
  have ext: "SOH_H_input_Halo_extension w =
      (if dop_isi_strategy w = SPLIT_OVER_H then ki_height ?k * (of_bool (pad_top ?k = 0) + of_bool (pad_bottom ?k = 0)) else 0)"
    "0 \<le> SOH_H_input_Halo_extension w"
    using assms(4) by (auto simp: SOH_H_input_Halo_extension_def Let_def valid_kernel_def)
  have ht: "compute_output_dim (ti_height ?i + e) (pad_top ?k) (pad_bottom ?k) (ki_height ?k) (stride_height ?k) =
      (ti_height ?i + e + pad_top ?k + pad_bottom ?k - ki_height ?k) div stride_height ?k + 1" if "0 \<le> e" for e
    using that assms(4-6) by (intro compute_output_dim_eq) (auto simp: valid_strides_def valid_input_def Let_def)
  have "batch_allowed (generation v) (ti_batch ?i)"
    using assms(6) by (simp add: valid_input_def Let_def)
  then show ?thesis
    using assms(2,3) ht [of 0] ht [OF ext(2)]
    by (auto simp: output_checks_def Let_def c wd ext(1) step_ok_iff tensor_type_checks_ok get_output_valid_datatypes_def
        tile_batch [OF assms(1)] valid_output_def int_tensor_def)
qed

subsection \<open>Rules of the operations\<close>

lemma skip_check_steps: "honest skip_check" "total_step skip_check" "step_ok skip_check"
  by (simp_all add: honest_def total_step_def step_ok_def skip_check_def)

fun class_of :: "Operation \<Rightarrow> OpClass" where
  "class_of Operation.CONVOLUTION = CONVOLUTION_Constraints"
| "class_of Operation.DW_CONVOLUTION = DW_CONVOLUTION_Constraints"
| "class_of Operation.CM_CONVOLUTION = CM_CONVOLUTION_Constraints"
| "class_of Operation.ELTWISE = ELTWISE_Constraints"
| "class_of Operation.MAXPOOL = MAXPOOL_Constraints"
| "class_of Operation.LAYER_NORM = LAYERNORM_Constraints"
| "class_of Operation.ELTWISE_MUL = ELTWISE_MUL_Constraints"
| "class_of Operation.AVEPOOL = AVGPOOL_Constraints"
| "class_of _ = REDUCE_Constraints"

lemma class_of_operation:
  assumes "get_specific_behaviour v opn = Inr b"
    and "operations_dynamic_behavior v = OperationsBehaviour \<or> operations_dynamic_behavior v = LayerOperationsBehaviour"
  shows "op_class b = class_of opn"
  using assms
  by (cases opn) (auto simp: get_specific_behaviour_def OperationsBehaviour_def LayerOperationsBehaviour_def)

lemma behaviour_total:
  assumes "opn \<noteq> Operation.enum_size"
  obtains b where "get_specific_behaviour v opn = Inr b"
  using assms by (cases opn) (auto simp: get_specific_behaviour_def)

definition sparsity_rule :: "OpClass \<Rightarrow> DPUOperation \<Rightarrow> bool" where
  "sparsity_rule cls w \<longleftrightarrow>
     (let t0 = dop_input_0 w; t1 = dop_input_1 w
      in (\<not> ti_sparsity_enabled t0 \<longrightarrow> ti_sparsity t0 = 0) \<and> (\<not> ti_sparsity_enabled t1 \<longrightarrow> ti_sparsity t1 = 0) \<and>
         (if cls \<in> {ELTWISE_Constraints, ELTWISE_MUL_Constraints} then True
          else if cls \<in> {CONVOLUTION_Constraints, LAYERNORM_Constraints} \<and> dop_mpe_engine w \<noteq> DCIM then True
          else \<not> ti_sparsity_enabled t0 \<and> \<not> ti_sparsity_enabled t1 \<and> ti_sparsity t0 = 0 \<and> ti_sparsity t1 = 0))"

lemma sparsity_rules_ok: "fst (check_sparsity_rules tags b w) \<longleftrightarrow> sparsity_rule (op_class b) w"
proof -
  have conv: "fst (rule_result tags (CONV_sparsity_checks w)) \<longleftrightarrow> sparsity_rule CONVOLUTION_Constraints w"
    by (subst rule_result_ok) (auto simp: CONV_sparsity_checks_def step_ok_iff sparsity_rule_def Let_def)
  have base: "fst (rule_result tags (Base_sparsity_checks w)) \<longleftrightarrow> sparsity_rule MAXPOOL_Constraints w"
    by (subst rule_result_ok) (auto simp: Base_sparsity_checks_def step_ok_iff sparsity_rule_def Let_def)
  have elt: "fst (rule_result tags (ELTWISE_sparsity_checks w)) \<longleftrightarrow> sparsity_rule ELTWISE_Constraints w"
    by (subst rule_result_ok) (auto simp: ELTWISE_sparsity_checks_def step_ok_iff sparsity_rule_def Let_def)
  have lay: "fst (CONV_Layer_check_sparsity_rules tags w) \<longleftrightarrow> sparsity_rule CONVOLUTION_Constraints w"
    unfolding CONV_Layer_check_sparsity_rules_def split_beta Let_def
    by (subst rule_result_ok) (auto simp: step_ok_iff conv)
  have same: "sparsity_rule ELTWISE_MUL_Constraints w \<longleftrightarrow> sparsity_rule ELTWISE_Constraints w"
    "sparsity_rule LAYERNORM_Constraints w \<longleftrightarrow> sparsity_rule CONVOLUTION_Constraints w"
    "cls \<in> {DW_CONVOLUTION_Constraints, CM_CONVOLUTION_Constraints, AVGPOOL_Constraints, REDUCE_Constraints} \<Longrightarrow>
       sparsity_rule cls w \<longleftrightarrow> sparsity_rule MAXPOOL_Constraints w" for cls
    by (auto simp: sparsity_rule_def Let_def)
  show ?thesis
    by (cases b; rename_tac cls; case_tac cls) (simp_all add: conv base elt lay same)
qed

lemma sparsity_checks_ok:
  assumes "op_class b = class_of (dop_operation w)"
  shows "list_all honest (sparsity_checks tags w v b)"
    "list_all step_ok (sparsity_checks tags w v b) \<longleftrightarrow> valid_sparsity w"
proof -
  show "list_all honest (sparsity_checks tags w v b)" by (simp add: sparsity_checks_def Let_def)
  have "sparsity_rule (op_class b) w \<longleftrightarrow>
      (\<not> ti_sparsity_enabled (dop_input_0 w) \<longrightarrow> ti_sparsity (dop_input_0 w) = 0) \<and>
      (\<not> ti_sparsity_enabled (dop_input_1 w) \<longrightarrow> ti_sparsity (dop_input_1 w) = 0) \<and>
      (ti_sparsity_enabled (dop_input_0 w) \<or> ti_sparsity_enabled (dop_input_1 w) \<longrightarrow>
         dop_operation w \<in> {Operation.ELTWISE, Operation.ELTWISE_MUL} \<or>
         dop_operation w \<in> {Operation.CONVOLUTION, Operation.LAYER_NORM} \<and> dop_mpe_engine w \<noteq> DCIM)"
    unfolding assms sparsity_rule_def Let_def by (cases "dop_operation w") auto
  then show "list_all step_ok (sparsity_checks tags w v b) \<longleftrightarrow> valid_sparsity w"
    by (auto simp: sparsity_checks_def Let_def step_ok_iff sparsity_rules_ok valid_sparsity_def not_less)
qed

lemma weights_type_ok:
  "honest (weights_type_check w v)"
  "step_ok (weights_type_check w v) \<longleftrightarrow> allowed (weights_datatypes v) (dop_operation w) (ti_datatype (dop_input_1 w))"
  by (simp_all add: weights_type_check_def get_weights_valid_datatypes_def step_ok_iff)

lemma execution_order_ok:
  "honest (execution_order_check w v)"
  "step_ok (execution_order_check w v) \<longleftrightarrow>
     (vv_level v = WorkloadValidValues \<longrightarrow> allowed (valid_execution_order_map v) (dop_operation w) (dop_execution_order w))"
  by (simp_all add: execution_order_check_def get_valid_execution_order_def mustExecuteHWLowLevelChecks_def step_ok_iff)

lemma halo_rule_ok: "fst (check_halo tags w) \<longleftrightarrow> valid_halo w"
  unfolding check_halo_def
  by (subst rule_result_ok) (auto simp: halo_checks_def Let_def step_ok_iff valid_halo_def not_less)

text \<open>
  The rule on the tensors of an operation. The coupling of the channels under autopad is never checked: no device overrides
  \<open>has_autopad_channel_coupling\<close>. The rule of the reductions is of no use, no device has them.
\<close>

lemma tensor_rule_ok:
  assumes "op_class b = class_of (dop_operation w)" "int_tensor (dop_input_0 w)" "int_tensor (dop_output_0 w)"
    and "dop_operation w \<notin> {Operation.REDUCE_MS, Operation.REDUCE_SUMSQUARES, Operation.enum_size}"
  shows "fst (check_input_output_tensor_corelation tags b v w) \<longleftrightarrow> valid_channels w"
proof -
  have s: "honest (same_channels_check v w c) \<and> total_step (same_channels_check v w c) \<and>
      (step_ok (same_channels_check v w c) \<longleftrightarrow>
       ((dop_output_autopad w \<longrightarrow> dop_input_autopad w) \<longrightarrow> ti_channels (dop_output_0 w) = ti_channels (dop_input_0 w)))" for c
    using assms(2,3)
    by (auto simp: same_channels_check_def has_autopad_channel_coupling_def check_when_def skip_check_steps step_ok_iff
        int_tensor_def)
  show ?thesis
    unfolding check_input_output_tensor_corelation_def assms(1)
    using assms(4) s
    by (subst rule_result_ok; cases "dop_operation w") (auto simp: valid_channels_def)
qed

subsection \<open>The whole validation of an operation\<close>

lemma workload_checks_ok:
  assumes "v \<in> set tile_contexts" "dop_operation w \<in> set (valid_operations v)"
    and "get_specific_behaviour v (dop_operation w) = Inr b" "int_tensor (dop_input_0 w)" "int_tensor (dop_output_0 w)"
  shows "list_all honest (workload_checks tags w v b)"
    "list_all step_ok (workload_checks tags w v b) \<longleftrightarrow> valid_dpu_operation v w"
proof -
  have cls: "op_class b = class_of (dop_operation w)"
    using class_of_operation [OF assms(3)] tile_behaviour [OF assms(1)] by simp
  have ops: "dop_operation w \<notin> {Operation.REDUCE_MS, Operation.REDUCE_SUMSQUARES, Operation.enum_size}"
    using assms(1,2) by (cases v rule: tile_contexts_cases) (auto simp: device_operations)
  show "list_all honest (workload_checks tags w v b)"
    by (simp add: workload_checks_def identity_checks_ok [OF assms(3)] input_checks_honest output_checks_honest
        sparsity_checks_ok [OF cls] weights_type_ok execution_order_ok)
  have "list_all step_ok (workload_checks tags w v b) \<longleftrightarrow>
      valid_identity v w \<and> (step_ok (kernel_checks w v b) \<and> step_ok (padding_checks w v)) \<and> valid_strides w \<and>
      list_all step_ok (input_checks w v) \<and> list_all step_ok (output_checks w v) \<and>
      allowed (weights_datatypes v) (dop_operation w) (ti_datatype (dop_input_1 w)) \<and> valid_sparsity w \<and>
      (vv_level v = WorkloadValidValues \<longrightarrow> allowed (valid_execution_order_map v) (dop_operation w) (dop_execution_order w)) \<and>
      valid_channels w \<and> valid_halo w"
    by (auto simp: workload_checks_def identity_checks_ok [OF assms(3)] stride_checks_ok sparsity_checks_ok [OF cls]
        weights_type_ok execution_order_ok step_ok_iff halo_rule_ok tensor_rule_ok [OF cls assms(4,5) ops])
  also have "\<dots> \<longleftrightarrow> valid_dpu_operation v w"
    unfolding kernel_padding_ok input_checks_ok [OF assms(1,2,4)] valid_dpu_operation_def
    using output_checks_ok [OF assms(1,4,5)] by blast
  finally show "list_all step_ok (workload_checks tags w v b) \<longleftrightarrow> valid_dpu_operation v w" .
qed

lemma error_codes_differ [simp]:
  "ERROR_INVALID_INPUT_CONFIGURATION \<noteq> NO_ERROR" "ERROR_INPUT_TOO_BIG \<noteq> NO_ERROR"
  "ERROR_INVALID_INPUT_DEVICE \<noteq> NO_ERROR" "ERROR_INVALID_INPUT_OPERATION \<noteq> NO_ERROR"
  "ERROR_INVALID_LAYER_CONFIGURATION \<noteq> NO_ERROR"
  by (simp_all add: ERROR_INVALID_INPUT_CONFIGURATION_def ERROR_INPUT_TOO_BIG_def ERROR_INVALID_INPUT_DEVICE_def
      ERROR_INVALID_INPUT_OPERATION_def ERROR_INVALID_LAYER_CONFIGURATION_def NO_ERROR_def MaxV_def)

lemma check_workload_consistency_usable:
  assumes "v \<in> set tile_contexts" "dop_operation w \<in> set (valid_operations v)"
    and "get_specific_behaviour v (dop_operation w) = Inr b" "int_tensor (dop_input_0 w)" "int_tensor (dop_output_0 w)"
  shows "is_usable (check_workload_consistency tags w v b r) \<longleftrightarrow> valid_dpu_operation v w"
  using try_checks_clean [OF workload_checks_ok(1) [OF assms], of tags tags] workload_checks_ok(2) [OF assms, of tags]
  by (simp add: check_workload_consistency_def Let_def is_usable_def resetOK_def mark_invalid_DPU_workload_def)

end
