(* ===== verification/Validation_Props.thy ===== *)
theory Validation_Props
  imports Validation_Spec
begin

text \<open>
  The entry points of the validation: what \<open>check_data_consistency\<close> accepts, which code \<open>check_and_sanitize\<close> returns, that
  sanitising twice changes nothing, how the CMX need of a valid workload is rounded, and that the validation never aborts on an
  exception.
\<close>

section \<open>Lookups by device\<close>

lemma get_config_cases:
  assumes "is_supported ctx d"
  obtains v where "get_config ctx d = Inr v" "v \<in> set ctx" "d \<in> set (devices v)"
proof -
  from assms obtain v0 where "v0 \<in> set ctx" "d \<in> set (devices v0)"
    by (auto simp: is_supported_def list_ex_iff)
  then obtain v where v: "List.find (\<lambda>config. List.member (devices config) d) ctx = Some v"
    by (cases "List.find (\<lambda>config. List.member (devices config) d) ctx") (auto simp: find_None_iff)
  then have "v \<in> set ctx" "d \<in> set (devices v)"
    by (auto simp: find_Some_iff)
  then show ?thesis using that v by (simp add: get_config_def)
qed

lemma get_config_unsupported: "\<not> is_supported ctx d \<Longrightarrow> \<exists>e. get_config ctx d = Inl e"
proof -
  assume "\<not> is_supported ctx d"
  then have "List.find (\<lambda>config. List.member (devices config) d) ctx = None"
    by (auto simp: is_supported_def list_ex_iff find_None_iff)
  then show ?thesis by (auto simp: get_config_def split: option.split)
qed

lemma as_int_to_int [simp]: "as_int (to_int (u :: u32)) = to_int u"
  using sint_ge [of u] sint_lt [of u] by (intro as_int_id) simp_all

lemma tensor_of_workload [simp]:
  "int_tensor (dop_input_0 (DPUOperation_of wl))" "int_tensor (dop_output_0 (DPUOperation_of wl))"
  "dop_operation (DPUOperation_of wl) = op wl" "dop_device (DPUOperation_of wl) = device wl"
  "dop_mpe_engine (DPUOperation_of wl) = mpe_engine wl"
  by (simp_all add: DPUOperation_of_def Let_def int_tensor_def TensorInfo_of_def default_TensorInfo_def)

lemma DPUOperation_with_total:
  assumes "v \<in> set tile_contexts" "op wl \<in> set (valid_operations v)"
  obtains w b where "DPUOperation_with wl v = Inr w" "get_specific_behaviour v (op wl) = Inr b"
    "dop_operation w = op wl" "dop_device w = device wl" "dop_mpe_engine w = mpe_engine wl"
    "int_tensor (dop_input_0 w)" "int_tensor (dop_output_0 w)"
proof -
  have "op wl \<noteq> Operation.enum_size"
    using assms by (cases v rule: tile_contexts_cases) (auto simp: device_operations)
  then obtain b where b: "get_specific_behaviour v (op wl) = Inr b" by (rule behaviour_total)
  have w: "DPUOperation_with wl v = Inr ((DPUOperation_of wl)\<lparr>dop_input_1 :=
      deduce_input_1_shape_and_layout (op_class b) (dop_input_0 (DPUOperation_of wl)) (dop_output_0 (DPUOperation_of wl)) v
        (dop_kernel (DPUOperation_of wl)) (dop_input_1 (DPUOperation_of wl))\<rparr>)"
    by (simp add: DPUOperation_with_def Let_def b)
  show ?thesis
    by (rule that [OF w b]) simp_all
qed

section \<open>What is accepted\<close>

definition valid_workload :: "DPUWorkload \<Rightarrow> bool" where
  "valid_workload wl \<longleftrightarrow>
     (case bind_result (get_config OperationsContext (device wl)) (\<lambda>v.
             bind_result (DPUOperation_with wl v) (\<lambda>w. Inr (v, w))) of
        Inl _ \<Rightarrow> False | Inr (v, w) \<Rightarrow> valid_dpu_operation v w)"

lemma workload_contexts: "v \<in> set OperationsContext \<Longrightarrow> v \<in> set tile_contexts"
  by (simp add: tile_contexts_def)

lemma reset_usable [simp]: "is_usable (resetOK r)"
  by (simp add: is_usable_def resetOK_def)

lemma marked_not_usable [simp]:
  "\<not> is_usable (mark_unknown_device r)" "\<not> is_usable (mark_unknown_operation r)"
  "\<not> is_usable ((mark_invalid_DPU_workload r)\<lparr>info := t\<rparr>)" "\<not> is_usable ((mark_size_too_big r)\<lparr>info := t\<rparr>)"
  by (simp_all add: is_usable_def mark_unknown_device_def mark_unknown_operation_def mark_invalid_DPU_workload_def
      mark_size_too_big_def)

text \<open>
  C18. The validation of a workload decides exactly the stated conditions. On every workload, whatever its field values,
  \<open>check_data_consistency\<close> ends with a report and no exception escapes; the report is usable exactly when the device is known and
  the operation made from the workload meets \<open>valid_dpu_operation\<close>: kernel, padding and stride limits, tensor sizes that the kernel
  fits in, the channels, batches, types, layouts and swizzlings of the device, the output size that follows from the input,
  and the rules on sparsity, channels and halo.
\<close>

theorem check_data_consistency_exact:
  "\<exists>rep. check_data_consistency tags wl r = Inr rep \<and> (is_usable rep \<longleftrightarrow> valid_workload wl)"
proof (cases "is_supported OperationsContext (device wl)")
  case False
  then obtain e where "get_config OperationsContext (device wl) = Inl e"
    using get_config_unsupported by blast
  then show ?thesis using False by (simp add: check_data_consistency_def valid_workload_def)
next
  case True
  then obtain v where v: "get_config OperationsContext (device wl) = Inr v" "v \<in> set tile_contexts"
    by (metis get_config_cases workload_contexts)
  note d = check_data_consistency_def valid_workload_def is_valid_operation_def is_valid_engine_def contains_value_def
  show ?thesis
  proof (cases "op wl \<in> set (valid_operations v)")
    case o1: True
    obtain w b where w: "DPUOperation_with wl v = Inr w" "get_specific_behaviour v (op wl) = Inr b"
      "dop_operation w = op wl" "dop_mpe_engine w = mpe_engine wl" "int_tensor (dop_input_0 w)" "int_tensor (dop_output_0 w)"
      by (metis DPUOperation_with_total [OF v(2) o1])
    have "is_usable (check_workload_consistency tags w v b rp) \<longleftrightarrow> valid_dpu_operation v w" for rp
      using check_workload_consistency_usable [OF v(2), of w b tags rp] w o1 by simp
    moreover have "mpe_engine wl \<in> set (valid_mpe_engines v)" if "valid_dpu_operation v w"
      using that w(4) by (simp add: valid_dpu_operation_def valid_identity_def)
    ultimately show ?thesis using True v w o1 by (auto simp: d Let_def catch_runtime_error_def)
  next
    case False
    then have "\<not> valid_workload wl"
      using v by (auto simp: valid_workload_def DPUOperation_with_def Let_def valid_dpu_operation_def valid_identity_def
          bind_result_def split: sum.splits)
    then show ?thesis using True v False by (simp add: d Let_def)
  qed
qed

section \<open>The code that is returned\<close>

text \<open>The verdict on a workload, condition by condition in the order of the code.\<close>

definition sanitation_verdict :: "IDeviceValidValues \<Rightarrow> DPUWorkload \<Rightarrow> CyclesInterfaceType" where
  "sanitation_verdict v wl =
     (if op wl \<notin> set (valid_operations v) then ERROR_INVALID_INPUT_OPERATION
      else if mpe_engine wl \<notin> set (valid_mpe_engines v) then ERROR_INVALID_INPUT_CONFIGURATION
      else
        case DPUOperation_with (sanitize_workload v wl) v of
          Inl _ \<Rightarrow> ERROR_INVALID_INPUT_OPERATION
        | Inr w \<Rightarrow>
            (case compute_memory True w v of
               Inl _ \<Rightarrow> ERROR_INVALID_INPUT_OPERATION
             | Inr m \<Rightarrow>
                 if get_cmx_size v (device wl) < mem_cmx m then ERROR_INPUT_TOO_BIG
                 else if valid_dpu_operation v w then NO_ERROR else ERROR_INVALID_INPUT_CONFIGURATION))"

lemma sanitize_workload_keeps [simp]:
  "op (sanitize_workload v wl) = op wl" "device (sanitize_workload v wl) = device wl"
  "mpe_engine (sanitize_workload v wl) = mpe_engine wl"
  by (simp_all add: sanitize_workload_def Let_def)

lemma check_workload_consistency_code:
  "abnormal_return (check_workload_consistency tags w v b r) =
     (if is_usable (check_workload_consistency tags w v b r) then NO_ERROR else ERROR_INVALID_INPUT_CONFIGURATION)"
  by (simp add: check_workload_consistency_def Let_def is_usable_def mark_invalid_DPU_workload_def resetOK_def)

lemma compute_memory_total:
  assumes "get_specific_behaviour v (dop_operation w) = Inr b"
  obtains m where "compute_memory ignore w v = Inr m"
  using assms that by (auto simp: compute_memory_def Let_def)

lemma check_and_sanitize_result:
  "\<exists>wl' rep. check_and_sanitize tags wl r = Inr (wl', rep) \<and>
     (case get_config OperationsContext (device wl) of
        Inl _ \<Rightarrow> wl' = wl \<and> abnormal_return rep = ERROR_INVALID_INPUT_DEVICE
      | Inr v \<Rightarrow>
          wl' = (if op wl \<in> set (valid_operations v) \<and> mpe_engine wl \<in> set (valid_mpe_engines v)
                 then sanitize_workload v wl else wl) \<and>
          abnormal_return rep = sanitation_verdict v wl)"
proof (cases "is_supported OperationsContext (device wl)")
  case False
  then obtain e where "get_config OperationsContext (device wl) = Inl e"
    using get_config_unsupported by blast
  then show ?thesis using False by (simp add: check_and_sanitize_def Let_def mark_unknown_device_def)
next
  case True
  then obtain v where v: "get_config OperationsContext (device wl) = Inr v" "v \<in> set tile_contexts"
    by (metis get_config_cases workload_contexts)
  let ?s = "sanitize_workload v wl"
  note d = check_and_sanitize_def sanitation_verdict_def is_valid_operation_def is_valid_engine_def contains_value_def
    mark_unknown_operation_def mark_invalid_DPU_workload_def
  show ?thesis
  proof (cases "op wl \<in> set (valid_operations v) \<and> mpe_engine wl \<in> set (valid_mpe_engines v)")
    case k: True
    then have o1: "op ?s \<in> set (valid_operations v)" by simp
    obtain w b where w: "DPUOperation_with ?s v = Inr w" "get_specific_behaviour v (op wl) = Inr b"
      "dop_operation w = op wl" "int_tensor (dop_input_0 w)" "int_tensor (dop_output_0 w)"
      by (metis DPUOperation_with_total [OF v(2) o1] sanitize_workload_keeps(1))
    obtain m where m: "compute_memory True w v = Inr m"
      using compute_memory_total [of v w b True] w(2,3) by auto
    have c: "is_usable (check_workload_consistency tags w v b rp) \<longleftrightarrow> valid_dpu_operation v w" for rp
      using check_workload_consistency_usable [OF v(2), of w b tags rp] w k by simp
    show ?thesis
      using True v k w(1,2) m
      by (simp add: d Let_def memory_and_consistency_def catch_runtime_error_def ignore_cmx_overhead_default_def
          check_workload_consistency_code c mark_size_too_big_def)
  next
    case False
    then show ?thesis using True v by (auto simp: d Let_def)
  qed
qed

text \<open>
  C19. The code \<open>check_and_sanitize\<close> returns, for every workload: unknown device, unknown operation, unsupported engine, too big
  for the CMX of the device, invalid configuration or no error, decided in that order on the sanitised workload; the workload
  is sanitised exactly when device, operation and engine are known, and no exception escapes.
\<close>

theorem check_and_sanitize_verdict:
  "\<exists>wl' rep. check_and_sanitize tags wl r = Inr (wl', rep) \<and>
     (case get_config OperationsContext (device wl) of
        Inl _ \<Rightarrow> wl' = wl \<and> abnormal_return rep = ERROR_INVALID_INPUT_DEVICE
      | Inr v \<Rightarrow>
          wl' = (if op wl \<in> set (valid_operations v) \<and> mpe_engine wl \<in> set (valid_mpe_engines v)
                 then sanitize_workload v wl else wl) \<and>
          abnormal_return rep = sanitation_verdict v wl)"
  by (rule check_and_sanitize_result)

section \<open>Sanitising twice\<close>

lemma restrict_datatype_idem [simp]: "restrict_datatype (restrict_datatype dt) = restrict_datatype dt"
  by (cases dt) (simp_all add: restrict_datatype_def datatypes_pair_and_default_def)

lemma change_datatype_idem:
  "fst (change_datatype_superficial (restrict_datatype (dtype (fst (change_datatype_superficial (restrict_datatype (dtype t)) t))))
      (fst (change_datatype_superficial (restrict_datatype (dtype t)) t))) =
   fst (change_datatype_superficial (restrict_datatype (dtype t)) t)"
  by (simp add: change_datatype_superficial_def Let_def)

lemma adapt_layout_idem [simp]:
  "adapt_device_comaptible_tensor_layout v (adapt_device_comaptible_tensor_layout v l) = adapt_device_comaptible_tensor_layout v l"
  by (simp add: adapt_device_comaptible_tensor_layout_def VPU2_0_adapt_device_comaptible_tensor_layout_def
      VPU2_7_adapt_device_comaptible_tensor_layout_def split: Generation.split)

lemma set_layout_idem:
  "fst (set_if_same_layout (adapt_device_comaptible_tensor_layout v (layout (fst (set_if_same_layout
        (adapt_device_comaptible_tensor_layout v (layout t)) t))))
      (fst (set_if_same_layout (adapt_device_comaptible_tensor_layout v (layout t)) t))) =
   fst (set_if_same_layout (adapt_device_comaptible_tensor_layout v (layout t)) t)"
  by (simp add: set_if_same_layout_def Let_def)

lemma adapt_swizzling_idem [simp]:
  "adapt_device_comaptible_swizzling v (adapt_device_comaptible_swizzling v s) = adapt_device_comaptible_swizzling v s"
  by (simp add: adapt_device_comaptible_swizzling_def split: Generation.split)

text \<open>Adapting the data type and the layout of a tensor touch different fields.\<close>

definition sanitize_tensor :: "IDeviceValidValues \<Rightarrow> VPUTensor \<Rightarrow> VPUTensor" where
  "sanitize_tensor v t =
     (let t1 = fst (change_datatype_superficial (restrict_datatype (dtype t)) t)
      in fst (set_if_same_layout (adapt_device_comaptible_tensor_layout v (layout t1)) t1))"

lemma sanitize_tensor_idem: "sanitize_tensor v (sanitize_tensor v t) = sanitize_tensor v t"
proof -
  have dt: "dtype (fst (set_if_same_layout l t)) = dtype t" for l t by (simp add: set_if_same_layout_def Let_def)
  have cs: "fst (change_datatype_superficial d (fst (set_if_same_layout l t))) =
      fst (set_if_same_layout l (fst (change_datatype_superficial d t)))" for d l t
    by (simp add: set_if_same_layout_def change_datatype_superficial_def Let_def)
  show ?thesis
    unfolding sanitize_tensor_def Let_def dt cs change_datatype_idem set_layout_idem ..
qed

lemma sanitize_workload_tensors:
  "sanitize_workload v wl =
     wl\<lparr>inputs_0 := sanitize_tensor v (inputs_0 wl), outputs_0 := sanitize_tensor v (outputs_0 wl),
        input_swizzling_0 := adapt_device_comaptible_swizzling v (input_swizzling_0 wl),
        input_swizzling_1 := adapt_device_comaptible_swizzling v (input_swizzling_1 wl),
        output_swizzling_0 := adapt_device_comaptible_swizzling v (output_swizzling_0 wl)\<rparr>"
  by (simp add: sanitize_workload_def sanitize_tensor_def Let_def)

lemma sanitize_workload_idem: "sanitize_workload v (sanitize_workload v wl) = sanitize_workload v wl"
  by (simp add: sanitize_workload_tensors sanitize_tensor_idem)

lemma resetOK_new: "resetOK r = new_SanityReport"
  by (cases r) (simp add: resetOK_def new_SanityReport_def)

text \<open>
  C32. Sanitising is idempotent: checking the sanitised workload again returns the same workload with the same report, so a
  workload that was sanitised once can be cached and priced under its sanitised form.
\<close>

theorem check_and_sanitize_idempotent:
  "bind_result (check_and_sanitize tags wl r) (\<lambda>(wl', _). check_and_sanitize tags wl' r') = check_and_sanitize tags wl r"
proof (cases "is_supported OperationsContext (device wl)")
  case False
  then show ?thesis by (simp add: check_and_sanitize_def Let_def resetOK_new)
next
  case sup: True
  then obtain v where v: "get_config OperationsContext (device wl) = Inr v" by (metis get_config_cases)
  show ?thesis
  proof (cases "is_valid_operation v (op wl) \<and> is_valid_engine v (mpe_engine wl)")
    case True
    have e: "check_and_sanitize tags (sanitize_workload v wl) r' = check_and_sanitize tags wl r"
      using v True sup by (simp add: check_and_sanitize_def Let_def sanitize_workload_idem resetOK_new)
    have "\<exists>rep. check_and_sanitize tags wl r = Inr (sanitize_workload v wl, rep) \<or> (\<exists>x. check_and_sanitize tags wl r = Inl x)"
      using v True sup
      by (auto simp: check_and_sanitize_def Let_def bind_result_def split: sum.splits)
    then show ?thesis using e by auto
  next
    case False
    then show ?thesis using v sup by (auto simp: check_and_sanitize_def Let_def resetOK_new)
  qed
qed

section \<open>No check aborts\<close>

lemma with_value_total:
  assumes "r = Inr x" "total_step (f x)"
  shows "total_step (with_value r f)"
  using assms by simp

lemma map_at_total: "opn \<in> fst ` set m \<Longrightarrow> \<exists>x. map_at m opn = Inr x"
  by (auto simp: map_at_def dest: weak_map_of_SomeI)

definition tables_complete :: "IDeviceValidValues \<Rightarrow> bool" where
  "tables_complete v \<longleftrightarrow>
     list_all (\<lambda>opn. list_all (\<lambda>m. opn \<in> fst ` set m) [input_datatypes v, output_datatypes v, weights_datatypes v] \<and>
       opn \<in> fst ` set (valid_execution_order_map v) \<and> opn \<in> fst ` set (input_channels_restrictions v) \<and>
       opn \<noteq> Operation.enum_size) (valid_operations v)"

lemma tile_tables_complete: "v \<in> set tile_contexts \<Longrightarrow> tables_complete v"
  by (cases v rule: tile_contexts_cases)
    (auto simp: tables_complete_def same_for_def device_operations channel_tables VPU5_0_valid_execution_order_map_def)

lemma with_Inr_total: "(\<exists>x. r = Inr x) \<Longrightarrow> (\<And>x. total_step (f x)) \<Longrightarrow> total_step (with_value r f)"
  by auto

text \<open>
  C33. The checks of a valid operation are well typed: every table they look up has a row for the operation, every channel rule
  exists, and every list of options can be built, so that no check ends the run on an exception and each finding of the checker comes
  from a failed check. Only the kernel dimensions are assumed not to be negative.
\<close>

theorem workload_checks_never_throw:
  assumes "v \<in> set tile_contexts" "dop_operation w \<in> set (valid_operations v)"
    and "0 \<le> ki_width (dop_kernel w)" "0 \<le> ki_height (dop_kernel w)"
  shows "snd (run_checks (workload_checks tags w v b) c) = None"
proof -
  have t: "\<exists>x. map_at (input_datatypes v) (dop_operation w) = Inr x" "\<exists>x. map_at (output_datatypes v) (dop_operation w) = Inr x"
    "\<exists>x. map_at (weights_datatypes v) (dop_operation w) = Inr x"
    "\<exists>x. map_at (valid_execution_order_map v) (dop_operation w) = Inr x"
    using tile_tables_complete [OF assms(1)] assms(2)
    by (auto simp: tables_complete_def list_all_iff intro!: map_at_total)
  have o1: "dop_operation w \<noteq> Operation.enum_size"
    using tile_tables_complete [OF assms(1)] assms(2) by (auto simp: tables_complete_def list_all_iff)
  then have isi: "\<exists>x. get_ISI_Strategy_Range v w = Inr x"
    by (metis (no_types, lifting) bind_result_simps(2) behaviour_total get_ISI_Strategy_Range_def
        base_get_ISI_Strategy_Range_def layer_get_ISI_Strategy_Range_def)
  have ich: "\<exists>x. get_input_channels_restriction v w = Inr x"
    using tile_input_channels [OF assms(1,2), where c = "if dop_operation w = Operation.CM_CONVOLUTION then 1 else 16"]
    by (cases "get_input_channels_restriction v w")
      (auto simp: input_channels_allowed_def plain_channels_def multiple_of_16_def split: if_splits)
  have och: "\<exists>x. get_output_channels_restriction v w = Inr x"
    using tile_output_channels [OF assms(1), where w = w and c = 16]
    by (cases "get_output_channels_restriction v w") (auto simp: output_channels_allowed_def multiple_of_16_def)
  have pads: "\<exists>x. get_pad_horz_range v w = Inr x" "\<exists>x. get_pad_vert_range v w = Inr x"
    using assms(3,4) by (simp_all add: get_pad_horz_range_def get_pad_vert_range_def get_padMax_def makeList_ok sdiv_nonneg)
  have rest: "\<exists>x. get_kernel_range v w = Inr x" "\<exists>x. get_dpu_strides_range v w = Inr x"
    by (simp_all add: get_kernel_range_def get_dpu_strides_range_def makeList_ok get_maximum_kernel_size_def
        get_maximum_kernel_stride_def kernel_max_def stride_max_def Let_def)
  note w = with_Inr_total
  have "list_all total_step (workload_checks tags w v b)"
    using t isi ich och pads rest
    by (auto simp: workload_checks_def identity_checks_def kernel_checks_def padding_checks_def input_checks_def
        stride_checks_def output_checks_def weights_type_check_def sparsity_checks_def execution_order_check_def
        tensor_type_checks_def get_input_valid_datatypes_def get_output_valid_datatypes_def get_weights_valid_datatypes_def
        get_valid_execution_order_def rule_check_def Let_def intro!: check_when_total)
  then show ?thesis using total_run by (metis total_step_def)
qed

section \<open>A workload of the samples\<close>

definition sample_workload :: DPUWorkload where
  "sample_workload =
     new_DPUWorkload VPU_4_0 Operation.CONVOLUTION (mk_VPUTensor 15 15 64 1 UINT8 ZXY False)
       (mk_VPUTensor 15 15 80 1 UINT8 ZXY False) \<lparr>gridW = 3, gridH = 3\<rparr> \<lparr>gridW = 1, gridH = 1\<rparr>
       \<lparr>padTOP = 1, padBOTTOM = 1, padLEFT = 1, padRIGHT = 1\<rparr> CUBOID_16x16"

definition sample_config :: IDeviceValidValues where
  "sample_config = VPU4_0_WorkloadValidValues OperationsBehaviour"

lemma sample_config_values:
  "sample_config = VPU4_0_values OperationsBehaviour WorkloadValidValues 1 VPU4_0_input_channels_restrictions"
  by (simp add: sample_config_def VPU4_0_WorkloadValidValues_def)

lemma sample_config_in [simp]: "sample_config \<in> set tile_contexts"
  by (simp add: sample_config_def tile_contexts_def OperationsContext_def)

definition sample_operation :: DPUOperation where
  "sample_operation =
     (let d = DPUOperation_of sample_workload
      in d\<lparr>dop_input_1 := CONV_deduce_input_1 (dop_input_0 d) (dop_output_0 d) sample_config (dop_kernel d) (dop_input_1 d)\<rparr>)"

lemma sample_behaviour: "get_specific_behaviour sample_config Operation.CONVOLUTION = Inr (Workload_Class CONVOLUTION_Constraints)"
  by (simp add: get_specific_behaviour_def sample_config_values OperationsBehaviour_def)

lemma sample_operation_made: "DPUOperation_with sample_workload sample_config = Inr sample_operation"
proof -
  have "op sample_workload = Operation.CONVOLUTION" by (simp add: sample_workload_def new_DPUWorkload_def)
  then show ?thesis by (simp add: DPUOperation_with_def Let_def sample_behaviour sample_operation_def)
qed

lemma sample_operation_fields:
  "dop_operation sample_operation = Operation.CONVOLUTION" "ki_width (dop_kernel sample_operation) = 3"
  "ki_height (dop_kernel sample_operation) = 3"
  by (simp_all add: sample_operation_def Let_def DPUOperation_of_def KernelInfo_of_def sample_workload_def new_DPUWorkload_def)

theorem workload_checks_never_throw_witness:
  "snd (run_checks (workload_checks True sample_operation sample_config (Workload_Class CONVOLUTION_Constraints))
      (new_Checker True)) = None"
  by (rule workload_checks_never_throw [OF sample_config_in])
    (simp_all add: sample_operation_fields sample_config_values device_operations VPU4_0_valid_operations_def)

lemma sample_get_config: "get_config OperationsContext VPU_4_0 = Inr sample_config"
  by (simp add: get_config_def OperationsContext_def workload_values sample_config_def)

lemmas sample_defs = sample_operation_def DPUOperation_of_def KernelInfo_of_def sample_workload_def new_DPUWorkload_def
  mk_VPUTensor_def mk_shape_def TensorInfo_of_def default_TensorInfo_def height_def width_def tx_def ty_def tz_def tb_def
  CONV_deduce_input_1_def default_HaloWorkload_def no_halo_def default_SEPModeInfo_def

lemma sample_valid: "valid_dpu_operation sample_config sample_operation"
  unfolding valid_dpu_operation_def
  by (intro conjI)
    (simp_all add: valid_identity_def valid_kernel_def valid_strides_def valid_input_def valid_output_def valid_types_def
      valid_sparsity_def valid_channels_def valid_halo_def allowed_def sample_config_values sample_defs Let_def
      device_operations VPU4_0_valid_operations_def input_channels_allowed_def plain_channels_def multiple_of_16_def
      batch_allowed_def max_limit_def same_for_def VPU4_0_valid_in_datatypes_def VPU4_0_valid_out_datatypes_def
      VPU4_0_valid_wt_datatypes_def all_layouts_def all_swizzlings_def default_init_swizzling_def output_channels_allowed_def
      cuboid_execution_order_all_def isAllPositive_def value_or_def)

text \<open>The sample is valid, so the conditions can be met.\<close>

lemma sample_workload_valid: "valid_workload sample_workload"
proof -
  have "device sample_workload = VPU_4_0" by (simp add: sample_workload_def new_DPUWorkload_def)
  then show ?thesis
    by (simp add: valid_workload_def sample_get_config sample_operation_made sample_valid)
qed

section \<open>Memory\<close>

text \<open>\<open>page_cover p x y\<close>: \<open>y\<close> is the least multiple of \<open>p\<close> that is not below \<open>x\<close>.\<close>

definition page_cover :: "int \<Rightarrow> int \<Rightarrow> int \<Rightarrow> bool" where
  "page_cover p x y \<longleftrightarrow> p dvd y \<and> x \<le> y \<and> y < x + p"

lemma align_to_cover:
  assumes "0 \<le> x" "0 < p"
  shows "page_cover p x (align_to x p)"
proof (cases "x mod p = 0")
  case True
  then show ?thesis using assms by (simp add: page_cover_def align_to_def smod_nonneg mod_0_imp_dvd)
next
  case False
  have e: "x + (p - x mod p) = (x div p + 1) * p"
    by (simp add: algebra_simps minus_mod_eq_div_mult [symmetric])
  have "0 < x mod p" "x mod p \<le> p"
    using False assms(2) pos_mod_sign [of p x] pos_mod_bound [of p x] by linarith+
  moreover have "p dvd x + (p - x mod p)" unfolding e by simp
  ultimately show ?thesis using False assms by (simp add: page_cover_def align_to_def smod_nonneg)
qed

lemma align_to_nonneg: "0 \<le> x \<Longrightarrow> 0 < p \<Longrightarrow> 0 \<le> align_to x p"
  using align_to_cover [of x p] by (simp add: page_cover_def)

definition nonneg_tensor :: "TensorInfo \<Rightarrow> bool" where
  "nonneg_tensor t \<longleftrightarrow> 0 \<le> ti_height t \<and> 0 \<le> ti_width t \<and> 0 \<le> ti_channels t \<and> 0 \<le> ti_batch t"

lemma tile_positive:
  "v \<in> set tile_contexts \<Longrightarrow> 0 < alignement_size_bytes v \<and> 0 < weigths_alignment_B v \<and> 0 < out_innermost_dim_alignment_B v"
  by (cases v rule: tile_contexts_cases) auto

lemma tensor_bytes_nonneg:
  "0 \<le> get_tensor_innermost_dim_B t" "nonneg_tensor t \<Longrightarrow> 0 \<le> numberOfElementsExcludingInnermost t"
  by (simp_all add: get_tensor_innermost_dim_B_def Let_def numberOfElementsExcludingInnermost_def nonneg_tensor_def
      split: Act.split)

lemma dense_nonneg:
  "nonneg_tensor t \<Longrightarrow> nonneg_tensor (compute_dense_input_memory_tensor t h)"
  "nonneg_tensor t \<Longrightarrow> nonneg_tensor (compute_dense_output_memory_tensor t h)"
  by (simp_all add: nonneg_tensor_def compute_dense_input_memory_tensor_def compute_dense_output_memory_tensor_def Let_def
      newDimension_def newDimensionWithInbound_def split_beta)

lemma map_bytes_nonneg: "0 \<le> n \<Longrightarrow> 0 \<le> align_to (n sdiv 8) 16"
  by (rule align_to_nonneg) (simp_all add: sdiv_nonneg)

lemma input_0_nonneg:
  assumes "nonneg_tensor (dop_input_0 w)" "nonneg_tensor (dop_input_0_memory_dense w)"
  shows "0 \<le> input_0_contiguous_size_bytes b v w"
proof -
  have "0 \<le> input_0_volume b (dop_input_0 w)"
    using assms(1) by (simp add: input_0_volume_def CM_input_0_volume_def tensor_volume_def Let_def nonneg_tensor_def)
  note m = map_bytes_nonneg [OF this]
  have s: "nonneg_tensor (t\<lparr>ti_width := uint a, ti_height := uint b, ti_channels := uint c, ti_batch := uint d\<rparr>)" for t and a b c d :: u32
    by (simp add: nonneg_tensor_def)
  show ?thesis
    unfolding input_0_contiguous_size_bytes_def Let_def pointer_size_def
    using m assms(2) s by (intro add_nonneg_nonneg mult_nonneg_nonneg tensor_bytes_nonneg) (simp_all add: tensor_bytes_nonneg)
qed

lemma output_0_nonneg:
  assumes "nonneg_tensor (dop_output_0_memory_dense w)" "0 < out_innermost_dim_alignment_B v"
  shows "0 \<le> output_0_contiguous_size_bytes v w"
proof -
  have "0 \<le> numberOfElements (dop_output_0_memory_dense w)"
    using assms(1) by (simp add: numberOfElements_def nonneg_tensor_def)
  note m = map_bytes_nonneg [OF this]
  show ?thesis
    unfolding output_0_contiguous_size_bytes_def Let_def get_specific_out_innermost_dim_alignment_B_def
    using m assms by (intro add_nonneg_nonneg mult_nonneg_nonneg tensor_bytes_nonneg)
      (simp_all add: tensor_bytes_nonneg align_to_nonneg)
qed

lemma deduced_nonneg:
  assumes "nonneg_tensor in_0" "nonneg_tensor out_0" "0 \<le> ki_width k" "0 \<le> ki_height k" "0 < weigths_alignment_B v"
  shows "nonneg_tensor (deduce_input_1_shape_and_layout cls in_0 out_0 v k w)"
proof -
  have a: "0 \<le> align_to x m" if "0 \<le> x" "0 < m" for x m using that by (rule align_to_nonneg)
  have k: "0 \<le> ti_channels in_0 * ki_height k * ki_width k" "0 \<le> ki_height k * ki_width k"
    using assms by (simp_all add: nonneg_tensor_def)
  have "nonneg_tensor (CONV_deduce_input_1 in_0 out_0 v k w)" "nonneg_tensor (DW_deduce_input_1 in_0 out_0 v k w)"
    "nonneg_tensor (CM_deduce_input_1 in_0 out_0 v k w)"
    using assms a [OF k(1)] a [OF k(2)]
    by (simp_all add: nonneg_tensor_def CONV_deduce_input_1_def DW_deduce_input_1_def CM_deduce_input_1_def Let_def
        get_specific_legacy_weights_alignment_Samples_def wts_mask_alignment_samples_def)
  moreover have "nonneg_tensor (ELTWISE_deduce_input_1 in_0 v w)" "nonneg_tensor (no_input_1 w)"
    using assms(1) by (simp_all add: nonneg_tensor_def ELTWISE_deduce_input_1_def Let_def no_input_1_def)
  ultimately show ?thesis by (cases cls) simp_all
qed

lemma input_1_nonneg:
  assumes "nonneg_tensor (dop_input_1 w)" "nonneg_tensor (dop_output_0 w)" "\<not> ti_sparsity_enabled (dop_input_1 w)"
    and "0 < weigths_alignment_B v"
  shows "0 \<le> input_1_contiguous_size_bytes cls v w"
proof -
  have "0 \<le> CONV_input_1_contiguous_size_bytes v w"
    using assms tensor_bytes_nonneg(1) [of "dop_input_1 w"]
    by (simp add: CONV_input_1_contiguous_size_bytes_def Let_def get_weight_table_size_def nonneg_tensor_def
        get_specific_weights_alignment_B_def align_to_nonneg)
  moreover have "0 \<le> ELTWISE_input_1_contiguous_size_bytes w"
    using assms(1) by (simp add: ELTWISE_input_1_contiguous_size_bytes_def Let_def tensor_bytes_nonneg)
  ultimately show ?thesis by (cases cls) simp_all
qed

lemma valid_tensors_nonneg:
  assumes "DPUOperation_with wl v = Inr w" "valid_dpu_operation v w" "v \<in> set tile_contexts"
  shows "nonneg_tensor (dop_input_0 w)" "nonneg_tensor (dop_output_0 w)" "nonneg_tensor (dop_input_0_memory_dense w)"
    "nonneg_tensor (dop_output_0_memory_dense w)" "nonneg_tensor (dop_input_1 w)"
    "ti_sparsity_enabled (dop_input_1 w) = weight_sparsity_enabled wl"
proof -
  obtain b where w: "w = (DPUOperation_of wl)\<lparr>dop_input_1 := deduce_input_1_shape_and_layout (op_class b)
      (dop_input_0 (DPUOperation_of wl)) (dop_output_0 (DPUOperation_of wl)) v (dop_kernel (DPUOperation_of wl))
      (dop_input_1 (DPUOperation_of wl))\<rparr>"
    using assms(1) by (auto simp: DPUOperation_with_def Let_def bind_result_def split: sum.splits)
  note val = assms(2) [unfolded valid_dpu_operation_def]
  have ch: "0 \<le> c" if "output_channels_allowed g a c" for g a c
    using that by (auto simp: output_channels_allowed_def multiple_of_16_def)
  have chi: "0 \<le> c" if "input_channels_allowed g l a1 a2 a3 c" for g l a1 a2 a3 c
    using that by (auto simp: input_channels_allowed_def plain_channels_def multiple_of_16_def autopad_channels_def
        split: if_splits)
  show i: "nonneg_tensor (dop_input_0 w)"
    using val chi by (auto simp: valid_input_def Let_def nonneg_tensor_def batch_allowed_def)
  have "0 \<le> (h + a + b - k) div s + 1" if "k \<le> h + a + b" "1 \<le> s" for h a b k s :: int
    using that by (simp add: pos_imp_zdiv_nonneg_iff)
  then show o1: "nonneg_tensor (dop_output_0 w)"
    using val ch by (fastforce simp: valid_input_def valid_output_def valid_strides_def Let_def nonneg_tensor_def batch_allowed_def)
  show "nonneg_tensor (dop_input_0_memory_dense w)" "nonneg_tensor (dop_output_0_memory_dense w)"
    using i o1 dense_nonneg unfolding w by (simp_all add: DPUOperation_of_def Let_def)
  show "nonneg_tensor (dop_input_1 w)"
    using deduced_nonneg [of "dop_input_0 w" "dop_output_0 w" "dop_kernel w" v] i o1 val tile_positive [OF assms(3)]
    unfolding w by (simp add: valid_kernel_def Let_def)
  have "ti_sparsity_enabled (deduce_input_1_shape_and_layout cls x y v k t) = ti_sparsity_enabled t" for cls x y k t
    by (cases cls) (simp_all add: CONV_deduce_input_1_def DW_deduce_input_1_def CM_deduce_input_1_def
        ELTWISE_deduce_input_1_def no_input_1_def Let_def)
  then show "ti_sparsity_enabled (dop_input_1 w) = weight_sparsity_enabled wl"
    unfolding w by (simp add: DPUOperation_of_def Let_def)
qed



end
