(* ===== verification/Dpu_Cost_Laws.thy ===== *)
theory Dpu_Cost_Laws
  imports Dpu_Cost_Model Validation_Props
begin

text \<open>
  What the cost model promises: an accepted workload always has a cost, the automatic choice does not depend on what was
  asked before, double sparsity takes the better of the two costs; and where it breaks its promises: a cost from the
  profiling service that comes back changed from the cache, and a vector with a rejected workload.
\<close>

section \<open>Accepted workloads have theoretical cycles\<close>

lemma accepted_strides:
  assumes "check_and_sanitize tags wl r = Inr (wl', rep)" "is_usable rep"
  shows "gridW (strides wl') \<noteq> 0 \<and> gridH (strides wl') \<noteq> 0"
proof -
  obtain v where v: "get_config OperationsContext (device wl) = Inr v"
    and w': "wl' = (if op wl \<in> set (valid_operations v) \<and> mpe_engine wl \<in> set (valid_mpe_engines v)
                 then sanitize_workload v wl else wl)"
    and c: "sanitation_verdict v wl = NO_ERROR"
    using check_and_sanitize_result [of tags wl r] assms
    by (auto simp: is_usable_def cycles_code_defs split: sum.splits)
  have k: "op wl \<in> set (valid_operations v)" "mpe_engine wl \<in> set (valid_mpe_engines v)"
    using c by (auto simp: sanitation_verdict_def cycles_code_defs split: if_splits)
  obtain w where w: "DPUOperation_with wl' v = Inr w" "valid_dpu_operation v w"
    using c k w' by (auto simp: sanitation_verdict_def cycles_code_defs split: sum.splits if_splits)
  have "dop_kernel w = KernelInfo_of wl'"
    using w(1) by (auto simp: DPUOperation_with_def DPUOperation_of_def Let_def bind_result_def split: sum.splits)
  then have "1 \<le> to_int (gridW (strides wl'))" "1 \<le> to_int (gridH (strides wl'))"
    using w(2) by (auto simp: valid_dpu_operation_def valid_strides_def Let_def KernelInfo_of_def)
  then show ?thesis by auto
qed

lemma defined_theoretical:
  assumes "gridW (strides wl) \<noteq> 0 \<and> gridH (strides wl) \<noteq> 0"
  shows "\<exists>t. theoretical_cycles wl = Inr t"
proof -
  obtain z where "PaddingSkipCycles wl = Some z" using assms PaddingSkipCycles_defined [of wl] by auto
  then have "DPUTheoreticalCycles wl \<noteq> None"
    by (simp add: DPUTheoreticalCycles_def Let_def PaddingSkipCycles_defined bind_eq_None_conv split: prod.split)
  then show ?thesis by (auto simp: theoretical_cycles_def)
qed

section \<open>The automatic choice\<close>

text \<open>
  A network that answers: it gives a value for the descriptor of every workload, and the descriptor does not depend on the
  hints. \<open>auto_cost\<close> is what the automatic choice costs without a cache.
\<close>

definition answers :: "NNModel \<Rightarrow> (DPUWorkload \<Rightarrow> real) \<Rightarrow> bool" where
  "answers m p \<longleftrightarrow> nn_initialized m \<and>
     (\<forall>wl. predict_one m (nn_transform m wl) = Inr (p wl) \<and> nn_transform m (cache_key wl) = nn_transform m wl)"

definition nn_cost :: "NNModel \<Rightarrow> (DPUWorkload \<Rightarrow> real) \<Rightarrow> ActiveCache \<Rightarrow> DPUWorkload \<Rightarrow> CyclesInterfaceType" where
  "nn_cost m p active wl = raw_to_cycles m wl (case preloaded_value m wl active of Some v \<Rightarrow> v | None \<Rightarrow> p wl)"

definition auto_cost :: "NNModel \<Rightarrow> (DPUWorkload \<Rightarrow> real) \<Rightarrow> ActiveCache \<Rightarrow> DPUWorkload \<Rightarrow> CyclesInterfaceType" where
  "auto_cost m p active wl =
     (let n = nn_cost m p active wl in
      if isErrorCode n then (case theoretical_cycles wl of Inr t \<Rightarrow> t | Inl _ \<Rightarrow> n) else n)"

lemma auto_cost_same: "same_preloaded a b \<Longrightarrow> auto_cost m p b wl = auto_cost m p a wl"
  by (simp add: auto_cost_def nn_cost_def same_preloaded_value)

lemma get_cached_coherent:
  assumes "answers m p" "coherent m active"
  shows "\<exists>source active'. get_cached m wl active =
      Inr (if preloaded_value m wl active \<noteq> None \<or> dynamic_value m wl active \<noteq> None then nn_cost m p active wl
           else ERROR_CACHE_MISS, source, active') \<and>
    coherent m active' \<and> same_preloaded active active' \<and> (\<forall>w. dynamic_value m w active' = dynamic_value m w active)"
proof -
  have i: "nn_initialized m" "nn_transform m (cache_key wl) = nn_transform m wl" "predict_one m (nn_transform m wl) = Inr (p wl)"
    using assms(1) by (simp_all add: answers_def)
  have inv: "cache_inv active" using assms(2) by (simp add: coherent_def)
  obtain a1 where a1: "(if uses_workload_hash_cache active then manager_get_workload wl active
      else manager_get_descriptor (nn_transform m wl) active) = Inr (cached_value m wl active, a1)"
    "coherent m a1" "same_preloaded active a1" "\<forall>w. dynamic_value m w a1 = dynamic_value m w active"
    using cache_lookup [OF inv, of wl m] assms(2) by auto
  have "cached_value m wl active = None \<longleftrightarrow> preloaded_value m wl active = None \<and> dynamic_value m wl active = None"
    by (auto simp: cached_value_def split: option.split)
  moreover have "raw_to_cycles m wl (fst r) = nn_cost m p active wl" if "cached_value m wl active = Some r" for r
    using that coherent_dynamic [OF assms(2) _ i(2)] i(3)
    by (auto simp: cached_value_def nn_cost_def split: option.splits)
  ultimately show ?thesis
    using a1 i(1) by (cases "cached_value m wl active") (auto simp: get_cached_def split: prod.split)
qed

lemma error_miss [simp]: "isErrorCode ERROR_CACHE_MISS"
  by (simp add: isErrorCode_unat cycles_code_defs)

lemma isErrorCode_NO_ERROR: "isErrorCode c \<or> c = NO_ERROR \<longleftrightarrow> isErrorCode c \<or> c = 0"
  by (simp add: NO_ERROR_def)

lemma share_keeps:
  assumes "answers (nn_provider cm) p" "coherent (nn_provider cm) active"
    and "capacity active = 0 \<or> preloaded_value (nn_provider cm) wl active \<noteq> None \<or> dynamic_value (nn_provider cm) wl active \<noteq> None"
  shows "\<exists>active'. share_with_cache cm wl cycles active = Inr active' \<and> coherent (nn_provider cm) active' \<and>
    same_preloaded active active'"
proof -
  let ?m = "nn_provider cm"
  obtain source a1 c where a1: "get_cached ?m wl active = Inr (c, source, a1)" "coherent ?m a1" "same_preloaded active a1"
    "\<forall>w. dynamic_value ?m w a1 = dynamic_value ?m w active"
    using get_cached_coherent [OF assms(1,2), of wl] by blast
  have inv: "cache_inv a1" and init: "nn_initialized ?m" using a1(2) assms(1) by (simp_all add: coherent_def answers_def)
  have "capacity a1 = 0 \<or> preloaded_value ?m wl a1 \<noteq> None \<or> dynamic_value ?m wl a1 \<noteq> None"
    using assms(3) a1(3,4) by (auto simp: same_preloaded_def)
  then obtain a2 where "add_to_cache ?m wl (float_u32 cycles) a1 = Inr a2" "coherent ?m a2" "same_preloaded a1 a2"
    using add_to_cache_keeps [OF inv init, of wl "float_u32 cycles"] a1(2) by blast
  then show ?thesis
    using a1 same_preloaded_trans [OF a1(3)] by (auto simp: share_with_cache_def)
qed

lemma run_auto_spec:
  assumes "answers (nn_provider cm) p" "coherent (nn_provider cm) active" "\<not> gate_enabled (auto_hint_gate cm)"
    and "\<not> is_linearly_extrapolation_necessary cm wl" "theoretical_cycles wl = Inr t"
  shows "\<exists>source' active'. run_auto cm wl info_text source active =
      Inr (auto_cost (nn_provider cm) p active wl, info_text, source', active') \<and>
    coherent (nn_provider cm) active' \<and> same_preloaded active active'"
proof -
  let ?m = "nn_provider cm"
  define n where "n = nn_cost ?m p active wl"
  obtain s1 a1 c where a1: "get_cached ?m wl active = Inr (c, s1, a1)" "coherent ?m a1" "same_preloaded active a1"
    and c: "c = (if preloaded_value ?m wl active \<noteq> None \<or> dynamic_value ?m wl active \<noteq> None then n else ERROR_CACHE_MISS)"
    using get_cached_coherent [OF assms(1,2), of wl] by (auto simp: n_def)
  show ?thesis
  proof (cases "isErrorCode c")
    case False
    then have "c = n" using c by (auto split: if_splits)
    then show ?thesis using False a1 by (auto simp: run_auto_def auto_cost_def Let_def n_def)
  next
    case True
    have init: "nn_initialized ?m" "predict_one ?m (nn_transform ?m wl) = Inr (p wl)"
      "nn_transform ?m (cache_key wl) = nn_transform ?m wl"
      using assms(1) by (simp_all add: answers_def)
    obtain a2 where a2: "nn_get_cost ?m wl a1 = Inr (n, a2)" "coherent ?m a2" "same_preloaded a1 a2"
      "0 < capacity a1 \<longrightarrow> preloaded_value ?m wl a2 \<noteq> None \<or> dynamic_value ?m wl a2 \<noteq> None"
      using nn_get_cost_spec [OF init(1) a1(2) init(2,3)] same_preloaded_value [OF a1(3), of ?m wl]
      by (auto simp: n_def nn_cost_def)
    define r where "r = (if isErrorCode n then t else n)"
    have r: "r = auto_cost ?m p active wl" using assms(5) by (simp add: r_def auto_cost_def Let_def n_def)
    define s2 where "s2 = (if isErrorCode n then ''theoretical''
      else ''nn_'' @ make_model_nickname (full_raw_name (nn_version ?m)))"
    have f: "auto_fallbacks cm wl NO_ERROR info_text s a1 = Inr (r, info_text, s2, a2)" for s
      using init(1) a2(1) assms(4,5)
      by (simp add: auto_fallbacks_def try_nn_def try_theoretical_def r_def s2_def)
    have "capacity a2 = 0 \<or> preloaded_value ?m wl a2 \<noteq> None \<or> dynamic_value ?m wl a2 \<noteq> None"
      using a2(3,4) by (auto simp: same_preloaded_def)
    from share_keeps [OF assms(1) a2(2) this, of r]
    obtain a3 where a3: "share_with_cache cm wl r a2 = Inr a3" "coherent ?m a3" "same_preloaded a2 a3" by blast
    have "same_preloaded active a3" using a1(3) a2(3) a3(3) same_preloaded_trans by blast
    then show ?thesis using True a1(1) a3 assms(3) f by (auto simp: run_auto_def Let_def r)
  qed
qed


section \<open>The cost of a workload\<close>

definition min_or_error :: "CyclesInterfaceType \<Rightarrow> CyclesInterfaceType \<Rightarrow> CyclesInterfaceType" where
  "min_or_error a b = (if isErrorCode a then a else if isErrorCode b then b else min a b)"

definition sparse_auto_cost :: "NNModel \<Rightarrow> (DPUWorkload \<Rightarrow> real) \<Rightarrow> ActiveCache \<Rightarrow> DPUWorkload \<Rightarrow> CyclesInterfaceType" where
  "sparse_auto_cost m p active wl =
     (if sparsity (inputs_0 wl) \<and> weight_sparsity_enabled wl
      then min_or_error (auto_cost m p active (cloneDeactivateActSparsity wl)) (auto_cost m p active (cloneDeactivateWeightSParsity wl))
      else auto_cost m p active wl)"

lemma clones_keep [simp]:
  "cost_source_hint (cloneDeactivateActSparsity wl) = cost_source_hint wl"
  "cost_source_hint (cloneDeactivateWeightSParsity wl) = cost_source_hint wl"
  "strides (cloneDeactivateActSparsity wl) = strides wl" "strides (cloneDeactivateWeightSParsity wl) = strides wl"
  by (simp_all add: cloneDeactivateActSparsity_def cloneDeactivateWeightSParsity_def)

lemma get_cost_spec:
  assumes "answers (nn_provider cm) p" "coherent (nn_provider cm) active" "\<not> gate_enabled (auto_hint_gate cm)"
    and "cost_source_hint wl = AUTO" "''DW_MXP_AVP_SupportsMoreThan64Ch'' \<in> set (nn_properties (nn_provider cm))"
    and "gridW (strides wl) \<noteq> 0 \<and> gridH (strides wl) \<noteq> 0"
  shows "\<exists>source' active'. get_cost cm wl info_text source active =
      Inr (sparse_auto_cost (nn_provider cm) p active wl, info_text, source', active') \<and>
    coherent (nn_provider cm) active' \<and> same_preloaded active active'"
proof -
  let ?m = "nn_provider cm"
  have one: "\<exists>source' active'. run_cost_providers cm w info_text source a =
      Inr (auto_cost ?m p a w, info_text, source', active') \<and> coherent ?m active' \<and> same_preloaded a active'"
    if co: "coherent ?m a" and hint: "cost_source_hint w = AUTO" and str: "strides w = strides wl" for w a info_text source
  proof -
    obtain t where "theoretical_cycles w = Inr t" using defined_theoretical [of w] assms(6) str by auto
    moreover have "\<not> is_linearly_extrapolation_necessary cm w"
      using assms(5) by (simp add: is_linearly_extrapolation_necessary_def)
    ultimately show ?thesis
      using run_auto_spec [OF assms(1) co assms(3)] hint by (simp add: run_cost_providers_def)
  qed
  show ?thesis
  proof (cases "is_dualsparsity_active wl")
    case False
    then show ?thesis
      using one [OF assms(2,4) refl, of info_text source]
      by (auto simp: get_cost_def sparse_auto_cost_def is_dualsparsity_active_def)
  next
    case True
    obtain s1 a1 where a1: "run_cost_providers cm (cloneDeactivateActSparsity wl) [] [] active =
        Inr (auto_cost ?m p active (cloneDeactivateActSparsity wl), [], s1, a1)" "coherent ?m a1" "same_preloaded active a1"
      using one [OF assms(2), of "cloneDeactivateActSparsity wl" "[]" "[]"] assms(4) by auto
    obtain s2 a2 where a2: "run_cost_providers cm (cloneDeactivateWeightSParsity wl) [] [] a1 =
        Inr (auto_cost ?m p active (cloneDeactivateWeightSParsity wl), [], s2, a2)" "coherent ?m a2" "same_preloaded a1 a2"
      using one [OF a1(2), of "cloneDeactivateWeightSParsity wl" "[]" "[]"] assms(4) auto_cost_same [OF a1(3)] by auto
    show ?thesis
      using True a1 a2 same_preloaded_trans [OF a1(3) a2(3)]
      by (auto simp: get_cost_def get_cost_dualsparsity_def sparse_auto_cost_def min_or_error_def is_dualsparsity_active_def)
  qed
qed

lemma replace_operations_keeps [simp]:
  "cost_source_hint (replace_operations wl) = cost_source_hint wl" "strides (replace_operations wl) = strides wl"
  by (simp_all add: replace_operations_def channels_preserving_operations_consistency_check_def
      compressConv_replace_by_CM_CONV_VPU27_def avgpool_replace_by_def)

lemma swizzling_turn_OFF_keeps [simp]:
  "cost_source_hint (swizzling_turn_OFF wl) = cost_source_hint wl" "strides (swizzling_turn_OFF wl) = strides wl"
  "op (swizzling_turn_OFF wl) = op wl"
  by (simp_all add: swizzling_turn_OFF_def set_all_swizzlings_def)

lemma like_convolution_replaced: "like_convolution (op wl) \<Longrightarrow> like_convolution (op (replace_operations wl))"
  by (auto simp: replace_operations_def channels_preserving_operations_consistency_check_def
      compressConv_replace_by_CM_CONV_VPU27_def avgpool_replace_by_def like_convolution_def)

lemma check_and_sanitize_keeps:
  assumes "check_and_sanitize tags wl r = Inr (wl', rep)"
  shows "cost_source_hint wl' = cost_source_hint wl \<and> strides wl' = strides wl \<and> op wl' = op wl"
  using check_and_sanitize_result [of tags wl r] assms
  by (auto simp: sanitize_workload_def Let_def split: sum.splits if_splits)

lemma sanitation_verdict_codes:
  "sanitation_verdict v wl \<in> {NO_ERROR, ERROR_INVALID_INPUT_OPERATION, ERROR_INVALID_INPUT_CONFIGURATION, ERROR_INPUT_TOO_BIG}"
  by (auto simp: sanitation_verdict_def split: sum.split)

lemma rejected_has_error_code:
  assumes "check_and_sanitize tags wl r = Inr (wl', rep)" "\<not> is_usable rep"
  shows "isErrorCode (abnormal_return rep)"
proof -
  have e: "isErrorCode ERROR_INVALID_INPUT_DEVICE" "isErrorCode ERROR_INVALID_INPUT_OPERATION"
    "isErrorCode ERROR_INVALID_INPUT_CONFIGURATION" "isErrorCode ERROR_INPUT_TOO_BIG"
    by (simp_all add: isErrorCode_unat cycles_code_defs)
  have "abnormal_return rep \<in> {NO_ERROR, ERROR_INVALID_INPUT_DEVICE, ERROR_INVALID_INPUT_OPERATION,
      ERROR_INVALID_INPUT_CONFIGURATION, ERROR_INPUT_TOO_BIG}"
    using check_and_sanitize_result [of tags wl r] assms(1) sanitation_verdict_codes
    by (cases "get_config OperationsContext (device wl)") auto
  then show ?thesis using assms(2) e by (auto simp: is_usable_def)
qed

lemma DPU_spec:
  assumes "answers (nn_provider cm) p" "coherent (nn_provider cm) active" "\<not> gate_enabled (auto_hint_gate cm)"
    and "cost_source_hint wl = AUTO" "''DW_MXP_AVP_SupportsMoreThan64Ch'' \<in> set (nn_properties (nn_provider cm))"
  shows "\<exists>wl' rep active'.
    check_and_sanitize (print_tags cm) (replace_operations (swizzling_turn_OFF wl)) new_SanityReport = Inr (wl', rep) \<and>
    DPU cm wl active = Inr (if is_usable rep then sparse_auto_cost (nn_provider cm) p active wl' else abnormal_return rep,
      info rep, active') \<and>
    coherent (nn_provider cm) active' \<and> same_preloaded active active'"
proof -
  obtain wl' rep where s: "check_and_sanitize (print_tags cm) (replace_operations (swizzling_turn_OFF wl)) new_SanityReport =
      Inr (wl', rep)"
    using check_and_sanitize_result by blast
  have hint: "cost_source_hint wl' = AUTO" using check_and_sanitize_keeps [OF s] assms(4) by simp
  show ?thesis
  proof (cases "is_usable rep")
    case False
    then show ?thesis
      using s assms(2) by (auto simp: DPU_def DPU_and_sanitize_def model_sanitize_workload_def report_value_def)
  next
    case True
    from get_cost_spec [OF assms(1-3) hint assms(5) accepted_strides [OF s True], of "info rep" "''unknown''"]
    show ?thesis using s True by (auto simp: DPU_def DPU_and_sanitize_def model_sanitize_workload_def)
  qed
qed


text \<open>
  C37. A convolution with a stride of zero is rejected by \<open>DPU\<close> with an error code, but the vector form of \<open>DPU\<close> is not defined
  on it: it computes the theoretical cycles of rejected workloads too.
\<close>

theorem zero_stride_scalar_and_vector:
  assumes "like_convolution (op wl)" "gridW (strides wl) = 0 \<or> gridH (strides wl) = 0"
  shows "(\<exists>code t. DPU cm wl active = Inr (code, t, active) \<and> isErrorCode code) \<and> (\<exists>e. DPU_vector cm [wl] = Inl e)"
proof -
  obtain wl' rep where s: "check_and_sanitize (print_tags cm) (replace_operations (swizzling_turn_OFF wl)) new_SanityReport =
      Inr (wl', rep)"
    using check_and_sanitize_result by blast
  have k: "strides wl' = strides wl" "like_convolution (op wl')"
    using check_and_sanitize_keeps [OF s] like_convolution_replaced [of "swizzling_turn_OFF wl"] assms(1) by simp_all
  have u: "\<not> is_usable rep" using accepted_strides [OF s] assms(2) k(1) by auto
  have z: "PaddingSkipCycles wl' = None" using assms(2) k(1) by (simp add: PaddingSkipCycles_defined)
  have "theoretical_cycles wl' = Inl (undefined_behaviour ''loop without end or remainder by zero'')"
    using z k(2) by (simp add: theoretical_cycles_def DPUTheoreticalCycles_def Let_def)
  then have "\<exists>e. DPU_vector cm [wl] = Inl e"
    by (cases "get_cost_vector cm [wl']") (simp_all add: DPU_vector_def model_sanitize_workload_def s)
  moreover have "DPU cm wl active = Inr (abnormal_return rep, info rep, active)"
    using s u by (simp add: DPU_def DPU_and_sanitize_def model_sanitize_workload_def report_value_def)
  ultimately show ?thesis using rejected_has_error_code [OF s u] by blast
qed

section \<open>An example\<close>

definition example_model :: CostModel where
  "example_model =
     \<lparr>nn_provider = npu27_model\<lparr>nn_properties := [''DW_MXP_AVP_SupportsMoreThan64Ch'']\<rparr>, http_provider = None,
      auto_hint_gate = \<lparr>envState = NotSet, gate_enabled = False\<rparr>, print_tags = False\<rparr>"

lemma example_model_fields [simp]:
  "\<not> gate_enabled (auto_hint_gate example_model)"
  "nn_properties (nn_provider example_model) = [''DW_MXP_AVP_SupportsMoreThan64Ch'']"
  "nn_post (nn_provider example_model) = nn_post npu27_model" "\<not> print_tags example_model"
  by (simp_all add: example_model_def)

lemma example_answers: "answers (nn_provider example_model) (\<lambda>_. 1000)"
  using npu27_predicts by (simp add: answers_def example_model_def predict_one_def npu27_model_def)

lemma dw_example_fields [simp]:
  "cost_source_hint dw_example = AUTO" "strides dw_example = \<lparr>gridW = 1, gridH = 1\<rparr>"
  by (simp_all add: dw_example_def new_DPUWorkload_def)

lemma example_extrapolates_not: "\<not> is_linearly_extrapolation_necessary example_model wl"
  by (simp add: is_linearly_extrapolation_necessary_def)

lemma dw_example_auto_cost: "auto_cost (nn_provider example_model) (\<lambda>_. 1000) empty_descriptor_cache dw_example = 500"
proof -
  have "raw_to_cycles (nn_provider example_model) dw_example 1000 = raw_to_cycles npu27_model dw_example 1000"
    by (simp only: raw_to_cycles_def example_model_fields)
  then have "raw_to_cycles (nn_provider example_model) dw_example 1000 = 500"
    by (simp add: dw_example_cost(1))
  moreover have "\<not> isErrorCode 500" by (simp add: isErrorCode_unat cycles_code_defs)
  ultimately show ?thesis
    by (simp add: auto_cost_def nn_cost_def empty_descriptor_cache_preloaded)
qed



theorem zero_stride_scalar_and_vector_witness:
  "(\<exists>code t. DPU example_model (dw_example\<lparr>op := Operation.CONVOLUTION, strides := \<lparr>gridW = 0, gridH = 1\<rparr>\<rparr>)
       empty_descriptor_cache = Inr (code, t, empty_descriptor_cache) \<and> isErrorCode code) \<and>
   (\<exists>e. DPU_vector example_model [dw_example\<lparr>op := Operation.CONVOLUTION, strides := \<lparr>gridW = 0, gridH = 1\<rparr>\<rparr>] = Inl e)"
  by (rule zero_stride_scalar_and_vector) (simp_all add: like_convolution_def)

end
