(* ===== verification/Tiling_Primitives.thy ===== *)
theory Tiling_Primitives
  imports Layer_Split Smart_Ranges
begin

text \<open>
  What the intra-tile tilers share: \<open>TilingPrimitives\<close> of \<^verbatim>\<open>include/vpu/optimization/tiling_primitives.h\<close> and
  \<^verbatim>\<open>src/optimization/tiling_primitives.cpp\<close>, the options of \<^verbatim>\<open>split_options.h\<close>, the containers of
  \<^verbatim>\<open>include/vpu/layer_split_info.h\<close> and the step of \<^verbatim>\<open>src/optimization/tiler.cpp\<close> that finishes the workloads of a split.

  A layer handed to a tiler is sliced to its \<open>DPUWorkload\<close> part. Halo counts are \<^verbatim>\<open>int\<close>, dimensions are \<^verbatim>\<open>unsigned\<close>, and
  the conversions between them are written out.
\<close>

section \<open>Options and results\<close>

datatype VPUSplitStrategy = HW_TILING | Z_TILING | H_TILING | W_TILING

record SplitOptions =
  maxWorkloads :: u32
  maxLatencyUs :: u32
  nDPU :: u32
  runtimeOverhead :: u32
  availableStrategies :: "VPUSplitStrategy list"

definition default_SplitOptions :: SplitOptions where
  "default_SplitOptions =
     \<lparr>maxWorkloads = 128, maxLatencyUs = 0, nDPU = 0, runtimeOverhead = 0, availableStrategies = [HW_TILING, Z_TILING]\<rparr>"

record DPUWorkloadsWithCyclesSplit =
  split_cycles :: "CyclesInterfaceType list"
  split_workloads :: "DPUWorkload list"

definition empty_split :: DPUWorkloadsWithCyclesSplit where
  "empty_split = \<lparr>split_cycles = [], split_workloads = []\<rparr>"

definition add_tile :: "DPUWorkload \<Rightarrow> DPUWorkloadsWithCyclesSplit \<Rightarrow> DPUWorkloadsWithCyclesSplit" where
  "add_tile wl s = s\<lparr>split_workloads := split_workloads s @ [wl], split_cycles := split_cycles s @ [NO_ERROR]\<rparr>"

section \<open>Primitives\<close>

definition createIncompleteTile :: "DPULayer \<Rightarrow> WHCB \<Rightarrow> WHCB \<Rightarrow> DPUWorkload" where
  "createIncompleteTile layer new_shape offs =
     (layer_workload layer)\<lparr>outputs_0 := VPUTensor_with_shape new_shape (outputs_0 layer), offsets := offs\<rparr>"

definition requireMaxZTile :: "DPULayer \<Rightarrow> bool" where
  "requireMaxZTile layer \<longleftrightarrow> VPU_2_7 \<le> device layer \<and> is_dwconv_family_operation (op layer)"

definition isNoSplitOperation :: "Operation \<Rightarrow> bool" where
  "isNoSplitOperation oper \<longleftrightarrow>
     oper = CONVOLUTION \<or> oper = ELTWISE \<or> oper = CM_CONVOLUTION \<or> oper = LAYER_NORM \<or> oper = ELTWISE_MUL"

definition isHWTilingAllowed :: "DPULayer \<Rightarrow> SplitOptions \<Rightarrow> bool" where
  "isHWTilingAllowed layer options =
     (if nDPU options = 1 \<and> Z_TILING \<in> set (availableStrategies options) then False
      else \<not> requireMaxZTile layer)"

definition infer_channels :: "DPUWorkload \<Rightarrow> u32" where
  "infer_channels wl =
     (if op wl = CONVOLUTION \<or> op wl = CM_CONVOLUTION \<or> is_output_autopad wl then tz (inputs_0 wl) else tz (outputs_0 wl))"

definition limit_input_halo :: "VPUTensor \<Rightarrow> HaloInfoHWC \<Rightarrow> HaloInfoHWC" where
  "limit_input_halo t h =
     h\<lparr>halo_top := min (halo_top h) (to_int (height t)), halo_bottom := min (halo_bottom h) (to_int (height t)),
       halo_left := min (halo_left h) (to_int (width t)), halo_right := min (halo_right h) (to_int (width t)),
       halo_front := min (halo_front h) (to_int (channels t)), halo_back := min (halo_back h) (to_int (channels t))\<rparr>"

definition inferInputTensorShape :: "DPUWorkload \<Rightarrow> DPULayer \<Rightarrow> DPUWorkload" where
  "inferInputTensorShape wl originalLayer =
     (let input_width =
            helper_input_dim (width (outputs_0 wl)) (gridW (kernels wl)) (padLEFT (padding wl) + padRIGHT (padding wl))
              (gridW (strides wl));
          input_height =
            helper_input_dim (height (outputs_0 wl)) (gridH (kernels wl)) (padTOP (padding wl) + padBOTTOM (padding wl))
              (gridH (strides wl));
          input_channel = infer_channels wl;
          input_batch = batches (outputs_0 wl);
          inputTensor =
            VPUTensor_with_shape (mk_shape input_width input_height input_channel input_batch) (inputs_0 originalLayer);
          halo_now = halo wl
      in wl\<lparr>inputs_0 := inputTensor,
            halo := halo_now\<lparr>input_0_halo := limit_input_halo inputTensor (input_0_halo halo_now)\<rparr>\<rparr>)"

text \<open>
  The powers of two below the argument of the logarithm: \<^verbatim>\<open>idx < log2(n)\<close> in \<^verbatim>\<open>double\<close> holds exactly if \<open>2 ^ idx < n\<close>, for
  all values of \<^verbatim>\<open>unsigned int\<close>.
\<close>

definition getSplitsFromRange :: "u32 \<Rightarrow> u32 \<Rightarrow> u32 list" where
  "getSplitsFromRange maxSplitRange maxLimit =
     map (\<lambda>idx. maxSplitRange div 2 ^ idx)
       (filter (\<lambda>idx. 2 ^ idx < unat maxSplitRange \<and> maxSplitRange mod 2 ^ idx = 0 \<and> maxSplitRange div 2 ^ idx \<le> maxLimit)
         [0..<32])"

definition createTileZ :: "DPULayer \<Rightarrow> u32 \<Rightarrow> u32 \<Rightarrow> DPUWorkload" where
  "createTileZ layer tile_channels offset_channels =
     (let wl = createIncompleteTile layer (mk_shape (tx (outputs_0 layer)) (ty (outputs_0 layer)) tile_channels 1)
            (mk_shape 0 0 offset_channels 0);
          inbound = output_0_inbound_halo (halo layer);
          remaining = to_int (channels (outputs_0 layer) - tile_channels - offset_channels)
      in wl\<lparr>halo := (halo wl)\<lparr>output_0_inbound_halo := (output_0_inbound_halo (halo wl))
             \<lparr>halo_front := to_int (to_u32 (halo_front inbound) + offset_channels),
              halo_back := halo_back inbound + remaining\<rparr>\<rparr>\<rparr>)"

section \<open>Finishing a split\<close>

definition setWorkloadsModeAndInfereInputShape ::
  "DPUWorkloadsWithCyclesSplit \<Rightarrow> ExecutionMode \<Rightarrow> DPULayer \<Rightarrow> DPUWorkloadsWithCyclesSplit" where
  "setWorkloadsModeAndInfereInputShape s mode originalLayer =
     s\<lparr>split_workloads :=
        map (\<lambda>wl. inferInputTensorShape (wl\<lparr>execution_order := mode\<rparr>) originalLayer) (split_workloads s)\<rparr>"

text \<open>
  The counts \<open>generateSplitPool\<close> collects in steps of the number of DPUs. The counter is an \<^verbatim>\<open>unsigned int\<close>: with a step of
  zero, or when it wraps around, the loop may not end, and then the value is \<open>None\<close>.
\<close>

partial_function (option) dpu_multiples :: "u32 \<Rightarrow> u32 \<Rightarrow> u32 \<Rightarrow> u32 list option" where
  "dpu_multiples numDPU limit i =
     (if i < limit then Option.bind (dpu_multiples numDPU limit (i + numDPU)) (\<lambda>rest. Some (i # rest)) else Some [])"

declare dpu_multiples.simps [code]

definition to_set :: "u32 list \<Rightarrow> u32 list" where
  "to_set xs = sort (remdups xs)"

definition split_pool :: "u32 \<Rightarrow> u32 \<Rightarrow> u32 list \<Rightarrow> u32 list result" where
  "split_pool numDPU maxSplits max_splits_list =
     (case dpu_multiples numDPU (maxSplits + 1) numDPU of
        None \<Rightarrow> Inl (undefined_behaviour ''loop without end'')
      | Some multiples \<Rightarrow>
          Inr (to_set (1 # multiples @ concat (map (\<lambda>splits. getSplitsFromRange splits maxSplits) max_splits_list))))"

section \<open>The shared parts\<close>

lemma layer_workload_simps [simp]:
  "DPUWorkload.device (layer_workload l) = device l" "op (layer_workload l) = op l" "inputs_0 (layer_workload l) = inputs_0 l"
  "outputs_0 (layer_workload l) = outputs_0 l" "halo (layer_workload l) = halo l" "offsets (layer_workload l) = offsets l"
  by (simp_all add: layer_workload_def DPUWorkload.truncate_def)

lemma inferInputTensorShape_frame [simp]:
  "outputs_0 (inferInputTensorShape wl l) = outputs_0 wl" "offsets (inferInputTensorShape wl l) = offsets wl"
  "op (inferInputTensorShape wl l) = op wl" "device (inferInputTensorShape wl l) = device wl"
  by (simp_all add: inferInputTensorShape_def Let_def)

lemma createIncompleteTile_frame [simp]:
  "shape (outputs_0 (createIncompleteTile l s offs)) = s" "offsets (createIncompleteTile l s offs) = offs"
  by (simp_all add: createIncompleteTile_def VPUTensor_with_shape_def)

lemma createTileZ_frame [simp]:
  "shape (outputs_0 (createTileZ l c off)) = mk_shape (tx (outputs_0 l)) (ty (outputs_0 l)) c 1"
  "offsets (createTileZ l c off) = mk_shape 0 0 off 0"
  by (simp_all add: createTileZ_def Let_def)

lemma add_tile_simps [simp]:
  "split_workloads (add_tile wl s) = split_workloads s @ [wl]" "split_cycles (add_tile wl s) = split_cycles s @ [NO_ERROR]"
  by (simp_all add: add_tile_def)

lemma empty_split_simps [simp]: "split_workloads empty_split = []" "split_cycles empty_split = []"
  by (simp_all add: empty_split_def)

end
