(* ===== verification/Dimension_Tiler.thy ===== *)
theory Dimension_Tiler
  imports Smart_Ranges Vpu_Utils
begin

text \<open>
  \<open>SplitDimension\<close> of \<^verbatim>\<open>include/vpu/optimization/dimension_tiler.h\<close> and \<^verbatim>\<open>src/optimization/dimension_tiler.cpp\<close>: a dimension is cut
  into a given number of bins, each as small as an even split and the range of allowed values permit. The result is the
  status and the bins that were added to the accumulator.
\<close>

function divideBalanced :: "SmartRanges \<Rightarrow> int \<Rightarrow> int \<Rightarrow> int list \<Rightarrow> bool \<times> int list" where
  "divideBalanced allowed toSplit bins_desired binsAccumulated =
     (if toSplit \<le> 0 then (\<not> 0 < bins_desired, binsAccumulated)
      else if bins_desired \<le> 0 then (False, binsAccumulated)
      else
        let tentative_slice_raw = ceil_division_int toSplit bins_desired in
        case roundToNextLarger allowed tentative_slice_raw of
          None \<Rightarrow> (False, binsAccumulated)
        | Some tentative_slice \<Rightarrow>
            if toSplit < tentative_slice then (False, binsAccumulated)
            else divideBalanced allowed (toSplit - tentative_slice) (bins_desired - 1) (binsAccumulated @ [tentative_slice]))"
  by auto
termination
  by (relation "measure (\<lambda>(_, _, bins, _). nat bins)") auto

declare divideBalanced.simps [simp del]

section \<open>Balanced splits\<close>

text \<open>What a successful split is: allowed positive slices that add up to the dimension, in non-increasing order.\<close>

definition balanced_split :: "SmartRanges \<Rightarrow> int \<Rightarrow> int \<Rightarrow> int list \<Rightarrow> bool" where
  "balanced_split allowed toSplit bins xs \<longleftrightarrow>
     int (length xs) = bins \<and> sum_list xs = toSplit \<and> list_all (\<lambda>x. 0 < x \<and> is_in allowed x) xs \<and> sorted_wrt (\<ge>) xs"

lemma ceil_division_int_nat:
  assumes "0 < a" "0 < b"
  shows "ceil_division_int a b = (a + b - 1) div b" "0 < ceil_division_int a b"
proof -
  show e: "ceil_division_int a b = (a + b - 1) div b" using assms by (simp add: ceil_division_int_def sdiv_nonneg)
  show "0 < ceil_division_int a b" unfolding e using assms by (simp add: pos_imp_zdiv_pos_iff)
qed

text \<open>The average of what is left does not grow when a slice of at least the average is taken off.\<close>

lemma ceil_average_decreases:
  fixes a b w :: int
  assumes "0 < a" "1 < b" "(a + b - 1) div b \<le> w"
  shows "(a - w + (b - 1) - 1) div (b - 1) \<le> w"
proof -
  have "a \<le> (a + b - 1) div b * b" using int_ceil_mult(1) [of b a] assms(2) by simp
  also have "\<dots> \<le> w * b" using assms(2,3) by (intro mult_right_mono) auto
  finally have "a - w + (b - 1) - 1 < (w + 1) * (b - 1)" using assms(2) by (simp add: algebra_simps)
  moreover have "(a - w + (b - 1) - 1) div (b - 1) * (b - 1) \<le> a - w + (b - 1) - 1"
    using assms(2) by (simp add: minus_mod_eq_div_mult [symmetric])
  ultimately have "(a - w + (b - 1) - 1) div (b - 1) * (b - 1) < (w + 1) * (b - 1)" by (rule le_less_trans [rotated])
  then show ?thesis using assms(2) by (simp only: mult_less_cancel_right_disj) auto
qed

lemma divideBalanced_split:
  assumes "sr_wf allowed"
  shows "divideBalanced allowed toSplit bins acc = (True, res) \<Longrightarrow> 0 \<le> bins \<Longrightarrow> 0 \<le> toSplit \<Longrightarrow>
    \<exists>xs. res = acc @ xs \<and> balanced_split allowed toSplit bins xs \<and>
      (\<forall>m. 0 < bins \<longrightarrow> is_in allowed m \<longrightarrow> ceil_division_int toSplit bins \<le> m \<longrightarrow> list_all (\<lambda>x. x \<le> m) xs)"
  using assms
proof (induction allowed toSplit bins acc rule: divideBalanced.induct)
  case (1 allowed toSplit bins acc)
  note IH = "1.IH" and run = "1.prems"(1) and bins = "1.prems"(2) and dim = "1.prems"(3) and wf = "1.prems"(4)
  show ?case
  proof (cases "toSplit \<le> 0")
    case True
    then have "res = acc" "\<not> 0 < bins" "toSplit = 0" using run dim by (auto simp: divideBalanced.simps)
    then show ?thesis using bins by (auto simp: balanced_split_def)
  next
    case False
    define raw where "raw = ceil_division_int toSplit bins"
    from False run obtain w where b: "0 < bins" and w: "roundToNextLarger allowed raw = Some w" "w \<le> toSplit"
      and rec: "divideBalanced allowed (toSplit - w) (bins - 1) (acc @ [w]) = (True, res)"
      by (subst (asm) divideBalanced.simps) (auto simp: raw_def Let_def split: if_splits option.splits)
    have "betweenLimits allowed raw" using w(1) by (simp add: roundToNextLarger_def split: if_splits)
    from roundToNextLarger_cases [OF wf this] w(1)
    have least: "is_in allowed w" "raw \<le> w" "\<And>u. is_in allowed u \<Longrightarrow> raw \<le> u \<Longrightarrow> w \<le> u" by auto
    have raw: "raw = (toSplit + bins - 1) div bins" "0 < raw"
      using ceil_division_int_nat [of toSplit bins] False b by (auto simp: raw_def)
    from IH [OF False _ raw_def w(1) _ rec] b w(2) wf obtain xs where
      xs: "res = (acc @ [w]) @ xs" "balanced_split allowed (toSplit - w) (bins - 1) xs"
      and bound: "0 < bins - 1 \<Longrightarrow> is_in allowed m \<Longrightarrow> ceil_division_int (toSplit - w) (bins - 1) \<le> m \<Longrightarrow> list_all (\<lambda>x. x \<le> m) xs" for m
      by auto
    have le: "list_all (\<lambda>x. x \<le> w) xs"
    proof (cases "xs = []")
      case more: False
      then have bm: "1 < bins" using xs(2) by (cases xs) (auto simp: balanced_split_def)
      obtain y ys where y: "xs = y # ys" using more by (cases xs) auto
      have "0 \<le> sum_list ys" using xs(2) y by (intro sum_list_nonneg) (auto simp: balanced_split_def list_all_iff less_imp_le)
      then have "0 < toSplit - w" using xs(2) y by (auto simp: balanced_split_def)
      then have "ceil_division_int (toSplit - w) (bins - 1) = (toSplit - w + (bins - 1) - 1) div (bins - 1)"
        using bm by (intro ceil_division_int_nat(1)) auto
      also have "\<dots> \<le> w" using ceil_average_decreases [of toSplit bins w] False bm least(2) raw(1) by simp
      finally show ?thesis using bound [of w] bm least(1) by simp
    qed simp
    then have "balanced_split allowed toSplit bins (w # xs)"
      using xs(2) least(1,2) raw(2) by (auto simp: balanced_split_def list_all_iff)
    moreover have "list_all (\<lambda>x. x \<le> m) (w # xs)" if "is_in allowed m" "raw \<le> m" for m
      using least(3) [OF that] le by (auto simp: list_all_iff)
    ultimately show ?thesis using xs(1) by (intro exI [of _ "w # xs"]) (auto simp: raw_def)
  qed
qed

text \<open>
  \<open>SplitDimension.divideBalanced\<close> on every input returns; when it reports success, what it has added to the accumulator is
  exactly the requested number of slices, each positive and accepted by the range of allowed values, in non-increasing order, and
  their sum is the dimension.
\<close>

theorem divideBalanced_success_splits:
  assumes "sr_wf allowed" "0 \<le> bins" "0 \<le> toSplit" "divideBalanced allowed toSplit bins acc = (True, res)"
  shows "take (length acc) res = acc \<and> balanced_split allowed toSplit bins (drop (length acc) res)"
  using divideBalanced_split [OF assms(1) assms(4) assms(2,3)] by auto

theorem divideBalanced_success_splits_witness:
  "drop 1 (snd (divideBalanced (make_SmartRanges 16 256 16 None) 160 3 [7])) = [64, 48, 48] \<and>
    balanced_split (make_SmartRanges 16 256 16 None) 160 3 (drop 1 (snd (divideBalanced (make_SmartRanges 16 256 16 None) 160 3 [7])))"
proof -
  have run: "divideBalanced (make_SmartRanges 16 256 16 None) 160 3 [7] = (True, [7, 64, 48, 48])" by code_simp
  from divideBalanced_success_splits [OF _ _ _ run] show ?thesis by (simp add: run)
qed

end
