(* ===== verification/Intra_Tile.thy ===== *)
theory Intra_Tile
  imports Tiling_Primitives Dimension_Tiler Efficiency_Splitter
begin

text \<open>
  The algorithms that cut the layer of one tile into workloads, \<^verbatim>\<open>src/optimization/\<close>: \<^verbatim>\<open>hwtiling.cpp\<close>, \<^verbatim>\<open>htiling.cpp\<close> and
  \<^verbatim>\<open>wtiling.cpp\<close> over height and width, \<^verbatim>\<open>ztiling.cpp\<close> and \<^verbatim>\<open>zefftiling.cpp\<close> over the channels, their base class
  (\<^verbatim>\<open>tiler.cpp\<close>) and the factory that selects them (\<^verbatim>\<open>tiling_algorithm_factory.cpp\<close>).

  The classes derived from \<open>ITilerAlgorithm\<close> are the constructors of one datatype; a virtual operation is a case distinction. A
  split that is abandoned on the way adds nothing to the pool. Dimensions are 32 bits wide and wrap around. A division by zero
  and the conversion of a number that is too large are undefined behaviour, which is an error value here.
\<close>

datatype TilingAlgorithm =
    HWTiling DPULayer u32
  | HTiling DPULayer u32
  | WTiling DPULayer u32
  | ZTiling DPULayer u32
  | ZEffTiling DPULayer u32 "SplitBlock list" "SplitBlock list" real

fun layer_on_tile :: "TilingAlgorithm \<Rightarrow> DPULayer" where
  "layer_on_tile (HWTiling layer m) = layer"
| "layer_on_tile (HTiling layer m) = layer"
| "layer_on_tile (WTiling layer m) = layer"
| "layer_on_tile (ZTiling layer m) = layer"
| "layer_on_tile (ZEffTiling layer m blocks remainders overhead) = layer"

section \<open>Tiling over height and width\<close>

text \<open>The quotients \<^verbatim>\<open>y / grid_x\<close> and \<^verbatim>\<open>x / grid_y\<close> are taken in \<^verbatim>\<open>unsigned int\<close>; the rounding up has nothing left to round.\<close>

definition HW_generateSplitPool :: "DPULayer \<Rightarrow> u32 \<Rightarrow> u32 \<Rightarrow> ExecutionMode \<Rightarrow> u32 list result" where
  "HW_generateSplitPool layer max_workloads numDPU mode =
     (if numDPU = 1 then Inr [1]
      else
        let grid = mpe_mode_to_grid mode;
            grid_x = grid ! 0;
            grid_y = grid ! 1;
            maxXY = unat (ty (outputs_0 layer) div grid_x) * unat (tx (outputs_0 layer) div grid_y)
        in if 2 ^ 32 \<le> maxXY then Inl (undefined_behaviour ''conversion of a double out of range'')
           else split_pool numDPU (min max_workloads (word_of_nat maxXY)) [word_of_nat maxXY])"

function get_factors_from :: "nat \<Rightarrow> nat \<Rightarrow> (nat \<times> nat) list" where
  "get_factors_from n i =
     (if i * i \<le> n \<and> 0 < i
      then (if n mod i = 0 then [(n div i, i), (i, n div i)] else []) @ get_factors_from n (i + 1)
      else [])"
  by auto
termination
proof (relation "measure (\<lambda>(n, i). n + 1 - i)", goal_cases)
  case (2 n i)
  then have "i \<le> i * i" by simp
  then have "i \<le> n" using 2 by linarith
  then show ?case by simp
qed simp

declare get_factors_from.simps [simp del]

text \<open>The comparison with the square root of an \<^verbatim>\<open>unsigned int\<close> in \<^verbatim>\<open>double\<close> is that of the squares.\<close>

definition getFactors :: "u32 \<Rightarrow> (u32 \<times> u32) list" where
  "getFactors n = map (\<lambda>(a, b). (word_of_nat a, word_of_nat b)) (get_factors_from (unat n) 1)"

definition createTileHW :: "DPULayer \<Rightarrow> u32 \<Rightarrow> u32 \<Rightarrow> u32 \<Rightarrow> u32 \<Rightarrow> HaloWorkload \<Rightarrow> DPUWorkload" where
  "createTileHW layer tile_width tile_height offset_width offset_height tile_halo =
     (let wl = createIncompleteTile layer (mk_shape tile_width tile_height (tz (outputs_0 layer)) 1)
            (mk_shape offset_width offset_height 0 0);
          inbound = output_0_inbound_halo (halo layer);
          remaining_rows = to_int (height (outputs_0 layer) - tile_height - offset_height);
          remaining_columns = to_int (width (outputs_0 layer) - tile_width - offset_width)
      in wl\<lparr>halo := tile_halo\<lparr>output_0_inbound_halo := (output_0_inbound_halo tile_halo)
             \<lparr>halo_top := to_int (to_u32 (halo_top inbound) + offset_height),
              halo_bottom := halo_bottom inbound + remaining_rows,
              halo_left := to_int (to_u32 (halo_left inbound) + offset_width),
              halo_right := halo_right inbound + remaining_columns\<rparr>\<rparr>\<rparr>)"

text \<open>The halo of a row of tiles: only the first row has what is above, only the last what is below.\<close>

definition row_halo :: "HaloWorkload \<Rightarrow> bool \<Rightarrow> bool \<Rightarrow> u32 \<Rightarrow> HaloWorkload" where
  "row_halo h first final step =
     (let top_done =
            (if first
             then h\<lparr>output_0_halo := (output_0_halo h)\<lparr>halo_top := min (halo_top (output_0_halo h)) (to_int step)\<rparr>\<rparr>
             else h\<lparr>input_0_halo := (input_0_halo h)\<lparr>halo_top := 0\<rparr>, output_0_halo := (output_0_halo h)\<lparr>halo_top := 0\<rparr>,
                    output_0_halo_broadcast_cnt := (output_0_halo_broadcast_cnt h)\<lparr>halo_top := 0\<rparr>\<rparr>)
      in if final
         then top_done\<lparr>output_0_halo :=
                (output_0_halo top_done)\<lparr>halo_bottom := min (halo_bottom (output_0_halo h)) (to_int step)\<rparr>\<rparr>
         else top_done\<lparr>input_0_halo := (input_0_halo top_done)\<lparr>halo_bottom := 0\<rparr>,
                output_0_halo := (output_0_halo top_done)\<lparr>halo_bottom := 0\<rparr>,
                output_0_halo_broadcast_cnt := (output_0_halo_broadcast_cnt top_done)\<lparr>halo_bottom := 0\<rparr>\<rparr>)"

text \<open>
  The halo of the next tile of a row, from the halo of the layer and the one the row carries from tile to tile. Only the
  broadcast counts are carried on: what one tile resets stays reset in those after it.
\<close>

definition column_halo :: "HaloWorkload \<Rightarrow> HaloWorkload \<Rightarrow> bool \<Rightarrow> bool \<Rightarrow> u32 \<Rightarrow> HaloWorkload" where
  "column_halo h halo_now first final step =
     (let left_done =
            (if first
             then halo_now\<lparr>input_0_halo := (input_0_halo halo_now)\<lparr>halo_left := halo_left (input_0_halo h)\<rparr>,
                    output_0_halo := (output_0_halo halo_now)\<lparr>halo_left := min (halo_left (output_0_halo h)) (to_int step)\<rparr>\<rparr>
             else halo_now\<lparr>input_0_halo := (input_0_halo halo_now)\<lparr>halo_left := 0\<rparr>,
                    output_0_halo := (output_0_halo halo_now)\<lparr>halo_left := 0\<rparr>,
                    output_0_halo_broadcast_cnt := (output_0_halo_broadcast_cnt halo_now)\<lparr>halo_left := 0\<rparr>\<rparr>)
      in if final
         then left_done\<lparr>input_0_halo := (input_0_halo left_done)\<lparr>halo_right := halo_right (input_0_halo h)\<rparr>,
                output_0_halo := (output_0_halo left_done)\<lparr>halo_right := min (halo_right (output_0_halo h)) (to_int step)\<rparr>\<rparr>
         else left_done\<lparr>input_0_halo := (input_0_halo left_done)\<lparr>halo_right := 0\<rparr>,
                output_0_halo := (output_0_halo left_done)\<lparr>halo_right := 0\<rparr>,
                output_0_halo_broadcast_cnt := (output_0_halo_broadcast_cnt left_done)\<lparr>halo_right := 0\<rparr>\<rparr>)"

fun split_columns ::
  "DPULayer \<Rightarrow> u32 \<Rightarrow> u32 \<Rightarrow> u32 \<Rightarrow> u32 \<Rightarrow> HaloWorkload \<Rightarrow> u32 \<Rightarrow> u32 \<Rightarrow> nat \<Rightarrow> DPUWorkload list" where
  "split_columns layer maxWidth splits tile_height offset_height halo_now remainedWidth idy 0 = []"
| "split_columns layer maxWidth splits tile_height offset_height halo_now remainedWidth idy (Suc n) =
     (let tile_width = (if maxWidth < remainedWidth then maxWidth else remainedWidth);
          halo_now = column_halo (halo layer) halo_now (idy = 0) (idy = splits - 1) tile_width;
          offset_width = idy * maxWidth
      in createTileHW layer tile_width tile_height offset_width offset_height halo_now #
         split_columns layer maxWidth splits tile_height offset_height halo_now (remainedWidth - tile_width) (idy + 1) n)"

fun split_rows :: "DPULayer \<Rightarrow> u32 \<Rightarrow> u32 \<Rightarrow> u32 \<Rightarrow> u32 \<Rightarrow> u32 \<Rightarrow> u32 \<Rightarrow> nat \<Rightarrow> DPUWorkload list" where
  "split_rows layer maxWidth columns maxHeight splits remainedHeight idx 0 = []"
| "split_rows layer maxWidth columns maxHeight splits remainedHeight idx (Suc n) =
     (let currentHeightStep = (if maxHeight < remainedHeight then maxHeight else remainedHeight);
          halo_now = row_halo (halo layer) (idx = 0) (idx = splits - 1) currentHeightStep
      in split_columns layer maxWidth columns currentHeightStep (idx * maxHeight) halo_now (width (outputs_0 layer)) 0
           (unat columns) @
         split_rows layer maxWidth columns maxHeight splits (remainedHeight - currentHeightStep) (idx + 1) n)"

definition splitOverHW :: "DPULayer \<Rightarrow> u32 \<Rightarrow> u32 \<Rightarrow> ExecutionMode \<Rightarrow> DPUWorkloadsWithCyclesSplit result" where
  "splitOverHW layer widthFactor heightFactor mode =
     (if widthFactor = 0 \<or> heightFactor = 0 then Inl (undefined_behaviour ''division by zero'')
      else
        let gridSize = mpe_mode_to_grid mode;
            maxWidth = round_up (ceil_division (width (outputs_0 layer)) widthFactor) (grid_at gridSize Act_X);
            maxHeight = round_up (ceil_division (height (outputs_0 layer)) heightFactor) (grid_at gridSize Act_Y)
        in if maxWidth = 0 \<or> maxHeight = 0 then Inl (undefined_behaviour ''division by zero'')
           else
             let columns = ceil_division (width (outputs_0 layer)) maxWidth;
                 rows = ceil_division (height (outputs_0 layer)) maxHeight;
                 workloads = split_rows layer maxWidth columns maxHeight rows (height (outputs_0 layer)) 0 (unat rows)
             in Inr (setWorkloadsModeAndInfereInputShape
                  \<lparr>split_cycles = replicate (length workloads) NO_ERROR, split_workloads = workloads\<rparr> mode layer))"

fun HW_tile_factors ::
  "DPULayer \<Rightarrow> ExecutionMode \<Rightarrow> (u32 \<times> u32) list \<Rightarrow> DPUWorkloadsWithCyclesSplit list result" where
  "HW_tile_factors layer mode [] = Inr []"
| "HW_tile_factors layer mode ((w, h) # factors) =
     (if w \<le> tx (outputs_0 layer) \<and> h \<le> ty (outputs_0 layer)
      then bind_result (splitOverHW layer w h mode) (\<lambda>s. bind_result (HW_tile_factors layer mode factors) (\<lambda>rest. Inr (s # rest)))
      else HW_tile_factors layer mode factors)"

section \<open>Tiling over the channels\<close>

definition zTile_values :: "u32 list" where
  "zTile_values = concat (map (\<lambda>i. [2 ^ i, 2 ^ i + 16]) [4..<8])"

text \<open>The number of tiles of \<open>t\<close> channels; the quotient in \<^verbatim>\<open>double\<close> is close enough for the rounding up to be exact.\<close>

definition splits_in_Z :: "u32 \<Rightarrow> u32 \<Rightarrow> u32" where
  "splits_in_Z c t = word_of_nat ((unat c + unat t - 1) div unat t)"

definition Z_generateSplitPool :: "DPULayer \<Rightarrow> u32 \<Rightarrow> u32 \<Rightarrow> ExecutionMode \<Rightarrow> u32 list result" where
  "Z_generateSplitPool layer max_workloads numDPU mode =
     (if numDPU = 1 \<and> isNoSplitOperation (op layer) then Inr [1]
      else if device layer = VPU_2_0 \<and> mode \<noteq> VECTOR \<and> op layer \<noteq> CONVOLUTION then Inr [1]
      else
        let maxSplitsInZ = map (splits_in_Z (tz (outputs_0 layer))) zTile_values;
            maxZ = Max (set maxSplitsInZ)
        in split_pool numDPU (min max_workloads maxZ) maxSplitsInZ)"

definition getValidIntraTilesChannelsOptions :: "VPUDevice \<Rightarrow> SmartRanges" where
  "getValidIntraTilesChannelsOptions dev =
     (if NPU_RESERVED_1 \<le> dev then make_SmartRanges 16 256 16 (Some 32) else make_SmartRanges 16 64 16 (Some 32))"

definition isValidZ :: "u32 \<Rightarrow> u32 list \<Rightarrow> bool" where
  "isValidZ c validZTiles = (if validZTiles = [] then True else c \<in> set validZTiles)"

fun splitOverZ_loop ::
  "DPULayer \<Rightarrow> u32 \<Rightarrow> u32 \<Rightarrow> u32 list \<Rightarrow> u32 \<Rightarrow> u32 \<Rightarrow> nat \<Rightarrow> DPUWorkloadsWithCyclesSplit \<Rightarrow> DPUWorkloadsWithCyclesSplit option"
where
  "splitOverZ_loop layer gridSize_Z max_Z validZTiles remaining idx 0 s = Some s"
| "splitOverZ_loop layer gridSize_Z max_Z validZTiles remaining idx (Suc n) s =
     (let actual_channels = (if max_Z < remaining then max_Z else remaining);
          offset_channels = idx * max_Z
      in if actual_channels mod gridSize_Z \<noteq> 0 then None
         else if \<not> isValidZ actual_channels validZTiles then None
         else splitOverZ_loop layer gridSize_Z max_Z validZTiles (remaining - actual_channels) (idx + 1) n
                (add_tile (createTileZ layer actual_channels offset_channels) s))"

definition splitOverZ ::
  "DPULayer \<Rightarrow> ExecutionMode \<Rightarrow> u32 \<Rightarrow> u32 list \<Rightarrow> DPUWorkloadsWithCyclesSplit option result" where
  "splitOverZ layer mode nWorkloads validZTiles =
     (let gridSize_Z = grid_at (mpe_mode_to_grid mode) Act_Z;
          all_channels = tz (outputs_0 layer)
      in if all_channels < gridSize_Z \<or> all_channels mod gridSize_Z \<noteq> 0 then Inr None
         else if nWorkloads = 0 then Inl (undefined_behaviour ''division by zero'')
         else
           let max_Z = round_up (ceil_division all_channels nWorkloads) gridSize_Z
           in Inr (map_option (\<lambda>s. setWorkloadsModeAndInfereInputShape s mode layer)
                (splitOverZ_loop layer gridSize_Z max_Z validZTiles all_channels 0 (unat nWorkloads) empty_split)))"

fun splitInNOverZ_loop ::
  "DPULayer \<Rightarrow> int list \<Rightarrow> int \<Rightarrow> DPUWorkloadsWithCyclesSplit \<Rightarrow> DPUWorkloadsWithCyclesSplit option" where
  "splitInNOverZ_loop layer [] offset_channels s = Some s"
| "splitInNOverZ_loop layer (actual_channels # bins) offset_channels s =
     (if actual_channels \<le> 0 then None
      else splitInNOverZ_loop layer bins (to_int (to_u32 offset_channels + to_u32 actual_channels))
             (add_tile (createTileZ layer (to_u32 actual_channels) (to_u32 offset_channels)) s))"

definition splitInNOverZ ::
  "DPULayer \<Rightarrow> ExecutionMode \<Rightarrow> u32 \<Rightarrow> SmartRanges \<Rightarrow> DPUWorkloadsWithCyclesSplit option" where
  "splitInNOverZ layer mode nWorkloads allowed =
     (case divideBalanced allowed (to_int (channels (outputs_0 layer))) (to_int nWorkloads) [] of (split_status, split_bins) \<Rightarrow>
        if \<not> split_status then None
        else if length split_bins \<noteq> unat nWorkloads then None
        else map_option (\<lambda>s. setWorkloadsModeAndInfereInputShape s mode layer)
               (splitInNOverZ_loop layer split_bins 0 empty_split))"

text \<open>\<open>force_LegacyZTiling\<close> is the compile-time choice of the class, on by default in the build.\<close>

definition Z_tileMultipleWl ::
  "bool \<Rightarrow> DPULayer \<Rightarrow> ExecutionMode \<Rightarrow> u32 \<Rightarrow> DPUWorkloadsWithCyclesSplit option result" where
  "Z_tileMultipleWl force_LegacyZTiling layer mode nWorkloads =
     (if device layer < NPU_5_0 \<or> force_LegacyZTiling then
        if requireMaxZTile layer then
          case transformSmartRangetoVector (getValidIntraTilesChannelsOptions (device layer)) of
            None \<Rightarrow> Inl (undefined_behaviour ''loop without end'')
          | Some validZTiles \<Rightarrow> splitOverZ layer mode nWorkloads (map to_u32 validZTiles)
        else splitOverZ layer mode nWorkloads []
      else
        Inr (splitInNOverZ layer mode nWorkloads
          (if requireMaxZTile layer then getValidIntraTilesChannelsOptions (device layer)
           else make_SmartRanges 1 8192 16 None)))"

section \<open>Tiling over the channels by efficiency\<close>

definition ZEff_generateSplitPool :: "DPULayer \<Rightarrow> u32 \<Rightarrow> u32 list" where
  "ZEff_generateSplitPool layer numDPU =
     (if numDPU = 1 \<and> isNoSplitOperation (op layer) then [1]
      else if (channels (inputs_0 layer) < 16 \<or> channels (outputs_0 layer) < 16) \<and>
        (is_input_autopad (layer_workload layer) \<or> is_output_autopad layer) then [1]
      else [0])"

fun ZEff_tiles ::
  "DPULayer \<Rightarrow> bool \<Rightarrow> int list \<Rightarrow> u32 \<Rightarrow> DPUWorkloadsWithCyclesSplit \<Rightarrow> (DPUWorkloadsWithCyclesSplit \<times> u32) option" where
  "ZEff_tiles layer is_unaligned [] offset_channels s = Some (s, offset_channels)"
| "ZEff_tiles layer is_unaligned (size_now # bins) offset_channels s =
     (if size_now \<le> 0 then None
      else
        let tile = createTileZ layer (to_u32 size_now) offset_channels;
            tile = set_output_autopad (is_unaligned \<and> bins = []) tile
        in ZEff_tiles layer is_unaligned bins (offset_channels + to_u32 size_now) (add_tile tile s))"

definition fix_remainder_inputs :: "DPULayer \<Rightarrow> DPUWorkload \<Rightarrow> DPUWorkload" where
  "fix_remainder_inputs layer rem_wl =
     (if is_output_autopad rem_wl \<and> is_dwconv_family_operation (op rem_wl)
      then rem_wl\<lparr>inputs_0 :=
             VPUTensor_with_shape
               (mk_shape (width (inputs_0 rem_wl)) (height (inputs_0 rem_wl))
                 (dw_channel_align (channels (outputs_0 rem_wl))) (batches (inputs_0 rem_wl)))
               (inputs_0 layer)\<rparr>
      else rem_wl)"

definition splitOverZEfficiency ::
  "DPULayer \<Rightarrow> SplitBlock list \<Rightarrow> SplitBlock list \<Rightarrow> real \<Rightarrow> ExecutionMode \<Rightarrow> DPUWorkloadsWithCyclesSplit option result"
where
  "splitOverZEfficiency layer blocks remainders overhead mode =
     (if blocks = [] then Inr None
      else
        let oc = channels (outputs_0 layer);
            is_unaligned = is_output_unaligned (layer_workload layer)
        in bind_result (divideEfficiency overhead blocks remainders (to_int oc)) (\<lambda>bins.
             case bins of
               None \<Rightarrow> Inr None
             | Some [] \<Rightarrow> Inr None
             | Some split_bins \<Rightarrow>
                 (case ZEff_tiles layer is_unaligned split_bins 0 empty_split of
                    None \<Rightarrow> Inr None
                  | Some (s, offset_channels) \<Rightarrow>
                      if offset_channels \<noteq> oc then Inr None
                      else
                        let s = setWorkloadsModeAndInfereInputShape s mode layer;
                            wls = split_workloads s
                        in Inr (Some (if is_unaligned \<and> wls \<noteq> []
                             then s\<lparr>split_workloads := butlast wls @ [fix_remainder_inputs layer (last wls)]\<rparr>
                             else s)))))"

section \<open>The interface of the algorithms\<close>

fun generateSplitPool :: "TilingAlgorithm \<Rightarrow> u32 \<Rightarrow> ExecutionMode \<Rightarrow> u32 list result" where
  "generateSplitPool (HWTiling layer m) numDPU mode = HW_generateSplitPool layer m numDPU mode"
| "generateSplitPool (HTiling layer m) numDPU mode = HW_generateSplitPool layer m numDPU mode"
| "generateSplitPool (WTiling layer m) numDPU mode = HW_generateSplitPool layer m numDPU mode"
| "generateSplitPool (ZTiling layer m) numDPU mode = Z_generateSplitPool layer m numDPU mode"
| "generateSplitPool (ZEffTiling layer m blocks remainders overhead) numDPU mode = Inr (ZEff_generateSplitPool layer numDPU)"

definition optional_split :: "'a option result \<Rightarrow> 'a list result" where
  "optional_split r = bind_result r (\<lambda>s. Inr (case s of None \<Rightarrow> [] | Some x \<Rightarrow> [x]))"

fun tileMultipleWl ::
  "bool \<Rightarrow> TilingAlgorithm \<Rightarrow> ExecutionMode \<Rightarrow> u32 \<Rightarrow> DPUWorkloadsWithCyclesSplit list result" where
  "tileMultipleWl legacy (HWTiling layer m) mode nWorkloads = HW_tile_factors layer mode (getFactors nWorkloads)"
| "tileMultipleWl legacy (HTiling layer m) mode nWorkloads = optional_split (bind_result (splitOverHW layer 1 nWorkloads mode) (\<lambda>s. Inr (Some s)))"
| "tileMultipleWl legacy (WTiling layer m) mode nWorkloads = optional_split (bind_result (splitOverHW layer nWorkloads 1 mode) (\<lambda>s. Inr (Some s)))"
| "tileMultipleWl legacy (ZTiling layer m) mode nWorkloads = optional_split (Z_tileMultipleWl legacy layer mode nWorkloads)"
| "tileMultipleWl legacy (ZEffTiling layer m blocks remainders overhead) mode nWorkloads =
     optional_split (splitOverZEfficiency layer blocks remainders overhead mode)"

definition split_tile_in_workloads ::
  "bool \<Rightarrow> TilingAlgorithm \<Rightarrow> ExecutionMode \<Rightarrow> u32 \<Rightarrow> DPUWorkloadsWithCyclesSplit list result" where
  "split_tile_in_workloads legacy algo mode nWorkloads =
     (if nWorkloads = 1
      then Inr [setWorkloadsModeAndInfereInputShape
             \<lparr>split_cycles = [NO_ERROR], split_workloads = [layer_workload (layer_on_tile algo)]\<rparr> mode (layer_on_tile algo)]
      else tileMultipleWl legacy algo mode nWorkloads)"

definition algorithm_of_strategy :: "DPULayer \<Rightarrow> SplitOptions \<Rightarrow> VPUSplitStrategy \<Rightarrow> TilingAlgorithm list" where
  "algorithm_of_strategy layer options strategy =
     (case strategy of
        Z_TILING \<Rightarrow>
          if NPU_RESERVED \<le> device layer then [ZEffTiling layer (maxWorkloads options) [] [] 0]
          else [ZTiling layer (maxWorkloads options)]
      | HW_TILING \<Rightarrow> if isHWTilingAllowed layer options then [HWTiling layer (maxWorkloads options)] else []
      | H_TILING \<Rightarrow> if isHWTilingAllowed layer options then [HTiling layer (maxWorkloads options)] else []
      | W_TILING \<Rightarrow> if isHWTilingAllowed layer options then [WTiling layer (maxWorkloads options)] else [])"

definition getTilingAlgorithms :: "DPULayer \<Rightarrow> SplitOptions \<Rightarrow> TilingAlgorithm list" where
  "getTilingAlgorithms layer options = concat (map (algorithm_of_strategy layer options) (availableStrategies options))"

end
