(* ===== verification/Layer_Properties.thy ===== *)
theory Layer_Properties
  imports Layer_Split Hw_Characteristics
begin

text \<open>
  What each device prefers for layers, \<^verbatim>\<open>include/vpu/device_layer_properties/\<close>: the strategies to split a layer over tiles and the
  execution modes of the workloads on a tile. The three queries of \<open>ILayerProperties\<close> are functions of the record of tables the
  C++ templates are instantiated with; VPU 2.0 and 2.1 compute the modes from the output and have no tables.
\<close>

record LayerPropertiesData =
  valid_tiling_strategies :: "VPUTilingStrategy list"
  op_to_exec_mode :: "(Operation \<times> ExecutionMode list) list"
  dcim_exec_modes :: "ExecutionMode list"
  default_execution_mode :: ExecutionMode

datatype LayerProperties = LayerProperties_Device20 "VPUTilingStrategy list" | LayerProperties_All_Devices LayerPropertiesData

definition VPU2_0_LayerProperties :: LayerProperties where
  "VPU2_0_LayerProperties =
     LayerProperties_Device20 [VPUTilingStrategy.NONE, VPUTilingStrategy.SOH_Overlapped, VPUTilingStrategy.SOK]"

definition VPU2_7_LayerProperties :: LayerProperties where
  "VPU2_7_LayerProperties =
     LayerProperties_All_Devices
       \<lparr>valid_tiling_strategies = [VPUTilingStrategy.NONE, VPUTilingStrategy.SOH_Overlapped, VPUTilingStrategy.SOK],
        op_to_exec_mode =
          [(Operation.CM_CONVOLUTION, [CUBOID_16x16]), (Operation.DW_CONVOLUTION, [CUBOID_16x16]),
           (Operation.AVEPOOL, [CUBOID_16x16]), (Operation.MAXPOOL, [CUBOID_16x16]), (Operation.ELTWISE, [CUBOID_8x16]),
           (Operation.CONVOLUTION, [CUBOID_16x16, CUBOID_8x16, CUBOID_4x16])],
        dcim_exec_modes = [], default_execution_mode = CUBOID_16x16\<rparr>"

definition VPU4_0_LayerProperties :: LayerProperties where
  "VPU4_0_LayerProperties =
     LayerProperties_All_Devices
       \<lparr>valid_tiling_strategies =
          [VPUTilingStrategy.NONE, VPUTilingStrategy.SOH_Overlapped, VPUTilingStrategy.SOK, VPUTilingStrategy.SOW,
           VPUTilingStrategy.SOHW, VPUTilingStrategy.SOHK, VPUTilingStrategy.SOHO_K_SWITCH],
        op_to_exec_mode =
          [(Operation.CM_CONVOLUTION, [CUBOID_16x16]), (Operation.DW_CONVOLUTION, [CUBOID_16x16]),
           (Operation.AVEPOOL, [CUBOID_16x16]), (Operation.MAXPOOL, [CUBOID_16x16]), (Operation.ELTWISE, [CUBOID_8x16]),
           (Operation.CONVOLUTION, [CUBOID_16x16, CUBOID_8x16, CUBOID_4x16])],
        dcim_exec_modes = [], default_execution_mode = CUBOID_16x16\<rparr>"

definition VPU5_0_LayerProperties :: LayerProperties where
  "VPU5_0_LayerProperties =
     LayerProperties_All_Devices
       \<lparr>valid_tiling_strategies =
          [VPUTilingStrategy.NONE, VPUTilingStrategy.SOH_Overlapped, VPUTilingStrategy.SOK, VPUTilingStrategy.SOW,
           VPUTilingStrategy.SOHW, VPUTilingStrategy.SOHK, VPUTilingStrategy.SOHO_K_SWITCH],
        op_to_exec_mode =
          [(Operation.CONVOLUTION, [CUBOID_16x16, CUBOID_8x16, CUBOID_4x16]),
           (Operation.CM_CONVOLUTION, [CUBOID_16x16, CUBOID_8x16, CUBOID_4x16]),
           (Operation.DW_CONVOLUTION, [CUBOID_16x16]), (Operation.AVEPOOL, [CUBOID_16x16]),
           (Operation.MAXPOOL, [CUBOID_16x16]), (Operation.ELTWISE, [CUBOID_8x16]), (Operation.ELTWISE_MUL, [CUBOID_8x16]),
           (Operation.LAYER_NORM, [CUBOID_16x16, CUBOID_8x16, CUBOID_4x16])],
        dcim_exec_modes = [], default_execution_mode = CUBOID_16x16\<rparr>"

definition Default_LayerProperties :: LayerProperties where
  "Default_LayerProperties =
     LayerProperties_All_Devices
       \<lparr>valid_tiling_strategies = [], op_to_exec_mode = [], dcim_exec_modes = [], default_execution_mode = CUBOID_16x16\<rparr>"

definition get_properties :: "VPUDevice \<Rightarrow> LayerProperties" where
  "get_properties d =
     extract_tuple_content d
       [VPU2_0_LayerProperties, VPU2_0_LayerProperties, VPU2_7_LayerProperties, VPU4_0_LayerProperties,
        VPU5_0_LayerProperties, VPU5_0_LayerProperties, Default_LayerProperties]"

text \<open>The quotients of the code are exact in \<^verbatim>\<open>double\<close>, so the rounded-up quotients are those of natural numbers.\<close>

definition device20_execution_modes :: "DPUWorkload \<Rightarrow> ExecutionMode list" where
  "device20_execution_modes wl =
     (if is_fp16family_dtype (dtype (inputs_0 wl)) \<or> is_fp16family_dtype (dtype (outputs_0 wl)) then [VECTOR_FP16]
      else
        let W = unat (dimX (shape (outputs_0 wl))); H = unat (dimY (shape (outputs_0 wl)));
            matrixPartsCount = ((W + 3) div 4) * ((H + 3) div 4);
            vectorPartsCount = ((W + 15) div 16) * H
        in if vectorPartsCount \<le> matrixPartsCount then [VECTOR] else [MATRIX])"

definition getValidTilingExecutionMode :: "LayerProperties \<Rightarrow> DPUWorkload \<Rightarrow> ExecutionMode list" where
  "getValidTilingExecutionMode properties wl =
     (case properties of
        LayerProperties_Device20 _ \<Rightarrow> device20_execution_modes wl
      | LayerProperties_All_Devices V \<Rightarrow>
          if mpe_engine wl = DCIM then dcim_exec_modes V
          else case map_of (op_to_exec_mode V) (op wl) of
                 Some modes \<Rightarrow> modes
               | None \<Rightarrow> [CUBOID_16x16, CUBOID_8x16, CUBOID_4x16])"

definition getValidDefaultExecutionMode :: "LayerProperties \<Rightarrow> VPUTensor \<Rightarrow> ExecutionMode" where
  "getValidDefaultExecutionMode properties tensor =
     (case properties of
        LayerProperties_Device20 _ \<Rightarrow> if is_any_float_dtype (dtype tensor) then VECTOR_FP16 else MATRIX
      | LayerProperties_All_Devices V \<Rightarrow> default_execution_mode V)"

definition getValidTilingStrategies :: "LayerProperties \<Rightarrow> VPUTilingStrategy list" where
  "getValidTilingStrategies properties =
     (case properties of
        LayerProperties_Device20 strategies \<Rightarrow> strategies
      | LayerProperties_All_Devices V \<Rightarrow> valid_tiling_strategies V)"

end
