(* ===== verification/Dpu_Tiler.thy ===== *)
theory Dpu_Tiler
  imports Intra_Tile Layer_Properties
begin

text \<open>
  Choosing the best split of a layer on one tile: \<open>WorkloadCostEvaluator\<close>
  (\<^verbatim>\<open>src/optimization/workload_cost_evaluator.cpp\<close>) and \<open>DPUTilerImplementation\<close>
  (\<^verbatim>\<open>src/optimization/dpu_tiler_impl.cpp\<close>).

  The cost of a workload is asked from the cost model, whose caches change with every question, so an operation takes the state of
  the cost model and returns the new one beside its value or exception. The operation that is asked, \<open>VPUCostModel::DPU\<close>, is
  the argument \<open>dpu\<close> of all definitions. The clock that limits the search is the argument \<open>late\<close>: whether the
  limit is exceeded when the clock is read for the \<open>k\<close>-th time.
\<close>

type_synonym 's dpu_cost = "DPUWorkload \<Rightarrow> 's \<Rightarrow> CyclesInterfaceType result \<times> 's"

definition run_then :: "'a result \<times> 's \<Rightarrow> ('a \<Rightarrow> 's \<Rightarrow> 'b result \<times> 's) \<Rightarrow> 'b result \<times> 's" where
  "run_then r f = (case r of (Inl e, st) \<Rightarrow> (Inl e, st) | (Inr x, st) \<Rightarrow> f x st)"

lemma run_then_simps [simp]: "run_then (Inl e, st) f = (Inl e, st)" "run_then (Inr x, st) f = f x st"
  by (simp_all add: run_then_def)

section \<open>The costs of workloads and of a split\<close>

text \<open>What is computed before an exception stays in the array of cycles.\<close>

fun compute_cycles ::
  "'s dpu_cost \<Rightarrow> DPUWorkload list \<Rightarrow> CyclesInterfaceType list \<Rightarrow> 's \<Rightarrow> unit result \<times> CyclesInterfaceType list \<times> 's" where
  "compute_cycles dpu [] cycles st = (Inr (), cycles, st)"
| "compute_cycles dpu (wl # wls) cycles st =
     (case dpu wl st of
        (Inl e, st) \<Rightarrow> (Inl e, cycles, st)
      | (Inr c, st) \<Rightarrow> (case compute_cycles dpu wls (tl cycles) st of (r, cs, st) \<Rightarrow> (r, c # cs, st)))"

definition computeWorkloadCycles ::
  "'s dpu_cost \<Rightarrow> DPUWorkloadsWithCyclesSplit \<Rightarrow> 's \<Rightarrow> unit result \<times> DPUWorkloadsWithCyclesSplit \<times> 's" where
  "computeWorkloadCycles dpu s st =
     (let n = length (split_workloads s);
          resized = take n (split_cycles s) @ replicate (n - length (split_cycles s)) 0
      in case compute_cycles dpu (split_workloads s) resized st of (r, cs, st) \<Rightarrow> (r, s\<lparr>split_cycles := cs\<rparr>, st))"

definition countErrors :: "CyclesInterfaceType list \<Rightarrow> nat" where
  "countErrors workloads_cycles = length (filter isErrorCode workloads_cycles)"

definition firstErrorIndex :: "CyclesInterfaceType list \<Rightarrow> int" where
  "firstErrorIndex workloads_cycles =
     (if 0 < countErrors workloads_cycles
      then (if list_ex isErrorCode workloads_cycles
            then int (length (takeWhile (\<lambda>c. \<not> isErrorCode c) workloads_cycles)) else - 1)
      else - 1)"

definition getWorkloadsDevice :: "DPUWorkload list \<Rightarrow> VPUDevice result" where
  "getWorkloadsDevice wls =
     (case wls of
        [] \<Rightarrow> Inl (invalid_argument ''getWorkloadsDevice: empty workloads list'')
      | w # rest \<Rightarrow>
          if list_ex (\<lambda>v. device v \<noteq> device w) rest
          then Inl (invalid_argument ''getWorkloadsDevice: more than one device for a workloads list'')
          else Inr (device w))"

definition schedule_split :: "DPUWorkloadsWithCyclesSplit \<Rightarrow> u32 \<Rightarrow> CyclesInterfaceType result" where
  "schedule_split s overhead =
     (if 0 < countErrors (split_cycles s) then
        let errIndex = (if 0 \<le> firstErrorIndex (split_cycles s) then firstErrorIndex (split_cycles s) else 0)
        in Inr (split_cycles s ! nat errIndex)
      else bind_result (getWorkloadsDevice (split_workloads s)) (\<lambda>d.
        case dpu_schedule (nDPU_per_tile (get_hw_info d)) (split_cycles s) overhead of
          None \<Rightarrow> Inl (undefined_behaviour ''top of an empty queue'')
        | Some c \<Rightarrow> Inr c))"

definition computeSplitCycles ::
  "'s dpu_cost \<Rightarrow> DPUWorkloadsWithCyclesSplit \<Rightarrow> u32 \<Rightarrow> 's \<Rightarrow>
   CyclesInterfaceType result \<times> DPUWorkloadsWithCyclesSplit \<times> 's" where
  "computeSplitCycles dpu s overhead st =
     (if split_workloads s = [] then (Inr 0, s, st)
      else
        case computeWorkloadCycles dpu s st of
          (Inl e, s, st) \<Rightarrow> (Inl e, s, st)
        | (Inr _, s, st) \<Rightarrow> (schedule_split s overhead, s, st))"

section \<open>Measured blocks\<close>

definition createTestLayer :: "DPULayer \<Rightarrow> u32 \<Rightarrow> DPULayer" where
  "createTestLayer base_layer tile_channels =
     (let out = outputs_0 base_layer;
          test_layer =
            base_layer\<lparr>outputs_0 := VPUTensor_with_shape (mk_shape (width out) (height out) tile_channels (batches out)) out\<rparr>;
          inp = inputs_0 base_layer
      in if is_dwconv_family_operation (op base_layer) then
           let in_channels =
                 (if tile_channels mod 16 \<noteq> 0 \<and> \<not> (tile_channels < 16 \<and> is_input_autopad (layer_workload base_layer))
                  then dw_channel_align tile_channels else tile_channels)
           in test_layer\<lparr>inputs_0 := VPUTensor_with_shape (mk_shape (width inp) (height inp) in_channels (batches inp)) inp\<rparr>
         else test_layer)"

fun measureCandidateBlocks ::
  "'s dpu_cost \<Rightarrow> DPULayer \<Rightarrow> ExecutionMode \<Rightarrow> u32 list \<Rightarrow> 's \<Rightarrow> SplitBlock list result \<times> 's" where
  "measureCandidateBlocks dpu base_layer mode [] st = (Inr [], st)"
| "measureCandidateBlocks dpu base_layer mode (sz # sizes) st =
     (let test_wl = (layer_workload (createTestLayer base_layer sz))\<lparr>execution_order := mode\<rparr>
      in run_then (dpu test_wl st) (\<lambda>measured_cost st.
           run_then (measureCandidateBlocks dpu base_layer mode sizes st) (\<lambda>rest st.
             (Inr (if \<not> isErrorCode measured_cost \<and> 0 < measured_cost
                   then make_SplitBlock (to_int sz) measured_cost # rest else rest), st))))"

section \<open>All splits of the tilers\<close>

type_synonym costed_split = "CyclesInterfaceType \<times> DPUWorkloadsWithCyclesSplit"

definition no_zero_cost :: "CyclesInterfaceType \<Rightarrow> CyclesInterfaceType" where
  "no_zero_cost cycles = (if cycles \<le> 0 then ERROR_TILE_SPLIT_ZERO_CYC_OUTPUT else cycles)"

text \<open>Only what derives from \<^verbatim>\<open>std::exception\<close> is caught; undefined behaviour is not an exception.\<close>

definition measure_variant ::
  "'s dpu_cost \<Rightarrow> u32 \<Rightarrow> DPUWorkloadsWithCyclesSplit \<Rightarrow> 's \<Rightarrow> costed_split result \<times> 's" where
  "measure_variant dpu overhead s st =
     (case computeSplitCycles dpu s overhead st of
        (Inr cycles, s, st) \<Rightarrow> (Inr (no_zero_cost cycles, s), st)
      | (Inl (undefined_behaviour t), s, st) \<Rightarrow> (Inl (undefined_behaviour t), st)
      | (Inl e, s, st) \<Rightarrow> (Inr (ERROR_TILE_SPLIT_EXCEPTION, s), st))"

fun measure_variants ::
  "'s dpu_cost \<Rightarrow> u32 \<Rightarrow> DPUWorkloadsWithCyclesSplit list \<Rightarrow> 's \<Rightarrow> costed_split list result \<times> 's" where
  "measure_variants dpu overhead [] st = (Inr [], st)"
| "measure_variants dpu overhead (s # variants) st =
     run_then (measure_variant dpu overhead s st) (\<lambda>c st.
       run_then (measure_variants dpu overhead variants st) (\<lambda>rest st. (Inr (c # rest), st)))"

text \<open>The loop over the numbers of workloads returns the costs and, if the clock has run out, \<^verbatim>\<open>true\<close>; the clock is counted on.\<close>

fun measure_counts ::
  "'s dpu_cost \<Rightarrow> bool \<Rightarrow> (nat \<Rightarrow> bool) \<Rightarrow> SplitOptions \<Rightarrow> TilingAlgorithm \<Rightarrow> ExecutionMode \<Rightarrow> u32 list \<Rightarrow> nat \<Rightarrow> 's \<Rightarrow>
   (costed_split list \<times> bool \<times> nat) result \<times> 's" where
  "measure_counts dpu legacy late options algo mode [] k st = (Inr ([], False, k), st)"
| "measure_counts dpu legacy late options algo mode (nWorkloads # counts) k st =
     (if 0 < maxLatencyUs options \<and> late k then (Inr ([], True, k), st)
      else
        run_then (split_tile_in_workloads legacy algo mode nWorkloads, st) (\<lambda>variants st.
          run_then (measure_variants dpu (runtimeOverhead options) variants st) (\<lambda>cs st.
            run_then (measure_counts dpu legacy late options algo mode counts (k + 1) st) (\<lambda>(rest, stop, k) st.
              (Inr (cs @ rest, stop, k), st)))))"

fun measure_all ::
  "'s dpu_cost \<Rightarrow> bool \<Rightarrow> (nat \<Rightarrow> bool) \<Rightarrow> SplitOptions \<Rightarrow> (TilingAlgorithm \<times> ExecutionMode) list \<Rightarrow> nat \<Rightarrow> 's \<Rightarrow>
   costed_split list result \<times> 's" where
  "measure_all dpu legacy late options [] k st = (Inr [], st)"
| "measure_all dpu legacy late options ((algo, mode) # tries) k st =
     run_then (generateSplitPool algo (nDPU options) mode, st) (\<lambda>counts st.
       run_then (measure_counts dpu legacy late options algo mode counts k st) (\<lambda>(cs, stop, k) st.
         if stop then (Inr cs, st)
         else run_then (measure_all dpu legacy late options tries k st) (\<lambda>rest st. (Inr (cs @ rest), st))))"

definition generateSplits ::
  "'s dpu_cost \<Rightarrow> bool \<Rightarrow> (nat \<Rightarrow> bool) \<Rightarrow> TilingAlgorithm list \<Rightarrow> ExecutionMode list \<Rightarrow> SplitOptions \<Rightarrow> 's \<Rightarrow>
   costed_split list result \<times> 's" where
  "generateSplits dpu legacy late algorithms valid_execution_modes options st =
     measure_all dpu legacy late options (List.product algorithms valid_execution_modes) 0 st"

section \<open>The splits by efficiency\<close>

fun is_ZEff :: "TilingAlgorithm \<Rightarrow> bool" where
  "is_ZEff (ZEffTiling layer m blocks remainders overhead) = True"
| "is_ZEff algo = False"

fun setBlocks :: "SplitBlock list \<Rightarrow> TilingAlgorithm \<Rightarrow> TilingAlgorithm" where
  "setBlocks new_blocks (ZEffTiling layer m blocks remainders overhead) = ZEffTiling layer m new_blocks remainders overhead"
| "setBlocks new_blocks algo = algo"

fun setRemainderBlocks :: "SplitBlock list \<Rightarrow> TilingAlgorithm \<Rightarrow> TilingAlgorithm" where
  "setRemainderBlocks new_blocks (ZEffTiling layer m blocks remainders overhead) = ZEffTiling layer m blocks new_blocks overhead"
| "setRemainderBlocks new_blocks algo = algo"

definition findZEffTilingAlgorithm :: "TilingAlgorithm list \<Rightarrow> TilingAlgorithm option" where
  "findZEffTilingAlgorithm algorithms = find is_ZEff algorithms"

definition isDWLimitedCase :: "DPULayer \<Rightarrow> bool" where
  "isDWLimitedCase layer \<longleftrightarrow>
     act_sparsity layer = 0 \<and> gridW (kernels layer) = 1 \<and> gridH (kernels layer) = 1 \<and>
     width (outputs_0 layer) \<le> 16 \<and> height (outputs_0 layer) \<le> 16 \<and>
     (op layer = DW_CONVOLUTION \<or> op layer = MAXPOOL \<or> op layer = AVEPOOL)"

definition candidate_channels :: "DPULayer \<Rightarrow> u32 list result" where
  "candidate_channels layer =
     (let output_channels = channels (outputs_0 layer);
          max_block_size = (if output_channels < 32 then 16 else (output_channels div 32) * 32);
          effective_max_block_size = (if isDWLimitedCase layer then min 32 max_block_size else max_block_size)
      in case transformSmartRangetoVector
             (make_SmartRanges 16 (to_int (min 256 effective_max_block_size)) 16 (Some 32)) of
           None \<Rightarrow> Inl (undefined_behaviour ''loop without end'')
         | Some xs \<Rightarrow> Inr (map to_u32 xs))"

definition input_channels_for_remainder :: "DPULayer \<Rightarrow> u32 \<Rightarrow> u32" where
  "input_channels_for_remainder layer r =
     (if r < 16 \<and> is_input_autopad (layer_workload layer) then r else dw_channel_align r)"

definition has_remainder :: "DPULayer \<Rightarrow> bool" where
  "has_remainder layer \<longleftrightarrow> channels (outputs_0 layer) mod 16 \<noteq> 0 \<and> is_output_autopad layer"

text \<open>The counter \<open>r\<close> wraps around when the channels are within 16 of the largest number, and the loop does not end.\<close>

definition remainder_sizes :: "DPULayer \<Rightarrow> u32 list result" where
  "remainder_sizes layer =
     (let output_channels = channels (outputs_0 layer) in
      if \<not> has_remainder layer then Inr []
      else if 2 ^ 32 \<le> unat output_channels + 16 then Inl (undefined_behaviour ''loop without end'')
      else
        let residue = output_channels mod 16;
            sizes = map (\<lambda>k. residue + 16 * word_of_nat k) [0..<(unat output_channels - unat residue) div 16 + 1]
        in Inr (if is_dwconv_family_operation (op layer)
             then filter (\<lambda>r. \<not> channels (inputs_0 layer) < (output_channels - r) + input_channels_for_remainder layer r) sizes
             else sizes))"

text \<open>
  One execution mode. The algorithm keeps the blocks it was given; an empty list of blocks skips the mode.
  Nothing is caught here.
\<close>

definition measure_split :: "'s dpu_cost \<Rightarrow> u32 \<Rightarrow> DPUWorkloadsWithCyclesSplit \<Rightarrow> 's \<Rightarrow> costed_split result \<times> 's" where
  "measure_split dpu overhead s st =
     (case computeSplitCycles dpu s overhead st of
        (Inr cycles, s, st) \<Rightarrow> (Inr (no_zero_cost cycles, s), st)
      | (Inl e, s, st) \<Rightarrow> (Inl e, st))"

fun measure_splits ::
  "'s dpu_cost \<Rightarrow> u32 \<Rightarrow> DPUWorkloadsWithCyclesSplit list \<Rightarrow> 's \<Rightarrow> costed_split list result \<times> 's" where
  "measure_splits dpu overhead [] st = (Inr [], st)"
| "measure_splits dpu overhead (s # variants) st =
     run_then (measure_split dpu overhead s st) (\<lambda>c st.
       run_then (measure_splits dpu overhead variants st) (\<lambda>rest st. (Inr (c # rest), st)))"

definition zeff_blocks ::
  "'s dpu_cost \<Rightarrow> DPULayer \<Rightarrow> u32 list \<Rightarrow> u32 list \<Rightarrow> ExecutionMode \<Rightarrow> TilingAlgorithm \<Rightarrow> 's \<Rightarrow>
   (bool \<times> TilingAlgorithm) result \<times> 's" where
  "zeff_blocks dpu layer candidates remainders mode algo st =
     run_then (measureCandidateBlocks dpu layer mode candidates st) (\<lambda>blocks st.
       if blocks = [] then (Inr (False, algo), st)
       else
         let algo = setBlocks blocks algo in
         if has_remainder layer then
           run_then (measureCandidateBlocks dpu layer mode remainders st) (\<lambda>remainder_blocks st.
             if remainder_blocks = [] then (Inr (False, algo), st)
             else (Inr (True, setRemainderBlocks remainder_blocks algo), st))
         else (Inr (True, algo), st))"

fun zeff_modes ::
  "'s dpu_cost \<Rightarrow> bool \<Rightarrow> SplitOptions \<Rightarrow> DPULayer \<Rightarrow> u32 list \<Rightarrow> u32 list \<Rightarrow> TilingAlgorithm \<Rightarrow> ExecutionMode list \<Rightarrow> 's \<Rightarrow>
   costed_split list result \<times> 's" where
  "zeff_modes dpu legacy options layer candidates remainders algo [] st = (Inr [], st)"
| "zeff_modes dpu legacy options layer candidates remainders algo (mode # modes) st =
     run_then (generateSplitPool algo (nDPU options) mode, st) (\<lambda>pool st.
       let nWorkloads = hd pool in
       run_then (if nWorkloads = 0 then zeff_blocks dpu layer candidates remainders mode algo st else (Inr (True, algo), st))
         (\<lambda>(go_on, algo) st.
            if \<not> go_on then zeff_modes dpu legacy options layer candidates remainders algo modes st
            else
              run_then (split_tile_in_workloads legacy algo mode nWorkloads, st) (\<lambda>variants st.
                run_then (measure_splits dpu (runtimeOverhead options) variants st) (\<lambda>cs st.
                  run_then (zeff_modes dpu legacy options layer candidates remainders algo modes st) (\<lambda>rest st.
                    (Inr (cs @ rest), st))))))"

definition generateSplits_processZEffTilingSplits ::
  "'s dpu_cost \<Rightarrow> bool \<Rightarrow> TilingAlgorithm list \<Rightarrow> DPULayer \<Rightarrow> ExecutionMode list \<Rightarrow> SplitOptions \<Rightarrow> 's \<Rightarrow>
   costed_split list result \<times> 's" where
  "generateSplits_processZEffTilingSplits dpu legacy algorithms layer valid_execution_modes options st =
     (case findZEffTilingAlgorithm algorithms of
        None \<Rightarrow> (Inr [], st)
      | Some algo \<Rightarrow>
          run_then (candidate_channels layer, st) (\<lambda>candidates st.
            run_then (remainder_sizes layer, st) (\<lambda>remainders st.
              zeff_modes dpu legacy options layer candidates remainders algo valid_execution_modes st)))"

section \<open>The best split\<close>

definition split_comp :: "costed_split \<Rightarrow> costed_split \<Rightarrow> bool" where
  "split_comp a b =
     (if isErrorCode (fst a) \<or> fst a \<le> 0 then False
      else if isErrorCode (fst b) \<or> fst b \<le> 0 then True
      else fst a < fst b)"

fun min_element :: "('a \<Rightarrow> 'a \<Rightarrow> bool) \<Rightarrow> 'a \<Rightarrow> 'a list \<Rightarrow> 'a" where
  "min_element compf smallest [] = smallest"
| "min_element compf smallest (x # xs) = min_element compf (if compf x smallest then x else smallest) xs"

text \<open>The cost with its workloads, and all the splits that were looked at.\<close>

definition intraTileSplit ::
  "'s dpu_cost \<Rightarrow> bool \<Rightarrow> (nat \<Rightarrow> bool) \<Rightarrow> DPULayer \<Rightarrow> SplitOptions \<Rightarrow> 's \<Rightarrow>
   ((CyclesInterfaceType \<times> DPUWorkload list) \<times> DPUWorkloadsWithCyclesSplit list) result \<times> 's" where
  "intraTileSplit dpu legacy late layer options st =
     (let valid_execution_modes = getValidTilingExecutionMode (get_properties (device layer)) (layer_workload layer);
          algorithms = getTilingAlgorithms layer options
      in run_then
           (if findZEffTilingAlgorithm algorithms \<noteq> None
            then generateSplits_processZEffTilingSplits dpu legacy algorithms layer valid_execution_modes options st
            else generateSplits dpu legacy late algorithms valid_execution_modes options st)
           (\<lambda>splits_costs st.
              case splits_costs of
                [] \<Rightarrow> (Inl (runtime_error ''intraTileSplit: no valid workload generated''), st)
              | c # cs \<Rightarrow>
                  let minimum_split = min_element split_comp c cs
                  in (Inr ((fst minimum_split, split_workloads (snd minimum_split)), map snd splits_costs), st)))"

end
