(* ===== verification/Efficiency_Laws.thy ===== *)
theory Efficiency_Laws
  imports Efficiency_Splitter
begin

text \<open>
  Correctness of the dynamic programme of \<open>Efficiency_Splitter\<close>: it finds a decomposition exactly if there is one, and, where
  the costs are computed without rounding, one of least cost and, among those, with the fewest blocks.
\<close>

section \<open>Decompositions\<close>

definition composes :: "SplitBlock list \<Rightarrow> SplitBlock list \<Rightarrow> nat \<Rightarrow> bool" where
  "composes blocks bs n \<longleftrightarrow> set bs \<subseteq> {b \<in> set blocks. usable b} \<and> sum_list (map block_units bs) = n"

lemma composes_Nil [simp]: "composes blocks [] n \<longleftrightarrow> n = 0"
  by (auto simp: composes_def)

lemma composes_Cons:
  "composes blocks (b # bs) n \<longleftrightarrow> b \<in> set blocks \<and> usable b \<and> block_units b \<le> n \<and> composes blocks bs (n - block_units b)"
  by (auto simp: composes_def)

lemma composes_size: "composes blocks bs n \<Longrightarrow> sum_list (map block_size bs) = 16 * int n"
  by (induction bs arbitrary: n) (auto simp: composes_Cons dest!: units_usable)

section \<open>A decomposition is found exactly if there is one\<close>

text \<open>\<open>linked\<close>: the choice at a reached entry leads back to a reached entry. \<open>covered\<close>: what the tried pairs reach is reached.\<close>

definition linked :: "SplitBlock list \<Rightarrow> nat \<Rightarrow> DynProgState list \<Rightarrow> int list \<Rightarrow> bool" where
  "linked blocks t dyn ch \<longleftrightarrow> length dyn = t + 1 \<and> length ch = t + 1 \<and> dyn ! 0 \<noteq> None \<and>
     (\<forall>j\<le>t. 0 < j \<longrightarrow> dyn ! j \<noteq> None \<longrightarrow>
        (\<exists>b\<in>set blocks. usable b \<and> ch ! j = block_size b \<and> block_units b \<le> j \<and> dyn ! (j - block_units b) \<noteq> None))"

definition covered :: "SplitBlock list \<Rightarrow> nat \<Rightarrow> nat \<Rightarrow> SplitBlock list \<Rightarrow> DynProgState list \<Rightarrow> bool" where
  "covered blocks t i tried dyn \<longleftrightarrow>
     (\<forall>i' b. i' \<le> i \<longrightarrow> b \<in> set (if i' < i then blocks else tried) \<longrightarrow> usable b \<longrightarrow> i' + block_units b \<le> t \<longrightarrow> dyn ! i' \<noteq> None \<longrightarrow>
        dyn ! (i' + block_units b) \<noteq> None)"

lemma linked_update:
  assumes "linked blocks t dyn ch" "b \<in> set blocks" "extends ovh t i b dyn c n"
  shows "linked blocks t (dyn[i + block_units b := Some x]) (ch[i + block_units b := block_size b])"
proof -
  have u: "usable b" "i + block_units b \<le> t" "dyn ! i \<noteq> None" "0 < block_units b"
    using assms(3) units_usable by (auto simp: extends_def)
  have l: "length dyn = t + 1" "length ch = t + 1" using assms(1) by (simp_all add: linked_def)
  have mono: "dyn ! k \<noteq> None \<Longrightarrow> dyn[i + block_units b := Some x] ! k \<noteq> None" for k
    by (cases "k = i + block_units b"; cases "i + block_units b < length dyn") (simp_all add: list_update_beyond)
  show ?thesis
    unfolding linked_def
  proof (intro conjI allI impI)
    fix j
    assume j: "j \<le> t" "0 < j" "dyn[i + block_units b := Some x] ! j \<noteq> None"
    show "\<exists>b'\<in>set blocks. usable b' \<and> ch[i + block_units b := block_size b] ! j = block_size b' \<and> block_units b' \<le> j \<and>
        dyn[i + block_units b := Some x] ! (j - block_units b') \<noteq> None"
    proof (cases "j = i + block_units b")
      case True
      then show ?thesis using assms(2) u l j mono [OF u(3)] by (intro bexI [of _ b]) auto
    next
      case False
      then have "dyn ! j \<noteq> None" using j by simp
      then show ?thesis using assms(1) j False mono unfolding linked_def by (metis nth_list_update_neq)
    qed
  qed (use assms(1) mono in \<open>auto simp: linked_def\<close>)
qed

lemma covered_update:
  assumes "covered blocks t i tried dyn" "extends ovh t i b dyn c n" "i < t" "length dyn = t + 1"
  shows "covered blocks t i (tried @ [b]) (dyn[i + block_units b := Some x])"
proof -
  have u: "usable b" "i + block_units b \<le> t" "0 < block_units b" using assms(2) units_usable by (auto simp: extends_def)
  show ?thesis
    unfolding covered_def
  proof (intro allI impI)
    fix i' b'
    assume h: "i' \<le> i" "b' \<in> set (if i' < i then blocks else tried @ [b])" "usable b'" "i' + block_units b' \<le> t"
      "dyn[i + block_units b := Some x] ! i' \<noteq> None"
    then have d: "dyn ! i' \<noteq> None" using u by (simp add: nth_list_update split: if_splits)
    show "dyn[i + block_units b := Some x] ! (i' + block_units b') \<noteq> None"
    proof (cases "i' + block_units b' = i + block_units b")
      case False
      then have "b' \<in> set (if i' < i then blocks else tried)" using h(1,2) by (auto split: if_splits)
      then show ?thesis using assms(1) h d False unfolding covered_def by (simp add: nth_list_update)
    qed (use u assms(4) in simp)
  qed
qed

lemma covered_keep:
  assumes "covered blocks t i tried dyn" "\<forall>c n. \<not> extends ovh t i b dyn c n"
  shows "covered blocks t i (tried @ [b]) dyn"
  using assms
  by (auto simp: covered_def extends_def is_improvement_def split: option.splits if_splits)

lemma covered_next:
  assumes "covered blocks t i blocks dyn \<or> covered blocks t i [] dyn \<and> dyn ! i = None"
  shows "covered blocks t (Suc i) [] dyn"
  using assms by (auto simp: covered_def less_Suc_eq le_Suc_eq split: if_splits)

lemma forward_pass_reaches:
  assumes "\<forall>b\<in>set blocks. 0 < block_size b"
  shows "\<exists>dyn ch. forward_pass ovh blocks t [0..<t] ((replicate (t + 1) None)[0 := Some (0, 0)], replicate (t + 1) (- 1)) =
      Inr (dyn, ch) \<and> linked blocks t dyn ch \<and> covered blocks t t [] dyn"
proof -
  let ?I = "\<lambda>i tried dyn ch. linked blocks t dyn ch \<and> covered blocks t i tried dyn"
  have init: "?I 0 [] ((replicate (t + 1) None)[0 := Some (0, 0)]) (replicate (t + 1) (- 1))"
    by (auto simp: linked_def covered_def nth_list_update)
  show ?thesis
    by (rule forward_pass_induct [OF assms, where I = ?I, OF init])
      (auto simp del: not_None_eq intro: linked_update covered_update covered_keep covered_next simp: linked_def [THEN iffD1])
qed

lemma backtrack_step:
  assumes "usable b" "ch ! j = block_size b" "block_units b \<le> j" "backtrack ch (int (j - block_units b)) = Inr (Some ys)"
  shows "backtrack ch (int j) = Inr (Some (block_size b # ys))"
proof -
  note u = units_usable [OF assms(1)]
  have e: "int j - block_size b div 16 = int (j - block_units b)" using u assms(3) by simp
  have "\<not> block_size b \<le> 0" "\<not> block_size b < 16" "0 < j" using u assms(3) by auto
  then have "backtrack ch (int j) = bind_result (backtrack ch (int j - block_size b div 16))
      (\<lambda>rest. Inr (map_option (\<lambda>xs. block_size b # xs) rest))"
    using assms(2) by (subst backtrack.simps) (simp add: Let_def)
  then show ?thesis unfolding e assms(4) by simp
qed

lemma backtrack_linked:
  assumes "linked blocks t dyn ch"
  shows "j \<le> t \<Longrightarrow> dyn ! j \<noteq> None \<Longrightarrow>
    \<exists>bs. backtrack ch (int j) = Inr (Some (map block_size bs)) \<and> composes blocks bs j"
proof (induction j rule: less_induct)
  case (less j)
  show ?case
  proof (cases "j = 0")
    case True
    then show ?thesis by (intro exI [of _ "[]"]) (simp add: backtrack.simps)
  next
    case False
    obtain b where b: "b \<in> set blocks" "usable b" "ch ! j = block_size b" "block_units b \<le> j" "dyn ! (j - block_units b) \<noteq> None"
      using assms less.prems False unfolding linked_def by blast
    have "j - block_units b < j" "j - block_units b \<le> t" using units_usable [OF b(2)] False less.prems by auto
    then obtain bs where bs: "backtrack ch (int (j - block_units b)) = Inr (Some (map block_size bs))"
      "composes blocks bs (j - block_units b)"
      using less.IH b(5) by blast
    have "backtrack ch (int j) = Inr (Some (map block_size (b # bs)))"
      using backtrack_step [OF b(2-4) bs(1)] by simp
    moreover have "composes blocks (b # bs) j" using b bs(2) by (simp add: composes_Cons)
    ultimately show ?thesis by blast
  qed
qed

lemma covered_reaches:
  assumes "covered blocks t t [] dyn" "dyn ! 0 \<noteq> None"
  shows "composes blocks bs n \<Longrightarrow> i + n \<le> t \<Longrightarrow> dyn ! i \<noteq> None \<Longrightarrow> dyn ! (i + n) \<noteq> None"
proof (induction bs arbitrary: i n)
  case Nil
  then show ?case by simp
next
  case (Cons b bs)
  have b: "b \<in> set blocks" "usable b" "block_units b \<le> n" "composes blocks bs (n - block_units b)"
    using Cons.prems(1) by (simp_all add: composes_Cons)
  have "i < t" "i + block_units b \<le> t" using Cons.prems(2) b(3) units_usable [OF b(2)] by auto
  then have "dyn ! (i + block_units b) \<noteq> None" using assms(1) b Cons.prems(3) unfolding covered_def by simp
  then show ?case using Cons.IH [OF b(4), of "i + block_units b"] Cons.prems(2) b(3) by simp
qed

lemma divide_aligned_solves:
  assumes "\<forall>b\<in>set blocks. 0 < block_size b" "0 < targetSize" "16 dvd targetSize"
  shows "\<exists>r. divide_aligned ovh blocks targetSize = Inr r \<and>
    (case r of
       Some xs \<Rightarrow> \<exists>bs. xs = map block_size bs \<and> composes blocks bs (nat (targetSize div 16))
     | None \<Rightarrow> \<nexists>bs. composes blocks bs (nat (targetSize div 16)))"
proof -
  define t where "t = nat (targetSize div 16)"
  obtain dyn ch where f: "forward_pass ovh blocks t [0..<t] ((replicate (t + 1) None)[0 := Some (0, 0)], replicate (t + 1) (- 1)) =
      Inr (dyn, ch)" "linked blocks t dyn ch" "covered blocks t t [] dyn"
    using forward_pass_reaches [OF assms(1)] by blast
  have z: "dyn ! 0 \<noteq> None" using f(2) by (simp add: linked_def)
  show ?thesis
  proof (cases "dyn ! t = None")
    case True
    then have "\<nexists>bs. composes blocks bs t" using covered_reaches [OF f(3) z, of _ t 0] z by auto
    then show ?thesis using True f(1) unfolding divide_aligned_def Let_def t_def [symmetric] by simp
  next
    case False
    then obtain bs where "backtrack ch (int t) = Inr (Some (map block_size bs))" "composes blocks bs t"
      using backtrack_linked [OF f(2), of t] by blast
    then show ?thesis
      using False f(1) unfolding divide_aligned_def Let_def t_def [symmetric] by (simp del: not_None_eq) blast
  qed
qed

text \<open>
  What a split must be: sizes that add up to the target, all of them sizes of usable blocks, except that a target that is not
  a multiple of 16 ends with the size of one remainder block.
\<close>

definition regular_sizes :: "SplitBlock list \<Rightarrow> int set" where
  "regular_sizes blocks = block_size ` {b \<in> set blocks. usable b}"

definition valid_split :: "SplitBlock list \<Rightarrow> SplitBlock list \<Rightarrow> int \<Rightarrow> int list \<Rightarrow> bool" where
  "valid_split blocks rems targetSize xs \<longleftrightarrow> 0 < targetSize \<and> sum_list xs = targetSize \<and>
     (if 16 dvd targetSize then set xs \<subseteq> regular_sizes blocks
      else \<exists>ys z. xs = ys @ [z] \<and> set ys \<subseteq> regular_sizes blocks \<and> z \<in> block_size ` set rems \<and> 0 < z)"

lemma composes_regular:
  "(\<exists>bs. xs = map block_size bs \<and> composes blocks bs n) \<longleftrightarrow> set xs \<subseteq> regular_sizes blocks \<and> sum_list xs = 16 * int n"
proof
  assume "\<exists>bs. xs = map block_size bs \<and> composes blocks bs n"
  then obtain bs where "xs = map block_size bs" "composes blocks bs n" by blast
  then show "set xs \<subseteq> regular_sizes blocks \<and> sum_list xs = 16 * int n"
    using composes_size [of blocks bs n] by (auto simp: composes_def regular_sizes_def)
next
  assume "set xs \<subseteq> regular_sizes blocks \<and> sum_list xs = 16 * int n"
  then show "\<exists>bs. xs = map block_size bs \<and> composes blocks bs n"
  proof (induction xs arbitrary: n)
    case Nil
    then show ?case by simp
  next
    case (Cons x xs)
    obtain b where b: "b \<in> set blocks" "usable b" "x = block_size b"
      using Cons.prems by (auto simp: regular_sizes_def)
    note u = units_usable [OF b(2)]
    have nn: "0 \<le> sum_list xs"
      using Cons.prems by (intro sum_list_nonneg) (auto simp: regular_sizes_def usable_def)
    have "block_units b \<le> n" using Cons.prems b(3) u nn by simp
    moreover from this have "sum_list xs = 16 * int (n - block_units b)" using Cons.prems b(3) u by simp
    then obtain bs where "xs = map block_size bs" "composes blocks bs (n - block_units b)"
      using Cons.IH Cons.prems by auto
    ultimately show ?case using b by (intro exI [of _ "b # bs"]) (simp add: composes_Cons)
  qed
qed

lemma regular_multiple: "set xs \<subseteq> regular_sizes blocks \<Longrightarrow> 16 dvd sum_list xs \<and> 0 \<le> sum_list xs"
  by (induction xs) (auto simp: regular_sizes_def usable_def)

lemma divide_aligned_valid:
  assumes "\<forall>b\<in>set blocks. 0 < block_size b" "0 < targetSize" "16 dvd targetSize"
  shows "\<exists>r. divide_aligned ovh blocks targetSize = Inr r \<and>
    (case r of
       Some xs \<Rightarrow> set xs \<subseteq> regular_sizes blocks \<and> sum_list xs = targetSize
     | None \<Rightarrow> \<nexists>xs. set xs \<subseteq> regular_sizes blocks \<and> sum_list xs = targetSize)"
proof -
  have t: "16 * int (nat (targetSize div 16)) = targetSize" using assms(2,3) by simp
  show ?thesis
    using divide_aligned_solves [OF assms, of ovh] composes_regular [of _ blocks "nat (targetSize div 16)"]
    unfolding t by (auto split: option.splits) metis
qed

lemma try_remainders_valid:
  assumes "\<forall>b\<in>set blocks. 0 < block_size b" "0 < targetSize" "\<not> 16 dvd targetSize"
  shows "pred_option (\<lambda>(_, _, xs). valid_split blocks all_rems targetSize xs) best \<Longrightarrow> set rems \<subseteq> set all_rems \<Longrightarrow>
    \<exists>best'. try_remainders ovh blocks targetSize rems best = Inr best' \<and>
      pred_option (\<lambda>(_, _, xs). valid_split blocks all_rems targetSize xs) best' \<and>
      (best' = None \<longrightarrow> best = None \<and> (\<nexists>xs. valid_split blocks rems targetSize xs))"
proof (induction rems arbitrary: best)
  case Nil
  then show ?case using assms(3) by (simp add: valid_split_def)
next
  case (Cons r rems)
  let ?P = "\<lambda>(_ :: real, _ :: int, xs). valid_split blocks all_rems targetSize xs"
  have "\<exists>best'. try_remainder ovh blocks targetSize r best = Inr best' \<and> pred_option ?P best' \<and>
      (best' = None \<longrightarrow> best = None \<and> (\<nexists>xs. valid_split blocks [r] targetSize xs))"
  proof (cases "block_size r \<le> 0 \<or> block_size r smod 16 \<noteq> targetSize smod 16 \<or> targetSize < block_size r")
    case True
    have "\<not> valid_split blocks [r] targetSize xs" for xs
    proof
      assume "valid_split blocks [r] targetSize xs"
      then obtain ys where ys: "sum_list ys + block_size r = targetSize" "set ys \<subseteq> regular_sizes blocks" "0 < block_size r"
        using assms(3) by (auto simp: valid_split_def)
      then have "block_size r mod 16 = targetSize mod 16" "block_size r \<le> targetSize"
        using regular_multiple [OF ys(2)] by (auto simp: mod_eq_dvd_iff)
      then show False using True ys(3) assms(2) by (simp add: smod_nonneg)
    qed
    then show ?thesis using True Cons.prems(1) by (auto simp: try_remainder_def)
  next
    case False
    define p where "p = targetSize - block_size r"
    have d: "16 dvd p" "0 \<le> p"
      using False assms(2) by (auto simp: p_def smod_nonneg mod_eq_dvd_iff dvd_diff_commute)
    obtain q where q: "(if 0 < p then divide_aligned ovh blocks p else Inr (Some [])) = Inr q"
      "case q of Some xs \<Rightarrow> set xs \<subseteq> regular_sizes blocks \<and> sum_list xs = p
        | None \<Rightarrow> \<nexists>xs. set xs \<subseteq> regular_sizes blocks \<and> sum_list xs = p"
    proof (cases "0 < p")
      case True
      then show thesis using divide_aligned_valid [OF assms(1) True d(1), of ovh] that by auto
    next
      case False
      then have "p = 0" using d(2) by simp
      then show thesis using that [of "Some []"] by simp
    qed
    show ?thesis
    proof (cases q)
      case None
      have "\<nexists>xs. valid_split blocks [r] targetSize xs"
        using q(2) None assms(3) by (auto simp: valid_split_def p_def)
      then show ?thesis using False q(1) None Cons.prems(1) by (auto simp: try_remainder_def Let_def simp flip: p_def)
    next
      case (Some xs)
      have "valid_split blocks all_rems targetSize (xs @ [block_size r])"
        using q(2) Some False assms(2,3) Cons.prems(2) by (auto simp: valid_split_def p_def)
      then show ?thesis
        using False q(1) Some Cons.prems(1)
        by (cases best) (simp_all add: try_remainder_def Let_def is_improvement_def flip: p_def split: prod.split)
    qed
  qed
  then obtain best' where b: "try_remainder ovh blocks targetSize r best = Inr best'" "pred_option ?P best'"
    "best' = None \<longrightarrow> best = None \<and> (\<nexists>xs. valid_split blocks [r] targetSize xs)"
    by blast
  obtain best'' where "try_remainders ovh blocks targetSize rems best' = Inr best''" "pred_option ?P best''"
    "best'' = None \<longrightarrow> best' = None \<and> (\<nexists>xs. valid_split blocks rems targetSize xs)"
    using Cons.IH [OF b(2)] Cons.prems(2) by auto
  moreover have "valid_split blocks (r # rems) targetSize xs \<Longrightarrow>
      valid_split blocks [r] targetSize xs \<or> valid_split blocks rems targetSize xs" for xs
    using assms(3) by (auto simp: valid_split_def)
  ultimately show ?case using b by auto
qed

lemma divideEfficiency_valid:
  assumes "\<forall>b\<in>set blocks. 0 < block_size b"
  shows "\<exists>r. divideEfficiency ovh blocks rems targetSize = Inr r \<and>
    (case r of Some xs \<Rightarrow> valid_split blocks rems targetSize xs | None \<Rightarrow> \<nexists>xs. valid_split blocks rems targetSize xs)"
proof -
  consider (bad) "targetSize \<le> 0" | (unaligned) "0 < targetSize" "\<not> 16 dvd targetSize" | (aligned) "0 < targetSize" "16 dvd targetSize"
    by linarith
  then show ?thesis
  proof cases
    case bad
    then show ?thesis by (simp add: divideEfficiency_def valid_split_def)
  next
    case unaligned
    then have m: "targetSize smod 16 \<noteq> 0" by (simp add: smod_nonneg dvd_eq_mod_eq_0)
    show ?thesis
    proof (cases "rems = []")
      case True
      then show ?thesis using unaligned m by (simp add: divideEfficiency_def valid_split_def)
    next
      case False
      obtain best where "try_remainders ovh blocks targetSize rems None = Inr best"
        "pred_option (\<lambda>(_, _, xs). valid_split blocks rems targetSize xs) best"
        "best = None \<longrightarrow> (\<nexists>xs. valid_split blocks rems targetSize xs)"
        using try_remainders_valid [OF assms unaligned, of rems None rems ovh] by auto
      then show ?thesis using False unaligned(1) m by (cases best) (auto simp: divideEfficiency_def)
    qed
  next
    case aligned
    then have m: "targetSize smod 16 = 0" by (simp add: smod_nonneg)
    obtain r where "divide_aligned ovh blocks targetSize = Inr r"
      "case r of Some xs \<Rightarrow> set xs \<subseteq> regular_sizes blocks \<and> sum_list xs = targetSize
       | None \<Rightarrow> \<nexists>xs. set xs \<subseteq> regular_sizes blocks \<and> sum_list xs = targetSize"
      using divide_aligned_valid [OF assms aligned, of ovh] by blast
    then show ?thesis using aligned m by (cases r) (auto simp: divideEfficiency_def valid_split_def)
  qed
qed

section \<open>The least cost\<close>

text \<open>
  Costs are exact if the cost the search computes for a block, its time divided by and multiplied with its size, is its time. This holds
  for sizes that are powers of two. The bound on the target keeps all sums below \<open>2 ^ 51\<close>.
\<close>

definition exact_costs :: "SplitBlock list \<Rightarrow> bool" where
  "exact_costs blocks \<longleftrightarrow> list_all (\<lambda>b. usable b \<longrightarrow> block_cost 0 b = real (unat (block_time b))) blocks"

definition split_cost :: "SplitBlock list \<Rightarrow> nat" where
  "split_cost bs = sum_list (map (unat \<circ> block_time) bs)"

lemma EPSILON_range: "0 < EPSILON" "EPSILON < 1 / 4"
proof -
  have "\<bar>EPSILON - 1 / 1000000000\<bar> \<le> (\<bar>1 / 1000000000\<bar> + 1) / 2 ^ 53"
    unfolding EPSILON_def by (rule to_float64_error)
  also have "\<dots> \<le> 1 / 2000000000" by simp
  finally show "0 < EPSILON" "EPSILON < 1 / 4" unfolding abs_le_iff by linarith+
qed

lemma is_improvement_exact:
  assumes "c < 2251799813685248" "c0 < 2251799813685248"
  shows "is_improvement (real c) n (Some (real c0, n0)) \<longleftrightarrow> c < c0 \<or> c = c0 \<and> n < n0"
proof -
  have b: "real c0 - 1 < to_float64 (real c0 - EPSILON)" "to_float64 (real c0 - EPSILON) \<le> real c0"
    using to_float64_below_int [of "int c0"] assms(2) EPSILON_range by simp_all
  have lt: "real c < to_float64 (real c0 - EPSILON) \<longleftrightarrow> c < c0"
  proof
    assume "real c < to_float64 (real c0 - EPSILON)"
    then have "real c < real c0" using b(2) by linarith
    then show "c < c0" by simp
  next
    assume "c < c0"
    then have "real c \<le> real c0 - 1" by linarith
    then show "real c < to_float64 (real c0 - EPSILON)" using b(1) by linarith
  qed
  have "real c - real c0 = of_int (int c - int c0)" by simp
  then have "to_float64 (real c - real c0) = real c - real c0"
    using to_float64_of_int [of "int c - int c0"] assms by simp
  then have "\<bar>to_float64 (real c - real c0)\<bar> \<le> EPSILON \<longleftrightarrow> c = c0"
    using EPSILON_range by (cases "c = c0") (auto simp: not_le)
  then show ?thesis using lt by (simp add: is_improvement_def)
qed

definition no_worse :: "nat \<Rightarrow> int \<Rightarrow> nat \<Rightarrow> int \<Rightarrow> bool" where
  "no_worse c n c' n' \<longleftrightarrow> c < c' \<or> c = c' \<and> n \<le> n'"

lemma no_worse_trans: "no_worse a k b l \<Longrightarrow> no_worse b l c m \<Longrightarrow> no_worse a k c m"
  by (auto simp: no_worse_def)

lemma no_worse_add: "no_worse a k b l \<Longrightarrow> no_worse (a + x) (k + y) (b + x) (l + y)"
  by (auto simp: no_worse_def)

text \<open>
  \<open>optlinked\<close>: a reached entry costs what the entry its choice leads back to costs, and the block; that entry has been
  processed. \<open>dominated\<close>: no tried pair would improve an entry.
\<close>

definition optlinked :: "SplitBlock list \<Rightarrow> nat \<Rightarrow> nat \<Rightarrow> DynProgState list \<Rightarrow> int list \<Rightarrow> bool" where
  "optlinked blocks t i dyn ch \<longleftrightarrow> length dyn = t + 1 \<and> length ch = t + 1 \<and> dyn ! 0 = Some (0, 0) \<and>
     (\<forall>j\<le>t. \<forall>x n. 0 < j \<longrightarrow> dyn ! j = Some (x, n) \<longrightarrow>
        (\<exists>b\<in>set blocks. \<exists>c n'. usable b \<and> ch ! j = block_size b \<and> block_units b \<le> j \<and> j - block_units b \<le> i \<and>
           dyn ! (j - block_units b) = Some (real c, n') \<and> c + unat (block_time b) \<le> j * 4294967296 \<and>
           x = real (c + unat (block_time b)) \<and> n = n' + 1))"

definition dominated :: "SplitBlock list \<Rightarrow> nat \<Rightarrow> nat \<Rightarrow> SplitBlock list \<Rightarrow> DynProgState list \<Rightarrow> bool" where
  "dominated blocks t i tried dyn \<longleftrightarrow>
     (\<forall>i' b c n. i' \<le> i \<longrightarrow> b \<in> set (if i' < i then blocks else tried) \<longrightarrow> usable b \<longrightarrow> i' + block_units b \<le> t \<longrightarrow>
        dyn ! i' = Some (real c, n) \<longrightarrow>
        (\<exists>c2 n2. dyn ! (i' + block_units b) = Some (real c2, n2) \<and> no_worse c2 n2 (c + unat (block_time b)) (n + 1)))"

lemma optlinked_nat:
  assumes "optlinked blocks t i dyn ch" "j \<le> t" "dyn ! j = Some (x, n)"
  shows "\<exists>c. x = real c \<and> c \<le> j * 4294967296"
proof (cases "j = 0")
  case True
  then show ?thesis using assms by (auto simp: optlinked_def)
next
  case False
  then show ?thesis using assms unfolding optlinked_def by blast
qed

lemma time_le_units:
  assumes "usable b" "c \<le> i * 4294967296"
  shows "c + unat (block_time b) \<le> (i + block_units b) * 4294967296"
proof -
  have "1 * 4294967296 \<le> block_units b * 4294967296"
    using units_usable [OF assms(1)] by (intro mult_le_mono1) simp
  then show ?thesis using assms(2) unat_u32_le [of "block_time b"] unfolding add_mult_distrib by linarith
qed

lemma extends_exact:
  assumes "exact_costs blocks" "b \<in> set blocks" "optlinked blocks t i dyn ch" "t < 524288" "extends 0 t i b dyn x n"
  shows "\<exists>c. x = real c \<and> to_float64 (x + block_cost 0 b) = real (c + unat (block_time b)) \<and>
    c + unat (block_time b) \<le> (i + block_units b) * 4294967296"
proof -
  have u: "usable b" "i + block_units b \<le> t" "dyn ! i = Some (x, n)" using assms(5) by (simp_all add: extends_def)
  obtain c where c: "x = real c" "c \<le> i * 4294967296" using optlinked_nat [OF assms(3) _ u(3)] u(2) by auto
  have k: "block_cost 0 b = real (unat (block_time b))" using assms(1,2) u(1) by (simp add: exact_costs_def list_all_iff)
  have s: "c + unat (block_time b) \<le> (i + block_units b) * 4294967296" by (rule time_le_units [OF u(1) c(2)])
  also have "\<dots> < 9007199254740992" using u(2) assms(4) by simp
  finally have "to_float64 (real (c + unat (block_time b))) = real (c + unat (block_time b))" by (rule to_float64_of_nat)
  then show ?thesis using c(1) k s by auto
qed

lemma optlinked_update:
  assumes "exact_costs blocks" "b \<in> set blocks" "optlinked blocks t i dyn ch" "t < 524288" "extends 0 t i b dyn x n"
  shows "optlinked blocks t i (dyn[i + block_units b := Some (to_float64 (x + block_cost 0 b), n + 1)])
    (ch[i + block_units b := block_size b])"
proof -
  have u: "usable b" "i + block_units b \<le> t" "dyn ! i = Some (x, n)" "0 < block_units b"
    using assms(5) units_usable by (auto simp: extends_def)
  obtain c where c: "x = real c" "to_float64 (x + block_cost 0 b) = real (c + unat (block_time b))"
    "c + unat (block_time b) \<le> (i + block_units b) * 4294967296"
    using extends_exact [OF assms] by blast
  have l: "length dyn = t + 1" "length ch = t + 1" using assms(3) by (simp_all add: optlinked_def)
  show ?thesis
    unfolding optlinked_def
  proof (intro conjI allI impI)
    fix j y m
    assume j: "j \<le> t" "0 < j" "dyn[i + block_units b := Some (to_float64 (x + block_cost 0 b), n + 1)] ! j = Some (y, m)"
    show "\<exists>b'\<in>set blocks. \<exists>c' n'. usable b' \<and> ch[i + block_units b := block_size b] ! j = block_size b' \<and>
        block_units b' \<le> j \<and> j - block_units b' \<le> i \<and>
        dyn[i + block_units b := Some (to_float64 (x + block_cost 0 b), n + 1)] ! (j - block_units b') = Some (real c', n') \<and>
        c' + unat (block_time b') \<le> j * 4294967296 \<and> y = real (c' + unat (block_time b')) \<and> m = n' + 1"
    proof (cases "j = i + block_units b")
      case True
      then show ?thesis using assms(2) u l c j(3) by (intro bexI [of _ b] exI [of _ c] exI [of _ n]) auto
    next
      case False
      then have "dyn ! j = Some (y, m)" using j(3) by simp
      then obtain b' c' n' where b': "b' \<in> set blocks" "usable b'" "ch ! j = block_size b'" "block_units b' \<le> j"
        "j - block_units b' \<le> i" "dyn ! (j - block_units b') = Some (real c', n')"
        "c' + unat (block_time b') \<le> j * 4294967296" "y = real (c' + unat (block_time b'))" "m = n' + 1"
        using assms(3) j(1,2) unfolding optlinked_def by blast
      then have "j - block_units b' \<noteq> i + block_units b" using u(4) by linarith
      then show ?thesis using b' False by (intro bexI [of _ b'] exI [of _ c'] exI [of _ n']) auto
    qed
  qed (use assms(3) u l in \<open>simp_all add: optlinked_def\<close>)
qed

lemma improvement_cases:
  assumes "optlinked blocks t i dyn ch" "t < 524288" "j \<le> t" "c \<le> j * 4294967296"
  shows "is_improvement (real c) n (dyn ! j) \<longleftrightarrow>
    (case dyn ! j of None \<Rightarrow> True | Some (x, m) \<Rightarrow> \<exists>d. x = real d \<and> \<not> no_worse d m c n)"
proof (cases "dyn ! j")
  case None
  then show ?thesis by (simp add: is_improvement_def)
next
  case (Some e)
  obtain x m where e: "e = (x, m)" by (cases e)
  obtain d where d: "x = real d" "d \<le> j * 4294967296" using optlinked_nat [OF assms(1,3)] Some e by blast
  have "c < 2251799813685248" "d < 2251799813685248" using assms(2-4) d(2) by linarith+
  from is_improvement_exact [OF this] show ?thesis using Some e d(1) by (auto simp: no_worse_def)
qed

lemma dominated_update:
  assumes "exact_costs blocks" "b \<in> set blocks" "optlinked blocks t i dyn ch" "t < 524288" "extends 0 t i b dyn x n"
    and "dominated blocks t i tried dyn"
  shows "dominated blocks t i (tried @ [b]) (dyn[i + block_units b := Some (to_float64 (x + block_cost 0 b), n + 1)])"
proof -
  have u: "usable b" "i + block_units b \<le> t" "dyn ! i = Some (x, n)" "0 < block_units b"
    using assms(5) units_usable by (auto simp: extends_def)
  obtain c where c: "x = real c" "to_float64 (x + block_cost 0 b) = real (c + unat (block_time b))"
    "c + unat (block_time b) \<le> (i + block_units b) * 4294967296"
    using extends_exact [OF assms(1-5)] by blast
  have l: "i + block_units b < length dyn" using assms(3) u(2) by (simp add: optlinked_def)
  have imp: "is_improvement (real (c + unat (block_time b))) (n + 1) (dyn ! (i + block_units b))"
    using assms(5) c(2) by (simp add: extends_def)
  have better: "no_worse (c + unat (block_time b)) (n + 1) d m" if "dyn ! (i + block_units b) = Some (real d, m)" for d m
    using imp improvement_cases [OF assms(3,4) u(2) c(3), of "n + 1"] that by (auto simp: no_worse_def)
  show ?thesis
    unfolding dominated_def
  proof (intro allI impI)
    fix i' b' c' n'
    let ?d = "dyn[i + block_units b := Some (to_float64 (x + block_cost 0 b), n + 1)]"
    assume h: "i' \<le> i" "b' \<in> set (if i' < i then blocks else tried @ [b])" "usable b'" "i' + block_units b' \<le> t"
      "?d ! i' = Some (real c', n')"
    have d: "dyn ! i' = Some (real c', n')" using h(1,5) u(4) by simp
    show "\<exists>c2 n2. ?d ! (i' + block_units b') = Some (real c2, n2) \<and> no_worse c2 n2 (c' + unat (block_time b')) (n' + 1)"
    proof (cases "b' \<in> set (if i' < i then blocks else tried)")
      case True
      then obtain c2 n2 where o: "dyn ! (i' + block_units b') = Some (real c2, n2)" "no_worse c2 n2 (c' + unat (block_time b')) (n' + 1)"
        using assms(6) h d unfolding dominated_def by blast
      show ?thesis
      proof (cases "i' + block_units b' = i + block_units b")
        case True
        then have "no_worse (c + unat (block_time b)) (n + 1) (c' + unat (block_time b')) (n' + 1)"
          using o better [of c2 n2] no_worse_trans by metis
        then show ?thesis
          using True l c(2) by (intro exI [of _ "c + unat (block_time b)"] exI [of _ "n + 1"]) simp
      next
        case False
        then show ?thesis using o by simp
      qed
    next
      case False
      then have "i' = i" "b' = b" using h(1,2) by (auto split: if_splits)
      moreover have "c = c'" "n = n'" using d u(3) c(1) calculation by simp_all
      ultimately show ?thesis
        using c(2) l by (intro exI [of _ "c + unat (block_time b)"] exI [of _ "n + 1"]) (simp add: no_worse_def)
    qed
  qed
qed

lemma dominated_keep:
  assumes "exact_costs blocks" "b \<in> set blocks" "optlinked blocks t i dyn ch" "t < 524288"
    and "\<forall>c n. \<not> extends 0 t i b dyn c n" "dominated blocks t i tried dyn"
  shows "dominated blocks t i (tried @ [b]) dyn"
  unfolding dominated_def
proof (intro allI impI)
  fix i' b' c' n'
  assume h: "i' \<le> i" "b' \<in> set (if i' < i then blocks else tried @ [b])" "usable b'" "i' + block_units b' \<le> t"
    "dyn ! i' = Some (real c', n')"
  show "\<exists>c2 n2. dyn ! (i' + block_units b') = Some (real c2, n2) \<and> no_worse c2 n2 (c' + unat (block_time b')) (n' + 1)"
  proof (cases "b' \<in> set (if i' < i then blocks else tried)")
    case True
    then show ?thesis using assms(6) h unfolding dominated_def by blast
  next
    case False
    then have e: "i' = i" "b' = b" using h(1,2) by (auto split: if_splits)
    have k: "block_cost 0 b = real (unat (block_time b))" using assms(1,2) h(3) e by (simp add: exact_costs_def list_all_iff)
    obtain c'' where "real c' = real c''" "c'' \<le> i * 4294967296" using optlinked_nat [OF assms(3) _ h(5)] h(4) e by auto
    then have s: "c' + unat (block_time b) \<le> (i + block_units b) * 4294967296"
      using time_le_units [of b c' i] h(3) e by simp
    then have "to_float64 (real (c' + unat (block_time b))) = real (c' + unat (block_time b))"
      using assms(4) h(4) e by (intro to_float64_of_nat) simp
    then have "\<not> is_improvement (real (c' + unat (block_time b))) (n' + 1) (dyn ! (i + block_units b))"
      using assms(5) h(3-5) e k by (auto simp: extends_def)
    moreover have "i + block_units b \<le> t" using h(4) e by simp
    ultimately obtain a m where a: "dyn ! (i + block_units b) = Some (a, m)"
      "\<forall>d. a = real d \<longrightarrow> no_worse d m (c' + unat (block_time b)) (n' + 1)"
      using improvement_cases [OF assms(3,4) _ s, of "n' + 1"] by (auto split: option.splits)
    moreover obtain d where "a = real d" using optlinked_nat [OF assms(3) _ a(1)] h(4) e by auto
    ultimately show ?thesis using e by auto
  qed
qed

lemma dominated_next:
  assumes "dominated blocks t i blocks dyn \<or> dominated blocks t i [] dyn \<and> dyn ! i = None"
  shows "dominated blocks t (Suc i) [] dyn"
  using assms by (auto simp: dominated_def less_Suc_eq le_Suc_eq split: if_splits)

lemma optlinked_next: "optlinked blocks t i dyn ch \<Longrightarrow> optlinked blocks t (Suc i) dyn ch"
  unfolding optlinked_def by (meson le_Suc_eq)

lemma forward_pass_optimal:
  assumes "\<forall>b\<in>set blocks. 0 < block_size b" "exact_costs blocks" "t < 524288"
  shows "\<exists>dyn ch. forward_pass 0 blocks t [0..<t] ((replicate (t + 1) None)[0 := Some (0, 0)], replicate (t + 1) (- 1)) =
      Inr (dyn, ch) \<and> optlinked blocks t t dyn ch \<and> dominated blocks t t [] dyn"
proof -
  let ?I = "\<lambda>i tried dyn ch. optlinked blocks t i dyn ch \<and> dominated blocks t i tried dyn"
  have init: "?I 0 [] ((replicate (t + 1) None)[0 := Some (0, 0)]) (replicate (t + 1) (- 1))"
    by (auto simp: optlinked_def dominated_def nth_list_update)
  show ?thesis
  proof (rule forward_pass_induct [OF assms(1), where I = ?I, OF init], goal_cases)
    case (1 i tried b dyn ch c n)
    then show ?case using optlinked_update [OF assms(2)] dominated_update [OF assms(2)] assms(3) by blast
  next
    case (2 i tried b dyn ch)
    then show ?case using dominated_keep [OF assms(2)] assms(3) by blast
  next
    case (3 i dyn ch)
    then show ?case using dominated_next optlinked_next by blast
  qed
qed

lemma optlinked_backtrack:
  assumes "optlinked blocks t t dyn ch"
  shows "j \<le> t \<Longrightarrow> dyn ! j = Some (real c, n) \<Longrightarrow>
    \<exists>bs. backtrack ch (int j) = Inr (Some (map block_size bs)) \<and> composes blocks bs j \<and> split_cost bs = c \<and> int (length bs) = n"
proof (induction j arbitrary: c n rule: less_induct)
  case (less j)
  show ?case
  proof (cases "j = 0")
    case True
    then show ?thesis using assms less.prems
      by (intro exI [of _ "[]"]) (simp add: backtrack.simps split_cost_def optlinked_def)
  next
    case False
    then obtain b c' n' where b: "b \<in> set blocks" "usable b" "ch ! j = block_size b" "block_units b \<le> j"
      "dyn ! (j - block_units b) = Some (real c', n')" "real c = real (c' + unat (block_time b))" "n = n' + 1"
      using assms less.prems unfolding optlinked_def by (metis neq0_conv)
    have "j - block_units b < j" "j - block_units b \<le> t" using units_usable [OF b(2)] False less.prems by auto
    then obtain bs where bs: "backtrack ch (int (j - block_units b)) = Inr (Some (map block_size bs))"
      "composes blocks bs (j - block_units b)" "split_cost bs = c'" "int (length bs) = n'"
      using less.IH b(5) by blast
    have "backtrack ch (int j) = Inr (Some (map block_size (b # bs)))"
      using backtrack_step [OF b(2-4) bs(1)] by simp
    moreover have "composes blocks (b # bs) j" using b bs(2) by (simp add: composes_Cons)
    moreover have "split_cost (b # bs) = c" using b(6) bs(3) by (simp add: split_cost_def flip: of_nat_add)
    ultimately show ?thesis using b(7) bs(4) by (intro exI [of _ "b # bs"]) simp
  qed
qed

lemma dominated_reaches:
  assumes "dominated blocks t t [] dyn"
  shows "composes blocks bs m \<Longrightarrow> i + m \<le> t \<Longrightarrow> dyn ! i = Some (real c, n) \<Longrightarrow>
    \<exists>c2 n2. dyn ! (i + m) = Some (real c2, n2) \<and> no_worse c2 n2 (c + split_cost bs) (n + int (length bs))"
proof (induction bs arbitrary: i m c n)
  case Nil
  then show ?case by (simp add: split_cost_def no_worse_def)
next
  case (Cons b bs)
  have b: "b \<in> set blocks" "usable b" "block_units b \<le> m" "composes blocks bs (m - block_units b)"
    using Cons.prems(1) by (simp_all add: composes_Cons)
  have "i < t" "i + block_units b \<le> t" using Cons.prems(2) b(3) units_usable [OF b(2)] by auto
  then obtain c' n' where o: "dyn ! (i + block_units b) = Some (real c', n')" "no_worse c' n' (c + unat (block_time b)) (n + 1)"
    using assms [unfolded dominated_def, rule_format, of i b c n] b(1,2) Cons.prems(3) by auto
  obtain c2 n2 where r: "dyn ! (i + m) = Some (real c2, n2)" "no_worse c2 n2 (c' + split_cost bs) (n' + int (length bs))"
    using Cons.IH [OF b(4) _ o(1)] Cons.prems(2) b(3) by auto
  moreover have "no_worse (c' + split_cost bs) (n' + int (length bs)) (c + split_cost (b # bs)) (n + int (length (b # bs)))"
    using no_worse_add [OF o(2), of "split_cost bs" "int (length bs)"] by (simp add: split_cost_def algebra_simps)
  ultimately show ?case using no_worse_trans by blast
qed

lemma divide_aligned_optimal:
  assumes "\<forall>b\<in>set blocks. 0 < block_size b" "exact_costs blocks" "targetSize < 8388608"
    and "divide_aligned 0 blocks targetSize = Inr (Some xs)"
  shows "\<exists>bs. xs = map block_size bs \<and> composes blocks bs (nat (targetSize div 16)) \<and>
    (\<forall>bs'. composes blocks bs' (nat (targetSize div 16)) \<longrightarrow>
       split_cost bs < split_cost bs' \<or> split_cost bs = split_cost bs' \<and> length bs \<le> length bs')"
proof -
  define t where "t = nat (targetSize div 16)"
  have t: "t < 524288" using assms(3) unfolding t_def by linarith
  obtain dyn ch where f: "forward_pass 0 blocks t [0..<t] ((replicate (t + 1) None)[0 := Some (0, 0)], replicate (t + 1) (- 1)) =
      Inr (dyn, ch)" "optlinked blocks t t dyn ch" "dominated blocks t t [] dyn"
    using forward_pass_optimal [OF assms(1,2) t] by blast
  have "(if dyn ! t = None then Inr None else backtrack ch (int t)) = Inr (Some xs)"
    using assms(4) unfolding divide_aligned_def Let_def t_def [symmetric] f(1) by simp
  then have d: "dyn ! t \<noteq> None" "backtrack ch (int t) = Inr (Some xs)"
    by (cases "dyn ! t = None"; simp)+
  then obtain x n where x: "dyn ! t = Some (x, n)" by auto
  obtain c where c: "x = real c" using optlinked_nat [OF f(2) _ x] by auto
  obtain bs where bs: "xs = map block_size bs" "composes blocks bs t" "split_cost bs = c" "int (length bs) = n"
    using optlinked_backtrack [OF f(2), of t c n] x c d(2) by auto
  have "split_cost bs < split_cost bs' \<or> split_cost bs = split_cost bs' \<and> length bs \<le> length bs'"
    if "composes blocks bs' t" for bs'
    using dominated_reaches [OF f(3) that, of 0 0 0] f(2) x c bs(3,4) by (auto simp: optlinked_def no_worse_def)
  then show ?thesis using bs(1,2) unfolding t_def by blast
qed

lemma block_cost_power:
  assumes "k \<le> 30"
  shows "block_cost 0 (make_SplitBlock (2 ^ k) time) = real (unat time)"
proof -
  define i where "i = uint time"
  have b: "\<bar>i\<bar> < 9007199254740992" using uint_lt2p [of time] by (simp add: i_def)
  have "efficiency (make_SplitBlock (2 ^ k) time) = of_int i / 2 ^ k"
    using to_float64_div_power [OF b, of k] assms by (simp add: make_SplitBlock_def div64_def real_u32_def i_def [symmetric])
  moreover have "block_size (make_SplitBlock (2 ^ k) time) = 2 ^ k" by (simp add: make_SplitBlock_def)
  ultimately have "block_cost 0 (make_SplitBlock (2 ^ k) time) = of_int i"
    using to_float64_of_int [OF b] by (simp add: block_cost_def mul64_def)
  also have "\<dots> = real (unat time)" by (simp add: i_def)
  finally show ?thesis .
qed

definition optimal_split :: "SplitBlock list \<Rightarrow> int \<Rightarrow> SplitBlock list \<Rightarrow> bool" where
  "optimal_split blocks targetSize bs \<longleftrightarrow> composes blocks bs (nat (targetSize div 16)) \<and>
     (\<forall>bs'. composes blocks bs' (nat (targetSize div 16)) \<longrightarrow>
        split_cost bs < split_cost bs' \<or> split_cost bs = split_cost bs' \<and> length bs \<le> length bs')"

section \<open>Properties\<close>

text \<open>
  C17. The search for a split always ends with an answer: for blocks of positive size it finds a split exactly if there is one
  (blocks, and one remainder block at the end if the target is not a multiple of 16, that add up to the target), and what it
  finds is one.
\<close>

theorem divideEfficiency_decides:
  assumes "list_all (\<lambda>b. 0 < block_size b) blocks"
  shows "\<exists>r. divideEfficiency overhead blocks remainder_blocks targetSize = Inr r \<and>
    (case r of
       Some xs \<Rightarrow> valid_split blocks remainder_blocks targetSize xs
     | None \<Rightarrow> \<not> (\<exists>xs. valid_split blocks remainder_blocks targetSize xs))"
  using divideEfficiency_valid [of blocks] assms by (simp add: list_all_iff)

text \<open>
  C16. The split of an aligned target is optimal: without overhead and where the costs are exact, no decomposition has a lower total time, and
  none of the same time has fewer blocks.
\<close>

theorem divideEfficiency_optimal:
  assumes "list_all (\<lambda>b. 0 < block_size b) blocks" "exact_costs blocks" "targetSize < 8388608" "16 dvd targetSize"
    and "divideEfficiency 0 blocks remainder_blocks targetSize = Inr (Some xs)"
  shows "\<exists>bs. xs = map block_size bs \<and> optimal_split blocks targetSize bs"
proof -
  have "0 < targetSize" using assms(5) by (cases "0 < targetSize") (auto simp: divideEfficiency_def split: if_splits)
  then have "targetSize smod 16 = 0" using assms(4) by (simp add: smod_nonneg)
  then have "divide_aligned 0 blocks targetSize = Inr (Some xs)"
    using assms(5) \<open>0 < targetSize\<close> by (simp add: divideEfficiency_def)
  then show ?thesis
    using divide_aligned_optimal [of blocks targetSize xs] assms(1-3) by (simp add: list_all_iff optimal_split_def)
qed

definition example_blocks :: "SplitBlock list" where
  "example_blocks = [make_SplitBlock 16 100, make_SplitBlock 32 170, make_SplitBlock 64 300]"

lemma example_blocks_positive: "list_all (\<lambda>b. 0 < block_size b) example_blocks"
  by (simp add: example_blocks_def make_SplitBlock_def)

lemma example_blocks_exact: "exact_costs example_blocks"
  using block_cost_power [of 4 100] block_cost_power [of 5 170] block_cost_power [of 6 300]
  by (simp add: exact_costs_def example_blocks_def) (simp add: make_SplitBlock_def)

lemma example_regular: "32 \<in> regular_sizes example_blocks" "64 \<in> regular_sizes example_blocks"
proof -
  have "make_SplitBlock 32 170 \<in> {b \<in> set example_blocks. usable b}" "make_SplitBlock 64 300 \<in> {b \<in> set example_blocks. usable b}"
    by (simp_all add: example_blocks_def usable_def) (simp_all add: make_SplitBlock_def)
  then show "32 \<in> regular_sizes example_blocks" "64 \<in> regular_sizes example_blocks"
    unfolding regular_sizes_def by (force simp: make_SplitBlock_def)+
qed

lemma example_splits: "valid_split example_blocks rems 96 [32, 64]"
  by (simp add: valid_split_def example_regular)

theorem divideEfficiency_decides_witness:
  "\<exists>xs. divideEfficiency 0 example_blocks [make_SplitBlock 9 50] 96 = Inr (Some xs) \<and>
     valid_split example_blocks [make_SplitBlock 9 50] 96 xs"
  using divideEfficiency_decides [OF example_blocks_positive, of 0 "[make_SplitBlock 9 50]" 96] example_splits
  by (auto split: option.splits)

theorem divideEfficiency_optimal_witness:
  "\<exists>bs. divideEfficiency 0 example_blocks [] 96 = Inr (Some (map block_size bs)) \<and> optimal_split example_blocks 96 bs"
proof -
  obtain xs where xs: "divideEfficiency 0 example_blocks [] 96 = Inr (Some xs)"
    using divideEfficiency_valid [of example_blocks 0 "[]" 96] example_blocks_positive example_splits [of "[]"]
    by (auto simp: list_all_iff split: option.splits)
  show ?thesis
    using divideEfficiency_optimal [OF example_blocks_positive example_blocks_exact _ _ xs] xs by auto
qed

end
