(* ===== verification/Intra_Tile_Laws.thy ===== *)
theory Intra_Tile_Laws
  imports Intra_Tile Efficiency_Laws Layer_Split_Inputs
begin

text \<open>
  The splits of a layer into workloads are tilings: every position of the layer's output belongs to exactly one workload of the
  split. One dimension is a list of consecutive spans; each of the loops of the tilers is shown to produce one.
\<close>

section \<open>Consecutive spans\<close>

type_synonym span = "nat \<times> nat"

definition in_span :: "span \<Rightarrow> nat \<Rightarrow> bool" where
  "in_span s p \<longleftrightarrow> fst s \<le> p \<and> p < fst s + snd s"

fun consecutive :: "nat \<Rightarrow> span list \<Rightarrow> nat \<Rightarrow> bool" where
  "consecutive a [] b \<longleftrightarrow> a = b"
| "consecutive a (s # ss) b \<longleftrightarrow> (snd s = 0 \<or> fst s = a) \<and> consecutive (a + snd s) ss b"

lemma consecutive_le: "consecutive a ss b \<Longrightarrow> a \<le> b"
  by (induction ss arbitrary: a) force+

lemma consecutive_once:
  "consecutive a ss b \<Longrightarrow> length (filter (\<lambda>s. in_span s p) ss) = (if a \<le> p \<and> p < b then 1 else 0)"
proof (induction ss arbitrary: a)
  case (Cons s ss)
  then have c: "snd s = 0 \<or> fst s = a" "consecutive (a + snd s) ss b" by simp_all
  show ?case using Cons.IH [OF c(2)] c(1) consecutive_le [OF c(2)] by (auto simp: in_span_def)
qed simp

section \<open>Workloads as boxes\<close>

definition x_span :: "'a DPUWorkload_scheme \<Rightarrow> span" where
  "x_span w = (unat (dimX (offsets w)), unat (tx (outputs_0 w)))"

definition y_span :: "'a DPUWorkload_scheme \<Rightarrow> span" where
  "y_span w = (unat (dimY (offsets w)), unat (ty (outputs_0 w)))"

definition z_span :: "'a DPUWorkload_scheme \<Rightarrow> span" where
  "z_span w = (unat (dimZ (offsets w)), unat (tz (outputs_0 w)))"

definition b_span :: "'a DPUWorkload_scheme \<Rightarrow> span" where
  "b_span w = (unat (dimB (offsets w)), unat (tb (outputs_0 w)))"

definition produces :: "'a DPUWorkload_scheme \<Rightarrow> nat \<times> nat \<times> nat \<times> nat \<Rightarrow> bool" where
  "produces w p = (case p of (x, y, z, b) \<Rightarrow>
     in_span (x_span w) x \<and> in_span (y_span w) y \<and> in_span (z_span w) z \<and> in_span (b_span w) b)"

text \<open>A position of the output is produced once, and a position outside of it not at all.\<close>

definition tiles_exactly :: "DPULayer \<Rightarrow> DPUWorkload list \<Rightarrow> bool" where
  "tiles_exactly layer wls \<longleftrightarrow>
     (\<forall>p. length (filter (\<lambda>w. produces w p) wls) = (if produces layer p then 1 else 0))"

lemmas span_defs = x_span_def y_span_def z_span_def b_span_def

definition same_boxes :: "DPUWorkload \<Rightarrow> DPUWorkload \<Rightarrow> bool" where
  "same_boxes v w \<longleftrightarrow> offsets v = offsets w \<and> shape (outputs_0 v) = shape (outputs_0 w)"

lemma same_boxes_produces: "same_boxes v w \<Longrightarrow> produces v p = produces w p"
  by (simp add: same_boxes_def produces_def span_defs tx_def ty_def tz_def tb_def)

lemma tiles_exactly_cong: "list_all2 same_boxes vs ws \<Longrightarrow> tiles_exactly l vs \<longleftrightarrow> tiles_exactly l ws"
proof -
  assume "list_all2 same_boxes vs ws"
  then have "length (filter (\<lambda>w. produces w p) vs) = length (filter (\<lambda>w. produces w p) ws)" for p
    by (induction rule: list_all2_induct) (simp_all add: same_boxes_produces)
  then show ?thesis by (simp add: tiles_exactly_def)
qed

lemma finished_boxes:
  "list_all2 same_boxes (split_workloads (setWorkloadsModeAndInfereInputShape s mode l)) (split_workloads s)"
  by (simp add: setWorkloadsModeAndInfereInputShape_def list_all2_conv_all_nth same_boxes_def)

section \<open>Layers that are one tile\<close>

text \<open>A layer whose output starts at the origin and has one batch; the dimensions are far from wrapping around.\<close>

definition plain_layer :: "DPULayer \<Rightarrow> bool" where
  "plain_layer l \<longleftrightarrow> offsets l = mk_shape 0 0 0 0 \<and> tb (outputs_0 l) = 1 \<and>
     unat (tx (outputs_0 l)) < 2 ^ 26 \<and> unat (ty (outputs_0 l)) < 2 ^ 26 \<and> unat (tz (outputs_0 l)) < 2 ^ 26"

lemma produces_layer:
  assumes "plain_layer l"
  shows "produces l (x, y, z, b) \<longleftrightarrow>
    x < unat (tx (outputs_0 l)) \<and> y < unat (ty (outputs_0 l)) \<and> z < unat (tz (outputs_0 l)) \<and> b = 0"
  using assms by (auto simp: produces_def span_defs in_span_def plain_layer_def mk_shape_def)

definition z_tile :: "DPULayer \<Rightarrow> DPUWorkload \<Rightarrow> bool" where
  "z_tile l w \<longleftrightarrow> x_span w = (0, unat (tx (outputs_0 l))) \<and> y_span w = (0, unat (ty (outputs_0 l))) \<and> b_span w = (0, 1)"

lemma z_tile_createTileZ: "z_tile l (createTileZ l c off)" "z_span (createTileZ l c off) = (unat off, unat c)"
  by (simp_all add: z_tile_def span_defs tx_def ty_def tz_def tb_def mk_shape_def)

lemma z_tiles_exactly:
  assumes "plain_layer l" "list_all (z_tile l) ws" "consecutive 0 (map z_span ws) (unat (tz (outputs_0 l)))"
  shows "tiles_exactly l ws"
  unfolding tiles_exactly_def
proof
  fix p :: "nat \<times> nat \<times> nat \<times> nat"
  obtain x y z b where p: "p = (x, y, z, b)" by (cases p)
  define inside where "inside \<longleftrightarrow> x < unat (tx (outputs_0 l)) \<and> y < unat (ty (outputs_0 l)) \<and> b = 0"
  have "filter (\<lambda>w. produces w p) ws = filter (\<lambda>w. inside \<and> in_span (z_span w) z) ws"
    using assms(2) by (intro filter_cong) (auto simp: p produces_def list_all_iff z_tile_def in_span_def inside_def)
  then have "length (filter (\<lambda>w. produces w p) ws) = (if inside \<and> z < unat (tz (outputs_0 l)) then 1 else 0)"
    using consecutive_once [OF assms(3), of z] by (cases inside) (auto simp: filter_map o_def)
  then show "length (filter (\<lambda>w. produces w p) ws) = (if produces l p then 1 else 0)"
    using produces_layer [OF assms(1), of x y z b] by (auto simp: p inside_def)
qed

section \<open>Even steps\<close>

text \<open>One step of a loop that takes slices of \<open>m\<close> off the remaining \<open>r\<close> of \<open>T\<close>, at the offset \<open>i * m\<close>.\<close>

lemma even_step:
  fixes m r i :: u32
  assumes "r = 0 \<or> unat i * unat m + unat r = T" "unat r \<le> T" "unat r \<le> Suc n * unat m"
    "(unat i + Suc n) * unat m < 4294967296" "unat i + Suc n < 4294967296"
  defines "w \<equiv> (if m < r then m else r)"
  shows "w = 0 \<or> unat (i * m) = T - unat r" "T - unat r + unat w = T - unat (r - w)"
    "r - w = 0 \<or> unat (i + 1) * unat m + unat (r - w) = T" "unat (r - w) \<le> T" "unat (r - w) \<le> n * unat m"
    "(unat (i + 1) + n) * unat m < 4294967296" "unat (i + 1) + n < 4294967296"
proof -
  have w: "unat w = min (unat m) (unat r)" by (simp add: w_def word_less_nat_alt)
  have r: "unat (r - w) = unat r - unat w" using w by (intro unat_diff_nowrap) simp
  have i: "unat (i + 1) = unat i + 1" using assms(5) by (simp add: unat_add_nowrap)
  have im: "unat (i * m) = unat i * unat m"
  proof (rule unat_mult_nowrap)
    have "unat i * unat m \<le> (unat i + Suc n) * unat m" by (simp only: mult_le_mono1 le_add1)
    then show "unat i * unat m < 4294967296" using assms(4) by linarith
  qed
  have z: "r - w = 0 \<longleftrightarrow> unat r - unat w = 0" using r by (metis unat_eq_zero)
  show "w = 0 \<or> unat (i * m) = T - unat r"
    using assms(1) w im by (cases "r = 0") (auto simp: w_def)
  show "T - unat r + unat w = T - unat (r - w)" using r w assms(2) by simp
  show "r - w = 0 \<or> unat (i + 1) * unat m + unat (r - w) = T"
    using assms(1) w unfolding z r i by (cases "r = 0") (auto simp: min_def algebra_simps)
  show "unat (r - w) \<le> T" using r assms(2) by simp
  show "unat (r - w) \<le> n * unat m" using r w assms(3) by (auto simp: min_def)
  show "(unat (i + 1) + n) * unat m < 4294967296" using assms(4) i by simp
  show "unat (i + 1) + n < 4294967296" using assms(5) i by simp
qed

section \<open>Tiling over height and width\<close>

lemma createTileHW_spans [simp]:
  "x_span (createTileHW l w h ow oh hh) = (unat ow, unat w)" "y_span (createTileHW l w h ow oh hh) = (unat oh, unat h)"
  "z_span (createTileHW l w h ow oh hh) = (0, unat (tz (outputs_0 l)))" "b_span (createTileHW l w h ow oh hh) = (0, 1)"
  by (simp_all add: createTileHW_def span_defs tx_def ty_def tz_def tb_def mk_shape_def Let_def)

lemma split_columns_spans:
  "r = 0 \<or> unat i * unat m + unat r = T \<Longrightarrow> unat r \<le> T \<Longrightarrow> unat r \<le> n * unat m \<Longrightarrow>
   (unat i + n) * unat m < 4294967296 \<Longrightarrow> unat i + n < 4294967296 \<Longrightarrow>
   consecutive (T - unat r) (map x_span (split_columns l m N th oh h r i n)) T \<and>
   list_all (\<lambda>w. y_span w = (unat oh, unat th) \<and> z_span w = (0, unat (tz (outputs_0 l))) \<and> b_span w = (0, 1))
     (split_columns l m N th oh h r i n)"
proof (induction n arbitrary: r i h)
  case (Suc n)
  define tw where "tw = (if m < r then m else r)"
  obtain h' where split: "split_columns l m N th oh h r i (Suc n) =
      createTileHW l tw th (i * m) oh h' # split_columns l m N th oh h' (r - tw) (i + 1) n"
    by (auto simp: Let_def tw_def)
  note step = even_step [OF Suc.prems, folded tw_def]
  show ?case
    unfolding split list.map consecutive.simps list.pred_inject createTileHW_spans fst_conv snd_conv
    using Suc.IH [OF step(3-7), of h'] step(1,2) by (auto simp only: unat_eq_zero)
qed simp

lemma split_rows_once:
  assumes "unat columns * unat m < 4294967296" "unat (width (outputs_0 l)) \<le> unat columns * unat m"
  shows "r = 0 \<or> unat i * unat mh + unat r = T \<Longrightarrow> unat r \<le> T \<Longrightarrow> unat r \<le> n * unat mh \<Longrightarrow>
   (unat i + n) * unat mh < 4294967296 \<Longrightarrow> unat i + n < 4294967296 \<Longrightarrow>
   length (filter (\<lambda>w. produces w (x, y, z, b)) (split_rows l m columns mh N r i n)) =
     (if T - unat r \<le> y \<and> y < T \<and> x < unat (width (outputs_0 l)) \<and> z < unat (tz (outputs_0 l)) \<and> b = 0 then 1 else 0)"
proof (induction n arbitrary: r i)
  case (Suc n)
  note step = even_step [OF Suc.prems]
  define th where "th = (if mh < r then mh else r)"
  define cols where
    "cols = split_columns l m columns th (i * mh) (row_halo (halo l) (i = 0) (i = N - 1) th) (width (outputs_0 l)) 0 (unat columns)"
  have c: "consecutive 0 (map x_span cols) (unat (width (outputs_0 l)))"
    "list_all (\<lambda>w. y_span w = (unat (i * mh), unat th) \<and> z_span w = (0, unat (tz (outputs_0 l))) \<and> b_span w = (0, 1)) cols"
    using split_columns_spans [of "width (outputs_0 l)" 0 m "unat (width (outputs_0 l))" "unat columns"] assms
    by (auto simp: cols_def)
  define inside where "inside \<longleftrightarrow> in_span (unat (i * mh), unat th) y \<and> z < unat (tz (outputs_0 l)) \<and> b = 0"
  have "filter (\<lambda>w. produces w (x, y, z, b)) cols = filter (\<lambda>w. inside \<and> in_span (x_span w) x) cols"
    using c(2) by (intro filter_cong) (auto simp: produces_def list_all_iff inside_def in_span_def)
  then have row: "length (filter (\<lambda>w. produces w (x, y, z, b)) cols) =
      (if inside \<and> x < unat (width (outputs_0 l)) then 1 else 0)"
    using consecutive_once [OF c(1), of x] by (cases inside) (auto simp: filter_map o_def)
  have split: "split_rows l m columns mh N r i (Suc n) = cols @ split_rows l m columns mh N (r - th) (i + 1) n"
    by (simp add: Let_def cols_def th_def)
  have le: "T - unat r + unat th \<le> T" using step(2) by (simp add: th_def)
  show ?case
    unfolding split filter_append length_append row Suc.IH [OF step(3-7), folded th_def]
    using step(1,2) le unfolding th_def [symmetric] inside_def in_span_def by (auto simp: unat_eq_zero)
qed simp

text \<open>The steps of the tiler: they are not zero, and their number times their size covers the dimension without wrapping around.\<close>

lemma even_steps:
  fixes d f g :: u32
  assumes "unat d < 2 ^ 26" "unat f < 2 ^ 26" "unat g \<le> 16" "0 < unat g" "f \<noteq> 0"
  defines "m \<equiv> round_up (ceil_division d f) g"
  shows "unat m < 2 ^ 27" "m \<noteq> 0 \<Longrightarrow> unat d \<le> unat (ceil_division d m) * unat m"
    "m \<noteq> 0 \<Longrightarrow> unat (ceil_division d m) * unat m < 4294967296" "unat d \<le> unat f * unat m"
    "unat f * unat m < 4294967296"
proof -
  have f: "0 < unat f" using assms(5) by (simp add: unat_gt_0)
  have c: "unat (ceil_division d f) = (unat d + unat f - 1) div unat f"
    using assms by (intro unat_ceil_division) auto
  have cm: "unat d \<le> unat (ceil_division d f) * unat f" "unat (ceil_division d f) * unat f < unat d + unat f"
    using f ceil_div_mult_ge [OF f, of "unat d"] ceil_div_mult_less [OF f, of "unat d"] unfolding c by auto
  have "unat (ceil_division d f) \<le> unat (ceil_division d f) * unat f" using f by simp
  also have "\<dots> < 2 ^ 27" using cm(2) assms(1,2) by simp
  finally have cb: "unat (ceil_division d f) < 2 ^ 27" .
  have g: "g \<noteq> 0" using assms(4) by auto
  note m = round_up_bounds [OF g, of "ceil_division d f", folded m_def]
  have b: "unat (ceil_division d f) \<le> unat m" "unat m < unat (ceil_division d f) + unat g"
    using m(1,2) cb assms(3) by auto
  have "unat (ceil_division d f) \<le> unat d"
    unfolding c ceil_div_le_iff [OF f] using f by simp
  then show mb: "unat m < 2 ^ 27" using b assms(1,3) by simp
  show "unat d \<le> unat f * unat m" using cm(1) b(1) by (metis le_trans mult.commute mult_le_mono2)
  have "unat f * unat m \<le> unat f * (unat (ceil_division d f) + 16)" using b(2) assms(3) by (intro mult_le_mono2) simp
  also have "\<dots> < 4294967296" using cm(2) assms(1,2) by (simp add: algebra_simps)
  finally show "unat f * unat m < 4294967296" .
  assume m0: "m \<noteq> 0"
  then have "unat (ceil_division d m) = (unat d + unat m - 1) div unat m"
    using mb assms(1) by (intro unat_ceil_division) auto
  then show "unat d \<le> unat (ceil_division d m) * unat m" "unat (ceil_division d m) * unat m < 4294967296"
    using ceil_div_mult_ge [of "unat m" "unat d"] ceil_div_mult_less [of "unat m" "unat d"] m0 mb assms(1)
    by (auto simp: unat_gt_0)
qed

lemma grid_bounds:
  "unat (grid_at (mpe_mode_to_grid mode) d) \<le> 16" "0 < unat (grid_at (mpe_mode_to_grid mode) d)"
  by (cases mode; cases d; simp add: mpe_mode_to_grid_def grid_at_def)+

lemma splitOverHW_exact:
  assumes "plain_layer l" "unat fw < 2 ^ 26" "unat fh < 2 ^ 26" "splitOverHW l fw fh mode = Inr s"
  shows "tiles_exactly l (split_workloads s)"
proof -
  let ?W = "width (outputs_0 l)" and ?H = "height (outputs_0 l)"
  define mw mh where "mw = round_up (ceil_division ?W fw) (grid_at (mpe_mode_to_grid mode) Act_X)"
    and "mh = round_up (ceil_division ?H fh) (grid_at (mpe_mode_to_grid mode) Act_Y)"
  define ws where "ws = split_rows l mw (ceil_division ?W mw) mh (ceil_division ?H mh) ?H 0 (unat (ceil_division ?H mh))"
  have nz: "fw \<noteq> 0" "fh \<noteq> 0" "mw \<noteq> 0" "mh \<noteq> 0"
    using assms(4) by (auto simp: splitOverHW_def Let_def mw_def mh_def split: if_splits)
  have s: "s = setWorkloadsModeAndInfereInputShape
      \<lparr>split_cycles = replicate (length ws) NO_ERROR, split_workloads = ws\<rparr> mode l"
    using assms(4) by (auto simp: splitOverHW_def Let_def mw_def mh_def ws_def split: if_splits)
  have d: "unat ?W < 2 ^ 26" "unat ?H < 2 ^ 26" using assms(1) by (auto simp: plain_layer_def width_def height_def)
  note w = even_steps [OF d(1) assms(2) grid_bounds nz(1), of mode Act_X, folded mw_def]
  note h = even_steps [OF d(2) assms(3) grid_bounds nz(2), of mode Act_Y, folded mh_def]
  have "length (filter (\<lambda>w. produces w (x, y, z, b)) ws) = (if produces l (x, y, z, b) then 1 else 0)" for x y z b
    unfolding ws_def
    by (subst split_rows_once [where T = "unat ?H"])
      (use w(2,3) h(2,3) nz produces_layer [OF assms(1), of x y z b] in \<open>auto simp: width_def height_def\<close>)
  then have "tiles_exactly l ws" by (auto simp: tiles_exactly_def)
  then show ?thesis using tiles_exactly_cong [OF finished_boxes, of l _ mode l] by (simp add: s)
qed

lemma get_factors_le: "(a, b) \<in> set (get_factors_from n i) \<Longrightarrow> a \<le> n \<and> b \<le> n"
proof (induction n i rule: get_factors_from.induct)
  case (1 n i)
  then have i: "i * i \<le> n" "0 < i" by (auto simp: get_factors_from.simps [of n i] split: if_splits)
  have "i \<le> i * i" using i(2) by simp
  then have le: "i \<le> n" using i(1) by linarith
  show ?case using 1 i le by (auto simp: get_factors_from.simps [of n i] split: if_splits)
qed

lemma getFactors_le:
  assumes "(a, b) \<in> set (getFactors n)"
  shows "unat a \<le> unat n" "unat b \<le> unat n"
proof -
  obtain x y where xy: "(x, y) \<in> set (get_factors_from (unat n) 1)" "a = word_of_nat x" "b = word_of_nat y"
    using assms by (auto simp: getFactors_def)
  have le: "x \<le> unat n" "y \<le> unat n" using get_factors_le [OF xy(1)] by simp_all
  have "x < 4294967296" "y < 4294967296" using le unat_u32_less [of n] by linarith+
  then show "unat a \<le> unat n" "unat b \<le> unat n" using le xy(2,3) by (simp_all add: unat_word_of_nat)
qed

lemma HW_tile_factors_exact:
  assumes "plain_layer l"
  shows "\<forall>(a, b) \<in> set fs. unat a < 2 ^ 26 \<and> unat b < 2 ^ 26 \<Longrightarrow> HW_tile_factors l mode fs = Inr vs \<Longrightarrow> s \<in> set vs \<Longrightarrow>
    tiles_exactly l (split_workloads s)"
proof (induction fs arbitrary: vs)
  case (Cons f fs)
  obtain a b where f: "f = (a, b)" by (cases f)
  show ?case
  proof (cases "a \<le> tx (outputs_0 l) \<and> b \<le> ty (outputs_0 l)")
    case True
    then obtain s' rest where "splitOverHW l a b mode = Inr s'" "HW_tile_factors l mode fs = Inr rest" "vs = s' # rest"
      using Cons.prems(2) f by (auto simp: bind_result_def split: sum.splits)
    then show ?thesis using Cons.IH [of rest] Cons.prems(1,3) f splitOverHW_exact [OF assms] by auto
  next
    case False
    then show ?thesis using Cons f by auto
  qed
qed simp

section \<open>Tiling over the channels\<close>

definition z_tiling :: "DPULayer \<Rightarrow> DPUWorkload list \<Rightarrow> nat \<Rightarrow> nat \<Rightarrow> bool" where
  "z_tiling l ws a b \<longleftrightarrow> list_all (z_tile l) ws \<and> consecutive a (map z_span ws) b"

lemma z_tiling_Nil [simp]: "z_tiling l [] a b \<longleftrightarrow> a = b"
  by (simp add: z_tiling_def)

lemma z_tiling_Cons:
  assumes "c = 0 \<or> unat off = a" "a + unat c = a'" "z_tiling l ws a' b" "same_boxes w (createTileZ l c off)"
  shows "z_tiling l (w # ws) a b"
  using assms z_tile_createTileZ [of l c off]
  by (auto simp: z_tiling_def z_tile_def same_boxes_def span_defs tx_def ty_def tz_def tb_def)

lemma z_tiling_exact:
  assumes "plain_layer l" "z_tiling l (split_workloads s) 0 (unat (tz (outputs_0 l)))"
  shows "tiles_exactly l (split_workloads (setWorkloadsModeAndInfereInputShape s mode l))"
  using z_tiles_exactly [OF assms(1)] assms(2) tiles_exactly_cong [OF finished_boxes, of l s mode l] by (simp add: z_tiling_def)

lemma splitOverZ_loop_tiling:
  "splitOverZ_loop l g m valid r i n s = Some s' \<Longrightarrow>
   r = 0 \<or> unat i * unat m + unat r = T \<Longrightarrow> unat r \<le> T \<Longrightarrow> unat r \<le> n * unat m \<Longrightarrow>
   (unat i + n) * unat m < 4294967296 \<Longrightarrow> unat i + n < 4294967296 \<Longrightarrow>
   \<exists>ws. split_workloads s' = split_workloads s @ ws \<and> z_tiling l ws (T - unat r) T"
proof (induction n arbitrary: r i s)
  case (Suc n)
  define c where "c = (if m < r then m else r)"
  note step = even_step [OF Suc.prems(2-6), folded c_def]
  have "splitOverZ_loop l g m valid (r - c) (i + 1) n (add_tile (createTileZ l c (i * m)) s) = Some s'"
    using Suc.prems(1) by (auto simp: Let_def c_def split: if_splits)
  from Suc.IH [OF this step(3-7)] obtain ws where
    ws: "split_workloads s' = split_workloads s @ createTileZ l c (i * m) # ws" "z_tiling l ws (T - unat (r - c)) T"
    by auto
  have "z_tiling l (createTileZ l c (i * m) # ws) (T - unat r) T"
    by (rule z_tiling_Cons [OF step(1) step(2) ws(2)]) (simp add: same_boxes_def)
  then show ?case using ws(1) by auto
qed auto

lemma splitOverZ_exact:
  assumes "plain_layer l" "unat n < 2 ^ 26" "splitOverZ l mode n valid = Inr (Some s)"
  shows "tiles_exactly l (split_workloads s)"
proof -
  let ?C = "tz (outputs_0 l)"
  define m where "m = round_up (ceil_division ?C n) (grid_at (mpe_mode_to_grid mode) Act_Z)"
  have n: "n \<noteq> 0" using assms(3) by (auto simp: splitOverZ_def Let_def split: if_splits)
  obtain s' where s': "splitOverZ_loop l (grid_at (mpe_mode_to_grid mode) Act_Z) m valid ?C 0 (unat n) empty_split = Some s'"
    "s = setWorkloadsModeAndInfereInputShape s' mode l"
    using assms(3) by (auto simp: splitOverZ_def Let_def m_def split: if_splits)
  have "unat ?C < 2 ^ 26" using assms(1) by (simp add: plain_layer_def)
  note e = even_steps [OF this assms(2) grid_bounds n, of mode Act_Z, folded m_def]
  from splitOverZ_loop_tiling [OF s'(1), of "unat ?C"] e(4,5) have "z_tiling l (split_workloads s') 0 (unat ?C)" by auto
  then show ?thesis unfolding s'(2) by (rule z_tiling_exact [OF assms(1)])
qed

lemma splitInNOverZ_loop_tiling:
  "splitInNOverZ_loop l bins off s = Some s' \<Longrightarrow> 0 \<le> off \<Longrightarrow> off + sum_list bins < 2 ^ 26 \<Longrightarrow>
   list_all (\<lambda>x. 0 < x) bins \<Longrightarrow>
   \<exists>ws. split_workloads s' = split_workloads s @ ws \<and> z_tiling l ws (nat off) (nat (off + sum_list bins))"
proof (induction bins arbitrary: off s)
  case (Cons c bins)
  have pos: "0 < c" "0 \<le> sum_list bins" using Cons.prems(4) by (auto simp: list_all_iff less_imp_le intro!: sum_list_nonneg)
  have c: "unat (to_u32 c) = nat c" "unat (to_u32 off) = nat off"
    using Cons.prems(2,3) pos by (auto intro!: unat_to_u32)
  have "unat (to_u32 off + to_u32 c) = nat (off + c)"
    using Cons.prems(2,3) pos unfolding of_int_add [symmetric] by (intro unat_to_u32) auto
  then have nxt: "to_int (to_u32 off + to_u32 c) = off + c"
    using Cons.prems(2,3) pos by (subst to_int_small) auto
  from Cons.IH [of "off + c" "add_tile (createTileZ l (to_u32 c) (to_u32 off)) s"] Cons.prems pos nxt obtain ws where
    ws: "split_workloads s' = split_workloads s @ createTileZ l (to_u32 c) (to_u32 off) # ws"
      "z_tiling l ws (nat (off + c)) (nat (off + c + sum_list bins))"
    by (auto simp: add.assoc)
  have "z_tiling l (createTileZ l (to_u32 c) (to_u32 off) # ws) (nat off) (nat (off + c + sum_list bins))"
    by (rule z_tiling_Cons [OF _ _ ws(2)]) (use c Cons.prems(2) pos in \<open>auto simp: same_boxes_def\<close>)
  then show ?case using ws(1) by (auto simp: add.assoc)
qed auto

lemma splitInNOverZ_exact:
  assumes "plain_layer l" "unat n < 2 ^ 26" "sr_wf allowed" "splitInNOverZ l mode n allowed = Some s"
  shows "tiles_exactly l (split_workloads s)"
proof -
  let ?C = "channels (outputs_0 l)"
  obtain bins s' where b: "divideBalanced allowed (to_int ?C) (to_int n) [] = (True, bins)"
    "splitInNOverZ_loop l bins 0 empty_split = Some s'" "s = setWorkloadsModeAndInfereInputShape s' mode l"
    using assms(4) by (auto simp: splitInNOverZ_def split: prod.splits if_splits)
  have C: "unat ?C < 2 ^ 26" using assms(1) by (simp add: plain_layer_def channels_def)
  have i: "to_int ?C = int (unat ?C)" "to_int n = int (unat n)" 
    using C assms(2) by (rule_tac [!] to_int_small) simp_all
  have "balanced_split allowed (int (unat ?C)) (int (unat n)) bins"
    using divideBalanced_split [OF assms(3) b(1)] i by auto
  then have sum: "sum_list bins = int (unat ?C)" and pos: "list_all (\<lambda>x. 0 < x) bins"
    by (auto simp: balanced_split_def list_all_iff)
  have "sum_list bins < 2 ^ 26" unfolding sum using C by (metis of_nat_less_iff of_nat_numeral of_nat_power)
  then have "z_tiling l (split_workloads s') 0 (unat ?C)"
    using splitInNOverZ_loop_tiling [OF b(2)] pos sum by (auto simp: nat_eq_iff)
  then show ?thesis unfolding b(3) channels_def by (rule z_tiling_exact [OF assms(1)])
qed

lemma ZEff_tiles_tiling:
  "ZEff_tiles l u bins off s = Some (s', off') \<Longrightarrow> int (unat off) + sum_list bins < 67108864 \<Longrightarrow>
   list_all (\<lambda>x. 0 < x) bins \<Longrightarrow>
   \<exists>ws. split_workloads s' = split_workloads s @ ws \<and> z_tiling l ws (unat off) (unat off + nat (sum_list bins))"
proof (induction bins arbitrary: off s)
  case (Cons c bins)
  have pos: "0 < c" "0 \<le> sum_list bins" using Cons.prems(3) by (auto simp: list_all_iff less_imp_le intro!: sum_list_nonneg)
  have "0 \<le> int (unat off)" by simp
  then have "c < 4294967296" using Cons.prems(2) pos(2) unfolding sum_list.Cons by linarith
  then have c: "unat (to_u32 c) = nat c" using pos by (intro unat_to_u32) auto
  then have nxt: "unat (off + to_u32 c) = unat off + nat c"
  proof (subst unat_add_nowrap)
    have "int (unat off) + int (nat c) < 67108864" using Cons.prems(2) pos unfolding sum_list.Cons by linarith
    then show "unat off + unat (to_u32 c) < 4294967296" unfolding c by linarith
  qed (simp add: c)
  define tile where "tile = set_output_autopad (u \<and> bins = []) (createTileZ l (to_u32 c) off)"
  have run: "ZEff_tiles l u bins (off + to_u32 c) (add_tile tile s) = Some (s', off')"
    using Cons.prems(1) pos by (simp add: tile_def Let_def)
  have "int (unat (off + to_u32 c)) + sum_list bins < 67108864" using Cons.prems(2) pos unfolding nxt by simp
  from Cons.IH [OF run this] Cons.prems(3) nxt obtain ws where
    ws: "split_workloads s' = split_workloads s @ tile # ws"
      "z_tiling l ws (unat off + nat c) (unat off + nat c + nat (sum_list bins))"
    by auto
  have "z_tiling l (tile # ws) (unat off) (unat off + nat c + nat (sum_list bins))"
    by (rule z_tiling_Cons [OF _ _ ws(2)]) (use c in \<open>auto simp: same_boxes_def tile_def set_output_autopad_def\<close>)
  then show ?case using ws(1) pos by (auto simp: nat_add_distrib add.assoc)
qed auto

lemma splitOverZEfficiency_exact:
  assumes "plain_layer l" "list_all (\<lambda>b. 0 < block_size b) blocks" "splitOverZEfficiency l blocks rems ovh mode = Inr (Some s)"
  shows "tiles_exactly l (split_workloads s)"
proof -
  let ?C = "channels (outputs_0 l)" and ?u = "is_output_unaligned (layer_workload l)"
  have C: "unat ?C < 2 ^ 26" using assms(1) by (simp add: plain_layer_def channels_def)
  then have iC: "to_int ?C = int (unat ?C)" by (intro to_int_small) simp
  obtain bins s' off where b: "divideEfficiency ovh blocks rems (to_int ?C) = Inr (Some bins)"
    "ZEff_tiles l ?u bins 0 empty_split = Some (s', off)"
    and fin: "list_all2 same_boxes (split_workloads s) (split_workloads (setWorkloadsModeAndInfereInputShape s' mode l))"
  proof -
    define t where "t s' = setWorkloadsModeAndInfereInputShape s' mode l" for s'
    have refl: "list_all2 same_boxes ws ws" for ws by (simp add: list_all2_conv_all_nth same_boxes_def)
    have fixed: "list_all2 same_boxes (butlast ws @ [fix_remainder_inputs l (last ws)]) ws" if "ws \<noteq> []" for ws
    proof -
      have "list_all2 same_boxes (butlast ws @ [fix_remainder_inputs l (last ws)]) (butlast ws @ [last ws])"
        by (intro list_all2_appendI refl) (simp add: same_boxes_def fix_remainder_inputs_def)
      then show ?thesis using that by simp
    qed
    show thesis
      using assms(3) that refl fixed
      by (auto simp: splitOverZEfficiency_def Let_def bind_result_def t_def split: if_splits sum.splits option.splits list.splits)
  qed
  have "valid_split blocks rems (to_int ?C) bins"
    using divideEfficiency_valid [of blocks ovh rems "to_int ?C"] assms(2) b(1) by (auto simp: list_all_iff)
  then have sum: "sum_list bins = int (unat ?C)" and pos: "list_all (\<lambda>x. 0 < x) bins"
    unfolding iC by (auto simp: valid_split_def list_all_iff regular_sizes_def usable_def split: if_splits)
  have "sum_list bins < 2 ^ 26" unfolding sum using C by (metis of_nat_less_iff of_nat_numeral of_nat_power)
  then have "z_tiling l (split_workloads s') 0 (unat (tz (outputs_0 l)))"
    using ZEff_tiles_tiling [OF b(2) _ pos] sum by (auto simp: channels_def nat_eq_iff)
  from z_tiling_exact [OF assms(1) this, of mode] show ?thesis using tiles_exactly_cong [OF fin] by simp
qed

section \<open>Every algorithm\<close>

definition proper_blocks :: "TilingAlgorithm \<Rightarrow> bool" where
  "proper_blocks algo =
     (case algo of ZEffTiling l m blocks rems ovh \<Rightarrow> list_all (\<lambda>b. 0 < block_size b) blocks | _ \<Rightarrow> True)"

lemma Z_tileMultipleWl_exact:
  assumes "plain_layer l" "unat n < 2 ^ 26" "Z_tileMultipleWl legacy l mode n = Inr (Some s)"
  shows "tiles_exactly l (split_workloads s)"
proof -
  have "sr_wf (getValidIntraTilesChannelsOptions d)" "sr_wf (make_SmartRanges 1 8192 16 None)" for d
    by (simp_all add: getValidIntraTilesChannelsOptions_def)
  then show ?thesis
    using assms(3) splitOverZ_exact [OF assms(1,2)] splitInNOverZ_exact [OF assms(1,2)]
    unfolding Z_tileMultipleWl_def by (simp split: if_splits option.splits) blast+
qed

lemma optional_split_member: "optional_split r = Inr vs \<Longrightarrow> s \<in> set vs \<Longrightarrow> r = Inr (Some s)"
  by (auto simp: optional_split_def bind_result_def split: sum.splits option.splits)

lemma optional_split_bind: "optional_split (bind_result r (\<lambda>s. Inr (Some s))) = Inr vs \<Longrightarrow> s \<in> set vs \<Longrightarrow> r = Inr s"
  by (auto simp: optional_split_def bind_result_def split: sum.splits)

lemma tileMultipleWl_exact:
  assumes "plain_layer (layer_on_tile algo)" "proper_blocks algo" "unat n < 2 ^ 26"
    "tileMultipleWl legacy algo mode n = Inr vs" "s \<in> set vs"
  shows "tiles_exactly (layer_on_tile algo) (split_workloads s)"
proof (cases algo)
  case (HWTiling l m)
  have "\<forall>(a, b) \<in> set (getFactors n). unat a < 2 ^ 26 \<and> unat b < 2 ^ 26"
    using getFactors_le le_less_trans [OF _ assms(3)] by blast
  then show ?thesis using HW_tile_factors_exact [of l "getFactors n" mode vs s] assms HWTiling by simp
next
  case (HTiling l m)
  then have "splitOverHW l 1 n mode = Inr s" using assms(4) optional_split_bind [OF _ assms(5)] by simp
  then show ?thesis using splitOverHW_exact [of l 1 n mode s] assms(1,3) HTiling by simp
next
  case (WTiling l m)
  then have "splitOverHW l n 1 mode = Inr s" using assms(4) optional_split_bind [OF _ assms(5)] by simp
  then show ?thesis using splitOverHW_exact [of l n 1 mode s] assms(1,3) WTiling by simp
next
  case (ZTiling l m)
  then have "Z_tileMultipleWl legacy l mode n = Inr (Some s)" using assms(4) optional_split_member [OF _ assms(5)] by simp
  then show ?thesis using Z_tileMultipleWl_exact [of l n legacy mode s] assms(1,3) ZTiling by simp
next
  case (ZEffTiling l m blocks rems ovh)
  then have "splitOverZEfficiency l blocks rems ovh mode = Inr (Some s)"
    using assms(4) optional_split_member [OF _ assms(5)] by simp
  then show ?thesis
    using splitOverZEfficiency_exact [of l blocks rems ovh mode s] assms(1,2) ZEffTiling by (simp add: proper_blocks_def)
qed

lemma single_workload_exact:
  "tiles_exactly l (split_workloads (setWorkloadsModeAndInfereInputShape
     \<lparr>split_cycles = [NO_ERROR], split_workloads = [layer_workload l]\<rparr> mode l))"
proof -
  have "tiles_exactly l [layer_workload l]" by (simp add: tiles_exactly_def produces_def span_defs)
  then show ?thesis using tiles_exactly_cong [OF finished_boxes, of l _ mode l] by simp
qed

lemma split_variants_exact:
  assumes "plain_layer (layer_on_tile algo)" "proper_blocks algo" "unat nWorkloads < 2 ^ 26"
    "split_tile_in_workloads legacy algo mode nWorkloads = Inr variants" "s \<in> set variants"
  shows "tiles_exactly (layer_on_tile algo) (split_workloads s)"
proof (cases "nWorkloads = 1")
  case True
  then show ?thesis using assms(4,5) single_workload_exact by (auto simp: split_tile_in_workloads_def)
next
  case False
  then show ?thesis
    using tileMultipleWl_exact [OF assms(1-3) _ assms(5)] assms(4) by (simp add: split_tile_in_workloads_def)
qed


definition sample_variants :: "DPUWorkloadsWithCyclesSplit list" where
  "sample_variants = (case HW_tile_factors sample_layer CUBOID_16x16 (getFactors 4) of Inr vs \<Rightarrow> vs | Inl e \<Rightarrow> [])"

lemma sample_split: "split_tile_in_workloads True (HWTiling sample_layer 128) CUBOID_16x16 4 = Inr sample_variants"
proof -
  have "HW_tile_factors sample_layer CUBOID_16x16 (getFactors 4) = Inr vs" if "vs = sample_variants" "sample_variants \<noteq> []" for vs
    using that by (auto simp: sample_variants_def split: sum.splits)
  moreover have "sample_variants \<noteq> []" by code_simp
  ultimately show ?thesis by (simp add: split_tile_in_workloads_def)
qed


end
