(* ===== verification/Split_Pools.thy ===== *)
theory Split_Pools
  imports Intra_Tile Layer_Split_Inputs
begin

text \<open>
  The numbers of workloads that \<open>generateSplitPool\<close> proposes: with at least one DPU the loops end and the counts are within the
  limit of the algorithm; with no DPU the loop that collects the multiples never ends.
\<close>

section \<open>Multiples of the number of DPUs\<close>

lemma dpu_multiples_never:
  assumes "0 < limit"
  shows "dpu_multiples 0 limit 0 = None"
proof -
  have "n = 0 \<longrightarrow> \<not> i < lim" if "dpu_multiples n lim i = Some r" for n lim i r
    using that
  proof (rule dpu_multiples.raw_induct [where P = "\<lambda>n lim i r. n = 0 \<longrightarrow> \<not> i < lim", rotated])
    fix multiples :: "u32 \<Rightarrow> u32 \<Rightarrow> u32 \<Rightarrow> u32 list option" and n lim i :: u32 and r
    assume IH: "\<And>n lim i r. multiples n lim i = Some r \<Longrightarrow> n = 0 \<longrightarrow> \<not> i < lim"
      and run: "(if i < lim then Option.bind (multiples n lim (i + n)) (\<lambda>rest. Some (i # rest)) else Some []) = Some r"
    show "n = 0 \<longrightarrow> \<not> i < lim"
    proof (intro impI notI)
      assume n: "n = 0" "i < lim"
      then obtain rest where "multiples n lim (i + n) = Some rest" using run by (auto simp: bind_eq_Some_conv)
      from IH [OF this] show False using n by simp
    qed
  qed
  then show ?thesis using assms by (cases "dpu_multiples 0 limit 0") auto
qed

lemma dpu_multiples_total:
  assumes "0 < unat n" "unat limit + unat n \<le> 4294967296"
  shows "\<exists>xs. dpu_multiples n limit i = Some xs \<and> (\<forall>x \<in> set xs. i \<le> x \<and> x < limit)"
proof (induction "unat limit - unat i" arbitrary: i rule: less_induct)
  case less
  show ?case
  proof (cases "i < limit")
    case True
    then have i: "unat i < unat limit" by (simp add: word_less_nat_alt)
    have next_i: "unat (i + n) = unat i + unat n" using i assms(2) by (intro unat_add_nowrap) simp
    then obtain xs where "dpu_multiples n limit (i + n) = Some xs" "\<forall>x \<in> set xs. i + n \<le> x \<and> x < limit"
      using less [of "i + n"] i assms(1) by (auto simp: diff_less_mono2)
    moreover have "i \<le> i + n" using next_i by (simp add: word_le_nat_alt)
    ultimately show ?thesis using True by (subst dpu_multiples.simps) fastforce
  next
    case False
    then show ?thesis by (subst dpu_multiples.simps) simp
  qed
qed

section \<open>Pools\<close>

definition proper_pool :: "u32 \<Rightarrow> u32 list \<Rightarrow> bool" where
  "proper_pool m pool \<longleftrightarrow> sorted_wrt (<) pool \<and> 1 \<in> set pool \<and> list_all (\<lambda>n. 1 \<le> n \<and> (n = 1 \<or> n \<le> m)) pool"

lemma getSplitsFromRange_bounds: "x \<in> set (getSplitsFromRange n m) \<Longrightarrow> 1 \<le> x \<and> x \<le> m"
proof -
  assume "x \<in> set (getSplitsFromRange n m)"
  then obtain i where i: "i < 32" "2 ^ i < unat n" "x = n div 2 ^ i" "x \<le> m"
    by (auto simp: getSplitsFromRange_def)
  have "(2 :: nat) ^ i < 2 ^ 32" using i(1) by (intro power_strict_increasing) simp_all
  then have "unat (word_of_nat (2 ^ i) :: u32) = 2 ^ i" by (intro unat_word_of_nat) simp
  then have "unat ((2 :: u32) ^ i) = 2 ^ i" by simp
  then have "1 \<le> unat x" using i(2,3) by (simp add: unat_div_u32 div_greater_zero_iff Suc_le_eq)
  then show ?thesis using i(4) by (simp add: word_le_nat_alt)
qed

lemma split_pool_proper:
  assumes "numDPU \<noteq> 0" "unat m + unat numDPU < 4294967296"
  shows "\<exists>pool. split_pool numDPU m splits = Inr pool \<and> proper_pool m pool"
proof -
  have lim: "unat (m + 1) = unat m + 1" 
  proof (subst unat_add_nowrap)
    have "0 < unat numDPU" using assms(1) by (simp add: unat_gt_0)
    then show "unat m + unat (1 :: u32) < 4294967296" using assms(2) by simp
  qed simp
  have n: "0 < unat numDPU" using assms(1) by (simp add: unat_gt_0)
  obtain xs where xs: "dpu_multiples numDPU (m + 1) numDPU = Some xs" "\<forall>x \<in> set xs. numDPU \<le> x \<and> x < m + 1"
    using dpu_multiples_total [OF n, of "m + 1" numDPU] lim assms(2) by auto
  have "1 \<le> x \<and> x \<le> m" if "x \<in> set xs" for x
    using xs(2) that n lim by (fastforce simp: word_le_nat_alt word_less_nat_alt)
  then have "\<forall>x \<in> set (to_set (1 # xs @ concat (map (\<lambda>s. getSplitsFromRange s m) splits))). 1 \<le> x \<and> (x = 1 \<or> x \<le> m)"
    using getSplitsFromRange_bounds by (auto simp: to_set_def)
  then have "proper_pool m (to_set (1 # xs @ concat (map (\<lambda>s. getSplitsFromRange s m) splits)))"
    by (simp add: proper_pool_def list_all_iff to_set_def strict_sorted_iff)
  then show ?thesis using xs(1) by (auto simp: split_pool_def)
qed

lemma proper_pool_mono: "proper_pool m pool \<Longrightarrow> m \<le> m' \<Longrightarrow> proper_pool m' pool"
  by (auto simp: proper_pool_def list_all_iff)

lemma proper_pool_one: "proper_pool m [1]"
  by (simp add: proper_pool_def)

lemma HW_pool_proper:
  assumes "numDPU \<noteq> 0" "unat m + unat numDPU < 4294967296" "unat (tx (outputs_0 l)) < 2 ^ 16" "unat (ty (outputs_0 l)) < 2 ^ 16"
  shows "\<exists>pool. HW_generateSplitPool l m numDPU mode = Inr pool \<and> proper_pool m pool"
proof (cases "numDPU = 1")
  case False
  define xy where "xy = unat (ty (outputs_0 l) div mpe_mode_to_grid mode ! 0) * unat (tx (outputs_0 l) div mpe_mode_to_grid mode ! 1)"
  have "xy \<le> unat (ty (outputs_0 l)) * unat (tx (outputs_0 l))"
    unfolding xy_def by (intro mult_le_mono) (simp_all add: unat_div_u32)
  also have "\<dots> \<le> 65535 * 65535" using assms(3,4) by (intro mult_le_mono) simp_all
  finally have xy: "xy < 2 ^ 32" by simp
  have "unat (min m (word_of_nat xy)) \<le> unat m" by (simp add: min_def word_le_nat_alt)
  then have "unat (min m (word_of_nat xy)) + unat numDPU < 4294967296" using assms(2) by linarith
  then obtain pool where pool: "split_pool numDPU (min m (word_of_nat xy)) [word_of_nat xy] = Inr pool"
    "proper_pool (min m (word_of_nat xy)) pool"
    using split_pool_proper [OF assms(1)] by blast
  have "HW_generateSplitPool l m numDPU mode = Inr pool"
    using False xy pool(1) unfolding HW_generateSplitPool_def Let_def xy_def [symmetric] by simp
  then show ?thesis using proper_pool_mono [OF pool(2) min.cobounded1] by blast
qed (auto simp: HW_generateSplitPool_def proper_pool_one)

lemma Z_pool_proper:
  assumes "numDPU \<noteq> 0" "unat m + unat numDPU < 4294967296"
  shows "\<exists>pool. Z_generateSplitPool l m numDPU mode = Inr pool \<and> proper_pool m pool"
proof (cases "numDPU = 1 \<and> isNoSplitOperation (op l) \<or> device l = VPU_2_0 \<and> mode \<noteq> VECTOR \<and> op l \<noteq> CONVOLUTION")
  case False
  define zs where "zs = map (splits_in_Z (tz (outputs_0 l))) zTile_values"
  have "unat (min m (Max (set zs))) \<le> unat m" by (simp add: min_def word_le_nat_alt)
  then have "unat (min m (Max (set zs))) + unat numDPU < 4294967296" using assms(2) by linarith
  then obtain pool where pool: "split_pool numDPU (min m (Max (set zs))) zs = Inr pool" "proper_pool (min m (Max (set zs))) pool"
    using split_pool_proper [OF assms(1)] by blast
  have "Z_generateSplitPool l m numDPU mode = Inr pool"
    using pool(1) unfolding Z_generateSplitPool_def Let_def zs_def [symmetric]
    by (subst if_not_P, use False in blast)+
  then show ?thesis using proper_pool_mono [OF pool(2) min.cobounded1] by blast
qed (auto simp: Z_generateSplitPool_def proper_pool_one)

fun legacy_algorithm :: "TilingAlgorithm \<Rightarrow> bool" where
  "legacy_algorithm (ZEffTiling l m blocks rems ovh) \<longleftrightarrow> False"
| "legacy_algorithm algo \<longleftrightarrow> True"

fun max_workloads_of :: "TilingAlgorithm \<Rightarrow> u32" where
  "max_workloads_of (HWTiling layer m) = m"
| "max_workloads_of (HTiling layer m) = m"
| "max_workloads_of (WTiling layer m) = m"
| "max_workloads_of (ZTiling layer m) = m"
| "max_workloads_of (ZEffTiling layer m blocks remainders overhead) = m"

text \<open>
  The pools of the tilers over height, width and channels, for at least one DPU and an output of less than 65536 by 65536: the loops
  end, the pool is sorted without repetition, contains one workload, and asks for no more workloads than the limit of the algorithm.
\<close>

theorem generateSplitPool_bounds:
  assumes "legacy_algorithm algo" "numDPU \<noteq> 0" "unat (max_workloads_of algo) + unat numDPU < 4294967296"
    "unat (tx (outputs_0 (layer_on_tile algo))) < 2 ^ 16" "unat (ty (outputs_0 (layer_on_tile algo))) < 2 ^ 16"
  shows "\<exists>pool. generateSplitPool algo numDPU mode = Inr pool \<and> proper_pool (max_workloads_of algo) pool"
  using assms HW_pool_proper Z_pool_proper by (cases algo) auto

theorem generateSplitPool_bounds_witness:
  "\<exists>pool. generateSplitPool (HWTiling sample_layer 128) 2 CUBOID_16x16 = Inr pool \<and> proper_pool 128 pool"
  using generateSplitPool_bounds [of "HWTiling sample_layer 128" 2 CUBOID_16x16] by (simp add: sample_layer_defs tx_def ty_def)

text \<open>
  A number of DPUs of zero, which the options document as \<^verbatim>\<open>auto-detect\<close> and which is their default, makes the collection of the
  multiples an endless loop in every tiler over height and width, whatever the layer: no pool is ever returned.
\<close>

theorem zero_dpu_never_ends:
  "\<exists>e. HW_generateSplitPool layer (maxWorkloads default_SplitOptions) (nDPU default_SplitOptions) mode = Inl e"
proof -
  have "min 128 v + 1 \<noteq> 0" for v :: u32
  proof -
    have "unat (min 128 v) \<le> 128" by (simp add: min_def word_le_nat_alt)
    then have "unat (min 128 v + 1) = unat (min 128 v) + 1" by (subst unat_add_nowrap) auto
    then show ?thesis by (metis add_is_0 one_neq_zero unat_0)
  qed
  then have "0 < min 128 v + 1" for v :: u32 by (simp add: word_gt_0)
  then show ?thesis
    by (simp add: HW_generateSplitPool_def default_SplitOptions_def Let_def split_pool_def dpu_multiples_never)
qed

end
