(* ===== verification/Dpu_Tiler_Laws.thy ===== *)
theory Dpu_Tiler_Laws
  imports Dpu_Tiler Intra_Tile_Laws Split_Pools Dpu_Cost_Laws
begin

text \<open>
  The best split of a layer. The interface between the tiler and the cost model is a cost that does not depend on what was asked
  before; under it the whole search is the search with a plain cost function. The cost model provides it, its caches
  included.
\<close>

section \<open>Workloads of a layer\<close>

definition of_layer :: "DPULayer \<Rightarrow> DPUWorkload \<Rightarrow> bool" where
  "of_layer l w \<longleftrightarrow> device w = device l \<and> cost_source_hint w = cost_source_hint l"

abbreviation all_of_layer :: "DPULayer \<Rightarrow> DPUWorkloadsWithCyclesSplit \<Rightarrow> bool" where
  "all_of_layer l s \<equiv> list_all (of_layer l) (split_workloads s)"

lemma of_layer_tiles [simp]:
  "of_layer l (layer_workload l)" "of_layer l (createTileZ l c off)" "of_layer l (createTileHW l tw th ow oh hh)"
  "of_layer l (inferInputTensorShape w l) = of_layer l w" "of_layer l (w\<lparr>execution_order := m\<rparr>) = of_layer l w"
  "of_layer l (set_output_autopad b w) = of_layer l w" "of_layer l (fix_remainder_inputs l w) = of_layer l w"
  by (simp_all add: of_layer_def layer_workload_def DPUWorkload.truncate_def createTileZ_def createTileHW_def
      createIncompleteTile_def inferInputTensorShape_def set_output_autopad_def fix_remainder_inputs_def Let_def)

lemma of_layer_finished [simp]: "all_of_layer l (setWorkloadsModeAndInfereInputShape s mode l) = all_of_layer l s"
  by (simp add: setWorkloadsModeAndInfereInputShape_def list_all_iff)

lemma of_layer_columns: "list_all (of_layer l) (split_columns l m N th oh h r i n)"
  by (induction n arbitrary: h r i) (simp_all add: Let_def)

lemma of_layer_rows: "list_all (of_layer l) (split_rows l m columns mh N r i n)"
  by (induction n arbitrary: r i) (simp_all add: Let_def of_layer_columns)

lemma of_layer_HW: "splitOverHW l a b mode = Inr s \<Longrightarrow> all_of_layer l s"
  by (auto simp: splitOverHW_def Let_def of_layer_rows split: if_splits)

lemma of_layer_factors: "HW_tile_factors l mode fs = Inr vs \<Longrightarrow> s \<in> set vs \<Longrightarrow> all_of_layer l s"
proof (induction l mode fs arbitrary: vs rule: HW_tile_factors.induct)
  case (2 l mode a b fs)
  show ?case
  proof (cases "a \<le> tx (outputs_0 l) \<and> b \<le> ty (outputs_0 l)")
    case True
    then obtain s' rest where "splitOverHW l a b mode = Inr s'" "HW_tile_factors l mode fs = Inr rest" "vs = s' # rest"
      using "2.prems"(1) by (auto simp: bind_result_def split: sum.splits)
    then show ?thesis using "2.IH"(1) True "2.prems"(2) of_layer_HW by auto
  next
    case False
    then show ?thesis using "2.IH"(2) [OF False] "2.prems" by auto
  qed
qed simp

lemma of_layer_Z_loop: "splitOverZ_loop l g m valid r i n s = Some s' \<Longrightarrow> all_of_layer l s \<Longrightarrow> all_of_layer l s'"
proof (induction n arbitrary: r i s)
  case (Suc n)
  then show ?case by (auto simp: Let_def split: if_splits)
qed simp

lemma of_layer_N_loop: "splitInNOverZ_loop l bins off s = Some s' \<Longrightarrow> all_of_layer l s \<Longrightarrow> all_of_layer l s'"
  by (induction bins arbitrary: off s) (auto split: if_splits)

lemma of_layer_ZEff_tiles: "ZEff_tiles l u bins off s = Some (s', off') \<Longrightarrow> all_of_layer l s \<Longrightarrow> all_of_layer l s'"
  by (induction bins arbitrary: off s) (auto simp: Let_def split: if_splits)

lemma of_layer_Z: "Z_tileMultipleWl legacy l mode n = Inr (Some s) \<Longrightarrow> all_of_layer l s"
  by (auto simp: Z_tileMultipleWl_def splitOverZ_def splitInNOverZ_def Let_def dest!: of_layer_Z_loop of_layer_N_loop
      split: if_splits option.splits prod.splits)

lemma of_layer_ZEff:
  assumes "splitOverZEfficiency l blocks rems ovh mode = Inr (Some s)"
  shows "all_of_layer l s"
proof -
  have fixed: "list_all (of_layer l) (butlast ws @ [fix_remainder_inputs l (last ws)])"
    if "list_all (of_layer l) ws" "ws \<noteq> []" for ws
    using that by (auto simp: list_all_iff dest: in_set_butlastD)
  have fin: "all_of_layer l s'"
    if "ZEff_tiles l u bins 0 empty_split = Some (s', off)" for u bins s' off
    using of_layer_ZEff_tiles [OF that] by simp
  show ?thesis
    using assms fin fixed
    by (auto simp: splitOverZEfficiency_def Let_def bind_result_def simp del: ZEff_tiles.simps
        split: if_splits sum.splits option.splits list.splits)
qed

lemma of_layer_variants:
  assumes "split_tile_in_workloads legacy algo mode n = Inr vs" "s \<in> set vs"
  shows "all_of_layer (layer_on_tile algo) s"
proof (cases "n = 1")
  case True
  then have "s = setWorkloadsModeAndInfereInputShape
      \<lparr>split_cycles = [NO_ERROR], split_workloads = [layer_workload (layer_on_tile algo)]\<rparr> mode (layer_on_tile algo)"
    using assms by (auto simp: split_tile_in_workloads_def)
  then show ?thesis by simp
next
  case False
  then have run: "tileMultipleWl legacy algo mode n = Inr vs" using assms(1) by (simp add: split_tile_in_workloads_def)
  show ?thesis
    using run assms(2) of_layer_factors of_layer_HW of_layer_Z of_layer_ZEff
    by (cases algo) (auto dest!: optional_split_member optional_split_bind)
qed

section \<open>Costs that do not depend on what was asked before\<close>

definition plain_cost :: "(DPUWorkload \<Rightarrow> CyclesInterfaceType) \<Rightarrow> unit dpu_cost" where
  "plain_cost cost wl st = (Inr (cost wl), st)"

definition agrees :: "('s \<Rightarrow> bool) \<Rightarrow> 'a \<times> 's \<Rightarrow> 'a \<times> unit \<Rightarrow> bool" where
  "agrees okst x y \<longleftrightarrow> fst x = fst y \<and> okst (snd x)"

lemma agrees_return [intro]: "okst st \<Longrightarrow> agrees okst (r, st) (r, u)"
  by (simp add: agrees_def)

lemma agrees_run_then [intro]:
  assumes "agrees okst x y" "\<And>v st u. fst y = Inr v \<Longrightarrow> okst st \<Longrightarrow> agrees okst (f v st) (g v u)"
  shows "agrees okst (run_then x f) (run_then y g)"
  using assms by (cases x; cases y; cases "fst x") (auto simp: agrees_def)

definition evaluated :: "(DPUWorkload \<Rightarrow> CyclesInterfaceType) \<Rightarrow> DPUWorkloadsWithCyclesSplit \<Rightarrow> DPUWorkloadsWithCyclesSplit" where
  "evaluated cost s =
     (if split_workloads s = [] then s else s\<lparr>split_cycles := map cost (split_workloads s)\<rparr>)"

definition split_outcome :: "(DPUWorkload \<Rightarrow> CyclesInterfaceType) \<Rightarrow> u32 \<Rightarrow> DPUWorkloadsWithCyclesSplit \<Rightarrow> CyclesInterfaceType result" where
  "split_outcome cost overhead s =
     (if split_workloads s = [] then Inr 0 else schedule_split (evaluated cost s) overhead)"

lemma split_workloads_evaluated [simp]: "split_workloads (evaluated cost s) = split_workloads s"
  by (simp add: evaluated_def)

lemma algorithm_of_strategy_layer: "algo \<in> set (algorithm_of_strategy l options strategy) \<Longrightarrow> layer_on_tile algo = l"
  by (cases strategy) (auto simp: algorithm_of_strategy_def split: if_splits)

lemma getTilingAlgorithms_layer: "algo \<in> set (getTilingAlgorithms l options) \<Longrightarrow> layer_on_tile algo = l"
  by (auto simp: getTilingAlgorithms_def algorithm_of_strategy_layer)

text \<open>The contract of the cost model: in every good state a good workload is answered with its cost, and the state stays good.\<close>

locale repeatable_cost =
  fixes dpu :: "'s dpu_cost" and cost :: "DPUWorkload \<Rightarrow> CyclesInterfaceType"
    and ok :: "DPUWorkload \<Rightarrow> bool" and okst :: "'s \<Rightarrow> bool"
  assumes dpu_answers: "okst st \<Longrightarrow> ok wl \<Longrightarrow> \<exists>st'. dpu wl st = (Inr (cost wl), st') \<and> okst st'"
begin

lemma compute_cycles_cost:
  "okst st \<Longrightarrow> list_all ok wls \<Longrightarrow> length cycles = length wls \<Longrightarrow>
   \<exists>st'. compute_cycles dpu wls cycles st = (Inr (), map cost wls, st') \<and> okst st'"
proof (induction wls arbitrary: cycles st)
  case (Cons wl wls)
  then obtain st1 where st1: "dpu wl st = (Inr (cost wl), st1)" "okst st1" using dpu_answers [of st wl] by auto
  obtain st2 where "compute_cycles dpu wls (tl cycles) st1 = (Inr (), map cost wls, st2)" "okst st2"
    using Cons.IH [OF st1(2), of "tl cycles"] Cons.prems(2,3) by auto
  then show ?case using st1(1) by simp
qed simp

lemma computeSplitCycles_cost:
  assumes "okst st" "list_all ok (split_workloads s)"
  shows "\<exists>st'. computeSplitCycles dpu s overhead st = (split_outcome cost overhead s, evaluated cost s, st') \<and> okst st'"
proof (cases "split_workloads s = []")
  case True
  then show ?thesis using assms(1) by (simp add: computeSplitCycles_def split_outcome_def evaluated_def)
next
  case False
  define n where "n = length (split_workloads s)"
  have "length (take n (split_cycles s) @ replicate (n - length (split_cycles s)) 0) = length (split_workloads s)"
    by (simp add: n_def)
  from compute_cycles_cost [OF assms this] show ?thesis
    using False by (auto simp: computeSplitCycles_def computeWorkloadCycles_def split_outcome_def evaluated_def n_def Let_def)
qed

end

interpretation plain: repeatable_cost "plain_cost cost" cost "\<lambda>_. True" "\<lambda>_ :: unit. True" for cost
  by unfold_locales (simp add: plain_cost_def)

lemma plain_computeSplitCycles:
  "computeSplitCycles (plain_cost cost) s overhead u = (split_outcome cost overhead s, evaluated cost s, ())"
  using plain.computeSplitCycles_cost [where s = s and overhead = overhead and st = u and cost = cost] by (auto simp: list_all_iff)

context repeatable_cost begin

lemma measure_variant_agrees:
  assumes "okst st" "list_all ok (split_workloads s)"
  shows "agrees okst (measure_variant dpu overhead s st) (measure_variant (plain_cost cost) overhead s u)"
proof -
  obtain st' where "computeSplitCycles dpu s overhead st = (split_outcome cost overhead s, evaluated cost s, st')" "okst st'"
    using computeSplitCycles_cost [OF assms] by blast
  then show ?thesis
    by (auto simp: measure_variant_def plain_computeSplitCycles agrees_def split: sum.split cpp_exception.split)
qed

lemma measure_split_agrees:
  assumes "okst st" "list_all ok (split_workloads s)"
  shows "agrees okst (measure_split dpu overhead s st) (measure_split (plain_cost cost) overhead s u)"
proof -
  obtain st' where "computeSplitCycles dpu s overhead st = (split_outcome cost overhead s, evaluated cost s, st')" "okst st'"
    using computeSplitCycles_cost [OF assms] by blast
  then show ?thesis by (auto simp: measure_split_def plain_computeSplitCycles agrees_def split: sum.split)
qed

lemma measure_variants_agrees:
  "okst st \<Longrightarrow> \<forall>s \<in> set vs. list_all ok (split_workloads s) \<Longrightarrow>
   agrees okst (measure_variants dpu overhead vs st) (measure_variants (plain_cost cost) overhead vs u)"
proof (induction vs arbitrary: st u)
  case (Cons s vs)
  show ?case
    unfolding measure_variants.simps
    by (intro agrees_run_then measure_variant_agrees Cons.IH agrees_return) (use Cons.prems in auto)
qed auto

lemma measure_splits_agrees:
  "okst st \<Longrightarrow> \<forall>s \<in> set vs. list_all ok (split_workloads s) \<Longrightarrow>
   agrees okst (measure_splits dpu overhead vs st) (measure_splits (plain_cost cost) overhead vs u)"
proof (induction vs arbitrary: st u)
  case (Cons s vs)
  show ?case
    unfolding measure_splits.simps
    by (intro agrees_run_then measure_split_agrees Cons.IH agrees_return) (use Cons.prems in auto)
qed auto

lemma variants_ok:
  assumes "\<And>w. of_layer l w \<Longrightarrow> ok w" "layer_on_tile algo = l" "split_tile_in_workloads legacy algo mode n = Inr vs" "s \<in> set vs"
  shows "list_all ok (split_workloads s)"
  using of_layer_variants [OF assms(3,4)] assms(1,2) by (auto simp: list_all_iff)

lemma measure_counts_agrees:
  assumes "\<And>w. of_layer l w \<Longrightarrow> ok w" "layer_on_tile algo = l"
  shows "okst st \<Longrightarrow> agrees okst (measure_counts dpu legacy late options algo mode ns k st)
    (measure_counts (plain_cost cost) legacy late options algo mode ns k u)"
proof (induction ns arbitrary: k st u)
  case (Cons n ns)
  show ?case
    unfolding measure_counts.simps
    by (auto intro!: agrees_run_then measure_variants_agrees Cons.IH agrees_return Cons.prems
        intro: variants_ok [OF assms] split: prod.split)
qed auto

lemma measure_all_agrees:
  assumes "\<And>w. of_layer l w \<Longrightarrow> ok w"
  shows "okst st \<Longrightarrow> \<forall>(algo, mode) \<in> set tries. layer_on_tile algo = l \<Longrightarrow>
    agrees okst (measure_all dpu legacy late options tries k st) (measure_all (plain_cost cost) legacy late options tries k u)"
proof (induction tries arbitrary: k st u)
  case (Cons attempt tries)
  obtain algo mode where t: "attempt = (algo, mode)" by (cases attempt)
  have l: "layer_on_tile algo = l" using Cons.prems(2) t by simp
  show ?case
    unfolding t measure_all.simps
    by (auto intro!: agrees_run_then measure_counts_agrees [OF assms l] Cons.IH agrees_return Cons.prems(1)
        split: prod.split) (use Cons.prems(2) in auto)
qed auto

lemma measureCandidateBlocks_agrees:
  assumes "\<And>w. of_layer l w \<Longrightarrow> ok w"
  shows "okst st \<Longrightarrow> agrees okst (measureCandidateBlocks dpu l mode sizes st) (measureCandidateBlocks (plain_cost cost) l mode sizes u)"
proof (induction sizes arbitrary: st u)
  case (Cons sz sizes)
  let ?w = "(layer_workload (createTestLayer l sz))\<lparr>execution_order := mode\<rparr>"
  have "of_layer l ?w"
    by (simp add: of_layer_def layer_workload_def DPUWorkload.truncate_def createTestLayer_def Let_def)
  then have w: "agrees okst (dpu ?w st) (plain_cost cost ?w u)"
    using dpu_answers [OF Cons.prems] assms by (fastforce simp: agrees_def plain_cost_def)
  show ?case
    unfolding measureCandidateBlocks.simps Let_def
    by (intro agrees_run_then w Cons.IH agrees_return)
qed auto

lemma zeff_blocks_agrees:
  assumes "\<And>w. of_layer l w \<Longrightarrow> ok w" "okst st"
  shows "agrees okst (zeff_blocks dpu l cands rems mode algo st) (zeff_blocks (plain_cost cost) l cands rems mode algo u)"
  unfolding zeff_blocks_def Let_def
  by (auto intro!: agrees_run_then measureCandidateBlocks_agrees assms(1) agrees_return assms(2))

lemma layer_on_tile_set [simp]:
  "layer_on_tile (setBlocks b algo) = layer_on_tile algo" "layer_on_tile (setRemainderBlocks b algo) = layer_on_tile algo"
  by (cases algo; simp)+

lemma zeff_blocks_layer:
  assumes "fst (zeff_blocks d l cands rems mode algo u) = Inr (go_on, algo')"
  shows "layer_on_tile algo' = layer_on_tile algo"
  using assms by (auto simp: zeff_blocks_def run_then_def Let_def split: prod.splits sum.splits if_splits)

lemma zeff_modes_agrees:
  assumes "\<And>w. of_layer l w \<Longrightarrow> ok w"
  shows "okst st \<Longrightarrow> layer_on_tile algo = l \<Longrightarrow>
    agrees okst (zeff_modes dpu legacy options l cands rems algo modes st)
      (zeff_modes (plain_cost cost) legacy options l cands rems algo modes u)"
proof (induction modes arbitrary: algo st u)
  case (Cons mode modes)
  have tail: "agrees okst
      (if \<not> go_on then zeff_modes dpu legacy options l cands rems algo' modes st'
       else run_then (split_tile_in_workloads legacy algo' mode n, st') (\<lambda>variants st.
         run_then (measure_splits dpu (runtimeOverhead options) variants st) (\<lambda>cs st.
           run_then (zeff_modes dpu legacy options l cands rems algo' modes st) (\<lambda>rest st. (Inr (cs @ rest), st)))))
      (if \<not> go_on then zeff_modes (plain_cost cost) legacy options l cands rems algo' modes u'
       else run_then (split_tile_in_workloads legacy algo' mode n, u') (\<lambda>variants st.
         run_then (measure_splits (plain_cost cost) (runtimeOverhead options) variants st) (\<lambda>cs st.
           run_then (zeff_modes (plain_cost cost) legacy options l cands rems algo' modes st) (\<lambda>rest st. (Inr (cs @ rest), st)))))"
    if "okst st'" "layer_on_tile algo' = l" for go_on algo' n st' u'
  proof (cases go_on)
    case True
    then show ?thesis
      by (simp only: not_True_eq_False if_False)
        (intro agrees_run_then measure_splits_agrees Cons.IH agrees_return ballI variants_ok [OF assms that(2)];
          (assumption | simp add: that))
  next
    case False
    then show ?thesis using Cons.IH [OF that] by simp
  qed
  have blocks: "agrees okst (if n = 0 then zeff_blocks dpu l cands rems mode algo st' else (Inr (True, algo), st'))
      (if n = 0 then zeff_blocks (plain_cost cost) l cands rems mode algo u' else (Inr (True, algo), u'))"
    if "okst st'" for n st' u'
    using that zeff_blocks_agrees [OF assms] by auto
  have kept: "layer_on_tile algo' = l"
    if "fst (if n = 0 then zeff_blocks (plain_cost cost) l cands rems mode algo u' else (Inr (True, algo), u')) = Inr (go_on, algo')"
    for n u' go_on algo'
    using that zeff_blocks_layer [of "plain_cost cost" l cands rems mode algo u' go_on algo'] Cons.prems(2) by (simp split: if_splits)
  show ?case
    unfolding zeff_modes.simps Let_def
  proof (rule agrees_run_then, rule agrees_return, rule Cons.prems(1), rule agrees_run_then, rule blocks, assumption, goal_cases)
    case (1 pool st1 u1 v st2 u2)
    obtain go_on algo' where v: "v = (go_on, algo')" by (cases v)
    have "layer_on_tile algo' = l" using kept 1(3) v by simp
    from tail [OF 1(4) this] show ?case unfolding v prod.case .
  qed
qed auto

lemma intraTileSplit_agrees:
  assumes all_ok: "\<forall>w. of_layer l w \<longrightarrow> ok w" and good: "okst st"
  shows "agrees okst (intraTileSplit dpu legacy late l options st) (intraTileSplit (plain_cost cost) legacy late l options u)"
proof -
  have assms: "\<And>w. of_layer l w \<Longrightarrow> ok w" "okst st" using all_ok good by auto
  note algos = getTilingAlgorithms_layer [of _ l options]
  have "agrees okst (generateSplits dpu legacy late (getTilingAlgorithms l options) modes options st)
      (generateSplits (plain_cost cost) legacy late (getTilingAlgorithms l options) modes options u)" for modes
    unfolding generateSplits_def by (rule measure_all_agrees [OF assms]) (auto intro: algos)
  moreover have "agrees okst
      (generateSplits_processZEffTilingSplits dpu legacy (getTilingAlgorithms l options) l modes options st)
      (generateSplits_processZEffTilingSplits (plain_cost cost) legacy (getTilingAlgorithms l options) l modes options u)" for modes
  proof (cases "findZEffTilingAlgorithm (getTilingAlgorithms l options)")
    case (Some algo)
    then have "algo \<in> set (getTilingAlgorithms l options)" by (auto simp: findZEffTilingAlgorithm_def find_Some_iff)
    then show ?thesis
      using Some
      by (auto intro!: agrees_run_then agrees_return zeff_modes_agrees [OF assms(1)] algos assms(2)
          simp: generateSplits_processZEffTilingSplits_def)
  qed (auto simp: generateSplits_processZEffTilingSplits_def assms(2))
  ultimately show ?thesis
    unfolding intraTileSplit_def Let_def by (auto intro!: agrees_run_then agrees_return split: list.split)
qed

end

section \<open>What the search returns\<close>

definition split_value :: "(DPUWorkload \<Rightarrow> CyclesInterfaceType) \<Rightarrow> u32 \<Rightarrow> DPUWorkloadsWithCyclesSplit \<Rightarrow> CyclesInterfaceType" where
  "split_value cost overhead s =
     (case split_outcome cost overhead s of Inr c \<Rightarrow> no_zero_cost c | Inl _ \<Rightarrow> ERROR_TILE_SPLIT_EXCEPTION)"

lemma split_value_workloads:
  "split_workloads s = split_workloads t \<Longrightarrow> split_value cost ovh s = split_value cost ovh t"
  by (simp add: split_value_def split_outcome_def evaluated_def schedule_split_def)

definition costed_from :: "u32 \<Rightarrow> (DPUWorkload \<Rightarrow> CyclesInterfaceType) \<Rightarrow> DPUWorkloadsWithCyclesSplit \<Rightarrow> costed_split \<Rightarrow> bool" where
  "costed_from ovh cost v c \<longleftrightarrow> split_workloads (snd c) = split_workloads v \<and> fst c = split_value cost ovh (snd c)"

text \<open>The workloads of the results are those of the variants, whatever the costs; with a plain cost so are the values.\<close>

lemma computeSplitCycles_workloads: "computeSplitCycles d s ovh st = (r, s', st') \<Longrightarrow> split_workloads s' = split_workloads s"
  by (auto simp: computeSplitCycles_def computeWorkloadCycles_def Let_def split: if_splits prod.splits sum.splits)

lemma measure_variant_from:
  "measure_variant d ovh s st = (Inr c, st') \<Longrightarrow> split_workloads (snd c) = split_workloads s"
  "measure_split d ovh s st = (Inr c, st') \<Longrightarrow> split_workloads (snd c) = split_workloads s"
  by (auto simp: measure_variant_def measure_split_def dest!: computeSplitCycles_workloads
      split: prod.splits sum.splits cpp_exception.splits)

lemma plain_variant_from:
  assumes "measure_variant (plain_cost cost) ovh s st = (Inr c, st') \<or> measure_split (plain_cost cost) ovh s st = (Inr c, st')"
  shows "costed_from ovh cost s c"
proof -
  have "split_workloads (snd c) = split_workloads s" 
    using assms by (auto dest: measure_variant_from)
  moreover have "fst c = split_value cost ovh s"
    using assms by (auto simp: measure_variant_def measure_split_def plain_computeSplitCycles split_value_def
        split: sum.splits cpp_exception.splits)
  ultimately show ?thesis using split_value_workloads [of "snd c" s] by (simp add: costed_from_def)
qed

lemma measure_lists_from:
  "measure_variants d ovh vs st = (Inr cs, st') \<Longrightarrow> list_all2 (\<lambda>v c. split_workloads (snd c) = split_workloads v) vs cs"
  "measure_splits d ovh vs st = (Inr cs, st') \<Longrightarrow> list_all2 (\<lambda>v c. split_workloads (snd c) = split_workloads v) vs cs"
  by (induction vs arbitrary: cs st;
      auto simp: run_then_def dest!: measure_variant_from split: prod.splits sum.splits)+

lemma plain_lists_from:
  "measure_variants (plain_cost cost) ovh vs st = (Inr cs, st') \<Longrightarrow> list_all2 (costed_from ovh cost) vs cs"
  "measure_splits (plain_cost cost) ovh vs st = (Inr cs, st') \<Longrightarrow> list_all2 (costed_from ovh cost) vs cs"
  by (induction vs arbitrary: cs st;
      auto simp: run_then_def intro: plain_variant_from split: prod.splits sum.splits)+

lemma run_then_InrE:
  assumes "run_then x f = (Inr c, st')"
  obtains v st1 where "x = (Inr v, st1)" "f v st1 = (Inr c, st')"
  using assms by (cases x; cases "fst x") (auto simp: run_then_def split: sum.splits)

text \<open>The splits an algorithm offers in a mode.\<close>

definition offered :: "bool \<Rightarrow> u32 \<Rightarrow> TilingAlgorithm \<Rightarrow> ExecutionMode \<Rightarrow> DPUWorkloadsWithCyclesSplit \<Rightarrow> bool" where
  "offered legacy numDPU algo mode v \<longleftrightarrow>
     (\<exists>pool n vs. generateSplitPool algo numDPU mode = Inr pool \<and> n \<in> set pool \<and>
        split_tile_in_workloads legacy algo mode n = Inr vs \<and> v \<in> set vs)"

lemma list_all2_members:
  "list_all2 P vs cs \<Longrightarrow> (\<forall>c \<in> set cs. \<exists>v \<in> set vs. P v c) \<and> (\<forall>v \<in> set vs. \<exists>c \<in> set cs. P v c)"
  by (induction rule: list_all2_induct) auto

lemma measure_counts_from:
  assumes "\<And>vs cs st st'. measure_variants d (runtimeOverhead options) vs st = (Inr cs, st') \<Longrightarrow> list_all2 P vs cs"
  shows "measure_counts d legacy late options algo mode ns k st = (Inr (cs, stop, k'), st') \<Longrightarrow>
    (\<forall>c \<in> set cs. \<exists>n \<in> set ns. \<exists>vs. split_tile_in_workloads legacy algo mode n = Inr vs \<and> (\<exists>v \<in> set vs. P v c)) \<and>
    (maxLatencyUs options = 0 \<longrightarrow> \<not> stop \<and>
      (\<forall>n \<in> set ns. \<exists>vs. split_tile_in_workloads legacy algo mode n = Inr vs \<and> (\<forall>v \<in> set vs. \<exists>c \<in> set cs. P v c)))"
proof (induction ns arbitrary: k st cs)
  case (Cons n ns)
  show ?case
  proof (cases "0 < maxLatencyUs options \<and> late k")
    case False
    then obtain vs cs1 st1 cs2 where
      "split_tile_in_workloads legacy algo mode n = Inr vs" "measure_variants d (runtimeOverhead options) vs st = (Inr cs1, st1)"
      "measure_counts d legacy late options algo mode ns (k + 1) st1 = (Inr (cs2, stop, k'), st')" "cs = cs1 @ cs2"
      using Cons.prems by (auto simp: run_then_def split: prod.splits sum.splits)
    then show ?thesis
      using Cons.IH [of "k + 1" st1 cs2] list_all2_members [OF assms [of vs st cs1 st1]] by (simp add: ball_Un) fast
  qed (use Cons.prems in \<open>auto simp: word_gt_0\<close>)
qed simp

lemma measure_all_from:
  assumes "\<And>vs cs st st'. measure_variants d (runtimeOverhead options) vs st = (Inr cs, st') \<Longrightarrow> list_all2 P vs cs"
  shows "measure_all d legacy late options tries k st = (Inr cs, st') \<Longrightarrow>
    (\<forall>c \<in> set cs. \<exists>(algo, mode) \<in> set tries. \<exists>v. offered legacy (nDPU options) algo mode v \<and> P v c) \<and>
    (maxLatencyUs options = 0 \<longrightarrow>
      (\<forall>(algo, mode) \<in> set tries. \<forall>v. offered legacy (nDPU options) algo mode v \<longrightarrow> (\<exists>c \<in> set cs. P v c)))"
proof (induction tries arbitrary: k st cs)
  case (Cons attempt tries)
  obtain algo mode where t: "attempt = (algo, mode)" by (cases attempt)
  obtain pool cs1 stop k1 st1 where run: "generateSplitPool algo (nDPU options) mode = Inr pool"
    "measure_counts d legacy late options algo mode pool k st = (Inr (cs1, stop, k1), st1)"
    and rest: "(if stop then (Inr cs1, st1) else
      run_then (measure_all d legacy late options tries k1 st1) (\<lambda>rest st. (Inr (cs1 @ rest), st))) = (Inr cs, st')"
    using Cons.prems unfolding t by (auto simp: run_then_def split: prod.splits sum.splits if_splits)
  note now = measure_counts_from [OF assms run(2)]
  have sound: "\<forall>c \<in> set cs1. \<exists>v. offered legacy (nDPU options) algo mode v \<and> P v c"
    using now run(1) unfolding offered_def by fastforce
  have complete: "\<exists>c \<in> set cs1. P v c" if "maxLatencyUs options = 0" "offered legacy (nDPU options) algo mode v" for v
    using now run(1) that unfolding offered_def by fastforce
  show ?case
  proof (cases stop)
    case True
    then show ?thesis using rest now sound unfolding t by auto
  next
    case False
    then obtain cs2 where c2: "measure_all d legacy late options tries k1 st1 = (Inr cs2, st')" "cs = cs1 @ cs2"
      using rest by (auto simp: run_then_def split: prod.splits sum.splits)
    show ?thesis using Cons.IH [OF c2(1)] sound complete unfolding t c2(2) by auto blast+
  qed
qed simp

section \<open>Measured blocks are proper\<close>

lemma measured_sizes:
  "measureCandidateBlocks d l mode sizes st = (Inr bs, st') \<Longrightarrow> block_size ` set bs \<subseteq> to_int ` set sizes"
proof (induction sizes arbitrary: st bs)
  case (Cons sz sizes)
  obtain c st1 bs' where "measureCandidateBlocks d l mode sizes st1 = (Inr bs', st')"
    "bs = (if \<not> isErrorCode c \<and> 0 < c then make_SplitBlock (to_int sz) c # bs' else bs')"
    using Cons.prems by (auto simp: run_then_def Let_def split: prod.splits sum.splits)
  then show ?case using Cons.IH [of st1 bs'] by (auto simp: make_SplitBlock_def)
qed simp

lemma candidate_channels_positive:
  assumes "candidate_channels l = Inr sizes"
  shows "list_all (\<lambda>z. 0 < to_int z) sizes"
proof -
  define c :: u32 where "c = channels (outputs_0 l)"
  define m where "m = (if c < 32 then 16 else (c div 32) * 32)"
  define e where "e = (if isDWLimitedCase l then min 32 m else m)"
  define r where "r = make_SmartRanges 16 (to_int (min 256 e)) 16 (Some 32)"
  have wf: "sr_wf r" by (simp add: r_def)
  obtain xs where xs: "transformSmartRangetoVector r = Some xs" "set xs = {v. is_in r v}"
    using transform_enumerates [OF wf] by blast
  have s: "sizes = map to_u32 xs"
    using assms xs(1) unfolding candidate_channels_def Let_def r_def e_def m_def c_def by simp
  have "unat (min 256 e) \<le> 256" by (simp add: min_def word_le_nat_alt)
  then have "to_int (min 256 e) = int (unat (min 256 e))" by (intro to_int_small) simp
  then have u: "to_int (min 256 e) \<le> 256" using \<open>unat (min 256 e) \<le> 256\<close> by linarith
  have "0 < to_int (to_u32 v)" if "v \<in> set xs" for v
  proof -
    have "lowerBound r = 16" "upperBound r \<le> 256"
      using u by (simp_all add: r_def make_SmartRanges_def Let_def clamp_negative_to_zero_def)
    then have v: "16 \<le> v" "v \<le> 256" using that xs(2) by (auto simp: is_in_iff)
    then have "unat (to_u32 v) = nat v" using u by (intro unat_to_u32) auto
    then have "to_int (to_u32 v) = v" using v u by (subst to_int_small) auto
    then show ?thesis using v by simp
  qed
  then show ?thesis by (simp add: s list_all_iff)
qed

lemma zeff_blocks_proper:
  assumes "zeff_blocks d l cands rems mode algo st = (Inr (go_on, algo'), st')"
    and "list_all (\<lambda>z. 0 < to_int z) cands" "is_ZEff algo" "proper_blocks algo"
  shows "is_ZEff algo' \<and> proper_blocks algo' \<and> layer_on_tile algo' = layer_on_tile algo"
proof -
  obtain layer m b rm ovh where algo: "algo = ZEffTiling layer m b rm ovh" using assms(3) by (cases algo) auto
  obtain bs st1 where bs: "measureCandidateBlocks d l mode cands st = (Inr bs, st1)"
    using assms(1) by (auto simp: zeff_blocks_def run_then_def split: prod.splits sum.splits)
  have "list_all (\<lambda>b. 0 < block_size b) bs"
    using measured_sizes [OF bs] assms(2) by (fastforce simp: list_all_iff)
  then show ?thesis
    using assms(1,4) bs algo
    by (auto simp: zeff_blocks_def run_then_def Let_def proper_blocks_def split: prod.splits sum.splits if_splits)
qed

lemma zeff_modes_from:
  assumes "\<And>vs cs st st'. measure_splits d (runtimeOverhead options) vs st = (Inr cs, st') \<Longrightarrow> list_all2 P vs cs"
    and "list_all (\<lambda>z. 0 < to_int z) cands"
  shows "zeff_modes d legacy options l cands rems algo modes st = (Inr cs, st') \<Longrightarrow> is_ZEff algo \<Longrightarrow> proper_blocks algo \<Longrightarrow>
    layer_on_tile algo = l \<Longrightarrow>
    \<forall>c \<in> set cs. \<exists>algo' mode v. layer_on_tile algo' = l \<and> proper_blocks algo' \<and> is_ZEff algo' \<and>
      offered legacy (nDPU options) algo' mode v \<and> P v c"
proof (induction modes arbitrary: algo st cs)
  case (Cons mode modes)
  have pool: "generateSplitPool a (nDPU options) mode = Inr (ZEff_generateSplitPool l (nDPU options))"
    if "is_ZEff a" "layer_on_tile a = l" for a
    using that by (cases a) auto
  have hd: "hd (ZEff_generateSplitPool l k) \<in> set (ZEff_generateSplitPool l k)" for k
    by (simp add: ZEff_generateSplitPool_def)
  define n where "n = hd (ZEff_generateSplitPool l (nDPU options))"
  obtain go_on algo' st1 where
    start: "(if n = 0 then zeff_blocks d l cands rems mode algo st else (Inr (True, algo), st)) = (Inr (go_on, algo'), st1)"
    and more: "(if \<not> go_on then zeff_modes d legacy options l cands rems algo' modes st1
       else run_then (split_tile_in_workloads legacy algo' mode n, st1) (\<lambda>variants st.
         run_then (measure_splits d (runtimeOverhead options) variants st) (\<lambda>cs st.
           run_then (zeff_modes d legacy options l cands rems algo' modes st) (\<lambda>rest st. (Inr (cs @ rest), st))))) =
       (Inr cs, st')"
  proof -
    from Cons.prems(1) [unfolded zeff_modes.simps pool [OF Cons.prems(2,4)] run_then_simps Let_def, folded n_def]
    obtain v st1 where "(if n = 0 then zeff_blocks d l cands rems mode algo st else (Inr (True, algo), st)) = (Inr v, st1)"
      "(case v of (go_on, algo') \<Rightarrow> \<lambda>st1. if \<not> go_on then zeff_modes d legacy options l cands rems algo' modes st1
       else run_then (split_tile_in_workloads legacy algo' mode n, st1) (\<lambda>variants st.
         run_then (measure_splits d (runtimeOverhead options) variants st) (\<lambda>cs st.
           run_then (zeff_modes d legacy options l cands rems algo' modes st) (\<lambda>rest st. (Inr (cs @ rest), st))))) st1 =
       (Inr cs, st')"
      by (rule run_then_InrE)
    then show thesis by (cases v) (simp add: that)
  qed
  have p: "is_ZEff algo'" "proper_blocks algo'" "layer_on_tile algo' = l"
  proof -
    have "is_ZEff algo' \<and> proper_blocks algo' \<and> layer_on_tile algo' = layer_on_tile algo"
    proof (cases "n = 0")
      case True
      then have "zeff_blocks d l cands rems mode algo st = (Inr (go_on, algo'), st1)" using start by simp
      then show ?thesis by (rule zeff_blocks_proper [OF _ assms(2) Cons.prems(2,3)])
    next
      case False
      then show ?thesis using start Cons.prems(2,3) by simp
    qed
    then show "is_ZEff algo'" "proper_blocks algo'" "layer_on_tile algo' = l" using Cons.prems(4) by auto
  qed
  show ?case
  proof (cases go_on)
    case False
    then show ?thesis using Cons.IH [of algo' st1 cs] more p by simp
  next
    case True
    then obtain vs cs1 st2 cs2 where r: "split_tile_in_workloads legacy algo' mode n = Inr vs"
      "measure_splits d (runtimeOverhead options) vs st1 = (Inr cs1, st2)"
      "zeff_modes d legacy options l cands rems algo' modes st2 = (Inr cs2, st')" "cs = cs1 @ cs2"
      using more by (auto simp: run_then_def split: prod.splits sum.splits)
    have "\<exists>v. offered legacy (nDPU options) algo' mode v \<and> P v c" if "c \<in> set cs1" for c
      using list_all2_members [OF assms(1) [OF r(2)]] that r(1) pool [OF p(1,3)] hd unfolding offered_def n_def by blast
    then have "\<exists>algo' mode v. layer_on_tile algo' = l \<and> proper_blocks algo' \<and> is_ZEff algo' \<and>
        offered legacy (nDPU options) algo' mode v \<and> P v c" if "c \<in> set cs1" for c
      using that p by blast
    then show ?thesis using Cons.IH [OF r(3) p] unfolding r(4) by auto
  qed
qed simp

section \<open>The best split\<close>

definition cost_rank :: "CyclesInterfaceType \<Rightarrow> nat" where
  "cost_rank c = (if isErrorCode c \<or> c = 0 then 2 ^ 32 else unat c)"

lemma split_comp_rank: "split_comp a b \<longleftrightarrow> cost_rank (fst a) < cost_rank (fst b)"
proof -
  have "\<not> 4294967296 < unat c" for c :: u32 using unat_u32_less [of c] by linarith
  then show ?thesis by (auto simp: split_comp_def cost_rank_def word_less_nat_alt)
qed

lemma min_element_least:
  "min_element split_comp x xs \<in> set (x # xs) \<and>
   (\<forall>y \<in> set (x # xs). cost_rank (fst (min_element split_comp x xs)) \<le> cost_rank (fst y))"
proof (induction xs arbitrary: x)
  case (Cons y ys)
  let ?z = "if split_comp y x then y else x"
  have "cost_rank (fst ?z) \<le> cost_rank (fst x)" "cost_rank (fst ?z) \<le> cost_rank (fst y)" "?z \<in> {x, y}"
    by (auto simp: split_comp_rank)
  then show ?case using Cons.IH [of ?z] by auto
qed simp

text \<open>The algorithms the search uses, and what it returns for any cost model.\<close>

definition tiler_of :: "DPULayer \<Rightarrow> u32 \<Rightarrow> TilingAlgorithm \<Rightarrow> bool" where
  "tiler_of l m algo \<longleftrightarrow> layer_on_tile algo = l \<and> proper_blocks algo \<and> (is_ZEff algo \<or> max_workloads_of algo = m)"

lemma tilers_of_layer: "algo \<in> set (getTilingAlgorithms l options) \<Longrightarrow> tiler_of l (maxWorkloads options) algo"
proof -
  have "tiler_of l (maxWorkloads options) algo" if "algo \<in> set (algorithm_of_strategy l options strategy)" for strategy
    using that by (cases strategy) (auto simp: algorithm_of_strategy_def tiler_of_def proper_blocks_def split: if_splits)
  then show "algo \<in> set (getTilingAlgorithms l options) \<Longrightarrow> tiler_of l (maxWorkloads options) algo"
    by (auto simp: getTilingAlgorithms_def)
qed

definition best_of :: "(CyclesInterfaceType \<times> DPUWorkload list) \<Rightarrow> costed_split list \<Rightarrow> bool" where
  "best_of r cs \<longleftrightarrow> (\<exists>best \<in> set cs. r = (fst best, split_workloads (snd best))) \<and> (\<forall>x \<in> set cs. cost_rank (fst r) \<le> cost_rank (fst x))"

lemma intraTileSplit_result:
  assumes run: "intraTileSplit d legacy late l options st = (Inr (r, all), st')"
    and relates: "\<forall>vs cs st st'. measure_variants d (runtimeOverhead options) vs st = (Inr cs, st') \<longrightarrow> list_all2 P vs cs"
      "\<forall>vs cs st st'. measure_splits d (runtimeOverhead options) vs st = (Inr cs, st') \<longrightarrow> list_all2 P vs cs"
  shows "\<exists>cs. all = map snd cs \<and> best_of r cs \<and>
    (\<forall>x \<in> set cs. \<exists>algo mode v. tiler_of l (maxWorkloads options) algo \<and> offered legacy (nDPU options) algo mode v \<and> P v x) \<and>
    (maxLatencyUs options = 0 \<and> findZEffTilingAlgorithm (getTilingAlgorithms l options) = None \<longrightarrow>
      (\<forall>algo \<in> set (getTilingAlgorithms l options).
       \<forall>mode \<in> set (getValidTilingExecutionMode (get_properties (device l)) (layer_workload l)).
       \<forall>v. offered legacy (nDPU options) algo mode v \<longrightarrow> (\<exists>x \<in> set cs. P v x)))"
proof -
  have P: "measure_variants d (runtimeOverhead options) vs st = (Inr cs, st') \<Longrightarrow> list_all2 P vs cs"
    "measure_splits d (runtimeOverhead options) vs st = (Inr cs, st') \<Longrightarrow> list_all2 P vs cs" for vs cs st st'
    using relates by blast+
  let ?modes = "getValidTilingExecutionMode (get_properties (device l)) (layer_workload l)"
  let ?algos = "getTilingAlgorithms l options"
  let ?zeff = "findZEffTilingAlgorithm ?algos"
  from run [unfolded intraTileSplit_def Let_def] obtain cs st1 where
    cs: "(if ?zeff \<noteq> None then generateSplits_processZEffTilingSplits d legacy ?algos l ?modes options st
      else generateSplits d legacy late ?algos ?modes options st) = (Inr cs, st1)"
    and best: "(case cs of [] \<Rightarrow> (Inl (runtime_error ''intraTileSplit: no valid workload generated''), st1)
      | c # cs' \<Rightarrow> (Inr ((fst (min_element split_comp c cs'), split_workloads (snd (min_element split_comp c cs'))), map snd cs), st1)) =
      (Inr (r, all), st')"
    by (rule run_then_InrE)
  obtain c cs' where ne: "cs = c # cs'" "r = (fst (min_element split_comp c cs'), split_workloads (snd (min_element split_comp c cs')))"
    "all = map snd cs"
    using best by (cases cs) auto
  have b: "best_of r cs" using min_element_least [of c cs'] unfolding best_of_def ne(1,2) by auto
  show ?thesis
  proof (cases ?zeff)
    case None
    then have "measure_all d legacy late options (List.product ?algos ?modes) 0 st = (Inr cs, st1)"
      using cs by (simp add: generateSplits_def)
    from measure_all_from [OF P(1) this] tilers_of_layer [of _ l options] b ne(3) None show ?thesis
      by (intro exI [of _ cs]) fastforce
  next
    case (Some algo)
    then have algo: "algo \<in> set ?algos" "is_ZEff algo" by (auto simp: findZEffTilingAlgorithm_def find_Some_iff)
    obtain cands rems where "candidate_channels l = Inr cands"
      "zeff_modes d legacy options l cands rems algo ?modes st = (Inr cs, st1)"
      using cs Some by (auto simp: generateSplits_processZEffTilingSplits_def run_then_def split: sum.splits)
    note z = candidate_channels_positive [OF this(1)] this(2)
    have t: "layer_on_tile algo = l" "proper_blocks algo" using tilers_of_layer [OF algo(1)] by (simp_all add: tiler_of_def)
    have "\<forall>c \<in> set cs. \<exists>algo' mode v. layer_on_tile algo' = l \<and> proper_blocks algo' \<and> is_ZEff algo' \<and>
        offered legacy (nDPU options) algo' mode v \<and> P v c"
      by (rule zeff_modes_from [OF _ z algo(2) t(2,1)]) (rule P(2))
    then have "\<forall>x \<in> set cs. \<exists>algo mode v. tiler_of l (maxWorkloads options) algo \<and> offered legacy (nDPU options) algo mode v \<and> P v x"
      unfolding tiler_of_def by blast
    then show ?thesis using b ne(3) Some by auto
  qed
qed

end
