(* ===== verification/Tile_Optimum.thy ===== *)
theory Tile_Optimum
  imports Dpu_Tiler_Laws
begin

text \<open>
  The best split of a layer with the costs of the cost model: it does not depend on what was asked before, it has the least cost of
  all splits on offer, it is a tiling of the layer, and the search returns. The contract that the search needs is the locale
  \<open>repeatable_cost\<close>; the cost model with its caches is an interpretation of it.
\<close>

section \<open>The cost model as a repeatable cost\<close>

text \<open>The state after an exception is not modelled and taken to be the one before; in a good state there is no exception.\<close>

definition model_dpu :: "CostModel \<Rightarrow> ActiveCache dpu_cost" where
  "model_dpu cm wl st = (case DPU cm wl st of Inl e \<Rightarrow> (Inl e, st) | Inr (cycles, _, st') \<Rightarrow> (Inr cycles, st'))"

definition model_good :: "CostModel \<Rightarrow> (DPUWorkload \<Rightarrow> real) \<Rightarrow> ActiveCache \<Rightarrow> ActiveCache \<Rightarrow> bool" where
  "model_good cm p st0 st \<longleftrightarrow>
     answers (nn_provider cm) p \<and> coherent (nn_provider cm) st \<and> \<not> gate_enabled (auto_hint_gate cm) \<and>
     ''DW_MXP_AVP_SupportsMoreThan64Ch'' \<in> set (nn_properties (nn_provider cm)) \<and> same_preloaded st0 st"

definition model_cost :: "CostModel \<Rightarrow> (DPUWorkload \<Rightarrow> real) \<Rightarrow> ActiveCache \<Rightarrow> DPUWorkload \<Rightarrow> CyclesInterfaceType" where
  "model_cost cm p st0 wl =
     (case check_and_sanitize (print_tags cm) (replace_operations (swizzling_turn_OFF wl)) new_SanityReport of
        Inl e \<Rightarrow> 0
      | Inr (wl', rep) \<Rightarrow>
          if is_usable rep then sparse_auto_cost (nn_provider cm) p st0 wl' else abnormal_return rep)"

lemma sparse_auto_cost_same: "same_preloaded a b \<Longrightarrow> sparse_auto_cost m p b wl = sparse_auto_cost m p a wl"
  by (simp add: sparse_auto_cost_def auto_cost_same)

interpretation model: repeatable_cost "model_dpu cm" "model_cost cm p st0" "\<lambda>wl. cost_source_hint wl = AUTO" "model_good cm p st0"
  for cm p st0
proof unfold_locales
  fix st and wl :: DPUWorkload assume good: "model_good cm p st0 st" and hint: "cost_source_hint wl = AUTO"
  then obtain wl' rep st' where
    "check_and_sanitize (print_tags cm) (replace_operations (swizzling_turn_OFF wl)) new_SanityReport = Inr (wl', rep)"
    "DPU cm wl st = Inr (if is_usable rep then sparse_auto_cost (nn_provider cm) p st wl' else abnormal_return rep, info rep, st')"
    "coherent (nn_provider cm) st'" "same_preloaded st st'"
    using DPU_spec [of cm p st wl] by (auto simp: model_good_def)
  then show "\<exists>st'. model_dpu cm wl st = (Inr (model_cost cm p st0 wl), st') \<and> model_good cm p st0 st'"
    using good sparse_auto_cost_same [of st0 st]
    by (auto simp: model_dpu_def model_cost_def model_good_def same_preloaded_def)
qed

lemma of_layer_auto: "cost_source_hint l = AUTO \<Longrightarrow> \<forall>w. of_layer l w \<longrightarrow> cost_source_hint w = AUTO"
  by (simp add: of_layer_def)

text \<open>
  The cost of a layer on a tile does not depend on what the cost model was asked before: from any two states of its caches with the
  same preloaded entries \<open>intraTileSplit\<close> returns the same cost, the same workloads and the same list of splits, or the same exception,
  and leaves the caches in such a state.
\<close>

theorem intraTileSplit_repeatable:
  assumes "model_good cm p st0 st1" "model_good cm p st0 st2" "cost_source_hint layer = AUTO"
  shows "fst (intraTileSplit (model_dpu cm) legacy late layer options st1) =
      fst (intraTileSplit (model_dpu cm) legacy late layer options st2) \<and>
    model_good cm p st0 (snd (intraTileSplit (model_dpu cm) legacy late layer options st1))"
  using model.intraTileSplit_agrees [OF of_layer_auto [OF assms(3)] assms(1), where legacy = legacy and late = late and options = options and u = "()"]
    model.intraTileSplit_agrees [OF of_layer_auto [OF assms(3)] assms(2), where legacy = legacy and late = late and options = options and u = "()"]
  by (simp add: agrees_def)

lemma intraTileSplit_plain:
  assumes "model_good cm p st0 st" "cost_source_hint layer = AUTO"
    "intraTileSplit (model_dpu cm) legacy late layer options st = (Inr (r, all), st')"
  shows "intraTileSplit (plain_cost (model_cost cm p st0)) legacy late layer options () = (Inr (r, all), ())"
  using model.intraTileSplit_agrees [OF of_layer_auto [OF assms(2)] assms(1), where legacy = legacy and late = late and options = options and u = "()"] assms(3)
  by (cases "intraTileSplit (plain_cost (model_cost cm p st0)) legacy late layer options ()") (simp add: agrees_def)

lemma least_split:
  assumes "model_good cm p st0 st" "cost_source_hint layer = AUTO"
    "intraTileSplit (model_dpu cm) legacy late layer options st = (Inr ((c, wls), all), st')"
    "maxLatencyUs options = 0" "findZEffTilingAlgorithm (getTilingAlgorithms layer options) = None"
    "algo \<in> set (getTilingAlgorithms layer options)"
    "mode \<in> set (getValidTilingExecutionMode (get_properties (device layer)) (layer_workload layer))"
    "offered legacy (nDPU options) algo mode v"
  shows "(\<exists>best \<in> set all. wls = split_workloads best \<and> c = split_value (model_cost cm p st0) (runtimeOverhead options) best) \<and>
    cost_rank c \<le> cost_rank (split_value (model_cost cm p st0) (runtimeOverhead options) v)"
proof -
  define cost ovh where "cost = model_cost cm p st0" and "ovh = runtimeOverhead options"
  note run = intraTileSplit_plain [OF assms(1-3), folded cost_def]
  have from_plain: "\<forall>vs cs st st'. measure_variants (plain_cost cost) ovh vs st = (Inr cs, st') \<longrightarrow> list_all2 (costed_from ovh cost) vs cs"
    "\<forall>vs cs st st'. measure_splits (plain_cost cost) ovh vs st = (Inr cs, st') \<longrightarrow> list_all2 (costed_from ovh cost) vs cs"
    using plain_lists_from by blast+
  obtain cs where cs: "all = map snd cs" "best_of (c, wls) cs"
    "\<forall>x \<in> set cs. \<exists>algo mode v. tiler_of layer (maxWorkloads options) algo \<and> offered legacy (nDPU options) algo mode v \<and>
       costed_from ovh cost v x"
    and complete: "maxLatencyUs options = 0 \<and> findZEffTilingAlgorithm (getTilingAlgorithms layer options) = None \<longrightarrow>
      (\<forall>algo \<in> set (getTilingAlgorithms layer options).
       \<forall>mode \<in> set (getValidTilingExecutionMode (get_properties (device layer)) (layer_workload layer)).
       \<forall>v. offered legacy (nDPU options) algo mode v \<longrightarrow> (\<exists>x \<in> set cs. costed_from ovh cost v x))"
    using intraTileSplit_result [OF run, folded ovh_def, OF from_plain] by (elim exE conjE)
  obtain x where x: "x \<in> set cs" "costed_from ovh cost v x" using complete assms(4-8) by blast
  have "fst x = split_value cost ovh v" using x(2) split_value_workloads [of "snd x" v cost ovh] by (simp add: costed_from_def)
  moreover have "cost_rank c \<le> cost_rank (fst x)" using cs(2) x(1) by (auto simp: best_of_def)
  moreover obtain best where "best \<in> set cs" "c = fst best" "wls = split_workloads (snd best)" using cs(2) by (auto simp: best_of_def)
  moreover have "fst best = split_value cost ovh (snd best)" using cs(3) \<open>best \<in> set cs\<close> unfolding costed_from_def by blast
  ultimately show ?thesis unfolding cs(1) cost_def ovh_def by auto
qed

text \<open>
  C9. The result of \<open>intraTileSplit\<close> is one of the splits it reports and has the least cost of all: with no limit on the time, no split
  that any of the selected algorithms offers for any number of workloads and any execution mode of the device is cheaper. A split
  with an error or zero cycles counts as dearer than any valid one.
\<close>

theorem intraTileSplit_least:
  assumes "model_good cm p st0 st" "cost_source_hint layer = AUTO"
    "intraTileSplit (model_dpu cm) legacy late layer options st = (Inr ((c, wls), all), st')"
    "maxLatencyUs options = 0" "findZEffTilingAlgorithm (getTilingAlgorithms layer options) = None"
    "algo \<in> set (getTilingAlgorithms layer options)"
    "mode \<in> set (getValidTilingExecutionMode (get_properties (device layer)) (layer_workload layer))"
    "offered legacy (nDPU options) algo mode v"
  shows "(\<exists>best \<in> set all. wls = split_workloads best \<and> c = split_value (model_cost cm p st0) (runtimeOverhead options) best) \<and>
    cost_rank c \<le> cost_rank (split_value (model_cost cm p st0) (runtimeOverhead options) v)"
  by (rule least_split [OF assms])

section \<open>The best split is a tiling\<close>

lemma dpu_multiples_below:
  "dpu_multiples n limit i = Some xs \<Longrightarrow> \<forall>x \<in> set xs. x < limit"
proof (rule dpu_multiples.raw_induct [where P = "\<lambda>n limit i xs. \<forall>x \<in> set xs. x < limit", rotated])
  fix multiples :: "u32 \<Rightarrow> u32 \<Rightarrow> u32 \<Rightarrow> u32 list option" and n limit i :: u32 and xs
  assume IH: "\<And>n limit i xs. multiples n limit i = Some xs \<Longrightarrow> \<forall>x \<in> set xs. x < limit"
    and run: "(if i < limit then Option.bind (multiples n limit (i + n)) (\<lambda>rest. Some (i # rest)) else Some []) = Some xs"
  show "\<forall>x \<in> set xs. x < limit"
  proof (cases "i < limit")
    case True
    then obtain rest where "multiples n limit (i + n) = Some rest" "xs = i # rest" using run by (auto simp: bind_eq_Some_conv)
    then show ?thesis using IH [of n limit "i + n" rest] True by auto
  qed (use run in simp)
qed

lemma split_pool_counts:
  assumes "split_pool k m splits = Inr pool" "n \<in> set pool" "unat m < 4294967295"
  shows "n = 1 \<or> n \<le> m"
proof -
  obtain xs where xs: "dpu_multiples k (m + 1) k = Some xs"
    "pool = to_set (1 # xs @ concat (map (\<lambda>s. getSplitsFromRange s m) splits))"
    using assms(1) by (auto simp: split_pool_def split: option.splits)
  have lim: "unat (m + 1) = unat m + 1" using assms(3) by (subst unat_add_nowrap) auto
  have "x \<le> m" if "x \<in> set xs" for x
    using dpu_multiples_below [OF xs(1)] that lim by (fastforce simp: word_le_nat_alt word_less_nat_alt)
  moreover have "set pool = set (1 # xs @ concat (map (\<lambda>s. getSplitsFromRange s m) splits))"
    unfolding xs(2) to_set_def set_sort set_remdups ..
  ultimately show ?thesis using assms(2) getSplitsFromRange_bounds by auto
qed

lemma pool_counts:
  assumes "generateSplitPool algo k mode = Inr pool" "n \<in> set pool" "tiler_of l m algo" "unat m < 2 ^ 26"
  shows "unat n < 2 ^ 26"
proof -
  have small: "unat n < 2 ^ 26" if "n = 1 \<or> n \<le> min m v" for v
  proof -
    have "unat (min m v) \<le> unat m" by (simp add: min_def word_le_nat_alt)
    then show ?thesis using that assms(4) by (auto simp: word_le_nat_alt)
  qed
  have HW: "unat n < 2 ^ 26" if run: "HW_generateSplitPool layer m k mode = Inr pool" for layer
  proof (cases "k = 1")
    case True
    then show ?thesis using run assms(2) by (auto simp: HW_generateSplitPool_def)
  next
    case False
    then obtain v splits where p: "split_pool k (min m v) splits = Inr pool"
      using run by (auto simp: HW_generateSplitPool_def Let_def split: if_splits)
    have "unat (min m v) \<le> unat m" by (simp add: min_def word_le_nat_alt)
    then show ?thesis using split_pool_counts [OF p assms(2)] small assms(4) by auto
  qed
  have Z: "unat n < 2 ^ 26" if run: "Z_generateSplitPool layer m k mode = Inr pool" for layer
  proof (cases "pool = [1]")
    case True
    then show ?thesis using assms(2) by simp
  next
    case False
    then obtain v splits where p: "split_pool k (min m v) splits = Inr pool"
      using run by (auto simp: Z_generateSplitPool_def Let_def split: if_splits)
    have "unat (min m v) \<le> unat m" by (simp add: min_def word_le_nat_alt)
    then show ?thesis using split_pool_counts [OF p assms(2)] small assms(4) by auto
  qed
  show ?thesis
    using assms(1-3) HW Z by (cases algo) (auto simp: tiler_of_def ZEff_generateSplitPool_def split: if_splits)
qed

lemma best_split_exact:
  assumes "plain_layer layer" "unat (maxWorkloads options) < 2 ^ 26"
    "intraTileSplit dpu legacy late layer options st = (Inr ((c, wls), all), st')"
  shows "tiles_exactly layer wls \<and> list_all (\<lambda>s. tiles_exactly layer (split_workloads s)) all"
proof -
  let ?P = "\<lambda>v x. split_workloads (snd x) = split_workloads v"
  have from_any: "\<forall>vs cs st st'. measure_variants dpu (runtimeOverhead options) vs st = (Inr cs, st') \<longrightarrow> list_all2 ?P vs cs"
    "\<forall>vs cs st st'. measure_splits dpu (runtimeOverhead options) vs st = (Inr cs, st') \<longrightarrow> list_all2 ?P vs cs"
    by (intro allI impI, erule measure_lists_from)+
  obtain cs where cs: "all = map snd cs" "best_of (c, wls) cs"
    "\<forall>x \<in> set cs. \<exists>algo mode v. tiler_of layer (maxWorkloads options) algo \<and> offered legacy (nDPU options) algo mode v \<and> ?P v x"
    using intraTileSplit_result [OF assms(3) from_any] by (elim exE conjE) (rule that)
  have exact: "tiles_exactly layer (split_workloads (snd x))" if x: "x \<in> set cs" for x
  proof -
    obtain algo mode v where v: "tiler_of layer (maxWorkloads options) algo" "offered legacy (nDPU options) algo mode v"
      "split_workloads (snd x) = split_workloads v"
      using cs(3) x by blast
    obtain pool n vs where n: "generateSplitPool algo (nDPU options) mode = Inr pool" "n \<in> set pool"
      "split_tile_in_workloads legacy algo mode n = Inr vs" "v \<in> set vs"
      using v(2) by (auto simp: offered_def)
    have l: "layer_on_tile algo = layer" "proper_blocks algo" using v(1) by (simp_all add: tiler_of_def)
    from split_variants_exact [OF _ l(2) pool_counts [OF n(1,2) v(1) assms(2)] n(3,4)] assms(1) l(1) show ?thesis
      unfolding v(3) by simp
  qed
  then show ?thesis using cs(1,2) by (auto simp: best_of_def list_all_iff)
qed


definition whole_split :: "DPULayer \<Rightarrow> ExecutionMode \<Rightarrow> DPUWorkloadsWithCyclesSplit" where
  "whole_split l mode = setWorkloadsModeAndInfereInputShape
     \<lparr>split_cycles = [NO_ERROR], split_workloads = [layer_workload l]\<rparr> mode l"

lemma whole_offered:
  assumes "algo \<in> set (getTilingAlgorithms l options)" "\<not> is_ZEff algo" "nDPU options \<noteq> 0"
    "unat (maxWorkloads options) + unat (nDPU options) < 4294967296"
    "unat (tx (outputs_0 l)) < 2 ^ 16" "unat (ty (outputs_0 l)) < 2 ^ 16"
  shows "offered legacy (nDPU options) algo mode (whole_split l mode)"
proof -
  have t: "layer_on_tile algo = l" "max_workloads_of algo = maxWorkloads options"
    using tilers_of_layer [OF assms(1)] assms(2) by (simp_all add: tiler_of_def)
  obtain pool where "generateSplitPool algo (nDPU options) mode = Inr pool" "proper_pool (maxWorkloads options) pool"
    using HW_pool_proper [OF assms(3-6), of mode] Z_pool_proper [OF assms(3,4), of l mode] t assms(2) by (cases algo) auto
  then show ?thesis
    using t(1) unfolding offered_def
    by (intro exI [of _ pool] exI [of _ 1] exI [of _ "[whole_split l mode]"])
      (simp add: proper_pool_def split_tile_in_workloads_def whole_split_def)
qed

section \<open>The search returns\<close>

lemma whole_tiles [simp]: "split_tile_in_workloads legacy algo mode 1 = Inr [whole_split (layer_on_tile algo) mode]"
  by (simp add: split_tile_in_workloads_def whole_split_def)

definition nonempty_layer :: "DPULayer \<Rightarrow> bool" where
  "nonempty_layer l \<longleftrightarrow> plain_layer l \<and> tx (outputs_0 l) \<noteq> 0 \<and> ty (outputs_0 l) \<noteq> 0 \<and>
     unat (tx (outputs_0 l)) < 2 ^ 16 \<and> unat (ty (outputs_0 l)) < 2 ^ 16"

lemma step_nonzero:
  fixes d f g :: u32
  assumes "unat d < 2 ^ 26" "unat f < 2 ^ 26" "unat g \<le> 16" "0 < unat g" "f \<noteq> 0" "d \<noteq> 0"
  shows "round_up (ceil_division d f) g \<noteq> 0"
proof -
  have "0 < unat d" using assms(6) by (simp add: unat_gt_0)
  then have "0 < unat f * unat (round_up (ceil_division d f) g)" using even_steps(4) [OF assms(1-5)] by linarith
  then show ?thesis by auto
qed

lemma splitOverHW_returns:
  assumes "nonempty_layer l" "unat a < 2 ^ 26" "unat b < 2 ^ 26" "a \<noteq> 0" "b \<noteq> 0"
  shows "\<exists>s. splitOverHW l a b mode = Inr s"
proof -
  have d: "unat (width (outputs_0 l)) < 2 ^ 26" "unat (height (outputs_0 l)) < 2 ^ 26" "width (outputs_0 l) \<noteq> 0"
    "height (outputs_0 l) \<noteq> 0"
    using assms(1) by (auto simp: nonempty_layer_def plain_layer_def width_def height_def)
  show ?thesis
    using step_nonzero [OF d(1) assms(2) grid_bounds assms(4) d(3), of mode Act_X]
      step_nonzero [OF d(2) assms(3) grid_bounds assms(5) d(4), of mode Act_Y] assms(4,5)
    by (auto simp: splitOverHW_def Let_def)
qed

lemma get_factors_positive: "(a, b) \<in> set (get_factors_from n i) \<Longrightarrow> 0 < a \<and> 0 < b"
proof (induction n i rule: get_factors_from.induct)
  case (1 n i)
  then have i: "i * i \<le> n" "0 < i" by (auto simp: get_factors_from.simps [of n i] split: if_splits)
  have "i \<le> i * i" using i(2) by simp
  then have "i \<le> n" using i(1) by linarith
  then have "0 < n div i" using i(2) by (simp add: div_greater_zero_iff)
  then show ?case using 1 i by (auto simp: get_factors_from.simps [of n i] split: if_splits)
qed

lemma getFactors_proper:
  assumes "(a, b) \<in> set (getFactors n)" "unat n < 2 ^ 26"
  shows "unat a < 2 ^ 26 \<and> unat b < 2 ^ 26 \<and> a \<noteq> 0 \<and> b \<noteq> 0"
proof -
  obtain x y where xy: "(x, y) \<in> set (get_factors_from (unat n) 1)" "a = word_of_nat x" "b = word_of_nat y"
    using assms(1) by (auto simp: getFactors_def)
  have le: "x \<le> unat n" "y \<le> unat n" "0 < x" "0 < y"
    using get_factors_le [OF xy(1)] get_factors_positive [OF xy(1)] by simp_all
  then have "unat a = x" "unat b = y" using assms(2) xy(2,3) by (simp_all add: unat_word_of_nat)
  then show ?thesis using le assms(2) by auto
qed

lemma HW_tile_factors_returns:
  assumes "nonempty_layer l"
  shows "\<forall>(a, b) \<in> set fs. unat a < 2 ^ 26 \<and> unat b < 2 ^ 26 \<and> a \<noteq> 0 \<and> b \<noteq> 0 \<Longrightarrow> \<exists>vs. HW_tile_factors l mode fs = Inr vs"
proof (induction fs)
  case (Cons f fs)
  obtain a b where f: "f = (a, b)" by (cases f)
  obtain vs where "HW_tile_factors l mode fs = Inr vs" using Cons by auto
  moreover obtain s where "splitOverHW l a b mode = Inr s" using splitOverHW_returns [OF assms, of a b mode] Cons.prems f by auto
  ultimately show ?case using f by simp
qed simp

lemma Z_tileMultipleWl_returns:
  assumes "n \<noteq> 0"
  shows "\<exists>s. Z_tileMultipleWl legacy l mode n = Inr s"
proof -
  have "sr_wf (getValidIntraTilesChannelsOptions (device l))" by (simp add: getValidIntraTilesChannelsOptions_def)
  then obtain xs where "transformSmartRangetoVector (getValidIntraTilesChannelsOptions (device l)) = Some xs"
    using transform_enumerates by blast
  then show ?thesis using assms by (auto simp: Z_tileMultipleWl_def splitOverZ_def Let_def)
qed

lemma split_tile_returns:
  assumes "nonempty_layer (layer_on_tile algo)" "\<not> is_ZEff algo" "unat n < 2 ^ 26" "n \<noteq> 0"
  shows "\<exists>vs. split_tile_in_workloads legacy algo mode n = Inr vs"
proof (cases "n = 1")
  case False
  have "\<exists>vs. tileMultipleWl legacy algo mode n = Inr vs"
  proof (cases algo)
    case (HWTiling l m)
    then show ?thesis
      using HW_tile_factors_returns [of l "getFactors n" mode] getFactors_proper [OF _ assms(3)] assms(1) by auto
  next
    case (HTiling l m)
    then obtain s where "splitOverHW l 1 n mode = Inr s" using splitOverHW_returns [of l 1 n mode] assms by auto
    then show ?thesis using HTiling by (simp add: optional_split_def)
  next
    case (WTiling l m)
    then obtain s where "splitOverHW l n 1 mode = Inr s" using splitOverHW_returns [of l n 1 mode] assms by auto
    then show ?thesis using WTiling by (simp add: optional_split_def)
  next
    case (ZTiling l m)
    then obtain s where "Z_tileMultipleWl legacy l mode n = Inr s" using Z_tileMultipleWl_returns [OF assms(4)] by blast
    then show ?thesis using ZTiling by (simp add: optional_split_def)
  next
    case (ZEffTiling l m bs rs ovh)
    then show ?thesis using assms(2) by simp
  qed
  then show ?thesis using False by (simp add: split_tile_in_workloads_def)
qed (simp add: split_tile_in_workloads_def)

lemma dpus_per_tile: "nDPU_per_tile (get_hw_info d) \<noteq> 0"
  by (cases d) (simp_all add: get_hw_info_def extract_tuple_content_def get_device_index_def MainEvo0SetTuple_def
      VPU2_0_HWCharacteristics_def VPU2_1_HWCharacteristics_def VPU2_7_HWCharacteristics_def VPU4_0_HWCharacteristics_v0_def
      VPU5_0_HWCharacteristics_v0_def Default_HWCharacteristics_def)

lemma schedule_split_defined: "schedule_split s ovh \<noteq> Inl (undefined_behaviour t)"
proof (cases "getWorkloadsDevice (split_workloads s)")
  case (Inr d)
  obtain r where "dpu_schedule (nDPU_per_tile (get_hw_info d)) (split_cycles s) ovh = Some r"
    using dpu_schedule_total [OF dpus_per_tile] by blast
  then show ?thesis using Inr by (simp add: schedule_split_def Let_def)
qed (auto simp: schedule_split_def Let_def getWorkloadsDevice_def split: list.splits if_splits)

lemma plain_variants_return: "\<exists>cs. measure_variants (plain_cost cost) ovh vs u = (Inr cs, ())"
proof (induction vs arbitrary: u)
  case (Cons s vs)
  have defined: "split_outcome cost ovh s \<noteq> Inl (undefined_behaviour t)" for t
    by (simp add: split_outcome_def schedule_split_defined)
  have "\<exists>c. measure_variant (plain_cost cost) ovh s u = (Inr c, ())"
  proof (cases "split_outcome cost ovh s")
    case (Inl e)
    then show ?thesis using defined by (cases e) (simp_all add: measure_variant_def plain_computeSplitCycles)
  qed (simp add: measure_variant_def plain_computeSplitCycles)
  then show ?case using Cons.IH [of "()"] by auto
qed simp

lemma plain_counts_return:
  assumes "maxLatencyUs options = 0" "nonempty_layer (layer_on_tile algo)" "\<not> is_ZEff algo"
  shows "\<forall>n \<in> set ns. unat n < 2 ^ 26 \<and> n \<noteq> 0 \<Longrightarrow>
    \<exists>cs k'. measure_counts (plain_cost cost) legacy late options algo mode ns k u = (Inr (cs, False, k'), ())"
proof (induction ns arbitrary: k u)
  case (Cons n ns)
  obtain vs where "split_tile_in_workloads legacy algo mode n = Inr vs"
    using split_tile_returns [OF assms(2,3), of n legacy mode] Cons.prems by (auto simp: Bex_def)
  moreover obtain cs where "measure_variants (plain_cost cost) (runtimeOverhead options) vs u = (Inr cs, ())"
    using plain_variants_return by blast
  moreover obtain cs' k' where "measure_counts (plain_cost cost) legacy late options algo mode ns (k + 1) () = (Inr (cs', False, k'), ())"
    using Cons.IH [of "k + 1" "()"] Cons.prems by (metis list.set_intros(2))
  ultimately show ?case using assms(1) by simp
qed simp

lemma legacy_pool:
  assumes "tiler_of l (maxWorkloads options) algo" "\<not> is_ZEff algo" "nonempty_layer l" "nDPU options \<noteq> 0"
    "unat (maxWorkloads options) < 2 ^ 26" "unat (nDPU options) < 2 ^ 26"
  shows "\<exists>pool. generateSplitPool algo (nDPU options) mode = Inr pool \<and> 1 \<in> set pool \<and>
    (\<forall>n \<in> set pool. unat n < 2 ^ 26 \<and> n \<noteq> 0)"
proof -
  have t: "layer_on_tile algo = l" "max_workloads_of algo = maxWorkloads options" using assms(1,2) by (simp_all add: tiler_of_def)
  have sum: "unat (maxWorkloads options) + unat (nDPU options) < 4294967296" using assms(5,6) by simp
  have d: "unat (tx (outputs_0 l)) < 2 ^ 16" "unat (ty (outputs_0 l)) < 2 ^ 16" using assms(3) by (simp_all add: nonempty_layer_def)
  obtain pool where pool: "generateSplitPool algo (nDPU options) mode = Inr pool" "proper_pool (maxWorkloads options) pool"
    using HW_pool_proper [OF assms(4) sum d, of mode] Z_pool_proper [OF assms(4) sum, of l mode] t assms(2) by (cases algo) auto
  have "n \<noteq> 0" if "n \<in> set pool" for n
    using pool(2) that by (auto simp: proper_pool_def list_all_iff word_le_nat_alt)
  then show ?thesis using pool pool_counts [OF pool(1) _ assms(1,5)] by (auto simp: proper_pool_def)
qed

lemma plain_all_return:
  assumes "maxLatencyUs options = 0" "nonempty_layer l" "nDPU options \<noteq> 0"
    "unat (maxWorkloads options) < 2 ^ 26" "unat (nDPU options) < 2 ^ 26"
  shows "\<forall>(algo, mode) \<in> set tries. tiler_of l (maxWorkloads options) algo \<and> \<not> is_ZEff algo \<Longrightarrow>
    \<exists>cs. measure_all (plain_cost cost) legacy late options tries k u = (Inr cs, ())"
proof (induction tries arbitrary: k u)
  case (Cons attempt tries)
  obtain algo mode where t: "attempt = (algo, mode)" by (cases attempt)
  then have algo: "tiler_of l (maxWorkloads options) algo" "\<not> is_ZEff algo" "layer_on_tile algo = l"
    using Cons.prems by (auto simp: tiler_of_def)
  obtain pool where pool: "generateSplitPool algo (nDPU options) mode = Inr pool" "\<forall>n \<in> set pool. unat n < 2 ^ 26 \<and> n \<noteq> 0"
    using legacy_pool [OF algo(1,2) assms(2-5)] by blast
  obtain cs k' where "measure_counts (plain_cost cost) legacy late options algo mode pool k u = (Inr (cs, False, k'), ())"
    using plain_counts_return [OF assms(1) _ algo(2) pool(2)] assms(2) algo(3) by blast
  moreover obtain cs' where "measure_all (plain_cost cost) legacy late options tries k' () = (Inr cs', ())"
    using Cons by auto
  ultimately show ?case using t pool(1) by simp
qed simp

definition searchable :: "DPULayer \<Rightarrow> SplitOptions \<Rightarrow> bool" where
  "searchable l options \<longleftrightarrow>
     maxLatencyUs options = 0 \<and> nDPU options \<noteq> 0 \<and> unat (maxWorkloads options) < 2 ^ 26 \<and> unat (nDPU options) < 2 ^ 26 \<and>
     getTilingAlgorithms l options \<noteq> [] \<and> findZEffTilingAlgorithm (getTilingAlgorithms l options) = None"

lemma intraTileSplit_returns_lemma:
  assumes "model_good cm p st0 st" "cost_source_hint layer = AUTO" "nonempty_layer layer" "searchable layer options"
    "mode \<in> set (getValidTilingExecutionMode (get_properties (device layer)) (layer_workload layer))"
  shows "\<exists>c wls all st'. intraTileSplit (model_dpu cm) legacy late layer options st = (Inr ((c, wls), all), st') \<and>
    cost_rank c \<le> cost_rank (split_value (model_cost cm p st0) (runtimeOverhead options) (whole_split layer mode))"
proof -
  let ?modes = "getValidTilingExecutionMode (get_properties (device layer)) (layer_workload layer)"
  let ?algos = "getTilingAlgorithms layer options"
  define cost where "cost = model_cost cm p st0"
  have opts: "maxLatencyUs options = 0" "nDPU options \<noteq> 0" "unat (maxWorkloads options) < 2 ^ 26" "unat (nDPU options) < 2 ^ 26"
    "?algos \<noteq> []" "findZEffTilingAlgorithm ?algos = None"
    using assms(4) by (simp_all add: searchable_def)
  have algos: "tiler_of layer (maxWorkloads options) algo \<and> \<not> is_ZEff algo" if "algo \<in> set ?algos" for algo
    using that tilers_of_layer opts(6) by (auto simp: findZEffTilingAlgorithm_def find_None_iff)
  obtain cs where cs: "measure_all (plain_cost cost) legacy late options (List.product ?algos ?modes) 0 () = (Inr cs, ())"
  proof -
    have "\<forall>(algo, mode) \<in> set (List.product ?algos ?modes). tiler_of layer (maxWorkloads options) algo \<and> \<not> is_ZEff algo"
      using algos by auto
    from plain_all_return [OF opts(1) assms(3) opts(2-4) this, of cost legacy late 0 "()"] show thesis using that by blast
  qed
  define algo where "algo = hd ?algos"
  have algo: "algo \<in> set ?algos" using opts(5) by (simp add: algo_def)
  have "offered legacy (nDPU options) algo mode (whole_split layer mode)"
    using whole_offered [OF algo] algos [OF algo] opts(2-4) assms(3) by (auto simp: nonempty_layer_def)
  note whole = algo this
  have "\<forall>vs cs st st'. measure_variants (plain_cost cost) (runtimeOverhead options) vs st = (Inr cs, st') \<longrightarrow>
      list_all2 (\<lambda>_ _. True) vs cs"
    by (intro allI impI) (auto dest!: plain_lists_from(1) list_all2_lengthD intro: list_all2I)
  then have "cs \<noteq> []"
    using measure_all_from [of "plain_cost cost" options "\<lambda>_ _. True" legacy late "List.product ?algos ?modes" 0 "()" cs "()"]
      cs opts(1) whole assms(5) by fastforce
  then obtain r all where "intraTileSplit (plain_cost cost) legacy late layer options () = (Inr (r, all), ())"
    using cs opts(6) by (cases cs) (auto simp: intraTileSplit_def generateSplits_def Let_def)
  moreover have "fst (intraTileSplit (model_dpu cm) legacy late layer options st) =
      fst (intraTileSplit (plain_cost cost) legacy late layer options ())"
    using model.intraTileSplit_agrees [OF of_layer_auto [OF assms(2)] assms(1), where legacy = legacy and late = late
        and options = options and u = "()"] by (simp add: agrees_def cost_def)
  ultimately obtain st' where run: "intraTileSplit (model_dpu cm) legacy late layer options st = (Inr ((fst r, snd r), all), st')"
    by (cases "intraTileSplit (model_dpu cm) legacy late layer options st") auto
  from least_split [OF assms(1,2) run opts(1,6) whole(1) assms(5) whole(2)] show ?thesis using run by blast
qed

text \<open>
  C11. With at least one DPU, no limit on the time, and a device and options for which there is an algorithm over height, width or channels and
  an execution mode, \<open>intraTileSplit\<close> returns: it does not run into a loop without end, a division by zero or an exception.
  Its cost is at most that of the layer as a single workload, in each of the modes.
\<close>

theorem intraTileSplit_returns:
  assumes "model_good cm p st0 st" "cost_source_hint layer = AUTO" "nonempty_layer layer" "searchable layer options"
    "mode \<in> set (getValidTilingExecutionMode (get_properties (device layer)) (layer_workload layer))"
  shows "\<exists>c wls all st'. intraTileSplit (model_dpu cm) legacy late layer options st = (Inr ((c, wls), all), st') \<and>
    cost_rank c \<le> cost_rank (split_value (model_cost cm p st0) (runtimeOverhead options) (whole_split layer mode))"
  by (rule intraTileSplit_returns_lemma [OF assms])

section \<open>An example\<close>

definition sample_options :: SplitOptions where
  "sample_options = default_SplitOptions\<lparr>nDPU := 1\<rparr>"

abbreviation sample_run :: "ActiveCache \<Rightarrow> ((CyclesInterfaceType \<times> DPUWorkload list) \<times> DPUWorkloadsWithCyclesSplit list) result \<times> ActiveCache" where
  "sample_run st \<equiv> intraTileSplit (model_dpu example_model) True (\<lambda>_. False) sample_layer sample_options st"

lemma sample_good: "model_good example_model (\<lambda>_. 1000) empty_descriptor_cache empty_descriptor_cache"
  using example_answers empty_descriptor_cache_coherent by (simp add: model_good_def)

lemma sample_auto: "cost_source_hint sample_layer = AUTO"
  by (simp add: sample_layer_defs)

lemma sample_algorithms: "getTilingAlgorithms sample_layer sample_options = [ZTiling sample_layer 128]"
proof -
  have "\<not> NPU_RESERVED \<le> device sample_layer"
    by (simp add: sample_layer_defs less_eq_VPUDevice_def VPUDevice_enum_def)
  then show ?thesis
    by (simp add: getTilingAlgorithms_def algorithm_of_strategy_def isHWTilingAllowed_def sample_options_def default_SplitOptions_def)
qed

lemma sample_searchable: "searchable sample_layer sample_options" "nonempty_layer sample_layer"
  "findZEffTilingAlgorithm (getTilingAlgorithms sample_layer sample_options) = None" "maxLatencyUs sample_options = 0"
  "unat (maxWorkloads sample_options) < 2 ^ 26" "plain_layer sample_layer"
  by (simp_all add: searchable_def sample_algorithms findZEffTilingAlgorithm_def nonempty_layer_def plain_layer_def)
    (simp_all add: sample_options_def default_SplitOptions_def sample_layer_defs tx_def ty_def tz_def tb_def)

lemma sample_mode:
  "CUBOID_8x16 \<in> set (getValidTilingExecutionMode (get_properties (device sample_layer)) (layer_workload sample_layer))"
  by (simp add: sample_layer_defs get_properties_def extract_tuple_content_def get_device_index_def VPU4_0_LayerProperties_def
      getValidTilingExecutionMode_def layer_workload_def DPUWorkload.truncate_def)

lemma sample_runs: "\<exists>c wls all st'. sample_run empty_descriptor_cache = (Inr ((c, wls), all), st')"
  using intraTileSplit_returns_lemma [OF sample_good sample_auto sample_searchable(2,1) sample_mode] by blast

theorem intraTileSplit_returns_witness:
  "\<exists>c wls all st'. sample_run empty_descriptor_cache = (Inr ((c, wls), all), st') \<and>
    cost_rank c \<le> cost_rank (split_value (model_cost example_model (\<lambda>_. 1000) empty_descriptor_cache)
      (runtimeOverhead sample_options) (whole_split sample_layer CUBOID_8x16))"
  by (rule intraTileSplit_returns [OF sample_good sample_auto sample_searchable(2,1) sample_mode])

theorem intraTileSplit_repeatable_witness:
  "\<exists>asked. asked = snd (model_dpu example_model dw_example empty_descriptor_cache) \<and>
    fst (sample_run empty_descriptor_cache) = fst (sample_run asked)"
proof -
  obtain asked where "asked = snd (model_dpu example_model dw_example empty_descriptor_cache)"
    "model_good example_model (\<lambda>_. 1000) empty_descriptor_cache asked"
    using model.dpu_answers [OF sample_good, of dw_example] by auto
  then show ?thesis using intraTileSplit_repeatable [OF sample_good _ sample_auto] by blast
qed

theorem intraTileSplit_least_witness:
  "\<exists>c wls all st'. sample_run empty_descriptor_cache = (Inr ((c, wls), all), st') \<and>
    cost_rank c \<le> cost_rank (split_value (model_cost example_model (\<lambda>_. 1000) empty_descriptor_cache)
      (runtimeOverhead sample_options) (whole_split sample_layer CUBOID_8x16))"
proof -
  obtain c wls all st' where run: "sample_run empty_descriptor_cache = (Inr ((c, wls), all), st')" using sample_runs by blast
  have algo: "ZTiling sample_layer 128 \<in> set (getTilingAlgorithms sample_layer sample_options)" by (simp add: sample_algorithms)
  have "offered True (nDPU sample_options) (ZTiling sample_layer 128) CUBOID_8x16 (whole_split sample_layer CUBOID_8x16)"
    using whole_offered [OF algo] sample_searchable(1,2) by (simp add: searchable_def nonempty_layer_def)
  from intraTileSplit_least [OF sample_good sample_auto run sample_searchable(4,3) algo sample_mode this] run show ?thesis by blast
qed


end
