(* ===== verification/Dma_Types.thy ===== *)
theory Dma_Types
  imports Hw_Characteristics Workload_Keys "HOL-Library.List_Lexorder" "HOL-Library.Char_ord"
begin

text \<open>
  The transfers of the DMA engines: the enumerations and workloads of \<^verbatim>\<open>include/vpu/dma_types.h\<close> with the counts of bytes
  and contiguous chunks, and the three ways in which a cache identifies a workload: equality, order and hash
  (\<^verbatim>\<open>src/vpu/dma_workload.cpp\<close>). The maps of members that serialisation uses are left out. The five extra dimensions of
  a NPU 4.0 workload are a list of length five; \<open>num_dim\<close> of them are in use, and reading more than five is undefined
  behaviour, of which the definitions say nothing.
\<close>

section \<open>Enumerations\<close>

datatype MemoryDirection = DDR2CMX | CMX2CMX | CMX2DDR | DDR2DDR | enum_size

definition MemoryDirection_enum :: "MemoryDirection list" where
  "MemoryDirection_enum =
     [MemoryDirection.DDR2CMX, MemoryDirection.CMX2CMX, MemoryDirection.CMX2DDR, MemoryDirection.DDR2DDR, MemoryDirection.enum_size]"

definition MemoryDirection_ToText :: EnumMap where
  "MemoryDirection_ToText =
     [link MemoryDirection_enum MemoryDirection.DDR2CMX ''DDR2CMX'', link MemoryDirection_enum MemoryDirection.CMX2CMX ''CMX2CMX'',
      link MemoryDirection_enum MemoryDirection.CMX2DDR ''CMX2DDR'', link MemoryDirection_enum MemoryDirection.DDR2DDR ''DDR2DDR'']"

definition enumName_MemoryDirection :: string where
  "enumName_MemoryDirection = ''MemoryDirection''"

interpretation memorydirection_text: enum_text MemoryDirection_enum MemoryDirection_ToText enumName_MemoryDirection
  by unfold_locales (code_simp+)

datatype Num_DMA_Engine = Num_Engine_1 | Num_Engine_2 | enum_size

definition Num_DMA_Engine_enum :: "Num_DMA_Engine list" where
  "Num_DMA_Engine_enum = [Num_DMA_Engine.Num_Engine_1, Num_DMA_Engine.Num_Engine_2, Num_DMA_Engine.enum_size]"

definition Num_DMA_Engine_ToText :: EnumMap where
  "Num_DMA_Engine_ToText =
     [link Num_DMA_Engine_enum Num_DMA_Engine.Num_Engine_1 ''Num_Engine_1'',
      link Num_DMA_Engine_enum Num_DMA_Engine.Num_Engine_2 ''Num_Engine_2'']"

definition enumName_Num_DMA_Engine :: string where
  "enumName_Num_DMA_Engine = ''Num_DMA_Engine''"

interpretation num_dma_engine_text: enum_text Num_DMA_Engine_enum Num_DMA_Engine_ToText enumName_Num_DMA_Engine
  by unfold_locales (code_simp+)

section \<open>Workloads\<close>

record DMAWorkload =
  dma_device :: VPUDevice
  dma_input :: VPUTensor
  dma_output :: VPUTensor
  input_location :: MemoryLocation
  output_location :: MemoryLocation
  dma_output_write_tiles :: u32

record DMANNWorkload_NPU27 =
  n27_device :: VPUDevice
  num_planes :: int
  n27_length :: int
  n27_src_width :: int
  n27_dst_width :: int
  n27_src_stride :: int
  n27_dst_stride :: int
  src_plane_stride :: int
  dst_plane_stride :: int
  n27_transfer_direction :: MemoryDirection
  n27_loc_name :: string

definition n27_getAccessedBytes :: "DMANNWorkload_NPU27 \<Rightarrow> int" where
  "n27_getAccessedBytes w = (num_planes w + 1) * n27_length w"

record SizeStride =
  src_stride :: int
  dst_stride :: int
  src_dim_size :: int
  dst_dim_size :: int

record DMANNWorkload_NPU40_50 =
  n40_device :: VPUDevice
  src_width :: int
  dst_width :: int
  num_dim :: int
  e_dim :: "SizeStride list"
  num_engine :: Num_DMA_Engine
  transfer_direction :: MemoryDirection
  loc_name :: string

definition MaxExtraDimensions :: int where
  "MaxExtraDimensions = 6 - 1"

definition no_extra_dims :: "SizeStride list" where
  "no_extra_dims = replicate (nat MaxExtraDimensions) \<lparr>src_stride = 0, dst_stride = 0, src_dim_size = 0, dst_dim_size = 0\<rparr>"

definition new_DMANNWorkload_NPU40_50 :: "VPUDevice \<Rightarrow> DMANNWorkload_NPU40_50" where
  "new_DMANNWorkload_NPU40_50 d =
     \<lparr>n40_device = d, src_width = 0, dst_width = 0, num_dim = 0, e_dim = no_extra_dims, num_engine = Num_Engine_1,
      transfer_direction = CMX2CMX, loc_name = ''''\<rparr>"

definition create_DMANNWorkload_NPU40 :: DMANNWorkload_NPU40_50 where
  "create_DMANNWorkload_NPU40 = new_DMANNWorkload_NPU40_50 VPU_4_0"

definition create_DMANNWorkload_NPU50 :: DMANNWorkload_NPU40_50 where
  "create_DMANNWorkload_NPU50 = new_DMANNWorkload_NPU40_50 NPU_5_0"

definition create_DMANNWorkload_NPU50_W :: DMANNWorkload_NPU40_50 where
  "create_DMANNWorkload_NPU50_W = new_DMANNWorkload_NPU40_50 NPU_5_0_W"

definition dims_in_use :: "DMANNWorkload_NPU40_50 \<Rightarrow> SizeStride list" where
  "dims_in_use w = take (nat (num_dim w)) (e_dim w)"

definition n40_getAccessedBytes :: "DMANNWorkload_NPU40_50 \<Rightarrow> int" where
  "n40_getAccessedBytes w = fold (\<lambda>d bytes_accessed. bytes_accessed * (src_dim_size d + 1)) (dims_in_use w) (src_width w)"

definition n40_getReadBytes :: "DMANNWorkload_NPU40_50 \<Rightarrow> int" where
  "n40_getReadBytes w = n40_getAccessedBytes w"

definition n40_getWrittenBytes :: "DMANNWorkload_NPU40_50 \<Rightarrow> int" where
  "n40_getWrittenBytes w = fold (\<lambda>d bytes_written. bytes_written * (dst_dim_size d + 1)) (dims_in_use w) (dst_width w)"

fun contiguous_src :: "SizeStride list \<Rightarrow> int \<Rightarrow> int" where
  "contiguous_src [] contiguous_bytes = contiguous_bytes"
| "contiguous_src (d # dims) contiguous_bytes =
     (if src_dim_size d = 0 then contiguous_src dims contiguous_bytes
      else if src_stride d \<noteq> contiguous_bytes then contiguous_bytes
      else contiguous_src dims (contiguous_bytes * (src_dim_size d + 1)))"

fun contiguous_dst :: "SizeStride list \<Rightarrow> int \<Rightarrow> int" where
  "contiguous_dst [] contiguous_bytes = contiguous_bytes"
| "contiguous_dst (d # dims) contiguous_bytes =
     (if dst_dim_size d = 0 then contiguous_dst dims contiguous_bytes
      else if dst_stride d \<noteq> contiguous_bytes then contiguous_bytes
      else contiguous_dst dims (contiguous_bytes * (dst_dim_size d + 1)))"

definition n40_getContiguousBytesSrc :: "DMANNWorkload_NPU40_50 \<Rightarrow> int" where
  "n40_getContiguousBytesSrc w = contiguous_src (dims_in_use w) (src_width w)"

definition n40_getContiguousBytesDst :: "DMANNWorkload_NPU40_50 \<Rightarrow> int" where
  "n40_getContiguousBytesDst w = contiguous_dst (dims_in_use w) (dst_width w)"

definition n40_getNumContiguousChunksSrc :: "DMANNWorkload_NPU40_50 \<Rightarrow> int" where
  "n40_getNumContiguousChunksSrc w =
     (let total_bytes = n40_getAccessedBytes w; contiguous_bytes = n40_getContiguousBytesSrc w in
      if contiguous_bytes = 0 then 0 else (total_bytes + contiguous_bytes - 1) sdiv contiguous_bytes)"

definition n40_getNumContiguousChunksDst :: "DMANNWorkload_NPU40_50 \<Rightarrow> int" where
  "n40_getNumContiguousChunksDst w =
     (let total_bytes = n40_getWrittenBytes w; contiguous_bytes = n40_getContiguousBytesDst w in
      if contiguous_bytes = 0 then 0 else (total_bytes + contiguous_bytes - 1) sdiv contiguous_bytes)"

definition n40_getDirection :: "DMANNWorkload_NPU40_50 \<Rightarrow> MemoryDirection" where
  "n40_getDirection w = transfer_direction w"

record DMATransfer1D =
  t1d_device :: VPUDevice
  transfer_length_bytes :: int
  memory_direction :: MemoryDirection

section \<open>Equality, order and hash\<close>

abbreviation pos_direction :: "MemoryDirection \<Rightarrow> int" where "pos_direction \<equiv> enum_position MemoryDirection_enum"
abbreviation pos_engine :: "Num_DMA_Engine \<Rightarrow> int" where "pos_engine \<equiv> enum_position Num_DMA_Engine_enum"

definition hash_int :: "u32 \<Rightarrow> int \<Rightarrow> u32" where
  "hash_int h i = hash_uint32 h (to_u32 i)"

definition n27_hash :: "DMANNWorkload_NPU27 \<Rightarrow> u32" where
  "n27_hash w =
     (let h = fnv_offset_basis;
          h = hash_enum h (pos_device (n27_device w));
          h = fold (\<lambda>i h. hash_int h i)
                [num_planes w, n27_length w, n27_src_width w, n27_dst_width w, n27_src_stride w, n27_dst_stride w,
                 src_plane_stride w, dst_plane_stride w] h
      in hash_enum h (pos_direction (n27_transfer_direction w)))"

definition hash_dim :: "SizeStride \<Rightarrow> u32 \<Rightarrow> u32" where
  "hash_dim d h = fold (\<lambda>i h. hash_int h i) [src_stride d, dst_stride d, src_dim_size d, dst_dim_size d] h"

definition n40_hash :: "DMANNWorkload_NPU40_50 \<Rightarrow> u32" where
  "n40_hash w =
     (let h = fnv_offset_basis;
          h = hash_enum h (pos_device (n40_device w));
          h = fold (\<lambda>i h. hash_int h i) [src_width w, dst_width w, num_dim w] h;
          h = fold hash_dim (dims_in_use w) h;
          h = hash_enum h (pos_engine (num_engine w))
      in hash_enum h (pos_direction (transfer_direction w)))"

definition n27_eq :: "DMANNWorkload_NPU27 \<Rightarrow> DMANNWorkload_NPU27 \<Rightarrow> bool" where
  "n27_eq a b \<longleftrightarrow>
     n27_device a = n27_device b \<and> num_planes a = num_planes b \<and> n27_length a = n27_length b \<and>
     n27_src_width a = n27_src_width b \<and> n27_dst_width a = n27_dst_width b \<and> n27_src_stride a = n27_src_stride b \<and>
     n27_dst_stride a = n27_dst_stride b \<and> src_plane_stride a = src_plane_stride b \<and>
     dst_plane_stride a = dst_plane_stride b \<and> n27_transfer_direction a = n27_transfer_direction b \<and>
     n27_loc_name a = n27_loc_name b"

definition n27_key where
  "n27_key w =
     (pos_device (n27_device w), num_planes w, n27_length w, n27_src_width w, n27_dst_width w, n27_src_stride w,
      n27_dst_stride w, src_plane_stride w, dst_plane_stride w, pos_direction (n27_transfer_direction w), n27_loc_name w)"

definition n27_less :: "DMANNWorkload_NPU27 \<Rightarrow> DMANNWorkload_NPU27 \<Rightarrow> bool" where
  "n27_less a b \<longleftrightarrow> n27_key a < n27_key b"

definition n40_eq :: "DMANNWorkload_NPU40_50 \<Rightarrow> DMANNWorkload_NPU40_50 \<Rightarrow> bool" where
  "n40_eq a b \<longleftrightarrow>
     (if n40_device a \<noteq> n40_device b \<or> src_width a \<noteq> src_width b \<or> dst_width a \<noteq> dst_width b \<or> num_dim a \<noteq> num_dim b \<or>
         num_engine a \<noteq> num_engine b \<or> transfer_direction a \<noteq> transfer_direction b
      then False
      else list_all (\<lambda>(d, d').
             \<not> (src_stride d \<noteq> src_stride d' \<or> dst_stride d \<noteq> dst_stride d' \<or> src_dim_size d \<noteq> src_dim_size d' \<or>
                dst_dim_size d \<noteq> dst_dim_size d'))
           (zip (dims_in_use a) (take (nat (num_dim a)) (e_dim b))))"

definition dim_key :: "SizeStride \<Rightarrow> int \<times> int \<times> int \<times> int" where
  "dim_key d = (src_stride d, dst_stride d, src_dim_size d, dst_dim_size d)"

definition n40_key where
  "n40_key w =
     (pos_device (n40_device w), src_width w, dst_width w, num_dim w, map dim_key (e_dim w), pos_engine (num_engine w),
      pos_direction (transfer_direction w), loc_name w)"

definition n40_less :: "DMANNWorkload_NPU40_50 \<Rightarrow> DMANNWorkload_NPU40_50 \<Rightarrow> bool" where
  "n40_less a b \<longleftrightarrow> n40_key a < n40_key b"

interpretation n27_order: keyed_order n27_less n27_key
  by unfold_locales (rule n27_less_def)

interpretation n40_order: keyed_order n40_less n40_key
  by unfold_locales (rule n40_less_def)

interpretation int_hash: hash_fold hash_int
  by unfold_locales (simp add: hash_int_def)

section \<open>The keys of the caches\<close>

lemma dim_key_iff [simp]: "dim_key d = dim_key d' \<longleftrightarrow> d = d'"
  by (cases d; cases d') (simp add: dim_key_def)

lemma n40_eq_iff:
  assumes "length (e_dim a) = 5" "length (e_dim b) = 5"
  shows "n40_eq a b \<longleftrightarrow>
    n40_device a = n40_device b \<and> src_width a = src_width b \<and> dst_width a = dst_width b \<and> num_dim a = num_dim b \<and>
    num_engine a = num_engine b \<and> transfer_direction a = transfer_direction b \<and> dims_in_use a = dims_in_use b"
proof -
  have "list_all (\<lambda>(d, d'). d = d') (zip xs ys) \<longleftrightarrow> xs = ys" if "length xs = length ys" for xs ys :: "SizeStride list"
    using that by (induction xs ys rule: list_induct2) auto
  moreover have "(\<lambda>(d, d'). \<not> (src_stride d \<noteq> src_stride d' \<or> dst_stride d \<noteq> dst_stride d' \<or> src_dim_size d \<noteq> src_dim_size d' \<or>
      dst_dim_size d \<noteq> dst_dim_size d')) = (\<lambda>(d :: SizeStride, d'). d = d')"
    by (auto simp: fun_eq_iff)
  ultimately show ?thesis
    using assms unfolding n40_eq_def dims_in_use_def by (auto simp: list_all_iff)
qed

text \<open>
  Equal workloads have equal hashes, as the hashed containers of the caches need. The converse use of \<open>operator<\<close> does not
  fit \<open>operator==\<close>: the order also compares the name and the dimensions that are not in use.
\<close>

theorem dma_eq_same_hash:
  "(n27_eq a b \<longrightarrow> n27_hash a = n27_hash b) \<and>
   (length (e_dim c) = 5 \<and> length (e_dim d) = 5 \<and> n40_eq c d \<longrightarrow> n40_hash c = n40_hash d)"
  using n40_eq_iff [of c d] by (auto simp: n27_eq_def n27_hash_def n40_hash_def)

theorem n40_eq_not_equivalent:
  "\<exists>a b. n40_eq a b \<and> n40_less a b"
proof -
  let ?a = create_DMANNWorkload_NPU40 and ?b = "create_DMANNWorkload_NPU40\<lparr>loc_name := ''x''\<rparr>"
  have "n40_eq ?a ?b"
    by (simp add: n40_eq_def create_DMANNWorkload_NPU40_def new_DMANNWorkload_NPU40_50_def dims_in_use_def)
  moreover have "n40_less ?a ?b"
    by (simp add: n40_less_def n40_key_def create_DMANNWorkload_NPU40_def new_DMANNWorkload_NPU40_50_def)
  ultimately show ?thesis by blast
qed

end
