(* ===== verification/Dma_Descriptors.thy ===== *)
theory Dma_Descriptors
  imports Dma_Types
begin

text \<open>
  The description of a transfer the compiler gives: \<open>VPUDMATensor\<close> and \<open>VPUDMADescriptor\<close> of
  \<^verbatim>\<open>include/vpu/dma_descriptors.h\<close>. A tensor has up to six dimensions, the outermost first, with a count of elements and a
  distance in bytes each; both arrays are lists of length six. Products of counts are taken in \<^verbatim>\<open>int32_t\<close>, whose overflow is
  undefined behaviour, and are \<open>int\<close> here. Printing is left out.
\<close>

definition VPU_DMA_MAX_DIMS :: nat where
  "VPU_DMA_MAX_DIMS = 6"

record VPUDMATensor =
  dt_dtype :: DataType
  num_dims :: int
  dt_shape :: "int list"
  byte_strides :: "int list"
  dt_layout :: "Layout option"

definition new_VPUDMATensor :: VPUDMATensor where
  "new_VPUDMATensor =
     \<lparr>dt_dtype = UINT8, num_dims = 1, dt_shape = [1, 0, 0, 0, 0, 0], byte_strides = [1, 0, 0, 0, 0, 0], dt_layout = None\<rparr>"

definition dimensions_text :: "string \<Rightarrow> nat \<Rightarrow> string" where
  "dimensions_text function n =
     ''VPUDMATensor::'' @ function @ '': number of dimensions must be in [1, '' @ to_string (int VPU_DMA_MAX_DIMS) @ ''], got '' @
     to_string (int n)"

definition zero_padded :: "int list \<Rightarrow> int list" where
  "zero_padded xs = xs @ replicate (VPU_DMA_MAX_DIMS - length xs) 0"

definition setDimension_OutermostFirst :: "(int \<times> int) list \<Rightarrow> VPUDMATensor \<Rightarrow> VPUDMATensor result" where
  "setDimension_OutermostFirst dims t =
     (let n = length dims in
      if n < 1 \<or> VPU_DMA_MAX_DIMS < n then Inl (invalid_argument (dimensions_text ''setDimension_OutermostFirst'' n))
      else Inr (t\<lparr>num_dims := int n, dt_shape := zero_padded (map fst dims), byte_strides := zero_padded (map snd dims)\<rparr>))"

definition setDimension_InnermostFirst :: "(int \<times> int) list \<Rightarrow> VPUDMATensor \<Rightarrow> VPUDMATensor result" where
  "setDimension_InnermostFirst dims_innermost_first t =
     (let n = length dims_innermost_first in
      if n < 1 \<or> VPU_DMA_MAX_DIMS < n then Inl (invalid_argument (dimensions_text ''setDimension_InnermostFirst'' n))
      else Inr (t\<lparr>num_dims := int n, dt_shape := zero_padded (rev (map fst dims_innermost_first)),
                  byte_strides := zero_padded (rev (map snd dims_innermost_first))\<rparr>))"

section \<open>Bytes of a tensor\<close>

text \<open>The active dimensions from the innermost to the outermost, as the loops of the code visit them.\<close>

definition inner_to_outer :: "VPUDMATensor \<Rightarrow> (int \<times> int) list" where
  "inner_to_outer t = rev (take (nat (num_dims t)) (zip (dt_shape t) (byte_strides t)))"

definition dt_getAccessedBytes :: "VPUDMATensor \<Rightarrow> int" where
  "dt_getAccessedBytes t =
     (if num_dims t \<le> 0 then 0
      else
        let dims = inner_to_outer t;
            bytes = compute_size_in_bytes (fst (hd dims)) (dt_dtype t)
        in fold (\<lambda>d bytes. bytes * fst d) (tl dims) bytes)"

fun contiguous_dims :: "(int \<times> int) list \<Rightarrow> int \<Rightarrow> int" where
  "contiguous_dims [] contiguous_bytes = contiguous_bytes"
| "contiguous_dims ((s, stride) # dims) contiguous_bytes =
     (if s = 0 then 0
      else if s = 1 then contiguous_dims dims contiguous_bytes
      else if stride \<noteq> contiguous_bytes then contiguous_bytes
      else contiguous_dims dims (contiguous_bytes * s))"

definition dt_getContiguousBytes :: "VPUDMATensor \<Rightarrow> int" where
  "dt_getContiguousBytes t =
     (if num_dims t \<le> 0 then 0
      else
        let elem_bytes = dtype_to_bytes (dt_dtype t) in
        if elem_bytes \<le> 0 then 0 else contiguous_dims (inner_to_outer t) elem_bytes)"

definition dt_getNumContiguousChunks :: "VPUDMATensor \<Rightarrow> int" where
  "dt_getNumContiguousChunks t =
     (let total_bytes = dt_getAccessedBytes t; contiguous_bytes = dt_getContiguousBytes t in
      if contiguous_bytes = 0 then 0 else (total_bytes + contiguous_bytes - 1) sdiv contiguous_bytes)"

definition innermost_footprint :: "int \<Rightarrow> int \<times> int \<Rightarrow> int" where
  "innermost_footprint elem_bytes d =
     (let abs_stride = \<bar>snd d\<bar> in
      if abs_stride = 0 then elem_bytes
      else if 1 < fst d then fst d * abs_stride else fst d * elem_bytes)"

definition dt_getMemoryFootprintBytes :: "VPUDMATensor \<Rightarrow> int" where
  "dt_getMemoryFootprintBytes t =
     (if num_dims t \<le> 0 then 0
      else
        let elem_bytes = dtype_to_bytes (dt_dtype t); dims = inner_to_outer t in
        if elem_bytes \<le> 0 then 0
        else if list_ex (\<lambda>d. fst d = 0) dims then 0
        else fold (\<lambda>d footprint. footprint + (fst d - 1) * \<bar>snd d\<bar>) (tl dims) (innermost_footprint elem_bytes (hd dims)))"

section \<open>Descriptors\<close>

record VPUDMADescriptor =
  desc_device :: VPUDevice
  desc_src :: VPUDMATensor
  desc_dst :: VPUDMATensor
  src_location :: MemoryLocation
  dst_location :: MemoryLocation

definition new_VPUDMADescriptor :: VPUDMADescriptor where
  "new_VPUDMADescriptor =
     \<lparr>desc_device = VPUDevice.enum_size, desc_src = new_VPUDMATensor, desc_dst = new_VPUDMATensor,
      src_location = CMX, dst_location = CMX\<rparr>"

definition desc_getDirection :: "VPUDMADescriptor \<Rightarrow> MemoryDirection" where
  "desc_getDirection d =
     (if src_location d = DRAM \<and> dst_location d = CMX then DDR2CMX
      else if src_location d = CMX \<and> dst_location d = DRAM then CMX2DDR
      else if src_location d = CMX \<and> dst_location d = CMX then CMX2CMX
      else if src_location d = DRAM \<and> dst_location d = DRAM then DDR2DDR
      else MemoryDirection.enum_size)"

definition desc_getReadBytes :: "VPUDMADescriptor \<Rightarrow> int" where
  "desc_getReadBytes d = dt_getAccessedBytes (desc_src d)"

definition desc_getWrittenBytes :: "VPUDMADescriptor \<Rightarrow> int" where
  "desc_getWrittenBytes d = dt_getAccessedBytes (desc_dst d)"

definition desc_getNumContiguousChunksSrc :: "VPUDMADescriptor \<Rightarrow> int" where
  "desc_getNumContiguousChunksSrc d = dt_getNumContiguousChunks (desc_src d)"

definition desc_getNumContiguousChunksDst :: "VPUDMADescriptor \<Rightarrow> int" where
  "desc_getNumContiguousChunksDst d = dt_getNumContiguousChunks (desc_dst d)"

definition desc_getContiguousBytesSrc :: "VPUDMADescriptor \<Rightarrow> int" where
  "desc_getContiguousBytesSrc d = dt_getContiguousBytes (desc_src d)"

definition desc_getContiguousBytesDst :: "VPUDMADescriptor \<Rightarrow> int" where
  "desc_getContiguousBytesDst d = dt_getContiguousBytes (desc_dst d)"

text \<open>
  The checks that throw, in the order of the code. Looking up the text of a data type outside the map throws \<open>out_of_range\<close>
  before the message is built.
\<close>

definition dtype_check :: "string \<Rightarrow> DataType \<Rightarrow> unit result" where
  "dtype_check side d =
     (let bits = dtype_to_bits d in
      if bits \<le> 0 \<or> bits smod 8 \<noteq> 0 then
        (case map_of DataType_ToText (pos_dtype d) of
           None \<Rightarrow> Inl (out_of_range ''map::at'')
         | Some dtype_name \<Rightarrow>
             Inl (invalid_argument (''VPUDMADescriptor: '' @ side @ '' data type '' @ [CHR 0x27] @ dtype_name @ [CHR 0x27] @ '' has '' @
               (if bits \<le> 0 then ''an unknown'' else to_string bits) @
               '' bit width, which is not a byte multiple. DMA strides are byte-granular; only byte-aligned types are supported.'')))
      else Inr ())"

definition device_check :: "VPUDevice \<Rightarrow> unit result" where
  "device_check d =
     (let device_idx = pos_device d; device_size = pos_device VPUDevice.enum_size in
      if device_idx < 0 \<or> device_size \<le> device_idx then
        Inl (invalid_argument (''VPUDMADescriptor: device index ('' @ to_string device_idx @ '') is out of range [0, '' @
          to_string (device_size - 1) @ '']. Use a valid VPUDevice enumerator, not VPUDevice::__size.''))
      else Inr ())"

definition num_dims_check :: "string \<Rightarrow> VPUDMATensor \<Rightarrow> unit result" where
  "num_dims_check side t =
     (if num_dims t < 0 \<or> int VPU_DMA_MAX_DIMS < num_dims t then
        Inl (invalid_argument (''VPUDMADescriptor: '' @ side @ ''.num_dims ('' @ to_string (num_dims t) @ '') is out of range [0, '' @
          to_string (int VPU_DMA_MAX_DIMS) @ '']. Values outside this range cause out-of-bounds array accesses.''))
      else Inr ())"

fun shape_check :: "string \<Rightarrow> int \<Rightarrow> int list \<Rightarrow> unit result" where
  "shape_check side d [] = Inr ()"
| "shape_check side d (s # ss) =
     (if s < 0 then
        Inl (invalid_argument (''VPUDMADescriptor: '' @ side @ ''.shape['' @ to_string d @ ''] = '' @ to_string s @
          '' is negative. All active dimension shapes must be >= 0.''))
      else shape_check side (d + 1) ss)"

definition pos_location :: "MemoryLocation \<Rightarrow> int" where
  "pos_location l = enum_position MemoryLocation_enum l"

definition direction_check :: "VPUDMADescriptor \<Rightarrow> unit result" where
  "direction_check d =
     (if desc_getDirection d = MemoryDirection.enum_size then
        Inl (invalid_argument (''VPUDMADescriptor: the memory-location combination (src_location='' @
          to_string (pos_location (src_location d)) @ '', dst_location='' @ to_string (pos_location (dst_location d)) @
          '') does not map to a supported MemoryDirection. Supported combinations: DRAM->CMX, CMX->DRAM, CMX->CMX, DRAM->DRAM.''))
      else Inr ())"

definition checkDescriptorSanity :: "VPUDMADescriptor \<Rightarrow> unit result" where
  "checkDescriptorSanity d =
     bind_result (dtype_check ''source'' (dt_dtype (desc_src d))) (\<lambda>_.
     bind_result (dtype_check ''destination'' (dt_dtype (desc_dst d))) (\<lambda>_.
     bind_result (device_check (desc_device d)) (\<lambda>_.
     bind_result (num_dims_check ''src'' (desc_src d)) (\<lambda>_.
     bind_result (num_dims_check ''dst'' (desc_dst d)) (\<lambda>_.
     bind_result (shape_check ''src'' 0 (take (nat (num_dims (desc_src d))) (dt_shape (desc_src d)))) (\<lambda>_.
     bind_result (shape_check ''dst'' 0 (take (nat (num_dims (desc_dst d))) (dt_shape (desc_dst d)))) (\<lambda>_.
     direction_check d)))))))"

section \<open>What the check accepts\<close>

definition sane_tensor :: "VPUDMATensor \<Rightarrow> bool" where
  "sane_tensor t \<longleftrightarrow>
     0 < dtype_to_bits (dt_dtype t) \<and> 8 dvd dtype_to_bits (dt_dtype t) \<and> 0 \<le> num_dims t \<and> num_dims t \<le> 6 \<and>
     list_all (\<lambda>s. 0 \<le> s) (take (nat (num_dims t)) (dt_shape t))"

lemma shape_check_ok: "shape_check side d ss = Inr () \<longleftrightarrow> list_all (\<lambda>s. 0 \<le> s) ss"
  by (induction side d ss rule: shape_check.induct) auto

lemma dtype_check_ok: "dtype_check side d = Inr () \<longleftrightarrow> 0 < dtype_to_bits d \<and> 8 dvd dtype_to_bits d"
  by (auto simp: dtype_check_def Let_def smod_nonneg dvd_eq_mod_eq_0 split: option.splits)

lemma bind_result_unit: "bind_result r (\<lambda>_. f) = Inr () \<longleftrightarrow> r = Inr () \<and> f = Inr ()" for r f :: "unit result"
  by (cases r) auto

text \<open>
  \<open>checkDescriptorSanity\<close> accepts a descriptor exactly when both tensors have a data type of whole bytes, at most six dimensions
  and no negative count, the device is a device and the locations are one of the four pairs of DRAM and CMX.
\<close>

theorem checkDescriptorSanity_exact:
  "checkDescriptorSanity d = Inr () \<longleftrightarrow>
     sane_tensor (desc_src d) \<and> sane_tensor (desc_dst d) \<and> desc_device d \<noteq> VPUDevice.enum_size \<and>
     {src_location d, dst_location d} \<subseteq> {DRAM, CMX}"
proof -
  have dev: "device_check v = Inr () \<longleftrightarrow> v \<noteq> VPUDevice.enum_size" for v
    by (cases v) (simp_all add: device_check_def Let_def VPUDevice_enum_def)
  have dir: "direction_check d = Inr () \<longleftrightarrow> {src_location d, dst_location d} \<subseteq> {DRAM, CMX}"
    by (cases "src_location d"; cases "dst_location d") (simp_all add: direction_check_def desc_getDirection_def)
  have dims: "num_dims_check side t = Inr () \<longleftrightarrow> 0 \<le> num_dims t \<and> num_dims t \<le> 6" for side t
    by (simp add: num_dims_check_def VPU_DMA_MAX_DIMS_def linorder_not_less [symmetric])
  show ?thesis
    unfolding checkDescriptorSanity_def bind_result_unit dev dir dims shape_check_ok dtype_check_ok sane_tensor_def
    by blast
qed

text \<open>For types of whole bytes the bytes accessed are the product of the counts and the bytes of an element.\<close>

lemma whole_bytes_dtype:
  assumes "0 < dtype_to_bits d" "8 dvd dtype_to_bits d"
  shows "0 < dtype_to_bytes d" "0 \<le> n \<Longrightarrow> compute_size_in_bytes n d = n * dtype_to_bytes d"
proof -
  show "0 < dtype_to_bytes d" using assms by (cases d) simp_all
  have d: "dtype_to_bits d = 8 \<and> dtype_to_bytes d = 1 \<or> 1 < dtype_to_bytes d"
    using assms by (cases d) simp_all
  assume n: "0 \<le> n"
  have "types_per_byte d = 1" if "dtype_to_bits d = 8" using that by (simp add: types_per_byte_def)
  then show "compute_size_in_bytes n d = n * dtype_to_bytes d"
    using d n by (auto simp: compute_size_in_bytes_def Let_def smod_nonneg sdiv_nonneg)
qed

lemma fold_mult: "fold (\<lambda>d b. b * f d) ds (b :: int) = b * (\<Prod>d\<leftarrow>ds. f d)"
  by (induction ds arbitrary: b) (auto simp: mult.assoc)

definition dims_count :: "(int \<times> int) list \<Rightarrow> int" where
  "dims_count dims = (\<Prod>d\<leftarrow>dims. fst d)"

lemma dims_count_simps [simp]: "dims_count [] = 1" "dims_count (d # ds) = fst d * dims_count ds"
  by (simp_all add: dims_count_def)

lemma inner_to_outer_nonneg:
  assumes "sane_tensor t" "d \<in> set (inner_to_outer t)"
  shows "0 \<le> fst d"
proof -
  have "fst d \<in> fst ` set (take (nat (num_dims t)) (zip (dt_shape t) (byte_strides t)))"
    using assms(2) by (simp add: inner_to_outer_def)
  also have "\<dots> = set (take (nat (num_dims t)) (map fst (zip (dt_shape t) (byte_strides t))))"
    by (simp add: take_map)
  also have "\<dots> \<subseteq> set (take (nat (num_dims t)) (dt_shape t))"
    by (simp add: map_fst_zip_take) (metis set_take_subset_set_take min.cobounded1)
  finally show ?thesis using assms(1) by (auto simp: sane_tensor_def list_all_iff)
qed

lemma accessed_bytes:
  assumes "sane_tensor t" "inner_to_outer t \<noteq> []"
  shows "dt_getAccessedBytes t = dtype_to_bytes (dt_dtype t) * dims_count (inner_to_outer t)"
proof -
  obtain d ds where dims: "inner_to_outer t = d # ds" using assms(2) by (cases "inner_to_outer t") auto
  have n: "\<not> num_dims t \<le> 0" using assms(2) by (auto simp: inner_to_outer_def)
  have "0 \<le> fst d" using inner_to_outer_nonneg [OF assms(1), of d] dims by simp
  then have "compute_size_in_bytes (fst d) (dt_dtype t) = fst d * dtype_to_bytes (dt_dtype t)"
    using assms(1) whole_bytes_dtype(2) by (simp add: sane_tensor_def)
  then show ?thesis using n by (simp add: dt_getAccessedBytes_def dims fold_mult dims_count_def)
qed

end
