(* ===== verification/Dma_Transform.thy ===== *)
theory Dma_Transform
  imports Dma_Descriptors
begin

text \<open>
  The conversions between the descriptions of a transfer: \<open>DMAWorkloadTransformer\<close> and \<open>DMANNWorkloadCreator\<close> of
  \<^verbatim>\<open>include/vpu/dma_workload.h\<close>, \<open>DMADescriptorTransformer\<close> of \<^verbatim>\<open>dma_descriptor_transformers.h\<close>. What a conversion must keep are
  the numbers the cost models read: the bytes read and written, the contiguous bytes of both sides, the device, the direction.
\<close>

section \<open>Locations and directions\<close>

definition memoryLocation :: "VPUDevice \<Rightarrow> MemoryLocation list" where
  "memoryLocation d =
     (case d of
        VPU_2_0 \<Rightarrow> [DRAM, CMX, UPA]
      | VPU_2_1 \<Rightarrow> [DRAM, CMX, UPA, CSRAM]
      | _ \<Rightarrow> [DRAM, CMX])"

definition isMemoryLocationAvailable :: "VPUDevice \<Rightarrow> MemoryLocation \<Rightarrow> bool" where
  "isMemoryLocationAvailable d location \<longleftrightarrow> location \<in> set (memoryLocation d)"

definition create_direction :: "MemoryLocation \<Rightarrow> MemoryLocation \<Rightarrow> MemoryDirection" where
  "create_direction from_loc to_loc =
     (case map_of [((DRAM, DRAM), DDR2DDR), ((DRAM, CMX), DDR2CMX), ((CMX, DRAM), CMX2DDR), ((CMX, CMX), CMX2CMX)]
        (from_loc, to_loc) of
        Some dir \<Rightarrow> dir
      | None \<Rightarrow> MemoryDirection.enum_size)"

definition create_locations :: "MemoryDirection \<Rightarrow> MemoryLocation \<times> MemoryLocation" where
  "create_locations direction =
     (case map_of [(DDR2DDR, DRAM, DRAM), (DDR2CMX, DRAM, CMX), (CMX2DDR, CMX, DRAM), (CMX2CMX, CMX, CMX)] direction of
        Some key \<Rightarrow> key
      | None \<Rightarrow> (MemoryLocation.enum_size, MemoryLocation.enum_size))"

section \<open>Plain transfers\<close>

definition DMAWorkload_to_NPU27 :: "DMAWorkload \<Rightarrow> DMANNWorkload_NPU27 result" where
  "DMAWorkload_to_NPU27 dma =
     (let inp = dma_input dma; out = dma_output dma in
      if tensor_size inp \<noteq> tensor_size out \<or> dtype inp \<noteq> dtype out \<or> layout inp \<noteq> layout out
      then Inl (runtime_error ''Cannot create DMANNWorkload_NPU27: size/datatype/layout changing!'')
      else
        let direction = create_direction (input_location dma) (output_location dma) in
        if direction = MemoryDirection.enum_size
        then Inl (runtime_error ''Cannot create DMANNWorkload_NPU27: unknown memory direction'')
        else
          let dim_in_bytes = to_int (tensor_size inp)
          in Inr \<lparr>n27_device = dma_device dma, num_planes = 0, n27_length = dim_in_bytes, n27_src_width = dim_in_bytes,
                  n27_dst_width = dim_in_bytes, n27_src_stride = 0, n27_dst_stride = 0, src_plane_stride = 0,
                  dst_plane_stride = 0, n27_transfer_direction = direction, n27_loc_name = ''''\<rparr>)"

definition DMAWorkload_to_NPU40_50 :: "DMAWorkload \<Rightarrow> DMANNWorkload_NPU40_50 result" where
  "DMAWorkload_to_NPU40_50 dma =
     (let direction = create_direction (input_location dma) (output_location dma) in
      if direction = MemoryDirection.enum_size
      then Inl (runtime_error ''Cannot create DMANNWorkload_NPU40_50: unknown memory direction'')
      else
        Inr \<lparr>n40_device = dma_device dma, src_width = to_int (tensor_size (dma_input dma)),
             dst_width = to_int (tensor_size (dma_output dma)), num_dim = 0, e_dim = no_extra_dims,
             num_engine = Num_Engine_1, transfer_direction = direction, loc_name = ''''\<rparr>)"

text \<open>The template over the two kinds of workloads reads only the device, the direction and the bytes.\<close>

definition DMANNWorkload_to_DMAWorkload :: "VPUDevice \<Rightarrow> MemoryDirection \<Rightarrow> int \<Rightarrow> DMAWorkload result" where
  "DMANNWorkload_to_DMAWorkload d direction accessed_bytes =
     (let (in_loc, out_loc) = create_locations direction in
      if \<not> isMemoryLocationAvailable d in_loc then
        Inl (runtime_error ''Cannot create a DMAWorkload from a DMANNWorkload : input memory location not available for this device'')
      else if \<not> isMemoryLocationAvailable d out_loc then
        Inl (runtime_error ''Cannot create a DMAWorkload from a DMANNWorkload : output memory location not available for this device'')
      else
        let t = mk_VPUTensor (to_u32 accessed_bytes) 1 1 1 UINT8 ZXY False
        in Inr \<lparr>dma_device = d, dma_input = t, dma_output = t, input_location = in_loc, output_location = out_loc,
                dma_output_write_tiles = 1\<rparr>)"

definition DMAWorkload_of_NPU27 :: "DMANNWorkload_NPU27 \<Rightarrow> DMAWorkload result" where
  "DMAWorkload_of_NPU27 w = DMANNWorkload_to_DMAWorkload (n27_device w) (n27_transfer_direction w) (n27_getAccessedBytes w)"

definition DMAWorkload_of_NPU40_50 :: "DMANNWorkload_NPU40_50 \<Rightarrow> DMAWorkload result" where
  "DMAWorkload_of_NPU40_50 w = DMANNWorkload_to_DMAWorkload (n40_device w) (transfer_direction w) (n40_getAccessedBytes w)"

definition create_NPU27_workload :: "DMATransfer1D \<Rightarrow> DMANNWorkload_NPU27 result" where
  "create_NPU27_workload dma =
     (if memory_direction dma = MemoryDirection.enum_size
      then Inl (runtime_error ''Cannot create a DMANNWorkload_NPU27 from a DMANNWorkload : unknown memory direction'')
      else
        Inr \<lparr>n27_device = t1d_device dma, num_planes = 0, n27_length = transfer_length_bytes dma,
             n27_src_width = transfer_length_bytes dma, n27_dst_width = transfer_length_bytes dma, n27_src_stride = 0,
             n27_dst_stride = 0, src_plane_stride = 0, dst_plane_stride = 0,
             n27_transfer_direction = memory_direction dma, n27_loc_name = ''''\<rparr>)"

definition create_NPU40_50_workload :: "DMATransfer1D \<Rightarrow> DMANNWorkload_NPU40_50 result" where
  "create_NPU40_50_workload dma =
     (if memory_direction dma = MemoryDirection.enum_size
      then Inl (runtime_error ''Cannot create a DMANNWorkload_NPU40_50 from a DMAWorkload : unknown memory direction'')
      else
        Inr \<lparr>n40_device = t1d_device dma, src_width = transfer_length_bytes dma, dst_width = transfer_length_bytes dma,
             num_dim = 0, e_dim = no_extra_dims, num_engine = Num_Engine_1,
             transfer_direction = memory_direction dma, loc_name = ''''\<rparr>)"

definition fromDMATransfer1D_to_DMAWorkload :: "DMATransfer1D \<Rightarrow> DMAWorkload result" where
  "fromDMATransfer1D_to_DMAWorkload dma =
     (let (in_loc, out_loc) = create_locations (memory_direction dma) in
      if in_loc = MemoryLocation.enum_size \<or> out_loc = MemoryLocation.enum_size
      then Inl (runtime_error ''Cannot create a DMAWorkload from a DMATransfer1D: unknown memory direction'')
      else
        let ten = mk_VPUTensor (to_u32 (transfer_length_bytes dma)) 1 1 1 UINT8 ZXY False
        in Inr \<lparr>dma_device = t1d_device dma, dma_input = ten, dma_output = ten, input_location = in_loc,
                output_location = out_loc, dma_output_write_tiles = 1\<rparr>)"

section \<open>Descriptors and plain transfers\<close>

definition to_byte_aligned_dtype :: "DataType \<Rightarrow> DataType" where
  "to_byte_aligned_dtype d =
     (let bits = dtype_to_bits d in
      if 0 < bits \<and> bits smod 8 = 0 then d
      else case d of
          UINT1 \<Rightarrow> UINT8 | UINT2 \<Rightarrow> UINT8 | UINT4 \<Rightarrow> UINT8
        | INT1 \<Rightarrow> INT8 | INT2 \<Rightarrow> INT8 | INT4 \<Rightarrow> INT8
        | FLOAT4 \<Rightarrow> BF8
        | _ \<Rightarrow> UINT8)"

definition make_side :: "VPUTensor \<Rightarrow> VPUDMATensor \<Rightarrow> VPUDMATensor result" where
  "make_side t side =
     (let total_bytes = to_int (tensor_size t);
          effective_dtype = to_byte_aligned_dtype (dtype t);
          elem_bytes = dtype_to_bytes effective_dtype;
          exact_fit = (0 < elem_bytes \<and> total_bytes smod elem_bytes = 0);
          final_dtype = (if exact_fit then effective_dtype else UINT8);
          num_elems = (if exact_fit then total_bytes sdiv elem_bytes else total_bytes);
          stride = (if exact_fit then elem_bytes else 1)
      in bind_result (setDimension_OutermostFirst [(num_elems, stride)] (side\<lparr>dt_dtype := final_dtype\<rparr>)) (\<lambda>side.
           Inr (side\<lparr>dt_layout := Some (layout t)\<rparr>)))"

definition fromDMAWorkload_to_VPUDMADescriptor :: "DMAWorkload \<Rightarrow> VPUDMADescriptor result" where
  "fromDMAWorkload_to_VPUDMADescriptor wl =
     (let desc = new_VPUDMADescriptor\<lparr>desc_device := dma_device wl, src_location := input_location wl,
                   dst_location := output_location wl\<rparr>
      in bind_result (make_side (dma_input wl) (desc_src desc)) (\<lambda>src.
         bind_result (make_side (dma_output wl) (desc_dst desc)) (\<lambda>dst.
           Inr (desc\<lparr>desc_src := src, desc_dst := dst\<rparr>))))"

definition make_tensor :: "VPUDMATensor \<Rightarrow> VPUTensor" where
  "make_tensor t =
     (let num_bytes = to_u32 (dt_getAccessedBytes t);
          effective_dtype = to_byte_aligned_dtype (dt_dtype t);
          elem_bytes = to_u32 (dtype_to_bytes effective_dtype);
          exact_fit = (0 < elem_bytes \<and> num_bytes mod elem_bytes = 0);
          final_dtype = (if exact_fit then effective_dtype else UINT8);
          num_elems = (if exact_fit then num_bytes div elem_bytes else num_bytes)
      in case dt_layout t of
           Some l \<Rightarrow> mk_VPUTensor num_elems 1 1 1 final_dtype l False
         | None \<Rightarrow> mk_VPUTensor num_elems 1 1 1 final_dtype ZXY False)"

definition fromVPUDMADescriptor_to_DMAWorkload :: "VPUDMADescriptor \<Rightarrow> DMAWorkload" where
  "fromVPUDMADescriptor_to_DMAWorkload desc =
     \<lparr>dma_device = desc_device desc, dma_input = make_tensor (desc_src desc), dma_output = make_tensor (desc_dst desc),
      input_location = src_location desc, output_location = dst_location desc, dma_output_write_tiles = 1\<rparr>"

definition fromDMATransfer1D_to_VPUDMADescriptor :: "DMATransfer1D \<Rightarrow> VPUDMADescriptor result" where
  "fromDMATransfer1D_to_VPUDMADescriptor dma =
     bind_result (fromDMATransfer1D_to_DMAWorkload dma) fromDMAWorkload_to_VPUDMADescriptor"

section \<open>Descriptors and strided workloads\<close>

text \<open>
  A side of a descriptor becomes a block of contiguous bytes and the remaining dimensions, the innermost first. The loop that
  absorbs packed dimensions returns the block and the dimensions from the first gap on; the next loop encodes those, and
  folds what exceeds five into the count of the last one.
\<close>

fun absorb_packed :: "(int \<times> int) list \<Rightarrow> int \<Rightarrow> int \<times> (int \<times> int) list" where
  "absorb_packed [] contiguous_bytes = (contiguous_bytes, [])"
| "absorb_packed ((s, stride) # dims) contiguous_bytes =
     (if s = 1 then absorb_packed dims contiguous_bytes
      else if stride = contiguous_bytes then absorb_packed dims (contiguous_bytes * s)
      else (contiguous_bytes, (s, stride) # dims))"

fun encode_dims :: "(int \<times> int) list \<Rightarrow> SizeStride list \<Rightarrow> SizeStride list" where
  "encode_dims [] out_dims = out_dims"
| "encode_dims ((s, stride) # dims) out_dims =
     (if s = 1 then encode_dims dims out_dims
      else if int (length out_dims) < MaxExtraDimensions then
        encode_dims dims (out_dims @ [\<lparr>src_stride = stride, dst_stride = 0, src_dim_size = s - 1, dst_dim_size = 0\<rparr>])
      else
        let lst = last out_dims
        in encode_dims dims (butlast out_dims @ [lst\<lparr>src_dim_size := (src_dim_size lst + 1) * s - 1\<rparr>]))"

definition collapse_side :: "VPUDMATensor \<Rightarrow> int \<times> SizeStride list" where
  "collapse_side t =
     (if num_dims t \<le> 0 then (0, [])
      else if list_ex (\<lambda>d. fst d = 0) (inner_to_outer t) then (0, [])
      else
        let contiguous_bytes = dtype_to_bytes (dt_dtype t) in
        if contiguous_bytes \<le> 0 then (0, [])
        else case absorb_packed (inner_to_outer t) contiguous_bytes of (block, dims) \<Rightarrow> (block, encode_dims dims []))"

definition fromStridedTensors_toDMANNWorkload_NPU40_50 :: "VPUDMADescriptor \<Rightarrow> DMANNWorkload_NPU40_50" where
  "fromStridedTensors_toDMANNWorkload_NPU40_50 desc =
     (let (src_w, src_tmp) = collapse_side (desc_src desc);
          (dst_w, dst_tmp) = collapse_side (desc_dst desc);
          src_extra = length src_tmp;
          dst_extra = length dst_tmp;
          n = min (max src_extra dst_extra) (nat MaxExtraDimensions);
          dims = map (\<lambda>d. \<lparr>src_stride = (if d < src_extra then src_stride (src_tmp ! d) else 0),
                          dst_stride = (if d < dst_extra then src_stride (dst_tmp ! d) else 0),
                          src_dim_size = (if d < src_extra then src_dim_size (src_tmp ! d) else 0),
                          dst_dim_size = (if d < dst_extra then src_dim_size (dst_tmp ! d) else 0)\<rparr>) [0..<n]
      in \<lparr>n40_device = desc_device desc, src_width = src_w, dst_width = dst_w, num_dim = int n,
          e_dim = dims @ drop n no_extra_dims, num_engine = Num_Engine_1, transfer_direction = desc_getDirection desc,
          loc_name = ''''\<rparr>)"

definition fill_side :: "int \<Rightarrow> (int \<times> int) list \<Rightarrow> VPUDMATensor \<Rightarrow> VPUDMATensor" where
  "fill_side block extra side =
     (let dims = rev ((block, 1) # map (\<lambda>(size, stride). (size + 1, stride)) extra)
      in side\<lparr>dt_dtype := UINT8, num_dims := int (length dims), dt_shape := zero_padded (map fst dims),
              byte_strides := zero_padded (map snd dims)\<rparr>)"

definition fromDMANNWorkload_NPU40_50_to_VPUDMADescriptor :: "DMANNWorkload_NPU40_50 \<Rightarrow> VPUDMADescriptor" where
  "fromDMANNWorkload_NPU40_50_to_VPUDMADescriptor wl =
     (let locs = create_locations (transfer_direction wl) in
      new_VPUDMADescriptor
        \<lparr>desc_device := n40_device wl, src_location := fst locs, dst_location := snd locs,
         desc_src := fill_side (src_width wl) (map (\<lambda>d. (src_dim_size d, src_stride d)) (dims_in_use wl)) new_VPUDMATensor,
         desc_dst := fill_side (dst_width wl) (map (\<lambda>d. (dst_dim_size d, dst_stride d)) (dims_in_use wl)) new_VPUDMATensor\<rparr>)"

end
