(* ===== verification/Dma_Theoretical.thy ===== *)
theory Dma_Theoretical
  imports Dma_Transform Dpu_Cost_Model
begin

text \<open>
  The theoretical cost of a transfer between two tensors: \<open>DMATheoreticalCostProvider_LNL_Legacy\<close>,
  \<open>DMATheoreticalCostProvider_PTL\<close> and the choice between them, \<open>BaseDMATheoreticalCostProvider\<close>
  (\<^verbatim>\<open>include/vpu/dma_cost_providers/dma_theoretical_cost_provider.h\<close>, \<^verbatim>\<open>performance_mode.h\<close>). Every operation on floats is
  rounded. Infinities are not values of the model: where the code divides by zero, what follows from it is written out, and
  where it turns the result into an integer, which is undefined, the cost is \<open>undefined_behaviour\<close>.
\<close>

definition forceLegacy_G4 :: bool where
  "forceLegacy_G4 = True"

definition forceLegacy_G5 :: bool where
  "forceLegacy_G5 = False"

definition allowLegacySwizzling_G5 :: bool where
  "allowLegacySwizzling_G5 = False"

section \<open>The legacy model\<close>

definition full_sram_word_sizeLegacy :: "bool \<Rightarrow> bool \<Rightarrow> u32" where
  "full_sram_word_sizeLegacy compression half_duplex =
     (let full_duplex = (if compression then 64 else 32) in if half_duplex then full_duplex div 2 else full_duplex)"

definition get_sram_word_sizeLegacy :: "VPUTensor \<Rightarrow> bool \<Rightarrow> bool \<Rightarrow> bool \<Rightarrow> u32" where
  "get_sram_word_sizeLegacy tensor compression permute half_duplex =
     (if \<not> permute then min (tensor_size tensor) (full_sram_word_sizeLegacy compression half_duplex)
      else
        let number_of_bytes = dtype_to_bytes (dtype tensor)
        in if number_of_bytes \<le> 0 then 1 else to_u32 number_of_bytes)"

text \<open>The value is \<open>None\<close> where the code divides by the word size zero and gets infinity.\<close>

definition get_bandwidth_cycles_per_bytesLegacy ::
  "HWCharacteristicsRawData \<Rightarrow> VPUTensor \<Rightarrow> MemoryLocation \<Rightarrow> bool \<Rightarrow> bool \<Rightarrow> bool \<Rightarrow> real option" where
  "get_bandwidth_cycles_per_bytesLegacy hw tensor location compression permute half_duplex =
     (if location = DRAM then Some (to_float32 (float_u32 (dpu_freq_clk hw) / dram_bandwidth_MBps hw))
      else
        let word_size = get_sram_word_sizeLegacy tensor compression permute half_duplex in
        if word_size = 0 then None
        else Some (to_float32 (to_float32 (float_u32 (dpu_freq_clk hw) / float_u32 (cmx_freq_clk hw)) / float_u32 word_size)))"

text \<open>The cycles of one side. An infinite bandwidth only comes from a tensor without bytes, and zero times infinity is no number.\<close>

definition side_cyclesLegacy :: "VPUTensor \<Rightarrow> real option \<Rightarrow> CyclesInterfaceType result" where
  "side_cyclesLegacy tensor bandwidth =
     (case bandwidth of
        None \<Rightarrow> Inl (undefined_behaviour ''a value that is not a number becomes an integer'')
      | Some b \<Rightarrow> Inr (toCycleInterfaceType_floating (real_u32 START_ERROR_RANGE) (mul64 (real_u32 (tensor_size tensor)) b)))"

definition DMATheoreticalCyclesLegacyLNL :: "DMAWorkload \<Rightarrow> CyclesInterfaceType result" where
  "DMATheoreticalCyclesLegacyLNL wl =
     (let c = get_HWCharacteristics_Legacy (dma_device wl);
          hw = hw_characteristics c;
          inp = dma_input wl;
          out = dma_output wl;
          is_half_duplex_limitation =
            (dma_device wl \<le> VPU_2_7 \<and> input_location wl = CMX \<and> output_location wl = CMX);
          is_input_permuted = (layout inp \<noteq> layout out \<and> input_location wl = CMX);
          is_input_compressed = (tensor_size inp \<noteq> tensor_size out \<and> input_location wl = CMX);
          is_output_permuted = (layout inp \<noteq> layout out \<and> output_location wl = CMX);
          is_output_compressed = (tensor_size inp \<noteq> tensor_size out \<and> output_location wl = CMX)
      in bind_result (side_cyclesLegacy inp (get_bandwidth_cycles_per_bytesLegacy hw inp (input_location wl)
                        is_input_compressed is_input_permuted is_half_duplex_limitation)) (\<lambda>input_cycles.
         bind_result (side_cyclesLegacy out (get_bandwidth_cycles_per_bytesLegacy hw out (output_location wl)
                        is_output_compressed is_output_permuted is_half_duplex_limitation)) (\<lambda>output_cycles.
           Inr (cost_adder (max (get_DMA_latency c (input_location wl)) (get_DMA_latency c (output_location wl)))
                  (max input_cycles output_cycles)))))"

section \<open>The model of newer devices\<close>

definition compute_DRAM_bandwith_BytesPerCyc :: "HWCharacteristicsRawData \<Rightarrow> int" where
  "compute_DRAM_bandwith_BytesPerCyc hw =
     (let ddr_BytesPerCyc = \<lfloor>to_float32 (dram_bandwidth_MBps hw / float_u32 (cmx_freq_clk hw))\<rfloor>;
          cmx_bounded_maxBytesPerCyc = DMA_engine_B hw
      in min ddr_BytesPerCyc cmx_bounded_maxBytesPerCyc)"

definition get_bytes_per_cycle_read_bw :: "HWCharacteristicsRawData \<Rightarrow> MemoryLocation \<Rightarrow> int" where
  "get_bytes_per_cycle_read_bw hw location =
     (if location = DRAM then compute_DRAM_bandwith_BytesPerCyc hw else DMA_engine_B hw)"

text \<open>
  The ratio of a decompression; it is infinite (\<open>None\<close>) when the source is empty. The bandwidth is then the largest one, as long as the
  bandwidth of the source is positive.
\<close>

definition cmx_agregated_bytes_per_cycle_bw ::
  "HWCharacteristicsRawData \<Rightarrow> VPUTensor \<Rightarrow> bool \<Rightarrow> bool \<Rightarrow> real option \<Rightarrow> int \<Rightarrow> int result" where
  "cmx_agregated_bytes_per_cycle_bw hw tensor permute compression decompression_ratio compressed_BW_BytesPerCycle =
     (if permute then Inr (dtype_to_bytes (dtype tensor))
      else
        let nominal_bw = DMA_engine_B hw in
        if compression then
          let max_bw = to_float32 (to_float32 (of_int nominal_bw) * 2) in
          (case decompression_ratio of
             Some ratio \<Rightarrow>
               let potential_speed_up_bw = to_float32 (to_float32 (of_int compressed_BW_BytesPerCycle) * ratio)
               in Inr (truncate_real (min max_bw potential_speed_up_bw))
           | None \<Rightarrow>
               if 0 < compressed_BW_BytesPerCycle then Inr (truncate_real max_bw)
               else Inl (undefined_behaviour ''a value that is not finite becomes an integer''))
        else Inr nominal_bw)"

definition get_bytes_per_cycle_write_bw ::
  "HWCharacteristicsRawData \<Rightarrow> VPUTensor \<Rightarrow> MemoryLocation \<Rightarrow> bool \<Rightarrow> bool \<Rightarrow> real option \<Rightarrow> int \<Rightarrow> int result" where
  "get_bytes_per_cycle_write_bw hw tensor location permute compression decompression_ratio compressed_BW_BytesPerCycle =
     (if location = DRAM then Inr (compute_DRAM_bandwith_BytesPerCyc hw)
      else cmx_agregated_bytes_per_cycle_bw hw tensor permute compression decompression_ratio compressed_BW_BytesPerCycle)"

text \<open>No device has the bandwidth zero, so that the division is one of real numbers.\<close>

definition side_cyclesPTL :: "VPUTensor \<Rightarrow> int \<Rightarrow> real \<Rightarrow> real \<Rightarrow> CyclesInterfaceType" where
  "side_cyclesPTL tensor bw_bpc bw_efficiency dpuPerCmx_clock_ratio =
     (let CMX_cycles = to_float32 (float_u32 (tensor_size tensor) / to_float32 (to_float32 (of_int bw_bpc) * bw_efficiency))
      in toCycleInterfaceType_floating (float_u32 START_ERROR_RANGE) (to_float32 (CMX_cycles * dpuPerCmx_clock_ratio)))"

definition DMATheoreticalCyclesPTL_ON :: "DMAWorkload \<Rightarrow> CyclesInterfaceType result" where
  "DMATheoreticalCyclesPTL_ON wl =
     (let c = get_HWCharacteristics (dma_device wl);
          hw = hw_characteristics c;
          inp = dma_input wl;
          out = dma_output wl;
          dpuPerCmx_clock_ratio = to_float32 (float_u32 (dpu_freq_clk hw) / float_u32 (cmx_freq_clk hw));
          is_cmx2cmx_permutation = (layout inp \<noteq> layout out \<and> input_location wl = CMX \<and> output_location wl = CMX);
          is_DDR2CMX_decompresion =
            (tensor_size inp < tensor_size out \<and> input_location wl = DRAM \<and> output_location wl = CMX);
          decompression_ratio =
            (if \<not> is_DDR2CMX_decompresion then Some 1
             else if tensor_size inp = 0 then None
             else Some (to_float32 (float_u32 (tensor_size out) / float_u32 (tensor_size inp))));
          (input_bw_efficiency, output_bw_efficiency) =
            getDMATRansferEfficiency c (input_location wl) (output_location wl);
          input_bw_bpc = get_bytes_per_cycle_read_bw hw (input_location wl);
          input_cycles_DPU = side_cyclesPTL inp input_bw_bpc input_bw_efficiency dpuPerCmx_clock_ratio
      in bind_result (get_bytes_per_cycle_write_bw hw out (output_location wl) is_cmx2cmx_permutation
                        is_DDR2CMX_decompresion decompression_ratio input_bw_bpc) (\<lambda>output_bw_bpc.
           let output_cycles_DPU = side_cyclesPTL out output_bw_bpc output_bw_efficiency dpuPerCmx_clock_ratio
           in Inr (cost_adder (max (get_DMA_latency c (input_location wl)) (get_DMA_latency c (output_location wl)))
                     (max input_cycles_DPU output_cycles_DPU))))"

section \<open>The choice\<close>

definition dma_theoretical_cost :: "DMAWorkload \<Rightarrow> CyclesInterfaceType result" where
  "dma_theoretical_cost wl =
     (if dma_device wl < VPU_4_0 then DMATheoreticalCyclesLegacyLNL wl
      else if dma_device wl = VPU_4_0 \<and> forceLegacy_G4 then DMATheoreticalCyclesLegacyLNL wl
      else if VPU_4_0 < dma_device wl \<and> forceLegacy_G5 then DMATheoreticalCyclesLegacyLNL wl
      else DMATheoreticalCyclesPTL_ON wl)"

end
