(* ===== verification/Dma_Strided.thy ===== *)
theory Dma_Strided
  imports Dma_Theoretical
begin

text \<open>
  The cost of a transfer with gaps: \<open>DMAStridedMathModel\<close> of \<^verbatim>\<open>include/vpu/dma_cost_providers/dma_strided_math_cost_provider.h\<close>
  and its fallback (\<^verbatim>\<open>dma_stride_lut_fallback.h\<close>). A side costs a linear function of its bytes, times a penalty for short
  contiguous chunks; the transfer costs the larger of both sides. The model is a template over the kind of workload, of which it
  reads six numbers: they are the record \<open>StridedTransfer\<close>, taken from a descriptor or from a workload of the network.
  \<open>double\<close> is rounded by \<open>to_float64\<close>, \<open>unsigned long long\<close> is \<open>u64\<close>.
\<close>

record StridedTransfer =
  st_device :: VPUDevice
  st_direction :: MemoryDirection
  contiguousBytesSrc :: int
  readBytes :: int
  contiguousBytesDst :: int
  writtenBytes :: int

definition of_descriptor :: "VPUDMADescriptor \<Rightarrow> StridedTransfer" where
  "of_descriptor d =
     \<lparr>st_device = desc_device d, st_direction = desc_getDirection d, contiguousBytesSrc = desc_getContiguousBytesSrc d,
      readBytes = desc_getReadBytes d, contiguousBytesDst = desc_getContiguousBytesDst d, writtenBytes = desc_getWrittenBytes d\<rparr>"

definition of_NPU40_50 :: "DMANNWorkload_NPU40_50 \<Rightarrow> StridedTransfer" where
  "of_NPU40_50 w =
     \<lparr>st_device = n40_device w, st_direction = n40_getDirection w, contiguousBytesSrc = n40_getContiguousBytesSrc w,
      readBytes = n40_getReadBytes w, contiguousBytesDst = n40_getContiguousBytesDst w, writtenBytes = n40_getWrittenBytes w\<rparr>"

section \<open>The table\<close>

record DirectionModelingEntry =
  slope_k :: real
  intercept_b :: real
  thresholds :: "int \<times> int"

definition mk_entry :: "real \<Rightarrow> real \<Rightarrow> int \<times> int \<Rightarrow> DirectionModelingEntry" where
  "mk_entry k b t = \<lparr>slope_k = to_float64 k, intercept_b = to_float64 b, thresholds = t\<rparr>"

definition modeling_rows :: "(MemoryDirection \<times> DirectionModelingEntry) list" where
  "modeling_rows =
     [(DDR2CMX, mk_entry (185798372 / 10 ^ 10) (3247775 / 10000) (256, 64)),
      (CMX2DDR, mk_entry (185884582 / 10 ^ 10) (2768316 / 10000) (64, 256)),
      (CMX2CMX, mk_entry (156250087 / 10 ^ 10) (199909 / 10000) (64, 64)),
      (DDR2DDR, mk_entry (185798372 / 10 ^ 10) (3247775 / 10000) (256, 256))]"

definition get_modeling_function_map :: "((VPUDevice \<times> MemoryDirection) \<times> DirectionModelingEntry) list" where
  "get_modeling_function_map =
     map (\<lambda>(dir, e). ((NPU_5_0, dir), e)) modeling_rows @ map (\<lambda>(dir, e). ((NPU_5_0_W, dir), e)) modeling_rows"

definition find_entry :: "VPUDevice \<Rightarrow> MemoryDirection \<Rightarrow> DirectionModelingEntry option" where
  "find_entry d direction = map_of get_modeling_function_map (d, direction)"

definition fallback_threshold_bytes :: "MemoryDirection \<Rightarrow> bool \<Rightarrow> int" where
  "fallback_threshold_bytes direction is_source =
     (let is_ddr_side =
            (if is_source then direction = DDR2CMX \<or> direction = DDR2DDR else direction = CMX2DDR \<or> direction = DDR2DDR)
      in if is_ddr_side then 256 else 64)"

definition get_stride_threshold_bytes :: "VPUDevice \<Rightarrow> MemoryDirection \<Rightarrow> bool \<Rightarrow> int" where
  "get_stride_threshold_bytes d direction is_source =
     (case find_entry d direction of
        None \<Rightarrow> fallback_threshold_bytes direction is_source
      | Some entry \<Rightarrow> if is_source then fst (thresholds entry) else snd (thresholds entry))"

definition stride_penalty_enabled_map :: "(VPUDevice \<times> bool) list" where
  "stride_penalty_enabled_map = [(NPU_5_0, True), (NPU_5_0_W, True)]"

definition is_stride_penalty_enabled :: "VPUDevice \<Rightarrow> bool" where
  "is_stride_penalty_enabled d = (case map_of stride_penalty_enabled_map d of Some b \<Rightarrow> b | None \<Rightarrow> False)"

section \<open>The cost of a side\<close>

definition get_penalty_factor_for_stride_dma :: "int \<Rightarrow> int \<Rightarrow> real" where
  "get_penalty_factor_for_stride_dma continuous_n_bytes threshold_bytes =
     (if continuous_n_bytes \<le> 0 then 1
      else
        let chunk = to_float32 (of_int continuous_n_bytes);
            threshold = to_float32 (of_int threshold_bytes);
            dma_block = of_int \<lceil>to_float32 (chunk / threshold)\<rceil>
        in to_float32 (to_float32 (threshold * dma_block) / chunk))"

definition real_u64 :: "u64 \<Rightarrow> real" where
  "real_u64 u = to_float64 (of_int (uint u))"

definition cycles_by_bandwidth :: "u64 \<Rightarrow> VPUDevice \<Rightarrow> u64" where
  "cycles_by_bandwidth dma_size d =
     (let bw_bpc = DMA_engine_B (hw_characteristics (get_HWCharacteristics d));
          safe_bw_bpc = (if 0 < bw_bpc then bw_bpc else 1);
          CMX_cycles = to_float32 (to_float32 (of_int (uint dma_size)) / to_float32 (of_int safe_bw_bpc))
      in max 1 (word_of_int (truncate_real CMX_cycles)))"

definition query_dma_cost_by_size :: "u64 \<Rightarrow> VPUDevice \<Rightarrow> MemoryDirection \<Rightarrow> u64" where
  "query_dma_cost_by_size dma_size d direction =
     (case find_entry d direction of
        None \<Rightarrow> cycles_by_bandwidth dma_size d
      | Some entry \<Rightarrow>
          word_of_int (truncate_real (to_float64 (mul64 (real_u64 dma_size) (slope_k entry) + intercept_b entry))))"

definition computeCyclesWithStridePenalty :: "int \<Rightarrow> int \<Rightarrow> VPUDevice \<Rightarrow> MemoryDirection \<Rightarrow> bool \<Rightarrow> u64" where
  "computeCyclesWithStridePenalty contiguous_bytes total_bytes d direction is_source =
     (let threshold_bytes = get_stride_threshold_bytes d direction is_source;
          penalty_factor =
            (if is_stride_penalty_enabled d \<and> contiguous_bytes < total_bytes
             then get_penalty_factor_for_stride_dma contiguous_bytes threshold_bytes else 1);
          base_cycles = query_dma_cost_by_size (word_of_int total_bytes) d direction
      in word_of_int (truncate_real (mul64 (real_u64 base_cycles) penalty_factor)))"

definition computeSrcCycles :: "StridedTransfer \<Rightarrow> u64" where
  "computeSrcCycles wl =
     computeCyclesWithStridePenalty (contiguousBytesSrc wl) (readBytes wl) (st_device wl) (st_direction wl) True"

definition computeDstCycles :: "StridedTransfer \<Rightarrow> u64" where
  "computeDstCycles wl =
     computeCyclesWithStridePenalty (contiguousBytesDst wl) (writtenBytes wl) (st_device wl) (st_direction wl) False"

section \<open>The cost of a transfer\<close>

definition DMAStridedCycles :: "StridedTransfer \<Rightarrow> CyclesInterfaceType" where
  "DMAStridedCycles wl =
     (let max_cycles_DMA = max (computeSrcCycles wl) (computeDstCycles wl);
          hw = hw_characteristics (get_HWCharacteristics (st_device wl));
          dpuPerCmx_clock_ratio = to_float32 (float_u32 (dpu_freq_clk hw) / float_u32 (cmx_freq_clk hw))
      in toCycleInterfaceType_floating (float_u32 START_ERROR_RANGE)
           (to_float32 (to_float32 (of_int (uint max_cycles_DMA)) * dpuPerCmx_clock_ratio)))"

definition strided_cost_descriptor :: "VPUDMADescriptor \<Rightarrow> CyclesInterfaceType" where
  "strided_cost_descriptor wl = DMAStridedCycles (of_descriptor wl)"

definition strided_cost_NPU40_50 :: "DMANNWorkload_NPU40_50 \<Rightarrow> CyclesInterfaceType" where
  "strided_cost_NPU40_50 wl = DMAStridedCycles (of_NPU40_50 wl)"

text \<open>\<open>DMATheoreticalCostModel\<close> of \<^verbatim>\<open>src/vpu_dma_cost_model.cpp\<close>: a descriptor is checked first.\<close>

definition theoretical_DMA_workload :: "DMAWorkload \<Rightarrow> CyclesInterfaceType result" where
  "theoretical_DMA_workload wl = dma_theoretical_cost wl"

definition theoretical_DMA_descriptor :: "VPUDMADescriptor \<Rightarrow> CyclesInterfaceType" where
  "theoretical_DMA_descriptor desc =
     (case checkDescriptorSanity desc of
        Inl e \<Rightarrow> ERROR_INVALID_INPUT_CONFIGURATION
      | Inr _ \<Rightarrow> strided_cost_descriptor desc)"

end
