(* ===== verification/Dma_Laws.thy ===== *)
theory Dma_Laws
  imports Dma_Strided
begin

text \<open>
  The conversions of transfers keep what the cost models read. A descriptor collapsed to a workload of the network has the same bytes and
  the same strided cost; a workload turned into a descriptor has the very same numbers; a plain transfer that goes through a
  descriptor has the same theoretical cost.
\<close>

section \<open>Collapsing a side\<close>

definition array_tensor :: "VPUDMATensor \<Rightarrow> bool" where
  "array_tensor t \<longleftrightarrow> length (dt_shape t) = 6 \<and> length (byte_strides t) = 6"

definition sizes_count :: "SizeStride list \<Rightarrow> int" where
  "sizes_count ds = (\<Prod>d\<leftarrow>ds. src_dim_size d + 1)"

lemma sizes_count_simps [simp]:
  "sizes_count [] = 1" "sizes_count (d # ds) = (src_dim_size d + 1) * sizes_count ds"
  "sizes_count (ds @ es) = sizes_count ds * sizes_count es"
  by (simp_all add: sizes_count_def)

lemma absorb_packed_count: "absorb_packed dims c = (w, rest) \<Longrightarrow> w * dims_count rest = c * dims_count dims"
  by (induction dims c arbitrary: w rest rule: absorb_packed.induct) (auto split: if_splits simp: mult_ac)

lemma absorb_packed_contiguous:
  "\<not> list_ex (\<lambda>d. fst d = 0) dims \<Longrightarrow> contiguous_dims dims c = fst (absorb_packed dims c)"
  by (induction dims c rule: absorb_packed.induct) auto

lemma absorb_packed_gap:
  "absorb_packed dims c = (w, rest) \<Longrightarrow> rest = [] \<or> (\<exists>s stride rest'. rest = (s, stride) # rest' \<and> s \<noteq> 1 \<and> stride \<noteq> w)"
  by (induction dims c arbitrary: w rest rule: absorb_packed.induct) (auto split: if_splits)

lemma encode_dims_count: "sizes_count (encode_dims dims out) = sizes_count out * dims_count dims"
proof (induction dims out rule: encode_dims.induct)
  case (2 s stride dims out)
  show ?case
  proof (cases "s \<noteq> 1 \<and> \<not> int (length out) < MaxExtraDimensions")
    case True
    then have "out \<noteq> []" by (auto simp: MaxExtraDimensions_def)
    then have "sizes_count out = sizes_count (butlast out) * (src_dim_size (last out) + 1)"
      by (metis append_butlast_last_id mult.right_neutral sizes_count_simps)
    then show ?thesis using True 2(3) by (simp add: Let_def)
  qed (use 2(1,2) in \<open>auto simp: mult_ac\<close>)
qed simp

lemma encode_dims_length: "length out \<le> 5 \<Longrightarrow> length (encode_dims dims out) \<le> 5"
  by (induction dims out rule: encode_dims.induct) (auto simp: MaxExtraDimensions_def Let_def)

lemma encode_dims_hd: "out \<noteq> [] \<Longrightarrow> encode_dims dims out \<noteq> [] \<and> hd (encode_dims dims out) = hd out"
proof (induction dims out rule: encode_dims.induct)
  case (2 s stride dims out)
  show ?case
  proof (cases "s \<noteq> 1 \<and> \<not> int (length out) < MaxExtraDimensions")
    case True
    then have "butlast out \<noteq> []" by (cases out) (auto simp: MaxExtraDimensions_def)
    moreover have "hd (butlast out) = hd out" using \<open>butlast out \<noteq> []\<close> by (metis append_butlast_last_id 2(4) hd_append2)
    ultimately show ?thesis using True 2(3) by (simp add: Let_def)
  qed (use 2 in auto)
qed simp

text \<open>What one side becomes: the block, and dimensions of which the first is a gap.\<close>

lemma collapse_side_spec:
  assumes "sane_tensor t" "array_tensor t" "collapse_side t = (w, ds)"
  shows "w * sizes_count ds = dt_getAccessedBytes t" "length ds \<le> 5"
    "ds = [] \<or> src_dim_size (hd ds) \<noteq> 0 \<and> src_stride (hd ds) \<noteq> w"
    "\<not> list_ex (\<lambda>d. fst d = 0) (inner_to_outer t) \<longrightarrow> dt_getContiguousBytes t = w"
    "list_ex (\<lambda>d. fst d = 0) (inner_to_outer t) \<longrightarrow> w = 0 \<and> dt_getAccessedBytes t = 0"
proof -
  have elem: "0 < dtype_to_bytes (dt_dtype t)" using assms(1) whole_bytes_dtype(1) by (simp add: sane_tensor_def)
  have nonempty: "inner_to_outer t \<noteq> []" if "0 < num_dims t"
    using that assms(1,2) by (auto simp: inner_to_outer_def array_tensor_def take_eq_Nil)
  have empty: "dt_getAccessedBytes t = 0" if "list_ex (\<lambda>d. fst d = 0) (inner_to_outer t)"
  proof -
    have "dims_count dims = 0" if "list_ex (\<lambda>d. fst d = 0) dims" for dims using that by (induction dims) auto
    then show ?thesis using accessed_bytes [OF assms(1)] that by fastforce
  qed
  show "list_ex (\<lambda>d. fst d = 0) (inner_to_outer t) \<longrightarrow> w = 0 \<and> dt_getAccessedBytes t = 0"
    using empty assms(3) by (auto simp: collapse_side_def split: if_splits)
  have all: "w * sizes_count ds = dt_getAccessedBytes t \<and> length ds \<le> 5 \<and>
      (ds = [] \<or> src_dim_size (hd ds) \<noteq> 0 \<and> src_stride (hd ds) \<noteq> w) \<and>
      (\<not> list_ex (\<lambda>d. fst d = 0) (inner_to_outer t) \<longrightarrow> dt_getContiguousBytes t = w)"
  proof (cases "num_dims t \<le> 0 \<or> list_ex (\<lambda>d. fst d = 0) (inner_to_outer t)")
    case True
    have "collapse_side t = (0, [])" using True by (auto simp: collapse_side_def)
    then have "w = 0" "ds = []" using assms(3) by simp_all
    moreover have "dt_getAccessedBytes t = 0" using True empty by (auto simp: dt_getAccessedBytes_def)
    moreover have "num_dims t \<le> 0 \<longrightarrow> dt_getContiguousBytes t = 0" by (simp add: dt_getContiguousBytes_def)
    ultimately show ?thesis
      using True by auto
  next
    case False
    obtain rest where rest: "absorb_packed (inner_to_outer t) (dtype_to_bytes (dt_dtype t)) = (w, rest)" "ds = encode_dims rest []"
      using assms(3) False elem by (auto simp: collapse_side_def Let_def split: prod.splits)
    have "w * sizes_count ds = dt_getAccessedBytes t"
      using absorb_packed_count [OF rest(1)] accessed_bytes [OF assms(1) nonempty] False by (simp add: rest(2) encode_dims_count)
    moreover have "length ds \<le> 5" unfolding rest(2) by (rule encode_dims_length) simp
    moreover have "ds = [] \<or> src_dim_size (hd ds) \<noteq> 0 \<and> src_stride (hd ds) \<noteq> w"
      using absorb_packed_gap [OF rest(1)] encode_dims_hd unfolding rest(2) by (auto simp: MaxExtraDimensions_def)
    moreover have "dt_getContiguousBytes t = w"
      using False elem absorb_packed_contiguous [of "inner_to_outer t" "dtype_to_bytes (dt_dtype t)"] rest(1)
      by (simp add: dt_getContiguousBytes_def)
    ultimately show ?thesis by blast
  qed
  then show "w * sizes_count ds = dt_getAccessedBytes t" "length ds \<le> 5"
    "ds = [] \<or> src_dim_size (hd ds) \<noteq> 0 \<and> src_stride (hd ds) \<noteq> w"
    "\<not> list_ex (\<lambda>d. fst d = 0) (inner_to_outer t) \<longrightarrow> dt_getContiguousBytes t = w"
    by blast+
qed

section \<open>Merging both sides\<close>

definition side_slot :: "SizeStride list \<Rightarrow> nat \<Rightarrow> int \<times> int" where
  "side_slot ds d = (if d < length ds then (src_dim_size (ds ! d), src_stride (ds ! d)) else (0, 0))"

lemma side_slots_count:
  assumes "length ds \<le> n"
  shows "(\<Prod>d\<leftarrow>[0..<n]. fst (side_slot ds d) + 1) = sizes_count ds"
proof -
  have "[0..<n] = [0..<length ds] @ [length ds..<n]" using assms by (metis le_add_diff_inverse le0 upt_add_eq_append)
  moreover have "(\<Prod>d\<leftarrow>[length ds..<n]. fst (side_slot ds d) + 1) = 1"
  proof -
    have "map (\<lambda>d. fst (side_slot ds d) + 1) [length ds..<n] = replicate (n - length ds) 1"
      by (rule nth_equalityI) (auto simp: side_slot_def)
    then show ?thesis by simp
  qed
  moreover have "map (\<lambda>d. fst (side_slot ds d) + 1) [0..<length ds] = map (\<lambda>e. src_dim_size e + 1) ds"
    by (rule nth_equalityI) (auto simp: side_slot_def)
  ultimately show ?thesis by (simp add: sizes_count_def)
qed

fun contiguous_slots :: "(int \<times> int) list \<Rightarrow> int \<Rightarrow> int" where
  "contiguous_slots [] w = w"
| "contiguous_slots ((sz, stride) # slots) w =
     (if sz = 0 then contiguous_slots slots w else if stride \<noteq> w then w else contiguous_slots slots (w * (sz + 1)))"

lemma contiguous_as_slots:
  "contiguous_src ds w = contiguous_slots (map (\<lambda>d. (src_dim_size d, src_stride d)) ds) w"
  "contiguous_dst ds w = contiguous_slots (map (\<lambda>d. (dst_dim_size d, dst_stride d)) ds) w"
  by (induction ds arbitrary: w) auto

lemma contiguous_slots_unused: "\<forall>s \<in> set slots. fst s = 0 \<Longrightarrow> contiguous_slots slots w = w"
  by (induction slots w rule: contiguous_slots.induct) auto

lemma side_slots_contiguous:
  assumes "ds = [] \<or> src_dim_size (hd ds) \<noteq> 0 \<and> src_stride (hd ds) \<noteq> w" "length ds \<le> n"
  shows "contiguous_slots (map (side_slot ds) [0..<n]) w = w"
proof (cases ds)
  case Nil
  then show ?thesis by (intro contiguous_slots_unused) (auto simp: side_slot_def)
next
  case (Cons e es)
  then have "map (side_slot ds) [0..<n] = side_slot ds 0 # map (side_slot ds) [1..<n]"
    using assms(2) by (simp add: upt_conv_Cons)
  then show ?thesis using assms(1) Cons by (simp add: side_slot_def)
qed

lemma collapsed_dims:
  assumes "collapse_side (desc_src d) = (sw, ss)" "collapse_side (desc_dst d) = (dw, ds)" "length ss \<le> 5" "length ds \<le> 5"
  defines "n \<equiv> max (length ss) (length ds)"
  shows "map (\<lambda>e. (src_dim_size e, src_stride e)) (dims_in_use (fromStridedTensors_toDMANNWorkload_NPU40_50 d)) = map (side_slot ss) [0..<n]"
    "map (\<lambda>e. (dst_dim_size e, dst_stride e)) (dims_in_use (fromStridedTensors_toDMANNWorkload_NPU40_50 d)) = map (side_slot ds) [0..<n]"
    "src_width (fromStridedTensors_toDMANNWorkload_NPU40_50 d) = sw" "dst_width (fromStridedTensors_toDMANNWorkload_NPU40_50 d) = dw"
    "n40_device (fromStridedTensors_toDMANNWorkload_NPU40_50 d) = desc_device d"
    "transfer_direction (fromStridedTensors_toDMANNWorkload_NPU40_50 d) = desc_getDirection d"
proof -
  have "min (max (length ss) (length ds)) (nat MaxExtraDimensions) = n"
    using assms(3,4) by (simp add: n_def MaxExtraDimensions_def)
  then show "map (\<lambda>e. (src_dim_size e, src_stride e)) (dims_in_use (fromStridedTensors_toDMANNWorkload_NPU40_50 d)) = map (side_slot ss) [0..<n]"
    "map (\<lambda>e. (dst_dim_size e, dst_stride e)) (dims_in_use (fromStridedTensors_toDMANNWorkload_NPU40_50 d)) = map (side_slot ds) [0..<n]"
    "src_width (fromStridedTensors_toDMANNWorkload_NPU40_50 d) = sw" "dst_width (fromStridedTensors_toDMANNWorkload_NPU40_50 d) = dw"
    "n40_device (fromStridedTensors_toDMANNWorkload_NPU40_50 d) = desc_device d"
    "transfer_direction (fromStridedTensors_toDMANNWorkload_NPU40_50 d) = desc_getDirection d"
    using assms(1,2)
    by (auto simp: fromStridedTensors_toDMANNWorkload_NPU40_50_def dims_in_use_def Let_def side_slot_def)
qed

lemma counts_as_slots:
  "n40_getReadBytes w = src_width w * (\<Prod>s\<leftarrow>map (\<lambda>e. (src_dim_size e, src_stride e)) (dims_in_use w). fst s + 1)"
  "n40_getWrittenBytes w = dst_width w * (\<Prod>s\<leftarrow>map (\<lambda>e. (dst_dim_size e, dst_stride e)) (dims_in_use w). fst s + 1)"
  unfolding n40_getReadBytes_def n40_getAccessedBytes_def n40_getWrittenBytes_def fold_mult by (simp_all add: comp_def)

lemma collapse_keeps_bytes:
  assumes "checkDescriptorSanity d = Inr ()" "array_tensor (desc_src d)" "array_tensor (desc_dst d)"
  defines "w \<equiv> fromStridedTensors_toDMANNWorkload_NPU40_50 d"
  shows "n40_getReadBytes w = desc_getReadBytes d" "n40_getWrittenBytes w = desc_getWrittenBytes d"
    "\<exists>sw ss. collapse_side (desc_src d) = (sw, ss) \<and> n40_getContiguousBytesSrc w = sw"
    "\<exists>dw ds. collapse_side (desc_dst d) = (dw, ds) \<and> n40_getContiguousBytesDst w = dw"
proof -
  have sane: "sane_tensor (desc_src d)" "sane_tensor (desc_dst d)"
    using assms(1) by (simp_all add: checkDescriptorSanity_exact)
  obtain sw ss dw ds where s: "collapse_side (desc_src d) = (sw, ss)" and t: "collapse_side (desc_dst d) = (dw, ds)"
    by (cases "collapse_side (desc_src d)"; cases "collapse_side (desc_dst d)")
  note s_spec = collapse_side_spec [OF sane(1) assms(2) s] and t_spec = collapse_side_spec [OF sane(2) assms(3) t]
  note dims = collapsed_dims [OF s t s_spec(2) t_spec(2), folded w_def]
  have n: "length ss \<le> max (length ss) (length ds)" "length ds \<le> max (length ss) (length ds)" by simp_all
  show "n40_getReadBytes w = desc_getReadBytes d" "n40_getWrittenBytes w = desc_getWrittenBytes d"
    unfolding counts_as_slots dims desc_getReadBytes_def desc_getWrittenBytes_def
    using side_slots_count [OF n(1)] side_slots_count [OF n(2)] s_spec(1) t_spec(1) by (simp_all add: comp_def)
  show "\<exists>sw ss. collapse_side (desc_src d) = (sw, ss) \<and> n40_getContiguousBytesSrc w = sw"
    "\<exists>dw ds. collapse_side (desc_dst d) = (dw, ds) \<and> n40_getContiguousBytesDst w = dw"
    using s t side_slots_contiguous [OF s_spec(3) n(1)] side_slots_contiguous [OF t_spec(3) n(2)]
    by (simp_all add: n40_getContiguousBytesSrc_def n40_getContiguousBytesDst_def contiguous_as_slots dims)
qed

section \<open>The cost of a collapsed descriptor\<close>

lemma contiguous_dims_nonneg: "\<forall>d \<in> set dims. 0 \<le> fst d \<Longrightarrow> 0 \<le> c \<Longrightarrow> 0 \<le> contiguous_dims dims c"
  by (induction dims c rule: contiguous_dims.induct) auto

lemma contiguous_bytes_nonneg:
  assumes "sane_tensor t"
  shows "0 \<le> dt_getContiguousBytes t"
  using inner_to_outer_nonneg [OF assms] by (auto simp: dt_getContiguousBytes_def Let_def intro!: contiguous_dims_nonneg)

text \<open>An empty side costs the same with any chunk: there is nothing the penalty could apply to.\<close>

lemma penalty_of_collapsed:
  assumes "sane_tensor t" "array_tensor t" "collapse_side t = (w, ds)"
  shows "computeCyclesWithStridePenalty w (dt_getAccessedBytes t) dev dir source =
    computeCyclesWithStridePenalty (dt_getContiguousBytes t) (dt_getAccessedBytes t) dev dir source"
proof (cases "list_ex (\<lambda>d. fst d = 0) (inner_to_outer t)")
  case True
  then have "w = 0" "dt_getAccessedBytes t = 0" using collapse_side_spec(5) [OF assms] by simp_all
  then show ?thesis using contiguous_bytes_nonneg [OF assms(1)] by (simp add: computeCyclesWithStridePenalty_def)
qed (use collapse_side_spec(4) [OF assms] in simp)

lemma collapsed_cost:
  assumes "checkDescriptorSanity d = Inr ()" "array_tensor (desc_src d)" "array_tensor (desc_dst d)"
  shows "n40_getReadBytes (fromStridedTensors_toDMANNWorkload_NPU40_50 d) = desc_getReadBytes d \<and>
    n40_getWrittenBytes (fromStridedTensors_toDMANNWorkload_NPU40_50 d) = desc_getWrittenBytes d \<and>
    strided_cost_NPU40_50 (fromStridedTensors_toDMANNWorkload_NPU40_50 d) = strided_cost_descriptor d"
proof -
  let ?w = "fromStridedTensors_toDMANNWorkload_NPU40_50 d"
  note keeps = collapse_keeps_bytes [OF assms]
  have sane: "sane_tensor (desc_src d)" "sane_tensor (desc_dst d)"
    using assms(1) by (simp_all add: checkDescriptorSanity_exact)
  have dev: "n40_device ?w = desc_device d" "n40_getDirection ?w = desc_getDirection d"
    by (simp_all add: fromStridedTensors_toDMANNWorkload_NPU40_50_def Let_def n40_getDirection_def split: prod.splits)
  obtain sw ss where s: "collapse_side (desc_src d) = (sw, ss)" "n40_getContiguousBytesSrc ?w = sw" using keeps(3) by blast
  obtain dw ds where t: "collapse_side (desc_dst d) = (dw, ds)" "n40_getContiguousBytesDst ?w = dw" using keeps(4) by blast
  have "computeSrcCycles (of_NPU40_50 ?w) = computeSrcCycles (of_descriptor d)"
    using penalty_of_collapsed [OF sane(1) assms(2) s(1)] s(2) keeps(1) dev
    by (simp add: computeSrcCycles_def of_NPU40_50_def of_descriptor_def desc_getReadBytes_def desc_getContiguousBytesSrc_def)
  moreover have "computeDstCycles (of_NPU40_50 ?w) = computeDstCycles (of_descriptor d)"
    using penalty_of_collapsed [OF sane(2) assms(3) t(1)] t(2) keeps(2) dev
    by (simp add: computeDstCycles_def of_NPU40_50_def of_descriptor_def desc_getWrittenBytes_def desc_getContiguousBytesDst_def)
  ultimately show ?thesis
    using keeps(1,2) dev by (simp add: strided_cost_NPU40_50_def strided_cost_descriptor_def DMAStridedCycles_def of_NPU40_50_def of_descriptor_def)
qed


definition strided_example :: VPUDMADescriptor where
  "strided_example =
     new_VPUDMADescriptor\<lparr>desc_device := NPU_5_0,
       desc_src := new_VPUDMATensor\<lparr>dt_dtype := FLOAT16, num_dims := 6, dt_shape := [2, 3, 1, 2, 5, 4], byte_strides := [999, 300, 7, 64, 16, 4]\<rparr>,
       desc_dst := new_VPUDMATensor\<lparr>dt_dtype := FLOAT16, num_dims := 2, dt_shape := [60, 8, 0, 0, 0, 0], byte_strides := [16, 2, 0, 0, 0, 0]\<rparr>\<rparr>"


section \<open>A workload of the network as a descriptor\<close>

definition proper_NPU40_50 :: "DMANNWorkload_NPU40_50 \<Rightarrow> bool" where
  "proper_NPU40_50 w \<longleftrightarrow>
     length (e_dim w) = 5 \<and> 0 \<le> num_dim w \<and> num_dim w \<le> 5 \<and> 0 \<le> src_width w \<and> 0 \<le> dst_width w \<and>
     list_all (\<lambda>d. 0 \<le> src_dim_size d \<and> 0 \<le> dst_dim_size d) (e_dim w)"

lemma fill_side_dims:
  assumes "length extra \<le> 5"
  shows "inner_to_outer (fill_side block extra side) = (block, 1) # map (\<lambda>(sz, stride). (sz + 1, stride)) extra"
    "dt_dtype (fill_side block extra side) = UINT8" "0 < num_dims (fill_side block extra side)"
proof -
  let ?dims = "rev ((block, 1) # map (\<lambda>(sz, stride). (sz + 1, stride)) extra)"
  have "zip (zero_padded (map fst ?dims)) (zero_padded (map snd ?dims)) = ?dims @ replicate (6 - length ?dims) (0, 0)"
    unfolding zero_padded_def VPU_DMA_MAX_DIMS_def
    by (subst zip_append) (simp_all add: zip_map_fst_snd del: rev.simps)
  then show "inner_to_outer (fill_side block extra side) = (block, 1) # map (\<lambda>(sz, stride). (sz + 1, stride)) extra"
    by (simp add: inner_to_outer_def fill_side_def Let_def nat_add_distrib del: rev.simps)
  show "dt_dtype (fill_side block extra side) = UINT8" "0 < num_dims (fill_side block extra side)"
    by (simp_all add: fill_side_def Let_def)
qed

lemma contiguous_slots_dims:
  "\<forall>s \<in> set slots. 0 \<le> fst s \<Longrightarrow> contiguous_dims (map (\<lambda>(sz, stride). (sz + 1, stride)) slots) w = contiguous_slots slots w"
  by (induction slots w rule: contiguous_slots.induct) auto

lemma contiguous_slots_0: "contiguous_slots slots 0 = 0"
  by (induction slots) auto

lemma fill_side_bytes:
  assumes "length extra \<le> 5" "\<forall>s \<in> set extra. 0 \<le> fst s" "0 \<le> block"
  shows "dt_getContiguousBytes (fill_side block extra side) = contiguous_slots extra block"
    "dt_getAccessedBytes (fill_side block extra side) = block * (\<Prod>s\<leftarrow>extra. fst s + 1)"
proof -
  note fill = fill_side_dims [OF assms(1)]
  have "contiguous_dims ((block, 1) # map (\<lambda>(sz, stride). (sz + 1, stride)) extra) 1 = contiguous_slots extra block"
    using contiguous_slots_dims [OF assms(2)] contiguous_slots_0 [of extra] by auto
  then show "dt_getContiguousBytes (fill_side block extra side) = contiguous_slots extra block"
    using fill [of block side] by (simp add: dt_getContiguousBytes_def Let_def)
  have "compute_size_in_bytes block UINT8 = block" using assms(3) whole_bytes_dtype(2) [of UINT8 block] by simp
  then show "dt_getAccessedBytes (fill_side block extra side) = block * (\<Prod>s\<leftarrow>extra. fst s + 1)"
    using fill [of block side] by (simp add: dt_getAccessedBytes_def Let_def fold_mult comp_def case_prod_unfold)
qed

text \<open>
  C29. A workload of the network that is turned into a descriptor keeps every number that the strided model reads: device, direction, bytes
  and contiguous bytes of both sides. Collapsing that descriptor again gives a workload of the same bytes and the same cost.
\<close>

theorem NPU40_50_descriptor_round_trip:
  assumes "proper_NPU40_50 w"
  shows "of_descriptor (fromDMANNWorkload_NPU40_50_to_VPUDMADescriptor w) = of_NPU40_50 w \<and>
    (n40_device w \<noteq> VPUDevice.enum_size \<and> transfer_direction w \<noteq> MemoryDirection.enum_size \<longrightarrow>
     (let w' = fromStridedTensors_toDMANNWorkload_NPU40_50 (fromDMANNWorkload_NPU40_50_to_VPUDMADescriptor w)
      in n40_getReadBytes w' = n40_getReadBytes w \<and> n40_getWrittenBytes w' = n40_getWrittenBytes w \<and>
         strided_cost_NPU40_50 w' = strided_cost_NPU40_50 w))"
proof (intro conjI impI)
  let ?d = "fromDMANNWorkload_NPU40_50_to_VPUDMADescriptor w"
  let ?src = "map (\<lambda>d. (src_dim_size d, src_stride d)) (dims_in_use w)"
  let ?dst = "map (\<lambda>d. (dst_dim_size d, dst_stride d)) (dims_in_use w)"
  have used: "length (dims_in_use w) \<le> 5" "\<forall>s \<in> set ?src. 0 \<le> fst s" "\<forall>s \<in> set ?dst. 0 \<le> fst s"
    using assms by (auto simp: proper_NPU40_50_def dims_in_use_def list_all_iff dest: in_set_takeD)
  have sides: "desc_src ?d = fill_side (src_width w) ?src new_VPUDMATensor" "desc_dst ?d = fill_side (dst_width w) ?dst new_VPUDMATensor"
    "desc_device ?d = n40_device w" "(src_location ?d, dst_location ?d) = create_locations (transfer_direction w)"
    by (simp_all add: fromDMANNWorkload_NPU40_50_to_VPUDMADescriptor_def Let_def)
  have dir: "desc_getDirection ?d = transfer_direction w"
    by (cases "transfer_direction w") (simp_all add: fromDMANNWorkload_NPU40_50_to_VPUDMADescriptor_def Let_def create_locations_def desc_getDirection_def)
  have w: "0 \<le> src_width w" "0 \<le> dst_width w" using assms by (simp_all add: proper_NPU40_50_def)
  note src = fill_side_bytes [of ?src "src_width w" new_VPUDMATensor, OF _ used(2) w(1)]
  note dst = fill_side_bytes [of ?dst "dst_width w" new_VPUDMATensor, OF _ used(3) w(2)]
  show same: "of_descriptor ?d = of_NPU40_50 w"
    using src dst used(1)
    by (simp add: of_descriptor_def of_NPU40_50_def dir sides desc_getContiguousBytesSrc_def desc_getContiguousBytesDst_def
        desc_getReadBytes_def desc_getWrittenBytes_def counts_as_slots n40_getContiguousBytesSrc_def n40_getContiguousBytesDst_def
        contiguous_as_slots n40_getDirection_def)
  assume real: "n40_device w \<noteq> VPUDevice.enum_size \<and> transfer_direction w \<noteq> MemoryDirection.enum_size"
  have fill: "sane_tensor (fill_side b extra new_VPUDMATensor) \<and> array_tensor (fill_side b extra new_VPUDMATensor)"
    if "0 \<le> b" "length extra \<le> 5" "\<forall>s \<in> set extra. 0 \<le> fst s" for b extra
    using that by (auto simp: fill_side_def Let_def sane_tensor_def array_tensor_def zero_padded_def VPU_DMA_MAX_DIMS_def list_all_iff
        dest!: in_set_takeD)
  have "{src_location ?d, dst_location ?d} \<subseteq> {DRAM, CMX}"
    using real sides(4) by (cases "transfer_direction w") (simp_all add: create_locations_def)
  then have sane: "checkDescriptorSanity ?d = Inr ()" "array_tensor (desc_src ?d)" "array_tensor (desc_dst ?d)"
    using real fill [OF w(1), of ?src] fill [OF w(2), of ?dst] used by (simp_all add: checkDescriptorSanity_exact sides)
  have bytes: "desc_getReadBytes ?d = n40_getReadBytes w" "desc_getWrittenBytes ?d = n40_getWrittenBytes w"
    using same by (simp_all add: of_descriptor_def of_NPU40_50_def)
  have "strided_cost_descriptor ?d = strided_cost_NPU40_50 w"
    using same by (simp add: strided_cost_descriptor_def strided_cost_NPU40_50_def)
  then show "let w' = fromStridedTensors_toDMANNWorkload_NPU40_50 ?d
      in n40_getReadBytes w' = n40_getReadBytes w \<and> n40_getWrittenBytes w' = n40_getWrittenBytes w \<and>
         strided_cost_NPU40_50 w' = strided_cost_NPU40_50 w"
    using collapsed_cost [OF sane] bytes by (simp add: Let_def)
qed

definition strided_workload :: DMANNWorkload_NPU40_50 where
  "strided_workload =
     create_DMANNWorkload_NPU50\<lparr>src_width := 64, dst_width := 32, num_dim := 2,
       e_dim := [\<lparr>src_stride = 128, dst_stride = 32, src_dim_size = 3, dst_dim_size = 7\<rparr>,
                 \<lparr>src_stride = 0, dst_stride = 0, src_dim_size = 0, dst_dim_size = 0\<rparr>] @ take 3 no_extra_dims\<rparr>"

theorem NPU40_50_descriptor_round_trip_witness:
  "contiguousBytesDst (of_descriptor (fromDMANNWorkload_NPU40_50_to_VPUDMADescriptor strided_workload)) = 256 \<and>
   of_descriptor (fromDMANNWorkload_NPU40_50_to_VPUDMADescriptor strided_workload) = of_NPU40_50 strided_workload \<and>
   strided_cost_NPU40_50 (fromStridedTensors_toDMANNWorkload_NPU40_50 (fromDMANNWorkload_NPU40_50_to_VPUDMADescriptor strided_workload)) =
     strided_cost_NPU40_50 strided_workload"
proof -
  have "proper_NPU40_50 strided_workload" by code_simp
  moreover have "n40_device strided_workload \<noteq> VPUDevice.enum_size" "transfer_direction strided_workload \<noteq> MemoryDirection.enum_size"
    by code_simp+
  moreover have "contiguousBytesDst (of_NPU40_50 strided_workload) = 256" by code_simp
  ultimately show ?thesis using NPU40_50_descriptor_round_trip [of strided_workload] by (simp add: Let_def)
qed

end
