(* ===== verification/Dma_Round_Trip.thy ===== *)
theory Dma_Round_Trip
  imports Dma_Laws
begin

text \<open>
  A plain transfer that is turned into a descriptor and back keeps its cost: the theoretical model reads the bytes, the layouts and the
  size of an element of both tensors, and the promotion of small data types to whole bytes changes none of them.
\<close>

definition plain_side :: "VPUTensor \<Rightarrow> bool" where
  "plain_side t \<longleftrightarrow> dtype t \<noteq> DataType.enum_size \<and> unat (inner_dim t) < 2 ^ 31 \<and> unat (tensor_size t) < 2 ^ 31"

lemma dvd_word_mult:
  fixes a b :: u32
  assumes "k dvd unat a" "k dvd 4294967296"
  shows "k dvd unat (a * b)"
  using assms by (simp add: unat_word_ariths dvd_mod_iff)

lemma tensor_size_whole_elements:
  assumes "plain_side t"
  shows "dtype_to_bytes (dtype t) dvd int (unat (tensor_size t))"
proof (cases "dtype_to_bytes (dtype t) = 1")
  case False
  let ?b = "dtype_to_bytes (dtype t)" and ?n = "int (unat (inner_dim t))"
  have b: "?b \<in> {2, 4, 8}" using assms False by (cases "dtype t") (simp_all add: plain_side_def)
  have pow: "nat ?b dvd 4294967296" using b by auto
  have "compute_size_in_bytes n d = n * dtype_to_bytes d" if "0 \<le> n" "1 < dtype_to_bytes d" for n d
    using that by (cases "n = 0") (simp_all add: compute_size_in_bytes_def Let_def)
  then have "compute_size_in_bytes ?n (dtype t) = ?n * ?b" using b by auto
  then have "size_packmode_0 t = (inner_dim t * to_u32 ?b) * outer_dims t ! 0 * outer_dims t ! 1 * outer_dims t ! 2"
    using size_packmode_0_inner(1) [of t] assms by (simp add: plain_side_def)
  moreover have "nat ?b dvd unat (inner_dim t * to_u32 ?b)"
    using b dvd_word_mult [OF _ pow, of "to_u32 ?b" "inner_dim t"] by (auto simp: mult.commute)
  ultimately have "nat ?b dvd unat (tensor_size t)"
    using dvd_word_mult [OF _ pow] by (simp add: tensor_size_def packmode_def)
  then show ?thesis using b by (auto simp: nat_dvd_iff)
qed simp

lemma flat_tensor_size:
  assumes "0 < dtype_to_bits d" "8 dvd dtype_to_bits d" "unat n < 2 ^ 31"
  shows "tensor_size (mk_VPUTensor n 1 1 1 d l False) = n * to_u32 (dtype_to_bytes d)"
proof -
  let ?t = "mk_VPUTensor n 1 1 1 d l False"
  have d: "dtype ?t \<noteq> DataType.enum_size" using assms(1) by (auto simp: mk_VPUTensor_def)
  have i: "inner_dim ?t = n \<and> outer_dims ?t = [1, 1, 1] \<or> inner_dim ?t = 1 \<and> prod_list (outer_dims ?t) = n \<and> length (outer_dims ?t) = 3"
    by (cases l) (simp_all add: inner_dim_def outer_dims_def mk_VPUTensor_def mk_shape_def)
  have s: "size_packmode_0 ?t = to_u32 (int (unat (inner_dim ?t)) * dtype_to_bytes d) * prod_list (outer_dims ?t)"
    using size_packmode_0_inner(1) [OF d] assms i whole_bytes_dtype(2) [OF assms(1,2), of "int (unat (inner_dim ?t))"]
    by (simp add: mk_VPUTensor_def outer_dims_def mult_ac split: if_splits) (auto simp: mult_ac)
  show ?thesis using i s by (auto simp: tensor_size_def packmode_def mult.commute)
qed

lemma to_byte_aligned_whole:
  assumes "d \<noteq> DataType.enum_size"
  shows "0 < dtype_to_bits (to_byte_aligned_dtype d)" "8 dvd dtype_to_bits (to_byte_aligned_dtype d)"
    "dtype_to_bytes (to_byte_aligned_dtype d) = dtype_to_bytes d"
    "to_byte_aligned_dtype (to_byte_aligned_dtype d) = to_byte_aligned_dtype d"
  using assms by (cases d; simp add: to_byte_aligned_dtype_def Let_def smod_nonneg)+

lemma side_round_trip:
  assumes "plain_side t"
  shows "\<exists>s. make_side t side = Inr s \<and> tensor_size (make_tensor s) = tensor_size t \<and>
    layout (make_tensor s) = layout t \<and> dtype_to_bytes (dtype (make_tensor s)) = dtype_to_bytes (dtype t)"
proof -
  let ?d = "to_byte_aligned_dtype (dtype t)" and ?b = "dtype_to_bytes (dtype t)" and ?n = "int (unat (tensor_size t))"
  note aligned = to_byte_aligned_whole [of "dtype t"]
  have valid: "dtype t \<noteq> DataType.enum_size" using assms by (simp add: plain_side_def)
  have b: "?b \<in> {1, 2, 4, 8}" using valid by (cases "dtype t") simp_all
  have total: "to_int (tensor_size t) = ?n" using assms by (simp add: plain_side_def to_int_small)
  have dvd: "?b dvd ?n" by (rule tensor_size_whole_elements [OF assms])
  then have fit: "?n smod ?b = 0" "?n sdiv ?b = ?n div ?b" using b by (auto simp: smod_nonneg sdiv_nonneg)
  define s where "s = side\<lparr>dt_dtype := ?d, num_dims := 1, dt_shape := zero_padded [?n div ?b], byte_strides := zero_padded [?b],
    dt_layout := Some (layout t)\<rparr>"
  have side: "make_side t side = Inr s"
    using aligned(3) [OF valid] fit b
    by (auto simp: make_side_def Let_def total setDimension_OutermostFirst_def VPU_DMA_MAX_DIMS_def s_def)
  have "inner_to_outer s = [(?n div ?b, ?b)]" by (simp add: inner_to_outer_def s_def zero_padded_def)
  then have "dt_getAccessedBytes s = compute_size_in_bytes (?n div ?b) ?d"
    by (simp add: dt_getAccessedBytes_def Let_def s_def)
  also have "\<dots> = ?n"
  proof -
    have "0 \<le> ?n div ?b" using b by (auto intro: div_int_pos_iff [THEN iffD2])
    from whole_bytes_dtype(2) [OF aligned(1) [OF valid] aligned(2) [OF valid] this] show ?thesis
      using aligned(3) [OF valid] dvd by (simp only: dvd_div_mult_self)
  qed
  finally have bytes: "to_u32 (dt_getAccessedBytes s) = tensor_size t" by simp
  have mod0: "tensor_size t mod to_u32 ?b = 0"
  proof -
    have "unat (to_u32 ?b) = nat ?b" using b by auto
    moreover have "nat ?b dvd unat (tensor_size t)" using dvd b by (auto simp: nat_dvd_iff)
    ultimately show ?thesis by (simp add: word_unat_eq_iff unat_mod)
  qed
  have "0 < to_u32 ?b" using b by auto
  then have ten: "make_tensor s = mk_VPUTensor (tensor_size t div to_u32 ?b) 1 1 1 ?d (layout t) False"
    unfolding make_tensor_def Let_def bytes using aligned(3,4) [OF valid] mod0 by (simp add: s_def)
  have "unat (tensor_size t div to_u32 ?b) < 2 ^ 31"
    using assms by (auto simp: plain_side_def unat_div intro: le_less_trans [OF div_le_dividend])
  then have "tensor_size (make_tensor s) = (tensor_size t div to_u32 ?b) * to_u32 ?b"
    unfolding ten using flat_tensor_size [OF aligned(1) [OF valid] aligned(2) [OF valid]] aligned(3) [OF valid] by simp
  also have "\<dots> = tensor_size t" using mod0 by (metis add.right_neutral word_mod_div_equality)
  finally show ?thesis using side aligned(3) [OF valid] ten by (auto simp: mk_VPUTensor_def)
qed

text \<open>The theoretical cost depends on nothing else of a tensor.\<close>

lemma side_cost_cong:
  assumes "tensor_size t = tensor_size t'" "dtype_to_bytes (dtype t) = dtype_to_bytes (dtype t')"
  shows "get_bandwidth_cycles_per_bytesLegacy hw t = get_bandwidth_cycles_per_bytesLegacy hw t'"
    "side_cyclesLegacy t = side_cyclesLegacy t'" "side_cyclesPTL t = side_cyclesPTL t'"
    "get_bytes_per_cycle_write_bw hw t = get_bytes_per_cycle_write_bw hw t'"
  unfolding fun_eq_iff get_bandwidth_cycles_per_bytesLegacy_def get_sram_word_sizeLegacy_def side_cyclesLegacy_def
    side_cyclesPTL_def get_bytes_per_cycle_write_bw_def cmx_agregated_bytes_per_cycle_bw_def assms by simp_all

lemma theoretical_cost_cong:
  assumes "dma_device a = dma_device b" "input_location a = input_location b" "output_location a = output_location b"
    "tensor_size (dma_input a) = tensor_size (dma_input b)" "tensor_size (dma_output a) = tensor_size (dma_output b)"
    "layout (dma_input a) = layout (dma_input b)" "layout (dma_output a) = layout (dma_output b)"
    "dtype_to_bytes (dtype (dma_input a)) = dtype_to_bytes (dtype (dma_input b))"
    "dtype_to_bytes (dtype (dma_output a)) = dtype_to_bytes (dtype (dma_output b))"
  shows "dma_theoretical_cost a = dma_theoretical_cost b"
  unfolding dma_theoretical_cost_def DMATheoreticalCyclesLegacyLNL_def DMATheoreticalCyclesPTL_ON_def Let_def
    side_cost_cong [OF assms(4,8)] side_cost_cong [OF assms(5,9)] assms(1-7) by (rule refl)

text \<open>
  C30. A transfer of tensors with known data types and less than \<open>2 ^ 31\<close> bytes can be turned into a descriptor, and the transfer made of the
  descriptor has the same bytes and the same theoretical cost on every device, although
  types of less than a byte have been promoted and the shape has been flattened.
\<close>

theorem DMAWorkload_descriptor_round_trip:
  assumes "plain_side (dma_input wl)" "plain_side (dma_output wl)"
  shows "\<exists>d. fromDMAWorkload_to_VPUDMADescriptor wl = Inr d \<and>
    tensor_size (dma_input (fromVPUDMADescriptor_to_DMAWorkload d)) = tensor_size (dma_input wl) \<and>
    tensor_size (dma_output (fromVPUDMADescriptor_to_DMAWorkload d)) = tensor_size (dma_output wl) \<and>
    dma_theoretical_cost (fromVPUDMADescriptor_to_DMAWorkload d) = dma_theoretical_cost wl"
proof -
  obtain s where s: "make_side (dma_input wl) new_VPUDMATensor = Inr s" "tensor_size (make_tensor s) = tensor_size (dma_input wl)"
    "layout (make_tensor s) = layout (dma_input wl)" "dtype_to_bytes (dtype (make_tensor s)) = dtype_to_bytes (dtype (dma_input wl))"
    using side_round_trip [OF assms(1)] by blast
  obtain t where t: "make_side (dma_output wl) new_VPUDMATensor = Inr t" "tensor_size (make_tensor t) = tensor_size (dma_output wl)"
    "layout (make_tensor t) = layout (dma_output wl)" "dtype_to_bytes (dtype (make_tensor t)) = dtype_to_bytes (dtype (dma_output wl))"
    using side_round_trip [OF assms(2)] by blast
  let ?d = "new_VPUDMADescriptor\<lparr>desc_device := dma_device wl, src_location := input_location wl,
    dst_location := output_location wl, desc_src := s, desc_dst := t\<rparr>"
  have "fromDMAWorkload_to_VPUDMADescriptor wl = Inr ?d"
    using s(1) t(1) by (simp add: fromDMAWorkload_to_VPUDMADescriptor_def Let_def new_VPUDMADescriptor_def)
  moreover have "dma_theoretical_cost (fromVPUDMADescriptor_to_DMAWorkload ?d) = dma_theoretical_cost wl"
    using s t by (intro theoretical_cost_cong) (simp_all add: fromVPUDMADescriptor_to_DMAWorkload_def)
  ultimately show ?thesis using s(2) t(2) by (intro exI [of _ ?d]) (simp add: fromVPUDMADescriptor_to_DMAWorkload_def)
qed

definition sample_transfer :: DMAWorkload where
  "sample_transfer =
     \<lparr>dma_device = NPU_5_0, dma_input = mk_VPUTensor 7 3 6 1 INT4 ZXY False, dma_output = mk_VPUTensor 8 8 4 1 FLOAT16 XYZ False,
      input_location = DRAM, output_location = CMX, dma_output_write_tiles = 1\<rparr>"

theorem DMAWorkload_descriptor_round_trip_witness:
  "tensor_size (dma_input sample_transfer) = 63 \<and>
   (\<exists>d. fromDMAWorkload_to_VPUDMADescriptor sample_transfer = Inr d \<and>
     tensor_size (dma_input (fromVPUDMADescriptor_to_DMAWorkload d)) = 63 \<and>
     dma_theoretical_cost (fromVPUDMADescriptor_to_DMAWorkload d) = dma_theoretical_cost sample_transfer)"
proof -
  have size: "tensor_size (dma_input sample_transfer) = 63" "tensor_size (dma_output sample_transfer) = 512" by code_simp+
  have "inner_dim (dma_input sample_transfer) = 6" "inner_dim (dma_output sample_transfer) = 8" by code_simp+
  then have "plain_side (dma_input sample_transfer)" "plain_side (dma_output sample_transfer)"
    using size by (simp_all add: plain_side_def) (simp_all add: sample_transfer_def mk_VPUTensor_def)
  then show ?thesis using size DMAWorkload_descriptor_round_trip [of sample_transfer] by auto
qed

section \<open>A transfer of nothing\<close>

lemma empty_transfer_cost:
  "(\<forall>d \<in> {VPU_2_0, VPU_2_1, VPU_2_7, VPU_4_0}.
      \<exists>t. bind_result (fromDMATransfer1D_to_DMAWorkload
             \<lparr>t1d_device = d, transfer_length_bytes = 0, memory_direction = DDR2CMX\<rparr>) dma_theoretical_cost =
           Inl (undefined_behaviour t)) \<and>
   (\<forall>d \<in> {NPU_5_0, NPU_5_0_W}.
      bind_result (fromDMATransfer1D_to_DMAWorkload
        \<lparr>t1d_device = d, transfer_length_bytes = 0, memory_direction = DDR2CMX\<rparr>) dma_theoretical_cost =
      Inr (get_DMA_latency (get_HWCharacteristics d) DRAM))"
proof -
  let ?t = "mk_VPUTensor 0 1 1 1 UINT8 ZXY False"
  have size: "tensor_size ?t = 0" by code_simp
  have wl: "fromDMATransfer1D_to_DMAWorkload \<lparr>t1d_device = d, transfer_length_bytes = 0, memory_direction = DDR2CMX\<rparr> =
      Inr \<lparr>dma_device = d, dma_input = ?t, dma_output = ?t, input_location = DRAM, output_location = CMX, dma_output_write_tiles = 1\<rparr>"
    for d by (simp add: fromDMATransfer1D_to_DMAWorkload_def create_locations_def Let_def)
  have legacy: "\<exists>t. DMATheoreticalCyclesLegacyLNL \<lparr>dma_device = d, dma_input = ?t, dma_output = ?t, input_location = DRAM,
      output_location = CMX, dma_output_write_tiles = 1\<rparr> = Inl (undefined_behaviour t)" for d
    by (simp add: DMATheoreticalCyclesLegacyLNL_def Let_def get_bandwidth_cycles_per_bytesLegacy_def size side_cyclesLegacy_def
        get_sram_word_sizeLegacy_def)
  have "get_DMA_latency (get_HWCharacteristics d) CMX \<le> get_DMA_latency (get_HWCharacteristics d) DRAM"
    "\<not> isErrorCode (get_DMA_latency (get_HWCharacteristics d) DRAM)" if "d \<in> {NPU_5_0, NPU_5_0_W}" for d
    using that by (auto simp: get_DMA_latency_def get_HWCharacteristics_def get_HWCharacteristicsEvo0_def extract_tuple_content_def
        get_device_index_def MainEvo0SetTuple_def VPU5_0_HWCharacteristics_v0_def Let_def sdiv_nonneg isErrorCode_unat)
  moreover have "0 \<le> float_u32 START_ERROR_RANGE" unfolding float_u32_def
    by (rule to_float32_nonneg) (rule of_int_0_le_iff [THEN iffD2], simp)
  then have limit: "\<not> float_u32 START_ERROR_RANGE < 0" by simp
  have none: "float_u32 0 = 0" by (simp add: float_u32_def)
  ultimately have ptl: "DMATheoreticalCyclesPTL_ON \<lparr>dma_device = d, dma_input = ?t, dma_output = ?t, input_location = DRAM,
      output_location = CMX, dma_output_write_tiles = 1\<rparr> = Inr (get_DMA_latency (get_HWCharacteristics d) DRAM)"
    if "d \<in> {NPU_5_0, NPU_5_0_W}" for d
    using that by (simp add: DMATheoreticalCyclesPTL_ON_def Let_def size side_cyclesPTL_def get_bytes_per_cycle_write_bw_def
        cmx_agregated_bytes_per_cycle_bw_def none limit toCycleInterfaceType_floating_def split: prod.splits)
  have "\<not> VPU_4_0 \<le> d" if "d \<in> {VPU_2_0, VPU_2_1, VPU_2_7}" for d
    using that by (auto simp: less_eq_VPUDevice_def VPUDevice_enum_def)
  then show ?thesis
    using legacy ptl unfolding wl
    by (auto simp: dma_theoretical_cost_def forceLegacy_G4_def forceLegacy_G5_def less_VPUDevice_def VPUDevice_enum_def)
qed


end
