(* ===== verification/Nn_Descriptor.thy ===== *)
theory Nn_Descriptor
  imports Float_Single Enum_Text
begin

text \<open>
  How the input of a neural network is written: \<open>Inserter\<close> and \<open>PreprocessingInserter\<close> of
  \<^verbatim>\<open>include/inference/preprocessing_inserter_basics.h\<close> and \<^verbatim>\<open>preprocessing_inserter.h\<close>, and their twins for transfers. A descriptor is
  a vector of \<open>float\<close> of fixed size; every insertion writes at an offset and returns the next one. A number takes one place, an
  enumeration one place per enumerator (one-hot), and a write past the end throws.

  An insertion is a function from the buffer and the offset to the new buffer and offset. \<open>appends f xs\<close> says that \<open>f\<close> writes
  exactly \<open>xs\<close>; the rules for it turn a sequence of insertions into a list.
\<close>

section \<open>Insertions\<close>

type_synonym inserter = "real list \<times> nat \<Rightarrow> (real list \<times> nat) result"

definition write_at :: "real \<Rightarrow> nat \<Rightarrow> real list \<Rightarrow> real list result" where
  "write_at data offset output =
     (if length output \<le> offset then
        Inl (out_of_range (''[ERROR] PreprocessingInserter.insert(), out of range write (offset) when building VPUNN descriptor, offset:'' @
          to_string (int offset) @ '', this is beyond the allocated descriptor size:  '' @ to_string (int (length output)) @
          '' Cannot continue! ''))
      else Inr (output[offset := data]))"

definition insert_float :: "real \<Rightarrow> inserter" where
  "insert_float data = (\<lambda>(output, offset). bind_result (write_at data offset output) (\<lambda>output. Inr (output, offset + 1)))"

definition insert_int :: "int \<Rightarrow> inserter" where
  "insert_int data = insert_float (to_float32 (of_int data))"

definition insert_unsigned :: "u32 \<Rightarrow> inserter" where
  "insert_unsigned data = insert_float (to_float32 (of_int (uint data)))"

definition insert_bool :: "bool \<Rightarrow> inserter" where
  "insert_bool data = insert_float (if data then 1 else 0)"

definition one_hot :: "nat \<Rightarrow> nat \<Rightarrow> inserter" where
  "one_hot idx category_size =
     (\<lambda>(output, offset).
        bind_result (if idx < category_size \<or> category_size = 0 then write_at 1 (idx + offset) output else Inr output)
          (\<lambda>output. Inr (output, offset + category_size)))"

definition insert_all :: "inserter list \<Rightarrow> inserter" where
  "insert_all fs = (\<lambda>start. fold (\<lambda>f st. bind_result st f) fs (Inr start))"

definition generate_descriptor :: "nat \<Rightarrow> inserter list \<Rightarrow> real list result" where
  "generate_descriptor size_of_descriptor fs =
     bind_result (insert_all fs (replicate size_of_descriptor 0, 0)) (\<lambda>(descriptor, debug_offset). Inr descriptor)"

text \<open>A converted enumeration may be missing in the older interface, so its insertion can throw before it writes.\<close>

definition insert_converted :: "int result \<Rightarrow> nat \<Rightarrow> inserter" where
  "insert_converted converted category_size =
     (\<lambda>st. bind_result converted (\<lambda>idx. one_hot (nat idx) category_size st))"

section \<open>Conversion of enumerations\<close>

text \<open>
  \<open>convert\<close> goes from an enumerator of today to its text and from the text to the enumerator of the interface; the newer
  interfaces put a map of texts in between. The texts of the exceptions are shortened by the printed maps and places.
\<close>

definition unknown_value :: "int \<Rightarrow> cpp_exception" where
  "unknown_value v = out_of_range (''[ERROR]:could not map enum value: '' @ to_string v @ '' to enum text!'')"

definition unknown_text :: "string \<Rightarrow> cpp_exception" where
  "unknown_text s =
     out_of_range (''[ERROR]:could not map enum from text: '' @ s @ '' to an enum value in target required interface.'')"

definition enum_of_names :: "string list \<Rightarrow> EnumMap" where
  "enum_of_names names = zip (map int [0..<length names]) names"

definition convert_enum :: "EnumMap \<Rightarrow> EnumMap \<Rightarrow> int \<Rightarrow> int result" where
  "convert_enum present compatible v =
     (case map_of present v of
        None \<Rightarrow> Inl (unknown_value v)
      | Some text_val \<Rightarrow>
          (case createInverseMap compatible text_val of
             None \<Rightarrow> Inl (unknown_text text_val)
           | Some old_id \<Rightarrow> Inr old_id))"

definition convert_logical :: "EnumMap \<Rightarrow> (string \<times> string) list \<Rightarrow> EnumMap \<Rightarrow> int \<Rightarrow> int result" where
  "convert_logical present logical compatible v =
     (case map_of present v of
        None \<Rightarrow> Inl (unknown_value v)
      | Some text_val \<Rightarrow>
          (case map_of logical text_val of
             None \<Rightarrow> Inl (unknown_text text_val)
           | Some logically_mapped_text \<Rightarrow>
               (case createInverseMap compatible logically_mapped_text of
                  None \<Rightarrow> Inl (unknown_text text_val)
                | Some old_id \<Rightarrow> Inr old_id)))"

section \<open>What an insertion writes\<close>

definition appends :: "inserter \<Rightarrow> real list \<Rightarrow> bool" where
  "appends f xs \<longleftrightarrow>
     (\<forall>pre k. f (pre @ replicate (length xs + k) 0, length pre) = Inr (pre @ xs @ replicate k 0, length pre + length xs))"

definition hot :: "nat \<Rightarrow> nat \<Rightarrow> real list" where
  "hot idx category_size = (replicate category_size 0)[idx := 1]"

lemma length_hot [simp]: "length (hot idx n) = n"
  by (simp add: hot_def)

named_theorems descriptor_chunks \<open>what the insertions of a descriptor write\<close>

lemma appends_float [descriptor_chunks]: "appends (insert_float x) [x]"
  by (simp add: appends_def insert_float_def write_at_def list_update_append)

lemma appends_numbers [descriptor_chunks]:
  "appends (insert_int i) [to_float32 (of_int i)]"
  "appends (insert_unsigned u) [to_float32 (of_int (uint u))]"
  "appends (insert_bool b) [if b then 1 else 0]"
  by (simp_all only: insert_int_def insert_unsigned_def insert_bool_def appends_float)

lemma replicate_update_append:
  "i < n \<Longrightarrow> (replicate (n + k) x)[i := y] = (replicate n x)[i := y] @ replicate k x"
  by (simp add: replicate_add list_update_append)

lemma appends_one_hot [descriptor_chunks]: "idx < n \<Longrightarrow> appends (one_hot idx n) (hot idx n)"
  by (simp add: appends_def one_hot_def write_at_def list_update_append hot_def replicate_update_append)

lemma appends_converted [descriptor_chunks]:
  "r = Inr i \<Longrightarrow> nat i < n \<Longrightarrow> appends (insert_converted r n) (hot (nat i) n)"
  using appends_one_hot [of "nat i" n] by (simp add: appends_def insert_converted_def)

lemma appends_all:
  assumes "list_all2 appends fs xss"
  shows "appends (insert_all fs) (concat xss)"
  using assms
proof (induction fs xss rule: list_all2_induct)
  case Nil
  show ?case by (simp add: appends_def insert_all_def)
next
  case (Cons f fs xs xss)
  have "insert_all (f # fs) st = bind_result (f st) (insert_all fs)" for st
  proof -
    have "fold (\<lambda>f st. bind_result st f) fs (Inl e) = Inl e" for e by (induction fs) simp_all
    then show ?thesis by (cases "f st") (simp_all add: insert_all_def)
  qed
  moreover have "f (pre @ replicate (length (xs @ concat xss) + k) 0, length pre) =
      Inr (pre @ xs @ replicate (length (concat xss) + k) 0, length pre + length xs)" for pre k
    using Cons.hyps(1) unfolding appends_def length_append add.assoc by (rule allE) (erule allE)
  moreover have "insert_all fs ((pre @ xs) @ replicate (length (concat xss) + k) 0, length (pre @ xs)) =
      Inr ((pre @ xs) @ concat xss @ replicate k 0, length (pre @ xs) + length (concat xss))" for pre k
    using Cons.IH unfolding appends_def by (rule allE) (erule allE)
  ultimately show ?case by (simp add: appends_def add.assoc)
qed

lemma descriptor_of_chunks:
  assumes "list_all2 appends fs xss" "length (concat xss) = n"
  shows "generate_descriptor n fs = Inr (concat xss)"
proof -
  have "insert_all fs ([] @ replicate (length (concat xss) + 0) 0, length ([] :: real list)) =
      Inr ([] @ concat xss @ replicate 0 0, length ([] :: real list) + length (concat xss))"
    using appends_all [OF assms(1)] unfolding appends_def by (elim allE)
  then show ?thesis using assms(2) by (simp add: generate_descriptor_def)
qed

lemma hot_eq_iff: "i < n \<Longrightarrow> j < n \<Longrightarrow> hot i n = hot j n \<longleftrightarrow> i = j"
  by (auto simp: hot_def list_eq_iff_nth_eq nth_list_update)

text \<open>An insertion that throws makes the whole descriptor throw.\<close>

lemma insert_all_throws:
  assumes "insert_all fs start = Inr st" "f st = Inl e"
  shows "insert_all (fs @ f # gs) start = Inl e"
proof -
  have "fold (\<lambda>f st. bind_result st f) gs (Inl e) = Inl e" by (induction gs) simp_all
  then show ?thesis using assms by (simp add: insert_all_def)
qed

end
