(* ===== verification/Dma_Nn.thy ===== *)
theory Dma_Nn
  imports Nn_Descriptor Dma_Strided Nn_Cost_Provider
begin

text \<open>
  The cost of a transfer according to a neural network: the descriptors of \<^verbatim>\<open>include/vpu/compatibility/dma_types_01x.h\<close>, the
  adapters of the output of \<^verbatim>\<open>include/inference/dma_postprocessing_mocks.h\<close>, and \<open>DMANNCostProvider\<close> of
  \<^verbatim>\<open>include/vpu/dma_cost_providers/dmann_cost_provider.h\<close>. The trained network is an argument (\<open>predict\<close>); everything around it is
  defined here. The context of a thread only holds buffers and is left out, as is the CSV file of missed lookups.

  The provider is a template over the kind of workload; what it uses of the kind is the record \<open>DMADesc\<close>, with one value for
  each of the two kinds. Values of the network are real numbers: an answer that is not a number is left out.
\<close>

section \<open>Descriptors\<close>

definition intf_dma_01x_MemoryDirection :: "string list" where
  "intf_dma_01x_MemoryDirection = [''DDR2CMX'', ''CMX2CMX'', ''CMX2DDR'', ''DDR2DDR'']"

definition intf_dma_01x_Num_DMA_Engine :: "string list" where
  "intf_dma_01x_Num_DMA_Engine = [''Num_Engine_1'', ''Num_Engine_2'']"

definition insert_direction :: "MemoryDirection \<Rightarrow> inserter" where
  "insert_direction d =
     insert_converted (convert_enum MemoryDirection_ToText (enum_of_names intf_dma_01x_MemoryDirection) (pos_direction d))
       (length intf_dma_01x_MemoryDirection)"

definition insert_engine :: "Num_DMA_Engine \<Rightarrow> inserter" where
  "insert_engine e =
     insert_converted (convert_enum Num_DMA_Engine_ToText (enum_of_names intf_dma_01x_Num_DMA_Engine) (pos_engine e))
       (length intf_dma_01x_Num_DMA_Engine)"

definition Preprocessing_Interface01_DMA :: "DMANNWorkload_NPU27 \<Rightarrow> real list result" where
  "Preprocessing_Interface01_DMA w =
     generate_descriptor 12
       (map insert_int
          [num_planes w, n27_length w, n27_src_width w, n27_dst_width w, n27_src_stride w, n27_dst_stride w,
           src_plane_stride w, dst_plane_stride w] @
        [insert_direction (n27_transfer_direction w)])"

definition Preprocessing_Interface02_DMA :: "DMANNWorkload_NPU40_50 \<Rightarrow> real list result" where
  "Preprocessing_Interface02_DMA w =
     generate_descriptor 29
       (map insert_int ([dst_width w, src_width w, num_dim w] @
          concat (map (\<lambda>d. [dst_stride d, src_stride d, dst_dim_size d, src_dim_size d]) (e_dim w))) @
        [insert_engine (num_engine w), insert_direction (transfer_direction w)])"

definition Preprocessing_Interface03_DMA :: "DMANNWorkload_NPU40_50 \<Rightarrow> real list result" where
  "Preprocessing_Interface03_DMA w =
     generate_descriptor 27
       (map insert_int ([num_dim w, dst_width w, src_width w] @ map dst_dim_size (e_dim w) @ map src_dim_size (e_dim w) @
          map dst_stride (e_dim w) @ map src_stride (e_dim w)) @
        [insert_direction (transfer_direction w)])"

section \<open>The kinds of workloads\<close>

record 'w DMADesc =
  desc_hash :: "'w \<Rightarrow> u32"
  desc_key :: "'w \<Rightarrow> 'w"
  desc_to_DMAWorkload :: "'w \<Rightarrow> DMAWorkload result"
  desc_wl_device :: "'w \<Rightarrow> VPUDevice"
  desc_accessed_bytes :: "'w \<Rightarrow> int"
  desc_preprocessings :: "(int \<times> ('w \<Rightarrow> real list result)) list"

text \<open>
  The dynamic cache compares its keys with \<open>operator==\<close>. For the newer workloads that ignores the name and the dimensions not in
  use; \<open>n40_cache_key\<close> is the representative without them.
\<close>

definition n40_cache_key :: "DMANNWorkload_NPU40_50 \<Rightarrow> DMANNWorkload_NPU40_50" where
  "n40_cache_key w = w\<lparr>e_dim := dims_in_use w @ drop (length (dims_in_use w)) no_extra_dims, loc_name := ''''\<rparr>"

definition NPU27_Desc :: "DMANNWorkload_NPU27 DMADesc" where
  "NPU27_Desc =
     \<lparr>desc_hash = n27_hash, desc_key = (\<lambda>w. w), desc_to_DMAWorkload = DMAWorkload_of_NPU27, desc_wl_device = n27_device,
      desc_accessed_bytes = n27_getAccessedBytes, desc_preprocessings = [(1, Preprocessing_Interface01_DMA)]\<rparr>"

definition NPU40_50_Desc :: "DMANNWorkload_NPU40_50 DMADesc" where
  "NPU40_50_Desc =
     \<lparr>desc_hash = n40_hash, desc_key = n40_cache_key, desc_to_DMAWorkload = DMAWorkload_of_NPU40_50, desc_wl_device = n40_device,
      desc_accessed_bytes = n40_getAccessedBytes,
      desc_preprocessings = [(2, Preprocessing_Interface02_DMA), (3, Preprocessing_Interface03_DMA)]\<rparr>"

section \<open>The output of the network\<close>

datatype DmaPostProcess = ConvertFromSizeDivCycleToDPUCyc | ConvertFromDirectCycleToDPUCyc

definition dma_low_threshold :: "DmaPostProcess \<Rightarrow> real" where
  "dma_low_threshold p = (case p of ConvertFromSizeDivCycleToDPUCyc \<Rightarrow> to_float32 (- (1 / 10)) | ConvertFromDirectCycleToDPUCyc \<Rightarrow> 0)"

definition dma_high_threshold :: "DmaPostProcess \<Rightarrow> real" where
  "dma_high_threshold p = (case p of ConvertFromSizeDivCycleToDPUCyc \<Rightarrow> to_float32 (11 / 10) | ConvertFromDirectCycleToDPUCyc \<Rightarrow> 10 ^ 9)"

definition dma_NN_value_invalid :: "DmaPostProcess \<Rightarrow> real \<Rightarrow> bool" where
  "dma_NN_value_invalid p nn_output_cycles \<longleftrightarrow>
     (if dma_high_threshold p < nn_output_cycles \<or> nn_output_cycles < dma_low_threshold p then True else False)"

definition dma_NN_Valid_interval :: "DmaPostProcess \<Rightarrow> real \<times> real" where
  "dma_NN_Valid_interval p = (dma_low_threshold p, dma_high_threshold p)"

definition clamp :: "real \<Rightarrow> real \<Rightarrow> real \<Rightarrow> real" where
  "clamp v lo hi = (if v < lo then lo else if hi < v then hi else v)"

definition process_SizeDivCycle :: "VPUDevice \<Rightarrow> int \<Rightarrow> real \<Rightarrow> CyclesInterfaceType" where
  "process_SizeDivCycle d accessed_bytes nn_size_div_cycle =
     (let hw = hw_characteristics (get_HWCharacteristics d);
          maxBytesPerCycle = to_float32 (of_int (DMA_engine_B hw));
          raw_bandwith_BPC = to_float32 (nn_size_div_cycle * maxBytesPerCycle);
          bandwith_BPC = clamp raw_bandwith_BPC (to_float32 (1 / 200)) maxBytesPerCycle
      in if 0 < bandwith_BPC then
           let vpu_cycles_f = to_float32 (to_float32 (of_int accessed_bytes) / bandwith_BPC);
               dpu_cycles_f = to_float32 (to_float32 (vpu_cycles_f * float_u32 (dpu_freq_clk hw)) / float_u32 (cmx_freq_clk hw))
           in toCycleInterfaceType_floating (float_u32 START_ERROR_RANGE) dpu_cycles_f
         else ERROR_INVALID_OUTPUT_RANGE)"

definition process_DirectCycle :: "real \<Rightarrow> CyclesInterfaceType" where
  "process_DirectCycle nn_direct_cycles =
     (if nn_direct_cycles < 0 then ERROR_INVALID_OUTPUT_RANGE
      else
        let nn_direct_cycles = (if 10 ^ 9 < nn_direct_cycles then 10 ^ 9 else nn_direct_cycles)
        in toCycleInterfaceType_floating (float_u32 START_ERROR_RANGE) nn_direct_cycles)"

definition dma_process :: "'w DMADesc \<Rightarrow> DmaPostProcess \<Rightarrow> 'w \<Rightarrow> real \<Rightarrow> CyclesInterfaceType" where
  "dma_process k p wl nn_value =
     (case p of
        ConvertFromSizeDivCycleToDPUCyc \<Rightarrow> process_SizeDivCycle (desc_wl_device k wl) (desc_accessed_bytes k wl) nn_value
      | ConvertFromDirectCycleToDPUCyc \<Rightarrow> process_DirectCycle nn_value)"

definition dma_postprocessings :: "(int \<times> DmaPostProcess) list" where
  "dma_postprocessings = [(1, ConvertFromSizeDivCycleToDPUCyc), (2, ConvertFromDirectCycleToDPUCyc)]"

definition dma_exists_postprocessing :: "int \<Rightarrow> bool" where
  "dma_exists_postprocessing version \<longleftrightarrow> map_of dma_postprocessings version \<noteq> None"

definition dma_make_postprocessing :: "int \<Rightarrow> DmaPostProcess result" where
  "dma_make_postprocessing version =
     (case map_of dma_postprocessings version of
        Some p \<Rightarrow> Inr p
      | None \<Rightarrow> Inl (out_of_range (''[ERROR]:DMA Post processing cannot be created for version:   '' @ to_string version)))"

definition dma_exists_preprocessing :: "'w DMADesc \<Rightarrow> int \<Rightarrow> bool" where
  "dma_exists_preprocessing k version \<longleftrightarrow> map_of (desc_preprocessings k) version \<noteq> None"

definition dma_make_preprocessing :: "'w DMADesc \<Rightarrow> int \<Rightarrow> ('w \<Rightarrow> real list result) result" where
  "dma_make_preprocessing k version =
     (case map_of (desc_preprocessings k) version of
        Some p \<Rightarrow> Inr p
      | None \<Rightarrow> Inl (out_of_range (''[ERROR]:DMA Preprocessing cannot be created for version:   '' @ to_string version)))"

definition dma_output_supported :: "int \<Rightarrow> bool" where
  "dma_output_supported version \<longleftrightarrow> (if version = 1 \<or> version = 2 then True else False)"

section \<open>The provider\<close>

record 'w DMANNProvider =
  dma_runtime_initialized :: bool
  dma_predict :: "real list \<Rightarrow> real list result"
  dma_batch_size :: u32
  dma_descriptor_size :: u32
  dma_preprocessing :: "'w \<Rightarrow> real list result"
  dma_post_processing :: DmaPostProcess
  dma_model_version :: ModelVersion

type_synonym descriptor_cache = "(real list, real) LRUCache"

definition dma_predict_one :: "'w DMANNProvider \<Rightarrow> real list \<Rightarrow> real result" where
  "dma_predict_one m descriptor =
     bind_result (dma_predict m descriptor) (\<lambda>out.
       if out = [] then Inl (undefined_behaviour ''operator[] past the end'') else Inr (out ! 0))"

definition dma_infer_raw_input :: "'w DMANNProvider \<Rightarrow> 'w \<Rightarrow> descriptor_cache \<Rightarrow> (real \<times> descriptor_cache) result" where
  "dma_infer_raw_input m workload c =
     (if \<not> dma_runtime_initialized m then Inr (default_NN_output, c)
      else
        bind_result (dma_preprocessing m workload) (\<lambda>descriptor.
        bind_result (lru_get descriptor_key_hash descriptor c) (\<lambda>(cached_value, c).
          case cached_value of
            None \<Rightarrow>
              bind_result (dma_predict_one m descriptor) (\<lambda>infered_value.
              bind_result (lru_add descriptor_key_hash descriptor infered_value c) (\<lambda>c.
                Inr (infered_value, c)))
          | Some (v, _) \<Rightarrow> Inr (v, c))))"

definition dma_infer :: "'w DMADesc \<Rightarrow> 'w DMANNProvider \<Rightarrow> 'w \<Rightarrow> descriptor_cache \<Rightarrow> (CyclesInterfaceType \<times> descriptor_cache) result" where
  "dma_infer k m workload c =
     bind_result (dma_infer_raw_input m workload c) (\<lambda>(raw_value, c).
       if dma_NN_value_invalid (dma_post_processing m) raw_value then Inr (ERROR_INVALID_OUTPUT_RANGE, c)
       else Inr (dma_process k (dma_post_processing m) workload raw_value, c))"

definition computeBandwidthMsg :: "'w DMANNProvider \<Rightarrow> 'w \<Rightarrow> descriptor_cache \<Rightarrow> (real \<times> string \<times> descriptor_cache) result" where
  "computeBandwidthMsg m wl c =
     (if dma_runtime_initialized m then
        bind_result (dma_infer_raw_input m wl c) (\<lambda>(nn_size_div_cycle, c). Inr (nn_size_div_cycle, '''', c))
      else
        Inr (- 1, [CHR 0x0A] @ ''The NN is not initialized. The inference is not possible.  Exiting with : -1'' @ [CHR 0x0A], c))"

definition dmann_get_cost ::
  "'w DMADesc \<Rightarrow> 'w DMANNProvider \<Rightarrow> 'w \<Rightarrow> string \<Rightarrow> descriptor_cache \<Rightarrow> (CyclesInterfaceType \<times> string \<times> descriptor_cache) result" where
  "dmann_get_cost k m workload cost_source c =
     (if \<not> dma_runtime_initialized m then Inr (ERROR_INFERENCE_NOT_POSSIBLE, cost_source, c)
      else
        bind_result (dma_infer k m workload c) (\<lambda>(infered_value, c).
          Inr (infered_value, ''nn_'' @ make_model_nickname (full_raw_name (dma_model_version m)), c)))"

definition dma_get_cached ::
  "'w DMADesc \<Rightarrow> 'w DMANNProvider \<Rightarrow> 'w \<Rightarrow> descriptor_cache \<Rightarrow> (CyclesInterfaceType \<times> string option \<times> descriptor_cache) result" where
  "dma_get_cached k m workload c =
     (if \<not> dma_runtime_initialized m then Inr (ERROR_CACHE_MISS, None, c)
      else
        bind_result (dma_preprocessing m workload) (\<lambda>vector.
        bind_result (lru_get descriptor_key_hash vector c) (\<lambda>(cached_value, c).
          case cached_value of
            None \<Rightarrow> Inr (ERROR_CACHE_MISS, None, c)
          | Some (v, source) \<Rightarrow>
              Inr (if dma_NN_value_invalid (dma_post_processing m) v then ERROR_INVALID_OUTPUT_RANGE
                   else dma_process k (dma_post_processing m) workload v, Some source, c))))"

definition dma_add_to_cache :: "'w DMANNProvider \<Rightarrow> 'w \<Rightarrow> real \<Rightarrow> descriptor_cache \<Rightarrow> descriptor_cache result" where
  "dma_add_to_cache m workload v c =
     (if \<not> dma_runtime_initialized m then Inr c
      else bind_result (dma_preprocessing m workload) (\<lambda>vector. lru_add descriptor_key_hash vector v c))"

section \<open>A vector of workloads\<close>

fun descriptors_of :: "'w DMANNProvider \<Rightarrow> 'w list \<Rightarrow> real list result" where
  "descriptors_of m [] = Inr []"
| "descriptors_of m (wl # wls) =
     bind_result (dma_preprocessing m wl) (\<lambda>d. bind_result (descriptors_of m wls) (\<lambda>ds. Inr (d @ ds)))"

definition dma_transformBatch :: "'w DMANNProvider \<Rightarrow> 'w list \<Rightarrow> u32 \<Rightarrow> real list result" where
  "dma_transformBatch m wls pad =
     (let total_workloads = unat (round_up (word_of_nat (length wls)) pad);
          zero_vector = replicate (unat (dma_descriptor_size m)) 0
      in bind_result (descriptors_of m (take total_workloads wls)) (\<lambda>ds.
           Inr (ds @ concat (replicate (total_workloads - length wls) zero_vector))))"

function dma_infer_batches :: "'w DMANNProvider \<Rightarrow> real list \<Rightarrow> nat \<Rightarrow> nat \<Rightarrow> real list result" where
  "dma_infer_batches m descriptor_for_all n wl_idx =
     (let batch = unat (dma_batch_size m); descriptor_size = unat (dma_descriptor_size m);
          complete_batch_end_idx = wl_idx + batch;
          end_idx = (if n < complete_batch_end_idx then n else complete_batch_end_idx)
      in if \<not> wl_idx < n then Inr []
         else if batch = 0 then Inl (undefined_behaviour ''batches of no workloads'')
         else
           bind_result (dma_predict m (take (descriptor_size * batch) (drop (wl_idx * descriptor_size) descriptor_for_all)))
             (\<lambda>hw_overhead_arr.
               if length hw_overhead_arr < end_idx - wl_idx then Inl (undefined_behaviour ''read past the output of the network'')
               else bind_result (dma_infer_batches m descriptor_for_all n complete_batch_end_idx)
                      (\<lambda>rest. Inr (take (end_idx - wl_idx) hw_overhead_arr @ rest))))"
  by auto
termination
  by (relation "measure (\<lambda>(_, _, n, wl_idx). n - wl_idx)") auto

declare dma_infer_batches.simps [simp del]

definition dma_infer_raw_input_vector :: "'w DMADesc \<Rightarrow> 'w DMANNProvider \<Rightarrow> 'w list \<Rightarrow> real list result" where
  "dma_infer_raw_input_vector k m wls =
     (if \<not> dma_runtime_initialized m then Inr (replicate (length wls) default_NN_output)
      else
        bind_result (dma_transformBatch m wls (dma_batch_size m)) (\<lambda>descriptor_for_all.
        bind_result (dma_infer_batches m descriptor_for_all (length wls) 0) (\<lambda>results_buffer.
          Inr (map2 (\<lambda>wl nn_wl. float_u32 (dma_process k (dma_post_processing m) wl nn_wl)) wls results_buffer))))"

definition dma_infer_vector :: "'w DMADesc \<Rightarrow> 'w DMANNProvider \<Rightarrow> 'w list \<Rightarrow> CyclesInterfaceType list result" where
  "dma_infer_vector k m wls =
     bind_result (dma_infer_raw_input_vector k m wls) (\<lambda>NN_results.
       Inr (map2 (\<lambda>wl nn_output_cycles.
              if dma_NN_value_invalid (dma_post_processing m) nn_output_cycles then ERROR_INVALID_OUTPUT_RANGE
              else dma_process k (dma_post_processing m) wl nn_output_cycles) wls NN_results))"

definition dmann_get_cost_vector :: "'w DMADesc \<Rightarrow> 'w DMANNProvider \<Rightarrow> 'w list \<Rightarrow> CyclesInterfaceType list result" where
  "dmann_get_cost_vector k m wls =
     (if \<not> dma_runtime_initialized m then Inr (replicate (length wls) ERROR_INFERENCE_NOT_POSSIBLE)
      else dma_infer_vector k m wls)"

section \<open>Construction\<close>

definition dma_init_preproc :: "'w DMADesc \<Rightarrow> ModelVersion \<Rightarrow> string \<Rightarrow> ('w \<Rightarrow> real list result) result" where
  "dma_init_preproc k v filename =
     (if dma_exists_preprocessing k (input_version v) then dma_make_preprocessing k (input_version v)
      else Inl (runtime_error
        (''Cannot create preprocessing stage!.Preprocessing with version ('' @ to_string (input_version v) @
         '') is not known/supported. Filename: '' @ filename @ '' , Version info (raw): '' @ full_raw_name v)))"

definition dma_init_postproc :: "ModelVersion \<Rightarrow> string \<Rightarrow> DmaPostProcess result" where
  "dma_init_postproc v filename =
     (if dma_exists_postprocessing (output_version v) then dma_make_postprocessing (output_version v)
      else Inl (runtime_error
        (''Cannot create post processing stage!.Post processing with version ('' @ to_string (output_version v) @
         '') is not known/supported. Filename: '' @ filename @ '' , Version info (raw): '' @ full_raw_name v)))"

definition dma_check_post_config :: "ModelVersion \<Rightarrow> unit result" where
  "dma_check_post_config v =
     (if full_raw_name v = ''none'' then Inr ()
      else if \<not> dma_output_supported (output_version v) then
        Inl (runtime_error
          (''Cannot load/handle Models output version. The output version: ('' @ to_string (output_version v) @
           '') is not known/supported. Version info (raw):'' @ full_raw_name v))
      else Inr ())"

end
