(* ===== verification/Dma_Cost_Model.thy ===== *)
theory Dma_Cost_Model
  imports Dma_Nn
begin

text \<open>
  \<open>DMACostModel\<close> of \<^verbatim>\<open>src/vpu_dma_cost_model.cpp\<close> and the providers it asks in order of priority
  (\<^verbatim>\<open>dmann_adapter.h\<close>, \<^verbatim>\<open>priority_dma_cost_provider.h\<close>, \<^verbatim>\<open>dma_cost_provider_bundles.h\<close>): the network first, then the theoretical
  model on a plain transfer made of the workload. Valid costs of the providers are kept, as \<open>float\<close>, in a cache of the model.

  The state are both caches: that of the cost model, keyed by the workload, and that of the network, keyed by its descriptor.
  The profiling service is an argument, a function from the workload to cycles, a text and the name of its backend. The
  CSV file of queries is left out.
\<close>

section \<open>Providers\<close>

record 'w DmaState =
  cost_cache :: "('w, real) LRUCache"
  nn_cache :: descriptor_cache

datatype 'w dma_provider =
    NN_adapter "'w DMANNProvider"
  | Theoretical_adapter

definition adapter_get_cost ::
  "'w DMADesc \<Rightarrow> 'w dma_provider \<Rightarrow> 'w \<Rightarrow> string \<Rightarrow> descriptor_cache \<Rightarrow> (CyclesInterfaceType \<times> string \<times> descriptor_cache) result" where
  "adapter_get_cost k p wl cost_source c =
     (case p of
        NN_adapter m \<Rightarrow> dmann_get_cost k m wl cost_source c
      | Theoretical_adapter \<Rightarrow>
          bind_result (desc_to_DMAWorkload k wl) (\<lambda>new_wl.
          bind_result (dma_theoretical_cost new_wl) (\<lambda>cycles. Inr (cycles, ''theoretical'', c))))"

definition adapter_initialized :: "'w dma_provider \<Rightarrow> bool" where
  "adapter_initialized p = (case p of NN_adapter m \<Rightarrow> dma_runtime_initialized m | Theoretical_adapter \<Rightarrow> False)"

definition createDefaultDMACostProviders :: "'w DMANNProvider \<Rightarrow> 'w dma_provider list" where
  "createDefaultDMACostProviders m = [NN_adapter m, Theoretical_adapter]"

definition createNNOnlyProviders :: "'w DMANNProvider \<Rightarrow> 'w dma_provider list" where
  "createNNOnlyProviders m = [NN_adapter m]"

definition createTheoreticalOnlyProviders :: "'w dma_provider list" where
  "createTheoreticalOnlyProviders = [Theoretical_adapter]"

fun priority_get_cost ::
  "'w DMADesc \<Rightarrow> 'w dma_provider list \<Rightarrow> 'w \<Rightarrow> string \<Rightarrow> descriptor_cache \<Rightarrow> (CyclesInterfaceType \<times> string \<times> descriptor_cache) result" where
  "priority_get_cost k [] workload cost_source c = Inr (ERROR_NO_VALID_DMA_COST_PROVIDER, ''unknown'', c)"
| "priority_get_cost k (p # ps) workload cost_source c =
     bind_result (adapter_get_cost k p workload cost_source c) (\<lambda>(result, cost_source, c).
       if \<not> isErrorCode result then Inr (result, cost_source, c)
       else priority_get_cost k ps workload cost_source c)"

definition has_nn_initialized :: "'w dma_provider list \<Rightarrow> bool" where
  "has_nn_initialized ps \<longleftrightarrow> list_ex adapter_initialized ps"

section \<open>The cost model\<close>

record 'w DMACostModel =
  dma_kind :: "'w DMADesc"
  dma_cost_provider :: "'w dma_provider list"
  http_dma_cost_provider :: "('w \<Rightarrow> CyclesInterfaceType \<times> string \<times> string) option"
  profilingAutoHintGate :: ProfilingAutoHintGate

definition dma_nn_initialized :: "'w DMACostModel \<Rightarrow> bool" where
  "dma_nn_initialized cm \<longleftrightarrow> has_nn_initialized (dma_cost_provider cm)"

definition dma_setProfilingEnabledForAutoHint :: "bool \<Rightarrow> 'w DMACostModel \<Rightarrow> 'w DMACostModel" where
  "dma_setProfilingEnabledForAutoHint v cm = cm\<lparr>profilingAutoHintGate := gate_set v (profilingAutoHintGate cm)\<rparr>"

definition dma_try_cache ::
  "'w DMACostModel \<Rightarrow> 'w \<Rightarrow> string \<Rightarrow> 'w DmaState \<Rightarrow> (CyclesInterfaceType \<times> string \<times> 'w DmaState) result" where
  "dma_try_cache cm workload cost_source st =
     bind_result (lru_get (desc_hash (dma_kind cm)) (desc_key (dma_kind cm) workload) (cost_cache st)) (\<lambda>(cached_cost, c).
       case cached_cost of
         Some (v, found_in) \<Rightarrow> Inr (word_of_int \<lfloor>v\<rfloor>, found_in, st\<lparr>cost_cache := c\<rparr>)
       | None \<Rightarrow> Inr (ERROR_CACHE_MISS, cost_source, st\<lparr>cost_cache := c\<rparr>))"

definition dma_try_profiling :: "'w DMACostModel \<Rightarrow> 'w \<Rightarrow> string \<Rightarrow> string \<Rightarrow> CyclesInterfaceType \<times> string \<times> string" where
  "dma_try_profiling cm workload info_text cost_source =
     (case http_dma_cost_provider cm of
        Some http \<Rightarrow>
          (case http workload of (cycles, info_text, backend) \<Rightarrow> (cycles, info_text, ''profiling_service_'' @ backend))
      | None \<Rightarrow> (ERROR_PROFILING_SERVICE, info_text, cost_source))"

definition dma_try_priority_provider ::
  "'w DMACostModel \<Rightarrow> 'w \<Rightarrow> string \<Rightarrow> 'w DmaState \<Rightarrow> (CyclesInterfaceType \<times> string \<times> string \<times> 'w DmaState) result" where
  "dma_try_priority_provider cm workload cost_source st =
     bind_result (priority_get_cost (dma_kind cm) (dma_cost_provider cm) workload cost_source (nn_cache st))
       (\<lambda>(cycles, cost_source, nn).
          let st = st\<lparr>nn_cache := nn\<rparr>
          in if \<not> isErrorCode cycles then
               bind_result (lru_add (desc_hash (dma_kind cm)) (desc_key (dma_kind cm) workload) (float_u32 cycles) (cost_cache st))
                 (\<lambda>c. Inr (cycles, '''', cost_source, st\<lparr>cost_cache := c\<rparr>))
             else Inr (cycles, '''', cost_source, st))"

definition dma_run_cost_providers ::
  "'w DMACostModel \<Rightarrow> 'w \<Rightarrow> string \<Rightarrow> string \<Rightarrow> 'w DmaState \<Rightarrow> (CyclesInterfaceType \<times> string \<times> string \<times> 'w DmaState) result" where
  "dma_run_cost_providers cm workload info_text cost_source st =
     bind_result (dma_try_cache cm workload cost_source st) (\<lambda>(cached_cost, cost_source, st).
       if \<not> isErrorCode cached_cost then Inr (cached_cost, info_text, cost_source, st)
       else
         let (cycles, info_text, cost_source) =
               (if gate_enabled (profilingAutoHintGate cm) then dma_try_profiling cm workload info_text cost_source
                else (ERROR_PROFILING_SERVICE, info_text, cost_source))
         in if isErrorCode cycles then dma_try_priority_provider cm workload cost_source st
            else Inr (cycles, info_text, cost_source, st))"

definition dma_Execute_and_sanitize ::
  "'w DMACostModel \<Rightarrow> 'w \<Rightarrow> 'w DmaState \<Rightarrow> (CyclesInterfaceType \<times> string \<times> string \<times> 'w DmaState) result" where
  "dma_Execute_and_sanitize cm wl st = dma_run_cost_providers cm wl '''' ''unknown'' st"

definition dma_computeCycles :: "'w DMACostModel \<Rightarrow> 'w \<Rightarrow> 'w DmaState \<Rightarrow> (CyclesInterfaceType \<times> 'w DmaState) result" where
  "dma_computeCycles cm wl st =
     bind_result (dma_Execute_and_sanitize cm wl st) (\<lambda>(cycles, info_text, cost_source, st). Inr (cycles, st))"

definition dma_computeCyclesMsg :: "'w DMACostModel \<Rightarrow> 'w \<Rightarrow> 'w DmaState \<Rightarrow> ((CyclesInterfaceType \<times> string) \<times> 'w DmaState) result" where
  "dma_computeCyclesMsg cm wl st =
     bind_result (dma_Execute_and_sanitize cm wl st) (\<lambda>(cycles, info_text, cost_source, st). Inr ((cycles, info_text), st))"

definition dma_computeCyclesSource ::
  "'w DMACostModel \<Rightarrow> 'w \<Rightarrow> 'w DmaState \<Rightarrow> ((CyclesInterfaceType \<times> string \<times> string) \<times> 'w DmaState) result" where
  "dma_computeCyclesSource cm wl st =
     bind_result (dma_Execute_and_sanitize cm wl st) (\<lambda>(cycles, info_text, cost_source, st). Inr ((cycles, info_text, cost_source), st))"

end
