(* ===== verification/Float_Exec.thy ===== *)
theory Float_Exec
  imports Float_Single Float_Double
begin

text \<open>
  An executable form of the exponent of a \<open>float\<close>: the rounded logarithm in the definitions of \<open>to_float32\<close>, \<open>to_float64\<close> and \<open>show_float\<close> is computed
  on whole numbers, so that a concrete run of the validation can be evaluated.
\<close>

function int_log :: "int \<Rightarrow> int \<Rightarrow> nat" where
  "int_log b n = (if 1 < b \<and> b \<le> n then Suc (int_log b (n div b)) else 0)"
  by auto
termination
  by (relation "measure (\<lambda>(b, n). nat n)") (auto simp: int_div_less_self nat_less_eq_zless)

declare int_log.simps [simp del]

lemma int_log_bounds: "1 < b \<Longrightarrow> 1 \<le> n \<Longrightarrow> b ^ int_log b n \<le> n \<and> n < b ^ Suc (int_log b n)"
proof (induction b n rule: int_log.induct)
  case (1 b n)
  show ?case
  proof (cases "b \<le> n")
    case True
    have "1 \<le> n div b" using True 1 by (simp add: pos_imp_zdiv_pos_iff int_one_le_iff_zero_less)
    then have ih: "b ^ int_log b (n div b) \<le> n div b" "n div b < b ^ Suc (int_log b (n div b))" using 1 True by auto
    have "b * (n div b) + n mod b = n" "0 \<le> n mod b" "n mod b < b" using "1.prems"(1) by simp_all
    then have "b * (n div b) \<le> n" "n < b * (n div b + 1)" unfolding distrib_left mult_1_right by linarith+
    moreover have "b * b ^ int_log b (n div b) \<le> b * (n div b)" using ih(1) "1.prems"(1) by (intro mult_left_mono) simp_all
    moreover have "b * (n div b + 1) \<le> b * b ^ Suc (int_log b (n div b))" using ih(2) "1.prems"(1) by (intro mult_left_mono) linarith+
    ultimately have "b * b ^ int_log b (n div b) \<le> n" "n < b * b ^ Suc (int_log b (n div b))" by linarith+
    then show ?thesis using True "1.prems"(1) by (simp add: int_log.simps [of b n])
  next
    case False
    then show ?thesis using "1.prems" by (simp add: int_log.simps [of b n])
  qed
qed

definition exponent_of :: "int \<Rightarrow> real \<Rightarrow> int" where
  "exponent_of b x = (if 1 \<le> x then int (int_log b \<lfloor>x\<rfloor>) else - int (Suc (int_log b (\<lceil>1 / x\<rceil> - 1))))"

lemma floor_log_between:
  assumes "1 < b" "real b ^ k \<le> x" "x < real b ^ Suc k"
  shows "\<lfloor>log (real b) x\<rfloor> = int k"
proof -
  have x: "0 < x" using assms(1,2) by (smt (verit) of_nat_0_less_iff zero_less_power less_trans zero_less_one)
  have "real k \<le> log (real b) x" using assms(1,2) x by (simp add: le_log_of_power)
  moreover have "log (real b) x < real (Suc k)" using assms(1,3) x by (subst log_less_iff) (simp_all add: powr_realpow del: power_Suc of_nat_Suc)
  ultimately show ?thesis by (simp add: floor_eq_iff)
qed

lemma floor_log_exponent:
  assumes "1 < b" "0 < x"
  shows "\<lfloor>log (real b) x\<rfloor> = exponent_of (int b) x"
proof (cases "1 \<le> x")
  case True
  define k where "k = int_log (int b) \<lfloor>x\<rfloor>"
  have k: "int b ^ k \<le> \<lfloor>x\<rfloor>" "\<lfloor>x\<rfloor> + 1 \<le> int b ^ Suc k"
    using int_log_bounds [of "int b" "\<lfloor>x\<rfloor>"] assms(1) True unfolding k_def by (simp_all add: le_floor_iff)
  have "real b ^ k \<le> x" using k(1) by (simp add: le_floor_iff)
  moreover have "real_of_int (\<lfloor>x\<rfloor> + 1) \<le> real_of_int (int b ^ Suc k)" using k(2) by (simp only: of_int_le_iff)
  then have "x < real b ^ Suc k" using real_of_int_floor_add_one_gt [of x] by (simp del: power_Suc) linarith
  ultimately have "\<lfloor>log (real b) x\<rfloor> = int k" by (rule floor_log_between [OF assms(1)])
  then show ?thesis using True by (simp add: exponent_of_def k_def)
next
  case False
  define y where "y = 1 / x"
  define k where "k = int_log (int b) (\<lceil>y\<rceil> - 1)"
  have y: "1 < y" using False assms(2) by (simp add: y_def)
  then have c: "2 \<le> \<lceil>y\<rceil>" by linarith
  have k: "int b ^ k \<le> \<lceil>y\<rceil> - 1" "\<lceil>y\<rceil> \<le> int b ^ Suc k"
    using int_log_bounds [of "int b" "\<lceil>y\<rceil> - 1"] assms(1) c unfolding k_def by simp_all
  have "real_of_int (int b ^ k) \<le> real_of_int (\<lceil>y\<rceil> - 1)" using k(1) by (simp only: of_int_le_iff)
  then have lo: "real b ^ k < y" using ceiling_correct [of y] by simp
  have hi: "y \<le> real b ^ Suc k" using k(2) by (simp add: ceiling_le_iff del: power_Suc)
  have "real k < log (real b) y" "log (real b) y \<le> real (Suc k)"
    using lo hi assms(1) y by (simp_all add: less_log_iff log_le_iff powr_realpow del: power_Suc of_nat_Suc)
  moreover have "log (real b) x = - log (real b) y" using assms(2) by (simp add: y_def log_divide)
  ultimately have "\<lfloor>log (real b) x\<rfloor> = - int (Suc k)" by (simp add: floor_eq_iff)
  then show ?thesis using False by (simp add: exponent_of_def k_def y_def)
qed

lemma to_float32_code [code]:
  "to_float32 x =
     (if x = 0 then 0
      else let quantum = 2 powi (max (exponent_of 2 \<bar>x\<bar>) (- 126) - 23)
           in of_int (round_half_even (x / quantum)) * quantum)"
  using floor_log_exponent [of 2 "\<bar>x\<bar>"] by (simp add: to_float32_def)

lemma to_float64_code [code]:
  "to_float64 x =
     (if x = 0 then 0
      else let quantum = 2 powi (max (exponent_of 2 \<bar>x\<bar>) (- 1022) - 52)
           in of_int (round_half_even (x / quantum)) * quantum)"
  using floor_log_exponent [of 2 "\<bar>x\<bar>"] by (simp add: to_float64_def)

lemma show_float_code [code]:
  "show_float x =
     (if x = 0 then ''0''
      else let e = exponent_of 10 \<bar>x\<bar>;
               m = round_half_even (\<bar>x\<bar> * 10 powi (5 - e))
           in (if x < 0 then ''-'' else '''') @
              (if m = 1000000 then show_digits 100000 (e + 1) else show_digits m e))"
  using floor_log_exponent [of 10 "\<bar>x\<bar>"] by (simp add: show_float_def)

end
