(* ===== verification/Dma_Nn_Laws.thy ===== *)
theory Dma_Nn_Laws
  imports Dma_Cost_Model Nn_Provider_Laws Float_Exec
begin

text \<open>
  What the network sees of a transfer and how its cost is kept. The descriptor of a transfer is its numbers as \<open>float\<close> and its enumerations
  one-hot; it is written without an exception exactly if the enumerations are proper, and for numbers of at most 24 bits it determines
  the transfer, except for its name and its device. The cost model answers from its cache what it answered before.
\<close>

section \<open>Descriptors\<close>

abbreviation float_int :: "int \<Rightarrow> real" where
  "float_int i \<equiv> to_float32 (of_int i)"

lemma direction_converted:
  "convert_enum MemoryDirection_ToText (enum_of_names intf_dma_01x_MemoryDirection) (pos_direction d) =
     (if d = MemoryDirection.enum_size then Inl (unknown_value 4) else Inr (pos_direction d))"
  by (cases d; hypsubst; code_simp)

lemma engine_converted:
  "convert_enum Num_DMA_Engine_ToText (enum_of_names intf_dma_01x_Num_DMA_Engine) (pos_engine e) =
     (if e = Num_DMA_Engine.enum_size then Inl (unknown_value 2) else Inr (pos_engine e))"
  by (cases e; hypsubst; code_simp)

definition hot_direction :: "MemoryDirection \<Rightarrow> real list" where
  "hot_direction d = hot (nat (pos_direction d)) 4"

definition hot_engine :: "Num_DMA_Engine \<Rightarrow> real list" where
  "hot_engine e = hot (nat (pos_engine e)) 2"

lemma direction_position:
  "pos_direction d = (case d of DDR2CMX \<Rightarrow> 0 | CMX2CMX \<Rightarrow> 1 | CMX2DDR \<Rightarrow> 2 | DDR2DDR \<Rightarrow> 3 | MemoryDirection.enum_size \<Rightarrow> 4)"
  by (cases d) (simp_all add: MemoryDirection_enum_def)

lemma engine_position: "pos_engine e = (case e of Num_Engine_1 \<Rightarrow> 0 | Num_Engine_2 \<Rightarrow> 1 | Num_DMA_Engine.enum_size \<Rightarrow> 2)"
  by (cases e) (simp_all add: Num_DMA_Engine_enum_def)

lemma positions:
  "d \<noteq> MemoryDirection.enum_size \<Longrightarrow> nat (pos_direction d) < 4" "e \<noteq> Num_DMA_Engine.enum_size \<Longrightarrow> nat (pos_engine e) < 2"
  by (cases d; simp add: direction_position) (cases e; simp add: engine_position)

lemma category_sizes: "length intf_dma_01x_MemoryDirection = 4" "length intf_dma_01x_Num_DMA_Engine = 2"
  by (simp_all add: intf_dma_01x_MemoryDirection_def intf_dma_01x_Num_DMA_Engine_def)

lemma appends_direction: "d \<noteq> MemoryDirection.enum_size \<Longrightarrow> appends (insert_direction d) (hot_direction d)"
  using appends_converted [of _ "pos_direction d" 4] positions(1) [of d]
  by (simp add: insert_direction_def hot_direction_def direction_converted category_sizes)

lemma appends_engine: "e \<noteq> Num_DMA_Engine.enum_size \<Longrightarrow> appends (insert_engine e) (hot_engine e)"
  using appends_converted [of _ "pos_engine e" 2] positions(2) [of e]
  by (simp add: insert_engine_def hot_engine_def engine_converted category_sizes)

lemma insert_direction_throws: "insert_direction MemoryDirection.enum_size st = Inl (unknown_value 4)"
  by (simp add: insert_direction_def insert_converted_def direction_converted)

lemma insert_engine_throws: "insert_engine Num_DMA_Engine.enum_size st = Inl (unknown_value 2)"
  by (simp add: insert_engine_def insert_converted_def engine_converted)

lemma appends_ints: "list_all2 appends (map insert_int xs) (map (\<lambda>i. [float_int i]) xs)"
  by (induction xs) (simp_all add: appends_numbers)

lemma concat_ints: "concat (map (\<lambda>i. [f i]) xs) = map f xs"
  by (induction xs) simp_all

lemma descriptor_of_ints:
  assumes "list_all2 appends fs xss" "length xs + length (concat xss) = n"
  shows "generate_descriptor n (map insert_int xs @ fs) = Inr (map float_int xs @ concat xss)"
  using descriptor_of_chunks [of "map insert_int xs @ fs" "map (\<lambda>i. [float_int i]) xs @ xss" n]
    list_all2_appendI [OF appends_ints assms(1)] assms(2) by (simp add: concat_ints)

lemma written_ints:
  assumes "length xs \<le> n"
  shows "\<exists>st. insert_all (map insert_int xs) (replicate n 0, 0) = Inr st"
proof -
  have "appends (insert_all (map insert_int xs)) (map float_int xs)"
    using appends_all [OF appends_ints, of xs] by (simp add: concat_ints)
  then have "insert_all (map insert_int xs) ([] @ replicate (length (map float_int xs) + (n - length xs)) 0, length ([] :: real list)) =
      Inr ([] @ map float_int xs @ replicate (n - length xs) 0, length ([] :: real list) + length (map float_int xs))"
    unfolding appends_def by (elim allE)
  then show ?thesis using assms by simp
qed

lemma descriptor_throws:
  assumes "length xs \<le> n" "\<And>st. f st = Inl e"
  shows "generate_descriptor n (map insert_int xs @ f # gs) = Inl e"
proof -
  obtain st where "insert_all (map insert_int xs) (replicate n 0, 0) = Inr st" using written_ints [OF assms(1)] by blast
  then show ?thesis using insert_all_throws [where f = f] assms(2) by (simp add: generate_descriptor_def)
qed

section \<open>The three descriptors\<close>

definition numbers_01 :: "DMANNWorkload_NPU27 \<Rightarrow> int list" where
  "numbers_01 w = [num_planes w, n27_length w, n27_src_width w, n27_dst_width w, n27_src_stride w, n27_dst_stride w,
     src_plane_stride w, dst_plane_stride w]"

definition numbers_02 :: "DMANNWorkload_NPU40_50 \<Rightarrow> int list" where
  "numbers_02 w = [dst_width w, src_width w, num_dim w] @
     concat (map (\<lambda>d. [dst_stride d, src_stride d, dst_dim_size d, src_dim_size d]) (e_dim w))"

definition numbers_03 :: "DMANNWorkload_NPU40_50 \<Rightarrow> int list" where
  "numbers_03 w = [num_dim w, dst_width w, src_width w] @ map dst_dim_size (e_dim w) @ map src_dim_size (e_dim w) @
     map dst_stride (e_dim w) @ map src_stride (e_dim w)"

lemma length_hots [simp]: "length (hot_direction d) = 4" "length (hot_engine e) = 2"
  by (simp_all add: hot_direction_def hot_engine_def)

lemma length_numbers [simp]:
  "length (numbers_01 w) = 8" "length (numbers_02 v) = 3 + 4 * length (e_dim v)" "length (numbers_03 v) = 3 + 4 * length (e_dim v)"
proof -
  have "length (concat (map (\<lambda>d. [dst_stride d, src_stride d, dst_dim_size d, src_dim_size d]) ds)) = 4 * length ds" for ds :: "SizeStride list"
    by (induction ds) simp_all
  then show "length (numbers_01 w) = 8" "length (numbers_02 v) = 3 + 4 * length (e_dim v)" "length (numbers_03 v) = 3 + 4 * length (e_dim v)"
    by (simp_all add: numbers_01_def numbers_02_def numbers_03_def)
qed

lemma descriptor_01:
  "Preprocessing_Interface01_DMA w =
     (if n27_transfer_direction w = MemoryDirection.enum_size then Inl (unknown_value 4)
      else Inr (map float_int (numbers_01 w) @ hot_direction (n27_transfer_direction w)))"
  using descriptor_of_ints [of "[insert_direction (n27_transfer_direction w)]" "[hot_direction (n27_transfer_direction w)]" "numbers_01 w" 12]
    descriptor_throws [of "numbers_01 w" 12 "insert_direction (n27_transfer_direction w)" "unknown_value 4" "[]"]
  by (auto simp: Preprocessing_Interface01_DMA_def numbers_01_def [symmetric] appends_direction insert_direction_throws)

lemma descriptor_02:
  assumes "length (e_dim w) = 5"
  shows "Preprocessing_Interface02_DMA w =
     (if num_engine w = Num_DMA_Engine.enum_size then Inl (unknown_value 2)
      else if transfer_direction w = MemoryDirection.enum_size then Inl (unknown_value 4)
      else Inr (map float_int (numbers_02 w) @ hot_engine (num_engine w) @ hot_direction (transfer_direction w)))"
proof -
  let ?e = "insert_engine (num_engine w)" and ?d = "insert_direction (transfer_direction w)"
  have p: "Preprocessing_Interface02_DMA w = generate_descriptor 29 (map insert_int (numbers_02 w) @ [?e, ?d])"
    by (simp add: Preprocessing_Interface02_DMA_def numbers_02_def)
  consider "num_engine w = Num_DMA_Engine.enum_size"
    | "num_engine w \<noteq> Num_DMA_Engine.enum_size" "transfer_direction w = MemoryDirection.enum_size"
    | "num_engine w \<noteq> Num_DMA_Engine.enum_size" "transfer_direction w \<noteq> MemoryDirection.enum_size" by blast
  then show ?thesis
  proof cases
    case 1
    then show ?thesis unfolding p using descriptor_throws [of "numbers_02 w" 29 ?e "unknown_value 2" "[?d]"] assms
      by (simp add: insert_engine_throws)
  next
    case 2
    have "\<exists>st. insert_all (map insert_int (numbers_02 w) @ [?e]) (replicate 29 0, 0) = Inr st"
    proof -
      have "appends (insert_all (map insert_int (numbers_02 w) @ [?e])) (map float_int (numbers_02 w) @ hot_engine (num_engine w))"
        using appends_all [OF list_all2_appendI [OF appends_ints], of "[?e]" "[hot_engine (num_engine w)]" "numbers_02 w"]
          appends_engine 2(1) by (simp add: concat_ints)
      then have "insert_all (map insert_int (numbers_02 w) @ [?e]) ([] @ replicate (length (map float_int (numbers_02 w) @ hot_engine (num_engine w)) + 4) 0, length ([] :: real list)) =
          Inr ([] @ (map float_int (numbers_02 w) @ hot_engine (num_engine w)) @ replicate 4 0, length ([] :: real list) + length (map float_int (numbers_02 w) @ hot_engine (num_engine w)))"
        unfolding appends_def by (elim allE)
      then show ?thesis using assms by (simp add: numeral_eq_Suc)
    qed
    then obtain st where "insert_all (map insert_int (numbers_02 w) @ [?e]) (replicate 29 0, 0) = Inr st" by blast
    then show ?thesis
      unfolding p using insert_all_throws [of "map insert_int (numbers_02 w) @ [?e]" _ st ?d "unknown_value 4" "[]"] 2 by (simp add: generate_descriptor_def insert_direction_throws)
  next
    case 3
    then show ?thesis
      unfolding p using descriptor_of_ints [of "[?e, ?d]" "[hot_engine (num_engine w), hot_direction (transfer_direction w)]" "numbers_02 w" 29]
        assms by (simp add: appends_engine appends_direction)
  qed
qed

lemma descriptor_03:
  assumes "length (e_dim w) = 5"
  shows "Preprocessing_Interface03_DMA w =
     (if transfer_direction w = MemoryDirection.enum_size then Inl (unknown_value 4)
      else Inr (map float_int (numbers_03 w) @ hot_direction (transfer_direction w)))"
proof -
  have p: "Preprocessing_Interface03_DMA w = generate_descriptor 27 (map insert_int (numbers_03 w) @ [insert_direction (transfer_direction w)])"
    by (simp add: Preprocessing_Interface03_DMA_def numbers_03_def)
  show ?thesis
    unfolding p
    using descriptor_of_ints [of "[insert_direction (transfer_direction w)]" "[hot_direction (transfer_direction w)]" "numbers_03 w" 27]
      descriptor_throws [of "numbers_03 w" 27 "insert_direction (transfer_direction w)" "unknown_value 4" "[]"] assms
    by (auto simp: appends_direction insert_direction_throws)
qed

section \<open>What a descriptor determines\<close>

definition float_exact :: "int list \<Rightarrow> bool" where
  "float_exact is \<longleftrightarrow> list_all (\<lambda>i. \<bar>i\<bar> < 16777216) is"

lemma float_ints: "float_exact is \<Longrightarrow> map float_int is = map real_of_int is"
  by (rule map_cong [OF refl]) (auto simp: float_exact_def list_all_iff intro: to_float32_of_int)

lemma float_ints_injective: "float_exact is \<Longrightarrow> float_exact js \<Longrightarrow> map float_int is = map float_int js \<Longrightarrow> is = js"
  unfolding float_ints by (rule map_injective) (auto intro: injI)

lemma hot_direction_injective:
  "d \<noteq> MemoryDirection.enum_size \<Longrightarrow> d' \<noteq> MemoryDirection.enum_size \<Longrightarrow> hot_direction d = hot_direction d' \<Longrightarrow> d = d'"
  using hot_eq_iff [OF positions(1) positions(1), of d d']
  by (cases d; cases d') (simp_all add: hot_direction_def direction_position)

lemma hot_engine_injective:
  "e \<noteq> Num_DMA_Engine.enum_size \<Longrightarrow> e' \<noteq> Num_DMA_Engine.enum_size \<Longrightarrow> hot_engine e = hot_engine e' \<Longrightarrow> e = e'"
  using hot_eq_iff [OF positions(2) positions(2), of e e']
  by (cases e; cases e') (simp_all add: hot_engine_def engine_position)

lemma dims_02:
  "length ds = length es \<Longrightarrow>
   concat (map (\<lambda>d. [dst_stride d, src_stride d, dst_dim_size d, src_dim_size d]) ds) =
     concat (map (\<lambda>d. [dst_stride d, src_stride d, dst_dim_size d, src_dim_size d]) es) \<Longrightarrow> ds = (es :: SizeStride list)"
  by (induction ds es rule: list_induct2) auto

lemma descriptor_02_determines:
  assumes "length (e_dim v) = 5" "length (e_dim w) = 5" "float_exact (numbers_02 v)" "float_exact (numbers_02 w)"
    "Preprocessing_Interface02_DMA v = Inr d" "Preprocessing_Interface02_DMA w = Inr d"
  shows "w = v\<lparr>n40_device := n40_device w, loc_name := loc_name w\<rparr>"
proof -
  have parts: "map float_int (numbers_02 v) @ hot_engine (num_engine v) @ hot_direction (transfer_direction v) =
      map float_int (numbers_02 w) @ hot_engine (num_engine w) @ hot_direction (transfer_direction w)"
    "num_engine v \<noteq> Num_DMA_Engine.enum_size" "num_engine w \<noteq> Num_DMA_Engine.enum_size"
    "transfer_direction v \<noteq> MemoryDirection.enum_size" "transfer_direction w \<noteq> MemoryDirection.enum_size"
    using assms(5,6) unfolding descriptor_02 [OF assms(1)] descriptor_02 [OF assms(2)] by (auto split: if_splits)
  have "map float_int (numbers_02 v) = map float_int (numbers_02 w)" "hot_engine (num_engine v) = hot_engine (num_engine w)"
    "hot_direction (transfer_direction v) = hot_direction (transfer_direction w)"
    using parts(1) assms(1,2) by simp_all
  then have same: "numbers_02 v = numbers_02 w" "num_engine v = num_engine w" "transfer_direction v = transfer_direction w"
    using float_ints_injective [OF assms(3,4)] hot_engine_injective [OF parts(2,3)] hot_direction_injective [OF parts(4,5)] by simp_all
  have "e_dim v = e_dim w" using same(1) assms(1,2) by (intro dims_02) (simp_all add: numbers_02_def)
  then show ?thesis using same by (auto simp: numbers_02_def)
qed


definition sample_nn_transfer :: DMANNWorkload_NPU40_50 where
  "sample_nn_transfer = \<lparr>n40_device = VPU_4_0, src_width = 4096, dst_width = 2048, num_dim = 1,
     e_dim = \<lparr>src_stride = 0, dst_stride = 4096, src_dim_size = 0, dst_dim_size = 1\<rparr> # tl no_extra_dims, num_engine = Num_Engine_1,
     transfer_direction = DDR2CMX, loc_name = ''''\<rparr>"


text \<open>Beyond 24 bits the network cannot tell transfers apart: these two have the same descriptor, and so the same cost.\<close>

lemma large_transfers_same_descriptor:
  "Preprocessing_Interface02_DMA (sample_nn_transfer\<lparr>src_width := 16777217\<rparr>) =
   Preprocessing_Interface02_DMA (sample_nn_transfer\<lparr>src_width := 16777216\<rparr>)"
proof -
  have five: "length (e_dim (sample_nn_transfer\<lparr>src_width := n\<rparr>)) = 5" for n
    by (simp add: sample_nn_transfer_def no_extra_dims_def MaxExtraDimensions_def)
  have "float_int 16777217 = float_int 16777216" by code_simp
  then show ?thesis unfolding descriptor_02 [OF five] by (simp add: numbers_02_def)
qed

section \<open>The cost from the cache\<close>

definition cached_dma_cost :: "'w DMACostModel \<Rightarrow> 'w \<Rightarrow> 'w DmaState \<Rightarrow> real option" where
  "cached_dma_cost cm wl st =
     (let c = cost_cache st; k = desc_key (dma_kind cm) wl
      in case map_of (fc_map (deserialized_table c)) (desc_hash (dma_kind cm) k) of
           Some v \<Rightarrow> Some v
         | None \<Rightarrow> map_of (entries c) k)"

lemma dma_try_cache_spec:
  assumes "lru_inv (cost_cache st)"
  obtains c src where
    "dma_try_cache cm wl s st = Inr
       (case cached_dma_cost cm wl st of None \<Rightarrow> (ERROR_CACHE_MISS, s, st\<lparr>cost_cache := c\<rparr>)
        | Some v \<Rightarrow> (word_of_int \<lfloor>v\<rfloor>, src, st\<lparr>cost_cache := c\<rparr>))"
    "lru_inv c" "max_size c = max_size (cost_cache st)" "cached_dma_cost cm wl (st\<lparr>cost_cache := c\<rparr>) = cached_dma_cost cm wl st"
    "fc_map (deserialized_table c) = fc_map (deserialized_table (cost_cache st))"
proof -
  let ?h = "desc_hash (dma_kind cm)" and ?k = "desc_key (dma_kind cm) wl"
  obtain c where c: "lru_get ?h ?k (cost_cache st) =
      Inr (case map_of (fc_map (deserialized_table (cost_cache st))) (?h ?k) of Some v \<Rightarrow> Some (v, ''fixed_cache'')
       | None \<Rightarrow> map_option (\<lambda>v. (v, ''dyn_cache'')) (map_of (entries (cost_cache st)) ?k), c)"
    "lru_inv c" "max_size c = max_size (cost_cache st)" "fc_map (deserialized_table c) = fc_map (deserialized_table (cost_cache st))"
    "entries c = entries (cost_cache st) \<or> entries c = touch ?k (entries (cost_cache st))"
    using lru_lookup [OF assms] by blast
  have same: "map_of (entries c) ?k = map_of (entries (cost_cache st)) ?k" using c(5) touch_lookup by auto
  show thesis
    by (rule that [OF _ c(2,3) _ c(4), where src = "case map_of (fc_map (deserialized_table (cost_cache st))) (?h ?k) of
          Some v \<Rightarrow> ''fixed_cache'' | None \<Rightarrow> ''dyn_cache''"])
      (auto simp: dma_try_cache_def c(1,4) same cached_dma_cost_def Let_def split: option.splits)
qed

lemma float_u32_back:
  assumes "unat c < 2 ^ 24"
  shows "word_of_int \<lfloor>float_u32 c\<rfloor> = c"
proof -
  have "uint c = int (unat c)" "unat c < 16777216" using assms by simp_all
  then have "uint c < 16777216" by linarith
  then have "to_float32 (of_int (uint c)) = of_int (uint c)" by (intro to_float32_of_int) simp
  then show ?thesis by (simp only: float_u32_def floor_of_int word_of_int_uint)
qed

text \<open>
  C27. The transfer cost model repeats itself. With the profiling service off, and unless the cache holds an error code as a cost, a cost of
  at most 24 bits is given again by the next query of the same transfer, whatever the network and its cache would say then: it comes
  from the cache, which holds it as a \<open>float\<close> without loss.
\<close>

theorem dma_cost_repeats:
  assumes "lru_inv (cost_cache st)" "max_size (cost_cache st) \<noteq> 0" "\<not> gate_enabled (profilingAutoHintGate cm)"
    "dma_computeCycles cm wl st = Inr (c, st1)" "unat c < 2 ^ 24"
    "pred_option (\<lambda>v. \<not> isErrorCode (word_of_int \<lfloor>v\<rfloor>)) (cached_dma_cost cm wl st)"
  shows "\<exists>v st2. cached_dma_cost cm wl st1 = Some v \<and> c = word_of_int \<lfloor>v\<rfloor> \<and> dma_computeCycles cm wl st1 = Inr (c, st2)"
proof -
  let ?h = "desc_hash (dma_kind cm)" and ?k = "desc_key (dma_kind cm) wl"
  have valid: "\<not> isErrorCode c" using assms(5) by (simp add: isErrorCode_unat)
  have again: "\<exists>v st2. cached_dma_cost cm wl s = Some v \<and> c = word_of_int \<lfloor>v\<rfloor> \<and> dma_computeCycles cm wl s = Inr (c, st2)"
    if "lru_inv (cost_cache s)" "cached_dma_cost cm wl s = Some v" "word_of_int \<lfloor>v\<rfloor> = c" for s v
  proof -
    note given = that
    obtain c' src where "dma_try_cache cm wl ''unknown'' s = Inr
        (case cached_dma_cost cm wl s of None \<Rightarrow> (ERROR_CACHE_MISS, ''unknown'', s\<lparr>cost_cache := c'\<rparr>)
         | Some v \<Rightarrow> (word_of_int \<lfloor>v\<rfloor>, src, s\<lparr>cost_cache := c'\<rparr>))"
      using dma_try_cache_spec [OF given(1)] by blast
    then show ?thesis
      using valid given(2,3) by (simp add: dma_computeCycles_def dma_Execute_and_sanitize_def dma_run_cost_providers_def)
  qed
  obtain c1 src where try1: "dma_try_cache cm wl ''unknown'' st = Inr
       (case cached_dma_cost cm wl st of None \<Rightarrow> (ERROR_CACHE_MISS, ''unknown'', st\<lparr>cost_cache := c1\<rparr>)
        | Some v \<Rightarrow> (word_of_int \<lfloor>v\<rfloor>, src, st\<lparr>cost_cache := c1\<rparr>))"
    "lru_inv c1" "max_size c1 = max_size (cost_cache st)" "cached_dma_cost cm wl (st\<lparr>cost_cache := c1\<rparr>) = cached_dma_cost cm wl st"
    "fc_map (deserialized_table c1) = fc_map (deserialized_table (cost_cache st))"
    using dma_try_cache_spec [OF assms(1)] by blast
  note run = assms(4) [unfolded dma_computeCycles_def dma_Execute_and_sanitize_def dma_run_cost_providers_def try1(1)]
  show ?thesis
  proof (cases "cached_dma_cost cm wl st")
    case (Some v)
    then have "c = word_of_int \<lfloor>v\<rfloor>" "st1 = st\<lparr>cost_cache := c1\<rparr>" using run assms(6) by simp_all
    then show ?thesis using again [of st1 v] try1(2,4) Some by simp
  next
    case None
    then obtain nn s where p: "priority_get_cost (dma_kind cm) (dma_cost_provider cm) wl ''unknown'' (nn_cache st) = Inr (c, s, nn)"
      "bind_result (lru_add ?h ?k (float_u32 c) c1) (\<lambda>c2. Inr (st\<lparr>cost_cache := c1, nn_cache := nn\<rparr>\<lparr>cost_cache := c2\<rparr>)) = Inr st1"
      using run assms(3) valid
      by (auto simp: dma_try_priority_provider_def Let_def bind_result_Inr_iff isErrorCode_unat cycles_code_defs split: if_splits)
    have absent: "map_of (fc_map (deserialized_table c1)) (?h ?k) = None" "map_of (entries c1) ?k = None"
      using None try1(4) by (auto simp: cached_dma_cost_def Let_def split: option.splits)
    obtain c2 where c2: "lru_add ?h ?k (float_u32 c) c1 = Inr c2" "lru_inv c2" "deserialized_table c2 = deserialized_table c1"
      "entries c2 = spec_add (max_size c1) ?k (float_u32 c) (entries c1)"
      using lru_add_keeps [OF try1(2), of ?h ?k "float_u32 c"] absent(1) assms(2) try1(3)
      by (auto simp: fixed_contains_def tsm_contains_def)
    obtain n where n: "max_size c1 = Suc n" using assms(2) try1(3) not0_implies_Suc by metis
    have st1: "st1 = st\<lparr>cost_cache := c1, nn_cache := nn\<rparr>\<lparr>cost_cache := c2\<rparr>" using p(2) c2(1) by simp
    have "cached_dma_cost cm wl st1 = Some (float_u32 c)"
      unfolding st1 using absent c2(3,4) by (simp add: cached_dma_cost_def spec_add_def n)
    moreover have "word_of_int \<lfloor>float_u32 c\<rfloor> = c" by (rule float_u32_back [OF assms(5)])
    ultimately show ?thesis using again [of st1] c2(2) by (simp add: st1)
  qed
qed

definition theoretical_dma_model :: "DMANNWorkload_NPU40_50 DMACostModel" where
  "theoretical_dma_model =
     \<lparr>dma_kind = NPU40_50_Desc, dma_cost_provider = createTheoreticalOnlyProviders, http_dma_cost_provider = None,
      profilingAutoHintGate = \<lparr>envState = NotSet, gate_enabled = False\<rparr>\<rparr>"

definition empty_dma_state :: "DMANNWorkload_NPU40_50 DmaState" where
  "empty_dma_state = \<lparr>cost_cache = new_LRUCache 16 empty_FixedCache, nn_cache = new_LRUCache 16 empty_FixedCache\<rparr>"

lemma theoretical_run:
  "case dma_computeCycles theoretical_dma_model sample_nn_transfer empty_dma_state of Inl _ \<Rightarrow> False | Inr (c, _) \<Rightarrow> c = 1849"
  "cached_dma_cost theoretical_dma_model sample_nn_transfer empty_dma_state = None"
  by code_simp+

theorem dma_cost_repeats_witness:
  "\<exists>st1 st2. dma_computeCycles theoretical_dma_model sample_nn_transfer empty_dma_state = Inr (1849, st1) \<and>
     dma_computeCycles theoretical_dma_model sample_nn_transfer st1 = Inr (1849, st2)"
proof -
  obtain st1 where run: "dma_computeCycles theoretical_dma_model sample_nn_transfer empty_dma_state = Inr (1849, st1)"
    using theoretical_run(1) by (auto split: sum.splits)
  have "lru_inv (cost_cache empty_dma_state)" by (simp add: empty_dma_state_def new_cache_inv)
  moreover have "max_size (cost_cache empty_dma_state) \<noteq> 0" by (simp add: empty_dma_state_def new_LRUCache_def)
  moreover have "\<not> gate_enabled (profilingAutoHintGate theoretical_dma_model)" by (simp add: theoretical_dma_model_def)
  ultimately show ?thesis using dma_cost_repeats [OF _ _ _ run] run theoretical_run(2) by auto
qed

end
