(* ===== verification/Layer_Cost_Model.thy ===== *)
theory Layer_Cost_Model
  imports Layer_Validator Dpu_Tiler Dma_Cost_Model
begin

text \<open>
  \<open>VPULayerCostModel\<close> of \<^verbatim>\<open>src/vpu_layer_cost_model.cpp\<close>: the cost of a layer on the whole chip. The layer is sanitised and
  validated, split over the tiles by a strategy, every tile is validated and cut into the cheapest workloads; the slowest tile counts,
  and the transfers that the strategy asks for are added.

  The cost of workloads and of transfers come from two other models with state (their caches): both are arguments of the
  definitions here, over one state \<open>'s\<close>. \<open>compute_dma_cycles\<close> is the one for transfers that the program uses. Exceptions carry the state
  before the call that threw; a \<^verbatim>\<open>catch\<close> handles exceptions but not undefined behaviour. Logging and the CSV files are left out.
  With the CSV files the code evaluates \<^verbatim>\<open>*detailed_split\<close> also when the caller passed no list (lines 378 and 565); here there is
  always a list, and a caller without one ignores it.
\<close>

section \<open>What the caller gets back\<close>

record DMALayerInfo =
  w_tensor :: CyclesInterfaceType
  input_tensor :: CyclesInterfaceType
  output_tensor :: CyclesInterfaceType

record OneTileLayerInfo =
  inter_tile_split_layer :: DPULayer
  best_intra_tile_split :: "CyclesInterfaceType \<times> DPUWorkload list"
  all_intra_tile_splits :: "DPUWorkloadsWithCyclesSplit list"
  DMA_info :: DMALayerInfo

definition new_DMALayerInfo :: DMALayerInfo where
  "new_DMALayerInfo = \<lparr>w_tensor = NO_ERROR, input_tensor = NO_ERROR, output_tensor = NO_ERROR\<rparr>"

definition new_OneTileLayerInfo :: "DPULayer \<Rightarrow> OneTileLayerInfo" where
  "new_OneTileLayerInfo l =
     \<lparr>inter_tile_split_layer = l, best_intra_tile_split = (NO_ERROR, []), all_intra_tile_splits = [], DMA_info = new_DMALayerInfo\<rparr>"

type_synonym LayerSplitInfo = "OneTileLayerInfo list"

type_synonym 's dma_cost = "DMATransfer1D \<Rightarrow> 's \<Rightarrow> CyclesInterfaceType result \<times> 's"

record VPULayerStrategy =
  nDPUs :: u32
  nSHVs :: u32
  ls_nTiles :: u32
  tiling_strategy :: VPUTilingStrategy
  input_fetching :: bool
  output_spilling :: bool
  prefetching :: bool

record VPULayersPreSplitStrategy =
  ps_nDPUs :: u32
  ps_tiling_strategy :: "VPUTilingStrategy option"
  ps_input_fetching :: bool
  ps_output_spilling :: bool
  ps_prefetching :: bool

record 's VPULayerCostModel =
  internal_dpu_cost_provider :: "'s dpu_cost"
  layer_dma_cost :: "'s dma_cost"
  maxWorkloadsPerIntraTileSplit :: u32
  legacy_tiling :: bool
  layer_print_tags :: bool

definition default_maxWorkloadsPerIntraTileSplit :: u32 where
  "default_maxWorkloadsPerIntraTileSplit = 128"

definition set_maxWorkloadsPerIntraTileSplit :: "u32 \<Rightarrow> 's VPULayerCostModel \<Rightarrow> 's VPULayerCostModel" where
  "set_maxWorkloadsPerIntraTileSplit new_value m = m\<lparr>maxWorkloadsPerIntraTileSplit := new_value\<rparr>"

definition caught :: "cpp_exception \<Rightarrow> bool" where
  "caught e = (case e of undefined_behaviour _ \<Rightarrow> False | _ \<Rightarrow> True)"

section \<open>Footprints\<close>

definition on_workload :: "(DPUWorkload \<Rightarrow> DPUWorkload) \<Rightarrow> DPULayer \<Rightarrow> DPULayer" where
  "on_workload f l = DPUWorkload.extend (f (layer_workload l)) (DPULayer.fields (compiler_pass l))"

definition input_footprint :: "DPULayer \<Rightarrow> IDeviceValidValues \<Rightarrow> u32 result" where
  "input_footprint l config =
     bind_result (get_specific_behaviour config (op l)) (\<lambda>operation_behaviour.
       Inr (to_u32 (input_0_contiguous_size_bytes operation_behaviour config (DPUOperation_of (layer_workload l)))))"

definition output_footprint :: "DPULayer \<Rightarrow> IDeviceValidValues \<Rightarrow> u32 result" where
  "output_footprint l config =
     bind_result (get_specific_behaviour config (op l)) (\<lambda>operation_behaviour.
       Inr (to_u32 (output_0_contiguous_size_bytes config (DPUOperation_of (layer_workload l)))))"

definition weight_footprint :: "DPULayer \<Rightarrow> IDeviceValidValues \<Rightarrow> u32 result" where
  "weight_footprint l config =
     bind_result (DPUOperation_with (layer_workload l) config) (\<lambda>w.
     bind_result (get_specific_behaviour config (op l)) (\<lambda>operation_behaviour.
       Inr (to_u32 (input_1_contiguous_size_bytes (op_class operation_behaviour) config w))))"

definition footprint :: "DPULayer \<Rightarrow> IDeviceValidValues \<Rightarrow> u32 result" where
  "footprint l config =
     bind_result (input_footprint l config) (\<lambda>i.
     bind_result (output_footprint l config) (\<lambda>out.
     bind_result (weight_footprint l config) (\<lambda>w. Inr (i + out + w))))"

section \<open>Steps of the computation\<close>

definition operation_sanitisation :: "DPULayer \<Rightarrow> DPULayer" where
  "operation_sanitisation wl = on_workload compressConv_replace_by_CM_CONV_VPU27 (on_workload avgpool_replace_by wl)"

fun largest_time_from :: "CyclesInterfaceType \<Rightarrow> CyclesInterfaceType list \<Rightarrow> CyclesInterfaceType" where
  "largest_time_from largest_time [] = largest_time"
| "largest_time_from largest_time (tile # tiles) =
     largest_time_from
       (if isErrorCode tile then ERROR_TILE_OUTPUT
        else if \<not> isErrorCode largest_time then max largest_time tile
        else largest_time)
       tiles"

definition extractLargestTime :: "CyclesInterfaceType list \<Rightarrow> CyclesInterfaceType" where
  "extractLargestTime tiles_cost =
     (let largest_time = largest_time_from 0 tiles_cost in if largest_time = 0 then ERROR_TILE_OUTPUT else largest_time)"

definition OneTileWeightsPrefetching :: "'s VPULayerCostModel \<Rightarrow> DPULayer \<Rightarrow> 's \<Rightarrow> CyclesInterfaceType result \<times> 's" where
  "OneTileWeightsPrefetching m layer st =
     run_then (getDeviceConfiguratorForTiles (device layer), st) (\<lambda>config st.
     run_then (weight_footprint layer config, st) (\<lambda>in_1_movable_size st.
       let weight_plus_table_tensor = mk_VPUTensor in_1_movable_size 1 1 1 UINT8 ZXY False
       in layer_dma_cost m
            \<lparr>t1d_device = device layer, transfer_length_bytes = to_int (tensor_size weight_plus_table_tensor),
             memory_direction = DDR2CMX\<rparr> st))"

fun validate_tiles :: "bool \<Rightarrow> DPULayer list \<Rightarrow> SanityReport \<Rightarrow> SanityReport result" where
  "validate_tiles tags [] post_result = Inr post_result"
| "validate_tiles tags (t # ts) post_result =
     bind_result (check_splitLayer_consistency tags t post_result) (\<lambda>post_result.
       if \<not> is_usable post_result then Inr post_result else validate_tiles tags ts post_result)"

definition validate_split :: "bool \<Rightarrow> DPULayer list \<Rightarrow> SanityReport result" where
  "validate_split tags tiles_layer =
     bind_result (validate_tiles tags tiles_layer new_SanityReport) (\<lambda>post_result.
       Inr (if tiles_layer = [] then mark_split_error post_result else post_result))"

text \<open>The cheapest workloads of a tile. A tile whose search throws costs an error.\<close>

definition tile_info :: "'s VPULayerCostModel \<Rightarrow> SplitOptions \<Rightarrow> DPULayer \<Rightarrow> 's \<Rightarrow> OneTileLayerInfo result \<times> 's" where
  "tile_info m options one_tile_layer st =
     (case intraTileSplit (internal_dpu_cost_provider m) (legacy_tiling m) (\<lambda>_. False) one_tile_layer options st of
        (Inr (cost_and_workloads, splits), st) \<Rightarrow>
          (Inr ((new_OneTileLayerInfo one_tile_layer)
             \<lparr>best_intra_tile_split := cost_and_workloads, all_intra_tile_splits := splits\<rparr>), st)
      | (Inl e, st) \<Rightarrow>
          (if caught e
           then (Inr ((new_OneTileLayerInfo one_tile_layer)\<lparr>best_intra_tile_split := (ERROR_TILE_SPLIT_EXCEPTION, [])\<rparr>), st)
           else (Inl e, st)))"

fun for_each :: "('a \<Rightarrow> 's \<Rightarrow> 'b result \<times> 's) \<Rightarrow> 'a list \<Rightarrow> 's \<Rightarrow> 'b list result \<times> 's" where
  "for_each f [] st = (Inr [], st)"
| "for_each f (x # xs) st =
     run_then (f x st) (\<lambda>y st. run_then (for_each f xs st) (\<lambda>ys st. (Inr (y # ys), st)))"

definition tiles_options :: "'s VPULayerCostModel \<Rightarrow> u32 \<Rightarrow> SplitOptions" where
  "tiles_options m n = default_SplitOptions\<lparr>maxWorkloads := maxWorkloadsPerIntraTileSplit m, maxLatencyUs := 0, nDPU := n\<rparr>"

text \<open>The transfer of a tensor between the memories, and the pipelined transfer of the weights of all tiles.\<close>

definition tensor_transfer :: "'s VPULayerCostModel \<Rightarrow> VPUDevice \<Rightarrow> MemoryDirection \<Rightarrow> VPUTensor \<Rightarrow> 's \<Rightarrow> CyclesInterfaceType result \<times> 's" where
  "tensor_transfer m d direction t st =
     layer_dma_cost m \<lparr>t1d_device = d, transfer_length_bytes = to_int (tensor_size t), memory_direction = direction\<rparr> st"

definition weights_cost :: "VPUDevice \<Rightarrow> CyclesInterfaceType list \<Rightarrow> CyclesInterfaceType result" where
  "weights_cost d w_costs =
     (case dpu_schedule (to_u32 (dma_ports (get_hw_info d))) w_costs 0 of
        None \<Rightarrow> Inl (undefined_behaviour ''top of an empty queue'')
      | Some pipelined_cost \<Rightarrow> Inr pipelined_cost)"

definition note_weights :: "CyclesInterfaceType list \<Rightarrow> LayerSplitInfo \<Rightarrow> LayerSplitInfo" where
  "note_weights w_costs details =
     (if length details = length w_costs
      then map2 (\<lambda>i c. i\<lparr>DMA_info := (DMA_info i)\<lparr>w_tensor := c\<rparr>\<rparr>) details w_costs else details)"

definition note_inputs :: "CyclesInterfaceType list \<Rightarrow> LayerSplitInfo \<Rightarrow> LayerSplitInfo" where
  "note_inputs dma_costs details =
     (if length details = length dma_costs
      then map2 (\<lambda>i c. i\<lparr>DMA_info := (DMA_info i)\<lparr>input_tensor := c\<rparr>\<rparr>) details dma_costs else details)"

definition note_outputs :: "CyclesInterfaceType list \<Rightarrow> LayerSplitInfo \<Rightarrow> LayerSplitInfo" where
  "note_outputs dma_costs details =
     (if length details = length dma_costs
      then map2 (\<lambda>i c. i\<lparr>DMA_info := (DMA_info i)\<lparr>output_tensor := c\<rparr>\<rparr>) details dma_costs else details)"

definition add_weights ::
  "'s VPULayerCostModel \<Rightarrow> bool \<Rightarrow> VPUDevice \<Rightarrow> DPULayer list \<Rightarrow> CyclesInterfaceType \<times> LayerSplitInfo \<Rightarrow> 's \<Rightarrow>
   (CyclesInterfaceType \<times> LayerSplitInfo) result \<times> 's" where
  "add_weights m prefetched d tiles_layer = (\<lambda>(cost, details) st.
     if prefetched then (Inr (cost, details), st)
     else
       run_then (for_each (OneTileWeightsPrefetching m) tiles_layer st) (\<lambda>w_costs st.
       run_then (weights_cost d w_costs, st) (\<lambda>prefetching_cost st.
         (Inr (cost_adder cost prefetching_cost, note_weights w_costs details), st))))"

section \<open>A complete layer\<close>

definition add_tensor ::
  "'s VPULayerCostModel \<Rightarrow> bool \<Rightarrow> VPUDevice \<Rightarrow> MemoryDirection \<Rightarrow> VPUTensor \<Rightarrow> CyclesInterfaceType \<Rightarrow> 's \<Rightarrow> CyclesInterfaceType result \<times> 's" where
  "add_tensor m in_ddr d direction t cost st =
     (if \<not> in_ddr then (Inr cost, st)
      else run_then (tensor_transfer m d direction t st) (\<lambda>dma_cycles st. (Inr (cost_adder cost dma_cycles), st)))"

definition layer_transfers ::
  "'s VPULayerCostModel \<Rightarrow> DPULayer \<Rightarrow> DPULayer list \<Rightarrow> bool \<Rightarrow> bool \<Rightarrow> bool \<Rightarrow> CyclesInterfaceType \<times> LayerSplitInfo \<Rightarrow> 's \<Rightarrow>
   (CyclesInterfaceType \<times> LayerSplitInfo) result \<times> 's" where
  "layer_transfers m layer tiles_layer input_in_ddr output_in_ddr prefetched cd st =
     (if isErrorCode (fst cd) then (Inr cd, st)
      else
        run_then (add_weights m prefetched (device layer) tiles_layer cd st) (\<lambda>(cost, details) st.
        run_then (add_tensor m input_in_ddr (device layer) DDR2CMX (inputs_0 layer) cost st) (\<lambda>cost st.
        run_then (add_tensor m output_in_ddr (device layer) CMX2DDR (outputs_0 layer) cost st) (\<lambda>cost st.
          (Inr (cost, details), st)))))"

definition tiles_cost_of :: "LayerSplitInfo \<Rightarrow> CyclesInterfaceType list" where
  "tiles_cost_of details = map (fst \<circ> best_intra_tile_split) details"

definition split_layer_cycles ::
  "'s VPULayerCostModel \<Rightarrow> DPULayer \<Rightarrow> VPUTilingStrategy \<Rightarrow> u32 \<Rightarrow> u32 \<Rightarrow> bool \<Rightarrow> bool \<Rightarrow> bool \<Rightarrow> 's \<Rightarrow>
   (CyclesInterfaceType \<times> LayerSplitInfo) result \<times> 's" where
  "split_layer_cycles m layer strategy n nTiles input_in_ddr output_in_ddr prefetched st =
     run_then (splitAcrossTiles layer strategy nTiles, st) (\<lambda>tiles_layer st.
     run_then (validate_split (layer_print_tags m) tiles_layer, st) (\<lambda>post_result st.
       if \<not> is_usable post_result then (Inr (report_value post_result, map new_OneTileLayerInfo tiles_layer), st)
       else
         run_then (for_each (tile_info m (tiles_options m n)) tiles_layer st) (\<lambda>details st.
           layer_transfers m layer tiles_layer input_in_ddr output_in_ddr prefetched
             (extractLargestTime (tiles_cost_of details), details) st)))"

definition layer_cycles ::
  "'s VPULayerCostModel \<Rightarrow> DPULayer \<Rightarrow> VPUTilingStrategy \<Rightarrow> u32 \<Rightarrow> u32 \<Rightarrow> bool \<Rightarrow> bool \<Rightarrow> bool \<Rightarrow> LayerSplitInfo \<Rightarrow> 's \<Rightarrow>
   (CyclesInterfaceType \<times> LayerSplitInfo \<times> DPULayer) result \<times> 's" where
  "layer_cycles m layer strategy n nTiles input_in_ddr output_in_ddr prefetched detailed_split st =
     (let layer = on_workload swizzling_turn_OFF layer in
      if nTiles = 0 then (Inr (ERROR_L2_INVALID_PARAMETERS, detailed_split, layer), st)
      else
        run_then (sanitize_preconditions (operation_sanitisation layer), st) (\<lambda>layer st.
        run_then (check_completeLayer_consistency (layer_print_tags m) layer new_SanityReport
                    (mapTilingStrategiesToWorkload strategy) nTiles strategy, st) (\<lambda>unsplit_result st.
          if \<not> is_usable unsplit_result then (Inr (report_value unsplit_result, [], layer), st)
          else
            run_then (split_layer_cycles m layer strategy n nTiles input_in_ddr output_in_ddr prefetched st)
              (\<lambda>(cost, details) st. (Inr (cost, details, layer), st)))))"

definition Layer ::
  "'s VPULayerCostModel \<Rightarrow> DPULayer \<Rightarrow> VPULayerStrategy \<Rightarrow> LayerSplitInfo \<Rightarrow> 's \<Rightarrow> (CyclesInterfaceType \<times> LayerSplitInfo \<times> DPULayer) result \<times> 's" where
  "Layer m layer strategy detailed_split st =
     layer_cycles m layer (tiling_strategy strategy) (nDPUs strategy) (ls_nTiles strategy) (input_fetching strategy)
       (output_spilling strategy) (prefetching strategy) detailed_split st"

text \<open>All strategies of the device, one after the other on the same layer object, and the cheapest of them.\<close>

fun strategies_costs ::
  "'s VPULayerCostModel \<Rightarrow> DPULayer \<Rightarrow> VPUTilingStrategy list \<Rightarrow> u32 \<Rightarrow> u32 \<Rightarrow> bool \<Rightarrow> bool \<Rightarrow> bool \<Rightarrow> 's \<Rightarrow>
   (CyclesInterfaceType list \<times> DPULayer) result \<times> 's" where
  "strategies_costs m layer [] n nTiles input_in_ddr output_in_ddr prefetched st = (Inr ([], layer), st)"
| "strategies_costs m layer (strategy # strategies) n nTiles input_in_ddr output_in_ddr prefetched st =
     run_then (layer_cycles m layer strategy n nTiles input_in_ddr output_in_ddr prefetched [] st) (\<lambda>(c, _, layer) st.
     run_then (strategies_costs m layer strategies n nTiles input_in_ddr output_in_ddr prefetched st) (\<lambda>(cs, layer) st.
       (Inr (c # cs, layer), st)))"

definition Layer_any_strategy ::
  "'s VPULayerCostModel \<Rightarrow> DPULayer \<Rightarrow> u32 \<Rightarrow> u32 \<Rightarrow> bool \<Rightarrow> bool \<Rightarrow> bool \<Rightarrow> 's \<Rightarrow> (CyclesInterfaceType \<times> DPULayer) result \<times> 's" where
  "Layer_any_strategy m layer n nTiles input_in_ddr output_in_ddr prefetched st =
     run_then (strategies_costs m layer (getValidTilingStrategies (get_properties (device layer))) n nTiles
                 input_in_ddr output_in_ddr prefetched st) (\<lambda>(costs, layer) st.
       case costs of
         [] \<Rightarrow> (Inl (undefined_behaviour ''dereferenced end iterator''), st)
       | c # cs \<Rightarrow> (Inr (min_element (<) c cs, layer), st))"

section \<open>Layers that are already split\<close>

text \<open>The loop that sanitises and validates the tiles stops at the first bad one; the tiles after it stay as they are.\<close>

fun sanitize_tiles :: "bool \<Rightarrow> DPULayer list \<Rightarrow> SanityReport \<Rightarrow> (DPULayer list \<times> SanityReport) result" where
  "sanitize_tiles tags [] post_result = Inr ([], post_result)"
| "sanitize_tiles tags (t # ts) post_result =
     bind_result (sanitize_preconditions (operation_sanitisation (on_workload swizzling_turn_OFF t))) (\<lambda>t.
     bind_result (check_splitLayer_consistency tags t post_result) (\<lambda>post_result.
       if \<not> is_usable post_result then Inr (t # ts, post_result)
       else bind_result (sanitize_tiles tags ts post_result) (\<lambda>(ts, post_result). Inr (t # ts, post_result))))"

definition add_tensors ::
  "'s VPULayerCostModel \<Rightarrow> bool \<Rightarrow> VPUDevice \<Rightarrow> MemoryDirection \<Rightarrow> (CyclesInterfaceType list \<Rightarrow> LayerSplitInfo \<Rightarrow> LayerSplitInfo) \<Rightarrow>
   VPUTensor list \<Rightarrow> CyclesInterfaceType \<times> LayerSplitInfo \<Rightarrow> 's \<Rightarrow> (CyclesInterfaceType \<times> LayerSplitInfo) result \<times> 's" where
  "add_tensors m in_ddr d direction note_costs tensors = (\<lambda>(cost, details) st.
     if \<not> in_ddr then (Inr (cost, details), st)
     else
       run_then (for_each (tensor_transfer m d direction) tensors st) (\<lambda>dma_costs st.
         let sum_dma_layers = fold (\<lambda>c sum. cost_adder sum c) dma_costs 0
         in (Inr (cost_adder cost sum_dma_layers, note_costs dma_costs details), st)))"

definition pre_split_transfers ::
  "'s VPULayerCostModel \<Rightarrow> VPUDevice \<Rightarrow> DPULayer list \<Rightarrow> bool \<Rightarrow> bool \<Rightarrow> bool \<Rightarrow> CyclesInterfaceType \<times> LayerSplitInfo \<Rightarrow> 's \<Rightarrow>
   (CyclesInterfaceType \<times> LayerSplitInfo) result \<times> 's" where
  "pre_split_transfers m d tiles_layer input_in_ddr output_in_ddr prefetched cd st =
     (if isErrorCode (fst cd) then (Inr cd, st)
      else
        run_then (add_weights m prefetched d tiles_layer cd st) (\<lambda>cd st.
        run_then (add_tensors m input_in_ddr d DDR2CMX note_inputs (map inputs_0 tiles_layer) cd st) (\<lambda>cd st.
          add_tensors m output_in_ddr d CMX2DDR note_outputs (map outputs_0 tiles_layer) cd st)))"

definition layer_pre_split_cycles ::
  "'s VPULayerCostModel \<Rightarrow> DPULayer list \<Rightarrow> u32 \<Rightarrow> bool \<Rightarrow> bool \<Rightarrow> bool \<Rightarrow> 's \<Rightarrow> (CyclesInterfaceType \<times> LayerSplitInfo) result \<times> 's" where
  "layer_pre_split_cycles m layers_pre_split n input_in_ddr output_in_ddr prefetched st =
     (if layers_pre_split = [] then (Inr (ERROR_L2_INVALID_PARAMETERS, []), st)
      else
        let d = device (hd layers_pre_split)
        in run_then (sanitize_tiles (layer_print_tags m) layers_pre_split new_SanityReport, st) (\<lambda>(tiles_layer, post_result) st.
             if \<not> is_usable post_result then (Inr (report_value post_result, map new_OneTileLayerInfo tiles_layer), st)
             else
               run_then (for_each (tile_info m (tiles_options m n)) tiles_layer st) (\<lambda>details st.
                 pre_split_transfers m d tiles_layer input_in_ddr output_in_ddr prefetched
                   (extractLargestTime (tiles_cost_of details), details) st)))"

section \<open>Batches\<close>

text \<open>
  A batch is a vector of references to its elements, each with its layer and its list of details; the call updates them.
  An exception of one element becomes its cost; what it leaves of the layer and of the list of details is not modelled, here they
  are as before the call.
\<close>

record LayerBatchElementInfo =
  batch_layer :: DPULayer
  batch_strategy :: VPULayerStrategy
  batch_detailed_split :: LayerSplitInfo

record BatchCostResult =
  isValid :: bool
  costs :: "CyclesInterfaceType list"

definition batch_result :: "CyclesInterfaceType list \<Rightarrow> BatchCostResult" where
  "batch_result cs = \<lparr>isValid = (cs \<noteq> [] \<and> list_all (\<lambda>c. \<not> isErrorCode c) cs), costs = cs\<rparr>"

definition batch_element ::
  "'s VPULayerCostModel \<Rightarrow> LayerBatchElementInfo \<Rightarrow> 's \<Rightarrow> (CyclesInterfaceType \<times> LayerBatchElementInfo) result \<times> 's" where
  "batch_element m cfg st =
     (case Layer m (batch_layer cfg) (batch_strategy cfg) (batch_detailed_split cfg) st of
        (Inr (c, details, layer), st) \<Rightarrow> (Inr (c, cfg\<lparr>batch_layer := layer, batch_detailed_split := details\<rparr>), st)
      | (Inl e, st) \<Rightarrow> (if caught e then (Inr (ERROR_TILE_SPLIT_EXCEPTION, cfg), st) else (Inl e, st)))"

definition LayerBatched ::
  "'s VPULayerCostModel \<Rightarrow> LayerBatchElementInfo list \<Rightarrow> 's \<Rightarrow> (BatchCostResult \<times> LayerBatchElementInfo list) result \<times> 's" where
  "LayerBatched m layers st =
     run_then (for_each (batch_element m) layers st) (\<lambda>rs st. (Inr (batch_result (map fst rs), map snd rs), st))"

record LayersPreSplitBatchElementInfo =
  layer_splits :: "DPULayer list"
  pre_split_strategy :: VPULayersPreSplitStrategy
  pre_split_detailed_split :: LayerSplitInfo

definition pre_split_batch_element ::
  "'s VPULayerCostModel \<Rightarrow> LayersPreSplitBatchElementInfo \<Rightarrow> 's \<Rightarrow> (CyclesInterfaceType \<times> LayersPreSplitBatchElementInfo) result \<times> 's" where
  "pre_split_batch_element m info_ref st =
     (let s = pre_split_strategy info_ref in
      case layer_pre_split_cycles m (layer_splits info_ref) (ps_nDPUs s) (ps_input_fetching s) (ps_output_spilling s)
             (ps_prefetching s) st of
        (Inr (c, details), st) \<Rightarrow> (Inr (c, info_ref\<lparr>pre_split_detailed_split := details\<rparr>), st)
      | (Inl e, st) \<Rightarrow> (if caught e then (Inr (ERROR_TILE_SPLIT_EXCEPTION, info_ref), st) else (Inl e, st)))"

definition LayersPreSplitBatched ::
  "'s VPULayerCostModel \<Rightarrow> LayersPreSplitBatchElementInfo list \<Rightarrow> 's \<Rightarrow>
   (BatchCostResult \<times> LayersPreSplitBatchElementInfo list) result \<times> 's" where
  "LayersPreSplitBatched m layers_pre_split st =
     run_then (for_each (pre_split_batch_element m) layers_pre_split st) (\<lambda>rs st. (Inr (batch_result (map fst rs), map snd rs), st))"

section \<open>The transfers of the program\<close>

text \<open>
  The transfer cost model comes from outside as a pointer, null for none, to a model for one of the two kinds of transfer workloads. Without
  an initialised network the theoretical model is used: the one with strides when the global switch \<open>DMATheoreticalMathModel\<close> is on. A model
  for the other generation of devices is an error.
\<close>

datatype DMACostModelVariant =
    Variant_NPU27 "DMANNWorkload_NPU27 DMACostModel option"
  | Variant_NPU40_50 "DMANNWorkload_NPU40_50 DMACostModel option"

record DmaModelsState =
  state_NPU27 :: "DMANNWorkload_NPU27 DmaState"
  state_NPU40_50 :: "DMANNWorkload_NPU40_50 DmaState"

definition is_dma_model_variant :: "DMACostModelVariant \<Rightarrow> bool" where
  "is_dma_model_variant v =
     (case v of
        Variant_NPU27 dma_model \<Rightarrow> (case dma_model of None \<Rightarrow> False | Some cm \<Rightarrow> dma_nn_initialized cm)
      | Variant_NPU40_50 dma_model \<Rightarrow> (case dma_model of None \<Rightarrow> False | Some cm \<Rightarrow> dma_nn_initialized cm))"

definition dma_theoretical_fallback :: "bool \<Rightarrow> DMATransfer1D \<Rightarrow> CyclesInterfaceType result" where
  "dma_theoretical_fallback strided dwl =
     (if strided
      then bind_result (fromDMATransfer1D_to_VPUDMADescriptor dwl) (\<lambda>desc. Inr (theoretical_DMA_descriptor desc))
      else bind_result (fromDMATransfer1D_to_DMAWorkload dwl) theoretical_DMA_workload)"

definition dma_model_cycles :: "'w DMACostModel \<Rightarrow> 'w result \<Rightarrow> 'w DmaState \<Rightarrow> CyclesInterfaceType result \<times> 'w DmaState" where
  "dma_model_cycles cm workload st =
     (case bind_result workload (\<lambda>wl. dma_computeCycles cm wl st) of Inl e \<Rightarrow> (Inl e, st) | Inr (c, st) \<Rightarrow> (Inr c, st))"

definition compute_dma_cycles :: "bool \<Rightarrow> DMACostModelVariant \<Rightarrow> DMATransfer1D \<Rightarrow> DmaModelsState \<Rightarrow> CyclesInterfaceType result \<times> DmaModelsState" where
  "compute_dma_cycles strided v dwl st =
     (if \<not> is_dma_model_variant v then (dma_theoretical_fallback strided dwl, st)
      else
        case v of
          Variant_NPU27 (Some cm) \<Rightarrow>
            (if t1d_device dwl \<in> {VPU_2_0, VPU_2_1, VPU_2_7} then
               (case dma_model_cycles cm (create_NPU27_workload dwl) (state_NPU27 st) of (c, st') \<Rightarrow> (c, st\<lparr>state_NPU27 := st'\<rparr>))
             else (Inr ERROR_INVALID_INPUT_DEVICE, st))
        | Variant_NPU40_50 (Some cm) \<Rightarrow>
            (if t1d_device dwl \<in> {VPU_4_0, NPU_5_0, NPU_5_0_W} then
               (case dma_model_cycles cm (create_NPU40_50_workload dwl) (state_NPU40_50 st) of (c, st') \<Rightarrow> (c, st\<lparr>state_NPU40_50 := st'\<rparr>))
             else (Inr ERROR_INVALID_INPUT_DEVICE, st))
        | _ \<Rightarrow> (Inr NO_ERROR, st))"

end
