(* ===== verification/Layer_Cost_Laws.thy ===== *)
theory Layer_Cost_Laws
  imports Layer_Cost_Model Tile_Optimum Layer_Split_Inputs
begin

text \<open>
  What the cost of a layer means: it is the time of the slowest tile and of the transfers, the workloads it comes with produce the
  output of the layer, and with costs of workloads and transfers that do not depend on the past neither does the cost of a layer,
  so that a batch gives every layer the cost it has alone.
\<close>

section \<open>The slowest tile\<close>

lemma largest_time_from_error: "largest_time_from ERROR_TILE_OUTPUT ts = ERROR_TILE_OUTPUT"
  by (induction ts) simp_all

lemma largest_time_from_some_error: "\<exists>t \<in> set ts. isErrorCode t \<Longrightarrow> largest_time_from a ts = ERROR_TILE_OUTPUT"
  by (induction ts arbitrary: a) (auto simp: largest_time_from_error)

lemma largest_time_from_valid:
  "\<not> isErrorCode a \<Longrightarrow> list_all (\<lambda>t. \<not> isErrorCode t) ts \<Longrightarrow> largest_time_from a ts = fold max ts a"
proof (induction ts arbitrary: a)
  case (Cons t ts)
  have "\<not> isErrorCode (max a t)" using Cons.prems by (simp add: max_def)
  then have ih: "largest_time_from (max a t) ts = fold max ts (max a t)" using Cons.prems by (intro Cons.IH) simp_all
  have "largest_time_from a (t # ts) = largest_time_from (max a t) ts" using Cons.prems by simp
  also have "\<dots> = fold max (t # ts) a" unfolding ih by (simp only: fold_simps max.commute)
  finally show ?case .
qed simp

lemma unat_max: "unat (max a b) = max (unat a) (unat b)"
  by (simp add: max_def word_le_nat_alt)

lemma unat_fold_max: "unat (fold max ts a) = fold max (map unat ts) (unat a)" for a :: u32
  by (induction ts arbitrary: a) (simp_all only: fold_simps list.map unat_max)

lemma fold_max_Max: "fold max ns n = Max (insert n (set ns))" for n :: nat
  using Max.set_eq_fold [of n ns] by simp

lemma fold_max_zero: "fold max ts (0 :: u32) = 0 \<longleftrightarrow> list_all (\<lambda>t. t = 0) ts"
proof -
  have "fold max ts (0 :: u32) = 0 \<longleftrightarrow> unat (fold max ts (0 :: u32)) = 0" by (simp only: unat_eq_zero)
  also have "\<dots> \<longleftrightarrow> (\<forall>n \<in> set (map unat ts). n = 0)"
    unfolding unat_fold_max fold_max_Max unat_0 using Max_le_iff [of "insert 0 (set (map unat ts))" 0] by (simp only: le_zero_eq) auto
  also have "\<dots> \<longleftrightarrow> list_all (\<lambda>t. t = 0) ts" by (simp add: list_all_iff unat_eq_zero)
  finally show ?thesis .
qed

lemma extractLargestTime_eq:
  "extractLargestTime ts =
     (if list_ex isErrorCode ts \<or> list_all (\<lambda>t. t = 0) ts then ERROR_TILE_OUTPUT else fold max ts 0)"
proof (cases "list_ex isErrorCode ts")
  case True
  then show ?thesis
    using largest_time_from_some_error [of ts 0] by (auto simp: extractLargestTime_def list_ex_iff Let_def)
next
  case False
  then have "largest_time_from 0 ts = fold max ts 0"
    by (intro largest_time_from_valid) (auto simp: list_ex_iff list_all_iff isErrorCode_unat)
  then show ?thesis using False fold_max_zero [of ts] by (auto simp: extractLargestTime_def Let_def)
qed

lemma extractLargestTime_valid:
  assumes "\<not> isErrorCode (extractLargestTime ts)"
  shows "ts \<noteq> []" "list_all (\<lambda>t. \<not> isErrorCode t) ts" "unat (extractLargestTime ts) = Max (set (map unat ts))"
proof -
  have v: "\<not> list_ex isErrorCode ts" "\<not> list_all (\<lambda>t. t = 0) ts" "extractLargestTime ts = fold max ts 0"
    using assms by (auto simp: extractLargestTime_eq split: if_splits)
  show n: "ts \<noteq> []" using v(2) by auto
  show "list_all (\<lambda>t. \<not> isErrorCode t) ts" using v(1) by (simp add: list_ex_iff list_all_iff)
  show "unat (extractLargestTime ts) = Max (set (map unat ts))"
    unfolding v(3) unat_fold_max fold_max_Max unat_0 using n by (subst Max_insert) auto
qed

section \<open>Sums of valid costs\<close>

lemma cost_adder_sum:
  "\<not> isErrorCode (cost_adder a b) \<Longrightarrow> \<not> isErrorCode a \<and> \<not> isErrorCode b \<and> unat (cost_adder a b) = unat a + unat b"
  using cost_adder_valid [of a b] by (auto simp: isErrorCode_cost_adder intro!: unat_add_nowrap)

lemma run_then_Inr:
  "run_then x f = (Inr y, st) \<longleftrightarrow> (\<exists>v st'. x = (Inr v, st') \<and> f v st' = (Inr y, st))"
  by (cases x; cases "fst x") auto

lemma for_each_Inr:
  "for_each f xs st = (Inr ys, st') \<Longrightarrow> list_all2 (\<lambda>x y. \<exists>s s'. f x s = (Inr y, s')) xs ys"
proof (induction xs arbitrary: st ys)
  case (Cons x xs)
  then show ?case by (fastforce simp: run_then_Inr)
qed simp

lemma tile_info_layer:
  "tile_info m options t st = (Inr i, st') \<Longrightarrow> inter_tile_split_layer i = t \<and> DMA_info i = new_DMALayerInfo"
  by (auto simp: tile_info_def new_OneTileLayerInfo_def split: prod.splits sum.splits if_splits)

lemma tiles_info_layers:
  assumes "for_each (tile_info m options) ts st = (Inr details, st')"
  shows "map inter_tile_split_layer details = ts"
proof -
  have "list_all2 (\<lambda>t i. inter_tile_split_layer i = t) ts details"
    using for_each_Inr [OF assms] by (rule list_all2_mono) (auto dest: tile_info_layer)
  then show ?thesis by (induction rule: list_all2_induct) auto
qed

lemma note_weights_same:
  "map inter_tile_split_layer (note_weights ws details) = map inter_tile_split_layer details"
  "map best_intra_tile_split (note_weights ws details) = map best_intra_tile_split details"
  "length details = length ws \<Longrightarrow> map (\<lambda>i. w_tensor (DMA_info i)) (note_weights ws details) = ws"
proof -
  have pw: "length ds = length ws \<Longrightarrow>
      map inter_tile_split_layer (map2 (\<lambda>i c. i\<lparr>DMA_info := (DMA_info i)\<lparr>w_tensor := c\<rparr>\<rparr>) ds ws) = map inter_tile_split_layer ds \<and>
      map best_intra_tile_split (map2 (\<lambda>i c. i\<lparr>DMA_info := (DMA_info i)\<lparr>w_tensor := c\<rparr>\<rparr>) ds ws) = map best_intra_tile_split ds \<and>
      map (\<lambda>i. w_tensor (DMA_info i)) (map2 (\<lambda>i c. i\<lparr>DMA_info := (DMA_info i)\<lparr>w_tensor := c\<rparr>\<rparr>) ds ws) = ws" for ds
    by (induction ds ws rule: list_induct2) auto
  then show "map inter_tile_split_layer (note_weights ws details) = map inter_tile_split_layer details"
    "map best_intra_tile_split (note_weights ws details) = map best_intra_tile_split details"
    "length details = length ws \<Longrightarrow> map (\<lambda>i. w_tensor (DMA_info i)) (note_weights ws details) = ws"
    using pw [of details] unfolding note_weights_def by (auto simp only: simp_thms split: if_split)
qed

section \<open>Reports of the validation\<close>

definition proper_report :: "SanityReport \<Rightarrow> bool" where
  "proper_report r \<longleftrightarrow> is_usable r \<or> isErrorCode (report_value r)"

lemma marks_proper [simp]:
  "proper_report (mark_unknown_device r)" "proper_report (mark_unknown_operation r)"
  "proper_report (mark_invalid_LayerConfiguration r)" "proper_report (mark_invalid_DPU_workload r)"
  "proper_report (mark_size_too_big r)" "proper_report (mark_split_error r)" "proper_report (resetOK r)"
  "proper_report (r\<lparr>info := t\<rparr>) = proper_report r" "proper_report new_SanityReport"
  by (simp_all add: proper_report_def report_value_def is_usable_def mark_unknown_device_def mark_unknown_operation_def
      mark_invalid_LayerConfiguration_def mark_invalid_DPU_workload_def mark_size_too_big_def mark_split_error_def resetOK_def
      new_SanityReport_def isErrorCode_unat cycles_code_defs)

lemma caught_report_proper:
  "catch_runtime_error body r = Inr post \<Longrightarrow> (\<And>x. body = Inr x \<Longrightarrow> proper_report x) \<Longrightarrow> proper_report post"
  by (auto simp: catch_runtime_error_def split: sum.splits cpp_exception.splits)

lemma complete_report_proper:
  "check_completeLayer_consistency tags l r s n strategy = Inr post \<Longrightarrow> proper_report post"
  unfolding check_completeLayer_consistency_def check_layer_consistency_def Let_def
  by (auto split: if_splits elim!: caught_report_proper simp: bind_result_Inr_iff)

lemma split_report_proper: "check_splitLayer_consistency tags l r = Inr post \<Longrightarrow> proper_report post"
  unfolding check_splitLayer_consistency_def check_workload_consistency_def Let_def
  by (auto split: if_splits elim!: caught_report_proper simp: bind_result_Inr_iff)

lemma validate_split_proper: "validate_split tags ts = Inr post \<Longrightarrow> proper_report post"
proof -
  have "validate_tiles tags ts r = Inr post \<Longrightarrow> proper_report r \<Longrightarrow> proper_report post" for r post
    by (induction ts arbitrary: r) (auto simp: bind_result_Inr_iff split_report_proper split: if_splits)
  then show "validate_split tags ts = Inr post \<Longrightarrow> proper_report post"
    by (auto simp: validate_split_def bind_result_Inr_iff split: if_splits)
qed

lemma proper_error: "proper_report r \<Longrightarrow> \<not> is_usable r \<Longrightarrow> isErrorCode (report_value r)"
  by (simp add: proper_report_def)

section \<open>The parts of the cost of a layer\<close>

definition slowest_tile :: "LayerSplitInfo \<Rightarrow> nat" where
  "slowest_tile details = Max (set (map unat (tiles_cost_of details)))"

definition weights_time :: "VPUDevice \<Rightarrow> LayerSplitInfo \<Rightarrow> nat" where
  "weights_time d details =
     (case weights_cost d (map (\<lambda>i. w_tensor (DMA_info i)) details) of Inr w \<Rightarrow> unat w | Inl e \<Rightarrow> 0)"

definition transfer_answer :: "'s VPULayerCostModel \<Rightarrow> VPUDevice \<Rightarrow> MemoryDirection \<Rightarrow> VPUTensor \<Rightarrow> nat \<Rightarrow> bool" where
  "transfer_answer m d direction t n \<longleftrightarrow> (\<exists>c s s'. tensor_transfer m d direction t s = (Inr c, s') \<and> \<not> isErrorCode c \<and> n = unat c)"

definition priced :: "'s VPULayerCostModel \<Rightarrow> u32 \<Rightarrow> OneTileLayerInfo \<Rightarrow> bool" where
  "priced m n i \<longleftrightarrow>
     (\<exists>all s s'. intraTileSplit (internal_dpu_cost_provider m) (legacy_tiling m) (\<lambda>_. False) (inter_tile_split_layer i)
        (tiles_options m n) s = (Inr (best_intra_tile_split i, all), s'))"

lemma tile_info_priced:
  "tile_info m (tiles_options m n) t st = (Inr i, st') \<Longrightarrow> \<not> isErrorCode (fst (best_intra_tile_split i)) \<Longrightarrow> priced m n i"
  by (auto simp: tile_info_def priced_def new_OneTileLayerInfo_def isErrorCode_unat cycles_code_defs
      split: prod.splits sum.splits if_splits intro!: exI)

lemma tiles_priced:
  assumes "for_each (tile_info m (tiles_options m n)) ts st = (Inr ds, st')" "list_all (\<lambda>c. \<not> isErrorCode c) (tiles_cost_of ds)"
  shows "list_all (priced m n) ds"
proof -
  have "list_all2 (\<lambda>t i. \<not> isErrorCode (fst (best_intra_tile_split i)) \<longrightarrow> priced m n i) ts ds"
    using for_each_Inr [OF assms(1)] by (rule list_all2_mono) (auto dest: tile_info_priced)
  then show ?thesis using assms(2) by (induction rule: list_all2_induct) (auto simp: tiles_cost_of_def)
qed

lemma priced_same:
  assumes "map inter_tile_split_layer ds = map inter_tile_split_layer es" "map best_intra_tile_split ds = map best_intra_tile_split es"
  shows "list_all (priced m n) ds = list_all (priced m n) es"
proof -
  have "length ds = length es" using map_eq_imp_length_eq [OF assms(1)] .
  then show ?thesis using assms by (induction ds es rule: list_induct2) (auto simp: priced_def)
qed

lemma add_weights_parts:
  assumes "add_weights m prefetched d tiles (c, details) st = (Inr (c', details'), st')" "\<not> isErrorCode c'"
    "map inter_tile_split_layer details = tiles"
  shows "\<not> isErrorCode c \<and> map inter_tile_split_layer details' = tiles \<and>
    map best_intra_tile_split details' = map best_intra_tile_split details \<and>
    unat c' = unat c + (if prefetched then 0 else weights_time d details')"
proof (cases prefetched)
  case True
  then show ?thesis using assms by (simp add: add_weights_def)
next
  case False
  then obtain ws w where w: "for_each (OneTileWeightsPrefetching m) tiles st = (Inr ws, st')" "weights_cost d ws = Inr w"
    "c' = cost_adder c w" "details' = note_weights ws details"
    using assms(1) by (auto simp: add_weights_def run_then_Inr)
  have "length details = length ws"
    using list_all2_lengthD [OF for_each_Inr [OF w(1)]] arg_cong [OF assms(3), of length] by simp
  then show ?thesis
    using cost_adder_sum [OF assms(2) [unfolded w(3)]] note_weights_same [where ws = ws and details = details] assms(3) False w
    by (simp add: weights_time_def)
qed

lemma add_tensor_parts:
  assumes "add_tensor m in_ddr d direction t c st = (Inr c', st')" "\<not> isErrorCode c'"
  shows "\<not> isErrorCode c \<and> (\<exists>n. unat c' = unat c + n \<and> (if in_ddr then transfer_answer m d direction t n else n = 0))"
proof (cases in_ddr)
  case True
  then obtain x where "tensor_transfer m d direction t st = (Inr x, st')" "c' = cost_adder c x"
    using assms(1) by (auto simp: add_tensor_def run_then_Inr)
  then show ?thesis using cost_adder_sum [of c x] assms(2) True by (auto simp: transfer_answer_def)
qed (use assms in \<open>simp add: add_tensor_def\<close>)

lemma layer_transfers_parts:
  assumes "layer_transfers m l tiles i out p (c0, details0) st = (Inr (c, details), st')" "\<not> isErrorCode c"
    "map inter_tile_split_layer details0 = tiles"
  shows "\<exists>ci co. \<not> isErrorCode c0 \<and> map inter_tile_split_layer details = tiles \<and>
    map best_intra_tile_split details = map best_intra_tile_split details0 \<and>
    unat c = unat c0 + (if p then 0 else weights_time (device l) details) + ci + co \<and>
    (if i then transfer_answer m (device l) DDR2CMX (inputs_0 l) ci else ci = 0) \<and>
    (if out then transfer_answer m (device l) CMX2DDR (outputs_0 l) co else co = 0)"
proof -
  have v: "\<not> isErrorCode c0" using assms(1,2) by (auto simp: layer_transfers_def)
  then obtain c1 c2 st1 st2 where steps: "add_weights m p (device l) tiles (c0, details0) st = (Inr (c1, details), st1)"
    "add_tensor m i (device l) DDR2CMX (inputs_0 l) c1 st1 = (Inr c2, st2)"
    "add_tensor m out (device l) CMX2DDR (outputs_0 l) c2 st2 = (Inr c, st')"
    using assms(1) by (auto simp: layer_transfers_def run_then_Inr)
  obtain co where co: "\<not> isErrorCode c2" "unat c = unat c2 + co"
    "if out then transfer_answer m (device l) CMX2DDR (outputs_0 l) co else co = 0"
    using add_tensor_parts [OF steps(3) assms(2)] by blast
  obtain ci where ci: "\<not> isErrorCode c1" "unat c2 = unat c1 + ci"
    "if i then transfer_answer m (device l) DDR2CMX (inputs_0 l) ci else ci = 0"
    using add_tensor_parts [OF steps(2) co(1)] by blast
  show ?thesis
    using add_weights_parts [OF steps(1) ci(1) assms(3)] v ci(2,3) co(2,3)
    by (intro exI [of _ ci] exI [of _ co]) simp
qed

lemma split_layer_parts:
  assumes "split_layer_cycles m l strategy n nTiles i out p st = (Inr (c, details), st')" "\<not> isErrorCode c"
  shows "\<exists>ci co. splitAcrossTiles l strategy nTiles = Inr (map inter_tile_split_layer details) \<and> details \<noteq> [] \<and>
    list_all (\<lambda>x. \<not> isErrorCode x) (tiles_cost_of details) \<and> list_all (priced m n) details \<and>
    unat c = slowest_tile details + (if p then 0 else weights_time (device l) details) + ci + co \<and>
    (if i then transfer_answer m (device l) DDR2CMX (inputs_0 l) ci else ci = 0) \<and>
    (if out then transfer_answer m (device l) CMX2DDR (outputs_0 l) co else co = 0)"
proof -
  obtain tiles post where tiles: "splitAcrossTiles l strategy nTiles = Inr tiles"
    "validate_split (layer_print_tags m) tiles = Inr post"
    and rest: "(if \<not> is_usable post then (Inr (report_value post, map new_OneTileLayerInfo tiles), st)
      else run_then (for_each (tile_info m (tiles_options m n)) tiles st) (\<lambda>details st.
           layer_transfers m l tiles i out p (extractLargestTime (tiles_cost_of details), details) st)) = (Inr (c, details), st')"
    using assms(1) by (auto simp: split_layer_cycles_def run_then_Inr)
  have "is_usable post" using proper_error [OF validate_split_proper [OF tiles(2)]] rest assms(2) by (auto split: if_splits)
  then obtain details0 st1 where d0: "for_each (tile_info m (tiles_options m n)) tiles st = (Inr details0, st1)"
    "layer_transfers m l tiles i out p (extractLargestTime (tiles_cost_of details0), details0) st1 = (Inr (c, details), st')"
    using rest by (auto simp: run_then_Inr)
  obtain ci co where parts: "\<not> isErrorCode (extractLargestTime (tiles_cost_of details0))" "map inter_tile_split_layer details = tiles"
    "map best_intra_tile_split details = map best_intra_tile_split details0"
    "unat c = unat (extractLargestTime (tiles_cost_of details0)) + (if p then 0 else weights_time (device l) details) + ci + co"
    "if i then transfer_answer m (device l) DDR2CMX (inputs_0 l) ci else ci = 0"
    "if out then transfer_answer m (device l) CMX2DDR (outputs_0 l) co else co = 0"
    using layer_transfers_parts [OF d0(2) assms(2) tiles_info_layers [OF d0(1)]] by blast
  have same: "tiles_cost_of details = tiles_cost_of details0"
    using arg_cong [OF parts(3), of "map fst"] by (simp add: tiles_cost_of_def)
  have "list_all (priced m n) details"
    using tiles_priced [OF d0(1) extractLargestTime_valid(2) [OF parts(1)]] tiles_info_layers [OF d0(1)] parts(2)
      priced_same [of details details0 m n] parts(3) by simp
  moreover have "details \<noteq> []" using extractLargestTime_valid(1) [OF parts(1)] same by (auto simp: tiles_cost_of_def)
  ultimately show ?thesis
    using tiles(1) parts(2,4-6) extractLargestTime_valid(2,3) [OF parts(1)] unfolding slowest_tile_def same
    by (intro exI [of _ ci] exI [of _ co]) simp
qed

lemma layer_parts:
  assumes "layer_cycles m layer strategy n nTiles i out p ds st = (Inr (c, details, l'), st')" "\<not> isErrorCode c"
  shows "sanitize_preconditions (operation_sanitisation (on_workload swizzling_turn_OFF layer)) = Inr l' \<and>
    (\<exists>ci co. splitAcrossTiles l' strategy nTiles = Inr (map inter_tile_split_layer details) \<and> details \<noteq> [] \<and>
     list_all (\<lambda>x. \<not> isErrorCode x) (tiles_cost_of details) \<and> list_all (priced m n) details \<and>
     unat c = slowest_tile details + (if p then 0 else weights_time (device l') details) + ci + co \<and>
     (if i then transfer_answer m (device l') DDR2CMX (inputs_0 l') ci else ci = 0) \<and>
     (if out then transfer_answer m (device l') CMX2DDR (outputs_0 l') co else co = 0))"
proof -
  have nz: "nTiles \<noteq> 0" using assms by (auto simp: layer_cycles_def isErrorCode_unat cycles_code_defs)
  obtain l post where l: "sanitize_preconditions (operation_sanitisation (on_workload swizzling_turn_OFF layer)) = Inr l"
    "check_completeLayer_consistency (layer_print_tags m) l new_SanityReport (mapTilingStrategiesToWorkload strategy) nTiles strategy =
       Inr post"
    and rest: "(if \<not> is_usable post then (Inr (report_value post, [], l), st)
      else run_then (split_layer_cycles m l strategy n nTiles i out p st) (\<lambda>(cost, details) st. (Inr (cost, details, l), st))) =
       (Inr (c, details, l'), st')"
    using assms(1) nz by (auto simp: layer_cycles_def Let_def run_then_Inr)
  have "is_usable post" using proper_error [OF complete_report_proper [OF l(2)]] rest assms(2) by (auto split: if_splits)
  then have l': "l' = l" and run: "split_layer_cycles m l strategy n nTiles i out p st = (Inr (c, details), st')"
    using rest by (auto simp: run_then_Inr)
  show ?thesis unfolding l' by (intro conjI l(1) split_layer_parts [OF run assms(2)])
qed

section \<open>What the sanitisation and the split keep\<close>

definition kept :: "DPULayer \<Rightarrow> DPULayer \<Rightarrow> bool" where
  "kept l t \<longleftrightarrow> device t = device l \<and> cost_source_hint t = cost_source_hint l \<and> offsets t = offsets l"

lemma on_workload_selectors [simp]:
  "device (on_workload f l) = device (f (layer_workload l))"
  "cost_source_hint (on_workload f l) = cost_source_hint (f (layer_workload l))"
  "offsets (on_workload f l) = offsets (f (layer_workload l))"
  "outputs_0 (on_workload f l) = outputs_0 (f (layer_workload l))"
  by (simp_all add: on_workload_def DPUWorkload.extend_def)

lemma layer_workload_selectors [simp]:
  "device (layer_workload l) = device l" "cost_source_hint (layer_workload l) = cost_source_hint l"
  "offsets (layer_workload l) = offsets l" "outputs_0 (layer_workload l) = outputs_0 l"
  by (simp_all add: layer_workload_def DPUWorkload.truncate_def)

lemma sanitised_layer:
  assumes "sanitize_preconditions (operation_sanitisation (on_workload swizzling_turn_OFF layer)) = Inr l"
  shows "kept layer l" "outputs_0 l = outputs_0 layer"
proof -
  have "kept a l \<and> outputs_0 l = outputs_0 a" if "sanitize_preconditions a = Inr l" for a
    using that by (auto simp: sanitize_preconditions_def bind_result_Inr_iff kept_def split: if_splits)
  then show "kept layer l" "outputs_0 l = outputs_0 layer"
    using assms by (auto simp: kept_def operation_sanitisation_def avgpool_replace_by_def compressConv_replace_by_CM_CONV_VPU27_def
        swizzling_turn_OFF_def set_all_swizzlings_def)
qed

lemma limit_broadcast_kept: "t \<in> set (limit_broadcast fb n ts) \<Longrightarrow> (\<And>u. u \<in> set ts \<Longrightarrow> kept l u) \<Longrightarrow> kept l t"
  by (auto simp: limit_broadcast_def kept_def split: if_splits)

lemma tiles_kept [simp]:
  "kept l (SOH_tile l n fb s)" "kept l (SOW_tile l n fb s)" "kept l (SOK_tile l n fb r c)" "kept l (HALO_tile l hs)"
  by (simp_all add: SOH_tile_def SOW_tile_def SOK_tile_def HALO_tile_def kept_def Let_def redimension_tile_H_def redimension_tile_W_def
      recomputeInputTensorShape_def)

lemma SOK_loop_kept: "t \<in> set (SOK_loop l n fb m r k) \<Longrightarrow> kept l t"
  by (induction l n fb m r k rule: SOK_loop.induct) (auto simp: Let_def)

lemma split_kept:
  assumes "splitAcrossTiles l strategy n = Inr ts" "t \<in> set ts"
  shows "kept l t"
proof -
  have "kept l t" if "t \<in> set (clustering l n)" using that by (auto simp: clustering_def kept_def)
  moreover have "kept l t" if "t \<in> set (SOH_overlapped_inputs l n fb)" for fb
    using that by (auto simp: SOH_overlapped_inputs_def Let_def remove_empty_tiles_def elim!: limit_broadcast_kept)
  moreover have "kept l t" if "t \<in> set (SOW_overlapped_inputs l n fb)" for fb
    using that by (auto simp: SOW_overlapped_inputs_def Let_def remove_empty_tiles_def elim!: limit_broadcast_kept)
  moreover have "kept l t" if "t \<in> set (SOK_Variants l n fb r)" for fb r
    using that by (auto simp: SOK_Variants_def Let_def remove_empty_tiles_def elim!: limit_broadcast_kept intro: SOK_loop_kept)
  moreover have "kept l t" if "t \<in> set (SOH_HALO_inputs l n)"
    using that by (auto simp: SOH_HALO_inputs_def Let_def remove_empty_tiles_def)
  ultimately show ?thesis
    using assms by (auto simp: splitAcrossTiles_def SOK_broadcast_def SOK_no_broadcast_def
        split: VPUTilingStrategy.splits option.splits)
qed

end
