(* ===== verification/Layer_Cost_Sample.thy ===== *)
theory Layer_Cost_Sample
  imports Layer_Cost_Model Layer_Split_Inputs Dpu_Tiler_Laws Float_Exec
begin

text \<open>
  A concrete run of the layer cost model, evaluated in full: the sample convolution over two tiles, with every workload at 100 cycles and
  every transfer at 7. Both tiles take 100 cycles; their weights go over two channels at once, and input and output follow.
\<close>

declare collect_range.simps [code] dpu_multiples.simps [code]

definition sample_model :: "unit VPULayerCostModel" where
  "sample_model =
     \<lparr>internal_dpu_cost_provider = plain_cost (\<lambda>wl. 100), layer_dma_cost = (\<lambda>t u. (Inr 7, u)), maxWorkloadsPerIntraTileSplit = 1,
      legacy_tiling = True, layer_print_tags = False\<rparr>"

definition sample_layer_run :: "(CyclesInterfaceType \<times> LayerSplitInfo \<times> DPULayer) result \<times> unit" where
  "sample_layer_run = layer_cycles sample_model sample_layer SOH_Overlapped 1 2 True True False [] ()"

text \<open>The stages of the run, each evaluated by itself.\<close>

lemma sample_sanitised: "sanitize_preconditions (operation_sanitisation (on_workload swizzling_turn_OFF sample_layer)) = Inr sample_layer"
  by code_simp

lemma sample_complete:
  "check_completeLayer_consistency False sample_layer new_SanityReport (mapTilingStrategiesToWorkload SOH_Overlapped) 2 SOH_Overlapped =
     Inr new_SanityReport"
  by code_simp

definition sample_tiles :: "DPULayer list" where
  "sample_tiles = SOH_overlapped_inputs sample_layer 2 False"

lemma sample_tiles_split: "splitAcrossTiles sample_layer SOH_Overlapped 2 = Inr sample_tiles"
  by (simp add: splitAcrossTiles_def sample_tiles_def)

lemma sample_tiles_length: "length sample_tiles = 2"
  by code_simp

text \<open>The check of a tile, stage by stage.\<close>

definition split_config :: IDeviceValidValues where
  "split_config = projr (get_config SplitLayersContext VPU_4_0)"

definition tile_operation :: "nat \<Rightarrow> DPUOperation" where
  "tile_operation i = projr (DPUOperation_with (layer_workload (sample_tiles ! i)) split_config)"

definition tile_memory :: "nat \<Rightarrow> MemorySize" where
  "tile_memory i = projr (compute_memory ignore_cmx_overhead_default (tile_operation i) split_config)"

definition tile_behaviour :: Constraints where
  "tile_behaviour = projr (get_specific_behaviour split_config CONVOLUTION)"

lemma is_right: "\<not> isl r \<Longrightarrow> r = Inr (projr r)"
  by (cases r) auto

lemma tile_kinds:
  "map device sample_tiles = [VPU_4_0, VPU_4_0]" "map op sample_tiles = [CONVOLUTION, CONVOLUTION]"
  "list_all (\<lambda>t. is_valid_engine split_config (mpe_engine t)) sample_tiles"
  by code_simp+

lemma tile_rules:
  "is_supported SplitLayersContext VPU_4_0" "\<not> isl (get_config SplitLayersContext VPU_4_0)"
  "\<not> isl (get_specific_behaviour split_config CONVOLUTION)" "is_valid_operation split_config CONVOLUTION"
  by code_simp+

lemma tile_operations:
  "\<not> isl (DPUOperation_with (layer_workload (sample_tiles ! 0)) split_config)"
  "\<not> isl (DPUOperation_with (layer_workload (sample_tiles ! 1)) split_config)"
  by code_simp+

lemma tile_memories:
  "\<not> isl (compute_memory ignore_cmx_overhead_default (tile_operation 0) split_config)"
  "\<not> isl (compute_memory ignore_cmx_overhead_default (tile_operation 1) split_config)"
  "mem_cmx (tile_memory 0) \<le> get_cmx_size split_config VPU_4_0"
  "mem_cmx (tile_memory 1) \<le> get_cmx_size split_config VPU_4_0"
  by code_simp+

lemma tile_consistency:
  "check_workload_consistency False (tile_operation 0) split_config tile_behaviour new_SanityReport = new_SanityReport"
  "check_workload_consistency False (tile_operation 1) split_config tile_behaviour new_SanityReport = new_SanityReport"
  by code_simp+

lemma split_layer_accepted:
  assumes "is_supported SplitLayersContext (device l)" "get_config SplitLayersContext (device l) = Inr config"
    "is_valid_operation config (op l)" "is_valid_engine config (mpe_engine l)"
    "DPUOperation_with (layer_workload l) config = Inr w" "compute_memory ignore_cmx_overhead_default w config = Inr memory"
    "mem_cmx memory \<le> get_cmx_size config (device l)" "get_specific_behaviour config (op l) = Inr b"
    "check_workload_consistency tags w config b new_SanityReport = new_SanityReport"
  shows "check_splitLayer_consistency tags l new_SanityReport = Inr new_SanityReport"
  using assms by (simp add: check_splitLayer_consistency_def catch_runtime_error_def resetOK_def new_SanityReport_def
      layer_workload_def DPUWorkload.truncate_def not_less)

lemma sample_tiles_two: "sample_tiles = [sample_tiles ! 0, sample_tiles ! 1]"
  by (rule nth_equalityI) (auto simp: sample_tiles_length less_2_cases_iff)

lemma sample_tile_valid:
  assumes "i < 2"
  shows "check_splitLayer_consistency False (sample_tiles ! i) new_SanityReport = Inr new_SanityReport"
proof (rule split_layer_accepted)
  have i: "i = 0 \<or> i = 1" "i < length sample_tiles" using assms sample_tiles_length by auto
  have k: "device (sample_tiles ! i) = VPU_4_0" "op (sample_tiles ! i) = CONVOLUTION"
    using i arg_cong [OF tile_kinds(1), of "\<lambda>xs. xs ! i"] arg_cong [OF tile_kinds(2), of "\<lambda>xs. xs ! i"] by auto
  show "is_supported SplitLayersContext (device (sample_tiles ! i))" using tile_rules(1) k by simp
  show "get_config SplitLayersContext (device (sample_tiles ! i)) = Inr split_config"
    using is_right [OF tile_rules(2)] k by (simp add: split_config_def)
  show "is_valid_operation split_config (op (sample_tiles ! i))" using tile_rules(4) k by simp
  show "is_valid_engine split_config (mpe_engine (sample_tiles ! i))" using tile_kinds(3) i(2) by (simp add: list_all_length)
  show "DPUOperation_with (layer_workload (sample_tiles ! i)) split_config = Inr (tile_operation i)"
    unfolding tile_operation_def using i(1) tile_operations by (auto intro: is_right)
  show "compute_memory ignore_cmx_overhead_default (tile_operation i) split_config = Inr (tile_memory i)"
    unfolding tile_memory_def using i(1) tile_memories(1,2) by (auto intro: is_right)
  show "mem_cmx (tile_memory i) \<le> get_cmx_size split_config (device (sample_tiles ! i))" using i(1) tile_memories(3,4) k by auto
  show "get_specific_behaviour split_config (op (sample_tiles ! i)) = Inr tile_behaviour"
    using is_right [OF tile_rules(3)] k by (simp add: tile_behaviour_def)
  show "check_workload_consistency False (tile_operation i) split_config tile_behaviour new_SanityReport = new_SanityReport"
    using i(1) tile_consistency by auto
qed

lemma usable_new: "is_usable new_SanityReport"
  by (simp add: is_usable_def new_SanityReport_def)

lemma sample_tiles_valid: "validate_split False sample_tiles = Inr new_SanityReport"
  using sample_tile_valid [of 0] sample_tile_valid [of 1] usable_new by (subst sample_tiles_two) (simp add: validate_split_def)

section \<open>The cost\<close>

definition sample_search :: "LayerSplitInfo result \<times> unit" where
  "sample_search = for_each (tile_info sample_model (tiles_options sample_model 1)) sample_tiles ()"

definition sample_details :: LayerSplitInfo where
  "sample_details = (case fst sample_search of Inr details \<Rightarrow> details | Inl e \<Rightarrow> [])"

lemma sample_costs: "tiles_cost_of sample_details = [100, 100]"
  by code_simp

definition sample_transfers :: "(CyclesInterfaceType \<times> LayerSplitInfo) result \<times> unit" where
  "sample_transfers = layer_transfers sample_model sample_layer sample_tiles True True False (100, sample_details) ()"

lemma sample_transfers_cost: "case fst sample_transfers of Inr (c, details) \<Rightarrow> c = 121 | Inl e \<Rightarrow> False"
  by code_simp

lemma sample_layer_result: "\<exists>details. sample_layer_run = (Inr (121, details, sample_layer), ())"
proof -
  have d: "for_each (tile_info sample_model (tiles_options sample_model 1)) sample_tiles () = (Inr sample_details, ())"
    using sample_costs unfolding sample_details_def sample_search_def
    by (cases "for_each (tile_info sample_model (tiles_options sample_model 1)) sample_tiles ()")
      (auto simp: tiles_cost_of_def split: sum.splits)
  have e: "extractLargestTime (tiles_cost_of sample_details) = 100" unfolding sample_costs by code_simp
  obtain details where "fst sample_transfers = Inr (121, details)" using sample_transfers_cost by (auto split: sum.splits)
  then have t: "sample_transfers = (Inr (121, details), ())" by (simp add: prod_eq_iff)
  have "split_layer_cycles sample_model sample_layer SOH_Overlapped 1 2 True True False () = (Inr (121, details), ())"
    using t unfolding split_layer_cycles_def sample_tiles_split run_then_simps sample_transfers_def
    by (simp add: sample_model_def [THEN arg_cong, of layer_print_tags] sample_tiles_valid usable_new d e)
  then show ?thesis
    unfolding sample_layer_run_def layer_cycles_def Let_def sample_sanitised run_then_simps
    by (simp add: sample_model_def [THEN arg_cong, of layer_print_tags] sample_complete usable_new)
qed

end
