(* ===== verification/Layer_Cost_Props.thy ===== *)
theory Layer_Cost_Props
  imports Layer_Cost_Laws Layer_Cost_Sample
begin

text \<open>
  The properties of the cost of a layer: its parts, the workloads behind it, its errors, and its independence of the past, which makes a
  batch the same as its layers one by one. The contract that the last needs of both models below, for workloads and for transfers, is the
  locale \<open>repeatable_layer\<close>, which extends \<open>repeatable_cost\<close>; the models of the program are an interpretation of it.
\<close>

section \<open>The parts of the cost\<close>



section \<open>The workloads behind the cost\<close>

lemma resized_dim_le: "t \<in> set ts \<Longrightarrow> sum_list (map (out_dim d) ts) = n \<Longrightarrow> out_dim d t \<le> n"
  using member_le_sum_list [of "out_dim d t" "map (out_dim d) ts"] by simp

lemma plain_tile:
  assumes "kept l t" "outputs_0 t = resized d (outputs_0 l) v" "unat v \<le> out_dim d l" "d \<noteq> Act_B" "plain_layer l"
  shows "plain_layer t"
  using assms by (cases d) (auto simp: plain_layer_def kept_def resized_def set_shape_def mk_shape_def tx_def ty_def tz_def tb_def out_dim_def)



section \<open>The past does not matter\<close>

definition plain_transfers :: "(DMATransfer1D \<Rightarrow> CyclesInterfaceType result) \<Rightarrow> unit dma_cost" where
  "plain_transfers dcost t u = (dcost t, u)"

definition plain_model ::
  "(DPUWorkload \<Rightarrow> CyclesInterfaceType) \<Rightarrow> (DMATransfer1D \<Rightarrow> CyclesInterfaceType result) \<Rightarrow> 's VPULayerCostModel \<Rightarrow> unit VPULayerCostModel" where
  "plain_model cost dcost m =
     \<lparr>internal_dpu_cost_provider = plain_cost cost, layer_dma_cost = plain_transfers dcost,
      maxWorkloadsPerIntraTileSplit = maxWorkloadsPerIntraTileSplit m, legacy_tiling = legacy_tiling m, layer_print_tags = layer_print_tags m\<rparr>"

lemma for_each_agrees:
  assumes "\<And>x s u. x \<in> set xs \<Longrightarrow> okst s \<Longrightarrow> agrees okst (f x s) (g x u)" "okst st"
  shows "agrees okst (for_each f xs st) (for_each g xs u)"
  using assms
proof (induction xs arbitrary: st u)
  case (Cons x xs)
  then show ?case by (auto intro!: agrees_run_then agrees_return)
qed (simp add: agrees_return)

locale repeatable_layer = repeatable_cost dpu cost ok okst
  for dpu :: "'s dpu_cost" and cost and ok and okst +
  fixes dma :: "'s dma_cost" and dcost :: "DMATransfer1D \<Rightarrow> CyclesInterfaceType result" and m :: "'s VPULayerCostModel"
  assumes dma_answers: "okst st \<Longrightarrow> \<exists>st'. dma t st = (dcost t, st') \<and> okst st'"
    and models: "internal_dpu_cost_provider m = dpu" "layer_dma_cost m = dma"
begin

lemma dma_agrees: "okst st \<Longrightarrow> agrees okst (layer_dma_cost m t st) (layer_dma_cost (plain_model cost dcost m) t u)"
  using dma_answers [of st t] by (auto simp: models plain_model_def plain_transfers_def agrees_def)

lemma tile_info_agrees:
  assumes "\<forall>w. of_layer t w \<longrightarrow> ok w" "okst st"
  shows "agrees okst (tile_info m options t st) (tile_info (plain_model cost dcost m) options t u)"
proof -
  note a = intraTileSplit_agrees [OF assms, where legacy = "legacy_tiling m" and late = "\<lambda>_. False" and options = options and u = u]
  show ?thesis
    using a unfolding tile_info_def models plain_model_def
    by (auto simp: agrees_def split: prod.splits sum.splits)
qed

lemma weights_agree:
  assumes "okst st"
  shows "agrees okst (OneTileWeightsPrefetching m t st) (OneTileWeightsPrefetching (plain_model cost dcost m) t u)"
  unfolding OneTileWeightsPrefetching_def Let_def
  by (intro agrees_run_then agrees_return assms dma_agrees)

lemma transfers_agree:
  assumes "okst st"
  shows "agrees okst (layer_transfers m l ts i out p cd st) (layer_transfers (plain_model cost dcost m) l ts i out p cd u)"
  unfolding layer_transfers_def add_weights_def add_tensor_def tensor_transfer_def
  by (cases cd) (auto intro!: agrees_run_then agrees_return assms dma_agrees for_each_agrees weights_agree)

lemma split_layer_agrees:
  assumes "\<forall>w. of_layer l w \<longrightarrow> ok w" "okst st"
  shows "agrees okst (split_layer_cycles m l strategy n nTiles i out p st)
    (split_layer_cycles (plain_model cost dcost m) l strategy n nTiles i out p u)"
proof -
  have tile: "\<forall>w. of_layer t w \<longrightarrow> ok w" if "splitAcrossTiles l strategy nTiles = Inr ts" "t \<in> set ts" for ts t
    using split_kept [OF that] assms(1) by (simp add: kept_def of_layer_def)
  have same: "layer_print_tags (plain_model cost dcost m) = layer_print_tags m" "tiles_options (plain_model cost dcost m) n = tiles_options m n"
    by (simp_all add: plain_model_def tiles_options_def)
  show ?thesis
    unfolding split_layer_cycles_def same
    by (auto intro!: agrees_run_then agrees_return assms(2) for_each_agrees tile_info_agrees transfers_agree) (use tile in blast)
qed

lemma layer_agrees:
  assumes "\<forall>w. of_layer layer w \<longrightarrow> ok w" "okst st"
  shows "agrees okst (layer_cycles m layer strategy n nTiles i out p ds st)
    (layer_cycles (plain_model cost dcost m) layer strategy n nTiles i out p ds u)"
proof -
  have ok: "\<forall>w. of_layer l w \<longrightarrow> ok w"
    if "sanitize_preconditions (operation_sanitisation (on_workload swizzling_turn_OFF layer)) = Inr l" for l
    using sanitised_layer(1) [OF that] assms(1) by (simp add: kept_def of_layer_def)
  have same: "layer_print_tags (plain_model cost dcost m) = layer_print_tags m" by (simp add: plain_model_def)
  show ?thesis
    unfolding layer_cycles_def same Let_def
    by (auto intro!: agrees_run_then agrees_return assms(2) split_layer_agrees ok)
qed

lemma element_agrees:
  assumes "\<forall>w. of_layer (batch_layer e) w \<longrightarrow> ok w" "okst st"
  shows "agrees okst (batch_element m e st) (batch_element (plain_model cost dcost m) e u)"
proof -
  let ?s = "batch_strategy e"
  note a = layer_agrees [OF assms, where strategy = "tiling_strategy ?s" and n = "nDPUs ?s" and nTiles = "ls_nTiles ?s"
      and i = "input_fetching ?s" and out = "output_spilling ?s" and p = "prefetching ?s" and ds = "batch_detailed_split e" and u = u]
  then show ?thesis
    unfolding batch_element_def Layer_def by (auto simp: agrees_def split: prod.splits sum.splits)
qed

text \<open>A batch is its elements one by one, each from the state at the begin.\<close>

lemma batch_agrees:
  assumes "\<forall>e \<in> set es. \<forall>w. of_layer (batch_layer e) w \<longrightarrow> ok w" "okst st"
  shows "agrees okst (for_each (batch_element m) es st) (for_each (batch_element (plain_model cost dcost m)) es u)"
  by (rule for_each_agrees) (use assms element_agrees in auto)

lemma element_alone:
  assumes "\<forall>w. of_layer (batch_layer e) w \<longrightarrow> ok w" "okst st"
  shows "fst (batch_element m e st) = fst (batch_element (plain_model cost dcost m) e u)"
  using element_agrees [OF assms] by (simp add: agrees_def)

end

section \<open>The models of the program\<close>

text \<open>
  The layer cost model over the cost model for workloads and the transfer cost model, each with its own caches. The part of the contract
  about transfers holds when there is no network for them, so that the theoretical cost answers.
\<close>

definition program_dpu :: "CostModel \<Rightarrow> (ActiveCache \<times> DmaModelsState) dpu_cost" where
  "program_dpu cm wl st = (case model_dpu cm wl (fst st) of (c, active) \<Rightarrow> (c, (active, snd st)))"

definition program_dma :: "bool \<Rightarrow> DMACostModelVariant \<Rightarrow> (ActiveCache \<times> DmaModelsState) dma_cost" where
  "program_dma strided v t st = (case compute_dma_cycles strided v t (snd st) of (c, dma_st) \<Rightarrow> (c, (fst st, dma_st)))"

definition program_model :: "CostModel \<Rightarrow> bool \<Rightarrow> DMACostModelVariant \<Rightarrow> u32 \<Rightarrow> bool \<Rightarrow> (ActiveCache \<times> DmaModelsState) VPULayerCostModel" where
  "program_model cm strided v max_wls legacy =
     \<lparr>internal_dpu_cost_provider = program_dpu cm, layer_dma_cost = program_dma strided v, maxWorkloadsPerIntraTileSplit = max_wls,
      legacy_tiling = legacy, layer_print_tags = print_tags cm\<rparr>"

definition program_good ::
  "CostModel \<Rightarrow> (DPUWorkload \<Rightarrow> real) \<Rightarrow> ActiveCache \<Rightarrow> DMACostModelVariant \<Rightarrow> ActiveCache \<times> DmaModelsState \<Rightarrow> bool" where
  "program_good cm p st0 v st \<longleftrightarrow> model_good cm p st0 (fst st) \<and> \<not> is_dma_model_variant v"

interpretation program: repeatable_layer "program_dpu cm" "model_cost cm p st0" "\<lambda>wl. cost_source_hint wl = AUTO" "program_good cm p st0 v"
  "program_dma strided v" "dma_theoretical_fallback strided" "program_model cm strided v max_wls legacy"
  for cm p st0 v strided max_wls legacy
proof unfold_locales
  fix st and wl :: DPUWorkload assume "program_good cm p st0 v st" "cost_source_hint wl = AUTO"
  then show "\<exists>st'. program_dpu cm wl st = (Inr (model_cost cm p st0 wl), st') \<and> program_good cm p st0 v st'"
    using model.dpu_answers [of cm p st0 "fst st" wl] by (auto simp: program_good_def program_dpu_def)
qed (auto simp: program_good_def program_dma_def compute_dma_cycles_def program_model_def)

lemma for_each_plain:
  "case fst (for_each f xs ()) of
     Inr ys \<Rightarrow> map (\<lambda>x. fst (f x ())) xs = map Inr ys
   | Inl e \<Rightarrow> \<exists>x \<in> set xs. fst (f x ()) = Inl e"
proof (induction xs)
  case (Cons x xs)
  show ?case
  proof (cases "fst (f x ())")
    case (Inl e)
    then show ?thesis by (cases "f x ()") auto
  next
    case (Inr y)
    then show ?thesis
      using Cons.IH by (cases "f x ()"; cases "for_each f xs ()"; cases "fst (for_each f xs ())") auto
  qed
qed simp

definition cost_alone :: "'s VPULayerCostModel \<Rightarrow> 's \<Rightarrow> LayerBatchElementInfo \<Rightarrow> CyclesInterfaceType" where
  "cost_alone m st e =
     (case fst (Layer m (batch_layer e) (batch_strategy e) (batch_detailed_split e) st) of
        Inr (c, _) \<Rightarrow> c
      | Inl _ \<Rightarrow> ERROR_TILE_SPLIT_EXCEPTION)"

lemma cost_alone_element: "fst (batch_element m e st) = Inr r \<Longrightarrow> cost_alone m st e = fst r"
  by (auto simp: batch_element_def cost_alone_def split: prod.splits sum.splits if_splits)

lemma element_fails:
  "fst (batch_element m e st) = Inl x \<Longrightarrow>
   \<not> caught x \<and> fst (Layer m (batch_layer e) (batch_strategy e) (batch_detailed_split e) st) = Inl x"
  by (auto simp: batch_element_def split: prod.splits sum.splits if_splits)


definition sample_batch :: "LayerBatchElementInfo list" where
  "sample_batch =
     (let s = \<lparr>nDPUs = 1, nSHVs = 0, ls_nTiles = 2, tiling_strategy = SOH_Overlapped, input_fetching = True, output_spilling = True,
            prefetching = False\<rparr>;
          e = \<lparr>batch_layer = sample_layer, batch_strategy = s, batch_detailed_split = []\<rparr>
      in [e\<lparr>batch_strategy := s\<lparr>ls_nTiles := 0\<rparr>\<rparr>,
          e\<lparr>batch_layer := sample_layer\<lparr>device := VPUDevice.enum_size\<rparr>\<rparr>,
          e\<lparr>batch_strategy := s\<lparr>tiling_strategy := VPUTilingStrategy.enum_size\<rparr>\<rparr>])"

lemma unknown_device:
  "case sanitize_preconditions (operation_sanitisation (on_workload swizzling_turn_OFF (sample_layer\<lparr>device := VPUDevice.enum_size\<rparr>))) of
     Inl _ \<Rightarrow> False
   | Inr l \<Rightarrow>
       (case check_completeLayer_consistency False l new_SanityReport (mapTilingStrategiesToWorkload SOH_Overlapped) 2 SOH_Overlapped of
          Inl _ \<Rightarrow> False | Inr rep \<Rightarrow> \<not> is_usable rep \<and> report_value rep = ERROR_INVALID_INPUT_DEVICE)"
  by code_simp

lemma unknown_strategy:
  "case check_completeLayer_consistency False sample_layer new_SanityReport
       (mapTilingStrategiesToWorkload VPUTilingStrategy.enum_size) 2 VPUTilingStrategy.enum_size of
     Inl _ \<Rightarrow> False | Inr rep \<Rightarrow> is_usable rep"
  "case splitAcrossTiles sample_layer VPUTilingStrategy.enum_size 2 of Inl e \<Rightarrow> caught e | Inr _ \<Rightarrow> False"
  by code_simp+

lemma sample_batch_layers:
  assumes "layer_print_tags m = False"
  shows "e \<in> set sample_batch \<Longrightarrow> fst (Layer m (batch_layer e) (batch_strategy e) (batch_detailed_split e) st) = Inl x \<Longrightarrow> caught x"
    "map (cost_alone m st) sample_batch = [ERROR_L2_INVALID_PARAMETERS, ERROR_INVALID_INPUT_DEVICE, ERROR_TILE_SPLIT_EXCEPTION]"
  using assms unknown_device unknown_strategy sample_sanitised
  by (auto simp: sample_batch_def Let_def cost_alone_def Layer_def layer_cycles_def split_layer_cycles_def split: sum.splits)


end
