(* ===== verification/Spec2Isabelle.thy ===== *)
theory Spec2Isabelle
  imports Cycles Dtype_Info Smart_Ranges Workload_Keys Layer_Split_Inputs Lru_Cache Tile_Memory Dpu_Cost_Laws Tile_Optimum Dma_Round_Trip Dma_Nn_Laws Layer_Cost_Props
begin

text \<open>
  Verification of VPUNN, a cost model for the neural processing units of Intel. The program estimates how many cycles a
  piece of work takes on a device. A compiler describes the work as a DPU workload (one operation on one engine) or as a
  layer (one operation on the whole chip). A layer is split over tiles by a strategy, every tile is validated and cut into
  workloads, every workload is validated, sanitised, looked up in a cache and, if it is not there, given to a neural network;
  the costs of the workloads are then combined with a list schedule. Costs are 32-bit counts whose top values are error codes.

  The development follows that path from the bottom up. All sources are named below \<^verbatim>\<open>src/\<close>.

  \<^bold>\<open>Foundations.\<close>
  \<^item> \<open>Npu_Prelude\<close>: machine integers (\<open>u32\<close>, conversions that wrap), the exceptions of the code as a datatype, the
    result type \<open>cpp_error + 'a\<close>, arithmetic lemmas (\<open>u32_nowrap\<close>).
  \<^item> \<open>Cycles\<close> (\<^verbatim>\<open>include/vpu/cycles_interface_types.h\<close>): error codes, \<open>cost_adder\<close>, conversions, ratios.
  \<^item> \<open>Enum_Text\<close>, \<open>Dpu_Types\<close> (\<^verbatim>\<open>dpu_types.h\<close>, \<^verbatim>\<open>dim_enum.h\<close>, \<^verbatim>\<open>dpu_types_info.h\<close>): enumerations and their text maps.
  \<^item> \<open>Dtype_Info\<close> (\<^verbatim>\<open>dpu_dtypes_dimension_info.h\<close>, \<^verbatim>\<open>dpu_dtypes_category_info.h\<close>, \<^verbatim>\<open>datatype_collection_size.h\<close>).
  \<^item> \<open>Vpu_Utils\<close> (\<^verbatim>\<open>utils.h\<close>): list scheduling over processors (a priority queue as a sorted list), rounding, the
    input dimension of an output dimension.
  \<^item> \<open>Smart_Ranges\<close> (\<^verbatim>\<open>ranges.h\<close>): ranges of allowed values, their iterator, choices of ranges under a mask.
  \<^item> \<open>Float_Single\<close>: single precision numbers as reals with explicit rounding, and their decimal texts.

  \<^bold>\<open>Data.\<close>
  \<^item> \<open>Tensor\<close> (\<^verbatim>\<open>vpu_tensor.h\<close>): shapes, memory in the packing modes, equality and order.
  \<^item> \<open>Workload\<close>, \<open>Workload_Keys\<close> (\<^verbatim>\<open>dpu_workload.h\<close>, \<^verbatim>\<open>dpu_halo.h\<close>, \<^verbatim>\<open>sep_mode.h\<close>, \<^verbatim>\<open>src/vpu/dpu_workload.cpp\<close>): the workload with
    its halo and storage elements, and the three keys caches use: equality, order (locale \<open>comparator\<close> of
    \<open>Comparators\<close>) and the hash of \<open>Fnv_Hash\<close> (\<^verbatim>\<open>core/primitive_hash.h\<close>, \<^verbatim>\<open>core/utils.h\<close>).
  \<^item> \<open>Layer_Split\<close>, \<open>Layer_Split_Laws\<close>, \<open>Layer_Split_Inputs\<close> (\<^verbatim>\<open>layer.h\<close>, \<^verbatim>\<open>vpu_tiling_strategy.h\<close>): a layer and its split over tiles;
    the abstract specification of a split is \<open>nat_slices\<close>, cutting a number into positive parts.

  \<^bold>\<open>Caches.\<close>
  \<^item> \<open>Fixed_Cache\<close> (\<^verbatim>\<open>core/utils.h\<close>, \<^verbatim>\<open>core/persistent_cache.h\<close>): the preloaded cache and its counters.
  \<^item> \<open>Lru_Cache\<close> (\<^verbatim>\<open>core/cache.h\<close>): the least-recently-used cache as a doubly linked list in an explicit store plus a hash map
    of iterators; the refinement maps it to a list of pairs; the lock-protected steps of concurrent callers are an inductive
    step relation.

  \<^bold>\<open>Validation\<close> (\<^verbatim>\<open>include/vpu/validation/\<close>).
  \<^item> \<open>Dpu_Operation\<close> (\<^verbatim>\<open>data_dpu_operation.h/.cpp\<close>), \<open>Checker\<close> (\<^verbatim>\<open>checker_utils.h\<close>, \<^verbatim>\<open>sanity_report.h\<close>).
  \<^item> \<open>Valid_Values\<close> (\<^verbatim>\<open>interface_valid_values.h\<close>, \<^verbatim>\<open>behaviors_and_devices_containers.h\<close>), \<open>Device_Rules\<close> (\<^verbatim>\<open>device_valid_values*.h\<close>): what each
    device allows, as records of tables; a lookup that the code does with \<^verbatim>\<open>at\<close> is \<open>map_at\<close> and may fail.
  \<^item> \<open>Op_Behaviour\<close> (\<^verbatim>\<open>dpu_operations_valid_behaviours.h\<close>, \<^verbatim>\<open>layer_operations_valid_behaviours.h\<close>): one datatype for the classes of
    operations, one function per virtual method.
  \<^item> \<open>Memory_Calculator\<close>, \<open>Dpu_Validator\<close>, \<open>Dpu_Sanitizer\<close>, \<open>Layer_Validator\<close>: the checks and the entry points.
  \<^item> \<open>Validation_Laws\<close>, \<open>Validation_Spec\<close>, \<open>Validation_Props\<close>: the specification \<open>valid_dpu_operation\<close> without texts and exceptions, the
    theorem that the checks decide it, the verdicts of the entry points.
  \<^item> \<open>Tile_Memory\<close>: the composition of the split with the memory the validation computes for a tile.

  \<^bold>\<open>Cost of a workload.\<close>
  \<^item> \<open>Hw_Characteristics\<close> (\<^verbatim>\<open>include/vpu/hw_characteristics/\<close>, \<^verbatim>\<open>performance.h\<close>, \<^verbatim>\<open>src/vpu/vpu_performance_model.cpp\<close>): the tables of the
    devices and the operations and ideal cycles of a workload.
  \<^item> \<open>Dpu_Theoretical\<close> (\<^verbatim>\<open>dpu_theoretical_cost_provider.h\<close>): the theoretical cycles; the padding loops may not end, then the value is
    \<open>None\<close>.
  \<^item> \<open>Post_Processing\<close> (\<^verbatim>\<open>include/inference/post*.h\<close>), \<open>Model_Version\<close> (\<^verbatim>\<open>model_version.h\<close>): what is done with the output of a network.
  \<^item> \<open>Nn_Cost_Provider\<close> (\<^verbatim>\<open>nn_cost_provider.h\<close>, \<^verbatim>\<open>nn_cost_cache_manager.h\<close>): inference through the cache; the trained network is the
    record \<open>NNModel\<close>, an argument. \<open>Nn_Provider_Laws\<close>: the cache is invisible (\<open>coherent\<close>), batching is exact.
  \<^item> \<open>Dpu_Cost_Model\<close> (\<^verbatim>\<open>src/vpu_cost_model.cpp\<close>): sanitisation, the choice of a provider, double sparsity, vectors of workloads.
    \<open>Dpu_Cost_Laws\<close>: every accepted workload has a cost, and the automatic choice does not depend on the history.

  \<^bold>\<open>The best split of a layer on a tile\<close> (\<^verbatim>\<open>src/optimization/\<close>, \<^verbatim>\<open>include/vpu/optimization/\<close>).
  \<^item> \<open>Layer_Properties\<close> (\<^verbatim>\<open>include/vpu/device_layer_properties/\<close>): strategies and execution modes of the devices.
  \<^item> \<open>Dimension_Tiler\<close>: balanced division of a dimension. \<open>Efficiency_Splitter\<close>: the dynamic programme over measured blocks, on
    doubles (\<open>Float_Double\<close>); \<open>Efficiency_Laws\<close>: it decides whether a decomposition exists and finds the best.
  \<^item> \<open>Tiling_Primitives\<close>, \<open>Intra_Tile\<close>: the tilers over height, width and channels, the class hierarchy as a datatype.
    \<open>Intra_Tile_Laws\<close>: every split is a tiling (\<open>tiles_exactly\<close>). \<open>Split_Pools\<close>: the numbers of workloads that are tried.
  \<^item> \<open>Dpu_Tiler\<close>: the evaluation of the splits and the choice. The cost of a workload is an argument that takes and returns the state of
    the cost model; the locale \<open>repeatable_cost\<close> (\<open>Dpu_Tiler_Laws\<close>) is what the search needs of it, and \<open>Tile_Optimum\<close> interprets it
    on the cost model: the search returns, its result is least, a tiling, and independent of the history.

  \<^bold>\<open>Conventions.\<close> A C++ struct is a record, an enumeration a datatype (the terminator \<^verbatim>\<open>__size\<close> included where a value of it is
  possible), an exception the left side of a sum. Unsigned 32-bit arithmetic wraps; \<open>int\<close> and \<open>long long\<close> are \<open>int\<close>, with the
  absence of overflow in the hypotheses where it matters. A \<open>float\<close> is a real; rounding is written out in \<open>Float_Single\<close> and \<open>Float_Double\<close>,
  infinities and NaN are left out. Loops are structural recursions or \<open>function\<close>s with a measure; no fuel is used except
  where a theory says so.

  \<^bold>\<open>Transfers.\<close> The DMA engines move tensors between the memories. \<open>Dma_Types\<close> (\<^verbatim>\<open>include/vpu/dma_types.h\<close>,
  \<^verbatim>\<open>vpu/dma_workload.cpp\<close>) holds the workloads and the keys of their caches; \<open>Dma_Descriptors\<close> (\<^verbatim>\<open>dma_descriptors.h\<close>) the
  description a compiler gives, and its check; \<open>Dma_Transform\<close> (\<^verbatim>\<open>dma_workload.h\<close>, \<^verbatim>\<open>dma_descriptor_transformers.h\<close>) the conversions
  between them; \<open>Dma_Theoretical\<close> and \<open>Dma_Strided\<close> (\<^verbatim>\<open>dma_cost_providers/\<close>) the two analytical models of the cost.
  \<open>Dma_Laws\<close> and \<open>Dma_Round_Trip\<close> show that the conversions keep the numbers from which the cost is computed: a descriptor costs what
  the strided workload made of it costs, and a workload turned into a descriptor and back is the same.

  \<^bold>\<open>Transfers by a network.\<close> \<open>Nn_Descriptor\<close> (\<^verbatim>\<open>include/inference/dma_preprocessing_inserter*.h\<close>) is how the input of a network is
  written, an insertion after the other into a vector of fixed size; \<open>Dma_Nn\<close> (\<^verbatim>\<open>compatibility/dma_types_01x.h\<close>,
  \<^verbatim>\<open>dma_cost_providers/dmann_cost_provider.h\<close>, \<^verbatim>\<open>inference/dma_*.h\<close>) the three descriptors of a transfer, what is done with the output,
  and the provider with its cache; the network itself is the field \<open>dma_predict\<close>. \<open>Dma_Cost_Model\<close> (\<^verbatim>\<open>src/vpu_dma_cost_model.cpp\<close>) is the cost
  model over a list of providers in order of priority. \<open>Dma_Nn_Laws\<close>: a descriptor determines the transfer below 24 bits, and a cost once
  given is given again from the cache.

  \<^bold>\<open>Cost of a layer\<close> (\<^verbatim>\<open>src/vpu_layer_cost_model.cpp\<close>). \<open>Layer_Cost_Model\<close> puts the parts together: a layer is sanitised, checked, split over the
  tiles, each tile is checked and searched for its best split, the slowest tile counts, and the transfers of weights, input and output are
  added. The two cost models below are functions over one state, the record \<open>VPULayerCostModel\<close>. \<open>Layer_Cost_Laws\<close> takes a run
  apart; \<open>Layer_Cost_Props\<close> has the properties: the cost is the sum of its parts, the workloads behind it cover the output, and a batch
  costs what its layers cost one by one. The last is proved in the locale \<open>repeatable_layer\<close>, which extends \<open>repeatable_cost\<close> with the
  contract for transfers, and is interpreted on the models of the program. \<open>Layer_Cost_Sample\<close> evaluates a complete layer, with the
  executable equations for the rounding of \<open>Float_Exec\<close>.

  \<^bold>\<open>Not modelled.\<close> Streams, files, logging, the CSV and the flatbuffers of the caches and networks, the HTTP client and the Python bindings are
  input and output. The trained networks are outside the source and are arguments. Of the descriptors only those of transfers are
  modelled: those of workloads are the argument \<open>nn_transform\<close>. SHAVE operations and layers of them, and the energy of a workload, are
  left out. The random samplers of the operation behaviours serve training only.
\<close>

end
